(* ===== verification/Prelude.thy ===== *)
theory Prelude
  imports Main "HOL-Library.Word" "HOL-Library.AList" "HOL-Library.Char_ord" "HOL-Library.List_Lexorder"
begin

text \<open>
  Shared vocabulary of the development: Python exceptions as values, the sequencing of fallible
  steps, strings, UUIDs, timestamps and dictionaries, with the lemmas the components share.

  \<^item> A Python function that may raise returns \<open>'a result\<close>: \<open>Inl e\<close> is the exception \<open>e\<close>.
  \<^item> Strings are lists of characters; a character stands for a code point below 256.
  \<^item> A \<open>UUID\<close> is its 128-bit value; \<open>str_uuid\<close> is \<open>str(uuid)\<close>.
  \<^item> A \<open>datetime\<close> is naive or aware; its instant is counted in microseconds since the epoch.
  \<^item> A \<open>dict\<close> is an association list in insertion order: \<open>AList.update\<close> overwrites in place
    or appends, as \<open>d[k] = v\<close> does, and \<open>map_of\<close> is the lookup.
\<close>

unbundle bit_operations_syntax

named_theorems result_simps \<open>rewriting of sequenced fallible steps\<close>
named_theorems table_simps \<open>lookup after update in the tables of a store\<close>

subsection \<open>Exceptions and sequencing\<close>

datatype error =
    ValueError string
  | InvalidStateTransition string
  | EvidenceAdmissionRejected string
  | ManifestError string
  | PermissionError string
  | TenantBoundaryViolation string
  | LookupError string
  | RecordNotFound string
  | KeyError string
  | RuntimeError string
  | ConcurrencyConflict string
  | TypeError string
  | AssertionError string
  | TimeoutError string
  | OtherError string string

text \<open>The subclass tests that \<open>except\<close> clauses of the code perform.\<close>

fun is_ValueError :: "error \<Rightarrow> bool" where
  "is_ValueError (ValueError _) = True"
| "is_ValueError (InvalidStateTransition _) = True"
| "is_ValueError (EvidenceAdmissionRejected _) = True"
| "is_ValueError (ManifestError _) = True"
| "is_ValueError _ = False"

fun is_PermissionError :: "error \<Rightarrow> bool" where
  "is_PermissionError (PermissionError _) = True"
| "is_PermissionError (TenantBoundaryViolation _) = True"
| "is_PermissionError _ = False"

fun is_LookupError :: "error \<Rightarrow> bool" where
  "is_LookupError (LookupError _) = True"
| "is_LookupError (RecordNotFound _) = True"
| "is_LookupError (KeyError _) = True"
| "is_LookupError _ = False"

text \<open>\<open>type(exc).__name__\<close>.\<close>

fun error_name :: "error \<Rightarrow> string" where
  "error_name (ValueError _) = ''ValueError''"
| "error_name (InvalidStateTransition _) = ''InvalidStateTransition''"
| "error_name (EvidenceAdmissionRejected _) = ''EvidenceAdmissionRejected''"
| "error_name (ManifestError _) = ''ManifestError''"
| "error_name (PermissionError _) = ''PermissionError''"
| "error_name (TenantBoundaryViolation _) = ''TenantBoundaryViolation''"
| "error_name (LookupError _) = ''LookupError''"
| "error_name (RecordNotFound _) = ''RecordNotFound''"
| "error_name (KeyError _) = ''KeyError''"
| "error_name (RuntimeError _) = ''RuntimeError''"
| "error_name (ConcurrencyConflict _) = ''ConcurrencyConflict''"
| "error_name (TypeError _) = ''TypeError''"
| "error_name (AssertionError _) = ''AssertionError''"
| "error_name (TimeoutError _) = ''TimeoutError''"
| "error_name (OtherError n _) = n"

text \<open>\<open>str(exc)\<close>.\<close>

fun error_text :: "error \<Rightarrow> string" where
  "error_text (ValueError m) = m"
| "error_text (InvalidStateTransition m) = m"
| "error_text (EvidenceAdmissionRejected m) = m"
| "error_text (ManifestError m) = m"
| "error_text (PermissionError m) = m"
| "error_text (TenantBoundaryViolation m) = m"
| "error_text (LookupError m) = m"
| "error_text (RecordNotFound m) = m"
| "error_text (KeyError m) = m"
| "error_text (RuntimeError m) = m"
| "error_text (ConcurrencyConflict m) = m"
| "error_text (TypeError m) = m"
| "error_text (AssertionError m) = m"
| "error_text (TimeoutError m) = m"
| "error_text (OtherError _ m) = m"

type_synonym 'a result = "error + 'a"

definition bindE :: "'a result \<Rightarrow> ('a \<Rightarrow> 'b result) \<Rightarrow> 'b result" where
  "bindE m f = (case m of Inl e \<Rightarrow> Inl e | Inr x \<Rightarrow> f x)"

definition thenE :: "unit result \<Rightarrow> 'b result \<Rightarrow> 'b result" where
  "thenE m k = (case m of Inl e \<Rightarrow> Inl e | Inr _ \<Rightarrow> k)"

text \<open>\<open>if c: raise e\<close>.\<close>

definition raise_if :: "bool \<Rightarrow> error \<Rightarrow> unit result" where
  "raise_if c e = (if c then Inl e else Inr ())"

definition is_ok :: "'a result \<Rightarrow> bool" where
  "is_ok r = (case r of Inl _ \<Rightarrow> False | Inr _ \<Rightarrow> True)"

text \<open>A comprehension whose element expression may raise.\<close>

fun mapE :: "('a \<Rightarrow> 'b result) \<Rightarrow> 'a list \<Rightarrow> 'b list result" where
  "mapE f [] = Inr []"
| "mapE f (x # xs) = bindE (f x) (\<lambda>y. bindE (mapE f xs) (\<lambda>ys. Inr (y # ys)))"

text \<open>A \<open>for\<close> loop whose body only checks.\<close>

fun forE :: "('a \<Rightarrow> unit result) \<Rightarrow> 'a list \<Rightarrow> unit result" where
  "forE f [] = Inr ()"
| "forE f (x # xs) = thenE (f x) (forE f xs)"

lemma bindE_simps [simp]: "bindE (Inl e) f = Inl e" "bindE (Inr x) f = f x"
  by (simp_all add: bindE_def)

lemma thenE_simps [simp]: "thenE (Inl e) k = Inl e" "thenE (Inr u) k = k"
  by (simp_all add: thenE_def)

lemma bindE_Inr [result_simps]: "bindE m f = Inr y \<longleftrightarrow> (\<exists>x. m = Inr x \<and> f x = Inr y)"
  by (simp add: bindE_def split: sum.splits)

lemma bindE_Inl [result_simps]:
  "bindE m f = Inl e \<longleftrightarrow> m = Inl e \<or> (\<exists>x. m = Inr x \<and> f x = Inl e)"
  by (auto simp add: bindE_def split: sum.splits)

lemma thenE_Inr [result_simps]: "thenE m k = Inr y \<longleftrightarrow> m = Inr () \<and> k = Inr y"
  by (auto simp add: thenE_def split: sum.splits)

lemma thenE_Inl [result_simps]: "thenE m k = Inl e \<longleftrightarrow> m = Inl e \<or> (m = Inr () \<and> k = Inl e)"
  by (auto simp add: thenE_def split: sum.splits)

lemma is_ok_iff: "is_ok r \<longleftrightarrow> (\<exists>x. r = Inr x)"
  by (cases r) (auto simp: is_ok_def)

lemma is_ok_simps [simp]: "is_ok (Inr x)" "\<not> is_ok (Inl e)"
  by (simp_all add: is_ok_def)

lemma raise_if_Inr [simp]: "raise_if c e = Inr u \<longleftrightarrow> \<not> c"
  by (simp add: raise_if_def)

lemma raise_if_Inl [simp]: "raise_if c e = Inl e' \<longleftrightarrow> c \<and> e' = e"
  by (auto simp add: raise_if_def)

lemma raise_if_cases [simp]: "raise_if False e = Inr ()" "raise_if True e = Inl e"
  by (simp_all add: raise_if_def)

lemma bindE_cong [fundef_cong]:
  "m = m' \<Longrightarrow> (\<And>x. m' = Inr x \<Longrightarrow> f x = f' x) \<Longrightarrow> bindE m f = bindE m' f'"
  by (auto simp: bindE_def split: sum.splits)

lemma thenE_cong [fundef_cong]:
  "m = m' \<Longrightarrow> (m' = Inr () \<Longrightarrow> k = k') \<Longrightarrow> thenE m k = thenE m' k'"
  by (auto simp: thenE_def split: sum.splits)

lemma mapE_cong [fundef_cong]:
  "xs = ys \<Longrightarrow> (\<And>x. x \<in> set ys \<Longrightarrow> f x = g x) \<Longrightarrow> mapE f xs = mapE g ys"
  by (induction ys arbitrary: xs) auto

lemma forE_cong [fundef_cong]:
  "xs = ys \<Longrightarrow> (\<And>x. x \<in> set ys \<Longrightarrow> f x = g x) \<Longrightarrow> forE f xs = forE g ys"
  by (induction ys arbitrary: xs) auto

lemma forE_Inr [result_simps]: "forE f xs = Inr () \<longleftrightarrow> (\<forall>x\<in>set xs. f x = Inr ())"
  by (induction xs) (auto simp: result_simps)

lemma mapE_length: "mapE f xs = Inr ys \<Longrightarrow> length ys = length xs"
  by (induction xs arbitrary: ys) (auto simp: result_simps)

lemma mapE_nth: "mapE f xs = Inr ys \<Longrightarrow> i < length xs \<Longrightarrow> f (xs ! i) = Inr (ys ! i)"
proof (induction xs arbitrary: ys i)
  case (Cons x xs)
  then show ?case by (cases i) (auto simp: result_simps)
qed simp

lemma mapE_set: "mapE f xs = Inr ys \<Longrightarrow> y \<in> set ys \<Longrightarrow> \<exists>x\<in>set xs. f x = Inr y"
  by (induction xs arbitrary: ys) (auto simp: result_simps)

subsection \<open>Strings\<close>

definition code_point :: "char \<Rightarrow> nat" where
  "code_point c = of_char c"

text \<open>\<open>str.isspace\<close> on code points below 256.\<close>

definition py_isspace :: "char \<Rightarrow> bool" where
  "py_isspace c = (let n = code_point c in
     (9 \<le> n \<and> n \<le> 13) \<or> (28 \<le> n \<and> n \<le> 32) \<or> n = 133 \<or> n = 160)"

definition strip :: "string \<Rightarrow> string" where
  "strip s = rev (dropWhile py_isspace (rev (dropWhile py_isspace s)))"

text \<open>\<open>not s.strip()\<close>.\<close>

definition blank :: "string \<Rightarrow> bool" where
  "blank s = (strip s = [])"

definition startswith :: "string \<Rightarrow> string \<Rightarrow> bool" where
  "startswith s p = (take (length p) s = p)"

fun join :: "string \<Rightarrow> string list \<Rightarrow> string" where
  "join sep [] = []"
| "join sep [s] = s"
| "join sep (s # t # ss) = s @ sep @ join sep (t # ss)"

fun str_nat :: "nat \<Rightarrow> string" where
  "str_nat n = (if n < 10 then [''0123456789'' ! n] else str_nat (n div 10) @ [''0123456789'' ! (n mod 10)])"

declare str_nat.simps [simp del]

definition str_int :: "int \<Rightarrow> string" where
  "str_int i = (if i < 0 then ''-'' @ str_nat (nat (- i)) else str_nat (nat i))"

definition is_sha256_hex :: "string \<Rightarrow> bool" where
  "is_sha256_hex s = (length s = 64 \<and> list_all (\<lambda>c. c \<in> set ''0123456789abcdef'') s)"

lemma blank_iff: "blank s \<longleftrightarrow> list_all py_isspace s"
proof
  assume "blank s"
  then have "dropWhile py_isspace s = []"
    by (auto simp: blank_def strip_def dropWhile_eq_Nil_conv)
      (metis dropWhile_eq_Nil_conv hd_dropWhile hd_in_set)
  then show "list_all py_isspace s"
    by (simp add: list_all_iff)
next
  assume "list_all py_isspace s"
  then have "dropWhile py_isspace s = []"
    by (simp add: list_all_iff)
  then show "blank s" by (simp only: blank_def strip_def) simp
qed

lemma blank_Nil [simp]: "blank []"
  by (simp add: blank_iff)

lemma blank_Cons [simp]: "blank (c # s) \<longleftrightarrow> py_isspace c \<and> blank s"
  by (simp add: blank_iff)

lemma blank_append [simp]: "blank (s @ t) \<longleftrightarrow> blank s \<and> blank t"
  by (simp add: blank_iff)

lemma startswith_Nil [simp]: "startswith s []"
  by (simp add: startswith_def)

lemma startswith_append [simp]: "startswith (p @ s) p"
  by (simp add: startswith_def)

lemma startswith_trans: "startswith s p \<Longrightarrow> startswith p q \<Longrightarrow> startswith s q"
  unfolding startswith_def by (metis append_take_drop_id append_eq_conv_conj append.assoc)

subsection \<open>UUIDs\<close>

type_synonym uuid = "128 word"

definition uuid_hex :: "uuid \<Rightarrow> string" where
  "uuid_hex u = map (\<lambda>i. ''0123456789abcdef'' ! unat (drop_bit (4 * (31 - i)) u AND 15)) [0..<32]"

text \<open>\<open>str(uuid)\<close>: the five hyphen-separated groups.\<close>

definition str_uuid :: "uuid \<Rightarrow> string" where
  "str_uuid u = (let h = uuid_hex u in
     take 8 h @ ''-'' @ take 4 (drop 8 h) @ ''-'' @ take 4 (drop 12 h) @ ''-''
       @ take 4 (drop 16 h) @ ''-'' @ drop 20 h)"

lemma hex_digits_inj:
  assumes "''0123456789abcdef'' ! i = ''0123456789abcdef'' ! j" "i < 16" "j < 16"
  shows "i = j"
proof -
  have "distinct ''0123456789abcdef''" by simp
  from nth_eq_iff_index_eq [OF this, of i j] assms show ?thesis by simp
qed

lemma nibble_bound: "unat (w AND 15 :: uuid) < 16"
proof -
  have "unat (w AND 15) \<le> unat (15 :: uuid)"
    by (rule word_and_le1 [THEN word_le_nat_alt [THEN iffD1]])
  then show ?thesis by simp
qed

lemma bit_nibble:
  assumes "n < 128"
  shows "bit (u :: uuid) n \<longleftrightarrow> bit (drop_bit (4 * (n div 4)) u AND 15) (n mod 4)"
proof -
  have "n mod 4 = 0 \<or> n mod 4 = 1 \<or> n mod 4 = 2 \<or> n mod 4 = 3" by linarith
  then have "bit (15 :: uuid) (n mod 4)"
    by (auto simp: bit_iff_odd)
  moreover have "4 * (n div 4) + n mod 4 = n" by simp
  ultimately show ?thesis by (simp add: bit_and_iff bit_drop_bit_eq)
qed

lemma length_uuid_hex [simp]: "length (uuid_hex u) = 32"
  by (simp add: uuid_hex_def)

lemma uuid_hex_inj: "uuid_hex u = uuid_hex v \<Longrightarrow> u = v"
proof -
  assume eq: "uuid_hex u = uuid_hex v"
  have nib: "drop_bit (4 * k) u AND 15 = drop_bit (4 * k) v AND 15" if "k < 32" for k
  proof -
    have i: "31 - k < 32" by simp
    have k: "31 - (31 - k) = k" using that by simp
    have "uuid_hex u ! (31 - k) = uuid_hex v ! (31 - k)" using eq by simp
    then have "''0123456789abcdef'' ! unat (drop_bit (4 * k) u AND 15)
        = ''0123456789abcdef'' ! unat (drop_bit (4 * k) v AND 15)"
      unfolding uuid_hex_def using i k by (simp only: nth_map nth_upt length_upt) simp
    then have "unat (drop_bit (4 * k) u AND 15) = unat (drop_bit (4 * k) v AND 15)"
      by (rule hex_digits_inj) (rule nibble_bound)+
    then show ?thesis by (rule word_unat_eq_iff [THEN iffD2])
  qed
  show "u = v"
  proof (rule bit_word_eqI)
    fix n assume "n < LENGTH(128)"
    then have n: "n < 128" by simp
    then have "n div 4 < 32" by simp
    with n show "bit u n \<longleftrightarrow> bit v n"
      using bit_nibble [OF n, of u] bit_nibble [OF n, of v] nib [of "n div 4"] by simp
  qed
qed

lemma uuid_hex_chars: "set (uuid_hex u) \<subseteq> set ''0123456789abcdef''"
proof
  fix c assume "c \<in> set (uuid_hex u)"
  then obtain k where "c = ''0123456789abcdef'' ! unat (drop_bit (4 * (31 - k)) u AND 15)"
    unfolding uuid_hex_def by (auto simp only: set_map image_iff)
  moreover have "length ''0123456789abcdef'' = 16" by simp
  then have "unat (drop_bit (4 * (31 - k)) u AND 15) < length ''0123456789abcdef''"
    by (simp only: nibble_bound)
  ultimately show "c \<in> set ''0123456789abcdef''" by (simp only: nth_mem)
qed

lemma str_uuid_hex: "filter (\<lambda>c. c \<noteq> CHR ''-'') (str_uuid u) = uuid_hex u"
proof -
  have hyph: "c \<noteq> CHR ''-''" if "c \<in> set (uuid_hex u)" for c
    using that uuid_hex_chars [of u] by auto
  have part: "filter (\<lambda>c. c \<noteq> CHR ''-'') xs = xs" if "set xs \<subseteq> set (uuid_hex u)" for xs
    using that hyph by (intro filter_True) blast
  have sub: "set (take n (drop m (uuid_hex u))) \<subseteq> set (uuid_hex u)"
      "set (take n (uuid_hex u)) \<subseteq> set (uuid_hex u)" "set (drop m (uuid_hex u)) \<subseteq> set (uuid_hex u)" for n m
    by (meson order_trans set_take_subset set_drop_subset)+
  have step: "take n (drop m h) @ drop (n + m) h = drop m h" for n m and h :: string
    by (metis append_take_drop_id drop_drop)
  have "take 8 h @ take 4 (drop 8 h) @ take 4 (drop 12 h) @ take 4 (drop 16 h) @ drop 20 h = h"
    for h :: string
    using step [of 4 16 h] step [of 4 12 h] step [of 4 8 h] by simp
  then show ?thesis
    by (simp add: str_uuid_def Let_def part [OF sub(1)] part [OF sub(2)] part [OF sub(3)])
qed

lemma str_uuid_inj: "str_uuid u = str_uuid v \<longleftrightarrow> u = v"
  by (metis str_uuid_hex uuid_hex_inj)

subsection \<open>Timestamps\<close>

datatype datetime = Naive int | Aware int

fun tz_missing :: "datetime \<Rightarrow> bool" where
  "tz_missing (Naive _) = True"
| "tz_missing (Aware _) = False"

fun instant :: "datetime \<Rightarrow> int" where
  "instant (Naive t) = t"
| "instant (Aware t) = t"

text \<open>
  Comparing two aware (or two naive) timestamps compares their instants; mixing them raises
  \<open>TypeError\<close>. \<open>dt_le\<close> and \<open>dt_lt\<close> are used where the code has already
  checked that both sides are aware, \<open>dt_geE\<close> where a caller's timestamp is compared unchecked.
\<close>

definition dt_lt :: "datetime \<Rightarrow> datetime \<Rightarrow> bool" where
  "dt_lt a b = (instant a < instant b)"

definition dt_le :: "datetime \<Rightarrow> datetime \<Rightarrow> bool" where
  "dt_le a b = (instant a \<le> instant b)"

definition dt_geE :: "datetime \<Rightarrow> datetime \<Rightarrow> bool result" where
  "dt_geE a b = (if tz_missing a = tz_missing b then Inr (instant a \<ge> instant b)
     else Inl (TypeError ''can't compare offset-naive and offset-aware datetimes''))"

definition seconds :: "int \<Rightarrow> int" where
  "seconds n = n * 1000000"

definition days :: "int \<Rightarrow> int" where
  "days n = seconds (n * 86400)"

lemma dt_simps [simp]:
  "dt_lt (Aware a) (Aware b) \<longleftrightarrow> a < b" "dt_le (Aware a) (Aware b) \<longleftrightarrow> a \<le> b"
  "dt_geE (Aware a) (Aware b) = Inr (a \<ge> b)"
  by (simp_all add: dt_lt_def dt_le_def dt_geE_def)

text \<open>The Gregorian calendar date of a day number counted from 1970-01-01.\<close>

definition civil_date :: "int \<Rightarrow> int \<times> int \<times> int" where
  "civil_date day = (let z = day + 719468; era = z div 146097; doe = z mod 146097;
     yoe = (doe - doe div 1460 + doe div 36524 - doe div 146096) div 365;
     doy = doe - (365 * yoe + yoe div 4 - yoe div 100); mp = (5 * doy + 2) div 153;
     d = doy - (153 * mp + 2) div 5 + 1; m = (if mp < 10 then mp + 3 else mp - 9)
   in (yoe + era * 400 + (if m \<le> 2 then 1 else 0), m, d))"

definition pad :: "nat \<Rightarrow> int \<Rightarrow> string" where
  "pad w n = (let s = str_int n in replicate (w - length s) (CHR ''0'') @ s)"

text \<open>\<open>datetime.isoformat()\<close>; an aware timestamp is shown in UTC.\<close>

definition isoformat :: "datetime \<Rightarrow> string" where
  "isoformat dt = (let t = instant dt; sec = t div 1000000; us = t mod 1000000;
     (y, m, d) = civil_date (sec div 86400); r = sec mod 86400
   in pad 4 y @ ''-'' @ pad 2 m @ ''-'' @ pad 2 d @ ''T'' @ pad 2 (r div 3600) @ '':''
      @ pad 2 (r mod 3600 div 60) @ '':'' @ pad 2 (r mod 60)
      @ (if us = 0 then [] else ''.'' @ pad 6 us)
      @ (if tz_missing dt then [] else ''+00:00''))"

subsection \<open>Dictionaries\<close>

text \<open>\<open>self.table.values()\<close>.\<close>

definition dict_values :: "('k \<times> 'v) list \<Rightarrow> 'v list" where
  "dict_values d = map snd d"

text \<open>A table whose keys are the identifiers of the stored objects.\<close>

definition keyed :: "('v \<Rightarrow> 'k) \<Rightarrow> ('k \<times> 'v) list \<Rightarrow> bool" where
  "keyed ident d = (distinct (map fst d) \<and> (\<forall>(k, v) \<in> set d. ident v = k))"

lemma map_of_update [simp, table_simps]:
  "map_of (AList.update k v d) i = (if i = k then Some v else map_of d i)"
  by (simp add: update_conv')

lemma update_fresh: "map_of d k = None \<Longrightarrow> AList.update k v d = d @ [(k, v)]"
  by (induction d) (auto split: if_splits)

lemma set_update_distinct:
  "distinct (map fst d) \<Longrightarrow> set (AList.update k v d) = insert (k, v) {p \<in> set d. fst p \<noteq> k}"
  by (induction d) (force simp: image_iff)+

lemma keyed_Nil [simp]: "keyed ident []"
  by (simp add: keyed_def)

lemma keyed_update: "keyed ident d \<Longrightarrow> ident v = k \<Longrightarrow> keyed ident (AList.update k v d)"
  by (auto simp: keyed_def distinct_update set_update_distinct)

lemma keyed_lookup: "keyed ident d \<Longrightarrow> map_of d k = Some v \<Longrightarrow> ident v = k"
  by (auto simp: keyed_def dest: map_of_SomeD)

lemma keyed_member: "keyed ident d \<Longrightarrow> v \<in> set (dict_values d) \<longleftrightarrow> map_of d (ident v) = Some v"
  by (force simp: keyed_def dict_values_def image_iff intro: map_of_is_SomeI dest: map_of_SomeD)

text \<open>How one write changes the number of stored values with a property.\<close>

lemma count_update:
  assumes "distinct (map fst d)"
  shows "length (filter P (dict_values (AList.update k v d)))
         + (case map_of d k of None \<Rightarrow> 0 | Some w \<Rightarrow> of_bool (P w))
       = length (filter P (dict_values d)) + of_bool (P v)"
  using assms
  by (induction d) (auto simp: dict_values_def split: option.splits dest: map_of_SomeD)

lemma filter_update_irrelevant:
  assumes "\<not> P v" and "\<And>w. map_of d k = Some w \<Longrightarrow> \<not> P w" and "distinct (map fst d)"
  shows "filter P (dict_values (AList.update k v d)) = filter P (dict_values d)"
  using assms by (induction d) (auto simp: dict_values_def)

end
