(* ===== verification/Transactions.thy ===== *)
theory Transactions
  imports Prelude
begin

text \<open>
  Code that runs inside \<open>async with repository.transaction()\<close>: a step maps the state to a
  result and a new state, or raises. \<open>transaction\<close> is the context manager of
  \<open>packages/adapters/src/autonoesis_adapters/memory.py\<close> (lines 93-101): an exception restores the
  snapshot taken on entry and is raised again.
\<close>

type_synonym ('s, 'a) tx = "'s \<Rightarrow> ('a \<times> 's) result"

definition returnT :: "'a \<Rightarrow> ('s, 'a) tx" where
  "returnT x s = Inr (x, s)"

definition raiseT :: "error \<Rightarrow> ('s, 'a) tx" where
  "raiseT e s = Inl e"

definition bindT :: "('s, 'a) tx \<Rightarrow> ('a \<Rightarrow> ('s, 'b) tx) \<Rightarrow> ('s, 'b) tx" where
  "bindT m f s = (case m s of Inl e \<Rightarrow> Inl e | Inr (x, s') \<Rightarrow> f x s')"

definition thenT :: "('s, unit) tx \<Rightarrow> ('s, 'b) tx \<Rightarrow> ('s, 'b) tx" where
  "thenT m k s = (case m s of Inl e \<Rightarrow> Inl e | Inr (_, s') \<Rightarrow> k s')"

text \<open>A pure computation that may raise, and a read of the state that may raise.\<close>

definition liftT :: "'a result \<Rightarrow> ('s, 'a) tx" where
  "liftT r s = (case r of Inl e \<Rightarrow> Inl e | Inr x \<Rightarrow> Inr (x, s))"

definition readT :: "('s \<Rightarrow> 'a result) \<Rightarrow> ('s, 'a) tx" where
  "readT f s = (case f s of Inl e \<Rightarrow> Inl e | Inr x \<Rightarrow> Inr (x, s))"

definition checkT :: "bool \<Rightarrow> error \<Rightarrow> ('s, unit) tx" where
  "checkT c e s = (if c then Inl e else Inr ((), s))"

definition modifyT :: "('s \<Rightarrow> 's) \<Rightarrow> ('s, unit) tx" where
  "modifyT f s = Inr ((), f s)"

definition transaction :: "('s, 'a) tx \<Rightarrow> 's \<Rightarrow> 'a result \<times> 's" where
  "transaction m s = (case m s of Inl e \<Rightarrow> (Inl e, s) | Inr (x, s') \<Rightarrow> (Inr x, s'))"

text \<open>Code between two transactions of one use case.\<close>

definition andThen :: "'a result \<times> 's \<Rightarrow> ('a \<Rightarrow> 's \<Rightarrow> 'b result \<times> 's) \<Rightarrow> 'b result \<times> 's" where
  "andThen r k = (case r of (Inl e, s) \<Rightarrow> (Inl e, s) | (Inr x, s) \<Rightarrow> k x s)"

subsection \<open>Running the steps\<close>

named_theorems tx_simps \<open>evaluation of the steps of a transaction\<close>

lemma tx_eval [tx_simps]:
  "returnT x s = Inr (x, s)" "raiseT e s = Inl e" "modifyT f s = Inr ((), f s)"
  "checkT c e s = (if c then Inl e else Inr ((), s))"
  by (simp_all add: returnT_def raiseT_def modifyT_def checkT_def)

lemma bindT_Inr [tx_simps]:
  "bindT m f s = Inr (y, t) \<longleftrightarrow> (\<exists>x s'. m s = Inr (x, s') \<and> f x s' = Inr (y, t))"
  by (auto simp: bindT_def split: sum.splits)

lemma thenT_Inr [tx_simps]: "thenT m k s = Inr (y, t) \<longleftrightarrow> (\<exists>s'. m s = Inr ((), s') \<and> k s' = Inr (y, t))"
  by (auto simp: thenT_def split: sum.splits)

lemma liftT_Inr [tx_simps]: "liftT r s = Inr (y, t) \<longleftrightarrow> r = Inr y \<and> t = s"
  by (auto simp: liftT_def split: sum.splits)

lemma readT_Inr [tx_simps]: "readT f s = Inr (y, t) \<longleftrightarrow> f s = Inr y \<and> t = s"
  by (auto simp: readT_def split: sum.splits)

lemma transaction_Inr [tx_simps]: "transaction m s = (Inr x, s') \<longleftrightarrow> m s = Inr (x, s')"
  by (auto simp: transaction_def split: sum.splits)

lemma transaction_Inl: "transaction m s = (Inl e, s') \<longleftrightarrow> m s = Inl e \<and> s' = s"
  by (auto simp: transaction_def split: sum.splits)

lemma transaction_state: "snd (transaction m s) = (case m s of Inl e \<Rightarrow> s | Inr (x, s') \<Rightarrow> s')"
  by (auto simp: transaction_def split: sum.splits)

subsection \<open>Invariants\<close>

text \<open>
  \<open>keeps P m\<close>: whenever the step \<open>m\<close> succeeds from a state with \<open>P\<close>, it ends in one.
\<close>

definition keeps :: "('s \<Rightarrow> bool) \<Rightarrow> ('s, 'a) tx \<Rightarrow> bool" where
  "keeps P m = (\<forall>s x s'. P s \<longrightarrow> m s = Inr (x, s') \<longrightarrow> P s')"

named_theorems keeps_intros \<open>steps that keep an invariant\<close>

lemma keepsD: "keeps P m \<Longrightarrow> P s \<Longrightarrow> m s = Inr (x, s') \<Longrightarrow> P s'"
  by (auto simp: keeps_def)

lemma keepsI: "(\<And>s x s'. P s \<Longrightarrow> m s = Inr (x, s') \<Longrightarrow> P s') \<Longrightarrow> keeps P m"
  unfolding keeps_def by blast

lemma keeps_bindT [keeps_intros]:
  assumes "keeps P m" "\<And>x. keeps P (f x)"
  shows "keeps P (bindT m f)"
proof (rule keepsI)
  fix s y t assume "P s" "bindT m f s = Inr (y, t)"
  then obtain x s' where "m s = Inr (x, s')" "f x s' = Inr (y, t)" by (auto simp only: bindT_Inr)
  with \<open>P s\<close> assms show "P t" by (meson keepsD)
qed

lemma keeps_thenT [keeps_intros]:
  assumes "keeps P m" "keeps P k"
  shows "keeps P (thenT m k)"
proof (rule keepsI)
  fix s y t assume "P s" "thenT m k s = Inr (y, t)"
  then obtain s' where "m s = Inr ((), s')" "k s' = Inr (y, t)" by (auto simp only: thenT_Inr)
  with \<open>P s\<close> assms show "P t" by (meson keepsD)
qed

lemma keeps_pure [keeps_intros]:
  "keeps P (returnT x)" "keeps P (raiseT e)" "keeps P (liftT r)" "keeps P (readT g)" "keeps P (checkT c e)"
  by (auto intro!: keepsI simp: tx_simps split: if_splits)

lemma keeps_if [keeps_intros]: "keeps P m \<Longrightarrow> keeps P k \<Longrightarrow> keeps P (if c then m else k)"
  by simp

lemma keeps_option [keeps_intros]:
  "keeps P m \<Longrightarrow> (\<And>x. keeps P (k x)) \<Longrightarrow> keeps P (case opt of None \<Rightarrow> m | Some x \<Rightarrow> k x)"
  by (cases opt) auto

lemma keeps_modifyT: "(\<And>s. P s \<Longrightarrow> P (f s)) \<Longrightarrow> keeps P (modifyT f)"
  by (auto intro!: keepsI simp: tx_simps)

lemma keeps_transaction: "keeps P m \<Longrightarrow> P s \<Longrightarrow> P (snd (transaction m s))"
  by (auto simp: transaction_state split: sum.splits dest: keepsD)

end
