(* ===== verification/Repository.thy ===== *)
theory Repository
  imports Transactions
begin

text \<open>
  The contract of the versioned tables behind
  \<open>packages/application/src/autonoesis_application/repositories.py\<close>: a lookup answers only for
  the owning tenant, and a save is a compare-and-swap on the optimistic version. What clients rely on
  (no lost update, tenant isolation) is proved once from the contract.
\<close>

locale versioned_repository =
  fixes get :: "'s \<Rightarrow> uuid \<Rightarrow> uuid \<Rightarrow> 'o result"
    and save :: "'o \<Rightarrow> int \<Rightarrow> ('s, unit) tx"
    and tenant_of :: "'o \<Rightarrow> uuid"
    and ident_of :: "'o \<Rightarrow> uuid"
    and version_of :: "'o \<Rightarrow> int"
  assumes get_tenant: "get s t i = Inr x \<Longrightarrow> tenant_of x = t"
    and get_unique: "get s t i = Inr x \<Longrightarrow> get s t' i = Inr y \<Longrightarrow> x = y"
    and save_checks: "save x v s = Inr (u, s') \<Longrightarrow>
      \<exists>cur. get s (tenant_of x) (ident_of x) = Inr cur \<and> version_of cur = v"
    and save_conflict: "get s (tenant_of x) (ident_of x) = Inr cur \<Longrightarrow> version_of cur \<noteq> v \<Longrightarrow>
      \<exists>msg. save x v s = Inl (ConcurrencyConflict msg)"
    and save_stored: "save x v s = Inr (u, s') \<Longrightarrow> get s' (tenant_of x) (ident_of x) = Inr x"
    and save_frame: "save x v s = Inr (u, s') \<Longrightarrow> i \<noteq> ident_of x \<Longrightarrow> get s' t i = get s t i"
begin

text \<open>Of two writers that read the same version, the second one is rejected.\<close>

lemma no_lost_update:
  assumes "save x v s = Inr (u, s')" and "version_of x \<noteq> v"
    and "tenant_of y = tenant_of x" and "ident_of y = ident_of x"
  shows "\<exists>msg. save y v s' = Inl (ConcurrencyConflict msg)"
  using save_conflict [of s' y x v] save_stored [OF assms(1)] assms by simp

text \<open>A save cannot create a record, and it cannot change what any other tenant reads.\<close>

lemma save_isolated:
  assumes "save x v s = Inr (u, s')" and "t \<noteq> tenant_of x"
  shows "get s' t i = Inr y \<longleftrightarrow> get s t i = Inr y"
proof (cases "i = ident_of x")
  case False
  with assms(1) show ?thesis by (simp add: save_frame)
next
  case True
  from save_checks [OF assms(1)] True obtain cur where cur: "get s (tenant_of x) i = Inr cur" by auto
  have "get s t i \<noteq> Inr y"
    using get_unique [OF _ cur, of t y] get_tenant [OF cur] get_tenant [of s t i y] assms(2) by auto
  moreover have "get s' (tenant_of x) i = Inr x" using save_stored [OF assms(1)] True by simp
  then have "get s' t i \<noteq> Inr y"
    using get_unique [of s' t i y] get_tenant [of s' t i y] assms(2) by auto
  ultimately show ?thesis by simp
qed

end

end
