(* ===== verification/Sha256.thy ===== *)
theory Sha256
  imports Prelude
begin

text \<open>
  \<open>hashlib.sha256\<close>: the digest that binds approvals, envelopes, audit events and evidence.
  The rest of the development uses only that a hex digest has 64 lowercase hexadecimal
  digits; security statements are of the form "or two different inputs have the same digest".
\<close>

type_synonym byte = "8 word"
type_synonym word32 = "32 word"

subsection \<open>UTF-8\<close>

definition utf8_char :: "char \<Rightarrow> byte list" where
  "utf8_char c = (let n = code_point c in
     if n < 128 then [of_nat n] else [of_nat (192 + n div 64), of_nat (128 + n mod 64)])"

definition utf8 :: "string \<Rightarrow> byte list" where
  "utf8 s = concat (map utf8_char s)"

subsection \<open>The compression function\<close>

definition sha_k :: "word32 list" where
  "sha_k = [
    1116352408, 1899447441, 3049323471, 3921009573, 961987163, 1508970993,
    2453635748, 2870763221, 3624381080, 310598401, 607225278, 1426881987,
    1925078388, 2162078206, 2614888103, 3248222580, 3835390401, 4022224774,
    264347078, 604807628, 770255983, 1249150122, 1555081692, 1996064986,
    2554220882, 2821834349, 2952996808, 3210313671, 3336571891, 3584528711,
    113926993, 338241895, 666307205, 773529912, 1294757372, 1396182291,
    1695183700, 1986661051, 2177026350, 2456956037, 2730485921, 2820302411,
    3259730800, 3345764771, 3516065817, 3600352804, 4094571909, 275423344,
    430227734, 506948616, 659060556, 883997877, 958139571, 1322822218,
    1537002063, 1747873779, 1955562222, 2024104815, 2227730452, 2361852424,
    2428436474, 2756734187, 3204031479, 3329325298]"

definition sha_init :: "word32 list" where
  "sha_init = [1779033703, 3144134277, 1013904242, 2773480762,
               1359893119, 2600822924, 528734635, 1541459225]"

definition sha_pad :: "byte list \<Rightarrow> byte list" where
  "sha_pad m = (let n = length m; z = (119 - n mod 64) mod 64 in
     m @ [0x80] @ replicate z 0
       @ map (\<lambda>i. of_nat ((8 * n) div 256 ^ (7 - i))) [0..<8])"

fun be_words :: "byte list \<Rightarrow> word32 list" where
  "be_words (a # b # c # d # r) =
     (of_nat (((unat a * 256 + unat b) * 256 + unat c) * 256 + unat d)) # be_words r"
| "be_words _ = []"

definition small_sigma0 :: "word32 \<Rightarrow> word32" where
  "small_sigma0 x = word_rotr 7 x XOR word_rotr 18 x XOR drop_bit 3 x"

definition small_sigma1 :: "word32 \<Rightarrow> word32" where
  "small_sigma1 x = word_rotr 17 x XOR word_rotr 19 x XOR drop_bit 10 x"

definition big_sigma0 :: "word32 \<Rightarrow> word32" where
  "big_sigma0 x = word_rotr 2 x XOR word_rotr 13 x XOR word_rotr 22 x"

definition big_sigma1 :: "word32 \<Rightarrow> word32" where
  "big_sigma1 x = word_rotr 6 x XOR word_rotr 11 x XOR word_rotr 25 x"

text \<open>The message schedule, newest word first.\<close>

fun schedule :: "nat \<Rightarrow> word32 list \<Rightarrow> word32 list" where
  "schedule 0 w = w"
| "schedule (Suc n) w =
     schedule n ((small_sigma1 (w ! 1) + w ! 6 + small_sigma0 (w ! 14) + w ! 15) # w)"

fun sha_round :: "word32 list \<Rightarrow> word32 \<times> word32 \<Rightarrow> word32 list" where
  "sha_round [a, b, c, d, e, f, g, h] (k, w) =
     (let t1 = h + big_sigma1 e + ((e AND f) XOR (NOT e AND g)) + k + w;
          t2 = big_sigma0 a + ((a AND b) XOR (a AND c) XOR (b AND c))
      in [t1 + t2, a, b, c, d + t1, e, f, g])"
| "sha_round s _ = s"

definition sha_block :: "word32 list \<Rightarrow> byte list \<Rightarrow> word32 list" where
  "sha_block st blk =
     map2 (+) st (foldl sha_round st (zip sha_k (rev (schedule 48 (rev (be_words blk))))))"

fun sha_blocks :: "nat \<Rightarrow> word32 list \<Rightarrow> byte list \<Rightarrow> word32 list" where
  "sha_blocks 0 st m = st"
| "sha_blocks (Suc n) st m = sha_blocks n (sha_block st (take 64 m)) (drop 64 m)"

subsection \<open>Digests\<close>

definition sha256_words :: "byte list \<Rightarrow> word32 list" where
  "sha256_words m = (let p = sha_pad m in sha_blocks (length p div 64) sha_init p)"

definition hex_of_word :: "word32 \<Rightarrow> string" where
  "hex_of_word w =
     map (\<lambda>i. ''0123456789abcdef'' ! (unat w div 16 ^ (7 - i) mod 16)) [0..<8]"

definition sha256_hex_bytes :: "byte list \<Rightarrow> string" where
  "sha256_hex_bytes m = concat (map hex_of_word (sha256_words m))"

text \<open>\<open>sha256(s.encode("utf-8")).hexdigest()\<close>.\<close>

definition sha256_hexdigest :: "string \<Rightarrow> string" where
  "sha256_hexdigest s = sha256_hex_bytes (utf8 s)"

text \<open>\<open>int.from_bytes(sha256(s.encode()).digest()[:8], "big")\<close>.\<close>

definition sha256_prefix64 :: "string \<Rightarrow> nat" where
  "sha256_prefix64 s = (case sha256_words (utf8 s) of
     a # b # _ \<Rightarrow> unat a * 2 ^ 32 + unat b | _ \<Rightarrow> 0)"

text \<open>
  An explicit pair of different texts with the same digest. Statements that rest on a digest name the
  pair that would have to collide; that some pair collides is true of every hash function and would
  say nothing.
\<close>

definition collides :: "string \<Rightarrow> string \<Rightarrow> bool" where
  "collides x y = (x \<noteq> y \<and> sha256_hexdigest x = sha256_hexdigest y)"

lemma digest_eqD: "sha256_hexdigest x = sha256_hexdigest y \<Longrightarrow> \<not> collides x y \<Longrightarrow> x = y"
  by (auto simp: collides_def)

lemma length_sha_round: "length s = 8 \<Longrightarrow> length (sha_round s kw) = 8"
  by (induction s kw rule: sha_round.induct) (auto simp: Let_def)

lemma length_foldl_sha_round: "length s = 8 \<Longrightarrow> length (foldl sha_round s kws) = 8"
  by (induction kws arbitrary: s) (auto simp: length_sha_round)

lemma length_sha_blocks: "length s = 8 \<Longrightarrow> length (sha_blocks n s m) = 8"
  by (induction n arbitrary: s m) (simp_all add: sha_block_def length_foldl_sha_round)

lemma length_sha256_words [simp]: "length (sha256_words m) = 8"
  by (simp add: sha256_words_def Let_def length_sha_blocks sha_init_def)

lemma hex_of_word_digits: "length (hex_of_word w) = 8" "list_all (\<lambda>c. c \<in> set ''0123456789abcdef'') (hex_of_word w)"
proof -
  have len: "length ''0123456789abcdef'' = 16" by simp
  have "''0123456789abcdef'' ! (k mod 16) \<in> set ''0123456789abcdef''" for k
    by (rule nth_mem) (unfold len, simp)
  then show "list_all (\<lambda>c. c \<in> set ''0123456789abcdef'') (hex_of_word w)"
    by (simp only: hex_of_word_def list_all_iff set_map) blast
qed (simp add: hex_of_word_def)

lemma sha256_hex_bytes_is_hex: "is_sha256_hex (sha256_hex_bytes m)"
proof -
  have "sum_list (map (\<lambda>w. length (hex_of_word w)) ws) = 8 * length ws" for ws
    by (induction ws) (simp_all add: hex_of_word_digits)
  then have "length (sha256_hex_bytes m) = 64"
    by (simp add: sha256_hex_bytes_def length_concat comp_def)
  moreover have "list_all (\<lambda>c. c \<in> set ''0123456789abcdef'') (sha256_hex_bytes m)"
    using hex_of_word_digits(2) unfolding sha256_hex_bytes_def list_all_iff by fastforce
  ultimately show ?thesis by (simp only: is_sha256_hex_def)
qed

lemma sha256_hexdigest_is_hex [simp]: "is_sha256_hex (sha256_hexdigest s)"
  by (simp add: sha256_hexdigest_def sha256_hex_bytes_is_hex)

lemma length_sha256_hexdigest [simp]: "length (sha256_hexdigest s) = 64"
  using sha256_hexdigest_is_hex [of s] by (simp only: is_sha256_hex_def)

lemma hex_not_blank: "is_sha256_hex s \<Longrightarrow> \<not> blank s"
  by (cases s) (auto simp: is_sha256_hex_def py_isspace_def code_point_def)

end
