(* ===== verification/Json.thy ===== *)
theory Json
  imports Sha256
begin

text \<open>
  JSON documents: the standard library's \<open>json.dumps\<close> and \<open>json.loads\<close> as the code
  calls them, and \<open>_validate_json\<close> and \<open>JsonObject\<close> of
  \<open>packages/domain/src/autonoesis_domain/values.py\<close>.

  A float is identified with the text of its \<open>repr\<close>, so a float token is kept as it is
  spelled; strings hold code points below 256, so a \<open>\u\<close> escape above that is outside the model.
\<close>

datatype float_lit = Finite_Repr string | Nan | Infinity | Neg_Infinity

datatype json =
    JNull
  | JBool bool
  | JInt int
  | JFloat float_lit
  | JStr string
  | JList "json list"
  | JObj "(string \<times> json) list"

subsection \<open>json.dumps\<close>

definition hex4 :: "nat \<Rightarrow> string" where
  "hex4 n = map (\<lambda>i. ''0123456789abcdef'' ! (n div 16 ^ (3 - i) mod 16)) [0..<4]"

definition escape_char :: "bool \<Rightarrow> char \<Rightarrow> string" where
  "escape_char ascii c = (let n = code_point c in
     if n = 34 then [CHR 92, CHR 34]
     else if n = 92 then [CHR 92, CHR 92]
     else if n = 10 then [CHR 92, CHR ''n'']
     else if n = 13 then [CHR 92, CHR ''r'']
     else if n = 9 then [CHR 92, CHR ''t'']
     else if n = 12 then [CHR 92, CHR ''f'']
     else if n = 8 then [CHR 92, CHR ''b'']
     else if n < 32 \<or> (ascii \<and> n \<ge> 127) then [CHR 92, CHR ''u''] @ hex4 n
     else [c])"

definition dump_string :: "bool \<Rightarrow> string \<Rightarrow> string" where
  "dump_string ascii s = [CHR 34] @ concat (map (escape_char ascii) s) @ [CHR 34]"

definition dump_float :: "float_lit \<Rightarrow> string" where
  "dump_float f = (case f of Finite_Repr r \<Rightarrow> r | Nan \<Rightarrow> ''NaN'' | Infinity \<Rightarrow> ''Infinity''
     | Neg_Infinity \<Rightarrow> ''-Infinity'')"

text \<open>
  \<open>json.dumps(value, ensure_ascii=ascii, sort_keys=True, separators=(isep, ksep))\<close> for a value
  without non-finite floats.
\<close>

fun dumps :: "bool \<Rightarrow> string \<Rightarrow> string \<Rightarrow> json \<Rightarrow> string" where
  "dumps ascii isep ksep JNull = ''null''"
| "dumps ascii isep ksep (JBool b) = (if b then ''true'' else ''false'')"
| "dumps ascii isep ksep (JInt i) = str_int i"
| "dumps ascii isep ksep (JFloat f) = dump_float f"
| "dumps ascii isep ksep (JStr s) = dump_string ascii s"
| "dumps ascii isep ksep (JList xs) = ''['' @ join isep (map (dumps ascii isep ksep) xs) @ '']''"
| "dumps ascii isep ksep (JObj kvs) =
     ''{'' @ join isep (map (\<lambda>(k, t). dump_string ascii k @ ksep @ t)
       (sort_key fst (map (\<lambda>(k, v). (k, dumps ascii isep ksep v)) kvs))) @ ''}''"

abbreviation dumps_canonical :: "json \<Rightarrow> string" where
  "dumps_canonical \<equiv> dumps False '','' '':''"

abbreviation dumps_compact :: "json \<Rightarrow> string" where
  "dumps_compact \<equiv> dumps True '','' '':''"

abbreviation dumps_default :: "json \<Rightarrow> string" where
  "dumps_default \<equiv> dumps True '', '' '': ''"

subsection \<open>json.loads\<close>

definition json_ws :: "char \<Rightarrow> bool" where
  "json_ws c = (c \<in> {CHR '' '', CHR 9, CHR 10, CHR 13})"

definition skip_ws :: "string \<Rightarrow> string" where
  "skip_ws s = dropWhile json_ws s"

definition is_digit :: "char \<Rightarrow> bool" where
  "is_digit c = (48 \<le> code_point c \<and> code_point c \<le> 57)"

definition nat_of_digits :: "string \<Rightarrow> nat" where
  "nat_of_digits ds = foldl (\<lambda>n c. 10 * n + (code_point c - 48)) 0 ds"

definition hex_value :: "char \<Rightarrow> nat option" where
  "hex_value c = (let n = code_point c in
     if 48 \<le> n \<and> n \<le> 57 then Some (n - 48)
     else if 97 \<le> n \<and> n \<le> 102 then Some (n - 87)
     else if 65 \<le> n \<and> n \<le> 70 then Some (n - 55) else None)"

definition simple_escape :: "char \<Rightarrow> char option" where
  "simple_escape c = (if c = CHR 34 then Some (CHR 34) else if c = CHR 92 then Some (CHR 92)
     else if c = CHR ''/'' then Some (CHR ''/'') else if c = CHR ''b'' then Some (CHR 8)
     else if c = CHR ''f'' then Some (CHR 12) else if c = CHR ''n'' then Some (CHR 10)
     else if c = CHR ''r'' then Some (CHR 13) else if c = CHR ''t'' then Some (CHR 9) else None)"

text \<open>The body of a string literal, after its opening quote.\<close>

fun parse_string :: "string \<Rightarrow> (string \<times> string) option" where
  "parse_string [] = None"
| "parse_string (c # s) =
     (if c = CHR 34 then Some ([], s)
      else if c = CHR 92 then
        (case s of [] \<Rightarrow> None
         | d # s1 \<Rightarrow>
           if d = CHR ''u'' then
             (case s1 of a # b # e # f # s2 \<Rightarrow>
                (case (hex_value a, hex_value b, hex_value e, hex_value f) of
                   (Some h3, Some h2, Some h1, Some h0) \<Rightarrow>
                     (let n = ((h3 * 16 + h2) * 16 + h1) * 16 + h0 in
                      if n < 256 then map_option (\<lambda>(t, r). (char_of n # t, r)) (parse_string s2)
                      else None)
                 | _ \<Rightarrow> None)
              | _ \<Rightarrow> None)
           else (case simple_escape d of None \<Rightarrow> None
                 | Some e \<Rightarrow> map_option (\<lambda>(t, r). (e # t, r)) (parse_string s1)))
      else if code_point c < 32 then None
      else map_option (\<lambda>(t, r). (c # t, r)) (parse_string s))"

text \<open>A number token: sign, integer part, optional fraction, optional exponent.\<close>

definition parse_number :: "string \<Rightarrow> (json \<times> string) option" where
  "parse_number s =
     (let (sign, s0) = (case s of c # r \<Rightarrow> if c = CHR ''-'' then (''-'', r) else ([], s) | [] \<Rightarrow> ([], s));
          ds = (case s0 of c # r \<Rightarrow> if c = CHR ''0'' then [c] else takeWhile is_digit s0 | [] \<Rightarrow> []);
          s1 = drop (length ds) s0;
          fr = (case s1 of c # r \<Rightarrow> if c = CHR ''.'' \<and> takeWhile is_digit r \<noteq> []
                  then c # takeWhile is_digit r else [] | [] \<Rightarrow> []);
          s2 = drop (length fr) s1;
          ex = (case s2 of c # r \<Rightarrow>
                  if c = CHR ''e'' \<or> c = CHR ''E'' then
                    (let sg = (case r of d # _ \<Rightarrow> if d = CHR ''+'' \<or> d = CHR ''-'' then [d] else [] | [] \<Rightarrow> []);
                         es = takeWhile is_digit (drop (length sg) r)
                     in if es = [] then [] else c # sg @ es)
                  else [] | [] \<Rightarrow> []);
          s3 = drop (length ex) s2
      in if ds = [] then None
         else if fr = [] \<and> ex = [] then
           Some (JInt (if sign = [] then int (nat_of_digits ds) else - int (nat_of_digits ds)), s3)
         else Some (JFloat (Finite_Repr (sign @ ds @ fr @ ex)), s3))"

definition parse_literal :: "string \<Rightarrow> (json \<times> string) option" where
  "parse_literal s =
     (if startswith s ''null'' then Some (JNull, drop 4 s)
      else if startswith s ''true'' then Some (JBool True, drop 4 s)
      else if startswith s ''false'' then Some (JBool False, drop 5 s)
      else if startswith s ''NaN'' then Some (JFloat Nan, drop 3 s)
      else if startswith s ''Infinity'' then Some (JFloat Infinity, drop 8 s)
      else if startswith s ''-Infinity'' then Some (JFloat Neg_Infinity, drop 9 s)
      else parse_number s)"

text \<open>
  Values, the elements of an array and the members of an object. Every call spends one unit
  of fuel; \<open>loads\<close> provides more than the length of the text.
\<close>

fun parse_value :: "nat \<Rightarrow> string \<Rightarrow> (json \<times> string) option"
and parse_elements :: "nat \<Rightarrow> string \<Rightarrow> (json list \<times> string) option"
and parse_members :: "nat \<Rightarrow> string \<Rightarrow> ((string \<times> json) list \<times> string) option" where
  "parse_value 0 s = None"
| "parse_value (Suc n) s =
     (case s of [] \<Rightarrow> None
      | c # r \<Rightarrow>
        if c = CHR 34 then map_option (\<lambda>(t, q). (JStr t, q)) (parse_string r)
        else if c = CHR ''['' then
          (case skip_ws r of d # q \<Rightarrow> if d = CHR '']'' then Some (JList [], q)
             else map_option (\<lambda>(xs, z). (JList xs, z)) (parse_elements n (skip_ws r)) | [] \<Rightarrow> None)
        else if c = CHR ''{'' then
          (case skip_ws r of d # q \<Rightarrow> if d = CHR ''}'' then Some (JObj [], q)
             else map_option (\<lambda>(kvs, z). (JObj (fold (\<lambda>(k, v). AList.update k v) kvs []), z))
               (parse_members n (skip_ws r)) | [] \<Rightarrow> None)
        else parse_literal s)"
| "parse_elements 0 s = None"
| "parse_elements (Suc n) s =
     (case parse_value n s of None \<Rightarrow> None
      | Some (v, r) \<Rightarrow>
        (case skip_ws r of c # q \<Rightarrow>
           if c = CHR '']'' then Some ([v], q)
           else if c = CHR '','' then map_option (\<lambda>(vs, z). (v # vs, z)) (parse_elements n (skip_ws q))
           else None
         | [] \<Rightarrow> None))"
| "parse_members 0 s = None"
| "parse_members (Suc n) s =
     (case s of [] \<Rightarrow> None
      | c # s0 \<Rightarrow>
        if c \<noteq> CHR 34 then None
        else (case parse_string s0 of None \<Rightarrow> None
          | Some (k, r) \<Rightarrow>
            (case skip_ws r of d # r1 \<Rightarrow>
               if d \<noteq> CHR '':'' then None
               else (case parse_value n (skip_ws r1) of None \<Rightarrow> None
                 | Some (v, r2) \<Rightarrow>
                   (case skip_ws r2 of e # r3 \<Rightarrow>
                      if e = CHR ''}'' then Some ([(k, v)], r3)
                      else if e = CHR '','' then
                        map_option (\<lambda>(kvs, z). ((k, v) # kvs, z)) (parse_members n (skip_ws r3))
                      else None
                    | [] \<Rightarrow> None))
             | [] \<Rightarrow> None)))"

text \<open>\<open>json.loads\<close>; \<open>None\<close> is \<open>JSONDecodeError\<close>.\<close>

definition loads :: "string \<Rightarrow> json option" where
  "loads s = (case parse_value (2 * length s + 2) (skip_ws s) of None \<Rightarrow> None
     | Some (v, r) \<Rightarrow> if skip_ws r = [] then Some v else None)"

subsection \<open>_validate_json and JsonObject\<close>

function validate_json :: "nat \<Rightarrow> json \<Rightarrow> unit result" where
  "validate_json depth value =
     (if depth > 32 then Inl (ValueError ''JSON value exceeds maximum nesting depth'')
      else case value of
        JNull \<Rightarrow> Inr () | JStr _ \<Rightarrow> Inr () | JBool _ \<Rightarrow> Inr () | JInt _ \<Rightarrow> Inr ()
      | JFloat f \<Rightarrow> (case f of Finite_Repr _ \<Rightarrow> Inr ()
          | _ \<Rightarrow> Inl (ValueError ''JSON numbers must be finite''))
      | JList xs \<Rightarrow> forE (\<lambda>item. validate_json (Suc depth) item) xs
      | JObj kvs \<Rightarrow> forE (\<lambda>kv. thenE
            (raise_if (fst kv = []) (ValueError ''JSON object keys must be non-empty strings''))
            (validate_json (Suc depth) (snd kv))) kvs)"
  by pat_completeness auto
termination by (relation "measure (\<lambda>(d, v). 33 - d)") auto

declare validate_json.simps [simp del]

record JsonObject =
  canonical :: string

definition JsonObject_post_init :: "JsonObject \<Rightarrow> JsonObject result" where
  "JsonObject_post_init self =
     (case loads (canonical self) of
        None \<Rightarrow> Inl (ValueError ''canonical JSON is invalid'')
      | Some parsed \<Rightarrow>
        (case parsed of
           JObj kvs \<Rightarrow> thenE (validate_json 0 parsed)
             (let normalized = dumps_canonical parsed in
              if length (utf8 normalized) > 1048576 then Inl (ValueError ''JSON object exceeds one MiB'')
              else Inr (self\<lparr>canonical := normalized\<rparr>))
         | _ \<Rightarrow> Inl (ValueError ''JSON value must be an object'')))"

definition JsonObject_from_value :: "(string \<times> json) list \<Rightarrow> JsonObject result" where
  "JsonObject_from_value kvs = thenE (validate_json 0 (JObj kvs))
     (JsonObject_post_init \<lparr>canonical = dumps_canonical (JObj kvs)\<rparr>)"

definition JsonObject_digest :: "JsonObject \<Rightarrow> string" where
  "JsonObject_digest self = sha256_hexdigest (canonical self)"

definition JsonObject_to_value :: "JsonObject \<Rightarrow> json result" where
  "JsonObject_to_value self =
     (case loads (canonical self) of
        None \<Rightarrow> Inl (ValueError ''JSONDecodeError'')
      | Some v \<Rightarrow> (case v of JObj _ \<Rightarrow> Inr v
          | _ \<Rightarrow> Inl (AssertionError ''canonical JSON object decoded to a non-object'')))"

end
