(* ===== verification/Values.thy ===== *)
theory Values
  imports Json
begin

text \<open>
  The constrained values of \<open>packages/domain/src/autonoesis_domain/values.py\<close> and the shared
  transition primitives of \<open>transitions.py\<close>. An enumeration is a datatype with one
  constructor per member, and its \<open>_value\<close> function is the member's string. A dataclass is a
  record, and its \<open>_post_init\<close> function is \<open>__post_init__\<close>: every construction and
  every \<open>dataclasses.replace\<close> of the source runs it.
\<close>

subsection \<open>Enumerations\<close>

datatype RiskTier = RT_LOW | RT_MEDIUM | RT_HIGH | RT_CRITICAL

datatype BudgetUnit = COST_UNITS | TOKENS | USD_MICROS

fun BudgetUnit_value :: "BudgetUnit \<Rightarrow> string" where
  "BudgetUnit_value COST_UNITS = ''cost_units''"
| "BudgetUnit_value TOKENS = ''tokens''"
| "BudgetUnit_value USD_MICROS = ''usd_micros''"

datatype DataClassification = PUBLIC | INTERNAL | CONFIDENTIAL | RESTRICTED

fun DataClassification_value :: "DataClassification \<Rightarrow> string" where
  "DataClassification_value PUBLIC = ''public''"
| "DataClassification_value INTERNAL = ''internal''"
| "DataClassification_value CONFIDENTIAL = ''confidential''"
| "DataClassification_value RESTRICTED = ''restricted''"

datatype ExecutionMode = AUTONOMOUS | SUPERVISED | HUMAN_ONLY | SHADOW_MODE

fun ExecutionMode_value :: "ExecutionMode \<Rightarrow> string" where
  "ExecutionMode_value AUTONOMOUS = ''autonomous''"
| "ExecutionMode_value SUPERVISED = ''supervised''"
| "ExecutionMode_value HUMAN_ONLY = ''human_only''"
| "ExecutionMode_value SHADOW_MODE = ''shadow''"

subsection \<open>BudgetAmount and DataPolicy\<close>

record BudgetAmount =
  amount :: int
  unit :: BudgetUnit

definition BudgetAmount_post_init :: "BudgetAmount \<Rightarrow> BudgetAmount result" where
  "BudgetAmount_post_init self =
     thenE (raise_if (amount self < 0) (ValueError ''budget amount must be a non-negative integer''))
       (Inr self)"

record DataPolicy =
  maximum_classification :: DataClassification
  allowed_regions :: "string list"
  retention_days :: int

definition DataPolicy_post_init :: "DataPolicy \<Rightarrow> DataPolicy result" where
  "DataPolicy_post_init self =
     thenE (raise_if (retention_days self \<le> 0) (ValueError ''data retention must be positive''))
    (thenE (raise_if (list_ex blank (allowed_regions self))
        (ValueError ''data policy regions must not be empty''))
    (thenE (raise_if (\<not> distinct (allowed_regions self))
        (ValueError ''data policy regions must be unique''))
       (Inr self)))"

text \<open>
  \<open>len(set(xs)) != len(xs)\<close> is written \<open>\<not> distinct xs\<close> here and below; the two agree.
\<close>

lemma len_set_distinct: "card (set xs) \<noteq> length xs \<longleftrightarrow> \<not> distinct xs"
  by (metis card_distinct distinct_card)

subsection \<open>State transitions\<close>

definition SYSTEM_ACTOR_ID :: uuid where
  "SYSTEM_ACTOR_ID = 0"

record StateTransition =
  from_status :: string
  to_status :: string
  occurred_at :: datetime
  st_reason :: string
  st_actor_id :: uuid

definition StateTransition_post_init :: "StateTransition \<Rightarrow> StateTransition result" where
  "StateTransition_post_init self =
     thenE (raise_if (tz_missing (occurred_at self))
        (ValueError ''transition timestamp must be timezone-aware''))
    (thenE (raise_if (blank (st_reason self)) (ValueError ''transition reason must not be empty''))
       (Inr self))"

text \<open>\<open>at\<close> is \<open>occurred_at or datetime.now(UTC)\<close>, the timestamp the caller resolved.\<close>

definition transition_record ::
  "('s \<Rightarrow> string) \<Rightarrow> 's \<Rightarrow> 's \<Rightarrow> uuid \<Rightarrow> string \<Rightarrow> datetime \<Rightarrow> StateTransition result" where
  "transition_record val current target actor_id reason at =
     StateTransition_post_init
       \<lparr>from_status = val current, to_status = val target, occurred_at = at,
        st_reason = reason, st_actor_id = actor_id\<rparr>"

type_synonym 's transition_table = "('s \<times> 's list) list"

text \<open>\<open>allowed.get(current, frozenset())\<close>.\<close>

definition allowed_targets :: "'s transition_table \<Rightarrow> 's \<Rightarrow> 's list" where
  "allowed_targets allowed current = (case map_of allowed current of None \<Rightarrow> [] | Some ts \<Rightarrow> ts)"

definition require_transition ::
  "('s \<Rightarrow> string) \<Rightarrow> 's \<Rightarrow> 's \<Rightarrow> 's transition_table \<Rightarrow> unit result" where
  "require_transition val current target allowed =
     raise_if (target \<notin> set (allowed_targets allowed current))
       (InvalidStateTransition (''cannot transition from '' @ val current @ '' to '' @ val target))"

lemma require_transition_Inr [simp]:
  "require_transition val c t tab = Inr u \<longleftrightarrow> t \<in> set (allowed_targets tab c)"
  by (simp add: require_transition_def)

lemma transition_record_Inr:
  "transition_record val c t a r at = Inr x \<longleftrightarrow>
     \<not> tz_missing at \<and> \<not> blank r \<and>
     x = \<lparr>from_status = val c, to_status = val t, occurred_at = at, st_reason = r, st_actor_id = a\<rparr>"
  by (auto simp: transition_record_def StateTransition_post_init_def result_simps)

end
