(* ===== verification/Audit_Trail.thy ===== *)
theory Audit_Trail
  imports Values
begin

text \<open>
  The audit trail of \<open>packages/application/src/autonoesis_application/platform.py\<close> (lines
  36-114): identities of callers, hash-chained audit events and the chain verifier. The details of an
  event are a JSON object.
\<close>

record IdentityContext =
  ic_tenant_id :: uuid
  ic_actor_id :: uuid
  ic_principal_id :: uuid
  ic_roles :: "string list"
  ic_agent_id :: "string option"
  ic_subject :: "string option"
  ic_token_type :: string

record AuditEvent =
  ae_tenant_id :: uuid
  ae_actor_id :: uuid
  ae_principal_id :: uuid
  ae_event_type :: string
  ae_object_type :: string
  ae_object_id :: string
  ae_correlation_id :: uuid
  ae_details :: "(string \<times> json) list"
  ae_event_id :: uuid
  ae_sequence :: "int option"
  ae_previous_digest :: "string option"
  ae_event_digest :: "string option"
  ae_created_at :: "datetime option"

definition audit_ref :: "AuditEvent \<Rightarrow> string option" where
  "audit_ref self = (case ae_event_digest self of None \<Rightarrow> None
     | Some d \<Rightarrow> Some (''audit://events/'' @ str_uuid (ae_event_id self) @ ''?digest='' @ d))"

definition audit_payload :: "AuditEvent \<Rightarrow> int \<Rightarrow> datetime \<Rightarrow> json" where
  "audit_payload self sequence created_at = JObj
     [(''event_id'', JStr (str_uuid (ae_event_id self))),
      (''tenant_id'', JStr (str_uuid (ae_tenant_id self))),
      (''actor_id'', JStr (str_uuid (ae_actor_id self))),
      (''principal_id'', JStr (str_uuid (ae_principal_id self))),
      (''event_type'', JStr (ae_event_type self)),
      (''object_type'', JStr (ae_object_type self)),
      (''object_id'', JStr (ae_object_id self)),
      (''correlation_id'', JStr (str_uuid (ae_correlation_id self))),
      (''details'', JObj (ae_details self)),
      (''sequence'', JInt sequence),
      (''created_at'', JStr (isoformat created_at))]"

text \<open>The text that is hashed: the previous digest, a line break and the canonical payload.\<close>

definition audit_text :: "AuditEvent \<Rightarrow> int \<Rightarrow> string \<Rightarrow> datetime \<Rightarrow> string" where
  "audit_text self sequence previous_digest created_at =
     previous_digest @ CHR 0x0A # dumps_compact (audit_payload self sequence created_at)"

definition chained :: "AuditEvent \<Rightarrow> int \<Rightarrow> string \<Rightarrow> datetime \<Rightarrow> AuditEvent result" where
  "chained self sequence previous_digest created_at =
     thenE (raise_if (sequence \<le> 0 \<or> length previous_digest \<noteq> 64 \<or> tz_missing created_at)
        (ValueError ''audit chain metadata is invalid''))
       (Inr (self\<lparr>ae_sequence := Some sequence, ae_previous_digest := Some previous_digest,
          ae_event_digest := Some (sha256_hexdigest (audit_text self sequence previous_digest created_at)),
          ae_created_at := Some created_at\<rparr>))"

definition genesis_digest :: string where
  "genesis_digest = replicate 64 (CHR ''0'')"

text \<open>The loop of \<open>verify_audit_chain\<close>.\<close>

fun verify_from :: "string \<Rightarrow> int \<Rightarrow> AuditEvent list \<Rightarrow> bool result" where
  "verify_from previous_digest expected_sequence [] = Inr True"
| "verify_from previous_digest expected_sequence (event # events) =
     (if ae_sequence event \<noteq> Some expected_sequence \<or> ae_previous_digest event \<noteq> Some previous_digest
      then Inr False
      else (case (ae_created_at event, ae_event_digest event) of
          (Some created_at, Some digest) \<Rightarrow>
            bindE (chained event expected_sequence previous_digest created_at) (\<lambda>expected.
            if ae_event_digest expected \<noteq> Some digest then Inr False
            else verify_from digest (expected_sequence + 1) events)
        | _ \<Rightarrow> Inr False))"

definition verify_audit_chain :: "AuditEvent list \<Rightarrow> bool result" where
  "verify_audit_chain events = bindE (verify_from genesis_digest 1 events) (\<lambda>ok.
     Inr (ok \<and> events \<noteq> []))"

text \<open>
  The event that \<open>InMemoryPlatformStore.record_audit\<close> appends: it continues the chain of the
  last event of the same tenant.
\<close>

definition next_audit :: "AuditEvent list \<Rightarrow> AuditEvent \<Rightarrow> int \<Rightarrow> AuditEvent result" where
  "next_audit audits audit now =
     (case find (\<lambda>item. ae_tenant_id item = ae_tenant_id audit) (rev audits) of
        None \<Rightarrow> chained audit 1 genesis_digest (Aware now)
      | Some previous \<Rightarrow> chained audit
          ((case ae_sequence previous of None \<Rightarrow> 0 | Some n \<Rightarrow> n) + 1)
          (case ae_event_digest previous of None \<Rightarrow> genesis_digest
             | Some d \<Rightarrow> if d = [] then genesis_digest else d)
          (Aware now))"

subsection \<open>Appending keeps the chain verified\<close>

text \<open>The digest the chain has reached, and the verdict spelled out.\<close>

fun head_digest :: "string \<Rightarrow> AuditEvent list \<Rightarrow> string" where
  "head_digest d [] = d"
| "head_digest d (e # es) = head_digest (case ae_event_digest e of Some x \<Rightarrow> x | None \<Rightarrow> d) es"

definition event_ok :: "string \<Rightarrow> int \<Rightarrow> AuditEvent \<Rightarrow> bool" where
  "event_ok previous_digest sequence e = (\<exists>at. ae_sequence e = Some sequence
     \<and> ae_previous_digest e = Some previous_digest \<and> ae_created_at e = Some at \<and> \<not> tz_missing at
     \<and> 0 < sequence \<and> length previous_digest = 64
     \<and> ae_event_digest e = Some (sha256_hexdigest (audit_text e sequence previous_digest at)))"

lemma verify_from_Cons:
  "verify_from p s (e # es) = Inr True \<longleftrightarrow>
     event_ok p s e \<and> verify_from (the (ae_event_digest e)) (s + 1) es = Inr True"
proof (cases "ae_created_at e")
  case None
  then show ?thesis by (simp add: event_ok_def)
next
  case at: (Some at)
  show ?thesis
  proof (cases "ae_event_digest e")
    case None
    then show ?thesis using at by (simp add: event_ok_def)
  next
    case (Some d)
    then show ?thesis using at
      by (cases "s \<le> 0 \<or> length p \<noteq> 64 \<or> tz_missing at")
        (auto simp: event_ok_def chained_def)
  qed
qed

lemma verify_from_append:
  "verify_from p s (es @ fs) = Inr True \<longleftrightarrow>
     verify_from p s es = Inr True \<and> verify_from (head_digest p es) (s + int (length es)) fs = Inr True"
proof (induction es arbitrary: p s)
  case (Cons e es)
  have "head_digest p (e # es) = head_digest (the (ae_event_digest e)) es" if "event_ok p s e"
    using that by (auto simp: event_ok_def)
  with Cons.IH show ?case
    by (simp only: append_Cons verify_from_Cons) (auto simp: algebra_simps)
qed simp

lemma verify_from_snoc:
  "verify_from p s (es @ [e]) = Inr True \<longleftrightarrow>
     verify_from p s es = Inr True \<and> event_ok (head_digest p es) (s + int (length es)) e"
  by (simp only: verify_from_append verify_from_Cons) simp

lemma head_digest_snoc: "head_digest p (es @ [e]) = (case ae_event_digest e of Some x \<Rightarrow> x | None \<Rightarrow> head_digest p es)"
  by (induction es arbitrary: p) (auto split: option.splits)

lemma length_head_digest:
  "verify_from p s es = Inr True \<Longrightarrow> length p = 64 \<Longrightarrow> length (head_digest p es) = 64"
proof (induction es arbitrary: p s)
  case (Cons e es)
  then have "event_ok p s e" "verify_from (the (ae_event_digest e)) (s + 1) es = Inr True"
    by (simp_all only: verify_from_Cons)
  with Cons.IH show ?case by (auto simp: event_ok_def)
qed simp

text \<open>A tenant's chain is good when it is empty or verifies.\<close>

definition chain_ok :: "AuditEvent list \<Rightarrow> bool" where
  "chain_ok es = (verify_from genesis_digest 1 es = Inr True)"

lemma verify_audit_chain_iff: "verify_audit_chain es = Inr True \<longleftrightarrow> chain_ok es \<and> es \<noteq> []"
  by (auto simp: verify_audit_chain_def chain_ok_def result_simps)

lemma chain_ok_Nil [simp]: "chain_ok []"
  by (simp add: chain_ok_def)

lemma audit_text_frame [simp]:
  "audit_text (e\<lparr>ae_sequence := a, ae_previous_digest := b, ae_event_digest := c, ae_created_at := d\<rparr>) s p at
     = audit_text e s p at"
  by (simp add: audit_text_def audit_payload_def)

lemma find_rev_filter:
  "find P (rev xs) = (if filter P xs = [] then None else Some (last (filter P xs)))"
  by (induction xs rule: rev_induct) auto

abbreviation tenant_audits :: "uuid \<Rightarrow> AuditEvent list \<Rightarrow> AuditEvent list" where
  "tenant_audits t es \<equiv> filter (\<lambda>e. ae_tenant_id e = t) es"

lemma length_genesis [simp]: "length genesis_digest = 64"
  by (simp add: genesis_digest_def)

lemma next_audit_chained:
  assumes "chain_ok (tenant_audits (ae_tenant_id a) es)"
  shows "next_audit es a now = chained a (1 + int (length (tenant_audits (ae_tenant_id a) es)))
     (head_digest genesis_digest (tenant_audits (ae_tenant_id a) es)) (Aware now)"
proof (cases "tenant_audits (ae_tenant_id a) es" rule: rev_cases)
  case Nil
  then show ?thesis by (simp add: next_audit_def find_rev_filter)
next
  case (snoc xs p)
  with assms have "event_ok (head_digest genesis_digest xs) (1 + int (length xs)) p"
    by (simp add: chain_ok_def verify_from_snoc)
  then show ?thesis
    using snoc by (auto simp: next_audit_def find_rev_filter event_ok_def head_digest_snoc
        simp flip: length_0_conv)
qed

lemma next_audit_ok:
  assumes "chain_ok (tenant_audits (ae_tenant_id a) es)"
  shows "\<exists>e. next_audit es a now = Inr e \<and> ae_tenant_id e = ae_tenant_id a
     \<and> chain_ok (tenant_audits (ae_tenant_id a) es @ [e])"
proof -
  let ?es = "tenant_audits (ae_tenant_id a) es"
  have "length (head_digest genesis_digest ?es) = 64"
    using assms length_head_digest unfolding chain_ok_def by simp
  then show ?thesis
    using assms by (simp add: next_audit_chained chained_def chain_ok_def verify_from_snoc event_ok_def)
qed

lemma next_audit_Inr:
  "next_audit es a now = Inr e \<Longrightarrow> ae_tenant_id e = ae_tenant_id a \<and> ae_event_type e = ae_event_type a
     \<and> ae_object_id e = ae_object_id a \<and> ae_object_type e = ae_object_type a
     \<and> ae_actor_id e = ae_actor_id a \<and> ae_details e = ae_details a"
  by (auto simp: next_audit_def chained_def result_simps split: option.splits)

lemma chain_ok_append:
  assumes ok: "\<And>t. chain_ok (tenant_audits t es)" and "next_audit es a now = Inr e"
  shows "chain_ok (tenant_audits t (es @ [e]))"
proof (cases "t = ae_tenant_id a")
  case True
  with next_audit_ok [OF ok, of a now] assms(2) show ?thesis by auto
next
  case False
  with next_audit_Inr [OF assms(2)] ok show ?thesis by auto
qed

subsection \<open>Tampering shows\<close>

text \<open>The text whose digest the event carries.\<close>

definition event_text :: "AuditEvent \<Rightarrow> string" where
  "event_text e = audit_text e (the (ae_sequence e)) (the (ae_previous_digest e)) (the (ae_created_at e))"

lemma event_text_split:
  assumes "event_ok p s e" "event_ok p' s' e'" "event_text e = event_text e'"
  shows "p = p' \<and> dumps_compact (audit_payload e s (the (ae_created_at e)))
     = dumps_compact (audit_payload e' s' (the (ae_created_at e')))"
  using assms by (auto simp: event_ok_def event_text_def audit_text_def)

lemma chains_agree:
  assumes "verify_from p s es = Inr True" "verify_from p s fs = Inr True" "length es = length fs"
    and "head_digest p es = head_digest p fs" and "\<forall>i < length es. \<not> collides (event_text (es ! i)) (event_text (fs ! i))"
  shows "map event_text es = map event_text fs"
  using assms(3,1,2,4,5)
proof (induction es fs rule: rev_induct2)
  case (4 e es f fs)
  then have len: "length es = length fs" by simp
  have ok: "event_ok (head_digest p es) (s + int (length es)) e" "verify_from p s es = Inr True"
      "event_ok (head_digest p fs) (s + int (length fs)) f" "verify_from p s fs = Inr True"
    using "4.prems" by (simp_all add: verify_from_snoc)
  have "sha256_hexdigest (event_text e) = sha256_hexdigest (event_text f)"
    using "4.prems" ok by (auto simp: head_digest_snoc event_ok_def event_text_def)
  moreover have "\<not> collides (event_text e) (event_text f)"
    using "4.prems"(5) [rule_format, of "length es"] len by (simp add: nth_append)
  ultimately have eq: "event_text e = event_text f" by (rule digest_eqD)
  with event_text_split [OF ok(1,3)] have "head_digest p es = head_digest p fs" by blast
  moreover have "\<not> collides (event_text (es ! i)) (event_text (fs ! i))" if "i < length es" for i
    using "4.prems"(5) [rule_format, of i] that len by (simp add: nth_append)
  ultimately show ?case using "4.IH" ok len eq by simp
qed auto


definition sample_event :: AuditEvent where
  "sample_event = \<lparr>ae_tenant_id = 1, ae_actor_id = 7, ae_principal_id = 7, ae_event_type = ''goal.created'',
     ae_object_type = ''goal'', ae_object_id = ''g'', ae_correlation_id = 9, ae_details = [],
     ae_event_id = 70, ae_sequence = None, ae_previous_digest = None, ae_event_digest = None,
     ae_created_at = None\<rparr>"

lemma next_audit_first_chain: "\<exists>e. next_audit [] a now = Inr e \<and> verify_audit_chain [e] = Inr True"
  using next_audit_ok [of a "[]" now] by (auto simp: verify_audit_chain_iff)


end
