(* ===== verification/Context_Domain.thy ===== *)
theory Context_Domain
  imports Values Complex_Main
begin

text \<open>
  \<open>packages/domain/src/autonoesis_domain/context.py\<close>: environment facts, knowledge references,
  memory records and reproducible context snapshots. A confidence is a rational; the constructor
  rejects non-finite floats, so they never reach an object.
\<close>

datatype TrustLevel = UNTRUSTED | ADVISORY | AUTHORITATIVE

fun TrustLevel_value :: "TrustLevel \<Rightarrow> string" where
  "TrustLevel_value UNTRUSTED = ''untrusted''"
| "TrustLevel_value ADVISORY = ''advisory''"
| "TrustLevel_value AUTHORITATIVE = ''authoritative''"

datatype FreshnessPolicy = STRICT | WARN | LAX

fun FreshnessPolicy_value :: "FreshnessPolicy \<Rightarrow> string" where
  "FreshnessPolicy_value STRICT = ''strict''"
| "FreshnessPolicy_value WARN = ''warn''"
| "FreshnessPolicy_value LAX = ''lax''"

datatype MemoryStatus = M_PROPOSED | M_STABLE | M_DELETED

record EnvironmentFact =
  fact_tenant_id :: uuid
  fact_id :: string
  fact_source :: string
  fact_source_authority :: string
  fact_subject :: string
  fact_value :: "(string \<times> json) list"
  fact_observed_at :: datetime
  fact_valid_until :: datetime
  fact_trust :: TrustLevel
  fact_classification :: DataClassification
  fact_freshness_policy :: FreshnessPolicy
  fact_allowed_roles :: "string list"
  fact_allowed_purposes :: "string list"
  fact_visible_fields :: "string list"

definition EnvironmentFact_post_init :: "EnvironmentFact \<Rightarrow> EnvironmentFact result" where
  "EnvironmentFact_post_init self =
     thenE (raise_if (list_ex blank
          [fact_id self, fact_source self, fact_source_authority self, fact_subject self])
        (ValueError ''environment fact identity, authority, and subject are required''))
    (thenE (raise_if (tz_missing (fact_observed_at self) \<or> tz_missing (fact_valid_until self))
        (ValueError ''environment fact timestamps must be timezone-aware''))
    (thenE (raise_if (dt_lt (fact_valid_until self) (fact_observed_at self))
        (ValueError ''environment fact validity cannot end before observation''))
    (thenE (raise_if (fact_visible_fields self \<noteq> []
          \<and> \<not> set (map fst (fact_value self)) \<subseteq> set (fact_visible_fields self))
        (ValueError ''environment fact contains fields outside its column ACL''))
       (Inr self))))"

record KnowledgeRef =
  know_tenant_id :: uuid
  knowledge_id :: string
  know_version :: string
  know_source :: string
  know_citation :: string
  know_trust :: TrustLevel
  know_classification :: DataClassification
  know_allowed_roles :: "string list"
  know_allowed_purposes :: "string list"

record MemoryRecord =
  mem_tenant_id :: uuid
  mem_scope :: string
  mem_content :: string
  mem_provenance :: "string list"
  mem_confidence :: rat
  mem_expires_at :: datetime
  mem_approved_by :: uuid
  mem_classification :: DataClassification
  mem_purpose :: string
  mem_contains_pii :: bool
  mem_conflict_keys :: "string list"
  mem_source_trust :: TrustLevel
  mem_status :: MemoryStatus
  memory_id :: uuid
  mem_created_at :: datetime

definition MemoryRecord_post_init :: "MemoryRecord \<Rightarrow> MemoryRecord result" where
  "MemoryRecord_post_init self =
     thenE (raise_if (\<not> (0 \<le> mem_confidence self \<and> mem_confidence self \<le> 1))
        (ValueError ''memory confidence must be between zero and one''))
    (thenE (raise_if (mem_provenance self = [] \<or> blank (mem_scope self) \<or> blank (mem_purpose self))
        (ValueError ''memory requires provenance, scope, and purpose''))
    (thenE (raise_if (tz_missing (mem_expires_at self) \<or> tz_missing (mem_created_at self))
        (ValueError ''memory timestamps must be timezone-aware''))
    (thenE (raise_if (dt_le (mem_expires_at self) (mem_created_at self))
        (ValueError ''memory TTL must expire after creation''))
       (Inr self))))"

definition MemoryRecord_stabilize :: "MemoryRecord \<Rightarrow> MemoryRecord result" where
  "MemoryRecord_stabilize self =
     thenE (raise_if (mem_status self \<noteq> M_PROPOSED)
        (ValueError ''only proposed memory can pass the Write Gate''))
       (MemoryRecord_post_init (self\<lparr>mem_status := M_STABLE\<rparr>))"

definition MemoryRecord_mark_deleted :: "MemoryRecord \<Rightarrow> MemoryRecord result" where
  "MemoryRecord_mark_deleted self =
     (if mem_status self = M_DELETED then Inr self
      else MemoryRecord_post_init (self\<lparr>mem_status := M_DELETED\<rparr>))"

record ContextSnapshot =
  ctx_tenant_id :: uuid
  ctx_goal_id :: uuid
  ctx_run_id :: uuid
  ctx_environment_facts :: "EnvironmentFact list"
  ctx_knowledge_refs :: "KnowledgeRef list"
  ctx_memory_ids :: "uuid list"
  ctx_history_digest :: string
  ctx_tool_versions :: "string list"
  ctx_policy_version :: string
  ctx_conflicts :: "string list"
  ctx_security_boundaries :: "string list"
  snapshot_id :: uuid
  ctx_created_at :: datetime

definition ContextSnapshot_post_init :: "ContextSnapshot \<Rightarrow> ContextSnapshot result" where
  "ContextSnapshot_post_init self =
     thenE (raise_if (blank (ctx_history_digest self) \<or> blank (ctx_policy_version self))
        (ValueError ''context snapshot requires history and policy versions''))
    (thenE (raise_if (tz_missing (ctx_created_at self))
        (ValueError ''context snapshot timestamp must be timezone-aware''))
    (thenE (raise_if (list_ex (\<lambda>fact. fact_tenant_id fact \<noteq> ctx_tenant_id self) (ctx_environment_facts self))
        (ValueError ''cross-tenant environment fact cannot enter a snapshot''))
    (thenE (raise_if (list_ex (\<lambda>ref. know_tenant_id ref \<noteq> ctx_tenant_id self) (ctx_knowledge_refs self))
        (ValueError ''cross-tenant knowledge cannot enter a snapshot''))
       (Inr self))))"

abbreviation jstrs :: "string list \<Rightarrow> json" where
  "jstrs ss \<equiv> JList (map JStr ss)"

text \<open>\<open>sorted(frozenset)\<close>.\<close>

definition sorted_set :: "string list \<Rightarrow> string list" where
  "sorted_set ss = sort (remdups ss)"

definition fact_payload :: "EnvironmentFact \<Rightarrow> json" where
  "fact_payload item = JObj
     [(''fact_id'', JStr (fact_id item)),
      (''source'', JStr (fact_source item)),
      (''source_authority'', JStr (fact_source_authority item)),
      (''subject'', JStr (fact_subject item)),
      (''value'', JObj (fact_value item)),
      (''observed_at'', JStr (isoformat (fact_observed_at item))),
      (''valid_until'', JStr (isoformat (fact_valid_until item))),
      (''trust'', JStr (TrustLevel_value (fact_trust item))),
      (''classification'', JStr (DataClassification_value (fact_classification item))),
      (''freshness_policy'', JStr (FreshnessPolicy_value (fact_freshness_policy item))),
      (''allowed_roles'', jstrs (sorted_set (fact_allowed_roles item))),
      (''allowed_purposes'', jstrs (sorted_set (fact_allowed_purposes item))),
      (''visible_fields'', jstrs (fact_visible_fields item))]"

definition knowledge_payload :: "KnowledgeRef \<Rightarrow> json" where
  "knowledge_payload item = JObj
     [(''knowledge_id'', JStr (knowledge_id item)),
      (''version'', JStr (know_version item)),
      (''source'', JStr (know_source item)),
      (''citation'', JStr (know_citation item)),
      (''trust'', JStr (TrustLevel_value (know_trust item))),
      (''classification'', JStr (DataClassification_value (know_classification item))),
      (''allowed_roles'', jstrs (sorted_set (know_allowed_roles item))),
      (''allowed_purposes'', jstrs (sorted_set (know_allowed_purposes item)))]"

definition ContextSnapshot_content_digest :: "ContextSnapshot \<Rightarrow> string" where
  "ContextSnapshot_content_digest self = sha256_hexdigest (dumps_compact (JObj
     [(''tenant_id'', JStr (str_uuid (ctx_tenant_id self))),
      (''goal_id'', JStr (str_uuid (ctx_goal_id self))),
      (''run_id'', JStr (str_uuid (ctx_run_id self))),
      (''environment_facts'', JList (map fact_payload (ctx_environment_facts self))),
      (''knowledge_refs'', JList (map knowledge_payload (ctx_knowledge_refs self))),
      (''memory_ids'', jstrs (map str_uuid (ctx_memory_ids self))),
      (''history_digest'', JStr (ctx_history_digest self)),
      (''tool_versions'', jstrs (ctx_tool_versions self)),
      (''policy_version'', JStr (ctx_policy_version self)),
      (''conflicts'', jstrs (ctx_conflicts self)),
      (''security_boundaries'', jstrs (ctx_security_boundaries self))]))"

subsection \<open>Validity\<close>

definition context_valid :: "ContextSnapshot \<Rightarrow> bool" where
  "context_valid c = is_ok (ContextSnapshot_post_init c)"

definition memory_valid :: "MemoryRecord \<Rightarrow> bool" where
  "memory_valid m = is_ok (MemoryRecord_post_init m)"

definition fact_valid :: "EnvironmentFact \<Rightarrow> bool" where
  "fact_valid f = is_ok (EnvironmentFact_post_init f)"

lemma ContextSnapshot_post_init_Inr [simp]:
  "ContextSnapshot_post_init c = Inr c' \<longleftrightarrow> c' = c \<and> context_valid c"
  by (auto simp: context_valid_def is_ok_iff ContextSnapshot_post_init_def result_simps)

lemma context_valid_iff:
  "context_valid c \<longleftrightarrow> \<not> blank (ctx_history_digest c) \<and> \<not> blank (ctx_policy_version c)
     \<and> \<not> tz_missing (ctx_created_at c)
     \<and> list_all (\<lambda>f. fact_tenant_id f = ctx_tenant_id c) (ctx_environment_facts c)
     \<and> list_all (\<lambda>k. know_tenant_id k = ctx_tenant_id c) (ctx_knowledge_refs c)"
  by (auto simp: context_valid_def is_ok_iff ContextSnapshot_post_init_def result_simps list_ex_iff list_all_iff)

lemma MemoryRecord_post_init_Inr [simp]:
  "MemoryRecord_post_init m = Inr m' \<longleftrightarrow> m' = m \<and> memory_valid m"
  by (auto simp: memory_valid_def is_ok_iff MemoryRecord_post_init_def result_simps)

lemma EnvironmentFact_post_init_Inr [simp]:
  "EnvironmentFact_post_init f = Inr f' \<longleftrightarrow> f' = f \<and> fact_valid f"
  by (auto simp: fact_valid_def is_ok_iff EnvironmentFact_post_init_def result_simps)

lemma memory_valid_status [simp]: "memory_valid (m\<lparr>mem_status := s\<rparr>) = memory_valid m"
  by (auto simp: memory_valid_def is_ok_iff MemoryRecord_post_init_def result_simps)

text \<open>The write gate opens once: a stable or deleted record never becomes stable again.\<close>

lemma stabilize_Inr:
  "MemoryRecord_stabilize m = Inr m' \<longleftrightarrow>
     mem_status m = M_PROPOSED \<and> memory_valid m \<and> m' = m\<lparr>mem_status := M_STABLE\<rparr>"
  by (auto simp: MemoryRecord_stabilize_def result_simps)

lemma mark_deleted_idem:
  "MemoryRecord_mark_deleted m = Inr m' \<Longrightarrow> MemoryRecord_mark_deleted m' = Inr m' \<and> mem_status m' = M_DELETED"
  by (auto simp: MemoryRecord_mark_deleted_def split: if_splits)

text \<open>The digest does not see the identity and the creation time of the copy.\<close>

lemma content_digest_reproducible:
  "ContextSnapshot_content_digest (c\<lparr>snapshot_id := i, ctx_created_at := d\<rparr>) = ContextSnapshot_content_digest c"
  by (simp add: ContextSnapshot_content_digest_def)

end
