(* ===== verification/Lifecycle.thy ===== *)
theory Lifecycle
  imports Values
begin

text \<open>
  The contract that every governed aggregate of the domain shares (Goal, Run, Task, Action,
  Candidate, Deployment): \<open>transition_to\<close> moves along a fixed table, bumps the optimistic
  version by one and appends one \<open>StateTransition\<close>. The consequences are proved once, inside
  the locale, and each aggregate's theory interprets it on its own definitions.
\<close>

subsection \<open>Histories\<close>

text \<open>
  A history is linked from status \<open>a\<close> to status \<open>b\<close> when every entry starts where the
  previous one ended.
\<close>

fun linked :: "string \<Rightarrow> StateTransition list \<Rightarrow> string \<Rightarrow> bool" where
  "linked a [] b = (a = b)"
| "linked a (t # ts) b = (from_status t = a \<and> linked (to_status t) ts b)"

lemma linked_append: "linked a (xs @ ys) c \<longleftrightarrow> (\<exists>b. linked a xs b \<and> linked b ys c)"
  by (induction xs arbitrary: a) auto

lemma linked_snoc:
  "linked a xs (from_status t) \<Longrightarrow> to_status t = b \<Longrightarrow> linked a (xs @ [t]) b"
  by (auto simp: linked_append)

text \<open>Some sequence of successful transitions leads from one object to another.\<close>

inductive transitions_run ::
  "('o \<Rightarrow> 's \<Rightarrow> uuid \<Rightarrow> string \<Rightarrow> datetime \<Rightarrow> 'o result) \<Rightarrow> 'o \<Rightarrow> 'o \<Rightarrow> bool"
  for transition_to where
  run_refl: "transitions_run transition_to x x"
| run_step: "transitions_run transition_to x y \<Longrightarrow> transition_to y t a r at = Inr z \<Longrightarrow>
     transitions_run transition_to x z"

subsection \<open>The contract\<close>

locale lifecycle =
  fixes val :: "'s \<Rightarrow> string"
    and table :: "'s transition_table"
    and status_of :: "'o \<Rightarrow> 's"
    and history_of :: "'o \<Rightarrow> StateTransition list"
    and version_of :: "'o \<Rightarrow> int"
    and transition_to :: "'o \<Rightarrow> 's \<Rightarrow> uuid \<Rightarrow> string \<Rightarrow> datetime \<Rightarrow> 'o result"
  assumes step_allowed: "transition_to x t a r at = Inr y \<Longrightarrow> t \<in> set (allowed_targets table (status_of x))"
    and step_status: "transition_to x t a r at = Inr y \<Longrightarrow> status_of y = t"
    and step_version: "transition_to x t a r at = Inr y \<Longrightarrow> version_of y = version_of x + 1"
    and step_history: "transition_to x t a r at = Inr y \<Longrightarrow>
      history_of y = history_of x @ [\<lparr>from_status = val (status_of x), to_status = val t,
        occurred_at = at, st_reason = r, st_actor_id = a\<rparr>]"
begin

definition terminal :: "'s \<Rightarrow> bool" where
  "terminal s = (allowed_targets table s = [])"

definition moves :: "('s \<times> 's) set" where
  "moves = {(s, t). t \<in> set (allowed_targets table s)}"

lemma rejected: "t \<notin> set (allowed_targets table (status_of x)) \<Longrightarrow> \<exists>e. transition_to x t a r at = Inl e"
  using step_allowed by (cases "transition_to x t a r at") auto

lemma terminal_rejects: "terminal (status_of x) \<Longrightarrow> \<exists>e. transition_to x t a r at = Inl e"
  by (rule rejected) (simp add: terminal_def)

lemma run_moves: "transitions_run transition_to x y \<Longrightarrow> (status_of x, status_of y) \<in> moves\<^sup>*"
proof (induction rule: transitions_run.induct)
  case (run_step x y t a r at z)
  then have "(status_of y, status_of z) \<in> moves"
    by (auto simp: moves_def step_status dest: step_allowed)
  with run_step.IH show ?case by (rule rtrancl_into_rtrancl)
qed simp

lemma run_terminal: "transitions_run transition_to x y \<Longrightarrow> terminal (status_of x) \<Longrightarrow> y = x"
proof (induction rule: transitions_run.induct)
  case (run_step x y t a r at z)
  then show ?case using terminal_rejects [of y t a r at] by auto
qed simp

text \<open>The version counts the recorded transitions and the recorded history never has a gap.\<close>

lemma run_history:
  "transitions_run transition_to x y \<Longrightarrow>
     \<exists>new. history_of y = history_of x @ new \<and> linked (val (status_of x)) new (val (status_of y))
       \<and> version_of y = version_of x + int (length new)"
proof (induction rule: transitions_run.induct)
  case (run_refl x)
  show ?case by simp
next
  case (run_step x y t a r at z)
  then obtain new where IH: "history_of y = history_of x @ new"
      "linked (val (status_of x)) new (val (status_of y))"
      "version_of y = version_of x + int (length new)" by blast
  have "linked (val (status_of x)) (new @ [\<lparr>from_status = val (status_of y), to_status = val t,
      occurred_at = at, st_reason = r, st_actor_id = a\<rparr>]) (val (status_of z))"
    using IH(2) run_step.hyps(2) by (auto intro!: linked_snoc simp: step_status)
  then show ?case
    using IH run_step.hyps(2) step_version step_history by (intro exI conjI) auto
qed

lemma run_version_mono: "transitions_run transition_to x y \<Longrightarrow> version_of x \<le> version_of y"
  using run_history by force

end

end
