(* ===== verification/Goals.thy ===== *)
theory Goals
  imports Lifecycle
begin

text \<open>
  \<open>packages/domain/src/autonoesis_domain/goals.py\<close>: the Goal, Session and Run aggregates.
  Field names carry the aggregate's name; a timestamp that the source defaults to
  \<open>datetime.now(UTC)\<close> is the argument \<open>at\<close>.
\<close>

subsection \<open>Statuses and transition tables\<close>

datatype GoalStatus = G_DRAFT | G_ACTIVE | G_PAUSED | G_SATISFIED | G_FAILED | G_CANCELLED

fun GoalStatus_value :: "GoalStatus \<Rightarrow> string" where
  "GoalStatus_value G_DRAFT = ''draft''"
| "GoalStatus_value G_ACTIVE = ''active''"
| "GoalStatus_value G_PAUSED = ''paused''"
| "GoalStatus_value G_SATISFIED = ''satisfied''"
| "GoalStatus_value G_FAILED = ''failed''"
| "GoalStatus_value G_CANCELLED = ''cancelled''"

datatype SessionStatus = S_OPEN | S_CLOSED

datatype RunStatus =
  R_PENDING | R_RUNNING | R_BLOCKED | R_AWAITING_EVIDENCE | R_SUCCEEDED | R_FAILED | R_CANCELLED

fun RunStatus_value :: "RunStatus \<Rightarrow> string" where
  "RunStatus_value R_PENDING = ''pending''"
| "RunStatus_value R_RUNNING = ''running''"
| "RunStatus_value R_BLOCKED = ''blocked''"
| "RunStatus_value R_AWAITING_EVIDENCE = ''awaiting_evidence''"
| "RunStatus_value R_SUCCEEDED = ''succeeded''"
| "RunStatus_value R_FAILED = ''failed''"
| "RunStatus_value R_CANCELLED = ''cancelled''"

definition GOAL_TRANSITIONS :: "GoalStatus transition_table" where
  "GOAL_TRANSITIONS =
    [(G_DRAFT, [G_ACTIVE, G_CANCELLED]),
     (G_ACTIVE, [G_PAUSED, G_SATISFIED, G_FAILED, G_CANCELLED]),
     (G_PAUSED, [G_ACTIVE, G_FAILED, G_CANCELLED])]"

definition RUN_TRANSITIONS :: "RunStatus transition_table" where
  "RUN_TRANSITIONS =
    [(R_PENDING, [R_RUNNING, R_CANCELLED]),
     (R_RUNNING, [R_BLOCKED, R_AWAITING_EVIDENCE, R_SUCCEEDED, R_FAILED, R_CANCELLED]),
     (R_BLOCKED, [R_RUNNING, R_FAILED, R_CANCELLED]),
     (R_AWAITING_EVIDENCE, [R_SUCCEEDED, R_FAILED, R_CANCELLED])]"

subsection \<open>Subjects and success criteria\<close>

record SubjectRef =
  subj_system :: string
  subject_type :: string
  subject_id :: string
  subj_version :: "string option"

definition SubjectRef_post_init :: "SubjectRef \<Rightarrow> SubjectRef result" where
  "SubjectRef_post_init self =
     thenE (raise_if (list_ex blank [subj_system self, subject_type self, subject_id self])
        (ValueError ''subject system, type, and id must not be empty''))
       (Inr self)"

record SuccessCriterion =
  criterion_id :: string
  crit_description :: string
  crit_evidence_type :: string

definition SuccessCriterion_post_init :: "SuccessCriterion \<Rightarrow> SuccessCriterion result" where
  "SuccessCriterion_post_init self =
     thenE (raise_if (list_ex blank [criterion_id self, crit_description self, crit_evidence_type self])
        (ValueError ''success criterion fields must not be empty''))
       (Inr self)"

subsection \<open>GoalContract\<close>

record GoalContract =
  goal_tenant_id :: uuid
  goal_type :: string
  goal_statement :: string
  goal_desired_outcome :: string
  goal_subject_refs :: "SubjectRef list"
  goal_success_criteria :: "SuccessCriterion list"
  goal_constraints :: "string list"
  goal_owner_id :: uuid
  goal_risk_tier :: RiskTier
  goal_budget_limit :: BudgetAmount
  goal_deadline :: datetime
  goal_input_payload :: JsonObject
  goal_delegation_id :: "uuid option"
  goal_data_policy :: DataPolicy
  goal_execution_mode :: ExecutionMode
  goal_max_concurrent_runs :: int
  goal_id :: uuid
  goal_version :: int
  goal_status :: GoalStatus
  goal_created_at :: datetime
  goal_transitions :: "StateTransition list"

definition GoalContract_post_init :: "GoalContract \<Rightarrow> GoalContract result" where
  "GoalContract_post_init self =
     thenE (raise_if (list_ex blank [goal_type self, goal_statement self, goal_desired_outcome self])
        (ValueError ''goal type, statement, and desired outcome must not be empty''))
    (thenE (raise_if (goal_subject_refs self = [] \<or> goal_success_criteria self = [])
        (ValueError ''goal requires subjects and success criteria''))
    (thenE (raise_if (amount (goal_budget_limit self) \<le> 0) (ValueError ''goal budget must be positive''))
    (thenE (raise_if (goal_max_concurrent_runs self \<le> 0)
        (ValueError ''goal concurrent run limit must be positive''))
    (thenE (raise_if (goal_version self < 1) (ValueError ''goal version must be positive''))
    (thenE (raise_if (tz_missing (goal_deadline self) \<or> tz_missing (goal_created_at self))
        (ValueError ''goal timestamps must be timezone-aware''))
    (thenE (raise_if (dt_le (goal_deadline self) (goal_created_at self))
        (ValueError ''goal deadline must be after creation''))
       (Inr self)))))))"

definition GoalContract_transition_to ::
  "GoalContract \<Rightarrow> GoalStatus \<Rightarrow> uuid \<Rightarrow> string \<Rightarrow> datetime \<Rightarrow> GoalContract result" where
  "GoalContract_transition_to self target actor_id reason at =
     thenE (require_transition GoalStatus_value (goal_status self) target GOAL_TRANSITIONS)
    (bindE (if target = G_ACTIVE then dt_geE at (goal_deadline self) else Inr False) (\<lambda>expired.
     thenE (raise_if expired (ValueError ''expired goal cannot be activated''))
    (bindE (transition_record GoalStatus_value (goal_status self) target actor_id reason at) (\<lambda>transition.
     GoalContract_post_init (self\<lparr>goal_status := target, goal_version := goal_version self + 1,
       goal_transitions := goal_transitions self @ [transition]\<rparr>)))))"

definition assert_run_request_allowed :: "GoalContract \<Rightarrow> int \<Rightarrow> datetime \<Rightarrow> unit result" where
  "assert_run_request_allowed self active_run_count now =
     thenE (raise_if (goal_status self \<noteq> G_ACTIVE) (ValueError ''run requires an active goal''))
    (bindE (dt_geE now (goal_deadline self)) (\<lambda>expired.
     thenE (raise_if expired (ValueError ''run cannot be requested for an expired goal''))
    (thenE (raise_if (active_run_count \<ge> goal_max_concurrent_runs self)
        (ValueError ''goal concurrent run limit reached''))
       (Inr ()))))"

subsection \<open>Session\<close>

record Session =
  sess_tenant_id :: uuid
  sess_actor_id :: uuid
  sess_channel :: string
  sess_goal_ids :: "uuid list"
  session_id :: uuid
  sess_status :: SessionStatus
  sess_created_at :: datetime

definition Session_close :: "Session \<Rightarrow> Session" where
  "Session_close self = (if sess_status self = S_CLOSED then self else self\<lparr>sess_status := S_CLOSED\<rparr>)"

subsection \<open>Run\<close>

record RunExecutionSnapshot =
  snap_plan_id :: uuid
  snap_context_snapshot_id :: uuid
  snap_agent_version_id :: uuid
  snap_skill_versions :: "string list"
  snap_tool_versions :: "string list"
  snap_model_route :: string
  snap_policy_version :: string

text \<open>\<open>"@" not in version or not version.strip("@")\<close>.\<close>

definition mutable_reference :: "string \<Rightarrow> bool" where
  "mutable_reference version = (CHR ''@'' \<notin> set version \<or> list_all (\<lambda>c. c = CHR ''@'') version)"

definition RunExecutionSnapshot_post_init :: "RunExecutionSnapshot \<Rightarrow> RunExecutionSnapshot result" where
  "RunExecutionSnapshot_post_init self =
     thenE (raise_if (blank (snap_model_route self) \<or> blank (snap_policy_version self))
        (ValueError ''run model route and policy version must not be empty''))
    (thenE (forE (\<lambda>(versions, label).
        thenE (raise_if (list_ex mutable_reference versions)
            (ValueError (''run '' @ label @ '' versions must use immutable name@version references'')))
          (raise_if (\<not> distinct versions) (ValueError (''run '' @ label @ '' versions must be unique''))))
        [(snap_skill_versions self, ''skill''), (snap_tool_versions self, ''tool'')])
       (Inr self))"

record Run =
  run_tenant_id :: uuid
  run_goal_id :: uuid
  run_agent_version_id :: uuid
  run_execution_snapshot :: "RunExecutionSnapshot option"
  run_id :: uuid
  run_status :: RunStatus
  run_optimistic_version :: int
  run_created_at :: datetime
  run_transitions :: "StateTransition list"
  run_deployment_id :: "uuid option"

definition Run_post_init :: "Run \<Rightarrow> Run result" where
  "Run_post_init self =
     thenE (raise_if (tz_missing (run_created_at self))
        (ValueError ''run creation timestamp must be timezone-aware''))
    (thenE (raise_if (run_optimistic_version self < 1)
        (ValueError ''run optimistic version must be positive''))
       (Inr self))"

definition Run_bind_execution :: "Run \<Rightarrow> RunExecutionSnapshot \<Rightarrow> Run result" where
  "Run_bind_execution self snapshot =
     thenE (raise_if (run_status self \<noteq> R_PENDING)
        (ValueError ''execution snapshot can only be bound while run is pending''))
    (thenE (raise_if (run_execution_snapshot self \<noteq> None \<and> run_execution_snapshot self \<noteq> Some snapshot)
        (ValueError ''run execution snapshot is immutable once bound''))
    (thenE (raise_if (snap_agent_version_id snapshot \<noteq> run_agent_version_id self)
        (ValueError ''run and snapshot agent versions must match''))
       (Run_post_init (self\<lparr>run_execution_snapshot := Some snapshot\<rparr>))))"

definition Run_transition_to :: "Run \<Rightarrow> RunStatus \<Rightarrow> uuid \<Rightarrow> string \<Rightarrow> datetime \<Rightarrow> Run result" where
  "Run_transition_to self target actor_id reason at =
     thenE (require_transition RunStatus_value (run_status self) target RUN_TRANSITIONS)
    (thenE (raise_if (target = R_RUNNING \<and> run_execution_snapshot self = None)
        (ValueError ''run requires a fixed execution snapshot before starting''))
    (bindE (transition_record RunStatus_value (run_status self) target actor_id reason at) (\<lambda>transition.
     Run_post_init (self\<lparr>run_status := target,
       run_optimistic_version := run_optimistic_version self + 1,
       run_transitions := run_transitions self @ [transition]\<rparr>))))"

subsection \<open>Validity\<close>

text \<open>An object is valid when it passes \<open>__post_init__\<close>, which never changes it.\<close>

definition goal_valid :: "GoalContract \<Rightarrow> bool" where
  "goal_valid g = is_ok (GoalContract_post_init g)"

definition run_valid :: "Run \<Rightarrow> bool" where
  "run_valid r = is_ok (Run_post_init r)"

definition snapshot_valid :: "RunExecutionSnapshot \<Rightarrow> bool" where
  "snapshot_valid s = is_ok (RunExecutionSnapshot_post_init s)"

lemma GoalContract_post_init_Inr [simp]:
  "GoalContract_post_init g = Inr g' \<longleftrightarrow> g' = g \<and> goal_valid g"
  by (auto simp: goal_valid_def is_ok_def GoalContract_post_init_def result_simps split: sum.splits)

lemma Run_post_init_Inr [simp]: "Run_post_init r = Inr r' \<longleftrightarrow> r' = r \<and> run_valid r"
  by (auto simp: run_valid_def is_ok_def Run_post_init_def result_simps split: sum.splits)

lemma RunExecutionSnapshot_post_init_Inr [simp]:
  "RunExecutionSnapshot_post_init s = Inr s' \<longleftrightarrow> s' = s \<and> snapshot_valid s"
  by (auto simp: snapshot_valid_def is_ok_def RunExecutionSnapshot_post_init_def result_simps
      split: sum.splits)

lemma goal_valid_iff:
  "goal_valid g \<longleftrightarrow> \<not> blank (goal_type g) \<and> \<not> blank (goal_statement g) \<and> \<not> blank (goal_desired_outcome g)
     \<and> goal_subject_refs g \<noteq> [] \<and> goal_success_criteria g \<noteq> [] \<and> 0 < amount (goal_budget_limit g)
     \<and> 0 < goal_max_concurrent_runs g \<and> 1 \<le> goal_version g \<and> \<not> tz_missing (goal_deadline g)
     \<and> \<not> tz_missing (goal_created_at g) \<and> dt_lt (goal_created_at g) (goal_deadline g)"
  by (auto simp: goal_valid_def is_ok_def GoalContract_post_init_def result_simps dt_le_def dt_lt_def
      split: sum.splits)

lemma run_valid_iff: "run_valid r \<longleftrightarrow> \<not> tz_missing (run_created_at r) \<and> 1 \<le> run_optimistic_version r"
  by (auto simp: run_valid_def is_ok_def Run_post_init_def result_simps split: sum.splits)

subsection \<open>The lifecycle contract holds\<close>

lemma GoalContract_transition_to_Inr:
  "GoalContract_transition_to g t a reason at = Inr g' \<Longrightarrow> goal_valid g'
     \<and> t \<in> set (allowed_targets GOAL_TRANSITIONS (goal_status g))
     \<and> g' = g\<lparr>goal_status := t, goal_version := goal_version g + 1,
         goal_transitions := goal_transitions g @ [\<lparr>from_status = GoalStatus_value (goal_status g),
           to_status = GoalStatus_value t, occurred_at = at, st_reason = reason, st_actor_id = a\<rparr>]\<rparr>"
  by (auto simp: GoalContract_transition_to_def result_simps transition_record_Inr)

lemma Run_transition_to_Inr:
  "Run_transition_to r t a reason at = Inr r' \<Longrightarrow> run_valid r'
     \<and> t \<in> set (allowed_targets RUN_TRANSITIONS (run_status r))
     \<and> (t = R_RUNNING \<longrightarrow> run_execution_snapshot r \<noteq> None)
     \<and> r' = r\<lparr>run_status := t, run_optimistic_version := run_optimistic_version r + 1,
         run_transitions := run_transitions r @ [\<lparr>from_status = RunStatus_value (run_status r),
           to_status = RunStatus_value t, occurred_at = at, st_reason = reason, st_actor_id = a\<rparr>]\<rparr>"
  by (auto simp: Run_transition_to_def result_simps transition_record_Inr)

interpretation goal_lc: lifecycle GoalStatus_value GOAL_TRANSITIONS goal_status goal_transitions
    goal_version GoalContract_transition_to
  by unfold_locales (drule GoalContract_transition_to_Inr, simp)+

interpretation run_lc: lifecycle RunStatus_value RUN_TRANSITIONS run_status run_transitions
    run_optimistic_version Run_transition_to
  by unfold_locales (drule Run_transition_to_Inr, simp)+

subsection \<open>Behaviour on valid aggregates\<close>

text \<open>
  A transition of a valid object is rejected only by its own guards: the revalidation that
  \<open>replace\<close> performs never fails.
\<close>

lemma Run_transition_to_ok:
  assumes "run_valid r"
  shows "is_ok (Run_transition_to r t a reason at) \<longleftrightarrow>
     t \<in> set (allowed_targets RUN_TRANSITIONS (run_status r))
     \<and> (t = R_RUNNING \<longrightarrow> run_execution_snapshot r \<noteq> None) \<and> \<not> tz_missing at \<and> \<not> blank reason"
  using assms
  by (auto simp: is_ok_iff Run_transition_to_def run_valid_iff result_simps transition_record_Inr)

lemma GoalContract_transition_to_ok:
  assumes "goal_valid g"
  shows "is_ok (GoalContract_transition_to g t a reason (Aware n)) \<longleftrightarrow>
     t \<in> set (allowed_targets GOAL_TRANSITIONS (goal_status g))
     \<and> (t = G_ACTIVE \<longrightarrow> n < instant (goal_deadline g)) \<and> \<not> blank reason"
proof -
  have "dt_geE (Aware n) (goal_deadline g) = Inr (n \<ge> instant (goal_deadline g))"
    using assms by (simp add: goal_valid_iff dt_geE_def)
  with assms show ?thesis
    by (auto simp: is_ok_iff GoalContract_transition_to_def goal_valid_iff result_simps
        transition_record_Inr)
qed

lemma assert_run_request_allowed_Inr:
  "goal_valid g \<Longrightarrow> assert_run_request_allowed g n (Aware now) = Inr () \<longleftrightarrow>
     goal_status g = G_ACTIVE \<and> now < instant (goal_deadline g) \<and> n < goal_max_concurrent_runs g"
  by (auto simp: assert_run_request_allowed_def goal_valid_iff result_simps dt_geE_def)

lemma Run_bind_execution_Inr:
  "Run_bind_execution r s = Inr r' \<longleftrightarrow> run_status r = R_PENDING
     \<and> (run_execution_snapshot r = None \<or> run_execution_snapshot r = Some s)
     \<and> snap_agent_version_id s = run_agent_version_id r
     \<and> run_valid r \<and> r' = r\<lparr>run_execution_snapshot := Some s\<rparr>"
  by (auto simp: Run_bind_execution_def run_valid_iff result_simps)

subsection \<open>The life of a run\<close>

text \<open>The operations of the Run aggregate as steps.\<close>

inductive run_step :: "Run \<Rightarrow> Run \<Rightarrow> bool" where
  run_bind: "Run_bind_execution r s = Inr r' \<Longrightarrow> run_step r r'"
| run_move: "Run_transition_to r t a reason at = Inr r' \<Longrightarrow> run_step r r'"

inductive_cases run_stepE: "run_step r r'"

definition run_fresh :: "Run \<Rightarrow> bool" where
  "run_fresh r = (run_status r = R_PENDING \<and> run_optimistic_version r = 1 \<and> run_transitions r = []
     \<and> run_execution_snapshot r = None)"

definition run_history_ok :: "Run \<Rightarrow> bool" where
  "run_history_ok r = (linked ''pending'' (run_transitions r) (RunStatus_value (run_status r))
     \<and> run_optimistic_version r = 1 + int (length (run_transitions r))
     \<and> (run_status r \<in> {R_PENDING, R_CANCELLED} \<or> run_execution_snapshot r \<noteq> None))"

lemma run_targets:
  "t \<in> set (allowed_targets RUN_TRANSITIONS s) \<longleftrightarrow>
     (case s of R_PENDING \<Rightarrow> t \<in> {R_RUNNING, R_CANCELLED}
      | R_RUNNING \<Rightarrow> t \<in> {R_BLOCKED, R_AWAITING_EVIDENCE, R_SUCCEEDED, R_FAILED, R_CANCELLED}
      | R_BLOCKED \<Rightarrow> t \<in> {R_RUNNING, R_FAILED, R_CANCELLED}
      | R_AWAITING_EVIDENCE \<Rightarrow> t \<in> {R_SUCCEEDED, R_FAILED, R_CANCELLED}
      | _ \<Rightarrow> False)"
  by (cases s) (auto simp: allowed_targets_def RUN_TRANSITIONS_def)

lemma goal_targets:
  "t \<in> set (allowed_targets GOAL_TRANSITIONS s) \<longleftrightarrow>
     (case s of G_DRAFT \<Rightarrow> t \<in> {G_ACTIVE, G_CANCELLED}
      | G_ACTIVE \<Rightarrow> t \<in> {G_PAUSED, G_SATISFIED, G_FAILED, G_CANCELLED}
      | G_PAUSED \<Rightarrow> t \<in> {G_ACTIVE, G_FAILED, G_CANCELLED}
      | _ \<Rightarrow> False)"
  by (cases s) (auto simp: allowed_targets_def GOAL_TRANSITIONS_def)

lemma run_step_history: "run_step r r' \<Longrightarrow> run_history_ok r \<Longrightarrow> run_history_ok r'"
proof (erule run_stepE)
  fix t a reason at
  assume step: "Run_transition_to r t a reason at = Inr r'" and ok: "run_history_ok r"
  from Run_transition_to_Inr [OF step] ok show "run_history_ok r'"
    by (auto simp: run_history_ok_def run_targets linked_append split: RunStatus.splits)
qed (auto simp: run_history_ok_def Run_bind_execution_Inr)

lemma run_step_identity:
  "run_step r r' \<Longrightarrow> run_id r' = run_id r \<and> run_tenant_id r' = run_tenant_id r
     \<and> run_goal_id r' = run_goal_id r \<and> run_agent_version_id r' = run_agent_version_id r
     \<and> (\<forall>s. run_execution_snapshot r = Some s \<longrightarrow> run_execution_snapshot r' = Some s)"
  by (erule run_stepE) (auto simp: Run_bind_execution_Inr dest!: Run_transition_to_Inr)

lemma run_step_terminal:
  "run_step r r' \<Longrightarrow> run_status r \<notin> {R_SUCCEEDED, R_FAILED, R_CANCELLED}"
  by (erule run_stepE)
    (auto simp: Run_bind_execution_Inr run_targets split: RunStatus.splits dest!: Run_transition_to_Inr)

text \<open>
  C18. However a run created by the application evolves (binding its execution snapshot and moving
  through its lifecycle in any order), its transition log starts at pending, has no gap and ends at
  the current status, its optimistic version is one more than the number of recorded transitions,
  and it has left pending for anything but cancelled only with a fixed execution snapshot.
\<close>

theorem run_history_complete:
  assumes "run_step\<^sup>*\<^sup>* r r'" and "run_fresh r"
  shows "linked ''pending'' (run_transitions r') (RunStatus_value (run_status r'))
     \<and> run_optimistic_version r' = 1 + int (length (run_transitions r'))
     \<and> (run_status r' \<in> {R_PENDING, R_CANCELLED} \<or> run_execution_snapshot r' \<noteq> None)"
proof -
  from assms(2) have "run_history_ok r" by (simp add: run_fresh_def run_history_ok_def)
  with assms(1) have "run_history_ok r'"
    by (induction rule: rtranclp_induct) (auto intro: run_step_history)
  then show ?thesis by (simp add: run_history_ok_def)
qed

definition sample_run :: Run where
  "sample_run = \<lparr>run_tenant_id = 1, run_goal_id = 2, run_agent_version_id = 3,
     run_execution_snapshot = None, run_id = 4, run_status = R_PENDING, run_optimistic_version = 1,
     run_created_at = Aware 0, run_transitions = [], run_deployment_id = None\<rparr>"

definition sample_snapshot :: RunExecutionSnapshot where
  "sample_snapshot = \<lparr>snap_plan_id = 5, snap_context_snapshot_id = 6, snap_agent_version_id = 3,
     snap_skill_versions = [''triage@1''], snap_tool_versions = [''tickets@1''],
     snap_model_route = ''default'', snap_policy_version = ''p1''\<rparr>"

definition sample_bound_run :: Run where
  "sample_bound_run = sample_run\<lparr>run_execution_snapshot := Some sample_snapshot\<rparr>"

definition sample_move :: "Run \<Rightarrow> RunStatus \<Rightarrow> Run" where
  "sample_move r t = r\<lparr>run_status := t, run_optimistic_version := run_optimistic_version r + 1,
     run_transitions := run_transitions r @ [\<lparr>from_status = RunStatus_value (run_status r),
       to_status = RunStatus_value t, occurred_at = Aware 1, st_reason = ''go'', st_actor_id = 7\<rparr>]\<rparr>"

lemma sample_run_steps:
  "run_step\<^sup>*\<^sup>* sample_run (sample_move (sample_move sample_bound_run R_RUNNING) R_SUCCEEDED)"
proof -
  have "run_step sample_run sample_bound_run"
    by (rule run_bind [of _ sample_snapshot]) code_simp
  moreover have "run_step sample_bound_run (sample_move sample_bound_run R_RUNNING)"
    by (rule run_move [of _ R_RUNNING 7 "''go''" "Aware 1"]) code_simp
  moreover have "run_step (sample_move sample_bound_run R_RUNNING)
      (sample_move (sample_move sample_bound_run R_RUNNING) R_SUCCEEDED)"
    by (rule run_move [of _ R_SUCCEEDED 7 "''go''" "Aware 1"]) code_simp
  ultimately show ?thesis by (meson converse_rtranclp_into_rtranclp rtranclp.rtrancl_refl)
qed

theorem run_history_complete_witness:
  "run_fresh sample_run
   \<and> linked ''pending''
       (run_transitions (sample_move (sample_move sample_bound_run R_RUNNING) R_SUCCEEDED)) ''succeeded''"
  using run_history_complete [OF sample_run_steps]
  by (simp add: run_fresh_def sample_run_def sample_move_def)

text \<open>
  A bound execution snapshot is never replaced and the identity of a run never changes; a run
  that has succeeded, failed or been cancelled admits no further operation at all.
\<close>

lemma run_binding_immutable:
  assumes "run_step\<^sup>*\<^sup>* r r'"
  shows "(run_execution_snapshot r = Some s \<longrightarrow> run_execution_snapshot r' = Some s)
     \<and> run_id r' = run_id r \<and> run_tenant_id r' = run_tenant_id r \<and> run_goal_id r' = run_goal_id r
     \<and> (run_status r \<in> {R_SUCCEEDED, R_FAILED, R_CANCELLED} \<longrightarrow> r' = r)"
  using assms
proof (induction rule: converse_rtranclp_induct)
  case (step r r1)
  then show ?case using run_step_identity [OF step.hyps(1)] run_step_terminal [OF step.hyps(1)] by auto
qed simp

lemma run_binding_immutable_instance:
  "run_execution_snapshot (sample_move (sample_move sample_bound_run R_RUNNING) R_SUCCEEDED) = Some sample_snapshot
   \<and> run_id (sample_move (sample_move sample_bound_run R_RUNNING) R_SUCCEEDED) = run_id sample_run"
  using run_binding_immutable [OF sample_run_steps, of sample_snapshot]
  by (simp add: sample_move_def sample_bound_run_def)

end
