(* ===== verification/Plans.thy ===== *)
theory Plans
  imports Goals
begin

text \<open>
  Tasks and plans of \<open>packages/domain/src/autonoesis_domain/execution.py\<close> (lines 24-222): the
  Task aggregate with its lifecycle and the Plan, whose constructor rejects a task graph with a
  cycle by a depth-first search.
\<close>

subsection \<open>Task\<close>

datatype TaskStatus = T_PENDING | T_READY | T_RUNNING | T_BLOCKED | T_SUCCEEDED | T_FAILED

fun TaskStatus_value :: "TaskStatus \<Rightarrow> string" where
  "TaskStatus_value T_PENDING = ''pending''"
| "TaskStatus_value T_READY = ''ready''"
| "TaskStatus_value T_RUNNING = ''running''"
| "TaskStatus_value T_BLOCKED = ''blocked''"
| "TaskStatus_value T_SUCCEEDED = ''succeeded''"
| "TaskStatus_value T_FAILED = ''failed''"

datatype RiskLevel = L0_COMPUTE | L1_READ | L2_REVERSIBLE_WRITE | L3_HIGH_IMPACT_WRITE | L4_PRIVILEGED

fun RiskLevel_value :: "RiskLevel \<Rightarrow> string" where
  "RiskLevel_value L0_COMPUTE = ''l0_compute''"
| "RiskLevel_value L1_READ = ''l1_read''"
| "RiskLevel_value L2_REVERSIBLE_WRITE = ''l2_reversible_write''"
| "RiskLevel_value L3_HIGH_IMPACT_WRITE = ''l3_high_impact_write''"
| "RiskLevel_value L4_PRIVILEGED = ''l4_privileged''"

datatype CompensationCapability = C_NONE | C_AVAILABLE | C_REQUIRED

definition TASK_TRANSITIONS :: "TaskStatus transition_table" where
  "TASK_TRANSITIONS =
    [(T_PENDING, [T_READY, T_BLOCKED]),
     (T_READY, [T_RUNNING, T_BLOCKED]),
     (T_RUNNING, [T_BLOCKED, T_SUCCEEDED, T_FAILED]),
     (T_BLOCKED, [T_READY, T_FAILED])]"

record Task =
  task_tenant_id :: uuid
  task_run_id :: uuid
  task_name :: string
  completion_criterion :: string
  depends_on :: "uuid list"
  task_preconditions :: "string list"
  estimated_cost :: BudgetAmount
  task_risk_level :: RiskLevel
  task_compensation :: CompensationCapability
  evidence_requirements :: "string list"
  task_id :: uuid
  task_status :: TaskStatus
  task_optimistic_version :: int
  task_transitions :: "StateTransition list"

definition Task_post_init :: "Task \<Rightarrow> Task result" where
  "Task_post_init self =
     thenE (raise_if (blank (task_name self) \<or> blank (completion_criterion self))
        (ValueError ''task name and completion criterion must not be empty''))
    (thenE (raise_if (task_id self \<in> set (depends_on self)) (ValueError ''task cannot depend on itself''))
    (thenE (raise_if (list_ex blank (task_preconditions self @ evidence_requirements self))
        (ValueError ''task preconditions and evidence requirements must not be empty''))
    (thenE (raise_if (task_risk_level self \<in> {L2_REVERSIBLE_WRITE, L3_HIGH_IMPACT_WRITE, L4_PRIVILEGED}
          \<and> evidence_requirements self = [])
        (ValueError ''write task requires evidence requirements''))
    (thenE (raise_if (task_optimistic_version self < 1)
        (ValueError ''task optimistic version must be positive''))
       (Inr self)))))"

definition Task_transition_to :: "Task \<Rightarrow> TaskStatus \<Rightarrow> uuid \<Rightarrow> string \<Rightarrow> datetime \<Rightarrow> Task result" where
  "Task_transition_to self target actor_id reason at =
     thenE (require_transition TaskStatus_value (task_status self) target TASK_TRANSITIONS)
    (bindE (transition_record TaskStatus_value (task_status self) target actor_id reason at) (\<lambda>transition.
     Task_post_init (self\<lparr>task_status := target,
       task_optimistic_version := task_optimistic_version self + 1,
       task_transitions := task_transitions self @ [transition]\<rparr>)))"

definition task_valid :: "Task \<Rightarrow> bool" where
  "task_valid t = is_ok (Task_post_init t)"

lemma Task_post_init_Inr [simp]: "Task_post_init t = Inr t' \<longleftrightarrow> t' = t \<and> task_valid t"
  by (auto simp: task_valid_def is_ok_iff Task_post_init_def result_simps)

lemma task_valid_iff:
  "task_valid t \<longleftrightarrow> \<not> blank (task_name t) \<and> \<not> blank (completion_criterion t)
     \<and> task_id t \<notin> set (depends_on t)
     \<and> \<not> list_ex blank (task_preconditions t @ evidence_requirements t)
     \<and> (task_risk_level t \<in> {L2_REVERSIBLE_WRITE, L3_HIGH_IMPACT_WRITE, L4_PRIVILEGED}
        \<longrightarrow> evidence_requirements t \<noteq> [])
     \<and> 1 \<le> task_optimistic_version t"
  by (simp add: task_valid_def is_ok_iff Task_post_init_def result_simps) linarith

lemma Task_transition_to_Inr:
  "Task_transition_to x t a reason at = Inr x' \<Longrightarrow> task_valid x'
     \<and> t \<in> set (allowed_targets TASK_TRANSITIONS (task_status x))
     \<and> x' = x\<lparr>task_status := t, task_optimistic_version := task_optimistic_version x + 1,
         task_transitions := task_transitions x @ [\<lparr>from_status = TaskStatus_value (task_status x),
           to_status = TaskStatus_value t, occurred_at = at, st_reason = reason, st_actor_id = a\<rparr>]\<rparr>"
  by (auto simp: Task_transition_to_def result_simps transition_record_Inr)

lemma Task_transition_to_ok:
  assumes "task_valid x"
  shows "is_ok (Task_transition_to x t a reason at) \<longleftrightarrow>
     t \<in> set (allowed_targets TASK_TRANSITIONS (task_status x)) \<and> \<not> tz_missing at \<and> \<not> blank reason"
  using assms
  by (auto simp: is_ok_iff Task_transition_to_def task_valid_iff result_simps transition_record_Inr)

interpretation task_lc: lifecycle TaskStatus_value TASK_TRANSITIONS task_status task_transitions
    task_optimistic_version Task_transition_to
  by unfold_locales (drule Task_transition_to_Inr, simp)+

subsection \<open>Plan\<close>

record Plan =
  plan_tenant_id :: uuid
  plan_goal_id :: uuid
  plan_run_id :: uuid
  plan_tasks :: "Task list"
  plan_version :: int
  plan_id :: uuid

text \<open>\<open>dependencies = {task.task_id: task.depends_on for task in self.tasks}\<close>.\<close>

definition dependencies :: "Task list \<Rightarrow> (uuid \<times> uuid list) list" where
  "dependencies tasks = map (\<lambda>t. (task_id t, depends_on t)) tasks"

text \<open>
  The nested function \<open>visit\<close>. The set \<open>visiting\<close> is added to before the children and
  restored after them, so it is the path of the search and is passed down; the set
  \<open>visited\<close> only grows and is threaded through.
\<close>

function visit :: "(uuid \<times> uuid list) list \<Rightarrow> uuid list \<Rightarrow> uuid list \<Rightarrow> uuid \<Rightarrow> uuid list result"
  and visit_each :: "(uuid \<times> uuid list) list \<Rightarrow> uuid list \<Rightarrow> uuid list \<Rightarrow> uuid list \<Rightarrow> uuid list result"
where
  "visit deps visiting visited t =
     (if t \<in> set visiting then Inl (ValueError ''plan task graph must not contain a cycle'')
      else if t \<in> set visited then Inr visited
      else (case map_of deps t of
          None \<Rightarrow> Inl (KeyError (str_uuid t))
        | Some ds \<Rightarrow> bindE (visit_each deps (t # visiting) visited ds) (\<lambda>visited'. Inr (t # visited'))))"
| "visit_each deps visiting visited [] = Inr visited"
| "visit_each deps visiting visited (d # ds) =
     bindE (visit deps visiting visited d) (\<lambda>visited'. visit_each deps visiting visited' ds)"
  by pat_completeness auto
termination
proof (relation "inv_image (less_than <*lex*> less_than)
    (\<lambda>s. case s of Inl (deps, visiting, visited, t) \<Rightarrow> (card (fst ` set deps - set visiting), 0)
      | Inr (deps, visiting, visited, ds) \<Rightarrow> (card (fst ` set deps - set visiting), Suc (length ds)))")
  fix deps :: "(uuid \<times> uuid list) list" and visiting visited ds t
  assume "t \<notin> set visiting" "map_of deps t = Some ds"
  then have "fst ` set deps - set (t # visiting) \<subset> fst ` set deps - set visiting"
    by (auto dest!: map_of_SomeD simp: image_iff) force
  then have "card (fst ` set deps - set (t # visiting)) < card (fst ` set deps - set visiting)"
    by (intro psubset_card_mono) auto
  then show "(Inr (deps, t # visiting, visited, ds), Inl (deps, visiting, visited, t))
      \<in> inv_image (less_than <*lex*> less_than)
    (\<lambda>s. case s of Inl (deps, visiting, visited, t) \<Rightarrow> (card (fst ` set deps - set visiting), 0)
      | Inr (deps, visiting, visited, ds) \<Rightarrow> (card (fst ` set deps - set visiting), Suc (length ds)))"
    by simp
qed auto

declare visit.simps [simp del]

text \<open>
  The final loop visits the set \<open>task_ids\<close> in an unspecified order; the model takes the order
  of the tasks, and \<open>visit_all_iff\<close> shows that every order gives the same result.
\<close>

definition Plan_post_init :: "Plan \<Rightarrow> Plan result" where
  "Plan_post_init self = (let task_ids = map task_id (plan_tasks self) in
     thenE (raise_if (plan_version self < 1) (ValueError ''plan version must be positive''))
    (thenE (raise_if (plan_tasks self = []) (ValueError ''plan must contain at least one task''))
    (thenE (raise_if (\<not> distinct task_ids) (ValueError ''plan task ids must be unique''))
    (thenE (forE (\<lambda>t.
        thenE (raise_if (task_tenant_id t \<noteq> plan_tenant_id self \<or> task_run_id t \<noteq> plan_run_id self)
            (ValueError ''plan tasks must share tenant_id and run_id''))
          (raise_if (\<not> set (depends_on t) \<subseteq> set task_ids)
            (ValueError ''task dependency must exist in the same plan''))) (plan_tasks self))
    (bindE (visit_each (dependencies (plan_tasks self)) [] [] task_ids) (\<lambda>_.
       Inr self))))))"

subsection \<open>The depth-first search decides acyclicity\<close>

definition dep_edges :: "(uuid \<times> uuid list) list \<Rightarrow> (uuid \<times> uuid) set" where
  "dep_edges deps = {(t, d). \<exists>ds. map_of deps t = Some ds \<and> d \<in> set ds}"

definition deps_closed :: "(uuid \<times> uuid list) list \<Rightarrow> bool" where
  "deps_closed deps = (\<forall>(t, d) \<in> dep_edges deps. d \<in> fst ` set deps)"

text \<open>Finish order: every finished task comes before the tasks it depends on.\<close>

fun finished :: "(uuid \<times> uuid list) list \<Rightarrow> uuid list \<Rightarrow> bool" where
  "finished deps [] = True"
| "finished deps (t # v) = ((\<exists>ds. map_of deps t = Some ds \<and> set ds \<subseteq> set v) \<and> finished deps v)"

lemma visit_finished:
  "visit deps p v t = Inr v' \<Longrightarrow> finished deps v \<Longrightarrow> finished deps v' \<and> set v \<subseteq> set v' \<and> t \<in> set v'"
  "visit_each deps p v ts = Inr v' \<Longrightarrow> finished deps v \<Longrightarrow>
     finished deps v' \<and> set v \<subseteq> set v' \<and> set ts \<subseteq> set v'"
proof (induction deps p v t and deps p v ts arbitrary: v' and v' rule: visit_visit_each.induct)
  case (1 deps visiting visited t)
  show ?case
  proof (cases "t \<in> set visiting \<or> t \<in> set visited")
    case True
    with "1.prems" show ?thesis by (auto simp: visit.simps split: if_splits)
  next
    case False
    with "1.prems"(1) obtain ds w where ds: "map_of deps t = Some ds"
        and w: "visit_each deps (t # visiting) visited ds = Inr w" and v': "v' = t # w"
      by (auto simp: visit.simps result_simps split: option.splits)
    from "1.IH" [OF _ _ ds w "1.prems"(2)] False ds v' show ?thesis by auto
  qed
next
  case (3 deps visiting visited d ds)
  from "3.prems"(1) obtain w where w: "visit deps visiting visited d = Inr w"
      and v': "visit_each deps visiting w ds = Inr v'" by (auto simp: result_simps)
  from "3.IH"(1) [OF w "3.prems"(2)] have w_ok: "finished deps w" "set visited \<subseteq> set w" "d \<in> set w" by auto
  from "3.IH"(2) [OF w v' w_ok(1)] w_ok show ?case by auto
qed simp

lemma finished_rank:
  "finished deps v \<Longrightarrow> \<exists>f :: uuid \<Rightarrow> nat. \<forall>x\<in>set v. f x \<le> length v
     \<and> (\<forall>d. (x, d) \<in> dep_edges deps \<longrightarrow> d \<in> set v \<and> f d < f x)"
proof (induction v)
  case (Cons t v)
  then obtain f ds where f: "\<forall>x\<in>set v. f x \<le> length v
      \<and> (\<forall>d. (x, d) \<in> dep_edges deps \<longrightarrow> d \<in> set v \<and> f d < (f x :: nat))"
    and ds: "map_of deps t = Some ds" "set ds \<subseteq> set v" by auto
  show ?case
  proof (cases "t \<in> set v")
    case True
    with f show ?thesis by (intro exI [of _ f]) (auto simp: le_Suc_eq)
  next
    case False
    have t: "d \<in> set v" if "(t, d) \<in> dep_edges deps" for d
      using that ds by (auto simp: dep_edges_def)
    show ?thesis
    proof (intro exI ballI)
      fix x assume x: "x \<in> set (t # v)"
      show "(f(t := Suc (length v))) x \<le> length (t # v) \<and> (\<forall>d. (x, d) \<in> dep_edges deps \<longrightarrow>
          d \<in> set (t # v) \<and> (f(t := Suc (length v))) d < (f(t := Suc (length v))) x)"
      proof (cases "x = t")
        case True
        with f t False show ?thesis by (auto simp: less_Suc_eq_le)
      next
        case False
        with x f \<open>t \<notin> set v\<close> show ?thesis by (auto simp: le_Suc_eq)
      qed
    qed
  qed
qed simp

lemma finished_acyclic:
  assumes "finished deps v" and "fst ` set deps \<subseteq> set v"
  shows "acyclic (dep_edges deps)"
proof -
  from finished_rank [OF assms(1)] obtain f :: "uuid \<Rightarrow> nat"
    where f: "\<forall>x\<in>set v. \<forall>d. (x, d) \<in> dep_edges deps \<longrightarrow> f d < f x" by blast
  have "x \<in> set v" if "(x, d) \<in> dep_edges deps" for x d
    using that assms(2) by (force simp: dep_edges_def dest!: map_of_SomeD)
  with f have "(dep_edges deps)\<inverse> \<subseteq> measure f" by auto
  then have "wf ((dep_edges deps)\<inverse>)" by (rule wf_subset [OF wf_measure])
  then show ?thesis by (metis acyclic_converse wf_acyclic)
qed

lemma visit_succeeds:
  "acyclic (dep_edges deps) \<Longrightarrow> deps_closed deps \<Longrightarrow> t \<in> fst ` set deps \<Longrightarrow>
     \<forall>p\<in>set visiting. (p, t) \<in> (dep_edges deps)\<^sup>+ \<Longrightarrow> is_ok (visit deps visiting visited t)"
  "acyclic (dep_edges deps) \<Longrightarrow> deps_closed deps \<Longrightarrow> set ts \<subseteq> fst ` set deps \<Longrightarrow>
     \<forall>p\<in>set visiting. \<forall>t\<in>set ts. (p, t) \<in> (dep_edges deps)\<^sup>+ \<Longrightarrow> is_ok (visit_each deps visiting visited ts)"
proof (induction deps visiting visited t and deps visiting visited ts rule: visit_visit_each.induct)
  case (1 deps visiting visited t)
  then have fresh: "t \<notin> set visiting" by (auto simp: acyclic_def)
  from "1.prems"(3) obtain ds where ds: "map_of deps t = Some ds"
    by (metis map_of_eq_None_iff not_None_eq)
  then have edges: "(t, d) \<in> dep_edges deps" if "d \<in> set ds" for d
    using that by (auto simp: dep_edges_def)
  show ?case
  proof (cases "t \<in> set visited")
    case True
    with fresh show ?thesis by (simp add: visit.simps)
  next
    case False
    have "set ds \<subseteq> fst ` set deps" using edges "1.prems"(2) unfolding deps_closed_def by fast
    moreover have "\<forall>p\<in>set (t # visiting). \<forall>d\<in>set ds. (p, d) \<in> (dep_edges deps)\<^sup>+"
      using edges "1.prems"(4) by (auto intro: trancl_into_trancl)
    ultimately have "is_ok (visit_each deps (t # visiting) visited ds)"
      using "1.IH" [OF fresh False ds "1.prems"(1,2)] by blast
    with fresh False ds show ?thesis by (auto simp: visit.simps is_ok_iff)
  qed
next
  case (3 deps visiting visited d ds)
  then have "is_ok (visit deps visiting visited d)" by simp
  then obtain w where w: "visit deps visiting visited d = Inr w" by (auto simp: is_ok_iff)
  with 3 show ?case by simp
qed simp

lemma visit_all_iff:
  assumes "deps_closed deps" and "set ts = fst ` set deps"
  shows "is_ok (visit_each deps [] [] ts) \<longleftrightarrow> acyclic (dep_edges deps)"
proof
  assume "is_ok (visit_each deps [] [] ts)"
  then obtain v where "visit_each deps [] [] ts = Inr v" by (auto simp: is_ok_iff)
  from visit_finished(2) [OF this] assms(2) show "acyclic (dep_edges deps)"
    by (intro finished_acyclic [of deps v]) auto
next
  assume "acyclic (dep_edges deps)"
  with assms show "is_ok (visit_each deps [] [] ts)" by (intro visit_succeeds(2)) auto
qed

lemma dep_edges_tasks:
  assumes "distinct (map task_id ts)"
  shows "dep_edges (dependencies ts) = {(task_id t, d) | t d. t \<in> set ts \<and> d \<in> set (depends_on t)}"
proof -
  have "distinct (map fst (dependencies ts))"
    using assms by (simp add: dependencies_def comp_def)
  then show ?thesis
    by (force simp: dep_edges_def dependencies_def map_of_eq_Some_iff comp_def image_iff
        simp del: map_of_eq_Some_iff dest!: map_of_SomeD intro: map_of_is_SomeI)
qed

lemma deps_closed_tasks:
  assumes "distinct (map task_id ts)" and "\<forall>t\<in>set ts. set (depends_on t) \<subseteq> task_id ` set ts"
  shows "deps_closed (dependencies ts)"
  unfolding deps_closed_def dep_edges_tasks [OF assms(1)]
  using assms(2) by (fastforce simp: dependencies_def image_image)

definition plan_valid :: "Plan \<Rightarrow> bool" where
  "plan_valid p = is_ok (Plan_post_init p)"

lemma Plan_post_init_Inr [simp]: "Plan_post_init p = Inr p' \<longleftrightarrow> p' = p \<and> plan_valid p"
  by (auto simp: plan_valid_def is_ok_iff Plan_post_init_def Let_def result_simps)

text \<open>The edges of the task graph of a plan: a task points to the tasks it depends on.\<close>

definition plan_edges :: "Plan \<Rightarrow> (uuid \<times> uuid) set" where
  "plan_edges p = {(task_id t, d) | t d. t \<in> set (plan_tasks p) \<and> d \<in> set (depends_on t)}"

text \<open>
  C15. The constructor of a plan accepts exactly the well-formed plans: a positive version, at least
  one task, unique task ids, every task in the plan's tenant and run, dependencies inside the plan,
  and an acyclic dependency graph. The depth-first search is sound and complete.
\<close>

theorem plan_accepted_iff:
  "is_ok (Plan_post_init p) \<longleftrightarrow>
     1 \<le> plan_version p \<and> plan_tasks p \<noteq> [] \<and> distinct (map task_id (plan_tasks p))
   \<and> list_all (\<lambda>t. task_tenant_id t = plan_tenant_id p \<and> task_run_id t = plan_run_id p
        \<and> set (depends_on t) \<subseteq> set (map task_id (plan_tasks p))) (plan_tasks p)
   \<and> acyclic (plan_edges p)" (is "_ \<longleftrightarrow> ?wf \<and> _ \<and> ?d \<and> ?l \<and> _")
proof (cases "?d \<and> ?l")
  case True
  then have "deps_closed (dependencies (plan_tasks p))"
    by (intro deps_closed_tasks) (auto simp: list_all_iff)
  moreover have "set (map task_id (plan_tasks p)) = fst ` set (dependencies (plan_tasks p))"
    by (simp add: dependencies_def image_image)
  ultimately have "is_ok (visit_each (dependencies (plan_tasks p)) [] [] (map task_id (plan_tasks p)))
      \<longleftrightarrow> acyclic (plan_edges p)"
    using True by (subst visit_all_iff) (auto simp: dep_edges_tasks plan_edges_def)
  with True show ?thesis
    by (auto simp: is_ok_iff Plan_post_init_def Let_def result_simps list_all_iff)
next
  case False
  then show ?thesis
    by (auto simp: is_ok_iff Plan_post_init_def Let_def result_simps list_all_iff)
qed

lemma visit_error:
  "visit deps p v t = Inl e \<Longrightarrow> deps_closed deps \<Longrightarrow> t \<in> fst ` set deps \<Longrightarrow>
     e = ValueError ''plan task graph must not contain a cycle''"
  "visit_each deps p v ts = Inl e \<Longrightarrow> deps_closed deps \<Longrightarrow> set ts \<subseteq> fst ` set deps \<Longrightarrow>
     e = ValueError ''plan task graph must not contain a cycle''"
proof (induction deps p v t and deps p v ts arbitrary: e and e rule: visit_visit_each.induct)
  case (1 deps visiting visited t)
  show ?case
  proof (cases "t \<in> set visiting \<or> t \<in> set visited")
    case True
    with "1.prems"(1) show ?thesis by (auto simp: visit.simps split: if_splits)
  next
    case False
    from "1.prems"(3) obtain ds where ds: "map_of deps t = Some ds"
      by (metis map_of_eq_None_iff not_None_eq)
    then have "set ds \<subseteq> fst ` set deps"
      using "1.prems"(2) unfolding deps_closed_def dep_edges_def by fast
    moreover have "visit_each deps (t # visiting) visited ds = Inl e"
      using "1.prems"(1) False ds by (auto simp: visit.simps result_simps)
    ultimately show ?thesis using "1.IH" [OF _ _ ds] "1.prems"(2) False by blast
  qed
qed (auto simp: result_simps)

lemma plan_wf_closed:
  assumes "distinct (map task_id (plan_tasks p))"
    and "list_all (\<lambda>t. set (depends_on t) \<subseteq> set (map task_id (plan_tasks p))) (plan_tasks p)"
  shows "deps_closed (dependencies (plan_tasks p))"
    and "fst ` set (dependencies (plan_tasks p)) = task_id ` set (plan_tasks p)"
  using deps_closed_tasks [OF assms(1)] assms(2)
  by (simp_all add: list_all_iff) (simp add: dependencies_def image_image)

text \<open>
  A plan that is well formed except that its task graph has a cycle is rejected with exactly the
  cycle error: the search never fails in another way and never runs forever.
\<close>

lemma plan_cycle_rejected:
  assumes "1 \<le> plan_version p" "plan_tasks p \<noteq> []" "distinct (map task_id (plan_tasks p))"
    and "list_all (\<lambda>t. task_tenant_id t = plan_tenant_id p \<and> task_run_id t = plan_run_id p
        \<and> set (depends_on t) \<subseteq> set (map task_id (plan_tasks p))) (plan_tasks p)"
    and "\<not> acyclic (plan_edges p)"
  shows "Plan_post_init p = Inl (ValueError ''plan task graph must not contain a cycle'')"
proof -
  let ?deps = "dependencies (plan_tasks p)" and ?ids = "map task_id (plan_tasks p)"
  have closed: "deps_closed ?deps" and keys: "fst ` set ?deps = set ?ids"
    using plan_wf_closed [of p] assms(3,4) by (auto simp: list_all_iff)
  have "\<not> is_ok (visit_each ?deps [] [] ?ids)"
    using visit_all_iff [OF closed keys [symmetric]] assms(3,5)
    by (simp add: dep_edges_tasks plan_edges_def)
  then obtain e where e: "visit_each ?deps [] [] ?ids = Inl e"
    by (cases "visit_each ?deps [] [] ?ids") auto
  with visit_error(2) [OF e closed] keys
  have "visit_each ?deps [] [] ?ids = Inl (ValueError ''plan task graph must not contain a cycle'')" by simp
  moreover have "forE (\<lambda>t.
        thenE (raise_if (task_tenant_id t \<noteq> plan_tenant_id p \<or> task_run_id t \<noteq> plan_run_id p)
            (ValueError ''plan tasks must share tenant_id and run_id''))
          (raise_if (\<not> set (depends_on t) \<subseteq> set ?ids)
            (ValueError ''task dependency must exist in the same plan''))) (plan_tasks p) = Inr ()"
    using assms(4) by (auto simp: result_simps list_all_iff)
  ultimately show ?thesis using assms(1-3) by (simp add: Plan_post_init_def Let_def)
qed

lemma plan_edges_concat:
  "plan_edges p = set (concat (map (\<lambda>t. map (Pair (task_id t)) (depends_on t)) (plan_tasks p)))"
  by (auto simp: plan_edges_def)

definition sample_task :: "uuid \<Rightarrow> uuid list \<Rightarrow> Task" where
  "sample_task i ds = \<lparr>task_tenant_id = 1, task_run_id = 4, task_name = ''step'',
     completion_criterion = ''done'', depends_on = ds, task_preconditions = [],
     estimated_cost = \<lparr>amount = 0, unit = COST_UNITS\<rparr>, task_risk_level = L0_COMPUTE,
     task_compensation = C_NONE, evidence_requirements = [], task_id = i, task_status = T_PENDING,
     task_optimistic_version = 1, task_transitions = []\<rparr>"

definition sample_plan :: "Task list \<Rightarrow> Plan" where
  "sample_plan ts = \<lparr>plan_tenant_id = 1, plan_goal_id = 2, plan_run_id = 4, plan_tasks = ts,
     plan_version = 1, plan_id = 5\<rparr>"

lemma plan_cycle_rejected_instance:
  "Plan_post_init (sample_plan [sample_task 10 [11], sample_task 11 [10]])
     = Inl (ValueError ''plan task graph must not contain a cycle'')"
proof (rule plan_cycle_rejected)
  let ?p = "sample_plan [sample_task 10 [11], sample_task 11 [10]]"
  have "(10, 11) \<in> plan_edges ?p" "(11, 10) \<in> plan_edges ?p"
    by (simp_all add: plan_edges_concat sample_plan_def sample_task_def)
  then have "(10, 10) \<in> (plan_edges ?p)\<^sup>+" by (rule trancl.trancl_into_trancl [OF trancl.r_into_trancl])
  then show "\<not> acyclic (plan_edges ?p)" by (auto simp: acyclic_def)
qed (simp_all add: sample_plan_def sample_task_def)

end
