(* ===== verification/Actions.thy ===== *)
theory Actions
  imports Plans
begin

text \<open>
  Actions, attempts, approvals and execution envelopes of
  \<open>packages/domain/src/autonoesis_domain/execution.py\<close> (lines 41-57, 73-84, 106-117, 223-489 and
  604-716): the governed side effect, its two-person approval and the envelope that binds both to a
  SHA-256 digest.
\<close>

subsection \<open>Action\<close>

datatype ActionStatus =
    A_PROPOSED | A_AWAITING_APPROVAL | A_AUTHORIZED | A_EXECUTING | A_SUCCEEDED | A_FAILED
  | A_DENIED | A_UNKNOWN

fun ActionStatus_value :: "ActionStatus \<Rightarrow> string" where
  "ActionStatus_value A_PROPOSED = ''proposed''"
| "ActionStatus_value A_AWAITING_APPROVAL = ''awaiting_approval''"
| "ActionStatus_value A_AUTHORIZED = ''authorized''"
| "ActionStatus_value A_EXECUTING = ''executing''"
| "ActionStatus_value A_SUCCEEDED = ''succeeded''"
| "ActionStatus_value A_FAILED = ''failed''"
| "ActionStatus_value A_DENIED = ''denied''"
| "ActionStatus_value A_UNKNOWN = ''unknown''"

definition ACTION_TRANSITIONS :: "ActionStatus transition_table" where
  "ACTION_TRANSITIONS =
    [(A_PROPOSED, [A_AWAITING_APPROVAL, A_AUTHORIZED, A_DENIED]),
     (A_AWAITING_APPROVAL, [A_AUTHORIZED, A_DENIED]),
     (A_AUTHORIZED, [A_EXECUTING]),
     (A_EXECUTING, [A_SUCCEEDED, A_FAILED, A_UNKNOWN]),
     (A_UNKNOWN, [A_SUCCEEDED, A_FAILED])]"

record Action =
  action_tenant_id :: uuid
  action_run_id :: uuid
  action_task_id :: uuid
  action_tool_name :: string
  action_tool_version :: string
  action_operation :: string
  action_resource_scope :: string
  action_parameters :: JsonObject
  action_risk_level :: RiskLevel
  action_idempotency_key :: string
  action_expected_effect :: string
  action_classification :: DataClassification
  action_execution_mode :: ExecutionMode
  action_id :: uuid
  action_status :: ActionStatus
  action_optimistic_version :: int
  action_transitions :: "StateTransition list"

definition Action_post_init :: "Action \<Rightarrow> Action result" where
  "Action_post_init self =
     thenE (raise_if (list_ex blank [action_tool_name self, action_tool_version self,
          action_operation self, action_resource_scope self, action_idempotency_key self,
          action_expected_effect self])
        (ValueError ''action identifiers and expected effect must not be empty''))
    (thenE (raise_if (action_optimistic_version self < 1)
        (ValueError ''action optimistic version must be positive''))
       (Inr self))"

definition Action_transition_to ::
  "Action \<Rightarrow> ActionStatus \<Rightarrow> uuid \<Rightarrow> string \<Rightarrow> datetime \<Rightarrow> Action result" where
  "Action_transition_to self target actor_id reason at =
     thenE (require_transition ActionStatus_value (action_status self) target ACTION_TRANSITIONS)
    (bindE (transition_record ActionStatus_value (action_status self) target actor_id reason at) (\<lambda>transition.
     Action_post_init (self\<lparr>action_status := target,
       action_optimistic_version := action_optimistic_version self + 1,
       action_transitions := action_transitions self @ [transition]\<rparr>)))"

definition parameter_digest :: "Action \<Rightarrow> string" where
  "parameter_digest self = JsonObject_digest (action_parameters self)"

definition newline :: string where
  "newline = [CHR 0x0A]"

text \<open>The executable fields of an action, in the order the digest joins them.\<close>

definition action_canonical :: "Action \<Rightarrow> string" where
  "action_canonical self = join newline
     [str_uuid (action_tenant_id self), str_uuid (action_run_id self), str_uuid (action_task_id self),
      str_uuid (action_id self), action_tool_name self, action_tool_version self,
      action_operation self, action_resource_scope self, canonical (action_parameters self),
      RiskLevel_value (action_risk_level self), action_idempotency_key self,
      action_expected_effect self, DataClassification_value (action_classification self),
      ExecutionMode_value (action_execution_mode self)]"

definition canonical_digest :: "Action \<Rightarrow> string" where
  "canonical_digest self = sha256_hexdigest (action_canonical self)"

subsection \<open>ActionAttempt\<close>

datatype ActionAttemptStatus = AT_STARTED | AT_SUCCEEDED | AT_FAILED | AT_UNKNOWN

record ActionAttempt =
  att_tenant_id :: uuid
  att_run_id :: uuid
  att_action_id :: uuid
  att_invocation_id :: uuid
  att_status :: ActionAttemptStatus
  att_idempotency_key :: string
  att_receipt_ref :: string
  att_executor_identity :: string
  att_failure_reason :: "string option"
  attempt_id :: uuid
  att_recorded_at :: datetime

definition ActionAttempt_post_init :: "ActionAttempt \<Rightarrow> ActionAttempt result" where
  "ActionAttempt_post_init self =
     thenE (raise_if (list_ex blank
          [att_idempotency_key self, att_receipt_ref self, att_executor_identity self])
        (ValueError ''action attempt identity, idempotency, and receipt are required''))
    (thenE (raise_if (tz_missing (att_recorded_at self))
        (ValueError ''action attempt timestamp must be timezone-aware''))
    (thenE (raise_if (att_status self = AT_FAILED
          \<and> (case att_failure_reason self of None \<Rightarrow> True | Some r \<Rightarrow> blank r))
        (ValueError ''failed action attempt requires a failure reason''))
       (Inr self)))"

subsection \<open>Approval\<close>

datatype ApprovalStatus = P_PENDING | P_APPROVED | P_REJECTED | P_EXPIRED

fun ApprovalStatus_value :: "ApprovalStatus \<Rightarrow> string" where
  "ApprovalStatus_value P_PENDING = ''pending''"
| "ApprovalStatus_value P_APPROVED = ''approved''"
| "ApprovalStatus_value P_REJECTED = ''rejected''"
| "ApprovalStatus_value P_EXPIRED = ''expired''"

record ApprovalReview =
  rev_actor_id :: uuid
  rev_principal_id :: uuid
  rev_approved :: bool
  rev_reason :: string
  rev_reviewed_at :: datetime

definition ApprovalReview_post_init :: "ApprovalReview \<Rightarrow> ApprovalReview result" where
  "ApprovalReview_post_init self =
     thenE (raise_if (blank (rev_reason self) \<or> tz_missing (rev_reviewed_at self))
        (ValueError ''approval review requires a reason and timezone-aware timestamp''))
       (Inr self)"

record ApprovalRequest =
  appr_tenant_id :: uuid
  appr_run_id :: uuid
  appr_action_id :: uuid
  appr_action_digest :: string
  appr_tool_version :: string
  appr_operation :: string
  appr_resource_scope :: string
  appr_argument_digest :: string
  appr_policy_version :: string
  appr_impact_summary :: string
  appr_required_role :: string
  appr_expires_at :: datetime
  approval_id :: uuid
  appr_status :: ApprovalStatus
  appr_decided_by :: "uuid option"
  appr_reason :: "string option"
  appr_created_at :: datetime
  appr_decided_at :: "datetime option"
  appr_optimistic_version :: int
  appr_transitions :: "StateTransition list"
  appr_required_reviews :: int
  appr_reviews :: "ApprovalReview list"

definition ApprovalRequest_post_init :: "ApprovalRequest \<Rightarrow> ApprovalRequest result" where
  "ApprovalRequest_post_init self =
     thenE (raise_if (list_ex blank [appr_action_digest self, appr_tool_version self,
          appr_operation self, appr_resource_scope self, appr_argument_digest self,
          appr_policy_version self, appr_impact_summary self, appr_required_role self])
        (ValueError ''approval binding, impact, and role are required''))
    (thenE (raise_if (tz_missing (appr_expires_at self) \<or> tz_missing (appr_created_at self))
        (ValueError ''approval timestamps must be timezone-aware''))
    (thenE (raise_if (dt_le (appr_expires_at self) (appr_created_at self))
        (ValueError ''approval expiry must be after creation''))
    (thenE (raise_if (list_ex (\<lambda>v. \<not> is_sha256_hex v) [appr_action_digest self, appr_argument_digest self])
        (ValueError ''approval digests must be lowercase SHA-256 values''))
    (thenE (raise_if (appr_optimistic_version self < 1)
        (ValueError ''approval optimistic version must be positive''))
    (thenE (raise_if (appr_required_reviews self \<notin> {1, 2})
        (ValueError ''approval review count must be one or two''))
    (thenE (raise_if (\<not> distinct (map rev_principal_id (appr_reviews self)))
        (ValueError ''approval reviews must come from distinct principals''))
       (Inr self)))))))"

definition ApprovalRequest_decide ::
  "ApprovalRequest \<Rightarrow> uuid \<Rightarrow> bool \<Rightarrow> string \<Rightarrow> uuid option \<Rightarrow> int \<Rightarrow> ApprovalRequest result" where
  "ApprovalRequest_decide self approver_id approved reason principal_id now =
     thenE (raise_if (appr_status self \<noteq> P_PENDING) (ValueError ''approval has already been decided''))
    (thenE (raise_if (blank reason) (ValueError ''approval decision requires a reason''))
    (let reviewer_principal = (case principal_id of None \<Rightarrow> approver_id | Some p \<Rightarrow> p) in
     thenE (raise_if (reviewer_principal \<in> set (map rev_principal_id (appr_reviews self)))
        (PermissionError ''the same principal cannot submit two approval reviews''))
    (if dt_le (appr_expires_at self) (Aware now) then
       bindE (transition_record ApprovalStatus_value (appr_status self) P_EXPIRED approver_id
           ''approval expired before decision'' (Aware now)) (\<lambda>transition.
       ApprovalRequest_post_init (self\<lparr>appr_status := P_EXPIRED, appr_decided_at := Some (Aware now),
         appr_optimistic_version := appr_optimistic_version self + 1,
         appr_transitions := appr_transitions self @ [transition]\<rparr>))
     else
       bindE (ApprovalReview_post_init \<lparr>rev_actor_id = approver_id, rev_principal_id = reviewer_principal,
           rev_approved = approved, rev_reason = reason, rev_reviewed_at = Aware now\<rparr>) (\<lambda>review.
       let reviews = appr_reviews self @ [review] in
       if approved \<and> int (length reviews) < appr_required_reviews self then
         ApprovalRequest_post_init (self\<lparr>appr_reviews := reviews,
           appr_optimistic_version := appr_optimistic_version self + 1\<rparr>)
       else
         let target = (if approved then P_APPROVED else P_REJECTED) in
         bindE (transition_record ApprovalStatus_value (appr_status self) target approver_id reason
             (Aware now)) (\<lambda>transition.
         ApprovalRequest_post_init (self\<lparr>appr_status := target, appr_decided_by := Some approver_id,
           appr_reason := Some reason, appr_decided_at := Some (Aware now),
           appr_optimistic_version := appr_optimistic_version self + 1,
           appr_transitions := appr_transitions self @ [transition], appr_reviews := reviews\<rparr>))))))"

definition authorizes :: "ApprovalRequest \<Rightarrow> Action \<Rightarrow> string \<Rightarrow> int \<Rightarrow> bool" where
  "authorizes self action policy_version now =
     (appr_status self = P_APPROVED
      \<and> dt_lt (Aware now) (appr_expires_at self)
      \<and> appr_tenant_id self = action_tenant_id action
      \<and> appr_run_id self = action_run_id action
      \<and> appr_action_id self = action_id action
      \<and> appr_action_digest self = canonical_digest action
      \<and> appr_tool_version self = action_tool_version action
      \<and> appr_operation self = action_operation action
      \<and> appr_resource_scope self = action_resource_scope action
      \<and> appr_argument_digest self = parameter_digest action
      \<and> appr_policy_version self = policy_version)"

subsection \<open>ActionExecutionEnvelope\<close>

record ActionExecutionEnvelope =
  env_invocation_id :: uuid
  env_tenant_id :: uuid
  env_run_id :: uuid
  env_task_id :: uuid
  env_action_id :: uuid
  env_actor_id :: uuid
  env_principal_id :: uuid
  env_agent_identity :: string
  env_delegation_ref :: string
  env_tool_name :: string
  env_tool_version :: string
  env_operation :: string
  env_resource_scope :: string
  env_arguments :: JsonObject
  env_action_digest :: string
  env_risk_level :: RiskLevel
  env_idempotency_key :: string
  env_budget_ref :: string
  env_approval_id :: "uuid option"
  env_policy_version :: string
  env_expected_effect :: string
  env_deadline :: datetime
  env_traceparent :: string
  env_classification :: DataClassification
  env_execution_mode :: ExecutionMode

definition envelope_canonical :: "ActionExecutionEnvelope \<Rightarrow> string" where
  "envelope_canonical self = join newline
     [str_uuid (env_tenant_id self), str_uuid (env_run_id self), str_uuid (env_task_id self),
      str_uuid (env_action_id self), env_tool_name self, env_tool_version self,
      env_operation self, env_resource_scope self, canonical (env_arguments self),
      RiskLevel_value (env_risk_level self), env_idempotency_key self,
      env_expected_effect self, DataClassification_value (env_classification self),
      ExecutionMode_value (env_execution_mode self)]"

definition ActionExecutionEnvelope_post_init ::
  "ActionExecutionEnvelope \<Rightarrow> ActionExecutionEnvelope result" where
  "ActionExecutionEnvelope_post_init self =
     thenE (raise_if (list_ex blank [env_agent_identity self, env_delegation_ref self,
          env_tool_name self, env_tool_version self, env_operation self, env_resource_scope self,
          env_idempotency_key self, env_budget_ref self, env_policy_version self,
          env_expected_effect self, env_traceparent self])
        (ValueError ''execution envelope identifiers must not be empty''))
    (thenE (raise_if (tz_missing (env_deadline self))
        (ValueError ''execution envelope deadline must be timezone-aware''))
    (thenE (raise_if (\<not> is_sha256_hex (env_action_digest self))
        (ValueError ''execution envelope action digest must be SHA-256''))
    (thenE (raise_if (sha256_hexdigest (envelope_canonical self) \<noteq> env_action_digest self)
        (ValueError ''execution envelope digest does not match executable fields''))
       (Inr self))))"

definition ActionExecutionEnvelope_from_action ::
  "uuid \<Rightarrow> Action \<Rightarrow> uuid \<Rightarrow> uuid \<Rightarrow> string \<Rightarrow> string \<Rightarrow> string \<Rightarrow> uuid option \<Rightarrow> string \<Rightarrow> datetime \<Rightarrow> string
     \<Rightarrow> ActionExecutionEnvelope result" where
  "ActionExecutionEnvelope_from_action invocation_id action actor_id principal_id agent_identity
     delegation_ref budget_ref approval policy_version deadline traceparent =
     ActionExecutionEnvelope_post_init
      \<lparr>env_invocation_id = invocation_id, env_tenant_id = action_tenant_id action,
       env_run_id = action_run_id action, env_task_id = action_task_id action,
       env_action_id = action_id action, env_actor_id = actor_id, env_principal_id = principal_id,
       env_agent_identity = agent_identity, env_delegation_ref = delegation_ref,
       env_tool_name = action_tool_name action, env_tool_version = action_tool_version action,
       env_operation = action_operation action, env_resource_scope = action_resource_scope action,
       env_arguments = action_parameters action, env_action_digest = canonical_digest action,
       env_risk_level = action_risk_level action, env_idempotency_key = action_idempotency_key action,
       env_budget_ref = budget_ref, env_approval_id = approval, env_policy_version = policy_version,
       env_expected_effect = action_expected_effect action, env_deadline = deadline,
       env_traceparent = traceparent, env_classification = action_classification action,
       env_execution_mode = action_execution_mode action\<rparr>"

subsection \<open>Validity and lifecycle\<close>

definition action_valid :: "Action \<Rightarrow> bool" where
  "action_valid a = is_ok (Action_post_init a)"

definition attempt_valid :: "ActionAttempt \<Rightarrow> bool" where
  "attempt_valid a = is_ok (ActionAttempt_post_init a)"

definition approval_valid :: "ApprovalRequest \<Rightarrow> bool" where
  "approval_valid a = is_ok (ApprovalRequest_post_init a)"

definition envelope_valid :: "ActionExecutionEnvelope \<Rightarrow> bool" where
  "envelope_valid e = is_ok (ActionExecutionEnvelope_post_init e)"

lemma Action_post_init_Inr [simp]: "Action_post_init a = Inr a' \<longleftrightarrow> a' = a \<and> action_valid a"
  by (auto simp: action_valid_def is_ok_iff Action_post_init_def result_simps)

lemma ActionAttempt_post_init_Inr [simp]:
  "ActionAttempt_post_init a = Inr a' \<longleftrightarrow> a' = a \<and> attempt_valid a"
  by (auto simp: attempt_valid_def is_ok_iff ActionAttempt_post_init_def result_simps)

lemma ApprovalRequest_post_init_Inr [simp]:
  "ApprovalRequest_post_init a = Inr a' \<longleftrightarrow> a' = a \<and> approval_valid a"
  by (auto simp: approval_valid_def is_ok_iff ApprovalRequest_post_init_def result_simps)

lemma ActionExecutionEnvelope_post_init_Inr [simp]:
  "ActionExecutionEnvelope_post_init e = Inr e' \<longleftrightarrow> e' = e \<and> envelope_valid e"
  by (auto simp: envelope_valid_def is_ok_iff ActionExecutionEnvelope_post_init_def result_simps)

lemma action_valid_iff:
  "action_valid a \<longleftrightarrow> \<not> blank (action_tool_name a) \<and> \<not> blank (action_tool_version a)
     \<and> \<not> blank (action_operation a) \<and> \<not> blank (action_resource_scope a)
     \<and> \<not> blank (action_idempotency_key a) \<and> \<not> blank (action_expected_effect a)
     \<and> 1 \<le> action_optimistic_version a"
  by (simp add: action_valid_def is_ok_iff Action_post_init_def result_simps) linarith

lemma attempt_valid_iff:
  "attempt_valid a \<longleftrightarrow> \<not> blank (att_idempotency_key a) \<and> \<not> blank (att_receipt_ref a)
     \<and> \<not> blank (att_executor_identity a) \<and> \<not> tz_missing (att_recorded_at a)
     \<and> (att_status a = AT_FAILED \<longrightarrow> (\<exists>r. att_failure_reason a = Some r \<and> \<not> blank r))"
  by (simp add: attempt_valid_def is_ok_iff ActionAttempt_post_init_def result_simps
      split: option.splits)

lemma approval_valid_iff:
  "approval_valid a \<longleftrightarrow>
     \<not> list_ex blank [appr_action_digest a, appr_tool_version a, appr_operation a,
       appr_resource_scope a, appr_argument_digest a, appr_policy_version a, appr_impact_summary a,
       appr_required_role a]
     \<and> \<not> tz_missing (appr_expires_at a) \<and> \<not> tz_missing (appr_created_at a)
     \<and> dt_lt (appr_created_at a) (appr_expires_at a)
     \<and> is_sha256_hex (appr_action_digest a) \<and> is_sha256_hex (appr_argument_digest a)
     \<and> 1 \<le> appr_optimistic_version a \<and> appr_required_reviews a \<in> {1, 2}
     \<and> distinct (map rev_principal_id (appr_reviews a))"
  unfolding approval_valid_def is_ok_iff ApprovalRequest_post_init_def dt_le_def dt_lt_def
  by (simp only: result_simps raise_if_Inr) (auto simp: not_less not_le)

lemma envelope_valid_digest:
  "envelope_valid e \<Longrightarrow> sha256_hexdigest (envelope_canonical e) = env_action_digest e"
  by (auto simp: envelope_valid_def is_ok_iff ActionExecutionEnvelope_post_init_def result_simps)

lemma Action_transition_to_Inr:
  "Action_transition_to x t a reason at = Inr x' \<Longrightarrow> action_valid x'
     \<and> t \<in> set (allowed_targets ACTION_TRANSITIONS (action_status x))
     \<and> x' = x\<lparr>action_status := t, action_optimistic_version := action_optimistic_version x + 1,
         action_transitions := action_transitions x @ [\<lparr>from_status = ActionStatus_value (action_status x),
           to_status = ActionStatus_value t, occurred_at = at, st_reason = reason, st_actor_id = a\<rparr>]\<rparr>"
  by (auto simp: Action_transition_to_def result_simps transition_record_Inr)

lemma Action_transition_to_ok:
  assumes "action_valid x"
  shows "is_ok (Action_transition_to x t a reason at) \<longleftrightarrow>
     t \<in> set (allowed_targets ACTION_TRANSITIONS (action_status x)) \<and> \<not> tz_missing at \<and> \<not> blank reason"
  using assms
  by (auto simp: is_ok_iff Action_transition_to_def action_valid_iff result_simps transition_record_Inr)

interpretation action_lc: lifecycle ActionStatus_value ACTION_TRANSITIONS action_status
    action_transitions action_optimistic_version Action_transition_to
  by unfold_locales (drule Action_transition_to_Inr, simp)+

lemma action_targets:
  "t \<in> set (allowed_targets ACTION_TRANSITIONS s) \<longleftrightarrow>
     (case s of A_PROPOSED \<Rightarrow> t \<in> {A_AWAITING_APPROVAL, A_AUTHORIZED, A_DENIED}
      | A_AWAITING_APPROVAL \<Rightarrow> t \<in> {A_AUTHORIZED, A_DENIED}
      | A_AUTHORIZED \<Rightarrow> t = A_EXECUTING
      | A_EXECUTING \<Rightarrow> t \<in> {A_SUCCEEDED, A_FAILED, A_UNKNOWN}
      | A_UNKNOWN \<Rightarrow> t \<in> {A_SUCCEEDED, A_FAILED}
      | _ \<Rightarrow> False)"
  by (cases s) (auto simp: allowed_targets_def ACTION_TRANSITIONS_def)

text \<open>The digest of an action covers what it does and not where it is in its lifecycle.\<close>

lemma canonical_digest_transition:
  "Action_transition_to x t a reason at = Inr x' \<Longrightarrow> canonical_digest x' = canonical_digest x"
  by (drule Action_transition_to_Inr) (auto simp: canonical_digest_def action_canonical_def)

subsection \<open>Approvals need distinct approving principals\<close>

inductive approval_step :: "ApprovalRequest \<Rightarrow> ApprovalRequest \<Rightarrow> bool" where
  "ApprovalRequest_decide p approver approved reason who now = Inr p' \<Longrightarrow> approval_step p p'"

inductive_cases approval_stepE: "approval_step p p'"

definition approval_sound :: "ApprovalRequest \<Rightarrow> bool" where
  "approval_sound p = (approval_valid p
     \<and> list_all (\<lambda>r. dt_lt (rev_reviewed_at r) (appr_expires_at p)) (appr_reviews p)
     \<and> (appr_status p = P_PENDING \<longrightarrow> list_all rev_approved (appr_reviews p)
          \<and> int (length (appr_reviews p)) < appr_required_reviews p)
     \<and> (appr_status p = P_APPROVED \<longrightarrow> list_all rev_approved (appr_reviews p)
          \<and> int (length (appr_reviews p)) = appr_required_reviews p))"

text \<open>The fields that identify what an approval is about.\<close>

definition approval_binding where
  "approval_binding p = (approval_id p, appr_tenant_id p, appr_run_id p, appr_action_id p,
     appr_action_digest p, appr_tool_version p, appr_operation p, appr_resource_scope p,
     appr_argument_digest p, appr_policy_version p, appr_required_reviews p, appr_expires_at p)"

lemma ApprovalRequest_decide_Inr:
  assumes "ApprovalRequest_decide p approver approved reason who now = Inr p'"
  shows "appr_status p = P_PENDING \<and> approval_valid p' \<and> approval_binding p' = approval_binding p
     \<and> appr_optimistic_version p' = appr_optimistic_version p + 1
     \<and> (appr_status p' = P_EXPIRED \<and> appr_reviews p' = appr_reviews p
        \<or> dt_lt (Aware now) (appr_expires_at p) \<and> (\<exists>r. appr_reviews p' = appr_reviews p @ [r]
            \<and> rev_actor_id r = approver \<and> rev_approved r = approved \<and> rev_reviewed_at r = Aware now
            \<and> rev_principal_id r = (case who of None \<Rightarrow> approver | Some q \<Rightarrow> q)
            \<and> appr_status p' = (if \<not> approved then P_REJECTED
                else if int (length (appr_reviews p')) < appr_required_reviews p then P_PENDING
                else P_APPROVED)))"
  using assms unfolding ApprovalRequest_decide_def approval_binding_def
  by (auto simp: Let_def result_simps transition_record_Inr ApprovalReview_post_init_def
      dt_le_def dt_lt_def split: if_splits)

lemma approval_sound_step: "approval_step p p' \<Longrightarrow> approval_sound p \<Longrightarrow> approval_sound p'"
  by (erule approval_stepE, drule ApprovalRequest_decide_Inr)
    (auto simp: approval_sound_def approval_binding_def list_all_iff split: if_splits)

lemma approval_step_pending: "approval_step p p' \<Longrightarrow> appr_status p = P_PENDING"
  by (erule approval_stepE, drule ApprovalRequest_decide_Inr) blast

lemma approval_step_binding: "approval_step p p' \<Longrightarrow> approval_binding p' = approval_binding p"
  by (erule approval_stepE, drule ApprovalRequest_decide_Inr) blast

definition approval_fresh :: "ApprovalRequest \<Rightarrow> bool" where
  "approval_fresh p = (approval_valid p \<and> appr_status p = P_PENDING \<and> appr_reviews p = [])"

lemma approval_fresh_sound: "approval_fresh p \<Longrightarrow> approval_sound p"
  by (auto simp: approval_fresh_def approval_sound_def approval_valid_iff)

text \<open>
  C16. However reviewers decide, an approval request that reaches approved carries exactly the required
  number of reviews, all of them approving, from pairwise distinct principals and given before the
  expiry; what it is bound to (action, digests, scope, policy) never changes.
\<close>

theorem approval_quorum:
  assumes "approval_step\<^sup>*\<^sup>* p p'" and "approval_fresh p" and "appr_status p' = P_APPROVED"
  shows "int (length (appr_reviews p')) = appr_required_reviews p
     \<and> distinct (map rev_principal_id (appr_reviews p')) \<and> list_all rev_approved (appr_reviews p')
     \<and> list_all (\<lambda>r. dt_lt (rev_reviewed_at r) (appr_expires_at p)) (appr_reviews p')
     \<and> approval_binding p' = approval_binding p"
proof -
  have "approval_sound p' \<and> approval_binding p' = approval_binding p"
    using assms(1) approval_fresh_sound [OF assms(2)]
    by (induction rule: rtranclp_induct) (auto intro: approval_sound_step simp: approval_step_binding)
  then show ?thesis using assms(3)
    by (auto simp: approval_sound_def approval_valid_iff approval_binding_def)
qed

text \<open>An approval of a high-impact action: two reviews by different principals approve it.\<close>

definition sample_approval :: ApprovalRequest where
  "sample_approval = \<lparr>appr_tenant_id = 1, appr_run_id = 4, appr_action_id = 20,
     appr_action_digest = replicate 64 (CHR ''a''), appr_tool_version = ''1.0.0'',
     appr_operation = ''close'', appr_resource_scope = ''tickets/1'',
     appr_argument_digest = replicate 64 (CHR ''b''), appr_policy_version = ''p1'',
     appr_impact_summary = ''closes the ticket'', appr_required_role = ''approver'',
     appr_expires_at = Aware 100, approval_id = 30, appr_status = P_PENDING, appr_decided_by = None,
     appr_reason = None, appr_created_at = Aware 0, appr_decided_at = None,
     appr_optimistic_version = 1, appr_transitions = [], appr_required_reviews = 2, appr_reviews = []\<rparr>"

definition decided :: "ApprovalRequest result \<Rightarrow> ApprovalRequest" where
  "decided r = (case r of Inr p \<Rightarrow> p | Inl _ \<Rightarrow> sample_approval)"

definition sample_approval1 :: ApprovalRequest where
  "sample_approval1 = decided (ApprovalRequest_decide sample_approval 7 True ''ok'' None 10)"

definition sample_approval2 :: ApprovalRequest where
  "sample_approval2 = decided (ApprovalRequest_decide sample_approval1 8 True ''ok'' None 20)"

lemma sample_approval_steps: "approval_step\<^sup>*\<^sup>* sample_approval sample_approval2"
proof -
  have "ApprovalRequest_decide sample_approval 7 True ''ok'' None 10 = Inr sample_approval1"
    by code_simp
  then have "approval_step sample_approval sample_approval1" by (rule approval_step.intros)
  moreover have "ApprovalRequest_decide sample_approval1 8 True ''ok'' None 20 = Inr sample_approval2"
    by code_simp
  then have "approval_step sample_approval1 sample_approval2" by (rule approval_step.intros)
  ultimately show ?thesis by (meson converse_rtranclp_into_rtranclp rtranclp.rtrancl_refl)
qed

theorem approval_quorum_witness:
  "appr_status sample_approval2 = P_APPROVED \<and> int (length (appr_reviews sample_approval2)) = 2
   \<and> distinct (map rev_principal_id (appr_reviews sample_approval2))"
proof -
  have "approval_fresh sample_approval" by code_simp
  moreover have ap: "appr_status sample_approval2 = P_APPROVED" by code_simp
  ultimately have "int (length (appr_reviews sample_approval2)) = appr_required_reviews sample_approval
      \<and> distinct (map rev_principal_id (appr_reviews sample_approval2))"
    using approval_quorum [OF sample_approval_steps] by blast
  with ap show ?thesis by (simp add: sample_approval_def)
qed

subsection \<open>What the digest binds\<close>

definition single_line :: "string \<Rightarrow> bool" where
  "single_line s = (CHR 0x0A \<notin> set s)"

lemma single_line_uuid: "single_line (str_uuid u)"
proof -
  have "CHR 0x0A \<notin> set (uuid_hex u)" using uuid_hex_chars [of u] by auto
  then show ?thesis
    by (auto simp: single_line_def str_uuid_def Let_def dest: in_set_takeD in_set_dropD)
qed

lemma join_line_inj:
  "join newline xs = join newline ys \<Longrightarrow> length xs = length ys \<Longrightarrow>
     list_all single_line xs \<Longrightarrow> list_all single_line ys \<Longrightarrow> xs = ys"
proof (induction xs arbitrary: ys)
  case (Cons x xs)
  then obtain y ys' where ys: "ys = y # ys'" by (cases ys) auto
  show ?case
  proof (cases xs)
    case Nil
    with Cons ys show ?thesis by simp
  next
    case (Cons x' xs')
    with Cons.prems ys obtain y' ys'' where ys': "ys' = y' # ys''" by (cases ys') auto
    have line: "x = y \<and> a = b" if "x @ CHR 0x0A # a = y @ CHR 0x0A # b" "single_line x" "single_line y"
      for x y a b
      using that
    proof (induction x arbitrary: y)
      case Nil then show ?case by (cases y) (auto simp: single_line_def)
    next
      case (Cons c x) then show ?case by (cases y) (auto simp: single_line_def)
    qed
    from Cons.prems ys ys' \<open>xs = x' # xs'\<close>
    have "x = y \<and> join newline xs = join newline ys'"
      using line [of x "join newline xs" y "join newline ys'"] by (simp add: newline_def)
    with Cons.IH [of ys'] Cons.prems ys show ?thesis by simp
  qed
qed simp

lemma enum_values_inj [simp]:
  "RiskLevel_value r = RiskLevel_value r' \<longleftrightarrow> r = r'"
  "DataClassification_value c = DataClassification_value c' \<longleftrightarrow> c = c'"
  "ExecutionMode_value m = ExecutionMode_value m' \<longleftrightarrow> m = m'"
  subgoal by (cases r; cases r'; simp)
  subgoal by (cases c; cases c'; simp)
  subgoal by (cases m; cases m'; simp)
  done

lemma enum_values_single_line:
  "single_line (RiskLevel_value r)" "single_line (DataClassification_value c)"
  "single_line (ExecutionMode_value m)"
  subgoal by (cases r; simp add: single_line_def)
  subgoal by (cases c; simp add: single_line_def)
  subgoal by (cases m; simp add: single_line_def)
  done

text \<open>Every free-text field of an action and of an envelope is a single line.\<close>

definition action_single_line :: "Action \<Rightarrow> bool" where
  "action_single_line a = list_all single_line [action_tool_name a, action_tool_version a,
     action_operation a, action_resource_scope a, canonical (action_parameters a),
     action_idempotency_key a, action_expected_effect a]"

definition envelope_single_line :: "ActionExecutionEnvelope \<Rightarrow> bool" where
  "envelope_single_line e = list_all single_line [env_tool_name e, env_tool_version e,
     env_operation e, env_resource_scope e, canonical (env_arguments e),
     env_idempotency_key e, env_expected_effect e]"

text \<open>The executable fields of an envelope are those of an action.\<close>

definition same_effect :: "ActionExecutionEnvelope \<Rightarrow> Action \<Rightarrow> bool" where
  "same_effect e a = (env_tenant_id e = action_tenant_id a \<and> env_run_id e = action_run_id a
     \<and> env_task_id e = action_task_id a \<and> env_action_id e = action_id a
     \<and> env_tool_name e = action_tool_name a \<and> env_tool_version e = action_tool_version a
     \<and> env_operation e = action_operation a \<and> env_resource_scope e = action_resource_scope a
     \<and> canonical (env_arguments e) = canonical (action_parameters a)
     \<and> env_risk_level e = action_risk_level a \<and> env_idempotency_key e = action_idempotency_key a
     \<and> env_expected_effect e = action_expected_effect a
     \<and> env_classification e = action_classification a
     \<and> env_execution_mode e = action_execution_mode a)"

lemma canonical_same_effect:
  assumes "envelope_canonical e = action_canonical a" "envelope_single_line e" "action_single_line a"
  shows "same_effect e a"
proof -
  note lines = single_line_uuid enum_values_single_line
  have "[str_uuid (env_tenant_id e), str_uuid (env_run_id e), str_uuid (env_task_id e),
      str_uuid (env_action_id e), env_tool_name e, env_tool_version e,
      env_operation e, env_resource_scope e, canonical (env_arguments e),
      RiskLevel_value (env_risk_level e), env_idempotency_key e,
      env_expected_effect e, DataClassification_value (env_classification e),
      ExecutionMode_value (env_execution_mode e)]
    = [str_uuid (action_tenant_id a), str_uuid (action_run_id a), str_uuid (action_task_id a),
      str_uuid (action_id a), action_tool_name a, action_tool_version a,
      action_operation a, action_resource_scope a, canonical (action_parameters a),
      RiskLevel_value (action_risk_level a), action_idempotency_key a,
      action_expected_effect a, DataClassification_value (action_classification a),
      ExecutionMode_value (action_execution_mode a)]"
    using assms(2,3)
    by (intro join_line_inj assms(1) [unfolded envelope_canonical_def action_canonical_def])
      (simp_all add: lines envelope_single_line_def action_single_line_def)
  then show ?thesis by (simp add: same_effect_def str_uuid_inj)
qed


lemma envelope_from_action_canonical:
  "ActionExecutionEnvelope_from_action i a actor who agent dref bref ap pol dl tr = Inr e \<Longrightarrow>
     envelope_canonical e = action_canonical a \<and> env_action_digest e = canonical_digest a
     \<and> env_approval_id e = ap \<and> env_arguments e = action_parameters a \<and> same_effect e a
     \<and> env_principal_id e = who \<and> env_actor_id e = actor \<and> env_delegation_ref e = dref
     \<and> env_policy_version e = pol \<and> env_deadline e = dl \<and> env_agent_identity e = agent
     \<and> env_budget_ref e = bref \<and> env_invocation_id e = i"
  by (auto simp: ActionExecutionEnvelope_from_action_def envelope_canonical_def action_canonical_def
      same_effect_def)

lemma from_action_accepts:
  assumes "action_valid a"
  shows "is_ok (ActionExecutionEnvelope_from_action i a actor who agent dref bref ap pol dl tr) \<longleftrightarrow>
     \<not> blank agent \<and> \<not> blank dref \<and> \<not> blank bref \<and> \<not> blank pol \<and> \<not> blank tr \<and> \<not> tz_missing dl"
  using assms
  unfolding ActionExecutionEnvelope_from_action_def ActionExecutionEnvelope_post_init_def
    envelope_canonical_def action_valid_iff canonical_digest_def action_canonical_def is_ok_iff
  by (auto simp: result_simps)

text \<open>
  Building the envelope of a valid action fails only because of what the caller supplies: a blank
  agent identity, delegation, budget reference, policy version or trace context, or a naive deadline.
  The digest check of the constructor never rejects an envelope built from an action.
\<close>

lemma envelope_from_action_ok:
  assumes "action_valid a"
  shows "is_ok (ActionExecutionEnvelope_from_action i a actor who agent dref bref ap pol dl tr) \<longleftrightarrow>
     \<not> blank agent \<and> \<not> blank dref \<and> \<not> blank bref \<and> \<not> blank pol \<and> \<not> blank tr \<and> \<not> tz_missing dl"
  using assms by (rule from_action_accepts)

definition sample_action :: Action where
  "sample_action = \<lparr>action_tenant_id = 1, action_run_id = 4, action_task_id = 10,
     action_tool_name = ''tickets'', action_tool_version = ''1.0.0'', action_operation = ''close'',
     action_resource_scope = ''tickets/1'', action_parameters = \<lparr>canonical = ''{}''\<rparr>,
     action_risk_level = L2_REVERSIBLE_WRITE, action_idempotency_key = ''key'',
     action_expected_effect = ''closed'', action_classification = INTERNAL,
     action_execution_mode = SUPERVISED, action_id = 20, action_status = A_PROPOSED,
     action_optimistic_version = 1, action_transitions = []\<rparr>"

lemma sample_action_valid: "action_valid sample_action"
  by code_simp

lemma envelope_from_action_ok_instance:
  "is_ok (ActionExecutionEnvelope_from_action 40 sample_action 7 8 ''agent'' ''d'' ''b'' None ''p1''
     (Aware 5) ''00-1-2-01'')"
  by (subst envelope_from_action_ok [OF sample_action_valid]) code_simp


text \<open>
  The canonical text joins the fields with line breaks and does not escape them, so two different
  valid actions can share it: here a line break moves from the idempotency key to the effect.
\<close>

theorem canonical_digest_ambiguous:
  "\<exists>a b. action_valid a \<and> action_valid b \<and> action_idempotency_key a \<noteq> action_idempotency_key b
     \<and> action_expected_effect a \<noteq> action_expected_effect b \<and> canonical_digest a = canonical_digest b"
proof (intro exI conjI)
  let ?a = "sample_action\<lparr>action_idempotency_key := ''k'' @ newline @ ''x'', action_expected_effect := ''e''\<rparr>"
  let ?b = "sample_action\<lparr>action_idempotency_key := ''k'', action_expected_effect := ''x'' @ newline @ ''e''\<rparr>"
  show "action_valid ?a" "action_valid ?b" by code_simp+
  show "action_idempotency_key ?a \<noteq> action_idempotency_key ?b"
    "action_expected_effect ?a \<noteq> action_expected_effect ?b" by (simp_all add: newline_def)
  show "canonical_digest ?a = canonical_digest ?b"
    by (simp add: canonical_digest_def action_canonical_def newline_def)
qed

end
