(* ===== verification/Evidence.thy ===== *)
theory Evidence
  imports Actions
begin

text \<open>
  Decisions, evidence and outcomes of \<open>packages/domain/src/autonoesis_domain/execution.py\<close>
  (lines 59-72, 86-97 and 491-601) and the trusted verification of
  \<open>packages/application/src/autonoesis_application/verification.py\<close>. The artifact store and the
  authoritative readback are ports of the application and are function arguments here.
\<close>

subsection \<open>DecisionRecord\<close>

datatype DecisionKind = D_EXECUTE | D_APPROVE | D_REJECT | D_ESCALATE | D_REPLAN

record DecisionRecord =
  dec_tenant_id :: uuid
  dec_run_id :: uuid
  dec_action_id :: uuid
  dec_decision :: DecisionKind
  dec_rationale :: string
  dec_policy_version :: string
  dec_actor_id :: uuid
  dec_principal_id :: uuid
  dec_agent_id :: string
  dec_fact_references :: "string list"
  decision_id :: uuid
  dec_created_at :: datetime

definition DecisionRecord_post_init :: "DecisionRecord \<Rightarrow> DecisionRecord result" where
  "DecisionRecord_post_init self =
     thenE (raise_if (blank (dec_rationale self) \<or> blank (dec_policy_version self))
        (ValueError ''decision rationale and policy version must not be empty''))
    (thenE (raise_if (blank (dec_agent_id self)) (ValueError ''agent_id must not be empty''))
    (thenE (raise_if (tz_missing (dec_created_at self)) (ValueError ''created_at must be timezone-aware''))
       (Inr self)))"

subsection \<open>Evidence\<close>

datatype EvidenceCaptureMethod = AUTHORITATIVE_READBACK | SIGNED_EVENT | SYSTEM_QUERY | HUMAN_ATTESTATION

datatype EvidenceIntegrity = EI_VERIFIED | EI_UNVERIFIED | EI_INVALID

record Evidence =
  ev_tenant_id :: uuid
  ev_run_id :: uuid
  ev_action_id :: uuid
  ev_source :: string
  ev_source_identity :: string
  ev_capture_method :: EvidenceCaptureMethod
  ev_reference :: string
  ev_observed_state :: string
  ev_content_digest :: string
  ev_classification :: DataClassification
  ev_valid_from :: datetime
  ev_valid_until :: datetime
  ev_integrity :: EvidenceIntegrity
  ev_source_reference :: string
  ev_subject_refs :: "SubjectRef list"
  ev_retained_until :: "datetime option"
  ev_artifact_version_id :: "string option"
  evidence_id :: uuid
  ev_captured_at :: datetime

definition Evidence_post_init :: "Evidence \<Rightarrow> Evidence result" where
  "Evidence_post_init self =
     thenE (raise_if (list_ex blank
          [ev_source self, ev_source_identity self, ev_reference self, ev_observed_state self])
        (ValueError ''evidence source, identity, reference, and state must not be empty''))
    (thenE (raise_if (\<not> is_sha256_hex (ev_content_digest self))
        (ValueError ''evidence content digest must be a lowercase SHA-256 value''))
    (thenE (raise_if (list_ex tz_missing [ev_captured_at self, ev_valid_from self, ev_valid_until self])
        (ValueError ''evidence timestamps must be timezone-aware''))
    (thenE (raise_if (dt_lt (ev_captured_at self) (ev_valid_from self)
          \<or> dt_lt (ev_valid_until self) (ev_captured_at self))
        (ValueError ''evidence capture must fall within its validity interval''))
    (thenE (raise_if (ev_source_reference self \<noteq> [] \<and> blank (ev_source_reference self))
        (ValueError ''evidence source reference must not be blank''))
    (thenE (raise_if (\<not> distinct (ev_subject_refs self))
        (ValueError ''evidence subject references must be unique''))
    (case ev_retained_until self of
       None \<Rightarrow> Inr self
     | Some retained \<Rightarrow>
         thenE (raise_if (tz_missing retained)
            (ValueError ''evidence retention timestamp must be timezone-aware''))
        (thenE (raise_if (dt_lt retained (ev_captured_at self))
            (ValueError ''evidence retention cannot end before capture''))
           (Inr self))))))))"

subsection \<open>Outcome\<close>

datatype OutcomeStatus = O_VERIFIED | O_NOT_MET | O_UNKNOWN

fun OutcomeStatus_value :: "OutcomeStatus \<Rightarrow> string" where
  "OutcomeStatus_value O_VERIFIED = ''verified''"
| "OutcomeStatus_value O_NOT_MET = ''not_met''"
| "OutcomeStatus_value O_UNKNOWN = ''unknown''"

record Outcome =
  out_tenant_id :: uuid
  out_goal_id :: uuid
  out_run_id :: uuid
  out_criterion_id :: string
  out_verifier_version :: string
  out_status :: OutcomeStatus
  out_evidence :: "Evidence list"
  outcome_id :: uuid
  out_verified_at :: "datetime option"

definition evidence_ids :: "Outcome \<Rightarrow> uuid list" where
  "evidence_ids self = map evidence_id (out_evidence self)"

definition Outcome_post_init :: "Outcome \<Rightarrow> Outcome result" where
  "Outcome_post_init self =
     thenE (raise_if (blank (out_criterion_id self) \<or> blank (out_verifier_version self))
        (ValueError ''outcome criterion id and verifier version must not be empty''))
    (thenE (raise_if (\<not> distinct (evidence_ids self)) (ValueError ''outcome evidence ids must be unique''))
    (thenE (raise_if (out_status self = O_VERIFIED \<and> out_evidence self = [])
        (ValueError ''verified outcome requires evidence''))
    (thenE (raise_if (out_status self = O_VERIFIED \<and> out_verified_at self = None)
        (ValueError ''verified outcome requires a verification timestamp''))
    (thenE (raise_if (case out_verified_at self of None \<Rightarrow> False | Some at \<Rightarrow> tz_missing at)
        (ValueError ''outcome verification timestamp must be timezone-aware''))
    (if out_status self = O_VERIFIED then
       (case out_verified_at self of
          None \<Rightarrow> Inl (AssertionError [])
        | Some verified_at \<Rightarrow>
            thenE (forE (\<lambda>item.
               thenE (raise_if (ev_tenant_id item \<noteq> out_tenant_id self \<or> ev_run_id item \<noteq> out_run_id self)
                  (ValueError ''outcome evidence must share tenant and run''))
              (thenE (raise_if (ev_integrity item \<noteq> EI_VERIFIED)
                  (ValueError ''verified outcome requires integrity-verified evidence''))
                 (raise_if (\<not> (dt_le (ev_valid_from item) verified_at \<and> dt_le verified_at (ev_valid_until item)))
                  (ValueError ''verified outcome requires currently valid evidence'')))) (out_evidence self))
              (Inr self))
     else Inr self)))))"

subsection \<open>Evidence admission\<close>

definition RANK :: "DataClassification \<Rightarrow> nat" where
  "RANK c = (case c of PUBLIC \<Rightarrow> 0 | INTERNAL \<Rightarrow> 1 | CONFIDENTIAL \<Rightarrow> 2 | RESTRICTED \<Rightarrow> 3)"

text \<open>
  The regular-expression searches over the decoded text are fields of the policy: what
  \<open>admit\<close> does does not depend on which patterns they are.
\<close>

record EvidenceAdmissionPolicy =
  maximum_bytes :: nat
  reject_detected_secrets :: bool
  secret_pattern_found :: "8 word list \<Rightarrow> bool"
  pii_pattern_found :: "8 word list \<Rightarrow> bool"

text \<open>\<open>max((declared, detected), key=rank)\<close> returns the first of two equal ranks.\<close>

definition max_rank :: "DataClassification \<Rightarrow> DataClassification \<Rightarrow> DataClassification" where
  "max_rank declared detected = (if RANK detected > RANK declared then detected else declared)"

definition admit ::
  "EvidenceAdmissionPolicy \<Rightarrow> 8 word list \<Rightarrow> DataClassification \<Rightarrow> DataClassification \<Rightarrow> int
     \<Rightarrow> DataClassification result" where
  "admit self content declared maximum retention =
     thenE (raise_if (content = []) (EvidenceAdmissionRejected ''evidence content must not be empty''))
    (thenE (raise_if (length content > maximum_bytes self)
        (EvidenceAdmissionRejected ''evidence content exceeds the configured size limit''))
    (thenE (raise_if (retention \<le> 0)
        (EvidenceAdmissionRejected ''evidence retention must be positive''))
    (bindE (if secret_pattern_found self content then
         thenE (raise_if (reject_detected_secrets self)
            (EvidenceAdmissionRejected ''evidence content contains a detected secret''))
           (Inr RESTRICTED)
       else if pii_pattern_found self content then Inr CONFIDENTIAL
       else Inr INTERNAL) (\<lambda>detected.
     let effective = max_rank declared detected in
     thenE (raise_if (RANK effective > RANK maximum)
        (EvidenceAdmissionRejected ''evidence classification exceeds the Goal data policy''))
       (Inr effective)))))"

subsection \<open>Trusted verification\<close>

record EvidenceArtifactDescriptor =
  art_tenant_id :: uuid
  art_evidence_id :: uuid
  artifact_uri :: string
  art_content_digest :: string
  art_classification :: DataClassification
  art_size_bytes :: nat
  art_retained_until :: datetime
  art_version_id :: "string option"

record AuthoritativeObservation =
  obs_source :: string
  obs_source_identity :: string
  obs_reference :: string
  obs_observed_state :: string
  obs_content :: "8 word list"
  obs_criterion_met :: "bool option"
  obs_captured_at :: datetime
  obs_valid_until :: datetime

definition AuthoritativeObservation_post_init ::
  "AuthoritativeObservation \<Rightarrow> AuthoritativeObservation result" where
  "AuthoritativeObservation_post_init self =
     thenE (raise_if (list_ex blank
          [obs_source self, obs_source_identity self, obs_reference self, obs_observed_state self])
        (ValueError ''authoritative observation identity and state must not be empty''))
    (thenE (raise_if (tz_missing (obs_captured_at self) \<or> tz_missing (obs_valid_until self))
        (ValueError ''authoritative observation timestamps must be timezone-aware''))
    (thenE (raise_if (dt_lt (obs_valid_until self) (obs_captured_at self))
        (ValueError ''authoritative observation validity cannot precede capture''))
       (Inr self)))"

definition obs_content_digest :: "AuthoritativeObservation \<Rightarrow> string" where
  "obs_content_digest self = sha256_hex_bytes (obs_content self)"

record OutcomeVerificationDecision =
  ovd_status :: OutcomeStatus
  ovd_verifier_version :: string
  ovd_verified_at :: datetime

text \<open>The two ports of the verifier and its configured version.\<close>

record TrustedOutcomeVerifier =
  retrieve_verified :: "EvidenceArtifactDescriptor \<Rightarrow> 8 word list result"
  observe :: "string \<Rightarrow> uuid \<Rightarrow> SubjectRef list \<Rightarrow> SuccessCriterion \<Rightarrow> AuthoritativeObservation result"
  verifier_version :: string

definition verification_candidate :: "int \<Rightarrow> Evidence \<Rightarrow> bool" where
  "verification_candidate now item =
     (ev_capture_method item = AUTHORITATIVE_READBACK
      \<and> dt_le (ev_valid_from item) (Aware now) \<and> dt_le (Aware now) (ev_valid_until item)
      \<and> ev_integrity item = EI_VERIFIED)"

definition evidence_descriptor :: "Evidence \<Rightarrow> EvidenceArtifactDescriptor" where
  "evidence_descriptor item =
     \<lparr>art_tenant_id = ev_tenant_id item, art_evidence_id = evidence_id item,
      artifact_uri = ev_reference item, art_content_digest = ev_content_digest item,
      art_classification = ev_classification item, art_size_bytes = 0,
      art_retained_until = (case ev_retained_until item of None \<Rightarrow> ev_valid_until item | Some r \<Rightarrow> r),
      art_version_id = ev_artifact_version_id item\<rparr>"

definition observation_mismatch ::
  "SubjectRef list \<Rightarrow> Evidence \<Rightarrow> 8 word list \<Rightarrow> AuthoritativeObservation \<Rightarrow> bool" where
  "observation_mismatch subjects item content observation =
     (sha256_hex_bytes content \<noteq> ev_content_digest item
      \<or> obs_content_digest observation \<noteq> ev_content_digest item
      \<or> obs_source_identity observation \<noteq> ev_source_identity item
      \<or> obs_reference observation \<noteq> ev_source_reference item
      \<or> obs_observed_state observation \<noteq> ev_observed_state item
      \<or> (ev_subject_refs item \<noteq> [] \<and> ev_subject_refs item \<noteq> subjects))"

definition criterion_status :: "bool option \<Rightarrow> OutcomeStatus" where
  "criterion_status met = (case met of Some True \<Rightarrow> O_VERIFIED | Some False \<Rightarrow> O_NOT_MET | None \<Rightarrow> O_UNKNOWN)"

text \<open>The loop over the candidates; \<open>except (LookupError, ValueError): continue\<close>.\<close>

fun verify_candidates ::
  "TrustedOutcomeVerifier \<Rightarrow> uuid \<Rightarrow> SubjectRef list \<Rightarrow> SuccessCriterion \<Rightarrow> Evidence list
     \<Rightarrow> OutcomeStatus result" where
  "verify_candidates self tenant subjects criterion [] = Inr O_UNKNOWN"
| "verify_candidates self tenant subjects criterion (item # items) =
     (case bindE (retrieve_verified self (evidence_descriptor item)) (\<lambda>content.
           bindE (observe self (ev_source item) tenant subjects criterion) (\<lambda>observation.
           Inr (content, observation))) of
        Inl e \<Rightarrow> if is_LookupError e \<or> is_ValueError e
          then verify_candidates self tenant subjects criterion items else Inl e
      | Inr (content, observation) \<Rightarrow>
          if observation_mismatch subjects item content observation
          then verify_candidates self tenant subjects criterion items
          else Inr (criterion_status (obs_criterion_met observation)))"

definition verify ::
  "TrustedOutcomeVerifier \<Rightarrow> uuid \<Rightarrow> SubjectRef list \<Rightarrow> SuccessCriterion \<Rightarrow> Evidence list \<Rightarrow> int
     \<Rightarrow> OutcomeVerificationDecision result" where
  "verify self tenant subjects criterion evidence now = (let
     candidates = filter (verification_candidate now) evidence;
     decision = (\<lambda>status. \<lparr>ovd_status = status, ovd_verifier_version = verifier_version self,
       ovd_verified_at = Aware now\<rparr>) in
     if candidates = [] then Inr (decision O_UNKNOWN)
     else bindE (verify_candidates self tenant subjects criterion candidates) (\<lambda>status.
       Inr (decision status)))"

subsection \<open>Validity\<close>

definition decision_valid :: "DecisionRecord \<Rightarrow> bool" where
  "decision_valid d = is_ok (DecisionRecord_post_init d)"

definition evidence_valid :: "Evidence \<Rightarrow> bool" where
  "evidence_valid e = is_ok (Evidence_post_init e)"

definition outcome_valid :: "Outcome \<Rightarrow> bool" where
  "outcome_valid x = is_ok (Outcome_post_init x)"

lemma DecisionRecord_post_init_Inr [simp]:
  "DecisionRecord_post_init d = Inr d' \<longleftrightarrow> d' = d \<and> decision_valid d"
  by (auto simp: decision_valid_def is_ok_iff DecisionRecord_post_init_def result_simps)

lemma Evidence_post_init_Inr [simp]: "Evidence_post_init e = Inr e' \<longleftrightarrow> e' = e \<and> evidence_valid e"
  by (auto simp: evidence_valid_def is_ok_iff Evidence_post_init_def result_simps split: option.splits)

lemma Outcome_post_init_Inr [simp]: "Outcome_post_init x = Inr x' \<longleftrightarrow> x' = x \<and> outcome_valid x"
  by (auto simp: outcome_valid_def is_ok_iff Outcome_post_init_def result_simps
      split: option.splits if_splits)

lemma outcome_verified_evidence:
  assumes "outcome_valid x" and "out_status x = O_VERIFIED"
  shows "out_evidence x \<noteq> []" and "distinct (evidence_ids x)"
    and "\<exists>at. out_verified_at x = Some at \<and> \<not> tz_missing at \<and> (\<forall>e\<in>set (out_evidence x).
       ev_tenant_id e = out_tenant_id x \<and> ev_run_id e = out_run_id x \<and> ev_integrity e = EI_VERIFIED
       \<and> dt_le (ev_valid_from e) at \<and> dt_le at (ev_valid_until e))"
  using assms
  by (auto simp: outcome_valid_def is_ok_iff Outcome_post_init_def result_simps split: option.splits)

text \<open>
  C19. A verified outcome cannot be constructed without evidence: it lists at least one item, all with
  distinct ids, from the outcome's own tenant and run, with verified integrity, and valid at the
  moment of verification.
\<close>

theorem verified_outcome_has_evidence:
  assumes "Outcome_post_init x = Inr y" and "out_status x = O_VERIFIED"
  shows "\<exists>at. out_verified_at y = Some at \<and> out_evidence y \<noteq> [] \<and> distinct (evidence_ids y)
     \<and> list_all (\<lambda>e. ev_tenant_id e = out_tenant_id y \<and> ev_run_id e = out_run_id y
          \<and> ev_integrity e = EI_VERIFIED \<and> dt_le (ev_valid_from e) at \<and> dt_le at (ev_valid_until e))
        (out_evidence y)"
  using assms outcome_verified_evidence [of y] by (auto simp: list_all_iff)

definition sample_evidence :: Evidence where
  "sample_evidence = \<lparr>ev_tenant_id = 1, ev_run_id = 4, ev_action_id = 20, ev_source = ''tickets'',
     ev_source_identity = ''svc'', ev_capture_method = AUTHORITATIVE_READBACK, ev_reference = ''uri'',
     ev_observed_state = ''closed'', ev_content_digest = replicate 64 (CHR ''0''),
     ev_classification = INTERNAL, ev_valid_from = Aware 0, ev_valid_until = Aware 100,
     ev_integrity = EI_VERIFIED, ev_source_reference = ''t/1'', ev_subject_refs = [],
     ev_retained_until = None, ev_artifact_version_id = None, evidence_id = 50, ev_captured_at = Aware 5\<rparr>"

definition sample_outcome :: Outcome where
  "sample_outcome = \<lparr>out_tenant_id = 1, out_goal_id = 2, out_run_id = 4, out_criterion_id = ''c1'',
     out_verifier_version = ''trusted-readback@1'', out_status = O_VERIFIED,
     out_evidence = [sample_evidence], outcome_id = 60, out_verified_at = Some (Aware 10)\<rparr>"

theorem verified_outcome_has_evidence_witness:
  "\<exists>at. out_verified_at sample_outcome = Some at \<and> out_evidence sample_outcome \<noteq> []"
proof -
  have "Outcome_post_init sample_outcome = Inr sample_outcome" by code_simp
  moreover have "out_status sample_outcome = O_VERIFIED" by (simp add: sample_outcome_def)
  ultimately show ?thesis using verified_outcome_has_evidence by blast
qed

subsection \<open>Admission never lowers a classification\<close>

text \<open>
  Admitted evidence is never classified below what the caller declared nor below internal, nor
  above the maximum of the goal's data policy; content that matches a personal-data pattern is at
  least confidential, content with a detected secret is admitted only as restricted and only when
  secrets are not rejected outright; and the content is non-empty and within the size limit.
\<close>

lemma admission_bounds:
  assumes "admit p content declared maximum retention = Inr c"
  shows "RANK declared \<le> RANK c \<and> RANK INTERNAL \<le> RANK c \<and> RANK c \<le> RANK maximum
     \<and> (pii_pattern_found p content \<longrightarrow> RANK CONFIDENTIAL \<le> RANK c)
     \<and> (secret_pattern_found p content \<longrightarrow> c = RESTRICTED \<and> \<not> reject_detected_secrets p)
     \<and> 0 < length content \<and> length content \<le> maximum_bytes p \<and> 0 < retention"
  using assms
  by (cases declared; cases maximum)
    (auto simp: admit_def result_simps max_rank_def RANK_def Let_def split: if_splits)

definition sample_policy :: EvidenceAdmissionPolicy where
  "sample_policy = \<lparr>maximum_bytes = 10, reject_detected_secrets = True,
     secret_pattern_found = (\<lambda>_. False), pii_pattern_found = (\<lambda>bs. 64 \<in> set bs)\<rparr>"

lemma admission_bounds_instance:
  "admit sample_policy [64, 2] PUBLIC RESTRICTED 30 = Inr CONFIDENTIAL
   \<and> RANK CONFIDENTIAL \<le> RANK RESTRICTED \<and> RANK PUBLIC \<le> RANK CONFIDENTIAL"
proof -
  have ok: "admit sample_policy [64, 2] PUBLIC RESTRICTED 30 = Inr CONFIDENTIAL"
    by (simp add: admit_def max_rank_def RANK_def sample_policy_def)
  from admission_bounds [OF this] ok show ?thesis by simp
qed

subsection \<open>Verification rests on a fresh authoritative read\<close>

text \<open>What supports an outcome: stored bytes and a new observation that both match the evidence.\<close>

definition supports ::
  "TrustedOutcomeVerifier \<Rightarrow> uuid \<Rightarrow> SubjectRef list \<Rightarrow> SuccessCriterion \<Rightarrow> Evidence \<Rightarrow> bool option \<Rightarrow> bool" where
  "supports v tenant subjects criterion e met = (\<exists>content observation.
     retrieve_verified v (evidence_descriptor e) = Inr content
     \<and> observe v (ev_source e) tenant subjects criterion = Inr observation
     \<and> sha256_hex_bytes content = ev_content_digest e
     \<and> obs_content_digest observation = ev_content_digest e
     \<and> obs_source_identity observation = ev_source_identity e
     \<and> obs_reference observation = ev_source_reference e
     \<and> obs_observed_state observation = ev_observed_state e
     \<and> (ev_subject_refs e = [] \<or> ev_subject_refs e = subjects)
     \<and> obs_criterion_met observation = met)"

lemma verify_candidates_sound:
  "verify_candidates v tenant subjects criterion es = Inr s \<Longrightarrow> s \<noteq> O_UNKNOWN \<Longrightarrow>
     \<exists>e\<in>set es. supports v tenant subjects criterion e (Some (s = O_VERIFIED))"
proof (induction es)
  case (Cons e es)
  show ?case
  proof (cases "bindE (retrieve_verified v (evidence_descriptor e)) (\<lambda>content.
      bindE (observe v (ev_source e) tenant subjects criterion) (\<lambda>observation. Inr (content, observation)))")
    case (Inl err)
    with Cons show ?thesis by (auto split: if_splits)
  next
    case (Inr co)
    then obtain content observation where co: "co = (content, observation)"
        "retrieve_verified v (evidence_descriptor e) = Inr content"
        "observe v (ev_source e) tenant subjects criterion = Inr observation"
      by (auto simp: result_simps)
    show ?thesis
    proof (cases "observation_mismatch subjects e content observation")
      case True
      with Cons Inr co show ?thesis by auto
    next
      case False
      with Cons.prems Inr co have "s = criterion_status (obs_criterion_met observation)" by simp
      with Cons.prems(2) have "obs_criterion_met observation = Some (s = O_VERIFIED)"
        by (auto simp: criterion_status_def split: option.splits bool.splits)
      with False co show ?thesis
        by (auto simp: supports_def observation_mismatch_def)
    qed
  qed
qed simp

lemma verify_candidates_complete:
  "\<forall>e\<in>set es. \<exists>met. supports v tenant subjects criterion e met \<Longrightarrow> es \<noteq> [] \<Longrightarrow>
     \<exists>met. supports v tenant subjects criterion (hd es) met
       \<and> verify_candidates v tenant subjects criterion es = Inr (criterion_status met)"
  by (cases es) (auto simp: supports_def observation_mismatch_def)

text \<open>
  C20. The trusted verifier decides verified (or not met) only on an item of the given evidence that
  was captured by authoritative readback, has verified integrity and is valid now, whose stored bytes
  still hash to the recorded digest, and for which the authority, read again, returns the same
  content, identity, reference and state and says that the criterion holds (or does not).
\<close>

theorem verify_needs_authority:
  assumes "verify v tenant subjects criterion evidence now = Inr d" and "ovd_status d \<noteq> O_UNKNOWN"
  shows "\<exists>e\<in>set evidence. verification_candidate now e
     \<and> supports v tenant subjects criterion e (Some (ovd_status d = O_VERIFIED))"
proof -
  have "verify_candidates v tenant subjects criterion (filter (verification_candidate now) evidence)
      = Inr (ovd_status d)"
    using assms by (auto simp: verify_def Let_def result_simps split: if_splits)
  from verify_candidates_sound [OF this assms(2)] show ?thesis by auto
qed

definition sample_bytes_evidence :: Evidence where
  "sample_bytes_evidence = sample_evidence\<lparr>ev_content_digest := sha256_hex_bytes [104, 105]\<rparr>"

definition sample_verifier :: TrustedOutcomeVerifier where
  "sample_verifier = \<lparr>retrieve_verified = (\<lambda>_. Inr [104, 105]),
     observe = (\<lambda>_ _ _ _. Inr \<lparr>obs_source = ''tickets'', obs_source_identity = ''svc'',
       obs_reference = ''t/1'', obs_observed_state = ''closed'', obs_content = [104, 105],
       obs_criterion_met = Some True, obs_captured_at = Aware 9, obs_valid_until = Aware 99\<rparr>),
     verifier_version = ''trusted-readback@1''\<rparr>"

definition sample_criterion :: SuccessCriterion where
  "sample_criterion = \<lparr>criterion_id = ''c1'', crit_description = ''ticket closed'', crit_evidence_type = ''state''\<rparr>"

lemma sample_verify:
  "verify sample_verifier 1 [] sample_criterion [sample_bytes_evidence] 10
     = Inr \<lparr>ovd_status = O_VERIFIED, ovd_verifier_version = ''trusted-readback@1'', ovd_verified_at = Aware 10\<rparr>"
  by (simp add: verify_def sample_verifier_def sample_bytes_evidence_def sample_evidence_def
      verification_candidate_def observation_mismatch_def criterion_status_def obs_content_digest_def)

theorem verify_needs_authority_witness:
  "supports sample_verifier 1 [] sample_criterion sample_bytes_evidence (Some True)"
  using verify_needs_authority [OF sample_verify] by simp

end
