(* ===== verification/Identity.thy ===== *)
theory Identity
  imports Values
begin

text \<open>
  \<open>packages/domain/src/autonoesis_domain/identity.py\<close> (enterprise identities, delegation grants,
  emergency authorizations) and \<open>assets.py\<close> (versioned agents, skills and tools).
\<close>

subsection \<open>Identities\<close>

datatype IdentityKind = HUMAN | SERVICE | AGENT

record EnterpriseIdentity =
  ident_tenant_id :: uuid
  ident_actor_id :: uuid
  ident_principal_id :: uuid
  ident_subject :: string
  ident_kind :: IdentityKind
  ident_service_id :: "string option"
  ident_agent_id :: "string option"

text \<open>\<open>not self.service_id\<close>: missing or the empty string.\<close>

definition falsy :: "string option \<Rightarrow> bool" where
  "falsy s = (s = None \<or> s = Some [])"

definition EnterpriseIdentity_post_init :: "EnterpriseIdentity \<Rightarrow> EnterpriseIdentity result" where
  "EnterpriseIdentity_post_init self =
     thenE (raise_if (blank (ident_subject self)) (ValueError ''identity subject is required''))
    (thenE (raise_if (ident_kind self = SERVICE \<and> falsy (ident_service_id self))
        (ValueError ''service identity requires service_id''))
    (thenE (raise_if (ident_kind self = AGENT \<and> falsy (ident_agent_id self))
        (ValueError ''agent identity requires agent_id''))
       (Inr self)))"

subsection \<open>Delegation\<close>

record DelegationGrant =
  grant_tenant_id :: uuid
  grantor_principal_id :: uuid
  delegate_principal_id :: uuid
  grant_tool_name :: string
  resource_prefix :: string
  grant_purpose :: string
  grant_expires_at :: datetime
  delegation_id :: uuid
  grant_created_at :: datetime
  revoked_at :: "datetime option"

definition DelegationGrant_post_init :: "DelegationGrant \<Rightarrow> DelegationGrant result" where
  "DelegationGrant_post_init self =
     thenE (raise_if (list_ex blank [grant_tool_name self, resource_prefix self, grant_purpose self])
        (ValueError ''delegation tool, resource scope, and purpose are required''))
    (thenE (raise_if (tz_missing (grant_expires_at self) \<or> tz_missing (grant_created_at self))
        (ValueError ''delegation timestamps must be timezone-aware''))
    (thenE (raise_if (dt_le (grant_expires_at self) (grant_created_at self))
        (ValueError ''delegation must be short-lived and expire after issuance''))
    (thenE (raise_if (grantor_principal_id self = delegate_principal_id self)
        (ValueError ''self-delegation is not permitted''))
       (Inr self))))"

definition DelegationGrant_revoke :: "DelegationGrant \<Rightarrow> datetime \<Rightarrow> DelegationGrant result" where
  "DelegationGrant_revoke self at = DelegationGrant_post_init (self\<lparr>revoked_at := Some at\<rparr>)"

definition DelegationGrant_authorizes ::
  "DelegationGrant \<Rightarrow> uuid \<Rightarrow> uuid \<Rightarrow> string \<Rightarrow> string \<Rightarrow> string \<Rightarrow> int \<Rightarrow> bool" where
  "DelegationGrant_authorizes self tenant_id principal_id tool_name resource purpose now =
     (revoked_at self = None
      \<and> dt_lt (Aware now) (grant_expires_at self)
      \<and> tenant_id = grant_tenant_id self
      \<and> principal_id = delegate_principal_id self
      \<and> tool_name = grant_tool_name self
      \<and> startswith resource (resource_prefix self)
      \<and> purpose = grant_purpose self)"

subsection \<open>Emergency authorization\<close>

record TemporaryAuthorization =
  temp_tenant_id :: uuid
  temp_principal_id :: uuid
  temp_scope :: string
  temp_reason :: string
  temp_expires_at :: datetime
  authorization_id :: uuid
  temp_created_at :: datetime
  reviewed_by :: "uuid option"
  reviewed_at :: "datetime option"

definition TemporaryAuthorization_post_init ::
  "TemporaryAuthorization \<Rightarrow> TemporaryAuthorization result" where
  "TemporaryAuthorization_post_init self =
     thenE (raise_if (blank (temp_scope self) \<or> blank (temp_reason self))
        (ValueError ''temporary authorization scope and reason are required''))
    (bindE (if tz_missing (temp_expires_at self) then Inr True
        else dt_geE (temp_created_at self) (temp_expires_at self)) (\<lambda>late.
     thenE (raise_if late
        (ValueError ''temporary authorization requires a future timezone-aware expiry''))
       (Inr self)))"

definition TemporaryAuthorization_review ::
  "TemporaryAuthorization \<Rightarrow> uuid \<Rightarrow> datetime \<Rightarrow> TemporaryAuthorization result" where
  "TemporaryAuthorization_review self reviewer at =
     thenE (raise_if (reviewer = temp_principal_id self)
        (ValueError ''emergency authorization requires independent post-review''))
       (TemporaryAuthorization_post_init
         (self\<lparr>reviewed_by := Some reviewer, reviewed_at := Some at\<rparr>))"

subsection \<open>Capability assets\<close>

datatype AssetStage = AS_CANDIDATE | AS_STABLE | AS_RETIRED

datatype SideEffectClass = SE_COMPUTE | SE_READ | SE_REVERSIBLE_WRITE | SE_HIGH_IMPACT_WRITE | SE_PRIVILEGED

record LoopPolicy =
  max_rounds :: int
  max_tokens :: int
  max_cost_units :: int
  timeout_seconds :: int

definition LoopPolicy_post_init :: "LoopPolicy \<Rightarrow> LoopPolicy result" where
  "LoopPolicy_post_init self =
     thenE (raise_if (min (min (max_rounds self) (max_tokens self))
          (min (max_cost_units self) (timeout_seconds self)) \<le> 0)
        (ValueError ''agent loop limits must be positive''))
       (Inr self)"

record AgentVersion =
  av_tenant_id :: uuid
  av_agent_id :: uuid
  av_version :: int
  av_instruction :: string
  av_model_route :: string
  av_skill_ids :: "string list"
  av_tool_ids :: "string list"
  av_loop_policy :: LoopPolicy
  av_stage :: AssetStage
  agent_version_id :: uuid

definition AgentVersion_post_init :: "AgentVersion \<Rightarrow> AgentVersion result" where
  "AgentVersion_post_init self =
     thenE (raise_if (av_version self < 1 \<or> blank (av_instruction self) \<or> blank (av_model_route self))
        (ValueError ''agent version, instruction, and model route are required''))
       (Inr self)"

record SkillDefinition =
  skill_id :: string
  skill_version :: string
  skill_input_schema :: json
  skill_output_schema :: json
  skill_executor :: string
  skill_evaluation_suite_id :: string

definition SkillDefinition_post_init :: "SkillDefinition \<Rightarrow> SkillDefinition result" where
  "SkillDefinition_post_init self =
     thenE (raise_if (list_ex blank [skill_id self, skill_version self, skill_executor self,
          skill_evaluation_suite_id self])
        (ValueError ''skill identifiers must not be empty''))
       (Inr self)"

record ToolDefinition =
  tool_id :: string
  tool_version :: string
  tool_input_schema :: json
  tool_output_schema :: json
  tool_adapter :: string
  tool_side_effect :: SideEffectClass
  tool_idempotent :: bool
  tool_verification :: string
  tool_compensation :: "string option"

definition ToolDefinition_post_init :: "ToolDefinition \<Rightarrow> ToolDefinition result" where
  "ToolDefinition_post_init self =
     thenE (raise_if (list_ex blank [tool_id self, tool_version self, tool_adapter self,
          tool_verification self])
        (ValueError ''tool identifiers and verification must not be empty''))
    (thenE (raise_if (tool_side_effect self \<in> {SE_REVERSIBLE_WRITE, SE_HIGH_IMPACT_WRITE, SE_PRIVILEGED}
          \<and> \<not> tool_idempotent self)
        (ValueError ''write tools must declare an idempotent execution contract''))
       (Inr self))"

subsection \<open>Lemmas\<close>

definition grant_valid :: "DelegationGrant \<Rightarrow> bool" where
  "grant_valid g = is_ok (DelegationGrant_post_init g)"

lemma DelegationGrant_post_init_Inr [simp]:
  "DelegationGrant_post_init g = Inr g' \<longleftrightarrow> g' = g \<and> grant_valid g"
  by (auto simp: grant_valid_def is_ok_iff DelegationGrant_post_init_def result_simps)

text \<open>Revoking a valid grant always succeeds, and a revoked grant authorizes nothing, ever.\<close>

lemma revoke_valid: "grant_valid g \<Longrightarrow> is_ok (DelegationGrant_revoke g at)"
  by (auto simp: DelegationGrant_revoke_def grant_valid_def is_ok_iff DelegationGrant_post_init_def
      result_simps)

lemma revoked_grant_denies:
  "DelegationGrant_revoke g at = Inr g' \<Longrightarrow> \<not> DelegationGrant_authorizes g' t p tool res pur now"
  by (auto simp: DelegationGrant_revoke_def DelegationGrant_authorizes_def)

lemma grant_no_self_delegation:
  "grant_valid g \<Longrightarrow> DelegationGrant_authorizes g t p tool res pur now \<Longrightarrow> p \<noteq> grantor_principal_id g"
  by (auto simp: grant_valid_def is_ok_iff DelegationGrant_post_init_def result_simps
      DelegationGrant_authorizes_def)

end
