(* ===== verification/Store.thy ===== *)
theory Store
  imports Repository Audit_Trail Context_Domain Evidence Identity
begin

text \<open>
  \<open>InMemoryPlatformStore\<close> of \<open>packages/adapters/src/autonoesis_adapters/memory.py\<close>: the
  tables the governed execution of goals uses and the operations on them. Reads are functions of the
  store, writes are transaction steps. The clock of \<open>record_audit\<close> is the argument
  \<open>now\<close>. The tables of the evolution service and of capability packs belong to other components.
\<close>

subsection \<open>Saga and deletion records\<close>

text \<open>Records of \<open>verification.py\<close> lines 26-36 and 85-112 that only the store and the application use.\<close>

datatype EvidenceCaptureStatus = EC_PENDING | EC_COMMITTED | EC_FAILED

datatype EvidenceDeletionStatus = ED_REQUESTED | ED_RETENTION_BLOCKED | ED_DELETED | ED_FAILED

fun EvidenceDeletionStatus_value :: "EvidenceDeletionStatus \<Rightarrow> string" where
  "EvidenceDeletionStatus_value ED_REQUESTED = ''requested''"
| "EvidenceDeletionStatus_value ED_RETENTION_BLOCKED = ''retention_blocked''"
| "EvidenceDeletionStatus_value ED_DELETED = ''deleted''"
| "EvidenceDeletionStatus_value ED_FAILED = ''failed''"

text \<open>
  The \<open>definition\<close> dictionary of a capture saga always has the keys that
  \<open>capture_authoritative_evidence\<close> writes; it is the record of their decoded values.
\<close>

record CaptureDefinition =
  def_source :: string
  def_source_identity :: string
  def_source_reference :: string
  def_observed_state :: string
  def_captured_at :: datetime
  def_valid_until :: datetime
  def_retained_until :: datetime
  def_classification :: DataClassification
  def_size_bytes :: nat
  def_content_type :: string
  def_subject_refs :: "SubjectRef list"

record EvidenceCaptureSaga =
  saga_tenant_id :: uuid
  saga_evidence_id :: uuid
  saga_run_id :: uuid
  saga_action_id :: uuid
  saga_criterion_id :: string
  saga_source :: string
  saga_artifact_uri :: string
  saga_expected_digest :: string
  saga_definition :: CaptureDefinition
  saga_status :: EvidenceCaptureStatus
  saga_failure_reason :: "string option"

record EvidenceDeletionRecord =
  del_tenant_id :: uuid
  del_evidence_id :: uuid
  del_artifact_uri :: string
  del_requested_by :: uuid
  del_reason :: string
  del_requested_at :: datetime
  del_status :: EvidenceDeletionStatus
  del_deleted_at :: "datetime option"
  del_provider_version_id :: "string option"
  del_proof_digest :: "string option"
  del_failure_reason :: "string option"

record BudgetEntry =
  be_entry_id :: uuid
  be_tenant_id :: uuid
  be_run_id :: uuid
  be_category :: string
  be_amount :: int
  be_unit :: string
  be_reference :: string
  be_created_at :: datetime

subsection \<open>The store\<close>

record store =
  goals :: "(uuid \<times> GoalContract) list"
  runs :: "(uuid \<times> Run) list"
  context_snapshots :: "(uuid \<times> ContextSnapshot) list"
  memories :: "(uuid \<times> MemoryRecord) list"
  plans :: "(uuid \<times> Plan) list"
  tasks :: "(uuid \<times> Task) list"
  actions :: "(uuid \<times> Action) list"
  action_attempts :: "(uuid \<times> ActionAttempt) list"
  agents :: "((uuid \<times> string) \<times> AgentVersion) list"
  budget_entries :: "BudgetEntry list"
  approvals :: "(uuid \<times> ApprovalRequest) list"
  evidence :: "(uuid \<times> Evidence) list"
  evidence_capture_sagas :: "(uuid \<times> EvidenceCaptureSaga) list"
  evidence_deletions :: "(uuid \<times> EvidenceDeletionRecord) list"
  outcomes :: "(uuid \<times> Outcome) list"
  audits :: "AuditEvent list"
  idempotency :: "((uuid \<times> string) \<times> uuid) list"
  idempotency_digests :: "((uuid \<times> string) \<times> string) list"

definition empty_store :: store where
  "empty_store = \<lparr>goals = [], runs = [], context_snapshots = [], memories = [], plans = [], tasks = [],
     actions = [], action_attempts = [], agents = [], budget_entries = [], approvals = [], evidence = [],
     evidence_capture_sagas = [], evidence_deletions = [], outcomes = [], audits = [],
     idempotency = [], idempotency_digests = []\<rparr>"

definition assert_tenant :: "uuid \<Rightarrow> uuid \<Rightarrow> unit result" where
  "assert_tenant expected actual =
     raise_if (expected \<noteq> actual) (TenantBoundaryViolation ''record belongs to a different tenant'')"

text \<open>The common shape of the lookups: \<open>RecordNotFound\<close>, then the tenant check.\<close>

definition lookup_record :: "(uuid \<times> 'o) list \<Rightarrow> ('o \<Rightarrow> uuid) \<Rightarrow> string \<Rightarrow> uuid \<Rightarrow> uuid \<Rightarrow> 'o result" where
  "lookup_record table tenant_of missing tenant_id key =
     (case map_of table key of
        None \<Rightarrow> Inl (RecordNotFound missing)
      | Some item \<Rightarrow> thenE (assert_tenant tenant_id (tenant_of item)) (Inr item))"

definition not_found :: "string \<Rightarrow> uuid \<Rightarrow> string" where
  "not_found what key = what @ '' '' @ str_uuid key @ '' was not found''"

subsection \<open>Audit trail\<close>

definition record_audit :: "AuditEvent \<Rightarrow> int \<Rightarrow> (store, unit) tx" where
  "record_audit audit now s = bindE (next_audit (audits s) audit now) (\<lambda>event.
     Inr ((), s\<lparr>audits := audits s @ [event]\<rparr>))"

definition list_audit_events :: "store \<Rightarrow> uuid \<Rightarrow> AuditEvent list" where
  "list_audit_events s tenant_id = filter (\<lambda>item. ae_tenant_id item = tenant_id) (audits s)"

subsection \<open>Agents\<close>

definition register_agent :: "string \<Rightarrow> AgentVersion \<Rightarrow> (store, unit) tx" where
  "register_agent name version = modifyT (\<lambda>s.
     s\<lparr>agents := AList.update (av_tenant_id version, name) version (agents s)\<rparr>)"

definition list_agents :: "store \<Rightarrow> uuid \<Rightarrow> (string \<times> AgentVersion) list" where
  "list_agents s tenant_id = map (\<lambda>((_, name), version). (name, version))
     (filter (\<lambda>((item_tenant, _), _). item_tenant = tenant_id) (agents s))"

definition get_stable_agent :: "store \<Rightarrow> uuid \<Rightarrow> string \<Rightarrow> AgentVersion result" where
  "get_stable_agent s tenant_id agent_name =
     (case map_of (agents s) (tenant_id, agent_name) of
        None \<Rightarrow> Inl (RecordNotFound (''stable agent '' @ agent_name @ '' was not found''))
      | Some version \<Rightarrow> Inr version)"

subsection \<open>Goals and runs\<close>

definition add_goal :: "GoalContract \<Rightarrow> AuditEvent \<Rightarrow> int \<Rightarrow> (store, unit) tx" where
  "add_goal goal audit now =
     thenT (modifyT (\<lambda>s. s\<lparr>goals := AList.update (goal_id goal) goal (goals s)\<rparr>))
       (record_audit audit now)"

definition get_goal :: "store \<Rightarrow> uuid \<Rightarrow> uuid \<Rightarrow> GoalContract result" where
  "get_goal s tenant_id key = lookup_record (goals s) goal_tenant_id (not_found ''goal'' key) tenant_id key"

definition list_goals :: "store \<Rightarrow> uuid \<Rightarrow> GoalContract list" where
  "list_goals s tenant_id = filter (\<lambda>goal. goal_tenant_id goal = tenant_id) (dict_values (goals s))"

definition save_goal :: "GoalContract \<Rightarrow> int \<Rightarrow> AuditEvent \<Rightarrow> int \<Rightarrow> (store, unit) tx" where
  "save_goal goal expected_version audit now =
     bindT (readT (\<lambda>s. get_goal s (goal_tenant_id goal) (goal_id goal))) (\<lambda>current.
     thenT (checkT (goal_version current \<noteq> expected_version)
        (ConcurrencyConflict ''goal optimistic version changed''))
    (thenT (modifyT (\<lambda>s. s\<lparr>goals := AList.update (goal_id goal) goal (goals s)\<rparr>))
       (record_audit audit now)))"

definition add_run :: "Run \<Rightarrow> AuditEvent \<Rightarrow> int \<Rightarrow> (store, unit) tx" where
  "add_run run audit now =
     thenT (modifyT (\<lambda>s. s\<lparr>runs := AList.update (run_id run) run (runs s)\<rparr>))
       (record_audit audit now)"

definition get_run :: "store \<Rightarrow> uuid \<Rightarrow> uuid \<Rightarrow> Run result" where
  "get_run s tenant_id key = lookup_record (runs s) run_tenant_id (not_found ''run'' key) tenant_id key"

definition save_run :: "Run \<Rightarrow> int \<Rightarrow> AuditEvent option \<Rightarrow> int \<Rightarrow> (store, unit) tx" where
  "save_run run expected_version audit now =
     bindT (readT (\<lambda>s. get_run s (run_tenant_id run) (run_id run))) (\<lambda>current.
     thenT (checkT (run_optimistic_version current \<noteq> expected_version)
        (ConcurrencyConflict ''run optimistic version changed''))
    (thenT (modifyT (\<lambda>s. s\<lparr>runs := AList.update (run_id run) run (runs s)\<rparr>))
       (case audit of None \<Rightarrow> returnT () | Some event \<Rightarrow> record_audit event now)))"

definition list_runs :: "store \<Rightarrow> uuid \<Rightarrow> uuid option \<Rightarrow> Run list" where
  "list_runs s tenant_id goal = filter (\<lambda>run. run_tenant_id run = tenant_id
     \<and> (goal = None \<or> goal = Some (run_goal_id run))) (dict_values (runs s))"

subsection \<open>Context and memory\<close>

definition add_context_snapshot :: "ContextSnapshot \<Rightarrow> (store, unit) tx" where
  "add_context_snapshot snapshot =
     bindT (readT Inr) (\<lambda>s.
     thenT (checkT (list_ex (\<lambda>item. ctx_tenant_id item = ctx_tenant_id snapshot
          \<and> ctx_run_id item = ctx_run_id snapshot) (dict_values (context_snapshots s)))
        (ConcurrencyConflict ''run context snapshot already exists''))
       (modifyT (\<lambda>s. s\<lparr>context_snapshots :=
          AList.update (snapshot_id snapshot) snapshot (context_snapshots s)\<rparr>)))"

definition get_context_snapshot :: "store \<Rightarrow> uuid \<Rightarrow> uuid \<Rightarrow> ContextSnapshot result" where
  "get_context_snapshot s tenant_id run =
     (case find (\<lambda>item. ctx_tenant_id item = tenant_id \<and> ctx_run_id item = run)
        (dict_values (context_snapshots s)) of
        Some item \<Rightarrow> Inr item
      | None \<Rightarrow> Inl (RecordNotFound (''context for run '' @ str_uuid run @ '' was not found'')))"

definition get_memory :: "store \<Rightarrow> uuid \<Rightarrow> uuid \<Rightarrow> MemoryRecord result" where
  "get_memory s tenant_id key =
     lookup_record (memories s) mem_tenant_id (not_found ''memory'' key) tenant_id key"

definition add_memory :: "MemoryRecord \<Rightarrow> (store, unit) tx" where
  "add_memory item =
     thenT (checkT (mem_status item \<noteq> M_STABLE)
        (PermissionError ''memory must pass the Write Gate before persistence''))
       (modifyT (\<lambda>s. s\<lparr>memories := AList.update (memory_id item) item (memories s)\<rparr>))"

subsection \<open>Plans and tasks\<close>

definition put_task :: "Task \<Rightarrow> store \<Rightarrow> store" where
  "put_task task s = s\<lparr>tasks := AList.update (task_id task) task (tasks s)\<rparr>"

definition add_plan :: "Plan \<Rightarrow> (store, unit) tx" where
  "add_plan plan = modifyT (\<lambda>s. fold put_task (plan_tasks plan)
     (s\<lparr>plans := AList.update (plan_id plan) plan (plans s)\<rparr>))"

definition get_plan :: "store \<Rightarrow> uuid \<Rightarrow> uuid \<Rightarrow> Plan result" where
  "get_plan s tenant_id key =
     bindE (lookup_record (plans s) plan_tenant_id (not_found ''plan'' key) tenant_id key) (\<lambda>plan.
     bindE (mapE (\<lambda>task. case map_of (tasks s) (task_id task) of
         None \<Rightarrow> Inl (KeyError (str_uuid (task_id task))) | Some t \<Rightarrow> Inr t) (plan_tasks plan)) (\<lambda>current.
     Plan_post_init (plan\<lparr>plan_tasks := current\<rparr>)))"

definition get_task :: "store \<Rightarrow> uuid \<Rightarrow> uuid \<Rightarrow> Task result" where
  "get_task s tenant_id key = lookup_record (tasks s) task_tenant_id (not_found ''task'' key) tenant_id key"

definition list_tasks :: "store \<Rightarrow> uuid \<Rightarrow> uuid \<Rightarrow> Task list" where
  "list_tasks s tenant_id run = filter (\<lambda>task. task_tenant_id task = tenant_id \<and> task_run_id task = run)
     (dict_values (tasks s))"

definition save_task :: "Task \<Rightarrow> int \<Rightarrow> (store, unit) tx" where
  "save_task task expected_version =
     bindT (readT (\<lambda>s. get_task s (task_tenant_id task) (task_id task))) (\<lambda>current.
     thenT (checkT (task_optimistic_version current \<noteq> expected_version)
        (ConcurrencyConflict ''task optimistic version changed''))
       (modifyT (put_task task)))"

subsection \<open>Actions and attempts\<close>

definition add_action :: "Action \<Rightarrow> (store, unit) tx" where
  "add_action action =
     bindT (readT Inr) (\<lambda>s.
     thenT (checkT (list_ex (\<lambda>item. action_tenant_id item = action_tenant_id action
          \<and> action_idempotency_key item = action_idempotency_key action) (dict_values (actions s)))
        (ConcurrencyConflict ''action idempotency key already exists''))
       (modifyT (\<lambda>s. s\<lparr>actions := AList.update (action_id action) action (actions s)\<rparr>)))"

definition get_action :: "store \<Rightarrow> uuid \<Rightarrow> uuid \<Rightarrow> Action result" where
  "get_action s tenant_id key =
     lookup_record (actions s) action_tenant_id (not_found ''action'' key) tenant_id key"

definition save_action :: "Action \<Rightarrow> int \<Rightarrow> (store, unit) tx" where
  "save_action action expected_version =
     bindT (readT (\<lambda>s. get_action s (action_tenant_id action) (action_id action))) (\<lambda>current.
     thenT (checkT (action_optimistic_version current \<noteq> expected_version)
        (ConcurrencyConflict ''action optimistic version changed''))
       (modifyT (\<lambda>s. s\<lparr>actions := AList.update (action_id action) action (actions s)\<rparr>)))"

definition list_actions :: "store \<Rightarrow> uuid \<Rightarrow> uuid \<Rightarrow> Action list" where
  "list_actions s tenant_id run = filter (\<lambda>action. action_tenant_id action = tenant_id
     \<and> action_run_id action = run) (dict_values (actions s))"

definition add_action_attempt :: "ActionAttempt \<Rightarrow> (store, unit) tx" where
  "add_action_attempt attempt =
     bindT (readT Inr) (\<lambda>s.
     thenT (checkT (list_ex (\<lambda>item. att_tenant_id item = att_tenant_id attempt
          \<and> ((att_invocation_id item = att_invocation_id attempt \<and> att_status item = att_status attempt)
             \<or> att_idempotency_key item = att_idempotency_key attempt)) (dict_values (action_attempts s)))
        (ConcurrencyConflict ''action attempt already recorded''))
       (modifyT (\<lambda>s. s\<lparr>action_attempts := AList.update (attempt_id attempt) attempt (action_attempts s)\<rparr>)))"

definition list_action_attempts :: "store \<Rightarrow> uuid \<Rightarrow> uuid \<Rightarrow> ActionAttempt list" where
  "list_action_attempts s tenant_id action = filter (\<lambda>item. att_tenant_id item = tenant_id
     \<and> att_action_id item = action) (dict_values (action_attempts s))"

subsection \<open>Approvals\<close>

definition list_approvals :: "store \<Rightarrow> uuid \<Rightarrow> ApprovalRequest list" where
  "list_approvals s tenant_id = filter (\<lambda>item. appr_tenant_id item = tenant_id) (dict_values (approvals s))"

definition get_approval :: "store \<Rightarrow> uuid \<Rightarrow> uuid \<Rightarrow> ApprovalRequest result" where
  "get_approval s tenant_id key =
     (case map_of (approvals s) key of
        None \<Rightarrow> Inl (RecordNotFound ''approval was not found'')
      | Some item \<Rightarrow> thenE (raise_if (appr_tenant_id item \<noteq> tenant_id)
          (RecordNotFound ''approval was not found'')) (Inr item))"

definition add_approval :: "ApprovalRequest \<Rightarrow> (store, unit) tx" where
  "add_approval approval = modifyT (\<lambda>s.
     s\<lparr>approvals := AList.update (approval_id approval) approval (approvals s)\<rparr>)"

definition save_approval :: "ApprovalRequest \<Rightarrow> int \<Rightarrow> (store, unit) tx" where
  "save_approval approval expected_version =
     bindT (readT (\<lambda>s. get_approval s (appr_tenant_id approval) (approval_id approval))) (\<lambda>current.
     thenT (checkT (appr_optimistic_version current \<noteq> expected_version)
        (ConcurrencyConflict ''approval optimistic version changed''))
       (modifyT (\<lambda>s. s\<lparr>approvals := AList.update (approval_id approval) approval (approvals s)\<rparr>)))"

subsection \<open>Evidence and outcomes\<close>

definition add_evidence :: "Evidence \<Rightarrow> (store, unit) tx" where
  "add_evidence item =
     bindT (readT (\<lambda>s. get_action s (ev_tenant_id item) (ev_action_id item))) (\<lambda>action.
     thenT (checkT (action_run_id action \<noteq> ev_run_id item)
        (ValueError ''evidence must bind the authoritative Action and Run''))
       (modifyT (\<lambda>s. s\<lparr>evidence := AList.update (evidence_id item) item (evidence s)\<rparr>)))"

definition get_evidence :: "store \<Rightarrow> uuid \<Rightarrow> uuid \<Rightarrow> Evidence result" where
  "get_evidence s tenant_id key =
     lookup_record (evidence s) ev_tenant_id (not_found ''evidence'' key) tenant_id key"

definition list_evidence :: "store \<Rightarrow> uuid \<Rightarrow> Evidence list" where
  "list_evidence s tenant_id = filter (\<lambda>item. ev_tenant_id item = tenant_id) (dict_values (evidence s))"

definition start_evidence_capture :: "EvidenceCaptureSaga \<Rightarrow> (store, unit) tx" where
  "start_evidence_capture saga s =
     (case map_of (evidence_capture_sagas s) (saga_evidence_id saga) of
        None \<Rightarrow> Inr ((), s\<lparr>evidence_capture_sagas :=
          AList.update (saga_evidence_id saga) saga (evidence_capture_sagas s)\<rparr>)
      | Some existing \<Rightarrow>
          if existing \<noteq> saga then Inl (ConcurrencyConflict
            ''Evidence capture id was reused with different immutable content'')
          else Inr ((), s))"

definition get_evidence_capture :: "store \<Rightarrow> uuid \<Rightarrow> uuid \<Rightarrow> EvidenceCaptureSaga result" where
  "get_evidence_capture s tenant_id key =
     lookup_record (evidence_capture_sagas s) saga_tenant_id ''Evidence capture Saga was not found'' tenant_id key"

definition complete_evidence_capture :: "uuid \<Rightarrow> uuid \<Rightarrow> (store, unit) tx" where
  "complete_evidence_capture tenant_id key =
     bindT (readT (\<lambda>s. get_evidence_capture s tenant_id key)) (\<lambda>item.
     thenT (checkT (saga_status item \<notin> {EC_PENDING, EC_COMMITTED})
        (ConcurrencyConflict ''Evidence capture Saga is not pending''))
       (modifyT (\<lambda>s. s\<lparr>evidence_capture_sagas := AList.update key (item\<lparr>saga_status := EC_COMMITTED\<rparr>)
          (evidence_capture_sagas s)\<rparr>)))"

definition record_evidence_deletion :: "EvidenceDeletionRecord \<Rightarrow> (store, unit) tx" where
  "record_evidence_deletion r = modifyT (\<lambda>s.
     s\<lparr>evidence_deletions := AList.update (del_evidence_id r) r (evidence_deletions s)\<rparr>)"

definition get_evidence_deletion :: "store \<Rightarrow> uuid \<Rightarrow> uuid \<Rightarrow> EvidenceDeletionRecord result" where
  "get_evidence_deletion s tenant_id key =
     lookup_record (evidence_deletions s) del_tenant_id ''Evidence deletion record was not found'' tenant_id key"

definition add_outcome :: "Outcome \<Rightarrow> (store, unit) tx" where
  "add_outcome item =
     thenT (readT (\<lambda>s. forE (\<lambda>submitted.
        bindE (get_evidence s (out_tenant_id item) (evidence_id submitted)) (\<lambda>persisted.
        raise_if (persisted \<noteq> submitted)
          (ValueError ''outcome evidence must exactly match the authoritative persisted record'')))
        (out_evidence item)))
       (modifyT (\<lambda>s. s\<lparr>outcomes := AList.update (outcome_id item) item (outcomes s)\<rparr>))"

definition get_outcome :: "store \<Rightarrow> uuid \<Rightarrow> uuid \<Rightarrow> Outcome result" where
  "get_outcome s tenant_id key =
     lookup_record (outcomes s) out_tenant_id (not_found ''outcome'' key) tenant_id key"

definition list_outcomes :: "store \<Rightarrow> uuid \<Rightarrow> uuid \<Rightarrow> Outcome list" where
  "list_outcomes s tenant_id run = filter (\<lambda>item. out_tenant_id item = tenant_id \<and> out_run_id item = run)
     (dict_values (outcomes s))"

subsection \<open>Budget entries\<close>

definition record_budget_entry ::
  "uuid \<Rightarrow> uuid \<Rightarrow> uuid \<Rightarrow> string \<Rightarrow> BudgetAmount \<Rightarrow> string \<Rightarrow> int \<Rightarrow> (store, uuid) tx" where
  "record_budget_entry entry_id tenant_id run category amt reference now =
     thenT (modifyT (\<lambda>s. s\<lparr>budget_entries := budget_entries s @
        [\<lparr>be_entry_id = entry_id, be_tenant_id = tenant_id, be_run_id = run, be_category = category,
          be_amount = amount amt, be_unit = BudgetUnit_value (unit amt), be_reference = reference,
          be_created_at = Aware now\<rparr>]\<rparr>))
       (returnT entry_id)"

definition list_budget_entries :: "store \<Rightarrow> uuid \<Rightarrow> uuid \<Rightarrow> BudgetEntry list" where
  "list_budget_entries s tenant_id run =
     filter (\<lambda>item. be_tenant_id item = tenant_id \<and> be_run_id item = run) (budget_entries s)"

subsection \<open>Idempotency keys\<close>

definition get_idempotency :: "store \<Rightarrow> uuid \<Rightarrow> string \<Rightarrow> string option \<Rightarrow> uuid option result" where
  "get_idempotency s tenant_id key request_digest =
     thenE (raise_if (request_digest \<noteq> None
          \<and> map_of (idempotency_digests s) (tenant_id, key) \<noteq> None
          \<and> map_of (idempotency_digests s) (tenant_id, key) \<noteq> request_digest)
        (ConcurrencyConflict ''idempotency key was reused with a different request''))
       (Inr (map_of (idempotency s) (tenant_id, key)))"

definition put_idempotency :: "uuid \<Rightarrow> string \<Rightarrow> uuid \<Rightarrow> string option \<Rightarrow> (store, unit) tx" where
  "put_idempotency tenant_id key external_id request_digest =
     bindT (readT Inr) (\<lambda>s.
     thenT (checkT (case map_of (idempotency s) (tenant_id, key) of
          None \<Rightarrow> False
        | Some current \<Rightarrow> current \<noteq> external_id
            \<or> (request_digest \<noteq> None \<and> map_of (idempotency_digests s) (tenant_id, key) \<noteq> request_digest))
        (ConcurrencyConflict ''idempotency key is already bound to a different result''))
       (modifyT (\<lambda>s. s\<lparr>idempotency := AList.update (tenant_id, key) external_id (idempotency s),
          idempotency_digests := AList.update (tenant_id, key)
            (case request_digest of None \<Rightarrow> genesis_digest
               | Some d \<Rightarrow> if d = [] then genesis_digest else d) (idempotency_digests s)\<rparr>)))"

subsection \<open>Lookup lemmas\<close>

lemma lookup_record_Inr [table_simps]:
  "lookup_record d f m t k = Inr x \<longleftrightarrow> map_of d k = Some x \<and> f x = t"
  by (auto simp: lookup_record_def assert_tenant_def result_simps split: option.splits)

lemmas get_defs = get_goal_def get_run_def get_task_def get_action_def get_evidence_def
  get_outcome_def get_memory_def get_evidence_capture_def get_evidence_deletion_def

lemma get_approval_Inr [table_simps]:
  "get_approval s t k = Inr x \<longleftrightarrow> map_of (approvals s) k = Some x \<and> appr_tenant_id x = t"
  by (auto simp: get_approval_def result_simps split: option.splits)

lemma get_plan_tenant: "get_plan s t k = Inr p \<Longrightarrow> plan_tenant_id p = t \<and> plan_valid p"
  by (auto simp: get_plan_def result_simps table_simps)

lemma get_context_snapshot_Inr:
  "get_context_snapshot s t r = Inr c \<Longrightarrow>
     ctx_tenant_id c = t \<and> ctx_run_id c = r \<and> c \<in> set (dict_values (context_snapshots s))"
  by (auto simp: get_context_snapshot_def find_Some_iff split: option.splits)

lemma record_audit_Inr:
  "record_audit a now s = Inr (u, s') \<longleftrightarrow>
     (\<exists>e. next_audit (audits s) a now = Inr e \<and> s' = s\<lparr>audits := audits s @ [e]\<rparr>)"
  by (auto simp: record_audit_def result_simps)

lemma record_audit_error: "record_audit a now s = Inl e \<Longrightarrow> next_audit (audits s) a now = Inl e"
  by (auto simp: record_audit_def result_simps)

text \<open>What a successful save did.\<close>

lemma save_goal_Inr:
  "save_goal g v a now s = Inr (u, s') \<longleftrightarrow> (\<exists>cur e. map_of (goals s) (goal_id g) = Some cur
     \<and> goal_tenant_id cur = goal_tenant_id g \<and> goal_version cur = v \<and> next_audit (audits s) a now = Inr e
     \<and> s' = s\<lparr>goals := AList.update (goal_id g) g (goals s), audits := audits s @ [e]\<rparr>)"
  by (auto simp: save_goal_def tx_simps get_defs table_simps record_audit_Inr split: if_splits)

lemma save_run_Inr:
  "save_run r v (Some a) now s = Inr (u, s') \<longleftrightarrow> (\<exists>cur e. map_of (runs s) (run_id r) = Some cur
     \<and> run_tenant_id cur = run_tenant_id r \<and> run_optimistic_version cur = v
     \<and> next_audit (audits s) a now = Inr e
     \<and> s' = s\<lparr>runs := AList.update (run_id r) r (runs s), audits := audits s @ [e]\<rparr>)"
  by (auto simp: save_run_def tx_simps get_defs table_simps record_audit_Inr split: if_splits)

lemma save_task_Inr:
  "save_task t v s = Inr (u, s') \<longleftrightarrow> (\<exists>cur. map_of (tasks s) (task_id t) = Some cur
     \<and> task_tenant_id cur = task_tenant_id t \<and> task_optimistic_version cur = v
     \<and> s' = s\<lparr>tasks := AList.update (task_id t) t (tasks s)\<rparr>)"
  by (auto simp: save_task_def put_task_def tx_simps get_defs table_simps split: if_splits)

lemma save_action_Inr:
  "save_action x v s = Inr (u, s') \<longleftrightarrow> (\<exists>cur. map_of (actions s) (action_id x) = Some cur
     \<and> action_tenant_id cur = action_tenant_id x \<and> action_optimistic_version cur = v
     \<and> s' = s\<lparr>actions := AList.update (action_id x) x (actions s)\<rparr>)"
  by (auto simp: save_action_def tx_simps get_defs table_simps split: if_splits)

lemma save_approval_Inr:
  "save_approval x v s = Inr (u, s') \<longleftrightarrow> (\<exists>cur. map_of (approvals s) (approval_id x) = Some cur
     \<and> appr_tenant_id cur = appr_tenant_id x \<and> appr_optimistic_version cur = v
     \<and> s' = s\<lparr>approvals := AList.update (approval_id x) x (approvals s)\<rparr>)"
  by (auto simp: save_approval_def tx_simps table_simps split: if_splits)

subsection \<open>The tables keep the repository contract\<close>

lemmas step_defs = bindT_def readT_def thenT_def checkT_def get_defs lookup_record_def assert_tenant_def

interpretation goal_repo: versioned_repository get_goal "\<lambda>g v. save_goal g v audit now"
    goal_tenant_id goal_id goal_version
  by unfold_locales (auto simp: save_goal_Inr get_defs table_simps, auto simp: save_goal_def
      step_defs split: sum.splits)

interpretation run_repo: versioned_repository get_run "\<lambda>r v. save_run r v (Some audit) now"
    run_tenant_id run_id run_optimistic_version
  by unfold_locales (auto simp: save_run_Inr get_defs table_simps, auto simp: save_run_def
      step_defs split: sum.splits)

interpretation task_repo: versioned_repository get_task save_task
    task_tenant_id task_id task_optimistic_version
  by unfold_locales (auto simp: save_task_Inr get_defs table_simps, auto simp: save_task_def
      step_defs split: sum.splits)

interpretation action_repo: versioned_repository get_action save_action
    action_tenant_id action_id action_optimistic_version
  by unfold_locales (auto simp: save_action_Inr get_defs table_simps, auto simp: save_action_def
      step_defs split: sum.splits)

interpretation approval_repo: versioned_repository get_approval save_approval
    appr_tenant_id approval_id appr_optimistic_version
  by unfold_locales (auto simp: save_approval_Inr table_simps, auto simp: save_approval_def
      step_defs get_approval_def split: sum.splits)


definition sample_action_store :: store where
  "sample_action_store = empty_store\<lparr>actions := [(20, sample_action)]\<rparr>"


subsection \<open>Every operation keeps the audit chains\<close>

definition audit_ok :: "store \<Rightarrow> bool" where
  "audit_ok s = (\<forall>t. chain_ok (tenant_audits t (audits s)))"

lemma audit_ok_empty [simp]: "audit_ok empty_store"
  by (simp add: audit_ok_def empty_store_def)

lemma keeps_record_audit [keeps_intros]: "keeps audit_ok (record_audit a now)"
proof (rule keepsI)
  fix s u s' assume "audit_ok s" "record_audit a now s = Inr (u, s')"
  then show "audit_ok s'"
    unfolding audit_ok_def record_audit_Inr using chain_ok_append by fastforce
qed

text \<open>With intact chains recording an event never raises.\<close>

lemma record_audit_total: "audit_ok s \<Longrightarrow> \<exists>s'. record_audit a now s = Inr ((), s')"
  using next_audit_ok [of a "audits s" now] by (auto simp: audit_ok_def record_audit_Inr)

lemma audits_fold_put_task [simp]: "audits (fold put_task ts s) = audits s"
  by (induction ts arbitrary: s) (auto simp: put_task_def)

lemma keeps_modify_audit [keeps_intros]:
  "(\<And>s. audits (f s) = audits s) \<Longrightarrow> keeps audit_ok (modifyT f)"
  by (auto intro!: keeps_modifyT simp: audit_ok_def)

lemmas write_defs = add_goal_def save_goal_def add_run_def save_run_def add_context_snapshot_def
  add_memory_def add_plan_def save_task_def add_action_def save_action_def add_action_attempt_def
  add_approval_def save_approval_def add_evidence_def complete_evidence_capture_def
  record_evidence_deletion_def add_outcome_def record_budget_entry_def put_idempotency_def
  register_agent_def

lemma audit_kept [keeps_intros]:
  "keeps audit_ok (add_goal g a n)" "keeps audit_ok (save_goal g v a n)" "keeps audit_ok (add_run r a n)"
  "keeps audit_ok (save_run r v oa n)" "keeps audit_ok (add_context_snapshot c)"
  "keeps audit_ok (add_memory m)" "keeps audit_ok (add_plan p)" "keeps audit_ok (save_task t v)"
  "keeps audit_ok (add_action x)" "keeps audit_ok (save_action x v)" "keeps audit_ok (add_action_attempt y)"
  "keeps audit_ok (add_approval z)" "keeps audit_ok (save_approval z v)" "keeps audit_ok (add_evidence e)"
  "keeps audit_ok (complete_evidence_capture i j)" "keeps audit_ok (record_evidence_deletion d)"
  "keeps audit_ok (add_outcome w)" "keeps audit_ok (record_budget_entry i j k cat am ref n)"
  "keeps audit_ok (put_idempotency i key j dg)" "keeps audit_ok (register_agent nm av)"
  unfolding write_defs by (intro keeps_intros; simp add: put_task_def)+

lemma audit_kept_saga [keeps_intros]: "keeps audit_ok (start_evidence_capture saga)"
  by (auto intro!: keepsI simp: start_evidence_capture_def audit_ok_def split: option.splits if_splits)

end
