(* ===== verification/Reservations.thy ===== *)
theory Reservations
  imports Prelude
begin

text \<open>
  Execution reservations: the port of \<open>packages/runtime-kernel/src/autonoesis_runtime/tools.py\<close>
  (lines 146-208) and its in-memory provider \<open>InMemoryAtomicExecutionReservations\<close> of
  \<open>packages/adapters/src/autonoesis_adapters/execution_gateway.py\<close> (lines 226-277). Each operation
  runs under the provider's lock, so it is one atomic step.
\<close>

datatype ToolResultStatus = TR_REJECTED | TR_ACCEPTED | TR_SUCCEEDED | TR_FAILED | TR_UNKNOWN

fun ToolResultStatus_value :: "ToolResultStatus \<Rightarrow> string" where
  "ToolResultStatus_value TR_REJECTED = ''rejected''"
| "ToolResultStatus_value TR_ACCEPTED = ''accepted''"
| "ToolResultStatus_value TR_SUCCEEDED = ''succeeded''"
| "ToolResultStatus_value TR_FAILED = ''failed''"
| "ToolResultStatus_value TR_UNKNOWN = ''unknown''"

record ToolReceipt =
  rcpt_external_id :: string
  rcpt_status :: ToolResultStatus
  rcpt_output :: "(string \<times> string) list"

definition accepted :: "ToolReceipt \<Rightarrow> bool" where
  "accepted self = (rcpt_status self \<in> {TR_ACCEPTED, TR_SUCCEEDED})"

datatype ReservationStatus =
  RS_ACQUIRED | RS_CACHED | RS_IN_PROGRESS | RS_UNKNOWN | RS_CONFLICT | RS_BUDGET_EXHAUSTED

record ExecutionReservation =
  xr_tenant_id :: string
  xr_run_id :: string
  xr_action_id :: string
  xr_tool_name :: string
  xr_tool_version :: string
  xr_idempotency_key :: string
  xr_request_digest :: string
  xr_cost_units :: int

record ReservationDecision =
  rd_status :: ReservationStatus
  rd_reservation_id :: "string option"
  rd_receipt :: "ToolReceipt option"

text \<open>\<open>_MemoryReservation\<close>.\<close>

record MemoryReservation =
  mr_request :: ExecutionReservation
  mr_reservation_id :: string
  mr_receipt :: "ToolReceipt option"

text \<open>
  The state of the provider. The record objects are shared between \<open>_records\<close> and
  \<open>_by_id\<close>, and \<open>complete\<close> mutates one through \<open>_by_id\<close>; here
  \<open>_by_id\<close> holds the key under which the shared object is found in \<open>_records\<close>.
\<close>

record reservations =
  res_limit :: int
  res_used :: "((string \<times> string) \<times> int) list"
  res_records :: "((string \<times> string) \<times> MemoryReservation) list"
  res_by_id :: "(string \<times> (string \<times> string)) list"

definition used_of :: "reservations \<Rightarrow> string \<times> string \<Rightarrow> int" where
  "used_of r usage_key = (case map_of (res_used r) usage_key of None \<Rightarrow> 0 | Some u \<Rightarrow> u)"

definition reservation_key :: "ExecutionReservation \<Rightarrow> string \<times> string" where
  "reservation_key q = (xr_tenant_id q, xr_idempotency_key q)"

definition usage_key :: "ExecutionReservation \<Rightarrow> string \<times> string" where
  "usage_key q = (xr_tenant_id q, xr_run_id q)"

definition decision_only :: "ReservationStatus \<Rightarrow> ReservationDecision" where
  "decision_only st = \<lparr>rd_status = st, rd_reservation_id = None, rd_receipt = None\<rparr>"

text \<open>\<open>new_id\<close> is \<open>str(uuid4())\<close>.\<close>

definition reserve ::
  "ExecutionReservation \<Rightarrow> string \<Rightarrow> reservations \<Rightarrow> ReservationDecision \<times> reservations" where
  "reserve q new_id r =
     (case map_of (res_records r) (reservation_key q) of
        Some existing \<Rightarrow>
          (if xr_request_digest (mr_request existing) \<noteq> xr_request_digest q then decision_only RS_CONFLICT
           else (case mr_receipt existing of
               None \<Rightarrow> decision_only RS_IN_PROGRESS
             | Some receipt \<Rightarrow>
                 if rcpt_status receipt \<in> {TR_ACCEPTED, TR_UNKNOWN}
                 then \<lparr>rd_status = RS_UNKNOWN, rd_reservation_id = Some (mr_reservation_id existing),
                        rd_receipt = None\<rparr>
                 else \<lparr>rd_status = RS_CACHED, rd_reservation_id = Some (mr_reservation_id existing),
                        rd_receipt = Some receipt\<rparr>), r)
      | None \<Rightarrow>
          if used_of r (usage_key q) + xr_cost_units q > res_limit r
          then (decision_only RS_BUDGET_EXHAUSTED, r)
          else (\<lparr>rd_status = RS_ACQUIRED, rd_reservation_id = Some new_id, rd_receipt = None\<rparr>,
                r\<lparr>res_records := AList.update (reservation_key q)
                     \<lparr>mr_request = q, mr_reservation_id = new_id, mr_receipt = None\<rparr> (res_records r),
                   res_by_id := AList.update new_id (reservation_key q) (res_by_id r),
                   res_used := AList.update (usage_key q) (used_of r (usage_key q) + xr_cost_units q)
                     (res_used r)\<rparr>))"

definition complete :: "string \<Rightarrow> string \<Rightarrow> ToolReceipt \<Rightarrow> reservations \<Rightarrow> reservations result" where
  "complete tenant reservation_id receipt r =
     (case map_of (res_by_id r) reservation_id of
        None \<Rightarrow> Inl (KeyError reservation_id)
      | Some key \<Rightarrow> (case map_of (res_records r) key of
          None \<Rightarrow> Inl (KeyError reservation_id)
        | Some item \<Rightarrow>
            if mr_receipt item \<noteq> None \<and> mr_receipt item \<noteq> Some receipt
            then Inl (RuntimeError ''execution reservation is already completed'')
            else Inr (r\<lparr>res_records := AList.update key (item\<lparr>mr_receipt := Some receipt\<rparr>) (res_records r)\<rparr>)))"

subsection \<open>The contract of the port\<close>

text \<open>
  \<open>held r k\<close>: the idempotency key \<open>k\<close> (with its tenant) has been acquired. A client may cause
  the external effect only after a reservation it acquired.
\<close>

locale execution_reservations =
  fixes reserve_op :: "ExecutionReservation \<Rightarrow> string \<Rightarrow> 'r \<Rightarrow> ReservationDecision \<times> 'r"
    and complete_op :: "string \<Rightarrow> string \<Rightarrow> ToolReceipt \<Rightarrow> 'r \<Rightarrow> 'r result"
    and held :: "'r \<Rightarrow> string \<times> string \<Rightarrow> bool"
  assumes acquired: "reserve_op q i r = (d, r') \<Longrightarrow> rd_status d = RS_ACQUIRED \<Longrightarrow>
      \<not> held r (reservation_key q) \<and> (\<forall>k. held r' k = (k = reservation_key q \<or> held r k))"
    and refused: "reserve_op q i r = (d, r') \<Longrightarrow> rd_status d \<noteq> RS_ACQUIRED \<Longrightarrow> held r' k = held r k"
    and completed: "complete_op t i rc r = Inr r' \<Longrightarrow> held r' k = held r k"

subsection \<open>Interleaved executions\<close>

text \<open>
  Executions that run concurrently, each between its own awaits: a request that acquired its
  reservation (\<open>pending\<close>) later causes the external effect, which is logged, and later completes
  its reservation. Any number of requests interleave in any order.
\<close>

record 'r system =
  sys_reservations :: 'r
  sys_pending :: "ExecutionReservation list"
  sys_egress :: "(string \<times> string) list"

inductive system_step ::
  "(ExecutionReservation \<Rightarrow> string \<Rightarrow> 'r \<Rightarrow> ReservationDecision \<times> 'r) \<Rightarrow>
   (string \<Rightarrow> string \<Rightarrow> ToolReceipt \<Rightarrow> 'r \<Rightarrow> 'r result) \<Rightarrow> 'r system \<Rightarrow> 'r system \<Rightarrow> bool"
  for reserve_op complete_op where
  step_acquire: "reserve_op q i (sys_reservations s) = (d, r') \<Longrightarrow> rd_status d = RS_ACQUIRED \<Longrightarrow>
     system_step reserve_op complete_op s
       (s\<lparr>sys_reservations := r', sys_pending := q # sys_pending s\<rparr>)"
| step_refused: "reserve_op q i (sys_reservations s) = (d, r') \<Longrightarrow> rd_status d \<noteq> RS_ACQUIRED \<Longrightarrow>
     system_step reserve_op complete_op s (s\<lparr>sys_reservations := r'\<rparr>)"
| step_egress: "q \<in> set (sys_pending s) \<Longrightarrow>
     system_step reserve_op complete_op s
       (s\<lparr>sys_pending := remove1 q (sys_pending s), sys_egress := reservation_key q # sys_egress s\<rparr>)"
| step_complete: "complete_op t i rc (sys_reservations s) = Inr r' \<Longrightarrow>
     system_step reserve_op complete_op s (s\<lparr>sys_reservations := r'\<rparr>)"

context execution_reservations
begin

definition once :: "'r system \<Rightarrow> bool" where
  "once s = (\<forall>k. count_list (sys_egress s) k + count_list (map reservation_key (sys_pending s)) k
     \<le> (if held (sys_reservations s) k then 1 else 0))"

lemma count_remove1:
  "q \<in> set xs \<Longrightarrow> count_list (map f xs) k = count_list (map f (remove1 q xs)) k + (if f q = k then 1 else 0)"
  by (induction xs) auto

lemma once_step: "system_step reserve_op complete_op s s' \<Longrightarrow> once s \<Longrightarrow> once s'"
proof (induction rule: system_step.induct)
  case (step_acquire q i s d r')
  then have "\<not> held (sys_reservations s) (reservation_key q)"
      "\<And>k. held r' k = (k = reservation_key q \<or> held (sys_reservations s) k)"
    using acquired by blast+
  with step_acquire.prems show ?case
    unfolding once_def by (auto split: if_splits) blast+
next
  case (step_refused q i s d r')
  then show ?case using refused [OF step_refused.hyps] by (auto simp: once_def)
next
  case (step_egress q s)
  then show ?case using count_remove1 [OF step_egress.hyps, of reservation_key]
    unfolding once_def by (auto split: if_splits)
next
  case (step_complete t i rc s r')
  then show ?case using completed [OF step_complete.hyps] by (auto simp: once_def)
qed

lemma egress_at_most_once:
  assumes "(system_step reserve_op complete_op)\<^sup>*\<^sup>* s s'" and "sys_pending s = []" and "sys_egress s = []"
  shows "count_list (sys_egress s') k \<le> 1"
proof -
  have "once s" using assms(2,3) by (simp add: once_def)
  with assms(1) have "once s'" by (induction rule: rtranclp_induct) (auto intro: once_step)
  then have "count_list (sys_egress s') k + count_list (map reservation_key (sys_pending s')) k
      \<le> (if held (sys_reservations s') k then 1 else 0)" unfolding once_def by blast
  then show ?thesis by (simp split: if_splits)
qed

end

subsection \<open>The in-memory provider keeps the contract\<close>

definition res_held :: "reservations \<Rightarrow> string \<times> string \<Rightarrow> bool" where
  "res_held r k = (map_of (res_records r) k \<noteq> None)"

lemma reserve_acquired:
  assumes "reserve q i r = (d, r')" "rd_status d = RS_ACQUIRED"
  shows "map_of (res_records r) (reservation_key q) = None
     \<and> used_of r (usage_key q) + xr_cost_units q \<le> res_limit r \<and> rd_reservation_id d = Some i
     \<and> r' = r\<lparr>res_records := AList.update (reservation_key q)
                \<lparr>mr_request = q, mr_reservation_id = i, mr_receipt = None\<rparr> (res_records r),
              res_by_id := AList.update i (reservation_key q) (res_by_id r),
              res_used := AList.update (usage_key q) (used_of r (usage_key q) + xr_cost_units q) (res_used r)\<rparr>"
  using assms
  by (auto simp: reserve_def decision_only_def split: option.splits if_splits)

lemma reserve_refused: "reserve q i r = (d, r') \<Longrightarrow> rd_status d \<noteq> RS_ACQUIRED \<Longrightarrow> r' = r"
  by (auto simp: reserve_def split: option.splits if_splits)

lemma complete_Inr:
  "complete t i rc r = Inr r' \<longleftrightarrow> (\<exists>key item. map_of (res_by_id r) i = Some key
     \<and> map_of (res_records r) key = Some item \<and> (mr_receipt item = None \<or> mr_receipt item = Some rc)
     \<and> r' = r\<lparr>res_records := AList.update key (item\<lparr>mr_receipt := Some rc\<rparr>) (res_records r)\<rparr>)"
  by (auto simp: complete_def split: option.splits)

interpretation memory_reservations: execution_reservations reserve complete res_held
proof
  fix q i r d r' assume "reserve q i r = (d, r')" "rd_status d = RS_ACQUIRED"
  from reserve_acquired [OF this]
  show "\<not> res_held r (reservation_key q) \<and> (\<forall>k. res_held r' k = (k = reservation_key q \<or> res_held r k))"
    by (auto simp: res_held_def)
next
  fix q i r d r' k assume "reserve q i r = (d, r')" "rd_status d \<noteq> RS_ACQUIRED"
  then show "res_held r' k = res_held r k" using reserve_refused by blast
next
  fix t i rc r r' k assume "complete t i rc r = Inr r'"
  then show "res_held r' k = res_held r k" by (auto simp: complete_Inr res_held_def split: if_splits)
qed


definition no_reservations :: "int \<Rightarrow> reservations" where
  "no_reservations limit = \<lparr>res_limit = limit, res_used = [], res_records = [], res_by_id = []\<rparr>"

definition sample_request :: ExecutionReservation where
  "sample_request = \<lparr>xr_tenant_id = ''t'', xr_run_id = ''r'', xr_action_id = ''a'', xr_tool_name = ''tickets'',
     xr_tool_version = ''1'', xr_idempotency_key = ''k'', xr_request_digest = ''d'', xr_cost_units = 3\<rparr>"

definition sample_system :: "reservations system" where
  "sample_system = \<lparr>sys_reservations = no_reservations 10, sys_pending = [], sys_egress = []\<rparr>"

definition sample_acquired :: "reservations system" where
  "sample_acquired = sample_system\<lparr>sys_reservations := snd (reserve sample_request ''i'' (no_reservations 10)),
     sys_pending := [sample_request]\<rparr>"


subsection \<open>The budget is never exceeded\<close>

text \<open>
  The recorded usage of a run is the sum of the costs of the reservations acquired for it.
\<close>

definition acquired_cost :: "reservations \<Rightarrow> string \<times> string \<Rightarrow> int" where
  "acquired_cost r uk = sum_list (map (\<lambda>m. xr_cost_units (mr_request m))
     (filter (\<lambda>m. usage_key (mr_request m) = uk) (dict_values (res_records r))))"

definition budget_ok :: "reservations \<Rightarrow> bool" where
  "budget_ok r = (distinct (map fst (res_records r)) \<and> 0 \<le> res_limit r
     \<and> (\<forall>uk. used_of r uk = acquired_cost r uk \<and> used_of r uk \<le> res_limit r))"

lemma used_of_update:
  "used_of (r\<lparr>res_records := a, res_by_id := b, res_used := AList.update k v (res_used r)\<rparr>) uk
     = (if uk = k then v else used_of r uk)"
  by (simp add: used_of_def)

lemma acquired_cost_fresh:
  assumes "map_of (res_records r) k = None"
  shows "acquired_cost (r\<lparr>res_records := AList.update k m (res_records r), res_by_id := b, res_used := u\<rparr>) uk
     = acquired_cost r uk + (if usage_key (mr_request m) = uk then xr_cost_units (mr_request m) else 0)"
  using assms by (simp add: acquired_cost_def update_fresh dict_values_def)

lemma acquired_cost_complete:
  assumes "distinct (map fst d)" "map_of d k = Some m"
  shows "map (\<lambda>m. xr_cost_units (mr_request m)) (filter (\<lambda>m. usage_key (mr_request m) = uk)
      (dict_values (AList.update k (m\<lparr>mr_receipt := rc\<rparr>) d)))
    = map (\<lambda>m. xr_cost_units (mr_request m)) (filter (\<lambda>m. usage_key (mr_request m) = uk) (dict_values d))"
  using assms by (induction d) (auto simp: dict_values_def split: if_splits)

lemma budget_ok_reserve: "budget_ok r \<Longrightarrow> budget_ok (snd (reserve q i r))"
proof (cases "rd_status (fst (reserve q i r)) = RS_ACQUIRED")
  case True
  assume ok: "budget_ok r"
  from True have acq: "reserve q i r = (fst (reserve q i r), snd (reserve q i r))" by simp
  note facts = reserve_acquired [OF acq True]
  have old: "used_of r uk = acquired_cost r uk" "used_of r uk \<le> res_limit r" for uk
    using ok unfolding budget_ok_def by blast+
  have "used_of (snd (reserve q i r)) uk = acquired_cost (snd (reserve q i r)) uk
      \<and> used_of (snd (reserve q i r)) uk \<le> res_limit (snd (reserve q i r))" for uk
    using facts old [of uk] by (cases "uk = usage_key q") (auto simp: used_of_update acquired_cost_fresh)
  moreover have "distinct (map fst (res_records (snd (reserve q i r)))) \<and> 0 \<le> res_limit (snd (reserve q i r))"
    using facts ok by (simp add: budget_ok_def distinct_update)
  ultimately show ?thesis unfolding budget_ok_def by blast
next
  case False
  assume "budget_ok r"
  with False reserve_refused [of q i r "fst (reserve q i r)" "snd (reserve q i r)"] show ?thesis by simp
qed

lemma budget_ok_complete:
  assumes "budget_ok r" "complete t i rc r = Inr r'"
  shows "budget_ok r'"
proof -
  have "distinct (map fst (res_records r))" using assms(1) by (simp add: budget_ok_def)
  then have "acquired_cost r' uk = acquired_cost r uk" for uk
    using assms(2) by (auto simp: complete_Inr acquired_cost_def acquired_cost_complete)
  moreover have "used_of r' uk = used_of r uk" for uk
    using assms(2) by (auto simp: complete_Inr used_of_def)
  moreover have "res_limit r' = res_limit r" "distinct (map fst (res_records r'))"
    using assms by (auto simp: complete_Inr budget_ok_def distinct_update)
  ultimately show ?thesis using assms(1) unfolding budget_ok_def by metis
qed

text \<open>
  C7. The budget of a run is never exceeded, whatever sequence of reservations and completions arrives:
  the recorded usage of every tenant and run is exactly the sum of the costs of the reservations
  acquired for it and never passes the limit.
\<close>

theorem budget_never_exceeded:
  assumes "(system_step reserve complete)\<^sup>*\<^sup>* s s'" and "sys_reservations s = no_reservations limit"
    and "0 \<le> limit"
  shows "used_of (sys_reservations s') uk = acquired_cost (sys_reservations s') uk
     \<and> acquired_cost (sys_reservations s') uk \<le> limit"
proof -
  have "budget_ok (sys_reservations s) \<and> res_limit (sys_reservations s) = limit"
    using assms(2,3) by (simp add: budget_ok_def no_reservations_def used_of_def acquired_cost_def dict_values_def)
  with assms(1) have "budget_ok (sys_reservations s') \<and> res_limit (sys_reservations s') = limit"
  proof (induction rule: rtranclp_induct)
    case (step y z)
    from step.hyps(2) step.IH step.prems show ?case
    proof (induction rule: system_step.induct)
      case (step_acquire q i s d r')
      then show ?case using budget_ok_reserve [of "sys_reservations s" q i] reserve_acquired [OF step_acquire.hyps(1,2)]
        by auto
    next
      case (step_refused q i s d r')
      then show ?case using reserve_refused [OF step_refused.hyps] by auto
    next
      case (step_complete t i rc s r')
      have "res_limit r' = res_limit (sys_reservations s)"
        using step_complete.hyps by (auto simp: complete_Inr)
      with step_complete budget_ok_complete [OF _ step_complete.hyps] show ?case by simp
    qed auto
  qed simp
  then show ?thesis unfolding budget_ok_def by metis
qed

theorem budget_never_exceeded_witness:
  "acquired_cost (sys_reservations sample_acquired) (''t'', ''r'') = 3
   \<and> used_of (sys_reservations sample_acquired) (''t'', ''r'') = 3"
proof -
  have cost: "acquired_cost (sys_reservations sample_acquired) (''t'', ''r'') = 3"
    by (simp add: acquired_cost_def sample_acquired_def reserve_def no_reservations_def sample_request_def
        used_of_def usage_key_def dict_values_def)
  have "rd_status (fst (reserve sample_request ''i'' (no_reservations 10))) = RS_ACQUIRED"
    by (simp add: reserve_def no_reservations_def sample_request_def used_of_def)
  then have "system_step reserve complete sample_system sample_acquired"
    using step_acquire [of reserve sample_request "''i''" sample_system
        "fst (reserve sample_request ''i'' (no_reservations 10))"]
    by (simp add: sample_acquired_def sample_system_def)
  then have "(system_step reserve complete)\<^sup>*\<^sup>* sample_system sample_acquired" by blast
  from budget_never_exceeded [OF this, of 10 "(''t'', ''r'')"] cost show ?thesis
    by (simp add: sample_system_def)
qed

end
