(* ===== verification/Kill_Switch.thy ===== *)
theory Kill_Switch
  imports Prelude
begin

text \<open>
  Kill switches: the dimensions and queries of
  \<open>packages/runtime-kernel/src/autonoesis_runtime/tools.py\<close> (lines 14-54) and the store of
  \<open>packages/governance/src/autonoesis_governance/kill_switch.py\<close>.
\<close>

datatype KillSwitchDimension =
  KS_PLATFORM | KS_TENANT | KS_AGENT | KS_TOOL | KS_OPERATION | KS_PROVIDER | KS_CAPABILITY_PACK

record KillSwitchQuery =
  ksq_tenant_id :: "string option"
  ksq_agent_id :: "string option"
  ksq_tool_name :: "string option"
  ksq_operation :: "string option"
  ksq_provider :: "string option"
  ksq_capability_pack_id :: "string option"

definition KillSwitchQuery_dimensions :: "KillSwitchQuery \<Rightarrow> (KillSwitchDimension \<times> string) list" where
  "KillSwitchQuery_dimensions self =
     List.map_filter (\<lambda>(dimension, v). map_option (Pair dimension) v)
       [(KS_PLATFORM, Some ''platform''),
        (KS_TENANT, ksq_tenant_id self),
        (KS_AGENT, ksq_agent_id self),
        (KS_TOOL, ksq_tool_name self),
        (KS_OPERATION, ksq_operation self),
        (KS_PROVIDER, ksq_provider self),
        (KS_CAPABILITY_PACK, ksq_capability_pack_id self)]"

record KillSwitchRecord =
  kill_switch_id :: uuid
  ks_dimension :: KillSwitchDimension
  ks_target :: string
  ks_reason :: string
  ks_activated_by :: string
  ks_activated_at :: datetime
  ks_deactivated_at :: "datetime option"

text \<open>\<open>InMemoryKillSwitchStore._active\<close>.\<close>

type_synonym kill_switches = "((KillSwitchDimension \<times> string) \<times> KillSwitchRecord) list"

definition is_blocked :: "kill_switches \<Rightarrow> KillSwitchQuery \<Rightarrow> bool" where
  "is_blocked active query = list_ex (\<lambda>k. map_of active k \<noteq> None) (KillSwitchQuery_dimensions query)"

definition activate ::
  "uuid \<Rightarrow> KillSwitchDimension \<Rightarrow> string \<Rightarrow> string \<Rightarrow> string \<Rightarrow> int \<Rightarrow> kill_switches
     \<Rightarrow> KillSwitchRecord \<times> kill_switches" where
  "activate new_id dimension target reason activated_by now active =
     (let r = \<lparr>kill_switch_id = new_id, ks_dimension = dimension, ks_target = target, ks_reason = reason,
        ks_activated_by = activated_by, ks_activated_at = Aware now, ks_deactivated_at = None\<rparr>
      in (r, AList.update (dimension, target) r active))"

definition deactivate ::
  "KillSwitchDimension \<Rightarrow> string \<Rightarrow> int \<Rightarrow> kill_switches \<Rightarrow> KillSwitchRecord option \<times> kill_switches" where
  "deactivate dimension target now active =
     (map_option (\<lambda>r. r\<lparr>ks_deactivated_at := Some (Aware now)\<rparr>) (map_of active (dimension, target)),
      AList.delete (dimension, target) active)"

definition list_active :: "kill_switches \<Rightarrow> KillSwitchRecord list" where
  "list_active active = dict_values active"

subsection \<open>Laws\<close>

lemma map_of_delete [table_simps]: "map_of (AList.delete k d) i = (if i = k then None else map_of d i)"
  by (simp add: delete_conv')

lemma dimensions_platform: "(KS_PLATFORM, ''platform'') \<in> set (KillSwitchQuery_dimensions q)"
  by (simp add: KillSwitchQuery_dimensions_def List.map_filter_def)

lemma is_blocked_iff:
  "is_blocked active q \<longleftrightarrow> (\<exists>k \<in> set (KillSwitchQuery_dimensions q). map_of active k \<noteq> None)"
  by (auto simp: is_blocked_def list_ex_iff)

lemma is_blocked_activate:
  "is_blocked (snd (activate i dim tgt reason who now active)) q \<longleftrightarrow>
     (dim, tgt) \<in> set (KillSwitchQuery_dimensions q) \<or> is_blocked active q"
  by (auto simp: is_blocked_iff activate_def Let_def)

lemma is_blocked_deactivate:
  "is_blocked (snd (deactivate dim tgt now active)) q \<longleftrightarrow>
     (\<exists>k \<in> set (KillSwitchQuery_dimensions q) - {(dim, tgt)}. map_of active k \<noteq> None)"
  by (auto simp: is_blocked_iff deactivate_def map_of_delete)

text \<open>
  Kill switches act at once and exactly: after an activation, a query is blocked if and only if it
  touches the activated target or was blocked before, the platform switch blocks every query; after the
  matching deactivation a query is blocked if and only if one of its other dimensions is active.
\<close>

lemma kill_switch_semantics:
  "(is_blocked (snd (activate i dim tgt reason who now active)) q
      = ((dim, tgt) \<in> set (KillSwitchQuery_dimensions q) \<or> is_blocked active q))
   \<and> is_blocked (snd (activate i KS_PLATFORM ''platform'' reason who now active)) q
   \<and> (is_blocked (snd (deactivate dim tgt now' (snd (activate i dim tgt reason who now active)))) q
      = list_ex (\<lambda>k. k \<noteq> (dim, tgt) \<and> map_of active k \<noteq> None) (KillSwitchQuery_dimensions q))"
proof -
  have "is_blocked (snd (deactivate dim tgt now' (snd (activate i dim tgt reason who now active)))) q
      \<longleftrightarrow> (\<exists>k \<in> set (KillSwitchQuery_dimensions q). k \<noteq> (dim, tgt) \<and> map_of active k \<noteq> None)"
    by (auto simp: is_blocked_deactivate activate_def Let_def)
  then show ?thesis
    by (simp add: is_blocked_activate dimensions_platform list_ex_iff)
qed

end
