(* ===== verification/Gateway.thy ===== *)
theory Gateway
  imports Actions Identity Reservations Kill_Switch
begin

text \<open>
  The governed tool gateway: \<open>GovernedToolGateway\<close> of
  \<open>packages/runtime-kernel/src/autonoesis_runtime/tools.py\<close> (lines 71-456) with the in-memory
  boundary adapters of \<open>packages/adapters/src/autonoesis_adapters/execution_gateway.py\<close>. The ports
  are the fields of a record of functions that may raise; the gateway's own state is the reservation
  provider, the audit log and the log of egress calls, which stands for the external effects.
\<close>

subsection \<open>Port data\<close>

record AuthorizationContext =
  authz_tenant_id :: string
  authz_actor_id :: string
  authz_principal_id :: string
  authz_agent_id :: string
  authz_roles :: "string list"
  authz_policy_version :: string
  authz_delegation_id :: "string option"
  authz_correlation_id :: string
  authz_purpose :: string

record PolicyDecision =
  pd_allowed :: bool
  pd_requires_approval :: bool
  pd_reason :: string
  pd_policy_version :: string

record ResolvedToolVersion =
  rt_tool_name :: string
  rt_version :: string
  rt_provider :: string
  rt_operations :: "string list"
  rt_resource_prefixes :: "string list"
  rt_input_schema :: json
  rt_risk_level :: RiskLevel
  rt_credential_scope :: string

definition ResolvedToolVersion_post_init :: "ResolvedToolVersion \<Rightarrow> ResolvedToolVersion result" where
  "ResolvedToolVersion_post_init self =
     thenE (raise_if (list_ex blank [rt_tool_name self, rt_version self, rt_provider self,
          rt_credential_scope self] \<or> rt_operations self = [])
        (ValueError ''tool version identity and operations are required''))
       (Inr self)"

record CredentialLease =
  lease_reference :: string
  lease_scope :: string
  lease_expires_at :: datetime

definition CredentialLease_post_init :: "CredentialLease \<Rightarrow> CredentialLease result" where
  "CredentialLease_post_init self =
     thenE (raise_if (blank (lease_reference self) \<or> blank (lease_scope self)
          \<or> tz_missing (lease_expires_at self))
        (ValueError ''credential lease must be scoped, referenced, and timezone-aware''))
       (Inr self)"

record GatewayAuditRecord =
  ga_tenant_id :: string
  ga_action_id :: string
  ga_correlation_id :: string
  ga_event :: string
  ga_status :: ToolResultStatus
  ga_reason :: string
  ga_request_digest :: string
  ga_external_id :: string
  ga_occurred_at :: datetime

record GatewayResult =
  gr_action :: Action
  gr_receipt :: ToolReceipt
  gr_cached :: bool

subsection \<open>In-memory adapters\<close>

text \<open>\<open>StaticToolCatalog\<close>: a later definition of the same version replaces an earlier one.\<close>

definition StaticToolCatalog ::
  "ResolvedToolVersion list \<Rightarrow> ((string \<times> string) \<times> ResolvedToolVersion) list" where
  "StaticToolCatalog definitions =
     foldl (\<lambda>d item. AList.update (rt_tool_name item, rt_version item) item d) [] definitions"

definition StaticToolCatalog_resolve ::
  "((string \<times> string) \<times> ResolvedToolVersion) list \<Rightarrow> string \<Rightarrow> string \<Rightarrow> ResolvedToolVersion result" where
  "StaticToolCatalog_resolve self tool_name version =
     (case map_of self (tool_name, version) of
        None \<Rightarrow> Inl (LookupError (''tool version '' @ tool_name @ ''@'' @ version @ '' is not registered''))
      | Some item \<Rightarrow> Inr item)"

text \<open>
  \<open>InMemoryDelegationStore\<close>. The identifiers of a context are \<open>str(uuid)\<close> texts, which is how
  \<open>execute_governed_action\<close> builds them, so \<open>UUID(text) == uuid\<close> is equality of the texts.
\<close>

datatype grant_entry = Scoped DelegationGrant | Unscoped string string

type_synonym delegation_store = "(string \<times> grant_entry) list"

definition grant_unscoped :: "string \<Rightarrow> string \<Rightarrow> string \<Rightarrow> delegation_store \<Rightarrow> delegation_store" where
  "grant_unscoped key tool_name prefix grants = AList.update key (Unscoped tool_name prefix) grants"

definition grant_scoped :: "DelegationGrant \<Rightarrow> delegation_store \<Rightarrow> delegation_store" where
  "grant_scoped grant grants = AList.update (str_uuid (delegation_id grant)) (Scoped grant) grants"

definition delegation_revoke :: "string \<Rightarrow> int \<Rightarrow> delegation_store \<Rightarrow> delegation_store result" where
  "delegation_revoke key now grants =
     (case map_of grants key of
        Some (Scoped grant) \<Rightarrow> bindE (DelegationGrant_revoke grant (Aware now)) (\<lambda>revoked.
          Inr (AList.update key (Scoped revoked) grants))
      | _ \<Rightarrow> Inr (AList.delete key grants))"

definition delegation_authorize ::
  "delegation_store \<Rightarrow> AuthorizationContext \<Rightarrow> Action \<Rightarrow> ResolvedToolVersion \<Rightarrow> int \<Rightarrow> bool" where
  "delegation_authorize grants context action tool now =
     (case authz_delegation_id context of
        None \<Rightarrow> ''platform_admin'' \<in> set (authz_roles context)
      | Some key \<Rightarrow> (case map_of grants key of
          Some (Scoped grant) \<Rightarrow>
            authz_tenant_id context = str_uuid (grant_tenant_id grant)
            \<and> authz_principal_id context = str_uuid (delegate_principal_id grant)
            \<and> DelegationGrant_authorizes grant (grant_tenant_id grant) (delegate_principal_id grant)
                (rt_tool_name tool) (action_resource_scope action) (authz_purpose context) now
        | Some (Unscoped tool_name prefix) \<Rightarrow>
            tool_name = rt_tool_name tool \<and> startswith (action_resource_scope action) prefix
        | None \<Rightarrow> False))"

definition EphemeralCredentialBroker_issue ::
  "int \<Rightarrow> uuid \<Rightarrow> ResolvedToolVersion \<Rightarrow> int \<Rightarrow> CredentialLease result" where
  "EphemeralCredentialBroker_issue ttl lease tool now =
     CredentialLease_post_init \<lparr>lease_reference = ''lease://'' @ str_uuid lease,
       lease_scope = rt_credential_scope tool, lease_expires_at = Aware (now + ttl)\<rparr>"

text \<open>\<open>RegistryControlledEgress\<close>: an adapter is its pair of \<open>execute\<close> and \<open>verify\<close>.\<close>

record EgressToolAdapter =
  adapter_execute :: "Action \<Rightarrow> CredentialLease \<Rightarrow> ToolReceipt result"
  adapter_verify :: "Action \<Rightarrow> ToolReceipt \<Rightarrow> bool result"

type_synonym egress_registry = "((string \<times> string \<times> string) \<times> EgressToolAdapter) list"

definition egress_resolve :: "egress_registry \<Rightarrow> ResolvedToolVersion \<Rightarrow> EgressToolAdapter result" where
  "egress_resolve adapters tool =
     (case map_of adapters (rt_tool_name tool, rt_version tool, rt_provider tool) of
        None \<Rightarrow> Inl (LookupError ''tool is not registered in the controlled egress boundary'')
      | Some adapter \<Rightarrow> Inr adapter)"

definition egress_execute ::
  "egress_registry \<Rightarrow> Action \<Rightarrow> ResolvedToolVersion \<Rightarrow> CredentialLease \<Rightarrow> int \<Rightarrow> ToolReceipt result" where
  "egress_execute adapters action tool credential now =
     thenE (raise_if (dt_le (lease_expires_at credential) (Aware now))
        (PermissionError ''egress credential expired before use''))
    (thenE (raise_if (lease_scope credential \<noteq> rt_credential_scope tool)
        (PermissionError ''egress credential scope differs from tool definition''))
    (bindE (egress_resolve adapters tool) (\<lambda>adapter. adapter_execute adapter action credential)))"

definition egress_verify ::
  "egress_registry \<Rightarrow> Action \<Rightarrow> ResolvedToolVersion \<Rightarrow> ToolReceipt \<Rightarrow> bool result" where
  "egress_verify adapters action tool receipt =
     bindE (egress_resolve adapters tool) (\<lambda>adapter. adapter_verify adapter action receipt)"

subsection \<open>The gateway\<close>

record gateway_ports =
  gp_resolve :: "string \<Rightarrow> string \<Rightarrow> ResolvedToolVersion result"
  gp_delegation :: "AuthorizationContext \<Rightarrow> Action \<Rightarrow> ResolvedToolVersion \<Rightarrow> bool result"
  gp_validate :: "json \<Rightarrow> json \<Rightarrow> unit result"
  gp_policy :: "AuthorizationContext \<Rightarrow> Action \<Rightarrow> PolicyDecision result"
  gp_is_blocked :: "KillSwitchQuery \<Rightarrow> bool result"
  gp_issue :: "AuthorizationContext \<Rightarrow> Action \<Rightarrow> ResolvedToolVersion \<Rightarrow> CredentialLease result"
  gp_egress_execute :: "Action \<Rightarrow> ResolvedToolVersion \<Rightarrow> CredentialLease \<Rightarrow> ToolReceipt result"
  gp_egress_verify :: "Action \<Rightarrow> ResolvedToolVersion \<Rightarrow> ToolReceipt \<Rightarrow> bool result"
  gp_allow_l4 :: bool

record gateway_state =
  gs_reservations :: reservations
  gs_audit :: "GatewayAuditRecord list"
  gs_egress :: "(Action \<times> ResolvedToolVersion \<times> CredentialLease) list"

text \<open>\<open>action.transition_to(target)\<close> with the default actor and reason.\<close>

definition default_transition :: "int \<Rightarrow> ActionStatus \<Rightarrow> Action \<Rightarrow> Action result" where
  "default_transition now target action =
     Action_transition_to action target SYSTEM_ACTOR_ID ''system transition'' (Aware now)"

definition approval_is_exact ::
  "AuthorizationContext \<Rightarrow> Action \<Rightarrow> ApprovalRequest option \<Rightarrow> PolicyDecision \<Rightarrow> int \<Rightarrow> bool" where
  "approval_is_exact context action approval decision now =
     (case approval of
        None \<Rightarrow> False
      | Some p \<Rightarrow> appr_status p = P_APPROVED
          \<and> appr_decided_by p \<noteq> None
          \<and> \<not> blank (appr_required_role p)
          \<and> dt_lt (Aware now) (appr_expires_at p)
          \<and> appr_policy_version p = pd_policy_version decision
          \<and> authorizes p action (pd_policy_version decision) now
          \<and> authz_policy_version context = pd_policy_version decision)"

text \<open>\<open>_record\<close> appends to the audit log.\<close>

definition gateway_record ::
  "AuthorizationContext \<Rightarrow> GatewayResult \<Rightarrow> string \<Rightarrow> int \<Rightarrow> gateway_state \<Rightarrow> gateway_state" where
  "gateway_record context r reason now st = st\<lparr>gs_audit := gs_audit st @
     [\<lparr>ga_tenant_id = str_uuid (action_tenant_id (gr_action r)),
       ga_action_id = str_uuid (action_id (gr_action r)),
       ga_correlation_id = authz_correlation_id context, ga_event = ''tool.execution'',
       ga_status = rcpt_status (gr_receipt r), ga_reason = reason,
       ga_request_digest = canonical_digest (gr_action r),
       ga_external_id = rcpt_external_id (gr_receipt r), ga_occurred_at = Aware now\<rparr>]\<rparr>"

definition gateway_reject ::
  "AuthorizationContext \<Rightarrow> Action \<Rightarrow> string \<Rightarrow> int \<Rightarrow> gateway_state \<Rightarrow> GatewayResult result \<times> gateway_state" where
  "gateway_reject context action reason now st =
     (case default_transition now A_DENIED action of
        Inl e \<Rightarrow> (Inl e, st)
      | Inr denied \<Rightarrow> (let r = \<lparr>gr_action = denied,
          gr_receipt = \<lparr>rcpt_external_id = [], rcpt_status = TR_REJECTED, rcpt_output = [(''reason'', reason)]\<rparr>,
          gr_cached = False\<rparr> in (Inr r, gateway_record context r reason now st)))"

definition to_executing :: "int \<Rightarrow> Action \<Rightarrow> Action result" where
  "to_executing now action =
     bindE (default_transition now A_AUTHORIZED action) (default_transition now A_EXECUTING)"

definition gateway_unknown ::
  "AuthorizationContext \<Rightarrow> Action \<Rightarrow> string \<Rightarrow> int \<Rightarrow> gateway_state \<Rightarrow> GatewayResult result \<times> gateway_state" where
  "gateway_unknown context action reason now st =
     (case bindE (to_executing now action) (default_transition now A_UNKNOWN) of
        Inl e \<Rightarrow> (Inl e, st)
      | Inr unknown \<Rightarrow> (let r = \<lparr>gr_action = unknown,
          gr_receipt = \<lparr>rcpt_external_id = [], rcpt_status = TR_UNKNOWN, rcpt_output = [(''reason'', reason)]\<rparr>,
          gr_cached = True\<rparr> in (Inr r, gateway_record context r reason now st)))"

definition receipt_target :: "ToolResultStatus \<Rightarrow> ActionStatus" where
  "receipt_target st = (case st of TR_SUCCEEDED \<Rightarrow> A_SUCCEEDED | TR_FAILED \<Rightarrow> A_FAILED
     | TR_UNKNOWN \<Rightarrow> A_UNKNOWN | TR_ACCEPTED \<Rightarrow> A_UNKNOWN | TR_REJECTED \<Rightarrow> A_FAILED)"

definition result_from_receipt :: "Action \<Rightarrow> ToolReceipt \<Rightarrow> bool \<Rightarrow> int \<Rightarrow> GatewayResult result" where
  "result_from_receipt action receipt cached now =
     bindE (if action_status action \<in> {A_PROPOSED, A_AWAITING_APPROVAL} then to_executing now action
       else Inr action) (\<lambda>current.
     bindE (default_transition now (receipt_target (rcpt_status receipt)) current) (\<lambda>final.
     Inr \<lparr>gr_action = final, gr_receipt = receipt, gr_cached = cached\<rparr>))"

text \<open>
  The checks between the preconditions and the reservation, in the order of the code. The result is
  an exception, a reason to reject, or the resolved tool with its credential.
\<close>

type_synonym checked = "(string + ResolvedToolVersion \<times> CredentialLease) result"

definition reject_if :: "bool \<Rightarrow> string \<Rightarrow> checked \<Rightarrow> checked" where
  "reject_if c reason k = (if c then Inr (Inl reason) else k)"

definition gateway_checks ::
  "gateway_ports \<Rightarrow> AuthorizationContext \<Rightarrow> Action \<Rightarrow> ApprovalRequest option \<Rightarrow> int \<Rightarrow> checked" where
  "gateway_checks ports context action approval now =
     (case gp_resolve ports (action_tool_name action) (action_tool_version action) of
        Inl e \<Rightarrow> if is_LookupError e then Inr (Inl ''immutable_tool_version_not_found'') else Inl e
      | Inr tool \<Rightarrow>
     reject_if (rt_tool_name tool \<noteq> action_tool_name action \<or> rt_version tool \<noteq> action_tool_version action)
       ''immutable_tool_version_mismatch''
    (bindE (gp_delegation ports context action tool) (\<lambda>delegated.
     reject_if (\<not> delegated) ''delegation_denied_or_revoked''
    (reject_if (action_operation action \<notin> set (rt_operations tool)) ''operation_not_allowed''
    (reject_if (\<not> list_ex (startswith (action_resource_scope action)) (rt_resource_prefixes tool))
       ''resource_scope_not_allowed''
    (case bindE (JsonObject_to_value (action_parameters action)) (gp_validate ports (rt_input_schema tool)) of
        Inl e \<Rightarrow> if is_ValueError e then Inr (Inl ''schema_or_semantic_validation_failed'') else Inl e
      | Inr _ \<Rightarrow>
     reject_if (action_risk_level action \<noteq> rt_risk_level tool) ''server_risk_reclassification_changed_digest''
    (reject_if (rt_risk_level tool = L4_PRIVILEGED \<and> \<not> gp_allow_l4 ports) ''l4_default_deny''
    (bindE (gp_policy ports context action) (\<lambda>decision.
     reject_if (pd_policy_version decision \<noteq> authz_policy_version context) ''policy_version_changed''
    (reject_if (\<not> pd_allowed decision) (if pd_reason decision = [] then ''policy_denied'' else pd_reason decision)
    (bindE (gp_is_blocked ports \<lparr>ksq_tenant_id = Some (str_uuid (action_tenant_id action)),
         ksq_agent_id = Some (authz_agent_id context), ksq_tool_name = Some (action_tool_name action),
         ksq_operation = Some (action_operation action), ksq_provider = Some (rt_provider tool),
         ksq_capability_pack_id = None\<rparr>) (\<lambda>blocked.
     reject_if blocked ''kill_switch_active''
    (reject_if (pd_requires_approval decision \<and> \<not> approval_is_exact context action approval decision now)
       ''approval_invalid_expired_or_stale''
    (bindE (gp_issue ports context action tool) (\<lambda>credential.
     reject_if (lease_scope credential \<noteq> rt_credential_scope tool
         \<or> dt_le (lease_expires_at credential) (Aware now)) ''credential_scope_or_expiry_invalid''
       (Inr (Inr (tool, credential))))))))))))))))))"

text \<open>The three preconditions, which raise.\<close>

definition gateway_preconditions :: "AuthorizationContext \<Rightarrow> Action \<Rightarrow> int \<Rightarrow> unit result" where
  "gateway_preconditions context action cost_units =
     thenE (raise_if (action_status action \<notin> {A_PROPOSED, A_AWAITING_APPROVAL})
        (ValueError ''action is not executable from its current state''))
    (thenE (raise_if (authz_tenant_id context \<noteq> str_uuid (action_tenant_id action))
        (PermissionError ''authorization tenant differs from action tenant''))
       (raise_if (cost_units \<le> 0) (ValueError ''execution cost must be positive'')))"

definition reservation_request :: "Action \<Rightarrow> int \<Rightarrow> ExecutionReservation" where
  "reservation_request action cost_units =
     \<lparr>xr_tenant_id = str_uuid (action_tenant_id action), xr_run_id = str_uuid (action_run_id action),
      xr_action_id = str_uuid (action_id action), xr_tool_name = action_tool_name action,
      xr_tool_version = action_tool_version action,
      xr_idempotency_key = action_idempotency_key action,
      xr_request_digest = canonical_digest action, xr_cost_units = cost_units\<rparr>"

text \<open>The \<open>try\<close> block around the external call: executor failures become receipts.\<close>

definition egress_receipt ::
  "gateway_ports \<Rightarrow> Action \<Rightarrow> ResolvedToolVersion \<Rightarrow> CredentialLease \<Rightarrow> ToolReceipt" where
  "egress_receipt ports executing tool credential =
     (case bindE (gp_egress_execute ports executing tool credential) (\<lambda>receipt.
         if rcpt_status receipt = TR_SUCCEEDED then
           bindE (gp_egress_verify ports executing tool receipt) (\<lambda>verified.
           Inr (if verified then receipt else receipt\<lparr>rcpt_status := TR_UNKNOWN\<rparr>))
         else Inr receipt) of
        Inr receipt \<Rightarrow> receipt
      | Inl (TimeoutError _) \<Rightarrow>
          \<lparr>rcpt_external_id = [], rcpt_status = TR_UNKNOWN, rcpt_output = [(''reason'', ''egress_timeout'')]\<rparr>
      | Inl e \<Rightarrow>
          \<lparr>rcpt_external_id = [], rcpt_status = TR_FAILED, rcpt_output = [(''reason'', error_name e)]\<rparr>)"

text \<open>From an acquired reservation to the result.\<close>

definition gateway_perform ::
  "gateway_ports \<Rightarrow> AuthorizationContext \<Rightarrow> Action \<Rightarrow> ResolvedToolVersion \<Rightarrow> CredentialLease \<Rightarrow> string \<Rightarrow> int
     \<Rightarrow> gateway_state \<Rightarrow> GatewayResult result \<times> gateway_state" where
  "gateway_perform ports context action tool credential reservation_id now st =
     (case to_executing now action of
        Inl e \<Rightarrow> (Inl e, st)
      | Inr executing \<Rightarrow>
          let receipt = egress_receipt ports executing tool credential;
              st1 = st\<lparr>gs_egress := gs_egress st @ [(executing, tool, credential)]\<rparr> in
          (case complete (str_uuid (action_tenant_id action)) reservation_id receipt (gs_reservations st1) of
             Inl e \<Rightarrow> (Inl e, st1)
           | Inr r' \<Rightarrow>
               let st2 = st1\<lparr>gs_reservations := r'\<rparr> in
               (case result_from_receipt executing receipt False now of
                  Inl e \<Rightarrow> (Inl e, st2)
                | Inr r \<Rightarrow> (Inr r, gateway_record context r ''external_execution_completed'' now st2))))"

definition gateway_execute ::
  "gateway_ports \<Rightarrow> AuthorizationContext \<Rightarrow> Action \<Rightarrow> ApprovalRequest option \<Rightarrow> int \<Rightarrow> string \<Rightarrow> int
     \<Rightarrow> gateway_state \<Rightarrow> GatewayResult result \<times> gateway_state" where
  "gateway_execute ports context action approval cost_units new_id now st =
     (case thenE (gateway_preconditions context action cost_units)
         (gateway_checks ports context action approval now) of
        Inl e \<Rightarrow> (Inl e, st)
      | Inr (Inl reason) \<Rightarrow> gateway_reject context action reason now st
      | Inr (Inr (tool, credential)) \<Rightarrow>
          let (reservation, r') = reserve (reservation_request action cost_units) new_id (gs_reservations st);
              st1 = st\<lparr>gs_reservations := r'\<rparr> in
          (case rd_status reservation of
             RS_CONFLICT \<Rightarrow>
               (Inl (ValueError ''idempotency key was reused with a different request digest''), st1)
           | RS_BUDGET_EXHAUSTED \<Rightarrow> gateway_reject context action ''budget_exhausted'' now st1
           | RS_IN_PROGRESS \<Rightarrow> gateway_unknown context action ''execution_not_safe_to_retry'' now st1
           | RS_UNKNOWN \<Rightarrow> gateway_unknown context action ''execution_not_safe_to_retry'' now st1
           | RS_CACHED \<Rightarrow>
               (case rd_receipt reservation of
                  None \<Rightarrow> (Inl (RuntimeError ''cached reservation is missing its receipt''), st1)
                | Some receipt \<Rightarrow>
                    (case result_from_receipt action receipt True now of
                       Inl e \<Rightarrow> (Inl e, st1)
                     | Inr r \<Rightarrow> (Inr r, gateway_record context r ''idempotency_cache_hit'' now st1)))
           | RS_ACQUIRED \<Rightarrow>
               (case rd_reservation_id reservation of
                  None \<Rightarrow> (Inl (RuntimeError ''acquired reservation has no identity''), st1)
                | Some reservation_id \<Rightarrow>
                    gateway_perform ports context action tool credential reservation_id now st1)))"

subsection \<open>Transitions inside the gateway\<close>

lemma system_reason: "\<not> blank ''system transition''"
  by code_simp

text \<open>The fields a transition leaves alone.\<close>

definition same_action :: "Action \<Rightarrow> Action \<Rightarrow> bool" where
  "same_action a b = (action_id a = action_id b \<and> action_tenant_id a = action_tenant_id b
     \<and> action_run_id a = action_run_id b \<and> action_idempotency_key a = action_idempotency_key b
     \<and> action_canonical a = action_canonical b)"

lemma same_action_refl [simp]: "same_action a a"
  by (simp add: same_action_def)

lemma same_action_trans: "same_action a b \<Longrightarrow> same_action b c \<Longrightarrow> same_action a c"
  by (simp add: same_action_def)

lemma default_transition_Inr:
  "default_transition now t a = Inr b \<Longrightarrow> action_valid b \<and> action_status b = t \<and> same_action a b
     \<and> t \<in> set (allowed_targets ACTION_TRANSITIONS (action_status a))
     \<and> action_optimistic_version b = action_optimistic_version a + 1"
  unfolding default_transition_def
  by (drule Action_transition_to_Inr) (auto simp: same_action_def action_canonical_def)

lemma default_transition_ok:
  assumes "action_valid a" "t \<in> set (allowed_targets ACTION_TRANSITIONS (action_status a))"
  shows "\<exists>b. default_transition now t a = Inr b"
  using Action_transition_to_ok [OF assms(1), of t SYSTEM_ACTOR_ID "''system transition''" "Aware now"]
    assms(2) system_reason by (auto simp: is_ok_iff default_transition_def)

lemma to_executing_Inr:
  "to_executing now a = Inr b \<Longrightarrow> action_valid b \<and> action_status b = A_EXECUTING \<and> same_action a b
     \<and> action_status a \<in> {A_PROPOSED, A_AWAITING_APPROVAL}"
  by (auto simp: to_executing_def result_simps action_targets split: ActionStatus.splits
      dest!: default_transition_Inr intro: same_action_trans)

lemma to_executing_ok:
  assumes "action_valid a" "action_status a \<in> {A_PROPOSED, A_AWAITING_APPROVAL}"
  shows "\<exists>b. to_executing now a = Inr b"
proof -
  obtain b where b: "default_transition now A_AUTHORIZED a = Inr b"
    using default_transition_ok [of a A_AUTHORIZED now] assms by (auto simp: action_targets)
  then obtain c where "default_transition now A_EXECUTING b = Inr c"
    using default_transition_ok [of b A_EXECUTING now] default_transition_Inr [OF b]
    by (auto simp: action_targets)
  with b show ?thesis by (simp add: to_executing_def)
qed

lemma result_from_receipt_Inr:
  "result_from_receipt a rc c now = Inr r \<Longrightarrow> gr_receipt r = rc \<and> gr_cached r = c
     \<and> action_status (gr_action r) = receipt_target (rcpt_status rc) \<and> same_action a (gr_action r)
     \<and> action_valid (gr_action r)"
  by (auto simp: result_from_receipt_def result_simps split: if_splits
      dest!: default_transition_Inr to_executing_Inr intro: same_action_trans)

lemma receipt_target_allowed:
  "receipt_target st \<in> set (allowed_targets ACTION_TRANSITIONS A_EXECUTING)"
  by (cases st) (auto simp: receipt_target_def action_targets)

lemma result_from_receipt_ok:
  assumes "action_valid a" "action_status a \<in> {A_PROPOSED, A_AWAITING_APPROVAL, A_EXECUTING}"
  shows "\<exists>r. result_from_receipt a rc c now = Inr r"
proof -
  obtain b where b: "(if action_status a \<in> {A_PROPOSED, A_AWAITING_APPROVAL} then to_executing now a
      else Inr a) = Inr b" and bs: "action_status b = A_EXECUTING" "action_valid b"
    using to_executing_ok [OF assms(1), of now] to_executing_Inr [of now a] assms
    by (cases "action_status a \<in> {A_PROPOSED, A_AWAITING_APPROVAL}") auto
  obtain x where "default_transition now (receipt_target (rcpt_status rc)) b = Inr x"
    using default_transition_ok [OF bs(2)] receipt_target_allowed bs(1) by metis
  with b show ?thesis by (simp add: result_from_receipt_def)
qed

subsection \<open>No effect without every check\<close>

text \<open>Everything the gateway must have established before it lets a call out.\<close>

definition fully_authorized ::
  "gateway_ports \<Rightarrow> AuthorizationContext \<Rightarrow> Action \<Rightarrow> ApprovalRequest option \<Rightarrow> int
     \<Rightarrow> ResolvedToolVersion \<Rightarrow> CredentialLease \<Rightarrow> bool" where
  "fully_authorized ports context action approval now tool credential =
     (gp_resolve ports (action_tool_name action) (action_tool_version action) = Inr tool
      \<and> rt_tool_name tool = action_tool_name action \<and> rt_version tool = action_tool_version action
      \<and> gp_delegation ports context action tool = Inr True
      \<and> action_operation action \<in> set (rt_operations tool)
      \<and> list_ex (startswith (action_resource_scope action)) (rt_resource_prefixes tool)
      \<and> bindE (JsonObject_to_value (action_parameters action)) (gp_validate ports (rt_input_schema tool)) = Inr ()
      \<and> action_risk_level action = rt_risk_level tool
      \<and> (rt_risk_level tool = L4_PRIVILEGED \<longrightarrow> gp_allow_l4 ports)
      \<and> (\<exists>decision. gp_policy ports context action = Inr decision \<and> pd_allowed decision
          \<and> pd_policy_version decision = authz_policy_version context
          \<and> (pd_requires_approval decision \<longrightarrow> approval_is_exact context action approval decision now))
      \<and> gp_is_blocked ports \<lparr>ksq_tenant_id = Some (str_uuid (action_tenant_id action)),
          ksq_agent_id = Some (authz_agent_id context), ksq_tool_name = Some (action_tool_name action),
          ksq_operation = Some (action_operation action), ksq_provider = Some (rt_provider tool),
          ksq_capability_pack_id = None\<rparr> = Inr False
      \<and> gp_issue ports context action tool = Inr credential
      \<and> lease_scope credential = rt_credential_scope tool
      \<and> dt_lt (Aware now) (lease_expires_at credential))"

lemma reject_if_pass: "reject_if c reason k = Inr (Inr x) \<longleftrightarrow> \<not> c \<and> k = Inr (Inr x)"
  by (simp add: reject_if_def)

lemma gateway_checks_pass:
  "gateway_checks ports context action approval now = Inr (Inr (tool, credential)) \<longleftrightarrow>
     fully_authorized ports context action approval now tool credential"
  unfolding gateway_checks_def fully_authorized_def
  by (auto simp: reject_if_pass result_simps dt_le_def dt_lt_def not_le split: sum.splits if_splits)

lemma gateway_reject_egress:
  "gateway_reject context action reason now st = (r, st') \<Longrightarrow>
     gs_egress st' = gs_egress st \<and> gs_reservations st' = gs_reservations st"
  by (auto simp: gateway_reject_def gateway_record_def Let_def split: sum.splits)

lemma gateway_unknown_egress:
  "gateway_unknown context action reason now st = (r, st') \<Longrightarrow>
     gs_egress st' = gs_egress st \<and> gs_reservations st' = gs_reservations st"
  by (auto simp: gateway_unknown_def gateway_record_def Let_def split: sum.splits)

lemma gateway_perform_egress:
  "gateway_perform ports context action tool credential i now st = (r, st') \<Longrightarrow>
     gs_egress st' = gs_egress st \<or>
     (\<exists>x. to_executing now action = Inr x \<and> gs_egress st' = gs_egress st @ [(x, tool, credential)])"
  by (auto simp: gateway_perform_def gateway_record_def Let_def split: sum.splits)

text \<open>The ways an execution can end; only the last one calls the egress adapter.\<close>

lemma gateway_execute_cases:
  assumes "gateway_execute ports context action approval cost new_id now st = (r, st')"
  obtains (raised) e where "r = Inl e" "st' = st"
  | (rejected) reason where "gateway_reject context action reason now st = (r, st')"
  | (undecided) reason where "gateway_unknown context action reason now st = (r, st')"
  | (cached) rc x where "result_from_receipt action rc True now = Inr x" "r = Inr x"
      "st' = gateway_record context x ''idempotency_cache_hit'' now st"
  | (performed) tool c d r' where "gateway_preconditions context action cost = Inr ()"
      "fully_authorized ports context action approval now tool c"
      "reserve (reservation_request action cost) new_id (gs_reservations st) = (d, r')"
      "rd_status d = RS_ACQUIRED"
      "gateway_perform ports context action tool c new_id now (st\<lparr>gs_reservations := r'\<rparr>) = (r, st')"
proof (cases "thenE (gateway_preconditions context action cost) (gateway_checks ports context action approval now)")
  case (Inl e)
  with assms raised show ?thesis by (auto simp: gateway_execute_def)
next
  case (Inr v)
  show ?thesis
  proof (cases v)
    case (Inl reason)
    with Inr assms rejected show ?thesis by (simp add: gateway_execute_def)
  next
    case inr: (Inr tc)
    obtain tool c where tc: "tc = (tool, c)" by (cases tc)
    obtain d r' where d: "reserve (reservation_request action cost) new_id (gs_reservations st) = (d, r')"
      by fastforce
    have pre: "gateway_preconditions context action cost = Inr ()"
        "fully_authorized ports context action approval now tool c"
      using Inr inr tc by (auto simp: result_simps gateway_checks_pass [symmetric])
    note run = assms [unfolded gateway_execute_def Inr inr tc d sum.case prod.case Let_def]
    show ?thesis
    proof (cases "rd_status d = RS_ACQUIRED")
      case True
      with run performed [OF pre d True] reserve_acquired [OF d True] show ?thesis by simp
    next
      case False
      from reserve_refused [OF d this] have st: "st\<lparr>gs_reservations := r'\<rparr> = st" by simp
      show ?thesis
      proof (cases "rd_status d")
        case RS_CACHED
        show ?thesis
        proof (cases "rd_receipt d")
          case None
          with run st raised RS_CACHED show ?thesis by auto
        next
          case (Some rc)
          show ?thesis
          proof (cases "result_from_receipt action rc True now")
            case (Inl e)
            with run st RS_CACHED Some show ?thesis by (intro raised [of e]) auto
          next
            case res: (Inr x)
            with run st RS_CACHED Some show ?thesis by (intro cached [of rc x]) auto
          qed
        qed
      qed (use run st False raised rejected undecided in auto)
    qed
  qed
qed

lemma gateway_execute_egress:
  assumes "gateway_execute ports context action approval cost new_id now st = (r, st')"
    and "gs_egress st' \<noteq> gs_egress st"
  shows "\<exists>tool credential x d r'. gateway_preconditions context action cost = Inr ()
     \<and> fully_authorized ports context action approval now tool credential
     \<and> reserve (reservation_request action cost) new_id (gs_reservations st) = (d, r')
     \<and> rd_status d = RS_ACQUIRED \<and> to_executing now action = Inr x
     \<and> gs_egress st' = gs_egress st @ [(x, tool, credential)]"
  using assms(1)
proof (cases rule: gateway_execute_cases)
  case (performed tool c d r')
  from gateway_perform_egress [OF performed(5)] assms(2) performed(1-4) show ?thesis by auto
qed (use assms(2) in \<open>auto simp: gateway_record_def dest: gateway_reject_egress gateway_unknown_egress\<close>)

text \<open>
  C2. The gateway lets an external call out only after every check passed: the action was proposed or
  awaiting approval in the caller's own tenant with a positive cost; the immutable tool version was
  resolved and matches; the delegation is live; operation, resource scope and schema are allowed; the
  risk level is the server's (and L4 only when enabled); the policy of the expected version allows it;
  no kill switch blocks it; a required approval is current and exactly bound; the credential is fresh
  and scoped; and the reservation for its idempotency key was acquired by this very execution.
\<close>

theorem gateway_effect_needs_every_check:
  assumes "gateway_execute ports context action approval cost new_id now st = (r, st')"
    and "gs_egress st' \<noteq> gs_egress st"
  shows "\<exists>tool credential x d r'.
       action_status action \<in> {A_PROPOSED, A_AWAITING_APPROVAL}
     \<and> authz_tenant_id context = str_uuid (action_tenant_id action) \<and> 0 < cost
     \<and> fully_authorized ports context action approval now tool credential
     \<and> reserve (reservation_request action cost) new_id (gs_reservations st) = (d, r')
     \<and> rd_status d = RS_ACQUIRED
     \<and> same_action action x \<and> gs_egress st' = gs_egress st @ [(x, tool, credential)]"
proof -
  from gateway_execute_egress [OF assms] obtain tool credential x d r' where facts:
      "gateway_preconditions context action cost = Inr ()"
      "fully_authorized ports context action approval now tool credential"
      "reserve (reservation_request action cost) new_id (gs_reservations st) = (d, r')"
      "rd_status d = RS_ACQUIRED" "to_executing now action = Inr x"
      "gs_egress st' = gs_egress st @ [(x, tool, credential)]" by blast
  moreover from facts(1) have "action_status action \<in> {A_PROPOSED, A_AWAITING_APPROVAL}"
      "authz_tenant_id context = str_uuid (action_tenant_id action)" "0 < cost"
    by (auto simp: gateway_preconditions_def result_simps)
  moreover from to_executing_Inr [OF facts(5)] have "same_action action x" by simp
  ultimately show ?thesis by blast
qed

text \<open>A permissive configuration for the witnesses, around one registered tool.\<close>

definition sample_tool :: ResolvedToolVersion where
  "sample_tool = \<lparr>rt_tool_name = ''tickets'', rt_version = ''1.0.0'', rt_provider = ''svc'',
     rt_operations = [''close''], rt_resource_prefixes = [''tickets/''], rt_input_schema = JObj [],
     rt_risk_level = L2_REVERSIBLE_WRITE, rt_credential_scope = ''tickets:write''\<rparr>"

definition sample_ports :: gateway_ports where
  "sample_ports = \<lparr>gp_resolve = (\<lambda>_ _. Inr sample_tool), gp_delegation = (\<lambda>_ _ _. Inr True),
     gp_validate = (\<lambda>_ _. Inr ()),
     gp_policy = (\<lambda>_ _. Inr \<lparr>pd_allowed = True, pd_requires_approval = False, pd_reason = [],
        pd_policy_version = ''p1''\<rparr>),
     gp_is_blocked = (\<lambda>_. Inr False),
     gp_issue = (\<lambda>_ _ _. Inr \<lparr>lease_reference = ''l'', lease_scope = ''tickets:write'',
        lease_expires_at = Aware 100\<rparr>),
     gp_egress_execute = (\<lambda>_ _ _. Inr \<lparr>rcpt_external_id = ''x1'', rcpt_status = TR_SUCCEEDED, rcpt_output = []\<rparr>),
     gp_egress_verify = (\<lambda>_ _ _. Inr True), gp_allow_l4 = False\<rparr>"

definition sample_context :: AuthorizationContext where
  "sample_context = \<lparr>authz_tenant_id = str_uuid 1, authz_actor_id = str_uuid 7, authz_principal_id = str_uuid 7,
     authz_agent_id = ''agent'', authz_roles = [''operator''], authz_policy_version = ''p1'',
     authz_delegation_id = None, authz_correlation_id = ''c'', authz_purpose = ''governed_action''\<rparr>"

definition sample_gateway :: gateway_state where
  "sample_gateway = \<lparr>gs_reservations = no_reservations 10, gs_audit = [], gs_egress = []\<rparr>"

lemma sample_checks:
  "gateway_checks sample_ports sample_context sample_action None 10
     = Inr (Inr (sample_tool, \<lparr>lease_reference = ''l'', lease_scope = ''tickets:write'', lease_expires_at = Aware 100\<rparr>))"
proof -
  have "startswith ''tickets/1'' ''tickets/''" by code_simp
  moreover have "JsonObject_to_value \<lparr>canonical = ''{}''\<rparr> = Inr (JObj [])" by code_simp
  ultimately show ?thesis
    by (simp add: gateway_checks_pass fully_authorized_def sample_ports_def sample_tool_def
        sample_context_def sample_action_def)
qed

lemma sample_executes:
  "\<exists>r st'. gateway_execute sample_ports sample_context sample_action None 3 ''i'' 10 sample_gateway = (Inr r, st')
     \<and> action_status (gr_action r) = A_SUCCEEDED \<and> \<not> gr_cached r \<and> length (gs_egress st') = 1"
proof -
  have "gateway_preconditions sample_context sample_action 3 = Inr ()"
    by (simp add: gateway_preconditions_def sample_context_def sample_action_def raise_if_def)
  moreover have "egress_receipt sample_ports x tool c
      = \<lparr>rcpt_external_id = ''x1'', rcpt_status = TR_SUCCEEDED, rcpt_output = []\<rparr>" for x tool c
    by (simp add: egress_receipt_def sample_ports_def)
  moreover obtain x where x: "to_executing 10 sample_action = Inr x"
    using to_executing_ok [OF sample_action_valid, of 10] by (auto simp: sample_action_def)
  moreover obtain r where "result_from_receipt x
      \<lparr>rcpt_external_id = ''x1'', rcpt_status = TR_SUCCEEDED, rcpt_output = []\<rparr> False 10 = Inr r"
    using result_from_receipt_ok [of x] to_executing_Inr [OF x] by blast
  moreover from this have "action_status (gr_action r) = A_SUCCEEDED \<and> \<not> gr_cached r"
    using result_from_receipt_Inr by (fastforce simp: receipt_target_def)
  ultimately show ?thesis
    by (simp add: gateway_execute_def sample_checks gateway_perform_def sample_gateway_def reserve_def
        no_reservations_def used_of_def reservation_request_def complete_def gateway_record_def Let_def)
qed

theorem gateway_effect_needs_every_check_witness:
  "\<exists>r st' tool credential. gateway_execute sample_ports sample_context sample_action None 3 ''i'' 10
       sample_gateway = (Inr r, st')
     \<and> fully_authorized sample_ports sample_context sample_action None 10 tool credential"
proof -
  obtain r st' where e: "gateway_execute sample_ports sample_context sample_action None 3 ''i'' 10 sample_gateway
      = (Inr r, st')" "length (gs_egress st') = 1" using sample_executes by blast
  then have "gs_egress st' \<noteq> gs_egress sample_gateway" by (auto simp: sample_gateway_def)
  from gateway_effect_needs_every_check [OF e(1) this] e(1) show ?thesis by blast
qed

subsection \<open>Every execution ends in a final status and is audited\<close>

text \<open>What a returned result looks like: the status of the action follows from the receipt.\<close>

definition gateway_result_ok ::
  "AuthorizationContext \<Rightarrow> Action \<Rightarrow> gateway_state \<Rightarrow> GatewayResult \<Rightarrow> gateway_state \<Rightarrow> bool" where
  "gateway_result_ok context action st r st' =
     (same_action action (gr_action r) \<and> action_valid (gr_action r)
      \<and> action_status (gr_action r) \<in> {A_DENIED, A_SUCCEEDED, A_FAILED, A_UNKNOWN}
      \<and> (action_status (gr_action r) = A_DENIED \<longrightarrow> rcpt_status (gr_receipt r) = TR_REJECTED)
      \<and> (action_status (gr_action r) = A_SUCCEEDED \<longleftrightarrow> rcpt_status (gr_receipt r) = TR_SUCCEEDED)
      \<and> (\<exists>item. gs_audit st' = gs_audit st @ [item] \<and> ga_status item = rcpt_status (gr_receipt r)
          \<and> ga_tenant_id item = str_uuid (action_tenant_id action)
          \<and> ga_action_id item = str_uuid (action_id action)
          \<and> ga_request_digest item = canonical_digest action
          \<and> ga_correlation_id item = authz_correlation_id context))"

lemma same_action_digest: "same_action a b \<Longrightarrow> canonical_digest b = canonical_digest a"
  by (simp add: same_action_def canonical_digest_def)

lemma gateway_record_ok:
  assumes "same_action action (gr_action r)" "action_valid (gr_action r)"
    and "action_status (gr_action r) = receipt_target (rcpt_status (gr_receipt r))
      \<or> action_status (gr_action r) = A_DENIED \<and> rcpt_status (gr_receipt r) = TR_REJECTED"
    and "gs_audit st0 = gs_audit st"
  shows "gateway_result_ok context action st r (gateway_record context r reason now st0)"
  using assms same_action_digest [OF assms(1)]
  by (cases "rcpt_status (gr_receipt r)")
    (auto simp: gateway_result_ok_def gateway_record_def receipt_target_def same_action_def)

lemma gateway_reject_ok:
  "gateway_reject context action reason now st0 = (Inr r, st') \<Longrightarrow> gs_audit st0 = gs_audit st \<Longrightarrow>
     gateway_result_ok context action st r st'"
  by (auto simp: gateway_reject_def Let_def split: sum.splits intro!: gateway_record_ok
      dest!: default_transition_Inr)

lemma gateway_unknown_ok:
  "gateway_unknown context action reason now st0 = (Inr r, st') \<Longrightarrow> gs_audit st0 = gs_audit st \<Longrightarrow>
     gateway_result_ok context action st r st'"
  by (auto simp: gateway_unknown_def Let_def result_simps receipt_target_def split: sum.splits
      intro!: gateway_record_ok dest!: default_transition_Inr to_executing_Inr intro: same_action_trans)

lemma gateway_perform_ok:
  assumes "gateway_perform ports context action tool credential i now st0 = (Inr r, st')"
    and "gs_audit st0 = gs_audit st"
  shows "gateway_result_ok context action st r st'"
proof -
  from assms obtain x rc r' where x: "to_executing now action = Inr x"
      and r: "result_from_receipt x rc False now = Inr r"
      and st': "st' = gateway_record context r ''external_execution_completed'' now
        (st0\<lparr>gs_egress := gs_egress st0 @ [(x, tool, credential)], gs_reservations := r'\<rparr>)"
    by (auto simp: gateway_perform_def Let_def split: sum.splits)
  show ?thesis unfolding st'
    using to_executing_Inr [OF x] result_from_receipt_Inr [OF r] assms(2)
    by (intro gateway_record_ok) (auto intro: same_action_trans)
qed

text \<open>
  C21. Every execution that returns has brought the action to denied, succeeded, failed or unknown (never
  left it executing), succeeded exactly when the receipt says so, kept everything the digest covers,
  and appended exactly one audit record with the receipt's status and the action's digest.
\<close>

theorem gateway_result_audited:
  assumes "gateway_execute ports context action approval cost new_id now st = (Inr r, st')"
  shows "gateway_result_ok context action st r st'"
  using assms
proof (cases rule: gateway_execute_cases)
  case (rejected reason)
  then show ?thesis by (rule gateway_reject_ok) simp
next
  case (undecided reason)
  then show ?thesis by (rule gateway_unknown_ok) simp
next
  case (cached rc x)
  then show ?thesis using result_from_receipt_Inr [OF cached(1)] by (auto intro!: gateway_record_ok)
next
  case (performed tool c d r')
  from performed(5) show ?thesis by (rule gateway_perform_ok) simp
qed simp

theorem gateway_result_audited_witness:
  "\<exists>r st'. gateway_execute sample_ports sample_context sample_action None 3 ''i'' 10 sample_gateway = (Inr r, st')
     \<and> gateway_result_ok sample_context sample_action sample_gateway r st'"
  using sample_executes gateway_result_audited by blast

subsection \<open>Executions terminate in a result\<close>

lemma complete_after_acquire:
  assumes "reserve q i r = (d, r')" "rd_status d = RS_ACQUIRED"
  shows "\<exists>r''. complete t i rc r' = Inr r''"
  using reserve_acquired [OF assms] by (auto simp: complete_def)

text \<open>
  For a valid action that meets the preconditions, when no port other than the egress raises, the
  gateway returns a result for every outcome of the external call; the only exception left is the reuse
  of an idempotency key for a different request.
\<close>

lemma gateway_total:
  assumes "action_valid action" and "gateway_preconditions context action cost = Inr ()"
    and "is_ok (gateway_checks ports context action approval now)"
  shows "is_ok (fst (gateway_execute ports context action approval cost new_id now st))
     \<or> fst (gateway_execute ports context action approval cost new_id now st)
       = Inl (ValueError ''idempotency key was reused with a different request digest'')"
proof -
  have status: "action_status action \<in> {A_PROPOSED, A_AWAITING_APPROVAL}"
    using assms(2) by (auto simp: gateway_preconditions_def result_simps)
  have reject: "is_ok (fst (gateway_reject context action reason now s))" for reason s
    using default_transition_ok [OF assms(1), of A_DENIED now] status
    by (auto simp: gateway_reject_def action_targets Let_def)
  obtain x where x: "to_executing now action = Inr x" using to_executing_ok [OF assms(1) status] by blast
  note xs = to_executing_Inr [OF x]
  have unknown: "is_ok (fst (gateway_unknown context action reason now s))" for reason s
    using default_transition_ok [of x A_UNKNOWN now] xs x
    by (auto simp: gateway_unknown_def action_targets Let_def)
  obtain c where c: "gateway_checks ports context action approval now = Inr c"
    using assms(3) by (auto simp: is_ok_iff)
  show ?thesis
  proof (cases c)
    case (Inl reason)
    with c assms(2) reject show ?thesis by (simp add: gateway_execute_def)
  next
    case (Inr tc)
    obtain tool credential where tc: "tc = (tool, credential)" by (cases tc)
    obtain d r' where d: "reserve (reservation_request action cost) new_id (gs_reservations st) = (d, r')"
      by fastforce
    have cached: "\<exists>r. result_from_receipt action rc True now = Inr r" for rc
      using result_from_receipt_ok [OF assms(1)] status by blast
    have receipt: "\<exists>r. result_from_receipt x rc False now = Inr r" for rc
      using result_from_receipt_ok [of x] xs by blast
    show ?thesis
    proof (cases "rd_status d")
      case RS_ACQUIRED
      from reserve_acquired [OF d this] have i: "rd_reservation_id d = Some new_id" by simp
      obtain r'' where "complete (str_uuid (action_tenant_id action)) new_id
          (egress_receipt ports x tool credential) r' = Inr r''"
        using complete_after_acquire [OF d RS_ACQUIRED] by blast
      moreover obtain r where "result_from_receipt x (egress_receipt ports x tool credential) False now = Inr r"
        using receipt by blast
      ultimately show ?thesis using RS_ACQUIRED c Inr tc d assms(2) i x
        by (simp add: gateway_execute_def gateway_perform_def Let_def)
    next
      case RS_CACHED
      then obtain rc where "rd_receipt d = Some rc"
        using d by (auto simp: reserve_def decision_only_def split: option.splits if_splits)
      moreover obtain r where "result_from_receipt action rc True now = Inr r" using cached by blast
      ultimately show ?thesis using RS_CACHED c Inr tc d assms(2)
        by (simp add: gateway_execute_def Let_def)
    qed (use c Inr tc d assms(2) reject unknown in \<open>auto simp: gateway_execute_def Let_def\<close>)
  qed
qed

lemma gateway_total_instance:
  "is_ok (fst (gateway_execute sample_ports sample_context sample_action None 3 ''i'' 10 sample_gateway))
   \<or> fst (gateway_execute sample_ports sample_context sample_action None 3 ''i'' 10 sample_gateway)
     = Inl (ValueError ''idempotency key was reused with a different request digest'')"
proof (rule gateway_total [OF sample_action_valid])
  show "gateway_preconditions sample_context sample_action 3 = Inr ()"
    by (simp add: gateway_preconditions_def sample_context_def sample_action_def raise_if_def)
  show "is_ok (gateway_checks sample_ports sample_context sample_action None 10)"
    by (simp add: sample_checks)
qed

subsection \<open>Success is verified success\<close>

lemma egress_receipt_succeeded:
  "rcpt_status (egress_receipt ports x tool c) = TR_SUCCEEDED \<longleftrightarrow>
     (\<exists>rc. gp_egress_execute ports x tool c = Inr rc \<and> rcpt_status rc = TR_SUCCEEDED
        \<and> gp_egress_verify ports x tool rc = Inr True)"
  by (auto simp: egress_receipt_def bindE_def split: sum.splits error.splits if_splits)

lemma gateway_perform_receipt:
  "gateway_perform ports context action tool c i now st = (Inr r, st') \<Longrightarrow>
     \<exists>x. to_executing now action = Inr x \<and> gr_receipt r = egress_receipt ports x tool c"
  by (auto simp: gateway_perform_def Let_def split: sum.splits dest!: result_from_receipt_Inr)



text \<open>
  When the adapter reports success but its verification raises, the receipt says failed and forgets
  the external id, although the effect took place; a verification that answers false gives unknown.
\<close>

theorem verification_error_reported_failed:
  assumes "gp_egress_execute ports x tool c = Inr rc" "rcpt_status rc = TR_SUCCEEDED"
    and "gp_egress_verify ports x tool rc = Inl (RuntimeError m)"
  shows "egress_receipt ports x tool c
     = \<lparr>rcpt_external_id = [], rcpt_status = TR_FAILED, rcpt_output = [(''reason'', ''RuntimeError'')]\<rparr>"
  using assms by (simp add: egress_receipt_def)

subsection \<open>At most one effect per idempotency key\<close>

definition egress_key :: "Action \<times> ResolvedToolVersion \<times> CredentialLease \<Rightarrow> string \<times> string" where
  "egress_key e = (str_uuid (action_tenant_id (fst e)), action_idempotency_key (fst e))"

text \<open>The gateway as a system of interleaved executions.\<close>

definition gateway_system :: "ExecutionReservation list \<Rightarrow> gateway_state \<Rightarrow> reservations system" where
  "gateway_system pending st = \<lparr>sys_reservations = gs_reservations st, sys_pending = pending,
     sys_egress = rev (map egress_key (gs_egress st))\<rparr>"

inductive gateway_step :: "gateway_state \<Rightarrow> gateway_state \<Rightarrow> bool" where
  "gateway_execute ports context action approval cost new_id now st = (r, st') \<Longrightarrow> gateway_step st st'"

inductive_cases gateway_stepE: "gateway_step st st'"

lemma system_complete:
  assumes "complete t i rc (gs_reservations st) = Inr r'"
  shows "(system_step reserve complete)\<^sup>*\<^sup>* (gateway_system p st) (gateway_system p (st\<lparr>gs_reservations := r'\<rparr>))"
  using step_complete [of complete t i rc "gateway_system p st" r' reserve] assms
  by (auto simp: gateway_system_def)

lemma system_effect:
  assumes "to_executing now action = Inr x"
  shows "(system_step reserve complete)\<^sup>*\<^sup>* (gateway_system (reservation_request action cost # p) st)
     (gateway_system p (st\<lparr>gs_egress := gs_egress st @ [(x, tool, c)]\<rparr>))"
  using step_egress [of "reservation_request action cost"
      "gateway_system (reservation_request action cost # p) st" reserve complete]
    to_executing_Inr [OF assms]
  by (auto simp: gateway_system_def egress_key_def reservation_key_def reservation_request_def same_action_def)

lemma gateway_perform_steps:
  assumes "gateway_perform ports context action tool c i now st = (r, st')"
  shows "\<exists>p'. (system_step reserve complete)\<^sup>*\<^sup>* (gateway_system (reservation_request action cost # p) st)
     (gateway_system p' st')"
proof (cases "to_executing now action")
  case (Inl e)
  with assms show ?thesis by (auto simp: gateway_perform_def)
next
  case (Inr x)
  let ?st1 = "st\<lparr>gs_egress := gs_egress st @ [(x, tool, c)]\<rparr>"
  note first = system_effect [OF Inr, of cost p st tool c]
  show ?thesis
  proof (cases "complete (str_uuid (action_tenant_id action)) i (egress_receipt ports x tool c)
      (gs_reservations st)")
    case (Inl e)
    with assms Inr first show ?thesis by (auto simp: gateway_perform_def Let_def)
  next
    case fin: (Inr r')
    then have "(system_step reserve complete)\<^sup>*\<^sup>* (gateway_system p ?st1)
        (gateway_system p (?st1\<lparr>gs_reservations := r'\<rparr>))"
      by (intro system_complete) simp
    moreover have "gs_reservations st' = r' \<and> gs_egress st' = gs_egress ?st1"
      using assms Inr fin
      by (cases "result_from_receipt x (egress_receipt ports x tool c) False now")
        (auto simp: gateway_perform_def gateway_record_def)
    then have "gateway_system p (?st1\<lparr>gs_reservations := r'\<rparr>) = gateway_system p st'"
      by (simp add: gateway_system_def)
    ultimately show ?thesis using rtranclp_trans [OF first] by auto
  qed
qed

lemma gateway_system_frame:
  "gs_reservations st' = gs_reservations st \<and> gs_egress st' = gs_egress st \<Longrightarrow>
     gateway_system p st' = gateway_system p st"
  by (simp add: gateway_system_def)

text \<open>One execution is a sequence of system steps: the code refines the interleaving model.\<close>

lemma gateway_execute_refines:
  assumes "gateway_execute ports context action approval cost new_id now st = (r, st')"
  shows "\<exists>p'. (system_step reserve complete)\<^sup>*\<^sup>* (gateway_system p st) (gateway_system p' st')"
  using assms
proof (cases rule: gateway_execute_cases)
  case (performed tool c d r')
  have "system_step reserve complete (gateway_system p st)
      (gateway_system (reservation_request action cost # p) (st\<lparr>gs_reservations := r'\<rparr>))"
    using step_acquire [of reserve "reservation_request action cost" new_id "gateway_system p st" d r']
      performed(3,4) by (simp add: gateway_system_def)
  with gateway_perform_steps [OF performed(5), of cost p] show ?thesis
    by (blast intro: converse_rtranclp_into_rtranclp)
next
  case (cached rc x)
  then show ?thesis by (intro exI [of _ p]) (simp add: gateway_system_def gateway_record_def)
next
  case (rejected reason)
  from gateway_reject_egress [OF this] show ?thesis by (auto simp: gateway_system_def)
next
  case (undecided reason)
  from gateway_unknown_egress [OF this] show ?thesis by (auto simp: gateway_system_def)
qed auto

lemma gateway_steps_refine:
  "gateway_step\<^sup>*\<^sup>* st st' \<Longrightarrow> \<exists>p'. (system_step reserve complete)\<^sup>*\<^sup>* (gateway_system [] st) (gateway_system p' st')"
proof (induction rule: rtranclp_induct)
  case (step y z)
  from step.IH obtain p where p: "(system_step reserve complete)\<^sup>*\<^sup>* (gateway_system [] st) (gateway_system p y)" by blast
  from step.hyps(2) obtain p' where "(system_step reserve complete)\<^sup>*\<^sup>* (gateway_system p y) (gateway_system p' z)"
    by (elim gateway_stepE) (drule gateway_execute_refines [of _ _ _ _ _ _ _ _ _ _ p], blast)
  with p show ?case by (meson rtranclp_trans)
qed blast

text \<open>
  C3. Whatever executions pass through the gateway, in whatever order, with whatever answers of the
  ports, for whatever approvals and callers, the egress adapter is called at most once per tenant and
  idempotency key.
\<close>

theorem gateway_egress_at_most_once:
  assumes "gateway_step\<^sup>*\<^sup>* st st'" and "gs_egress st = []"
  shows "count_list (map egress_key (gs_egress st')) k \<le> 1"
proof -
  obtain p' where "(system_step reserve complete)\<^sup>*\<^sup>* (gateway_system [] st) (gateway_system p' st')"
    using gateway_steps_refine [OF assms(1)] by blast
  then have "count_list (sys_egress (gateway_system p' st')) k \<le> 1"
    by (rule memory_reservations.egress_at_most_once) (simp_all add: gateway_system_def assms(2))
  then show ?thesis by (simp add: gateway_system_def)
qed

theorem gateway_egress_at_most_once_witness:
  "\<exists>st'. gateway_step\<^sup>*\<^sup>* sample_gateway st' \<and> length (gs_egress st') = 1
     \<and> count_list (map egress_key (gs_egress st')) (str_uuid 1, ''key'') \<le> 1"
proof -
  obtain r st' where e: "gateway_execute sample_ports sample_context sample_action None 3 ''i'' 10 sample_gateway
      = (Inr r, st')" "length (gs_egress st') = 1" using sample_executes by blast
  then have "gateway_step\<^sup>*\<^sup>* sample_gateway st'" by (blast intro: gateway_step.intros)
  from gateway_egress_at_most_once [OF this] e(2) this show ?thesis by (auto simp: sample_gateway_def)
qed

end
