(* ===== verification/Uuid5.thy ===== *)
theory Uuid5
  imports Sha256
begin

text \<open>
  \<open>uuid.uuid5\<close> of the Python standard library, which names the evidence of a capture: the first
  128 bits of the SHA-1 digest of the namespace and the name, with the version and variant bits set.
\<close>

subsection \<open>SHA-1\<close>

fun sha1_schedule :: "nat \<Rightarrow> word32 list \<Rightarrow> word32 list" where
  "sha1_schedule 0 w = w"
| "sha1_schedule (Suc n) w =
     sha1_schedule n (word_rotl 1 (w ! 2 XOR w ! 7 XOR w ! 13 XOR w ! 15) # w)"

definition sha1_f :: "nat \<Rightarrow> word32 \<Rightarrow> word32 \<Rightarrow> word32 \<Rightarrow> word32" where
  "sha1_f t b c d =
     (if t < 20 then (b AND c) OR (NOT b AND d)
      else if t < 40 then b XOR c XOR d
      else if t < 60 then (b AND c) OR (b AND d) OR (c AND d)
      else b XOR c XOR d)"

definition sha1_k :: "nat \<Rightarrow> word32" where
  "sha1_k t = (if t < 20 then 0x5a827999 else if t < 40 then 0x6ed9eba1
     else if t < 60 then 0x8f1bbcdc else 0xca62c1d6)"

fun sha1_round :: "word32 list \<Rightarrow> nat \<times> word32 \<Rightarrow> word32 list" where
  "sha1_round [a, b, c, d, e] (t, w) =
     [word_rotl 5 a + sha1_f t b c d + e + sha1_k t + w, a, word_rotl 30 b, c, d]"
| "sha1_round s _ = s"

definition sha1_block :: "word32 list \<Rightarrow> byte list \<Rightarrow> word32 list" where
  "sha1_block st blk =
     map2 (+) st (foldl sha1_round st (zip [0..<80] (rev (sha1_schedule 64 (rev (be_words blk))))))"

fun sha1_blocks :: "nat \<Rightarrow> word32 list \<Rightarrow> byte list \<Rightarrow> word32 list" where
  "sha1_blocks 0 st m = st"
| "sha1_blocks (Suc n) st m = sha1_blocks n (sha1_block st (take 64 m)) (drop 64 m)"

definition sha1_words :: "byte list \<Rightarrow> word32 list" where
  "sha1_words m = (let p = sha_pad m in
     sha1_blocks (length p div 64) [0x67452301, 0xefcdab89, 0x98badcfe, 0x10325476, 0xc3d2e1f0] p)"

subsection \<open>Name-based identifiers\<close>

definition NAMESPACE_URL :: uuid where
  "NAMESPACE_URL = 0x6ba7b8119dad11d180b400c04fd430c8"

definition uuid_bytes :: "uuid \<Rightarrow> byte list" where
  "uuid_bytes u = map (\<lambda>i. of_nat (unat u div 256 ^ (15 - i))) [0..<16]"

definition uuid5 :: "uuid \<Rightarrow> string \<Rightarrow> uuid" where
  "uuid5 namespace name = (let
     raw = foldl (\<lambda>u w. push_bit 32 u OR of_nat (unat w)) 0 (take 4 (sha1_words (uuid_bytes namespace @ utf8 name)));
     variant = (raw AND NOT (push_bit 48 0xc000)) OR push_bit 48 0x8000
   in (variant AND NOT (push_bit 64 0xf000)) OR push_bit 76 5)"

end
