(* ===== verification/Application.thy ===== *)
theory Application
  imports Store Gateway Context_Assembly Uuid5
begin

text \<open>
  \<open>GoalExecutionApplication\<close> of \<open>packages/application/src/autonoesis_application/execution.py\<close>:
  commands, audit events, idempotency and the use cases on goals, runs, plans and tasks. A use case maps
  the store to its result and the new store. The ports of the application (capability catalog, payload
  schema, deployment router, shadow guard, gateway, artifact store, authoritative readback) are the fields
  of \<open>application\<close>. One command reads the clock once, \<open>amb_now\<close>; the \<open>n\<close>-th identifier it draws
  from \<open>uuid4\<close> is \<open>amb_ids n\<close>.
\<close>

subsection \<open>Ports and configuration\<close>

record GoalTypeManifest =
  gtm_goal_type :: string
  gtm_input_schema :: json
  gtm_agent :: string
  gtm_evaluation_suite :: string
  gtm_default_policy :: string
  gtm_default_budget :: int

record ArtifactDeletionReceipt =
  adr_deleted_at :: datetime
  adr_provider_version_id :: "string option"
  adr_proof_digest :: string

record EvidenceArtifactStore =
  as_describe :: "uuid \<Rightarrow> uuid \<Rightarrow> string \<Rightarrow> DataClassification \<Rightarrow> nat \<Rightarrow> datetime \<Rightarrow> EvidenceArtifactDescriptor"
  as_store :: "EvidenceArtifactDescriptor \<Rightarrow> byte list \<Rightarrow> string \<Rightarrow> EvidenceArtifactDescriptor result"
  as_retrieve_verified :: "EvidenceArtifactDescriptor \<Rightarrow> byte list result"
  as_delete :: "EvidenceArtifactDescriptor \<Rightarrow> ArtifactDeletionReceipt result"

type_synonym readback =
  "string \<Rightarrow> uuid \<Rightarrow> SubjectRef list \<Rightarrow> SuccessCriterion \<Rightarrow> AuthoritativeObservation result"

record application =
  app_goal_type :: "uuid \<Rightarrow> string \<Rightarrow> GoalTypeManifest result"
  app_stable_agent :: "uuid \<Rightarrow> string \<Rightarrow> AgentVersion result"
  app_validate_payload :: "GoalTypeManifest \<Rightarrow> (string \<times> json) list \<Rightarrow> unit result"
  app_governed_gateway :: "gateway_ports option"
  app_legacy_authorization_enabled :: bool
  app_evidence_artifacts :: "EvidenceArtifactStore option"
  app_authoritative_readback :: "readback option"
  app_evidence_policy :: EvidenceAdmissionPolicy
  app_shadow_write_guard :: "(store \<Rightarrow> uuid \<Rightarrow> uuid \<Rightarrow> unit result) option"
  app_run_deployment_router :: "(uuid \<Rightarrow> uuid \<Rightarrow> uuid option result) option"

definition app_outcome_verifier :: "application \<Rightarrow> TrustedOutcomeVerifier option" where
  "app_outcome_verifier self =
     (case (app_authoritative_readback self, app_evidence_artifacts self) of
        (Some rb, Some artifacts) \<Rightarrow> Some \<lparr>retrieve_verified = as_retrieve_verified artifacts,
          observe = rb, verifier_version = ''trusted-readback@1''\<rparr>
      | _ \<Rightarrow> None)"

record ambient =
  amb_now :: int
  amb_ids :: "nat \<Rightarrow> uuid"

subsection \<open>Commands\<close>

record CommandContext =
  cc_identity :: IdentityContext
  cc_correlation_id :: uuid
  cc_causation_id :: uuid
  cc_idempotency_key :: string
  cc_request_digest :: string

definition CommandContext_post_init :: "CommandContext \<Rightarrow> CommandContext result" where
  "CommandContext_post_init self =
     thenE (raise_if (blank (cc_idempotency_key self) \<or> length (cc_idempotency_key self) > 300)
        (ValueError ''command idempotency key must be non-empty and bounded''))
    (thenE (raise_if (\<not> is_sha256_hex (cc_request_digest self))
        (ValueError ''command request digest must be lowercase SHA-256''))
       (Inr self))"

abbreviation cc_tenant :: "CommandContext \<Rightarrow> uuid" where
  "cc_tenant ctx \<equiv> ic_tenant_id (cc_identity ctx)"

abbreviation cc_actor :: "CommandContext \<Rightarrow> uuid" where
  "cc_actor ctx \<equiv> ic_actor_id (cc_identity ctx)"

record CreateGoal =
  cg_goal_type :: string
  cg_statement :: string
  cg_desired_outcome :: string
  cg_subject_refs :: "SubjectRef list"
  cg_success_criteria :: "SuccessCriterion list"
  cg_constraints :: "string list"
  cg_owner_id :: uuid
  cg_risk_tier :: RiskTier
  cg_budget_limit :: "int option"
  cg_deadline :: datetime
  cg_input_payload :: "(string \<times> json) list"
  cg_correlation_id :: uuid
  cg_budget_unit :: BudgetUnit
  cg_delegation_id :: "uuid option"
  cg_maximum_classification :: DataClassification
  cg_allowed_regions :: "string list"
  cg_retention_days :: int
  cg_execution_mode :: ExecutionMode
  cg_max_concurrent_runs :: int

record ActivateGoal =
  ag_goal_id :: uuid
  ag_reason :: string

record RequestRun =
  rr_goal_id :: uuid

record PrepareRunContext =
  prc_run_id :: uuid
  prc_environment_facts :: "EnvironmentFact list"
  prc_knowledge_refs :: "KnowledgeRef list"
  prc_memory_ids :: "uuid list"
  prc_history_digest :: string
  prc_tool_versions :: "string list"
  prc_conflicts :: "string list"
  prc_purpose :: string
  prc_policy_version :: string
  prc_maximum_classification :: DataClassification
  prc_allowed_subjects :: "string list"

record TaskDefinition =
  td_name :: string
  td_completion_criterion :: string
  td_depends_on :: "uuid list"
  td_preconditions :: "string list"
  td_estimated_cost :: BudgetAmount
  td_risk_level :: RiskLevel
  td_compensation :: CompensationCapability
  td_evidence_requirements :: "string list"
  td_task_id :: "uuid option"

record CreateValidatedPlan =
  cvp_run_id :: uuid
  cvp_tasks :: "TaskDefinition list"
  cvp_skill_versions :: "string list"
  cvp_tool_versions :: "string list"
  cvp_model_route :: string
  cvp_policy_version :: string

record StartTask =
  stt_task_id :: uuid

record CompleteTask =
  cpt_task_id :: uuid
  cpt_succeeded :: bool
  cpt_reason :: string

subsection \<open>Audit events of a command\<close>

text \<open>The objects \<open>_audit\<close> is called with.\<close>

datatype audit_item =
    AI_Goal GoalContract | AI_Run Run | AI_Context ContextSnapshot | AI_Task Task | AI_Action Action
  | AI_Approval ApprovalRequest | AI_Attempt ActionAttempt | AI_Evidence Evidence | AI_Outcome Outcome

text \<open>\<open>item.__class__.__name__.replace("Contract", "").lower()\<close>.\<close>

fun audit_object_type :: "audit_item \<Rightarrow> string" where
  "audit_object_type (AI_Goal _) = ''goal''"
| "audit_object_type (AI_Run _) = ''run''"
| "audit_object_type (AI_Context _) = ''contextsnapshot''"
| "audit_object_type (AI_Task _) = ''task''"
| "audit_object_type (AI_Action _) = ''action''"
| "audit_object_type (AI_Approval _) = ''approvalrequest''"
| "audit_object_type (AI_Attempt _) = ''actionattempt''"
| "audit_object_type (AI_Evidence _) = ''evidence''"
| "audit_object_type (AI_Outcome _) = ''outcome''"

text \<open>The attributes that \<open>hasattr\<close> finds, with their texts.\<close>

fun audit_attributes :: "audit_item \<Rightarrow> (string \<times> string) list" where
  "audit_attributes (AI_Goal g) = [(''goal_id'', str_uuid (goal_id g))]"
| "audit_attributes (AI_Run r) = [(''goal_id'', str_uuid (run_goal_id r)), (''run_id'', str_uuid (run_id r))]"
| "audit_attributes (AI_Context c) = [(''goal_id'', str_uuid (ctx_goal_id c)),
     (''run_id'', str_uuid (ctx_run_id c)), (''snapshot_id'', str_uuid (snapshot_id c)),
     (''policy_version'', ctx_policy_version c)]"
| "audit_attributes (AI_Task t) = [(''run_id'', str_uuid (task_run_id t)), (''task_id'', str_uuid (task_id t))]"
| "audit_attributes (AI_Action a) = [(''run_id'', str_uuid (action_run_id a)),
     (''task_id'', str_uuid (action_task_id a)), (''action_id'', str_uuid (action_id a)),
     (''tool_name'', action_tool_name a), (''tool_version'', action_tool_version a)]"
| "audit_attributes (AI_Approval p) = [(''run_id'', str_uuid (appr_run_id p)),
     (''action_id'', str_uuid (appr_action_id p)), (''approval_id'', str_uuid (approval_id p)),
     (''policy_version'', appr_policy_version p), (''tool_version'', appr_tool_version p)]"
| "audit_attributes (AI_Attempt a) = [(''run_id'', str_uuid (att_run_id a)),
     (''action_id'', str_uuid (att_action_id a)), (''attempt_id'', str_uuid (attempt_id a))]"
| "audit_attributes (AI_Evidence e) = [(''run_id'', str_uuid (ev_run_id e)),
     (''action_id'', str_uuid (ev_action_id e)), (''evidence_id'', str_uuid (evidence_id e)),
     (''source_identity'', ev_source_identity e)]"
| "audit_attributes (AI_Outcome x) = [(''goal_id'', str_uuid (out_goal_id x)),
     (''run_id'', str_uuid (out_run_id x)), (''outcome_id'', str_uuid (outcome_id x)),
     (''criterion_id'', out_criterion_id x), (''verifier_version'', out_verifier_version x)]"

definition audit_id_names :: "string list" where
  "audit_id_names = [''goal_id'', ''run_id'', ''snapshot_id'', ''plan_id'', ''task_id'', ''action_id'',
     ''approval_id'', ''attempt_id'', ''evidence_id'', ''outcome_id'']"

definition audit_detail_names :: "string list" where
  "audit_detail_names = [''goal_id'', ''run_id'', ''task_id'', ''action_id'', ''approval_id'',
     ''criterion_id'', ''policy_version'', ''verifier_version'', ''source_identity'', ''tool_name'',
     ''tool_version'']"

definition audit_object_id :: "audit_item \<Rightarrow> string" where
  "audit_object_id item = hd (List.map_filter (map_of (audit_attributes item)) audit_id_names)"

definition audit_details :: "CommandContext \<Rightarrow> audit_item \<Rightarrow> (string \<times> json) list" where
  "audit_details ctx item =
     [(''causation_id'', JStr (str_uuid (cc_causation_id ctx))),
      (''idempotency_key'', JStr (cc_idempotency_key ctx))]
     @ List.map_filter (\<lambda>name. map_option (\<lambda>v. (name, JStr v)) (map_of (audit_attributes item) name))
         audit_detail_names
     @ (case item of AI_Outcome x \<Rightarrow>
          [(''evidence_ids'', JList (map (\<lambda>v. JStr (str_uuid v)) (evidence_ids x))),
           (''outcome_status'', JStr (OutcomeStatus_value (out_status x)))]
        | _ \<Rightarrow> [])"

definition audit :: "CommandContext \<Rightarrow> string \<Rightarrow> audit_item \<Rightarrow> uuid \<Rightarrow> AuditEvent" where
  "audit ctx event_type item event_id =
     \<lparr>ae_tenant_id = cc_tenant ctx, ae_actor_id = cc_actor ctx,
      ae_principal_id = ic_principal_id (cc_identity ctx), ae_event_type = event_type,
      ae_object_type = audit_object_type item, ae_object_id = audit_object_id item,
      ae_correlation_id = cc_correlation_id ctx, ae_details = audit_details ctx item,
      ae_event_id = event_id, ae_sequence = None, ae_previous_digest = None, ae_event_digest = None,
      ae_created_at = None\<rparr>"

subsection \<open>Authorization, idempotency and lookups\<close>

definition OPERATORS :: "string list" where
  "OPERATORS = [''platform_admin'', ''tenant_admin'', ''operator'', ''worker'']"

definition require_any :: "CommandContext \<Rightarrow> string list \<Rightarrow> unit result" where
  "require_any ctx allowed = raise_if (\<not> list_ex (\<lambda>r. r \<in> set allowed) (ic_roles (cc_identity ctx)))
     (PermissionError ''the current principal does not have the required role'')"

definition idem_key :: "string \<Rightarrow> CommandContext \<Rightarrow> string" where
  "idem_key operation ctx = operation @ '':'' @ cc_idempotency_key ctx"

definition load_idempotency :: "CommandContext \<Rightarrow> string \<Rightarrow> store \<Rightarrow> uuid option result" where
  "load_idempotency ctx key s = get_idempotency s (cc_tenant ctx) key (Some (cc_request_digest ctx))"

definition remember :: "CommandContext \<Rightarrow> string \<Rightarrow> uuid \<Rightarrow> (store, unit) tx" where
  "remember ctx key v = put_idempotency (cc_tenant ctx) key v (Some (cc_request_digest ctx))"

definition cached_or :: "CommandContext \<Rightarrow> string \<Rightarrow> uuid \<Rightarrow> (uuid \<Rightarrow> (store, 'a) tx) \<Rightarrow> (store, 'a) tx" where
  "cached_or ctx key requested k = bindT (readT (load_idempotency ctx key)) (\<lambda>cached.
     k (case cached of None \<Rightarrow> requested | Some c \<Rightarrow> c))"

definition cached_goal :: "CommandContext \<Rightarrow> string \<Rightarrow> uuid \<Rightarrow> (store, GoalContract) tx" where
  "cached_goal ctx key requested = cached_or ctx key requested (\<lambda>i. readT (\<lambda>s. get_goal s (cc_tenant ctx) i))"

definition cached_run :: "CommandContext \<Rightarrow> string \<Rightarrow> uuid \<Rightarrow> (store, Run) tx" where
  "cached_run ctx key requested = cached_or ctx key requested (\<lambda>i. readT (\<lambda>s. get_run s (cc_tenant ctx) i))"

definition cached_task :: "CommandContext \<Rightarrow> string \<Rightarrow> uuid \<Rightarrow> (store, Task) tx" where
  "cached_task ctx key requested = cached_or ctx key requested (\<lambda>i. readT (\<lambda>s. get_task s (cc_tenant ctx) i))"

text \<open>
  The common frame \<open>cached = load(...); if cached is not None: return get(cached)\<close>.
\<close>

definition replay_or :: "CommandContext \<Rightarrow> string \<Rightarrow> (store \<Rightarrow> uuid \<Rightarrow> 'a result) \<Rightarrow> (store, 'a) tx \<Rightarrow> (store, 'a) tx" where
  "replay_or ctx key getter k = bindT (readT (load_idempotency ctx key)) (\<lambda>cached.
     case cached of Some c \<Rightarrow> readT (\<lambda>s. getter s c) | None \<Rightarrow> k)"

text \<open>\<open>await self._remember(...); return value\<close>.\<close>

definition remember_return :: "CommandContext \<Rightarrow> string \<Rightarrow> uuid \<Rightarrow> 'a \<Rightarrow> (store, 'a) tx" where
  "remember_return ctx key i v = thenT (remember ctx key i) (returnT v)"

text \<open>The checks before the transaction, then the transaction.\<close>

definition use_case :: "unit result \<Rightarrow> (store, 'a) tx \<Rightarrow> store \<Rightarrow> 'a result \<times> store" where
  "use_case guard m s = (case guard of Inl e \<Rightarrow> (Inl e, s) | Inr _ \<Rightarrow> transaction m s)"

definition run_is_active :: "Run \<Rightarrow> bool" where
  "run_is_active run = (run_status run \<in> {R_PENDING, R_RUNNING, R_BLOCKED, R_AWAITING_EVIDENCE})"

definition or_text :: "string option \<Rightarrow> string \<Rightarrow> string" where
  "or_text v fallback = (case v of None \<Rightarrow> fallback | Some t \<Rightarrow> if t = [] then fallback else t)"

subsection \<open>Goals\<close>

text \<open>The goal that \<open>create_goal\<close> builds from the command and its goal type.\<close>

definition build_goal :: "ambient \<Rightarrow> CommandContext \<Rightarrow> CreateGoal \<Rightarrow> GoalTypeManifest \<Rightarrow> GoalContract result" where
  "build_goal amb ctx command manifest =
     bindE (BudgetAmount_post_init
       \<lparr>amount = (case cg_budget_limit command of None \<Rightarrow> gtm_default_budget manifest
          | Some b \<Rightarrow> if b = 0 then gtm_default_budget manifest else b), unit = cg_budget_unit command\<rparr>) (\<lambda>budget.
     bindE (JsonObject_from_value (cg_input_payload command)) (\<lambda>payload.
     bindE (DataPolicy_post_init
       \<lparr>maximum_classification = cg_maximum_classification command,
        allowed_regions = cg_allowed_regions command, retention_days = cg_retention_days command\<rparr>) (\<lambda>policy.
     GoalContract_post_init
       \<lparr>goal_tenant_id = cc_tenant ctx, goal_type = cg_goal_type command,
        goal_statement = cg_statement command, goal_desired_outcome = cg_desired_outcome command,
        goal_subject_refs = cg_subject_refs command, goal_success_criteria = cg_success_criteria command,
        goal_constraints = cg_constraints command, goal_owner_id = cg_owner_id command,
        goal_risk_tier = cg_risk_tier command, goal_budget_limit = budget,
        goal_deadline = cg_deadline command, goal_input_payload = payload,
        goal_delegation_id = cg_delegation_id command, goal_data_policy = policy,
        goal_execution_mode = cg_execution_mode command,
        goal_max_concurrent_runs = cg_max_concurrent_runs command, goal_id = amb_ids amb 0,
        goal_version = 1, goal_status = G_DRAFT, goal_created_at = Aware (amb_now amb),
        goal_transitions = []\<rparr>)))"

definition create_goal ::
  "application \<Rightarrow> ambient \<Rightarrow> CommandContext \<Rightarrow> CreateGoal \<Rightarrow> store \<Rightarrow> GoalContract result \<times> store" where
  "create_goal app amb ctx command = (let key = idem_key ''create_goal'' ctx in
     use_case (require_any ctx OPERATORS)
      (replay_or ctx key (\<lambda>s i. get_goal s (cc_tenant ctx) i)
        (bindT (liftT (app_goal_type app (cc_tenant ctx) (cg_goal_type command))) (\<lambda>manifest.
         thenT (liftT (app_validate_payload app manifest (cg_input_payload command)))
        (bindT (liftT (build_goal amb ctx command manifest)) (\<lambda>goal.
         thenT (add_goal goal (audit ctx ''goal.created'' (AI_Goal goal) (amb_ids amb 1)) (amb_now amb))
           (remember_return ctx key (goal_id goal) goal)))))))"

definition activate_goal ::
  "ambient \<Rightarrow> CommandContext \<Rightarrow> ActivateGoal \<Rightarrow> store \<Rightarrow> GoalContract result \<times> store" where
  "activate_goal amb ctx command = (let key = idem_key ''activate_goal'' ctx in
     use_case (require_any ctx OPERATORS)
      (bindT (cached_goal ctx key (ag_goal_id command)) (\<lambda>goal.
       if goal_status goal = G_ACTIVE then remember_return ctx key (goal_id goal) goal
       else bindT (liftT (GoalContract_transition_to goal G_ACTIVE (cc_actor ctx) (ag_reason command)
           (Aware (amb_now amb)))) (\<lambda>active.
         thenT (save_goal active (goal_version goal)
             (audit ctx ''goal.activated'' (AI_Goal active) (amb_ids amb 0)) (amb_now amb))
           (remember_return ctx key (goal_id active) active)))))"

subsection \<open>Runs\<close>

definition request_run ::
  "application \<Rightarrow> ambient \<Rightarrow> CommandContext \<Rightarrow> RequestRun \<Rightarrow> store \<Rightarrow> Run result \<times> store" where
  "request_run app amb ctx command = (let key = idem_key ''request_run'' ctx in
     use_case (require_any ctx OPERATORS)
      (replay_or ctx key (\<lambda>s i. get_run s (cc_tenant ctx) i)
        (bindT (readT (\<lambda>s. get_goal s (cc_tenant ctx) (rr_goal_id command))) (\<lambda>goal.
         bindT (readT (\<lambda>s. Inr (list_runs s (cc_tenant ctx) (Some (goal_id goal))))) (\<lambda>rs.
         thenT (liftT (assert_run_request_allowed goal (int (length (filter run_is_active rs)))
             (Aware (amb_now amb))))
        (bindT (liftT (app_goal_type app (cc_tenant ctx) (goal_type goal))) (\<lambda>gt.
         bindT (liftT (app_stable_agent app (cc_tenant ctx) (gtm_agent gt))) (\<lambda>agent.
         bindT (liftT (case app_run_deployment_router app of None \<Rightarrow> Inr None
             | Some router \<Rightarrow> router (cc_tenant ctx) (amb_ids amb 0))) (\<lambda>deployment.
         bindT (liftT (Run_post_init
             \<lparr>run_tenant_id = cc_tenant ctx, run_goal_id = goal_id goal,
              run_agent_version_id = agent_version_id agent, run_execution_snapshot = None,
              run_id = amb_ids amb 0, run_status = R_PENDING, run_optimistic_version = 1,
              run_created_at = Aware (amb_now amb), run_transitions = [],
              run_deployment_id = deployment\<rparr>)) (\<lambda>run.
         thenT (add_run run (audit ctx ''run.requested'' (AI_Run run) (amb_ids amb 1)) (amb_now amb))
           (remember_return ctx key (run_id run) run)))))))))))"

definition prepare_run_context ::
  "ambient \<Rightarrow> CommandContext \<Rightarrow> PrepareRunContext \<Rightarrow> store \<Rightarrow> ContextSnapshot result \<times> store" where
  "prepare_run_context amb ctx command = (let key = idem_key ''prepare_run_context'' ctx in
     use_case (require_any ctx OPERATORS)
      (replay_or ctx key (\<lambda>s _. get_context_snapshot s (cc_tenant ctx) (prc_run_id command))
        (bindT (readT (\<lambda>s. get_run s (cc_tenant ctx) (prc_run_id command))) (\<lambda>run.
         bindT (readT (\<lambda>s. mapE (get_memory s (cc_tenant ctx)) (prc_memory_ids command))) (\<lambda>mems.
         bindT (liftT (assemble
             \<lparr>asm_goal_id = run_goal_id run, asm_run_id = run_id run, asm_tenant_id = cc_tenant ctx,
              asm_roles = ic_roles (cc_identity ctx), asm_environment_facts = prc_environment_facts command,
              asm_knowledge_refs = prc_knowledge_refs command, asm_memory_records = mems,
              asm_history_digest = prc_history_digest command, asm_tool_versions = prc_tool_versions command,
              asm_purpose = prc_purpose command, asm_policy_version = prc_policy_version command,
              asm_maximum_classification = prc_maximum_classification command,
              asm_allowed_subjects = prc_allowed_subjects command\<rparr> (amb_ids amb 0) (amb_now amb))) (\<lambda>assembled.
         bindT (liftT (if prc_conflicts command = [] then Inr assembled
             else ContextSnapshot_post_init (assembled\<lparr>ctx_conflicts :=
               sorted_set (ctx_conflicts assembled @ prc_conflicts command)\<rparr>))) (\<lambda>snapshot.
         thenT (add_context_snapshot snapshot)
        (thenT (record_audit (audit ctx ''run.context_prepared'' (AI_Context snapshot) (amb_ids amb 1))
             (amb_now amb))
           (remember_return ctx key (snapshot_id snapshot) snapshot)))))))))"

subsection \<open>Plans and tasks\<close>

definition build_task :: "uuid \<Rightarrow> uuid \<Rightarrow> uuid \<Rightarrow> TaskDefinition \<Rightarrow> Task result" where
  "build_task tenant run new_id item = Task_post_init
     \<lparr>task_tenant_id = tenant, task_run_id = run, task_name = td_name item,
      completion_criterion = td_completion_criterion item, depends_on = td_depends_on item,
      task_preconditions = td_preconditions item, estimated_cost = td_estimated_cost item,
      task_risk_level = td_risk_level item, task_compensation = td_compensation item,
      evidence_requirements = td_evidence_requirements item,
      task_id = (case td_task_id item of None \<Rightarrow> new_id | Some i \<Rightarrow> i),
      task_status = T_PENDING, task_optimistic_version = 1, task_transitions = []\<rparr>"

definition create_validated_plan ::
  "ambient \<Rightarrow> CommandContext \<Rightarrow> CreateValidatedPlan \<Rightarrow> store \<Rightarrow> Plan result \<times> store" where
  "create_validated_plan amb ctx command = (let key = idem_key ''create_validated_plan'' ctx in
     use_case (require_any ctx OPERATORS)
      (replay_or ctx key (\<lambda>s i. get_plan s (cc_tenant ctx) i)
        (bindT (readT (\<lambda>s. get_run s (cc_tenant ctx) (cvp_run_id command))) (\<lambda>run.
         thenT (checkT (run_status run \<noteq> R_PENDING)
            (ValueError ''a Plan can only be created for a pending Run''))
        (bindT (readT (\<lambda>s. get_context_snapshot s (cc_tenant ctx) (run_id run))) (\<lambda>snapshot.
         bindT (liftT (mapE (\<lambda>(i, item). build_task (cc_tenant ctx) (run_id run) (amb_ids amb (2 + i)) item)
             (enumerate 0 (cvp_tasks command)))) (\<lambda>ts.
         bindT (liftT (Plan_post_init \<lparr>plan_tenant_id = cc_tenant ctx, plan_goal_id = run_goal_id run,
             plan_run_id = run_id run, plan_tasks = ts, plan_version = 1, plan_id = amb_ids amb 0\<rparr>)) (\<lambda>plan.
         bindT (liftT (bindE (RunExecutionSnapshot_post_init \<lparr>snap_plan_id = plan_id plan,
               snap_context_snapshot_id = snapshot_id snapshot,
               snap_agent_version_id = run_agent_version_id run,
               snap_skill_versions = cvp_skill_versions command,
               snap_tool_versions = cvp_tool_versions command,
               snap_model_route = cvp_model_route command,
               snap_policy_version = cvp_policy_version command\<rparr>) (Run_bind_execution run))) (\<lambda>bound0.
         bindT (liftT (Run_transition_to bound0 R_RUNNING (cc_actor ctx)
             ''validated Plan and immutable execution snapshot bound'' (Aware (amb_now amb)))) (\<lambda>bound.
         thenT (add_plan plan)
        (thenT (save_run bound (run_optimistic_version run)
             (Some (audit ctx ''run.started'' (AI_Run bound) (amb_ids amb 1))) (amb_now amb))
           (remember_return ctx key (plan_id plan) plan))))))))))))"

definition start_task :: "ambient \<Rightarrow> CommandContext \<Rightarrow> StartTask \<Rightarrow> store \<Rightarrow> Task result \<times> store" where
  "start_task amb ctx command = (let key = idem_key ''start_task'' ctx in
     use_case (require_any ctx OPERATORS)
      (bindT (cached_task ctx key (stt_task_id command)) (\<lambda>task.
       if task_status task = T_RUNNING then remember_return ctx key (task_id task) task
       else bindT (readT (\<lambda>s. mapE (get_task s (cc_tenant ctx)) (depends_on task))) (\<lambda>deps.
         thenT (checkT (list_ex (\<lambda>item. task_status item \<noteq> T_SUCCEEDED) deps)
            (ValueError ''task dependencies must succeed before the task starts''))
        (bindT (liftT (if task_status task = T_PENDING
             then Task_transition_to task T_READY (cc_actor ctx) ''task dependencies satisfied''
               (Aware (amb_now amb))
             else Inr task)) (\<lambda>ready.
         bindT (liftT (Task_transition_to ready T_RUNNING (cc_actor ctx) ''task execution started''
             (Aware (amb_now amb)))) (\<lambda>started.
         thenT (save_task started (task_optimistic_version task))
        (thenT (record_audit (audit ctx ''task.started'' (AI_Task started) (amb_ids amb 0)) (amb_now amb))
           (remember_return ctx key (task_id started) started)))))))))"

definition complete_task :: "ambient \<Rightarrow> CommandContext \<Rightarrow> CompleteTask \<Rightarrow> store \<Rightarrow> Task result \<times> store" where
  "complete_task amb ctx command = (let key = idem_key ''complete_task'' ctx;
       target = (if cpt_succeeded command then T_SUCCEEDED else T_FAILED) in
     use_case (thenE (require_any ctx OPERATORS)
        (raise_if (blank (cpt_reason command)) (ValueError ''Task completion requires a reason'')))
      (bindT (cached_task ctx key (cpt_task_id command)) (\<lambda>task.
       if task_status task = target then remember_return ctx key (task_id task) task
       else thenT (checkT (task_status task \<noteq> T_RUNNING)
            (ValueError ''only a running Task can be completed''))
        (bindT (liftT (Task_transition_to task target (cc_actor ctx) (cpt_reason command)
             (Aware (amb_now amb)))) (\<lambda>completed.
         thenT (save_task completed (task_optimistic_version task))
        (thenT (record_audit (audit ctx (''task.'' @ TaskStatus_value target) (AI_Task completed)
             (amb_ids amb 0)) (amb_now amb))
           (remember_return ctx key (task_id completed) completed)))))))"

end
