(* ===== verification/Application_Actions.thy ===== *)
theory Application_Actions
  imports Application
begin

text \<open>
  The use cases of \<open>GoalExecutionApplication\<close> on actions: proposal, approval, the legacy
  execution-time authorization, governed execution through the gateway, recorded attempts and the
  reconciliation of unknown actions.
\<close>

subsection \<open>Commands\<close>

record ProposeAction =
  pa_task_id :: uuid
  pa_tool_name :: string
  pa_tool_version :: string
  pa_operation :: string
  pa_resource_scope :: string
  pa_parameters :: "(string \<times> json) list"
  pa_risk_level :: RiskLevel
  pa_expected_effect :: string
  pa_classification :: DataClassification
  pa_execution_mode :: ExecutionMode

record RequestApproval =
  ra_action_id :: uuid
  ra_policy_version :: string
  ra_impact_summary :: string
  ra_required_role :: string
  ra_expires_at :: datetime

record DecideApproval =
  da_approval_id :: uuid
  da_action_digest :: string
  da_approved :: bool
  da_reason :: string

record AuthorizeActionAtExecutionTime =
  aa_action_id :: uuid
  aa_policy_version :: string
  aa_policy_allowed :: bool
  aa_policy_reason :: string
  aa_approval_id :: "uuid option"
  aa_agent_identity :: string
  aa_delegation_ref :: string
  aa_budget_ref :: string
  aa_deadline :: datetime
  aa_traceparent :: string

record ExecuteGovernedAction =
  eg_action_id :: uuid
  eg_approval_id :: "uuid option"
  eg_policy_version :: string
  eg_delegation_id :: "string option"
  eg_cost_units :: int

record GovernedActionExecution =
  gae_result :: GatewayResult
  gae_attempt :: ActionAttempt
  gae_evidence :: Evidence

record RecordActionAttempt =
  raa_action_id :: uuid
  raa_invocation_id :: uuid
  raa_status :: ActionAttemptStatus
  raa_receipt_ref :: string
  raa_executor_identity :: string
  raa_failure_reason :: "string option"

record ReconcileUnknownAction =
  rua_action_id :: uuid
  rua_invocation_id :: uuid
  rua_succeeded :: bool
  rua_receipt_ref :: string
  rua_executor_identity :: string
  rua_failure_reason :: "string option"

definition WRITE_RISKS :: "RiskLevel list" where
  "WRITE_RISKS = [L2_REVERSIBLE_WRITE, L3_HIGH_IMPACT_WRITE, L4_PRIVILEGED]"

subsection \<open>Proposal and approval\<close>

definition propose_action ::
  "ambient \<Rightarrow> CommandContext \<Rightarrow> ProposeAction \<Rightarrow> store \<Rightarrow> Action result \<times> store" where
  "propose_action amb ctx command = (let key = idem_key ''propose_action'' ctx in
     use_case (require_any ctx OPERATORS)
      (replay_or ctx key (\<lambda>s i. get_action s (cc_tenant ctx) i)
        (bindT (readT (\<lambda>s. get_task s (cc_tenant ctx) (pa_task_id command))) (\<lambda>task.
         thenT (checkT (task_status task \<noteq> T_RUNNING)
            (ValueError ''Action proposal requires a running Task''))
        (bindT (readT (\<lambda>s. get_run s (cc_tenant ctx) (task_run_id task))) (\<lambda>run.
         thenT (checkT (case run_execution_snapshot run of None \<Rightarrow> True
             | Some snap \<Rightarrow> pa_tool_name command @ ''@'' @ pa_tool_version command \<notin> set (snap_tool_versions snap))
            (PermissionError ''Action tool version is not bound to the Run snapshot''))
        (bindT (liftT (JsonObject_from_value (pa_parameters command))) (\<lambda>parameters.
         bindT (liftT (Action_post_init
             \<lparr>action_tenant_id = cc_tenant ctx, action_run_id = task_run_id task,
              action_task_id = task_id task, action_tool_name = pa_tool_name command,
              action_tool_version = pa_tool_version command, action_operation = pa_operation command,
              action_resource_scope = pa_resource_scope command, action_parameters = parameters,
              action_risk_level = pa_risk_level command, action_idempotency_key = cc_idempotency_key ctx,
              action_expected_effect = pa_expected_effect command,
              action_classification = pa_classification command,
              action_execution_mode = pa_execution_mode command, action_id = amb_ids amb 0,
              action_status = A_PROPOSED, action_optimistic_version = 1, action_transitions = []\<rparr>)) (\<lambda>action.
         thenT (add_action action)
        (thenT (record_audit (audit ctx ''action.proposed'' (AI_Action action) (amb_ids amb 1)) (amb_now amb))
           (remember_return ctx key (action_id action) action)))))))))))"

definition request_approval ::
  "ambient \<Rightarrow> CommandContext \<Rightarrow> RequestApproval \<Rightarrow> store \<Rightarrow> ApprovalRequest result \<times> store" where
  "request_approval amb ctx command = (let key = idem_key ''request_approval'' ctx in
     use_case (require_any ctx OPERATORS)
      (replay_or ctx key (\<lambda>s i. get_approval s (cc_tenant ctx) i)
        (bindT (readT (\<lambda>s. get_action s (cc_tenant ctx) (ra_action_id command))) (\<lambda>action.
         thenT (checkT (action_status action \<noteq> A_PROPOSED)
            (ValueError ''approval can only be requested for a proposed Action''))
        (bindT (liftT (ApprovalRequest_post_init
             \<lparr>appr_tenant_id = action_tenant_id action, appr_run_id = action_run_id action,
              appr_action_id = action_id action, appr_action_digest = canonical_digest action,
              appr_tool_version = action_tool_version action, appr_operation = action_operation action,
              appr_resource_scope = action_resource_scope action,
              appr_argument_digest = parameter_digest action,
              appr_policy_version = ra_policy_version command,
              appr_impact_summary = ra_impact_summary command,
              appr_required_role = ra_required_role command, appr_expires_at = ra_expires_at command,
              approval_id = amb_ids amb 0, appr_status = P_PENDING, appr_decided_by = None,
              appr_reason = None, appr_created_at = Aware (amb_now amb), appr_decided_at = None,
              appr_optimistic_version = 1, appr_transitions = [],
              appr_required_reviews =
                (if action_risk_level action \<in> {L3_HIGH_IMPACT_WRITE, L4_PRIVILEGED} then 2 else 1),
              appr_reviews = []\<rparr>)) (\<lambda>approval.
         bindT (liftT (Action_transition_to action A_AWAITING_APPROVAL (cc_actor ctx)
             ''approval required before execution'' (Aware (amb_now amb)))) (\<lambda>awaiting.
         thenT (add_approval approval)
        (thenT (save_action awaiting (action_optimistic_version action))
        (thenT (record_audit (audit ctx ''approval.requested'' (AI_Approval approval) (amb_ids amb 1))
             (amb_now amb))
           (remember_return ctx key (approval_id approval) approval))))))))))"

definition decide_approval ::
  "ambient \<Rightarrow> CommandContext \<Rightarrow> DecideApproval \<Rightarrow> store \<Rightarrow> ApprovalRequest result \<times> store" where
  "decide_approval amb ctx command = (let key = idem_key ''decide_approval'' ctx in
     use_case (Inr ())
      (replay_or ctx key (\<lambda>s i. get_approval s (cc_tenant ctx) i)
        (bindT (readT (\<lambda>s. get_approval s (cc_tenant ctx) (da_approval_id command))) (\<lambda>approval.
         thenT (liftT (require_any ctx [appr_required_role approval, ''tenant_admin'', ''platform_admin'']))
        (thenT (checkT (appr_action_digest approval \<noteq> da_action_digest command)
            (PermissionError ''approval digest does not match the persisted request''))
        (bindT (liftT (ApprovalRequest_decide approval (cc_actor ctx) (da_approved command)
             (da_reason command) (Some (ic_principal_id (cc_identity ctx))) (amb_now amb))) (\<lambda>decided.
         thenT (save_approval decided (appr_optimistic_version approval))
        (thenT (if appr_status decided \<in> {P_REJECTED, P_EXPIRED} then
             bindT (readT (\<lambda>s. get_action s (cc_tenant ctx) (appr_action_id approval))) (\<lambda>action.
             bindT (liftT (Action_transition_to action A_DENIED (cc_actor ctx)
                 (''approval '' @ ApprovalStatus_value (appr_status decided)) (Aware (amb_now amb)))) (\<lambda>denied.
             save_action denied (action_optimistic_version action)))
           else returnT ())
        (thenT (record_audit (audit ctx (''approval.'' @ ApprovalStatus_value (appr_status decided))
             (AI_Approval decided) (amb_ids amb 0)) (amb_now amb))
           (remember_return ctx key (approval_id decided) decided))))))))))"

subsection \<open>Legacy authorization\<close>

text \<open>
  A denial is committed before \<open>PermissionError\<close> is raised: the transaction returns
  \<open>Inl reason\<close> and the exception follows it.
\<close>

definition legacy_denied_reason ::
  "AuthorizeActionAtExecutionTime \<Rightarrow> Action \<Rightarrow> ApprovalRequest option \<Rightarrow> int \<Rightarrow> string option" where
  "legacy_denied_reason command action approval now =
     (if \<not> aa_policy_allowed command
      then Some (if aa_policy_reason command = [] then ''policy denied execution'' else aa_policy_reason command)
      else if action_risk_level action \<in> set WRITE_RISKS
          \<and> (case approval of None \<Rightarrow> True
             | Some p \<Rightarrow> \<not> authorizes p action (aa_policy_version command) now)
      then Some ''a current, exact-bound approval is required''
      else None)"

definition authorize_denied ::
  "ambient \<Rightarrow> CommandContext \<Rightarrow> string \<Rightarrow> Action \<Rightarrow> string \<Rightarrow> (store, unit) tx" where
  "authorize_denied amb ctx key action reason =
     (if action_status action \<in> {A_PROPOSED, A_AWAITING_APPROVAL} then
        bindT (liftT (Action_transition_to action A_DENIED (cc_actor ctx) reason (Aware (amb_now amb)))) (\<lambda>denied.
        thenT (save_action denied (action_optimistic_version action))
       (thenT (record_audit (audit ctx ''action.denied'' (AI_Action denied) (amb_ids amb 0)) (amb_now amb))
          (remember ctx key (action_id denied))))
      else returnT ())"

definition authorize_allowed ::
  "ambient \<Rightarrow> CommandContext \<Rightarrow> string \<Rightarrow> AuthorizeActionAtExecutionTime \<Rightarrow> uuid option \<Rightarrow> Action
     \<Rightarrow> (store, ActionExecutionEnvelope) tx" where
  "authorize_allowed amb ctx key command cached_invocation action0 =
     bindT (if action_status action0 \<in> {A_PROPOSED, A_AWAITING_APPROVAL} then
         bindT (liftT (Action_transition_to action0 A_AUTHORIZED (cc_actor ctx)
             (''execution-time policy '' @ aa_policy_version command @ '' allowed'')
             (Aware (amb_now amb)))) (\<lambda>authorized.
         thenT (save_action authorized (action_optimistic_version action0))
        (thenT (record_audit (audit ctx ''action.authorized'' (AI_Action authorized) (amb_ids amb 0))
             (amb_now amb))
           (returnT authorized)))
       else returnT action0) (\<lambda>action.
     thenT (checkT (action_status action \<noteq> A_AUTHORIZED)
        (ValueError ''Action is not executable in its current state''))
    (bindT (liftT (ActionExecutionEnvelope_from_action (amb_ids amb 1) action (cc_actor ctx)
         (ic_principal_id (cc_identity ctx)) (aa_agent_identity command) (aa_delegation_ref command)
         (aa_budget_ref command) (aa_approval_id command) (aa_policy_version command)
         (aa_deadline command) (aa_traceparent command))) (\<lambda>envelope.
     case cached_invocation of
       Some i \<Rightarrow> liftT (ActionExecutionEnvelope_post_init (envelope\<lparr>env_invocation_id := i\<rparr>))
     | None \<Rightarrow> remember_return ctx key (env_invocation_id envelope) envelope)))"

definition authorize_action_at_execution_time ::
  "application \<Rightarrow> ambient \<Rightarrow> CommandContext \<Rightarrow> AuthorizeActionAtExecutionTime \<Rightarrow> store
     \<Rightarrow> ActionExecutionEnvelope result \<times> store" where
  "authorize_action_at_execution_time app amb ctx command s = (let key = idem_key ''authorize_action'' ctx in
     andThen (use_case
        (thenE (raise_if (\<not> app_legacy_authorization_enabled app)
           (RuntimeError ''direct execution authorization is disabled; use execute_governed_action''))
        (thenE (require_any ctx OPERATORS)
        (bindE (dt_geE (Aware (amb_now amb)) (aa_deadline command)) (\<lambda>expired.
         raise_if expired (ValueError ''execution authorization deadline has expired'')))))
        (bindT (readT (load_idempotency ctx key)) (\<lambda>cached_invocation.
         bindT (readT (\<lambda>s. get_action s (cc_tenant ctx) (aa_action_id command))) (\<lambda>action.
         bindT (case aa_approval_id command of None \<Rightarrow> returnT None
           | Some i \<Rightarrow> readT (\<lambda>s. bindE (get_approval s (cc_tenant ctx) i) (\<lambda>p. Inr (Some p)))) (\<lambda>approval.
         case legacy_denied_reason command action approval (amb_now amb) of
           Some reason \<Rightarrow> thenT (authorize_denied amb ctx key action reason) (returnT (Inl reason))
         | None \<Rightarrow> bindT (authorize_allowed amb ctx key command cached_invocation action)
             (\<lambda>envelope. returnT (Inr envelope))))))
        s)
      (\<lambda>r s1. case r of Inl reason \<Rightarrow> (Inl (PermissionError reason), s1)
        | Inr envelope \<Rightarrow> (Inr envelope, s1)))"

subsection \<open>Governed execution\<close>

text \<open>The application's store and the state of its gateway.\<close>

record world =
  w_store :: store
  w_gateway :: gateway_state

text \<open>\<open>max(items, key=...)\<close>: the first item with the greatest key.\<close>

fun max_by :: "('a \<Rightarrow> int) \<Rightarrow> 'a \<Rightarrow> 'a list \<Rightarrow> 'a" where
  "max_by key best [] = best"
| "max_by key best (x # xs) = max_by key (if key x > key best then x else best) xs"

definition durable_status :: "ActionStatus \<Rightarrow> ToolResultStatus" where
  "durable_status st = (case st of A_SUCCEEDED \<Rightarrow> TR_SUCCEEDED | A_FAILED \<Rightarrow> TR_FAILED
     | A_DENIED \<Rightarrow> TR_REJECTED | A_UNKNOWN \<Rightarrow> TR_UNKNOWN | _ \<Rightarrow> TR_UNKNOWN)"

text \<open>The replay of a recorded execution.\<close>

definition replay_execution :: "CommandContext \<Rightarrow> uuid \<Rightarrow> store \<Rightarrow> GovernedActionExecution result" where
  "replay_execution ctx cached s =
     bindE (get_action s (cc_tenant ctx) cached) (\<lambda>action.
     case (list_action_attempts s (cc_tenant ctx) (action_id action),
           filter (\<lambda>item. ev_action_id item = action_id action) (list_evidence s (cc_tenant ctx))) of
       (attempt # attempts, item # items) \<Rightarrow>
         (let last_attempt = max_by (\<lambda>a. instant (att_recorded_at a)) attempt attempts;
              last_item = max_by (\<lambda>e. instant (ev_captured_at e)) item items in
          Inr \<lparr>gae_result = \<lparr>gr_action = action, gr_receipt =
               \<lparr>rcpt_external_id = att_receipt_ref last_attempt,
                rcpt_status = durable_status (action_status action), rcpt_output = []\<rparr>, gr_cached = True\<rparr>,
             gae_attempt = last_attempt, gae_evidence = last_item\<rparr>)
     | _ \<Rightarrow> Inl (RuntimeError ''cached governed execution is missing durable facts''))"

definition execution_authorization :: "CommandContext \<Rightarrow> ExecuteGovernedAction \<Rightarrow> AuthorizationContext" where
  "execution_authorization ctx command =
     \<lparr>authz_tenant_id = str_uuid (cc_tenant ctx), authz_actor_id = str_uuid (cc_actor ctx),
      authz_principal_id = str_uuid (ic_principal_id (cc_identity ctx)),
      authz_agent_id = or_text (ic_agent_id (cc_identity ctx)) ''human-operator'',
      authz_roles = sorted_set (ic_roles (cc_identity ctx)),
      authz_policy_version = eg_policy_version command, authz_delegation_id = eg_delegation_id command,
      authz_correlation_id = str_uuid (cc_correlation_id ctx), authz_purpose = ''governed_action''\<rparr>"

definition attempt_status_of :: "ToolResultStatus \<Rightarrow> ActionAttemptStatus" where
  "attempt_status_of st = (case st of TR_SUCCEEDED \<Rightarrow> AT_SUCCEEDED | TR_ACCEPTED \<Rightarrow> AT_UNKNOWN
     | TR_UNKNOWN \<Rightarrow> AT_UNKNOWN | TR_FAILED \<Rightarrow> AT_FAILED | TR_REJECTED \<Rightarrow> AT_FAILED)"

definition receipt_reference :: "Action \<Rightarrow> ToolReceipt \<Rightarrow> string" where
  "receipt_reference action receipt =
     (if rcpt_external_id receipt = []
      then ''gateway://'' @ ToolResultStatus_value (rcpt_status receipt) @ ''/'' @ str_uuid (action_id action)
      else rcpt_external_id receipt)"

definition execution_attempt :: "ambient \<Rightarrow> Action \<Rightarrow> ToolReceipt \<Rightarrow> ActionAttempt result" where
  "execution_attempt amb action receipt = (let status = attempt_status_of (rcpt_status receipt) in
     ActionAttempt_post_init
      \<lparr>att_tenant_id = action_tenant_id action, att_run_id = action_run_id action,
       att_action_id = action_id action, att_invocation_id = amb_ids amb 0, att_status = status,
       att_idempotency_key = action_idempotency_key action,
       att_receipt_ref = receipt_reference action receipt,
       att_executor_identity = ''gateway:'' @ action_tool_name action @ ''@'' @ action_tool_version action,
       att_failure_reason = (if status = AT_FAILED
         then Some (case map_of (rev (rcpt_output receipt)) ''reason'' of Some r \<Rightarrow> r
           | None \<Rightarrow> ToolResultStatus_value (rcpt_status receipt)) else None),
       attempt_id = amb_ids amb 1, att_recorded_at = Aware (amb_now amb)\<rparr>)"

text \<open>\<open>output\<close> is a tuple of pairs, which \<open>json.dumps\<close> writes as arrays.\<close>

definition execution_payload :: "ToolReceipt \<Rightarrow> json" where
  "execution_payload receipt = JObj
     [(''external_id'', JStr (rcpt_external_id receipt)),
      (''output'', JList (map (\<lambda>(k, v). JList [JStr k, JStr v]) (rcpt_output receipt))),
      (''status'', JStr (ToolResultStatus_value (rcpt_status receipt)))]"

definition execution_evidence :: "ambient \<Rightarrow> Action \<Rightarrow> ToolReceipt \<Rightarrow> Evidence result" where
  "execution_evidence amb action receipt = Evidence_post_init
     \<lparr>ev_tenant_id = action_tenant_id action, ev_run_id = action_run_id action,
      ev_action_id = action_id action, ev_source = ''governed-tool-gateway'',
      ev_source_identity = action_tool_name action @ ''@'' @ action_tool_version action,
      ev_capture_method = SYSTEM_QUERY, ev_reference = receipt_reference action receipt,
      ev_observed_state = ToolResultStatus_value (rcpt_status receipt),
      ev_content_digest = sha256_hexdigest (dumps_compact (execution_payload receipt)),
      ev_classification = action_classification action, ev_valid_from = Aware (amb_now amb),
      ev_valid_until = Aware (amb_now amb + days 1), ev_integrity = EI_UNVERIFIED,
      ev_source_reference = [], ev_subject_refs = [], ev_retained_until = None,
      ev_artifact_version_id = None, evidence_id = amb_ids amb 2, ev_captured_at = Aware (amb_now amb)\<rparr>"

text \<open>The second transaction: all facts of one execution or none.\<close>

definition record_execution ::
  "ambient \<Rightarrow> CommandContext \<Rightarrow> string \<Rightarrow> Action \<Rightarrow> GatewayResult \<Rightarrow> ActionAttempt \<Rightarrow> Evidence
     \<Rightarrow> (store, GovernedActionExecution) tx" where
  "record_execution amb ctx key action r attempt item =
     bindT (readT (\<lambda>s. get_action s (action_tenant_id action) (action_id action))) (\<lambda>current.
     thenT (checkT (action_optimistic_version current \<noteq> action_optimistic_version action)
        (ConcurrencyConflict ''Action changed while external execution was in flight''))
    (thenT (save_action (gr_action r) (action_optimistic_version action))
    (thenT (add_action_attempt attempt)
    (thenT (add_evidence item)
    (thenT (record_audit (audit ctx ''action.governed_execution_recorded'' (AI_Attempt attempt)
         (amb_ids amb 3)) (amb_now amb))
    (thenT (record_audit (audit ctx ''evidence.recorded'' (AI_Evidence item) (amb_ids amb 4)) (amb_now amb))
       (remember_return ctx key (action_id action)
         \<lparr>gae_result = r, gae_attempt = attempt, gae_evidence = item\<rparr>)))))))"

definition lift_store :: "('a result \<times> store) \<Rightarrow> world \<Rightarrow> 'a result \<times> world" where
  "lift_store r w = (fst r, w\<lparr>w_store := snd r\<rparr>)"

text \<open>What the first transaction returns: the cached execution, or the action and its approval.\<close>

definition load_execution ::
  "CommandContext \<Rightarrow> string \<Rightarrow> ExecuteGovernedAction
     \<Rightarrow> (store, GovernedActionExecution + Action \<times> ApprovalRequest option) tx" where
  "load_execution ctx key command =
     bindT (readT (load_idempotency ctx key)) (\<lambda>cached.
     case cached of
       Some c \<Rightarrow> readT (\<lambda>s. bindE (replay_execution ctx c s) (\<lambda>x. Inr (Inl x)))
     | None \<Rightarrow> bindT (readT (\<lambda>s. get_action s (cc_tenant ctx) (eg_action_id command))) (\<lambda>action.
         case eg_approval_id command of
           None \<Rightarrow> returnT (Inr (action, None))
         | Some i \<Rightarrow> readT (\<lambda>s. bindE (get_approval s (cc_tenant ctx) i) (\<lambda>p. Inr (Inr (action, Some p))))))"

definition execute_governed_action ::
  "application \<Rightarrow> ambient \<Rightarrow> CommandContext \<Rightarrow> ExecuteGovernedAction \<Rightarrow> world
     \<Rightarrow> GovernedActionExecution result \<times> world" where
  "execute_governed_action app amb ctx command w = (let key = idem_key ''execute_governed_action'' ctx in
     (case app_governed_gateway app of
        None \<Rightarrow> (Inl (case require_any ctx OPERATORS of Inl e \<Rightarrow> e
            | Inr _ \<Rightarrow> RuntimeError ''a governed tool gateway is required for external execution''), w)
      | Some ports \<Rightarrow>
        andThen (lift_store (use_case (require_any ctx OPERATORS) (load_execution ctx key command) (w_store w)) w)
        (\<lambda>loaded w1. (case loaded of
           Inl execution \<Rightarrow> (Inr execution, w1)
         | Inr (action, approval) \<Rightarrow>
           (case (case app_shadow_write_guard app of
                None \<Rightarrow> Inr ()
              | Some guard \<Rightarrow> if action_risk_level action \<in> set WRITE_RISKS
                  then guard (w_store w1) (cc_tenant ctx) (action_run_id action) else Inr ()) of
              Inl e \<Rightarrow> (Inl e, w1)
            | Inr _ \<Rightarrow>
              (case gateway_execute ports (execution_authorization ctx command) action approval
                  (eg_cost_units command) (str_uuid (amb_ids amb 5)) (amb_now amb) (w_gateway w1) of
                 (Inl e, g) \<Rightarrow> (Inl e, w1\<lparr>w_gateway := g\<rparr>)
               | (Inr r, g) \<Rightarrow>
                 (case bindE (execution_attempt amb action (gr_receipt r)) (\<lambda>attempt.
                       bindE (execution_evidence amb action (gr_receipt r)) (\<lambda>item. Inr (attempt, item))) of
                    Inl e \<Rightarrow> (Inl e, w1\<lparr>w_gateway := g\<rparr>)
                  | Inr (attempt, item) \<Rightarrow>
                    lift_store (transaction (record_execution amb ctx key action r attempt item) (w_store w1))
                      (w1\<lparr>w_gateway := g\<rparr>))))))))"

subsection \<open>Attempts and reconciliation\<close>

definition action_target :: "ActionAttemptStatus \<Rightarrow> ActionStatus option" where
  "action_target st = (case st of AT_STARTED \<Rightarrow> None | AT_SUCCEEDED \<Rightarrow> Some A_SUCCEEDED
     | AT_FAILED \<Rightarrow> Some A_FAILED | AT_UNKNOWN \<Rightarrow> Some A_UNKNOWN)"

definition or_failure :: "string option \<Rightarrow> bool \<Rightarrow> string \<Rightarrow> string option" where
  "or_failure reason failed fallback = (case reason of
     Some r \<Rightarrow> if r = [] then (if failed then Some fallback else None) else Some r
   | None \<Rightarrow> if failed then Some fallback else None)"

definition record_action_attempt ::
  "ambient \<Rightarrow> CommandContext \<Rightarrow> RecordActionAttempt \<Rightarrow> store \<Rightarrow> Action result \<times> store" where
  "record_action_attempt amb ctx command = (let key = idem_key ''record_action_attempt'' ctx in
     use_case (require_any ctx OPERATORS)
      (replay_or ctx key (\<lambda>s i. get_action s (cc_tenant ctx) i)
        (bindT (readT (\<lambda>s. get_action s (cc_tenant ctx) (raa_action_id command))) (\<lambda>action.
         thenT (checkT (action_status action \<notin> {A_AUTHORIZED, A_EXECUTING})
            (ValueError ''Action attempt requires execution-time authorization''))
        (bindT (liftT (if action_status action = A_AUTHORIZED
             then Action_transition_to action A_EXECUTING (cc_actor ctx) ''tool invocation started''
               (Aware (amb_now amb))
             else Inr action)) (\<lambda>executing.
         bindT (liftT (case action_target (raa_status command) of None \<Rightarrow> Inr executing
             | Some target \<Rightarrow> Action_transition_to executing target (cc_actor ctx)
                 (or_text (raa_failure_reason command) (''tool receipt: '' @ raa_receipt_ref command))
                 (Aware (amb_now amb)))) (\<lambda>updated.
         bindT (liftT (ActionAttempt_post_init
             \<lparr>att_tenant_id = action_tenant_id action, att_run_id = action_run_id action,
              att_action_id = action_id action, att_invocation_id = raa_invocation_id command,
              att_status = raa_status command, att_idempotency_key = cc_idempotency_key ctx,
              att_receipt_ref = raa_receipt_ref command,
              att_executor_identity = raa_executor_identity command,
              att_failure_reason = or_failure (raa_failure_reason command)
                (raa_status command = AT_FAILED) ''tool execution failed'',
              attempt_id = amb_ids amb 0, att_recorded_at = Aware (amb_now amb)\<rparr>)) (\<lambda>attempt.
         thenT (add_action_attempt attempt)
        (thenT (save_action updated (action_optimistic_version action))
        (thenT (record_audit (audit ctx ''action.attempt_recorded'' (AI_Attempt attempt) (amb_ids amb 1))
             (amb_now amb))
           (remember_return ctx key (action_id updated) updated)))))))))))"

definition reconcile_unknown_action ::
  "ambient \<Rightarrow> CommandContext \<Rightarrow> ReconcileUnknownAction \<Rightarrow> store \<Rightarrow> Action result \<times> store" where
  "reconcile_unknown_action amb ctx command = (let key = idem_key ''reconcile_unknown_action'' ctx in
     use_case (require_any ctx OPERATORS)
      (replay_or ctx key (\<lambda>s i. get_action s (cc_tenant ctx) i)
        (bindT (readT (\<lambda>s. get_action s (cc_tenant ctx) (rua_action_id command))) (\<lambda>action.
         thenT (checkT (action_status action \<noteq> A_UNKNOWN)
            (ValueError ''only an Unknown Action can be reconciled''))
        (bindT (liftT (Action_transition_to action (if rua_succeeded command then A_SUCCEEDED else A_FAILED)
             (cc_actor ctx) (or_text (rua_failure_reason command) (''reconciled from '' @ rua_receipt_ref command))
             (Aware (amb_now amb)))) (\<lambda>updated.
         bindT (liftT (ActionAttempt_post_init
             \<lparr>att_tenant_id = action_tenant_id action, att_run_id = action_run_id action,
              att_action_id = action_id action, att_invocation_id = rua_invocation_id command,
              att_status = (if rua_succeeded command then AT_SUCCEEDED else AT_FAILED),
              att_idempotency_key = cc_idempotency_key ctx, att_receipt_ref = rua_receipt_ref command,
              att_executor_identity = rua_executor_identity command,
              att_failure_reason = or_failure (rua_failure_reason command) (\<not> rua_succeeded command)
                ''reconciliation reported failure'',
              attempt_id = amb_ids amb 0, att_recorded_at = Aware (amb_now amb)\<rparr>)) (\<lambda>attempt.
         thenT (add_action_attempt attempt)
        (thenT (save_action updated (action_optimistic_version action))
        (thenT (record_audit (audit ctx ''action.reconciled'' (AI_Action updated) (amb_ids amb 1))
             (amb_now amb))
           (remember_return ctx key (action_id updated) updated))))))))))"

end
