(* ===== verification/Application_Outcomes.thy ===== *)
theory Application_Outcomes
  imports Application_Actions
begin

text \<open>
  The use cases of \<open>GoalExecutionApplication\<close> on evidence, outcomes and the end of runs and
  goals: recorded evidence, the capture saga, deletion, outcome verification, completion of a run, the
  terminal decision on a goal, and the operator transitions of a run.
\<close>

subsection \<open>Commands\<close>

record RecordEvidence =
  re_evidence :: Evidence

record CaptureAuthoritativeEvidence =
  cae_run_id :: uuid
  cae_action_id :: uuid
  cae_criterion_id :: string
  cae_source :: string
  cae_declared_classification :: DataClassification
  cae_content_type :: string

record RequestEvidenceDeletion =
  red_evidence_id :: uuid
  red_reason :: string

record VerifyOutcome =
  vo_run_id :: uuid
  vo_criterion_id :: string
  vo_evidence_ids :: "uuid list"

record CompleteRun =
  cr_run_id :: uuid

record SatisfyOrFailGoal =
  sfg_goal_id :: uuid
  sfg_satisfied :: bool
  sfg_reason :: string

text \<open>\<open>CancelRun\<close>, \<open>FailRun\<close> and \<open>TakeOverRun\<close> have the same fields.\<close>

record RunDecision =
  rdc_run_id :: uuid
  rdc_reason :: string

subsection \<open>Evidence\<close>

definition record_evidence ::
  "ambient \<Rightarrow> CommandContext \<Rightarrow> RecordEvidence \<Rightarrow> store \<Rightarrow> Evidence result \<times> store" where
  "record_evidence amb ctx command = (let key = idem_key ''record_evidence'' ctx; item = re_evidence command in
     use_case
      (thenE (require_any ctx OPERATORS)
      (thenE (raise_if (ev_integrity item = EI_VERIFIED)
         (ValueError ''integrity-verified Evidence must be captured through authoritative readback''))
        (raise_if (ev_tenant_id item \<noteq> cc_tenant ctx)
         (PermissionError ''Evidence tenant does not match command identity''))))
      (replay_or ctx key (\<lambda>s i. get_evidence s (cc_tenant ctx) i)
        (bindT (readT (\<lambda>s. get_action s (ev_tenant_id item) (ev_action_id item))) (\<lambda>action.
         thenT (checkT (action_status action \<noteq> A_SUCCEEDED \<or> action_run_id action \<noteq> ev_run_id item)
            (ValueError ''Evidence requires a succeeded authoritative Action''))
        (thenT (add_evidence item)
        (thenT (record_audit (audit ctx ''evidence.recorded'' (AI_Evidence item) (amb_ids amb 0)) (amb_now amb))
           (remember_return ctx key (evidence_id item) item)))))))"

text \<open>
  The subjects of a saga: an empty version text is decoded as \<open>None\<close>.
\<close>

definition decode_subject :: "SubjectRef \<Rightarrow> SubjectRef result" where
  "decode_subject item = SubjectRef_post_init (item\<lparr>subj_version :=
     (case subj_version item of Some v \<Rightarrow> if v = [] then None else Some v | None \<Rightarrow> None)\<rparr>)"

definition saga_evidence :: "EvidenceCaptureSaga \<Rightarrow> EvidenceArtifactDescriptor \<Rightarrow> Evidence result" where
  "saga_evidence saga stored = (let d = saga_definition saga in
     bindE (mapE decode_subject (def_subject_refs d)) (\<lambda>subjects.
     Evidence_post_init
      \<lparr>ev_tenant_id = saga_tenant_id saga, ev_run_id = saga_run_id saga, ev_action_id = saga_action_id saga,
       ev_source = def_source d, ev_source_identity = def_source_identity d,
       ev_capture_method = AUTHORITATIVE_READBACK, ev_reference = artifact_uri stored,
       ev_observed_state = def_observed_state d, ev_content_digest = art_content_digest stored,
       ev_classification = def_classification d, ev_valid_from = def_captured_at d,
       ev_valid_until = def_valid_until d, ev_integrity = EI_VERIFIED,
       ev_source_reference = def_source_reference d, ev_subject_refs = subjects,
       ev_retained_until = Some (def_retained_until d), ev_artifact_version_id = art_version_id stored,
       evidence_id = saga_evidence_id saga, ev_captured_at = def_captured_at d\<rparr>))"

definition commit_evidence_capture ::
  "ambient \<Rightarrow> CommandContext \<Rightarrow> string \<Rightarrow> EvidenceCaptureSaga \<Rightarrow> EvidenceArtifactDescriptor \<Rightarrow> store
     \<Rightarrow> Evidence result \<times> store" where
  "commit_evidence_capture amb ctx key saga stored s =
     (case saga_evidence saga stored of
        Inl e \<Rightarrow> (Inl e, s)
      | Inr item \<Rightarrow> transaction
          (thenT (add_evidence item)
          (thenT (complete_evidence_capture (cc_tenant ctx) (evidence_id item))
          (thenT (record_audit (audit ctx ''evidence.authoritative_captured'' (AI_Evidence item)
               (amb_ids amb 0)) (amb_now amb))
             (remember_return ctx key (evidence_id item) item)))) s)"

definition capture_id :: "CommandContext \<Rightarrow> uuid" where
  "capture_id ctx = uuid5 NAMESPACE_URL
     (''autonoesis:evidence:'' @ str_uuid (cc_tenant ctx) @ '':'' @ cc_idempotency_key ctx)"

text \<open>An interrupted capture resumes from the stored artifact.\<close>

definition resume_capture ::
  "EvidenceArtifactStore \<Rightarrow> ambient \<Rightarrow> CommandContext \<Rightarrow> string \<Rightarrow> EvidenceCaptureSaga \<Rightarrow> store
     \<Rightarrow> Evidence result \<times> store" where
  "resume_capture artifacts amb ctx key pending s =
     (if saga_status pending = EC_COMMITTED
      then (get_evidence s (cc_tenant ctx) (capture_id ctx), s)
      else (let d = saga_definition pending;
          descriptor = \<lparr>art_tenant_id = saga_tenant_id pending, art_evidence_id = saga_evidence_id pending,
            artifact_uri = saga_artifact_uri pending, art_content_digest = saga_expected_digest pending,
            art_classification = def_classification d, art_size_bytes = def_size_bytes d,
            art_retained_until = def_retained_until d, art_version_id = None\<rparr> in
        (case bindE (as_retrieve_verified artifacts descriptor) (\<lambda>content.
              as_store artifacts descriptor content (def_content_type d)) of
           Inl e \<Rightarrow> (Inl e, s)
         | Inr stored \<Rightarrow> commit_evidence_capture amb ctx key pending stored s)))"

text \<open>Everything a new capture computes before the saga starts.\<close>

definition prepare_capture ::
  "application \<Rightarrow> EvidenceArtifactStore \<Rightarrow> readback \<Rightarrow> CommandContext \<Rightarrow> CaptureAuthoritativeEvidence \<Rightarrow> store
     \<Rightarrow> (EvidenceCaptureSaga \<times> EvidenceArtifactDescriptor \<times> byte list) result" where
  "prepare_capture app artifacts rb ctx command s =
     bindE (get_run s (cc_tenant ctx) (cae_run_id command)) (\<lambda>run.
     bindE (get_goal s (cc_tenant ctx) (run_goal_id run)) (\<lambda>goal.
     bindE (get_action s (cc_tenant ctx) (cae_action_id command)) (\<lambda>action.
     thenE (raise_if (action_run_id action \<noteq> run_id run \<or> action_status action \<noteq> A_SUCCEEDED)
        (ValueError ''authoritative Evidence requires a succeeded Action in the Run''))
    (case find (\<lambda>item. criterion_id item = cae_criterion_id command) (goal_success_criteria goal) of
       None \<Rightarrow> Inl (ValueError ''Evidence criterion is not part of the Goal contract'')
     | Some criterion \<Rightarrow>
     bindE (rb (cae_source command) (cc_tenant ctx) (goal_subject_refs goal) criterion) (\<lambda>observation.
     bindE (admit (app_evidence_policy app) (obs_content observation) (cae_declared_classification command)
         (maximum_classification (goal_data_policy goal)) (retention_days (goal_data_policy goal))) (\<lambda>classification.
     let retained = Aware (instant (obs_captured_at observation) + days (retention_days (goal_data_policy goal)));
         descriptor = as_describe artifacts (cc_tenant ctx) (capture_id ctx) (obs_content_digest observation)
           classification (length (obs_content observation)) retained in
     Inr (\<lparr>saga_tenant_id = cc_tenant ctx, saga_evidence_id = capture_id ctx, saga_run_id = run_id run,
         saga_action_id = action_id action, saga_criterion_id = criterion_id criterion,
         saga_source = cae_source command, saga_artifact_uri = artifact_uri descriptor,
         saga_expected_digest = art_content_digest descriptor,
         saga_definition = \<lparr>def_source = obs_source observation,
           def_source_identity = obs_source_identity observation,
           def_source_reference = obs_reference observation,
           def_observed_state = obs_observed_state observation,
           def_captured_at = obs_captured_at observation, def_valid_until = obs_valid_until observation,
           def_retained_until = retained, def_classification = classification,
           def_size_bytes = length (obs_content observation), def_content_type = cae_content_type command,
           def_subject_refs = goal_subject_refs goal\<rparr>,
         saga_status = EC_PENDING, saga_failure_reason = None\<rparr>, descriptor, obs_content observation)))))))"

definition new_capture ::
  "application \<Rightarrow> EvidenceArtifactStore \<Rightarrow> readback \<Rightarrow> ambient \<Rightarrow> CommandContext \<Rightarrow> string
     \<Rightarrow> CaptureAuthoritativeEvidence \<Rightarrow> store \<Rightarrow> Evidence result \<times> store" where
  "new_capture app artifacts rb amb ctx key command s =
     (case prepare_capture app artifacts rb ctx command s of
        Inl e \<Rightarrow> (Inl e, s)
      | Inr (saga, descriptor, content) \<Rightarrow>
        andThen (transaction (start_evidence_capture saga) s) (\<lambda>_ s1.
        (case bindE (as_store artifacts descriptor content (cae_content_type command)) (\<lambda>stored.
              bindE (as_retrieve_verified artifacts stored) (\<lambda>_. Inr stored)) of
           Inl e \<Rightarrow> (Inl e, s1)
         | Inr stored \<Rightarrow> commit_evidence_capture amb ctx key saga stored s1)))"

definition capture_authoritative_evidence ::
  "application \<Rightarrow> ambient \<Rightarrow> CommandContext \<Rightarrow> CaptureAuthoritativeEvidence \<Rightarrow> store
     \<Rightarrow> Evidence result \<times> store" where
  "capture_authoritative_evidence app amb ctx command s =
     (let key = idem_key ''capture_authoritative_evidence'' ctx in
      case require_any ctx OPERATORS of
        Inl e \<Rightarrow> (Inl e, s)
      | Inr _ \<Rightarrow> (case (app_evidence_artifacts app, app_authoritative_readback app) of
          (Some artifacts, Some rb) \<Rightarrow>
            (case load_idempotency ctx key s of
               Inl e \<Rightarrow> (Inl e, s)
             | Inr (Some cached) \<Rightarrow> (get_evidence s (cc_tenant ctx) cached, s)
             | Inr None \<Rightarrow> (case get_evidence_capture s (cc_tenant ctx) (capture_id ctx) of
                 Inr pending \<Rightarrow> resume_capture artifacts amb ctx key pending s
               | Inl e \<Rightarrow> if is_LookupError e then new_capture app artifacts rb amb ctx key command s
                   else (Inl e, s)))
        | _ \<Rightarrow> (Inl (RuntimeError ''authoritative Evidence capture is not configured''), s)))"

subsection \<open>Evidence deletion\<close>

definition deletion_outcome :: "EvidenceDeletionRecord \<Rightarrow> ArtifactDeletionReceipt result \<Rightarrow> EvidenceDeletionRecord" where
  "deletion_outcome r receipt = (case receipt of
     Inl e \<Rightarrow> if is_PermissionError e
       then r\<lparr>del_status := ED_RETENTION_BLOCKED, del_failure_reason := Some (error_text e)\<rparr>
       else r\<lparr>del_status := ED_FAILED, del_failure_reason := Some (error_name e)\<rparr>
   | Inr rec \<Rightarrow> r\<lparr>del_status := ED_DELETED, del_deleted_at := Some (adr_deleted_at rec),
       del_provider_version_id := adr_provider_version_id rec, del_proof_digest := Some (adr_proof_digest rec)\<rparr>)"

definition record_deletion ::
  "ambient \<Rightarrow> CommandContext \<Rightarrow> nat \<Rightarrow> string \<Rightarrow> Evidence \<Rightarrow> EvidenceDeletionRecord \<Rightarrow> (store, unit) tx" where
  "record_deletion amb ctx n event item r =
     thenT (record_evidence_deletion r)
       (record_audit (audit ctx event (AI_Evidence item) (amb_ids amb n)) (amb_now amb))"

definition request_evidence_deletion ::
  "application \<Rightarrow> ambient \<Rightarrow> CommandContext \<Rightarrow> RequestEvidenceDeletion \<Rightarrow> store
     \<Rightarrow> EvidenceDeletionRecord result \<times> store" where
  "request_evidence_deletion app amb ctx command s =
     (case (case require_any ctx [''platform_admin'', ''tenant_admin''] of Inl e \<Rightarrow> Inl e | Inr _ \<Rightarrow>
        (case app_evidence_artifacts app of
           None \<Rightarrow> Inl (RuntimeError ''Evidence artifact deletion is not configured'')
         | Some artifacts \<Rightarrow>
             thenE (raise_if (blank (red_reason command)) (ValueError ''Evidence deletion reason must not be empty''))
            (bindE (get_evidence s (cc_tenant ctx) (red_evidence_id command)) (\<lambda>item. Inr (artifacts, item))))) of
        Inl e \<Rightarrow> (Inl e, s)
      | Inr (artifacts, item) \<Rightarrow>
        (let r = \<lparr>del_tenant_id = cc_tenant ctx, del_evidence_id = evidence_id item,
             del_artifact_uri = ev_reference item, del_requested_by = cc_actor ctx,
             del_reason = red_reason command, del_requested_at = Aware (amb_now amb),
             del_status = ED_REQUESTED, del_deleted_at = None, del_provider_version_id = None,
             del_proof_digest = None, del_failure_reason = None\<rparr> in
         andThen (transaction (record_deletion amb ctx 0 ''evidence.deletion_requested'' item r) s) (\<lambda>_ s1.
         let final = deletion_outcome r (as_delete artifacts (evidence_descriptor item)) in
         andThen (transaction (record_deletion amb ctx 1
             (''evidence.deletion_'' @ EvidenceDeletionStatus_value (del_status final)) item final) s1) (\<lambda>_ s2.
         (Inr final, s2)))))"

subsection \<open>Outcomes\<close>

definition verify_outcome ::
  "application \<Rightarrow> ambient \<Rightarrow> CommandContext \<Rightarrow> VerifyOutcome \<Rightarrow> store \<Rightarrow> Outcome result \<times> store" where
  "verify_outcome app amb ctx command s = (let key = idem_key ''verify_outcome'' ctx in
     case app_outcome_verifier app of
       None \<Rightarrow> (Inl (case require_any ctx OPERATORS of Inl e \<Rightarrow> e
           | Inr _ \<Rightarrow> RuntimeError ''trusted Outcome verification is not configured''), s)
     | Some verifier \<Rightarrow> use_case (require_any ctx OPERATORS)
      (replay_or ctx key (\<lambda>s i. get_outcome s (cc_tenant ctx) i)
        (bindT (readT (\<lambda>s. get_run s (cc_tenant ctx) (vo_run_id command))) (\<lambda>run.
         bindT (readT (\<lambda>s. get_goal s (cc_tenant ctx) (run_goal_id run))) (\<lambda>goal.
         bindT (liftT (case find (\<lambda>item. criterion_id item = vo_criterion_id command) (goal_success_criteria goal) of
             None \<Rightarrow> Inl (ValueError ''Outcome criterion is not part of the Goal contract'')
           | Some c \<Rightarrow> Inr c)) (\<lambda>criterion.
         bindT (readT (\<lambda>s. mapE (get_evidence s (cc_tenant ctx)) (vo_evidence_ids command))) (\<lambda>items.
         thenT (checkT (list_ex (\<lambda>item. ev_run_id item \<noteq> run_id run) items)
            (ValueError ''Outcome Evidence must belong to the verified Run''))
        (bindT (liftT (verify verifier (cc_tenant ctx) (goal_subject_refs goal) criterion items (amb_now amb))) (\<lambda>decision.
         bindT (liftT (Outcome_post_init
             \<lparr>out_tenant_id = cc_tenant ctx, out_goal_id = goal_id goal, out_run_id = run_id run,
              out_criterion_id = vo_criterion_id command,
              out_verifier_version = ovd_verifier_version decision, out_status = ovd_status decision,
              out_evidence = items, outcome_id = amb_ids amb 0,
              out_verified_at = Some (ovd_verified_at decision)\<rparr>)) (\<lambda>outcome.
         thenT (add_outcome outcome)
        (thenT (record_audit (audit ctx ''outcome.verified'' (AI_Outcome outcome) (amb_ids amb 1)) (amb_now amb))
           (remember_return ctx key (outcome_id outcome) outcome))))))))))) s)"

subsection \<open>The end of a run\<close>

definition required_criteria :: "GoalContract \<Rightarrow> string list" where
  "required_criteria goal = map criterion_id (goal_success_criteria goal)"

definition verified_criteria :: "Outcome list \<Rightarrow> string list" where
  "verified_criteria os = map out_criterion_id (filter (\<lambda>item. out_status item = O_VERIFIED) os)"

definition completion_target :: "GoalContract \<Rightarrow> Outcome list \<Rightarrow> RunStatus \<times> string" where
  "completion_target goal os =
     (if set (required_criteria goal) \<subseteq> set (verified_criteria os)
      then (R_SUCCEEDED, ''all required Outcomes verified'')
      else if set (required_criteria goal) \<subseteq> set (map out_criterion_id os)
          \<and> list_ex (\<lambda>item. out_status item = O_NOT_MET) os
      then (R_FAILED, ''one or more required Outcomes were not met'')
      else (R_AWAITING_EVIDENCE, ''required Outcomes remain unverified''))"

definition complete_run :: "ambient \<Rightarrow> CommandContext \<Rightarrow> CompleteRun \<Rightarrow> store \<Rightarrow> Run result \<times> store" where
  "complete_run amb ctx command = (let key = idem_key ''complete_run'' ctx in
     use_case (require_any ctx OPERATORS)
      (bindT (cached_run ctx key (cr_run_id command)) (\<lambda>run.
       if run_status run \<in> {R_SUCCEEDED, R_FAILED} then remember_return ctx key (run_id run) run
       else thenT (checkT (run_status run \<notin> {R_RUNNING, R_AWAITING_EVIDENCE})
            (ValueError ''Run is not ready for completion evaluation''))
        (bindT (readT (\<lambda>s. get_goal s (cc_tenant ctx) (run_goal_id run))) (\<lambda>goal.
         bindT (readT (\<lambda>s. Inr (list_tasks s (cc_tenant ctx) (run_id run),
             list_actions s (cc_tenant ctx) (run_id run), list_outcomes s (cc_tenant ctx) (run_id run))))
          (\<lambda>(ts, as, os).
         thenT (checkT (list_ex (\<lambda>t. task_status t \<noteq> T_SUCCEEDED) ts
             \<or> list_ex (\<lambda>a. action_status a \<noteq> A_SUCCEEDED) as)
            (ValueError ''Run tasks and Actions must succeed before completion''))
        (let (target, reason) = completion_target goal os in
         if run_status run = target then remember_return ctx key (run_id run) run
         else bindT (liftT (Run_transition_to run target (cc_actor ctx) reason (Aware (amb_now amb)))) (\<lambda>updated.
           thenT (save_run updated (run_optimistic_version run)
               (Some (audit ctx (''run.'' @ RunStatus_value target) (AI_Run updated) (amb_ids amb 0))) (amb_now amb))
             (remember_return ctx key (run_id updated) updated)))))))))"

definition transition_run ::
  "ambient \<Rightarrow> CommandContext \<Rightarrow> string list \<Rightarrow> RunDecision \<Rightarrow> RunStatus \<Rightarrow> string \<Rightarrow> store \<Rightarrow> Run result \<times> store" where
  "transition_run amb ctx allowed command target operation = (let key = idem_key operation ctx in
     use_case (thenE (require_any ctx allowed)
        (raise_if (blank (rdc_reason command)) (ValueError ''Run transition requires a reason'')))
      (bindT (cached_run ctx key (rdc_run_id command)) (\<lambda>run.
       if run_status run = target then remember_return ctx key (run_id run) run
       else bindT (liftT (Run_transition_to run target (cc_actor ctx) (rdc_reason command)
           (Aware (amb_now amb)))) (\<lambda>updated.
         thenT (save_run updated (run_optimistic_version run)
             (Some (audit ctx (''run.'' @ RunStatus_value target) (AI_Run updated) (amb_ids amb 0))) (amb_now amb))
           (remember_return ctx key (run_id updated) updated)))))"

definition cancel_run :: "ambient \<Rightarrow> CommandContext \<Rightarrow> RunDecision \<Rightarrow> store \<Rightarrow> Run result \<times> store" where
  "cancel_run amb ctx command = transition_run amb ctx OPERATORS command R_CANCELLED ''cancel_run''"

definition fail_run :: "ambient \<Rightarrow> CommandContext \<Rightarrow> RunDecision \<Rightarrow> store \<Rightarrow> Run result \<times> store" where
  "fail_run amb ctx command = transition_run amb ctx OPERATORS command R_FAILED ''fail_run''"

definition take_over_run :: "ambient \<Rightarrow> CommandContext \<Rightarrow> RunDecision \<Rightarrow> store \<Rightarrow> Run result \<times> store" where
  "take_over_run amb ctx command =
     transition_run amb ctx [''platform_admin'', ''tenant_admin'', ''operator''] command R_BLOCKED ''take_over_run''"

subsection \<open>The end of a goal\<close>

definition goal_verdict :: "GoalContract \<Rightarrow> SatisfyOrFailGoal \<Rightarrow> uuid \<Rightarrow> store \<Rightarrow> GoalStatus result" where
  "goal_verdict goal command tenant s = (let rs = list_runs s tenant (Some (goal_id goal)) in
     if sfg_satisfied command then
       (let succeeded = filter (\<lambda>r. run_status r = R_SUCCEEDED) rs in
        thenE (raise_if (succeeded = []) (ValueError ''Goal satisfaction requires a succeeded Run''))
       (thenE (raise_if (\<not> list_ex (\<lambda>r. set (required_criteria goal)
              \<subseteq> set (verified_criteria (list_outcomes s tenant (run_id r)))) succeeded)
           (ValueError ''Goal satisfaction requires all required Outcomes''))
          (Inr G_SATISFIED)))
     else thenE (raise_if (rs = [] \<or> list_ex run_is_active rs)
         (ValueError ''Goal failure requires all Runs to be terminal''))
        (Inr G_FAILED))"

definition satisfy_or_fail_goal ::
  "ambient \<Rightarrow> CommandContext \<Rightarrow> SatisfyOrFailGoal \<Rightarrow> store \<Rightarrow> GoalContract result \<times> store" where
  "satisfy_or_fail_goal amb ctx command = (let key = idem_key ''finish_goal'' ctx in
     use_case (thenE (require_any ctx OPERATORS)
        (raise_if (blank (sfg_reason command)) (ValueError ''Goal terminal decision requires a reason'')))
      (bindT (cached_goal ctx key (sfg_goal_id command)) (\<lambda>goal.
       if goal_status goal \<in> {G_SATISFIED, G_FAILED} then remember_return ctx key (goal_id goal) goal
       else bindT (readT (goal_verdict goal command (cc_tenant ctx))) (\<lambda>target.
         bindT (liftT (GoalContract_transition_to goal target (cc_actor ctx) (sfg_reason command)
             (Aware (amb_now amb)))) (\<lambda>updated.
         thenT (save_goal updated (goal_version goal)
             (audit ctx (''goal.'' @ GoalStatus_value target) (AI_Goal updated) (amb_ids amb 0)) (amb_now amb))
           (remember_return ctx key (goal_id updated) updated))))))"

end
