(* ===== verification/Invariants.thy ===== *)
theory Invariants
  imports Application_Outcomes
begin

text \<open>
  Which use cases keep which invariants. The locales say what an invariant has to survive: the writes
  of the repository. Inside them every use case of the application is shown, once, to keep such an
  invariant; the interpretations are the audit chains, the idempotency bindings and the tables a group
  of use cases never writes.
\<close>

subsection \<open>Composed steps\<close>

lemma keeps_prod [keeps_intros]: "(\<And>x y. keeps P (f x y)) \<Longrightarrow> keeps P (case p of (x, y) \<Rightarrow> f x y)"
  by (cases p) simp

lemma keeps_Let [keeps_intros]: "(\<And>x. keeps P (f x)) \<Longrightarrow> keeps P (Let v f)"
  by (simp add: Let_def)

lemma keeps_replay_or [keeps_intros]: "keeps P k \<Longrightarrow> keeps P (replay_or ctx key getter k)"
  unfolding replay_or_def by (intro keeps_intros)

lemma keeps_cached_or [keeps_intros]: "(\<And>i. keeps P (k i)) \<Longrightarrow> keeps P (cached_or ctx key requested k)"
  unfolding cached_or_def by (intro keeps_intros)

lemma keeps_cached [keeps_intros]:
  "keeps P (cached_goal ctx key i)" "keeps P (cached_run ctx key i)" "keeps P (cached_task ctx key i)"
  unfolding cached_goal_def cached_run_def cached_task_def by (intro keeps_intros)+

lemma use_case_keeps: "keeps P m \<Longrightarrow> P s \<Longrightarrow> P (snd (use_case guard m s))"
  by (auto simp: use_case_def keeps_transaction split: sum.splits)

lemma use_case_Inr:
  "use_case guard m s = (Inr x, s') \<longleftrightarrow> guard = Inr () \<and> m s = Inr (x, s')"
  by (auto simp: use_case_def transaction_Inr split: sum.splits)

lemma use_case_Inl: "use_case guard m s = (Inl e, s') \<Longrightarrow> s' = s"
  by (auto simp: use_case_def transaction_Inl split: sum.splits)

lemma use_case_state: "use_case guard m s = (r, s') \<Longrightarrow> s' = s \<or> (\<exists>x. m s = Inr (x, s'))"
  by (cases r) (auto simp: use_case_Inr dest: use_case_Inl)

lemma andThen_keeps:
  "P (snd r) \<Longrightarrow> (\<And>x s. P s \<Longrightarrow> P (snd (k x s))) \<Longrightarrow> P (snd (andThen r k))"
  by (auto simp: andThen_def split: prod.splits sum.splits)

subsection \<open>Writes outside the goal, run, outcome and evidence tables\<close>

lemma lift_store_keeps: "P (snd r) \<Longrightarrow> P (w_store (snd (lift_store r w)))"
  by (simp add: lift_store_def)

locale base_invariant =
  fixes P :: "store \<Rightarrow> bool"
  assumes audit_kept: "keeps P (record_audit a now)"
    and idempotency_kept: "keeps P (put_idempotency t key i (Some d))"
    and snapshot_kept: "keeps P (add_context_snapshot c)"
    and task_kept: "keeps P (save_task k v)"
    and new_action_kept: "keeps P (add_action x)"
    and action_kept: "keeps P (save_action x v)"
    and attempt_kept: "keeps P (add_action_attempt att)"
    and new_approval_kept: "keeps P (add_approval p)"
    and approval_kept: "keeps P (save_approval p v)"
    and capture_kept: "keeps P (start_evidence_capture saga)"
    and committed_kept: "keeps P (complete_evidence_capture t i)"
    and deletion_kept: "keeps P (record_evidence_deletion del)"
begin

lemmas writes = audit_kept snapshot_kept task_kept new_action_kept action_kept attempt_kept
  new_approval_kept approval_kept capture_kept committed_kept deletion_kept

lemma remember_kept: "keeps P (remember ctx key i)" "keeps P (remember_return ctx key i x)"
  unfolding remember_return_def remember_def by (intro keeps_intros idempotency_kept)+

lemma prepare_run_context_keeps: "P s \<Longrightarrow> P (snd (prepare_run_context amb ctx c s))"
  unfolding prepare_run_context_def Let_def
  by (erule use_case_keeps [rotated]) (intro keeps_intros writes remember_kept)

lemma start_task_keeps: "P s \<Longrightarrow> P (snd (start_task amb ctx c s))"
  unfolding start_task_def Let_def
  by (erule use_case_keeps [rotated]) (intro keeps_intros writes remember_kept)

lemma complete_task_keeps: "P s \<Longrightarrow> P (snd (complete_task amb ctx c s))"
  unfolding complete_task_def Let_def
  by (erule use_case_keeps [rotated]) (intro keeps_intros writes remember_kept)

lemma propose_action_keeps: "P s \<Longrightarrow> P (snd (propose_action amb ctx c s))"
  unfolding propose_action_def Let_def
  by (erule use_case_keeps [rotated]) (intro keeps_intros writes remember_kept)

lemma request_approval_keeps: "P s \<Longrightarrow> P (snd (request_approval amb ctx c s))"
  unfolding request_approval_def Let_def
  by (erule use_case_keeps [rotated]) (intro keeps_intros writes remember_kept)

lemma decide_approval_keeps: "P s \<Longrightarrow> P (snd (decide_approval amb ctx c s))"
  unfolding decide_approval_def Let_def
  by (erule use_case_keeps [rotated]) (intro keeps_intros writes remember_kept)

lemma authorize_kept:
  "keeps P (authorize_denied amb ctx key x reason)" "keeps P (authorize_allowed amb ctx key c cached x)"
  unfolding authorize_denied_def authorize_allowed_def by (intro keeps_intros writes remember_kept)+

lemma authorize_action_keeps: "P s \<Longrightarrow> P (snd (authorize_action_at_execution_time app amb ctx c s))"
  unfolding authorize_action_at_execution_time_def Let_def
  by (rule andThen_keeps [where P = P], erule use_case_keeps [rotated], intro keeps_intros authorize_kept)
    (simp split: sum.split)

lemma load_execution_kept: "keeps P (load_execution ctx key c)"
  unfolding load_execution_def by (intro keeps_intros)

lemma record_action_attempt_keeps: "P s \<Longrightarrow> P (snd (record_action_attempt amb ctx c s))"
  unfolding record_action_attempt_def Let_def
  by (erule use_case_keeps [rotated]) (intro keeps_intros writes remember_kept)

lemma reconcile_unknown_action_keeps: "P s \<Longrightarrow> P (snd (reconcile_unknown_action amb ctx c s))"
  unfolding reconcile_unknown_action_def Let_def
  by (erule use_case_keeps [rotated]) (intro keeps_intros writes remember_kept)

lemma record_deletion_kept: "keeps P (record_deletion amb ctx n event x r)"
  unfolding record_deletion_def by (intro keeps_intros writes)

lemma request_evidence_deletion_keeps: "P s \<Longrightarrow> P (snd (request_evidence_deletion app amb ctx c s))"
  unfolding request_evidence_deletion_def Let_def
  by (simp split: sum.split prod.split, intro allI impI andThen_keeps [where P = P])
    (simp_all add: keeps_transaction record_deletion_kept)

end

subsection \<open>Evidence as well\<close>

locale action_invariant = base_invariant +
  assumes evidence_kept: "keeps P (add_evidence ev)"
begin

lemma record_execution_kept: "keeps P (record_execution amb ctx key x r att ev)"
  unfolding record_execution_def by (intro keeps_intros evidence_kept writes remember_kept)

lemma record_evidence_keeps: "P s \<Longrightarrow> P (snd (record_evidence amb ctx c s))"
  unfolding record_evidence_def Let_def
  by (erule use_case_keeps [rotated]) (intro keeps_intros evidence_kept writes remember_kept)

lemma commit_keeps: "P s \<Longrightarrow> P (snd (commit_evidence_capture amb ctx key saga stored s))"
  unfolding commit_evidence_capture_def
  by (auto split: sum.splits intro!: keeps_transaction keeps_intros evidence_kept writes remember_kept)

lemma resume_keeps: "P s \<Longrightarrow> P (snd (resume_capture artifacts amb ctx key pending s))"
  unfolding resume_capture_def Let_def by (auto split: sum.splits intro: commit_keeps)

lemma new_capture_keeps: "P s \<Longrightarrow> P (snd (new_capture app artifacts rb amb ctx key c s))"
  unfolding new_capture_def
  by (simp split: sum.split prod.split, intro allI impI andThen_keeps [where P = P])
    (simp_all add: keeps_transaction writes commit_keeps split: sum.split)

lemma capture_keeps: "P s \<Longrightarrow> P (snd (capture_authoritative_evidence app amb ctx c s))"
  unfolding capture_authoritative_evidence_def Let_def
  by (auto split: sum.splits option.splits intro: resume_keeps new_capture_keeps)

lemma execute_governed_action_keeps: "P (w_store w) \<Longrightarrow> P (w_store (snd (execute_governed_action app amb ctx c w)))"
  unfolding execute_governed_action_def Let_def
  by (simp split: option.split, intro allI impI andThen_keeps [where P = "\<lambda>w. P (w_store w)"])
    (simp_all add: lift_store_keeps use_case_keeps load_execution_kept keeps_transaction
      record_execution_kept split: option.split sum.split prod.split)

end

subsection \<open>Goals, runs, plans and outcomes as well\<close>

locale core_invariant = base_invariant +
  assumes new_goal_kept: "keeps P (add_goal g a now)"
    and goal_kept: "keeps P (save_goal g v a now)"
    and new_run_kept: "keeps P (add_run r a now)"
    and run_kept: "keeps P (save_run r v oa now)"
    and plan_kept: "keeps P (add_plan pl)"
    and outcome_kept: "keeps P (add_outcome x)"
begin

lemmas core_writes = writes new_goal_kept goal_kept new_run_kept run_kept plan_kept outcome_kept

lemma create_goal_keeps: "P s \<Longrightarrow> P (snd (create_goal app amb ctx c s))"
  unfolding create_goal_def Let_def
  by (erule use_case_keeps [rotated]) (intro keeps_intros core_writes remember_kept)

lemma activate_goal_keeps: "P s \<Longrightarrow> P (snd (activate_goal amb ctx c s))"
  unfolding activate_goal_def Let_def
  by (erule use_case_keeps [rotated]) (intro keeps_intros core_writes remember_kept)

lemma request_run_keeps: "P s \<Longrightarrow> P (snd (request_run app amb ctx c s))"
  unfolding request_run_def Let_def
  by (erule use_case_keeps [rotated]) (intro keeps_intros core_writes remember_kept)

lemma create_validated_plan_keeps: "P s \<Longrightarrow> P (snd (create_validated_plan amb ctx c s))"
  unfolding create_validated_plan_def Let_def
  by (erule use_case_keeps [rotated]) (intro keeps_intros core_writes remember_kept)

lemma verify_outcome_keeps: "P s \<Longrightarrow> P (snd (verify_outcome app amb ctx c s))"
  unfolding verify_outcome_def Let_def
  by (simp split: option.split, intro allI impI, erule use_case_keeps [rotated])
    (intro keeps_intros core_writes remember_kept)

lemma complete_run_keeps: "P s \<Longrightarrow> P (snd (complete_run amb ctx c s))"
  unfolding complete_run_def Let_def
  by (erule use_case_keeps [rotated]) (intro keeps_intros core_writes remember_kept)

lemma transition_run_keeps: "P s \<Longrightarrow> P (snd (transition_run amb ctx allowed c target operation s))"
  unfolding transition_run_def Let_def
  by (erule use_case_keeps [rotated]) (intro keeps_intros core_writes remember_kept)

lemma satisfy_or_fail_goal_keeps: "P s \<Longrightarrow> P (snd (satisfy_or_fail_goal amb ctx c s))"
  unfolding satisfy_or_fail_goal_def Let_def
  by (erule use_case_keeps [rotated]) (intro keeps_intros core_writes remember_kept)

end

text \<open>An invariant of every write survives every use case.\<close>

locale store_invariant = action_invariant + core_invariant

subsection \<open>Audit chains\<close>

interpretation audit_inv: store_invariant audit_ok
  by unfold_locales (intro keeps_intros)+

subsection \<open>Idempotency bindings\<close>

text \<open>A bound key stays bound to the same result and request.\<close>

definition bound_to :: "uuid \<Rightarrow> string \<Rightarrow> uuid \<Rightarrow> string \<Rightarrow> store \<Rightarrow> bool" where
  "bound_to t key i d s = (d \<noteq> [] \<and> map_of (idempotency s) (t, key) = Some i
     \<and> map_of (idempotency_digests s) (t, key) = Some d)"

definition idem_tables :: "store \<Rightarrow> ((uuid \<times> string) \<times> uuid) list \<times> ((uuid \<times> string) \<times> string) list" where
  "idem_tables s = (idempotency s, idempotency_digests s)"

lemma bound_to_tables: "idem_tables s' = idem_tables s \<Longrightarrow> bound_to t key i d s \<Longrightarrow> bound_to t key i d s'"
  by (simp add: idem_tables_def bound_to_def)

lemma keeps_modify_bound [keeps_intros]:
  "(\<And>s. idem_tables (f s) = idem_tables s) \<Longrightarrow> keeps (bound_to t key i d) (modifyT f)"
  by (auto intro!: keeps_modifyT intro: bound_to_tables)

lemma idem_tables_put_task [simp]:
  "idem_tables (put_task k s) = idem_tables s" "idem_tables (fold put_task ts s) = idem_tables s"
  by (simp add: put_task_def idem_tables_def)
    (induction ts arbitrary: s, simp_all add: put_task_def idem_tables_def)

lemma idem_tables_frame [simp]:
  "idem_tables (s\<lparr>goals := gs\<rparr>) = idem_tables s" "idem_tables (s\<lparr>runs := rs\<rparr>) = idem_tables s"
  "idem_tables (s\<lparr>context_snapshots := cs\<rparr>) = idem_tables s" "idem_tables (s\<lparr>plans := ps\<rparr>) = idem_tables s"
  "idem_tables (s\<lparr>actions := acts\<rparr>) = idem_tables s" "idem_tables (s\<lparr>action_attempts := ats\<rparr>) = idem_tables s"
  "idem_tables (s\<lparr>approvals := aps\<rparr>) = idem_tables s" "idem_tables (s\<lparr>evidence := evs\<rparr>) = idem_tables s"
  "idem_tables (s\<lparr>evidence_capture_sagas := sgs\<rparr>) = idem_tables s"
  "idem_tables (s\<lparr>evidence_deletions := dls\<rparr>) = idem_tables s" "idem_tables (s\<lparr>outcomes := os\<rparr>) = idem_tables s"
  by (simp_all add: idem_tables_def)

lemma bound_record_audit [keeps_intros]: "keeps (bound_to t key i d) (record_audit a now)"
  by (auto intro!: keepsI simp: record_audit_Inr bound_to_def)

lemma bound_put_idempotency [keeps_intros]:
  "keeps (bound_to t key i d) (put_idempotency t' key' i' (Some d'))"
  by (auto intro!: keepsI simp: put_idempotency_def tx_simps bound_to_def split: option.splits if_splits)

lemma bound_saga [keeps_intros]: "keeps (bound_to t key i d) (start_evidence_capture saga)"
  by (auto intro!: keepsI simp: start_evidence_capture_def bound_to_def split: option.splits if_splits)

lemmas table_writes = add_goal_def save_goal_def add_run_def save_run_def add_context_snapshot_def
  add_plan_def save_task_def add_action_def save_action_def add_action_attempt_def add_approval_def
  save_approval_def add_evidence_def complete_evidence_capture_def record_evidence_deletion_def
  add_outcome_def

interpretation idem_inv: store_invariant "bound_to t key i d"
  unfolding store_invariant_def action_invariant_def action_invariant_axioms_def core_invariant_def
    core_invariant_axioms_def base_invariant_def table_writes
  by (intro conjI allI keeps_intros; simp)

subsection \<open>Use cases that never write goals, runs or outcomes\<close>

type_synonym core_tables = "(uuid \<times> GoalContract) list \<times> (uuid \<times> Run) list \<times> (uuid \<times> Outcome) list"

definition core :: "store \<Rightarrow> core_tables" where
  "core s = (goals s, runs s, outcomes s)"

lemma core_frame [simp]:
  "core (s\<lparr>context_snapshots := cs\<rparr>) = core s" "core (s\<lparr>plans := ps\<rparr>) = core s"
  "core (s\<lparr>actions := acts\<rparr>) = core s" "core (s\<lparr>action_attempts := ats\<rparr>) = core s"
  "core (s\<lparr>approvals := aps\<rparr>) = core s" "core (s\<lparr>evidence := evs\<rparr>) = core s"
  "core (s\<lparr>evidence_capture_sagas := sgs\<rparr>) = core s" "core (s\<lparr>evidence_deletions := dls\<rparr>) = core s"
  "core (s\<lparr>audits := aus\<rparr>) = core s" "core (s\<lparr>tasks := ts\<rparr>) = core s"
  "core (s\<lparr>idempotency := ids, idempotency_digests := dgs\<rparr>) = core s"
  "core (put_task k s) = core s"
  by (simp_all add: core_def put_task_def)

lemma keeps_modify_core [keeps_intros]: "(\<And>s. core (f s) = core s) \<Longrightarrow> keeps (\<lambda>s. core s = c) (modifyT f)"
  by (auto intro!: keeps_modifyT)

lemma core_record_audit [keeps_intros]: "keeps (\<lambda>s. core s = c) (record_audit a now)"
  by (auto intro!: keepsI simp: record_audit_Inr)

lemma core_saga [keeps_intros]: "keeps (\<lambda>s. core s = c) (start_evidence_capture saga)"
  by (auto intro!: keepsI simp: start_evidence_capture_def split: option.splits if_splits)

interpretation core_inv: action_invariant "\<lambda>s. core s = c"
  unfolding action_invariant_def action_invariant_axioms_def base_invariant_def table_writes put_idempotency_def
  by (intro conjI allI keeps_intros; simp)

subsection \<open>Integrity-verified evidence\<close>

text \<open>
  Evidence counts as integrity-verified only when it was captured by authoritative readback, in the
  evidence table and in the outcomes that quote it.
\<close>

definition authoritative :: "Evidence \<Rightarrow> bool" where
  "authoritative e = (ev_integrity e = EI_VERIFIED \<longrightarrow> ev_capture_method e = AUTHORITATIVE_READBACK)"

definition evidence_ok :: "store \<Rightarrow> bool" where
  "evidence_ok s = ((\<forall>e\<in>set (dict_values (evidence s)). authoritative e)
     \<and> (\<forall>x\<in>set (dict_values (outcomes s)). \<forall>e\<in>set (out_evidence x). authoritative e))"

definition evidence_tables :: "store \<Rightarrow> (uuid \<times> Evidence) list \<times> (uuid \<times> Outcome) list" where
  "evidence_tables s = (evidence s, outcomes s)"

lemma evidence_tables_frame [simp]:
  "evidence_tables (s\<lparr>goals := gs\<rparr>) = evidence_tables s" "evidence_tables (s\<lparr>runs := rs\<rparr>) = evidence_tables s"
  "evidence_tables (s\<lparr>context_snapshots := cs\<rparr>) = evidence_tables s" "evidence_tables (s\<lparr>plans := ps\<rparr>) = evidence_tables s"
  "evidence_tables (s\<lparr>actions := acts\<rparr>) = evidence_tables s" "evidence_tables (s\<lparr>action_attempts := ats\<rparr>) = evidence_tables s"
  "evidence_tables (s\<lparr>approvals := aps\<rparr>) = evidence_tables s" "evidence_tables (s\<lparr>evidence_capture_sagas := sgs\<rparr>) = evidence_tables s"
  "evidence_tables (s\<lparr>evidence_deletions := dls\<rparr>) = evidence_tables s" "evidence_tables (s\<lparr>audits := aus\<rparr>) = evidence_tables s"
  "evidence_tables (s\<lparr>idempotency := ids, idempotency_digests := dgs\<rparr>) = evidence_tables s"
  "evidence_tables (put_task k s) = evidence_tables s" "evidence_tables (s\<lparr>memories := ms\<rparr>) = evidence_tables s"
  "evidence_tables (s\<lparr>agents := ags\<rparr>) = evidence_tables s"
  by (simp_all add: evidence_tables_def put_task_def)

lemma evidence_tables_put_tasks [simp]: "evidence_tables (fold put_task ts s) = evidence_tables s"
  by (induction ts arbitrary: s) simp_all

lemma evidence_ok_tables: "evidence_tables s' = evidence_tables s \<Longrightarrow> evidence_ok s \<Longrightarrow> evidence_ok s'"
  by (simp add: evidence_ok_def evidence_tables_def)

lemma keeps_modify_evidence [keeps_intros]:
  "(\<And>s. evidence_tables (f s) = evidence_tables s) \<Longrightarrow> keeps evidence_ok (modifyT f)"
  by (blast intro: keeps_modifyT evidence_ok_tables)

lemma evidence_record_audit [keeps_intros]: "keeps evidence_ok (record_audit a now)"
  by (auto intro!: keepsI simp: record_audit_Inr elim!: evidence_ok_tables [rotated])

lemma evidence_saga [keeps_intros]: "keeps evidence_ok (start_evidence_capture saga)"
  by (auto intro!: keepsI simp: start_evidence_capture_def elim!: evidence_ok_tables [rotated]
      split: option.splits if_splits)

lemma dict_values_update: "set (dict_values (AList.update k v d)) \<subseteq> insert v (set (dict_values d))"
  by (induction d) (auto simp: dict_values_def)

lemma map_of_dict_values: "map_of d k = Some v \<Longrightarrow> v \<in> set (dict_values d)"
  by (force simp: dict_values_def dest: map_of_SomeD)

lemma evidence_add_outcome [keeps_intros]: "keeps evidence_ok (add_outcome x)"
proof (rule keepsI)
  fix s u s' assume ok: "evidence_ok s" and step: "add_outcome x s = Inr (u, s')"
  from step have items: "\<forall>e\<in>set (out_evidence x). map_of (evidence s) (evidence_id e) = Some e"
      and s': "s' = s\<lparr>outcomes := AList.update (outcome_id x) x (outcomes s)\<rparr>"
    by (auto simp: add_outcome_def tx_simps result_simps get_defs table_simps)
  from items ok have "\<forall>e\<in>set (out_evidence x). authoritative e"
    by (auto simp: evidence_ok_def dest!: map_of_dict_values)
  with ok dict_values_update [of "outcome_id x" x "outcomes s"] show "evidence_ok s'"
    by (auto simp: evidence_ok_def s')
qed

lemma add_evidence_keeps: "authoritative e \<Longrightarrow> keeps evidence_ok (add_evidence e)"
proof (rule keepsI)
  fix s u s' assume e: "authoritative e" and ok: "evidence_ok s" and step: "add_evidence e s = Inr (u, s')"
  from step have "s' = s\<lparr>evidence := AList.update (evidence_id e) e (evidence s)\<rparr>"
    by (auto simp: add_evidence_def tx_simps split: if_splits)
  with e ok dict_values_update [of "evidence_id e" e "evidence s"] show "evidence_ok s'"
    by (auto simp: evidence_ok_def)
qed

interpretation evidence_inv: core_invariant evidence_ok
  unfolding core_invariant_def core_invariant_axioms_def base_invariant_def
    add_goal_def save_goal_def add_run_def save_run_def add_context_snapshot_def add_plan_def save_task_def
    add_action_def save_action_def add_action_attempt_def add_approval_def save_approval_def
    complete_evidence_capture_def record_evidence_deletion_def put_idempotency_def
  by (intro conjI allI keeps_intros; simp)

end
