(* ===== verification/Goal_Machine.thy ===== *)
theory Goal_Machine
  imports Invariants
begin

text \<open>
  An abstract specification of the life of goals, runs and outcomes: the moves the platform promises
  to make on the three tables, and the invariant those moves keep. The refinement in
  \<open>Execution\<close> shows that every use case of the application makes one of these moves or leaves
  the tables alone.
\<close>

subsection \<open>What the tables say\<close>

text \<open>Every success criterion of the goal has a verified outcome of the run.\<close>

definition verified_for :: "(uuid \<times> Outcome) list \<Rightarrow> GoalContract \<Rightarrow> Run \<Rightarrow> bool" where
  "verified_for os g r = (\<forall>c\<in>set (required_criteria g). \<exists>x\<in>set (dict_values os).
     out_tenant_id x = run_tenant_id r \<and> out_run_id x = run_id r \<and> out_criterion_id x = c
     \<and> out_status x = O_VERIFIED)"

definition goal_run :: "GoalContract \<Rightarrow> Run \<Rightarrow> bool" where
  "goal_run g r = (run_tenant_id r = goal_tenant_id g \<and> run_goal_id r = goal_id g)"

definition active_run_count :: "(uuid \<times> Run) list \<Rightarrow> GoalContract \<Rightarrow> nat" where
  "active_run_count rs g = length (filter (\<lambda>r. goal_run g r \<and> run_is_active r) (dict_values rs))"

text \<open>The fields of a goal and of a run that no transition changes.\<close>

definition same_goal :: "GoalContract \<Rightarrow> GoalContract \<Rightarrow> bool" where
  "same_goal g g' = (goal_id g' = goal_id g \<and> goal_tenant_id g' = goal_tenant_id g
     \<and> goal_success_criteria g' = goal_success_criteria g
     \<and> goal_max_concurrent_runs g' = goal_max_concurrent_runs g)"

definition same_run :: "Run \<Rightarrow> Run \<Rightarrow> bool" where
  "same_run r r' = (run_id r' = run_id r \<and> run_tenant_id r' = run_tenant_id r \<and> run_goal_id r' = run_goal_id r)"

subsection \<open>Moves\<close>

inductive core_step :: "core_tables \<Rightarrow> core_tables \<Rightarrow> bool" where
  new_goal: "map_of G (goal_id g) = None \<Longrightarrow> goal_valid g \<Longrightarrow> goal_status g = G_DRAFT \<Longrightarrow>
     core_step (G, R, U) (AList.update (goal_id g) g G, R, U)"
| move_goal: "map_of G (goal_id g) = Some g \<Longrightarrow> same_goal g g' \<Longrightarrow> goal_valid g' \<Longrightarrow>
     (goal_status g' = G_SATISFIED \<Longrightarrow> \<exists>r\<in>set (dict_values R). goal_run g r \<and> run_status r = R_SUCCEEDED
        \<and> verified_for U g r) \<Longrightarrow>
     core_step (G, R, U) (AList.update (goal_id g) g' G, R, U)"
| new_run: "map_of R (run_id r) = None \<Longrightarrow> run_status r = R_PENDING \<Longrightarrow> map_of G (goal_id g) = Some g \<Longrightarrow>
     goal_status g = G_ACTIVE \<Longrightarrow> goal_run g r \<Longrightarrow> int (active_run_count R g) < goal_max_concurrent_runs g \<Longrightarrow>
     core_step (G, R, U) (G, AList.update (run_id r) r R, U)"
| move_run: "map_of R (run_id r) = Some r \<Longrightarrow> same_run r r' \<Longrightarrow> run_is_active r \<Longrightarrow>
     (run_status r' = R_SUCCEEDED \<Longrightarrow> \<exists>g. map_of G (goal_id g) = Some g \<and> goal_run g r \<and> verified_for U g r) \<Longrightarrow>
     core_step (G, R, U) (G, AList.update (run_id r) r' R, U)"
| new_outcome: "map_of U (outcome_id x) = None \<Longrightarrow> outcome_valid x \<Longrightarrow>
     core_step (G, R, U) (G, R, AList.update (outcome_id x) x U)"

inductive_cases core_stepE: "core_step c c'"

subsection \<open>The invariant\<close>

definition tables_keyed :: "core_tables \<Rightarrow> bool" where
  "tables_keyed = (\<lambda>(G, R, U). keyed goal_id G \<and> keyed run_id R \<and> keyed outcome_id U)"

definition contents_ok :: "core_tables \<Rightarrow> bool" where
  "contents_ok = (\<lambda>(G, R, U). (\<forall>g\<in>set (dict_values G). goal_valid g) \<and> (\<forall>x\<in>set (dict_values U). outcome_valid x)
     \<and> (\<forall>r\<in>set (dict_values R). \<exists>g. map_of G (goal_id g) = Some g \<and> goal_run g r))"

definition succeeded_ok :: "core_tables \<Rightarrow> bool" where
  "succeeded_ok = (\<lambda>(G, R, U). \<forall>r\<in>set (dict_values R). run_status r = R_SUCCEEDED \<longrightarrow>
     (\<exists>g. map_of G (goal_id g) = Some g \<and> goal_run g r \<and> verified_for U g r))"

definition satisfied_ok :: "core_tables \<Rightarrow> bool" where
  "satisfied_ok = (\<lambda>(G, R, U). \<forall>g\<in>set (dict_values G). goal_status g = G_SATISFIED \<longrightarrow>
     (\<exists>r\<in>set (dict_values R). goal_run g r \<and> run_status r = R_SUCCEEDED \<and> verified_for U g r))"

definition limit_ok :: "core_tables \<Rightarrow> bool" where
  "limit_ok = (\<lambda>(G, R, U). \<forall>g\<in>set (dict_values G). int (active_run_count R g) \<le> goal_max_concurrent_runs g)"

definition core_ok :: "core_tables \<Rightarrow> bool" where
  "core_ok c = (tables_keyed c \<and> contents_ok c \<and> succeeded_ok c \<and> satisfied_ok c \<and> limit_ok c)"

lemma core_ok_empty: "core_ok ([], [], [])"
  by (simp add: core_ok_def tables_keyed_def contents_ok_def succeeded_ok_def satisfied_ok_def limit_ok_def
      dict_values_def)

subsection \<open>Every move keeps the invariant\<close>

text \<open>The values of a table after one write.\<close>

lemma values_update:
  assumes "keyed ident d" "ident v = k"
  shows "w \<in> set (dict_values (AList.update k v d)) \<longleftrightarrow> w = v \<or> (w \<in> set (dict_values d) \<and> ident w \<noteq> k)"
  by (simp only: keyed_member [OF assms(1)] keyed_member [OF keyed_update [OF assms]])
    (use assms(2) in auto)

lemma verified_for_same: "same_goal g g' \<Longrightarrow> same_run r r' \<Longrightarrow> verified_for U g' r' = verified_for U g r"
  by (simp add: verified_for_def same_goal_def same_run_def required_criteria_def)

lemma goal_run_same: "same_goal g g' \<Longrightarrow> same_run r r' \<Longrightarrow> goal_run g' r' = goal_run g r"
  by (auto simp: goal_run_def same_goal_def same_run_def)

lemma same_refl [simp]: "same_goal g g" "same_run r r"
  by (simp_all add: same_goal_def same_run_def)

lemma verified_for_mono:
  "keyed outcome_id U \<Longrightarrow> map_of U (outcome_id x) = None \<Longrightarrow> verified_for U g r \<Longrightarrow>
     verified_for (AList.update (outcome_id x) x U) g r"
  by (fastforce simp: verified_for_def values_update keyed_member)

lemma active_run_count_same: "same_goal g g' \<Longrightarrow> active_run_count R g' = active_run_count R g"
  by (simp add: active_run_count_def goal_run_def same_goal_def)

lemma active_run_count_fresh:
  "\<forall>r\<in>set (dict_values R). run_goal_id r \<noteq> goal_id g \<Longrightarrow> active_run_count R g = 0"
  by (auto simp: active_run_count_def goal_run_def filter_empty_conv)

lemma active_run_count_update:
  assumes "keyed run_id R"
  shows "active_run_count (AList.update k v R) g + (case map_of R k of None \<Rightarrow> 0
       | Some w \<Rightarrow> of_bool (goal_run g w \<and> run_is_active w))
     = active_run_count R g + of_bool (goal_run g v \<and> run_is_active v)"
  using assms unfolding active_run_count_def by (intro count_update) (simp add: keyed_def)

lemma core_step_keyed: "core_step c c' \<Longrightarrow> tables_keyed c \<Longrightarrow> tables_keyed c'"
  by (induction rule: core_step.induct)
    (auto simp: tables_keyed_def same_goal_def same_run_def intro: keyed_update)

text \<open>After a write, a value is the written one or an old one under another key.\<close>

lemma goal_values:
  "keyed goal_id G \<Longrightarrow> map_of G (goal_id g) = Some g \<Longrightarrow> same_goal g g' \<Longrightarrow>
     h \<in> set (dict_values (AList.update (goal_id g) g' G)) \<longleftrightarrow> h = g' \<or> (h \<in> set (dict_values G) \<and> goal_id h \<noteq> goal_id g)"
  by (rule values_update) (simp_all add: same_goal_def)

lemma run_values:
  "keyed run_id R \<Longrightarrow> same_run r r' \<Longrightarrow>
     h \<in> set (dict_values (AList.update (run_id r) r' R)) \<longleftrightarrow> h = r' \<or> (h \<in> set (dict_values R) \<and> run_id h \<noteq> run_id r)"
  by (rule values_update) (simp_all add: same_run_def)

text \<open>A lookup survives a move of the goal up to the fields that never change.\<close>

lemma goal_lookup_moved:
  assumes "map_of G (goal_id g) = Some g" "same_goal g g'" "map_of G (goal_id h) = Some h"
  obtains h' where "map_of (AList.update (goal_id g) g' G) (goal_id h') = Some h'" "same_goal h h'"
proof (cases "goal_id h = goal_id g")
  case True
  with assms have "h = g" by simp
  with assms that [of g'] show thesis by (simp add: same_goal_def)
next
  case False
  with assms that [of h] show thesis by simp
qed

lemma goal_lookup_fresh:
  "map_of G (goal_id g) = None \<Longrightarrow> map_of G (goal_id h) = Some h \<Longrightarrow>
     map_of (AList.update (goal_id g) g G) (goal_id h) = Some h"
  by auto

lemma core_step_contents:
  "core_step c c' \<Longrightarrow> tables_keyed c \<Longrightarrow> contents_ok c \<Longrightarrow> contents_ok c'"
proof (induction rule: core_step.induct)
  case (new_goal G g R U)
  then show ?case
    by (auto simp: contents_ok_def tables_keyed_def values_update) (metis goal_lookup_fresh option.discI)
next
  case (move_goal G g g' R U)
  then have ok: "keyed goal_id G" "\<forall>x\<in>set (dict_values U). outcome_valid x" "\<forall>h\<in>set (dict_values G). goal_valid h"
      "\<forall>r\<in>set (dict_values R). \<exists>h. map_of G (goal_id h) = Some h \<and> goal_run h r"
    by (auto simp: contents_ok_def tables_keyed_def)
  have "\<exists>h. map_of (AList.update (goal_id g) g' G) (goal_id h) = Some h \<and> goal_run h r"
    if "r \<in> set (dict_values R)" for r
    using ok(4) that goal_lookup_moved [OF move_goal.hyps(1,2)] goal_run_same [of _ _ r r] by (metis same_refl(2))
  with ok move_goal.hyps show ?case by (auto simp: contents_ok_def goal_values)
next
  case (new_run R r G g U)
  then show ?case by (auto simp: contents_ok_def tables_keyed_def values_update)
next
  case (move_run R r r' G U)
  then have "\<exists>g. map_of G (goal_id g) = Some g \<and> goal_run g r'"
    using goal_run_same [OF same_refl(1) move_run.hyps(2)]
    by (auto simp: contents_ok_def tables_keyed_def keyed_member)
  with move_run show ?case by (auto simp: contents_ok_def tables_keyed_def run_values)
next
  case (new_outcome U x G R)
  then show ?case by (auto simp: contents_ok_def tables_keyed_def values_update)
qed

lemma core_step_succeeded:
  "core_step c c' \<Longrightarrow> tables_keyed c \<Longrightarrow> succeeded_ok c \<Longrightarrow> succeeded_ok c'"
proof (induction rule: core_step.induct)
  case (new_goal G g R U)
  then show ?case unfolding succeeded_ok_def split_conv by (meson goal_lookup_fresh)
next
  case (move_goal G g g' R U)
  have "\<exists>h. map_of (AList.update (goal_id g) g' G) (goal_id h) = Some h \<and> goal_run h r \<and> verified_for U h r"
    if "r \<in> set (dict_values R)" "run_status r = R_SUCCEEDED" for r
  proof -
    from that move_goal.prems obtain h where h: "map_of G (goal_id h) = Some h" "goal_run h r" "verified_for U h r"
      by (auto simp: succeeded_ok_def)
    from goal_lookup_moved [OF move_goal.hyps(1,2) h(1)] obtain h'
      where "map_of (AList.update (goal_id g) g' G) (goal_id h') = Some h'" "same_goal h h'" .
    with h goal_run_same [of h h' r r] verified_for_same [of h h' r r U] show ?thesis by (meson same_refl(2))
  qed
  then show ?case by (simp add: succeeded_ok_def)
next
  case (new_run R r G g U)
  then show ?case by (auto simp: succeeded_ok_def tables_keyed_def values_update)
next
  case (move_run R r r' G U)
  then have "\<exists>g. map_of G (goal_id g) = Some g \<and> goal_run g r' \<and> verified_for U g r'" if "run_status r' = R_SUCCEEDED"
    using that goal_run_same [OF same_refl(1) move_run.hyps(2)] verified_for_same [OF same_refl(1) move_run.hyps(2)]
    by auto
  with move_run show ?case by (auto simp: succeeded_ok_def tables_keyed_def run_values)
next
  case (new_outcome U x G R)
  then show ?case by (auto simp: succeeded_ok_def tables_keyed_def) (metis verified_for_mono)
qed

lemma core_step_satisfied:
  "core_step c c' \<Longrightarrow> tables_keyed c \<Longrightarrow> satisfied_ok c \<Longrightarrow> satisfied_ok c'"
proof (induction rule: core_step.induct)
  case (new_goal G g R U)
  then show ?case by (auto simp: satisfied_ok_def tables_keyed_def values_update)
next
  case (move_goal G g g' R U)
  then have "\<exists>r\<in>set (dict_values R). goal_run g' r \<and> run_status r = R_SUCCEEDED \<and> verified_for U g' r"
    if "goal_status g' = G_SATISFIED"
    using that goal_run_same [OF move_goal.hyps(2) same_refl(2)] verified_for_same [OF move_goal.hyps(2) same_refl(2)]
    by auto
  with move_goal show ?case by (auto simp: satisfied_ok_def tables_keyed_def goal_values)
next
  case (new_run R r G g U)
  then have "h \<in> set (dict_values (AList.update (run_id r) r R))" if "h \<in> set (dict_values R)" for h
    using that by (auto simp: tables_keyed_def values_update keyed_member)
  with new_run.prems show ?case by (fastforce simp: satisfied_ok_def)
next
  case (move_run R r r' G U)
  then have "h \<in> set (dict_values (AList.update (run_id r) r' R))"
    if "h \<in> set (dict_values R)" "run_status h = R_SUCCEEDED" for h
    using that by (auto simp: tables_keyed_def run_values keyed_member run_is_active_def)
  with move_run.prems show ?case by (fastforce simp: satisfied_ok_def)
next
  case (new_outcome U x G R)
  then show ?case by (auto simp: satisfied_ok_def tables_keyed_def) (metis verified_for_mono)
qed

lemma core_step_limit:
  "core_step c c' \<Longrightarrow> tables_keyed c \<Longrightarrow> contents_ok c \<Longrightarrow> limit_ok c \<Longrightarrow> limit_ok c'"
proof (induction rule: core_step.induct)
  case (new_goal G g R U)
  then have "active_run_count R g = 0"
    by (intro active_run_count_fresh) (auto simp: contents_ok_def goal_run_def)
  with new_goal show ?case
    by (auto simp: limit_ok_def tables_keyed_def values_update goal_valid_iff)
next
  case (move_goal G g g' R U)
  then have "g \<in> set (dict_values G)" using keyed_member [of goal_id G g] by (simp add: tables_keyed_def)
  with move_goal active_run_count_same [OF move_goal.hyps(2), of R] show ?case
    by (auto simp: limit_ok_def tables_keyed_def goal_values same_goal_def)
next
  case (new_run R r G g U)
  have "int (active_run_count (AList.update (run_id r) r R) h) \<le> goal_max_concurrent_runs h"
    if h: "h \<in> set (dict_values G)" for h
  proof -
    have "active_run_count (AList.update (run_id r) r R) h = active_run_count R h + of_bool (goal_run h r \<and> run_is_active r)"
      using active_run_count_update [of R "run_id r" r h] new_run by (simp add: tables_keyed_def)
    moreover have "h = g" if "goal_run h r"
    proof -
      have "goal_id h = goal_id g" using that new_run.hyps(5) by (simp add: goal_run_def)
      moreover have "map_of G (goal_id h) = Some h"
        using h new_run.prems keyed_member [of goal_id G h] unfolding tables_keyed_def by blast
      ultimately show ?thesis using new_run.hyps(3) by (metis option.inject)
    qed
    moreover have "int (active_run_count R h) \<le> goal_max_concurrent_runs h"
      using new_run.prems h unfolding limit_ok_def by blast
    ultimately show ?thesis using new_run.hyps(6) by (cases "goal_run h r") auto
  qed
  then show ?case by (simp add: limit_ok_def)
next
  case (move_run R r r' G U)
  have "active_run_count (AList.update (run_id r) r' R) h \<le> active_run_count R h" for h
    using active_run_count_update [of R "run_id r" r' h] move_run
      goal_run_same [OF same_refl(1) move_run.hyps(2), of h]
    by (cases "run_is_active r'") (auto simp: tables_keyed_def split: if_splits)
  with move_run.prems show ?case
    by (auto simp: limit_ok_def) (meson le_less_trans of_nat_le_iff order_trans)
next
  case (new_outcome U x G R)
  then show ?case by (simp add: limit_ok_def)
qed

lemma core_step_ok: "core_step c c' \<Longrightarrow> core_ok c \<Longrightarrow> core_ok c'"
  by (simp add: core_ok_def core_step_keyed core_step_contents core_step_succeeded core_step_satisfied
      core_step_limit)

end
