(* ===== verification/Execution.thy ===== *)
theory Execution
  imports Goal_Machine
begin

text \<open>
  The application as a state machine. \<open>dispatch\<close> performs one command on the world of the
  application, \<open>app_step\<close> is one command with any clock, caller and fresh identifiers, and
  the theorems are about every world that commands can reach from the empty one.
\<close>

subsection \<open>Inversion of the building blocks\<close>

lemma replay_or_Inr:
  "replay_or ctx key getter k s = Inr (x, s') \<longleftrightarrow>
     (\<exists>c. load_idempotency ctx key s = Inr (Some c) \<and> getter s c = Inr x \<and> s' = s)
     \<or> (load_idempotency ctx key s = Inr None \<and> k s = Inr (x, s'))"
  by (auto simp: replay_or_def tx_simps split: option.splits)

lemma cached_goal_Inr: "cached_goal ctx key i s = Inr (g, s') \<Longrightarrow> s' = s \<and> (\<exists>j. get_goal s (cc_tenant ctx) j = Inr g)"
  by (auto simp: cached_goal_def cached_or_def tx_simps)

lemma cached_run_Inr: "cached_run ctx key i s = Inr (r, s') \<Longrightarrow> s' = s \<and> (\<exists>j. get_run s (cc_tenant ctx) j = Inr r)"
  by (auto simp: cached_run_def cached_or_def tx_simps)

lemma core_of_kept: "(\<And>c. keeps (\<lambda>s. core s = c) m) \<Longrightarrow> m s = Inr (x, s') \<Longrightarrow> core s' = core s"
  using keepsD [of "\<lambda>t. core t = core s" m s x s'] by blast

lemma remember_return_Inr: "remember_return ctx key i x s = Inr (y, s') \<Longrightarrow> y = x \<and> core s' = core s"
  using core_of_kept [OF core_inv.remember_kept(1), of ctx key i s "()" s']
  by (auto simp: remember_return_def tx_simps)

lemma record_audit_core: "record_audit a now s = Inr (u, s') \<Longrightarrow> core s' = core s"
  by (auto simp: record_audit_Inr)

lemma add_goal_core: "add_goal g a now s = Inr (u, s') \<Longrightarrow> core s' = (AList.update (goal_id g) g (goals s), runs s, outcomes s)"
  by (auto simp: add_goal_def tx_simps core_def dest!: record_audit_core)

lemma save_goal_core: "save_goal g v a now s = Inr (u, s') \<Longrightarrow> core s' = (AList.update (goal_id g) g (goals s), runs s, outcomes s)"
  by (auto simp: save_goal_Inr core_def)

lemma add_run_core: "add_run r a now s = Inr (u, s') \<Longrightarrow> core s' = (goals s, AList.update (run_id r) r (runs s), outcomes s)"
  by (auto simp: add_run_def tx_simps core_def dest!: record_audit_core)

lemma save_run_core: "save_run r v (Some a) now s = Inr (u, s') \<Longrightarrow> core s' = (goals s, AList.update (run_id r) r (runs s), outcomes s)"
  by (auto simp: save_run_Inr core_def)

lemma add_outcome_core: "add_outcome x s = Inr (u, s') \<Longrightarrow> core s' = (goals s, runs s, AList.update (outcome_id x) x (outcomes s))"
  by (auto simp: add_outcome_def tx_simps core_def)

lemma add_plan_core: "add_plan p s = Inr (u, s') \<Longrightarrow> core s' = core s"
proof -
  have "core (fold put_task ts s) = core s" for ts s
    by (induction ts arbitrary: s) simp_all
  then show "add_plan p s = Inr (u, s') \<Longrightarrow> core s' = core s" by (auto simp: add_plan_def tx_simps)
qed

lemmas core_effects = remember_return_Inr record_audit_core add_goal_core save_goal_core add_run_core
  save_run_core add_outcome_core add_plan_core

lemma core_components: "core s' = (G, R, U) \<longleftrightarrow> goals s' = G \<and> runs s' = R \<and> outcomes s' = U"
  by (simp add: core_def)

lemma get_goal_keyed: "core_ok (core s) \<Longrightarrow> get_goal s t i = Inr g \<Longrightarrow>
    map_of (goals s) (goal_id g) = Some g \<and> goal_tenant_id g = t \<and> i = goal_id g \<and> goal_valid g"
  using keyed_lookup [of goal_id "goals s" i g] keyed_member [of goal_id "goals s" g]
  by (auto simp: get_defs table_simps core_ok_def tables_keyed_def contents_ok_def core_def)

lemma get_run_keyed: "core_ok (core s) \<Longrightarrow> get_run s t i = Inr r \<Longrightarrow>
    map_of (runs s) (run_id r) = Some r \<and> run_tenant_id r = t \<and> i = run_id r"
  using keyed_lookup [of run_id "runs s" i r]
  by (auto simp: get_defs table_simps core_ok_def tables_keyed_def core_def)

subsection \<open>Refinement of the abstract moves\<close>

text \<open>\<open>uuid4\<close> does not return an identifier that is already in use.\<close>

definition fresh_id :: "store \<Rightarrow> uuid \<Rightarrow> bool" where
  "fresh_id s i = (map_of (goals s) i = None \<and> map_of (runs s) i = None \<and> map_of (outcomes s) i = None)"

definition core_moves :: "store \<Rightarrow> store \<Rightarrow> bool" where
  "core_moves s s' = (core s' = core s \<or> core_step (core s) (core s'))"

lemma core_moves_refl [simp]: "core_moves s s"
  by (simp add: core_moves_def)

lemma core_moves_same: "core s' = core s \<Longrightarrow> core_moves s s'"
  by (simp add: core_moves_def)

lemma core_moves_ok: "core_moves s s' \<Longrightarrow> core_ok (core s) \<Longrightarrow> core_ok (core s')"
  by (auto simp: core_moves_def intro: core_step_ok)

lemma use_case_moves:
  assumes "\<And>x s'. m s = Inr (x, s') \<Longrightarrow> core_moves s s'"
  shows "core_moves s (snd (use_case guard m s))"
  using assms by (auto simp: use_case_def transaction_state split: sum.splits)

lemma same_goal_transition: "GoalContract_transition_to g t a reason tm = Inr g' \<Longrightarrow> same_goal g g' \<and> goal_valid g'
    \<and> goal_status g' = t"
  by (drule GoalContract_transition_to_Inr) (auto simp: same_goal_def)

lemma run_transition_same: "Run_transition_to r t a reason tm = Inr r' \<Longrightarrow> same_run r r' \<and> run_status r' = t \<and> run_is_active r"
  by (drule Run_transition_to_Inr)
    (auto simp: same_run_def run_is_active_def RUN_TRANSITIONS_def allowed_targets_def split: if_splits)

lemma create_goal_moves:
  assumes "core_ok (core s)" "fresh_id s (amb_ids amb 0)"
  shows "core_moves s (snd (create_goal app amb ctx c s))"
  unfolding create_goal_def Let_def
proof (rule use_case_moves, goal_cases)
  case (1 g s')
  then consider "s' = s" | goal manifest s1 where "build_goal amb ctx c manifest = Inr goal"
      "core s1 = (AList.update (goal_id goal) goal (goals s), runs s, outcomes s)" "core s' = core s1"
    by (auto simp: replay_or_Inr tx_simps dest!: core_effects)
  then show ?case
  proof cases
    case 2
    then have "goal_id goal = amb_ids amb 0" "goal_valid goal" "goal_status goal = G_DRAFT"
      by (auto simp: build_goal_def result_simps)
    with 2 assms(2) show ?thesis
      using core_step.new_goal [of "goals s" goal "runs s" "outcomes s"]
      by (simp add: core_moves_def core_def fresh_id_def)
  qed simp
qed

text \<open>A saved goal or run is a move of the abstract machine.\<close>

lemma move_goal_moves:
  assumes "core_ok (core s)" "get_goal s t j = Inr g" "same_goal g g'" "goal_valid g'"
    and "goal_status g' = G_SATISFIED \<Longrightarrow> \<exists>r\<in>set (dict_values (runs s)). goal_run g r \<and> run_status r = R_SUCCEEDED
        \<and> verified_for (outcomes s) g r"
    and "core s' = (AList.update (goal_id g') g' (goals s), runs s, outcomes s)"
  shows "core_moves s s'"
proof -
  have "goal_id g' = goal_id g" using assms(3) by (simp add: same_goal_def)
  with core_step.move_goal [OF _ assms(3,4,5), of "goals s"] get_goal_keyed [OF assms(1,2)] assms(6)
  show ?thesis by (simp add: core_moves_def core_def)
qed

lemma move_run_moves:
  assumes "core_ok (core s)" "get_run s t j = Inr r" "same_run r r'" "run_is_active r"
    and "run_status r' = R_SUCCEEDED \<Longrightarrow>
      \<exists>g. map_of (goals s) (goal_id g) = Some g \<and> goal_run g r \<and> verified_for (outcomes s) g r"
    and "core s' = (goals s, AList.update (run_id r') r' (runs s), outcomes s)"
  shows "core_moves s s'"
proof -
  have "run_id r' = run_id r" using assms(3) by (simp add: same_run_def)
  with core_step.move_run [OF _ assms(3,4,5), of "runs s"] get_run_keyed [OF assms(1,2)] assms(6)
  show ?thesis by (simp add: core_moves_def core_def)
qed

lemma activate_goal_moves:
  assumes "core_ok (core s)"
  shows "core_moves s (snd (activate_goal amb ctx c s))"
  unfolding activate_goal_def Let_def
proof (rule use_case_moves, goal_cases)
  case (1 x s')
  then consider "core s' = core s" | g j g' where "get_goal s (cc_tenant ctx) j = Inr g"
      "GoalContract_transition_to g G_ACTIVE (cc_actor ctx) (ag_reason c) (Aware (amb_now amb)) = Inr g'"
      "core s' = (AList.update (goal_id g') g' (goals s), runs s, outcomes s)"
    by (auto simp: tx_simps split: if_splits dest!: cached_goal_Inr core_effects)
  then show ?case
  proof cases
    case 2
    with same_goal_transition [OF 2(2)] show ?thesis by (intro move_goal_moves [OF assms]) auto
  qed (simp add: core_moves_def)
qed

lemma request_run_moves:
  assumes "core_ok (core s)" "fresh_id s (amb_ids amb 0)"
  shows "core_moves s (snd (request_run app amb ctx c s))"
  unfolding request_run_def Let_def
proof (rule use_case_moves, goal_cases)
  case (1 r s')
  then consider "s' = s" | g where "get_goal s (cc_tenant ctx) (rr_goal_id c) = Inr g"
      "assert_run_request_allowed g (int (length (filter run_is_active
         (list_runs s (cc_tenant ctx) (Some (goal_id g)))))) (Aware (amb_now amb)) = Inr ()"
      "run_id r = amb_ids amb 0" "run_status r = R_PENDING" "run_tenant_id r = cc_tenant ctx"
      "run_goal_id r = goal_id g" "core s' = (goals s, AList.update (run_id r) r (runs s), outcomes s)"
    by (auto simp: replay_or_Inr tx_simps dest!: core_effects)
  then show ?case
  proof cases
    case 2
    note g = get_goal_keyed [OF assms(1) 2(1)]
    have "active_run_count (runs s) g = length (filter run_is_active (list_runs s (cc_tenant ctx) (Some (goal_id g))))"
      using g by (simp add: active_run_count_def list_runs_def goal_run_def conj_commute conj_left_commute eq_commute)
    moreover have "goal_run g r" using 2 g by (simp add: goal_run_def)
    ultimately show ?thesis using 2 g assms(2)
      core_step.new_run [of "runs s" r "goals s" g "outcomes s"]
      by (simp add: core_moves_def core_def fresh_id_def assert_run_request_allowed_Inr)
  qed simp
qed

lemma create_validated_plan_moves:
  assumes "core_ok (core s)"
  shows "core_moves s (snd (create_validated_plan amb ctx c s))"
  unfolding create_validated_plan_def Let_def
proof (rule use_case_moves, goal_cases)
  case (1 x s')
  then consider "s' = s" | r snap bound r' reason s1 where "get_run s (cc_tenant ctx) (cvp_run_id c) = Inr r"
      "Run_bind_execution r snap = Inr bound"
      "Run_transition_to bound R_RUNNING (cc_actor ctx) reason (Aware (amb_now amb)) = Inr r'"
      "core s1 = core s" "core s' = (goals s1, AList.update (run_id r') r' (runs s1), outcomes s1)"
    by (auto simp: replay_or_Inr tx_simps result_simps dest!: core_effects split: if_splits)
  then show ?case
  proof cases
    case 2
    from 2(2,3) have "same_run r r'" "run_status r' = R_RUNNING" "run_is_active r"
      by (auto simp: Run_bind_execution_Inr same_run_def run_is_active_def dest!: Run_transition_to_Inr)
    with 2 show ?thesis by (intro move_run_moves [OF assms 2(1)]) (auto simp: core_def)
  qed simp
qed

lemma transition_run_moves:
  assumes "core_ok (core s)" "target \<noteq> R_SUCCEEDED"
  shows "core_moves s (snd (transition_run amb ctx allowed c target operation s))"
  unfolding transition_run_def Let_def
proof (rule use_case_moves, goal_cases)
  case (1 x s')
  then consider "core s' = core s" | j r r' where "get_run s (cc_tenant ctx) j = Inr r"
      "Run_transition_to r target (cc_actor ctx) (rdc_reason c) (Aware (amb_now amb)) = Inr r'"
      "core s' = (goals s, AList.update (run_id r') r' (runs s), outcomes s)"
    by (auto simp: tx_simps split: if_splits dest!: cached_run_Inr core_effects)
  then show ?case
  proof cases
    case 2
    with run_transition_same [OF 2(2)] assms(2) show ?thesis by (intro move_run_moves [OF assms(1)]) auto
  qed (simp add: core_moves_def)
qed

text \<open>The criteria the code compares are those of the specification.\<close>

lemma verified_criteria_iff:
  "set (required_criteria g) \<subseteq> set (verified_criteria (list_outcomes s (run_tenant_id r) (run_id r)))
     \<longleftrightarrow> verified_for (outcomes s) g r"
  by (auto simp: verified_for_def verified_criteria_def list_outcomes_def)

lemma completion_target_succeeded:
  "fst (completion_target g (list_outcomes s (run_tenant_id r) (run_id r))) = R_SUCCEEDED \<Longrightarrow>
     verified_for (outcomes s) g r"
  by (simp add: completion_target_def verified_criteria_iff split: if_splits)

lemma complete_run_moves:
  assumes "core_ok (core s)"
  shows "core_moves s (snd (complete_run amb ctx c s))"
  unfolding complete_run_def Let_def
proof (rule use_case_moves, goal_cases)
  case (1 r' s')
  then consider "core s' = core s" | j r g reason where "get_run s (cc_tenant ctx) j = Inr r"
      "get_goal s (cc_tenant ctx) (run_goal_id r) = Inr g"
      "Run_transition_to r (fst (completion_target g (list_outcomes s (cc_tenant ctx) (run_id r))))
         (cc_actor ctx) reason (Aware (amb_now amb)) = Inr r'"
      "core s' = (goals s, AList.update (run_id r') r' (runs s), outcomes s)"
    by (auto simp: tx_simps case_prod_unfold split: if_splits dest!: cached_run_Inr core_effects)
  then show ?case
  proof cases
    case 2
    note r = get_run_keyed [OF assms 2(1)] and g = get_goal_keyed [OF assms 2(2)] and t = run_transition_same [OF 2(3)]
    have "verified_for (outcomes s) g r" if "run_status r' = R_SUCCEEDED"
      using completion_target_succeeded [of g s r] r t that by simp
    with r g t show ?thesis
      by (intro move_run_moves [OF assms 2(1) _ _ _ 2(4)]) (auto simp: goal_run_def)
  qed (simp add: core_moves_def)
qed

lemma verify_outcome_moves:
  assumes "core_ok (core s)" "fresh_id s (amb_ids amb 0)"
  shows "core_moves s (snd (verify_outcome app amb ctx c s))"
proof (cases "app_outcome_verifier app")
  case None
  then show ?thesis by (simp add: verify_outcome_def)
next
  case (Some verifier)
  show ?thesis
    unfolding verify_outcome_def Let_def Some option.case
  proof (rule use_case_moves, goal_cases)
    case (1 y s')
    then consider "s' = s" | "outcome_valid y" "outcome_id y = amb_ids amb 0"
        "core s' = (goals s, runs s, AList.update (outcome_id y) y (outcomes s))"
      by (auto simp: replay_or_Inr tx_simps dest!: core_effects split: if_splits option.splits)
    then show ?case
    proof cases
      case 2
      with assms(2) core_step.new_outcome [of "outcomes s" y "goals s" "runs s"] show ?thesis
        by (simp add: core_moves_def core_def fresh_id_def)
    qed simp
  qed
qed

lemma goal_verdict_satisfied:
  assumes "goal_verdict g c (goal_tenant_id g) s = Inr G_SATISFIED"
  shows "\<exists>r\<in>set (dict_values (runs s)). goal_run g r \<and> run_status r = R_SUCCEEDED \<and> verified_for (outcomes s) g r"
  using assms verified_criteria_iff [of g s]
  by (auto simp: goal_verdict_def result_simps list_ex_iff list_runs_def goal_run_def Let_def split: if_splits)
    metis

lemma satisfy_or_fail_goal_moves:
  assumes "core_ok (core s)"
  shows "core_moves s (snd (satisfy_or_fail_goal amb ctx c s))"
  unfolding satisfy_or_fail_goal_def Let_def
proof (rule use_case_moves, goal_cases)
  case (1 x s')
  then consider "core s' = core s" | j g target g' where "get_goal s (cc_tenant ctx) j = Inr g"
      "goal_verdict g c (cc_tenant ctx) s = Inr target"
      "GoalContract_transition_to g target (cc_actor ctx) (sfg_reason c) (Aware (amb_now amb)) = Inr g'"
      "core s' = (AList.update (goal_id g') g' (goals s), runs s, outcomes s)"
    by (auto simp: tx_simps split: if_splits dest!: cached_goal_Inr core_effects)
  then show ?case
  proof cases
    case 2
    note g = get_goal_keyed [OF assms 2(1)] and t = same_goal_transition [OF 2(3)]
    have "goal_verdict g c (goal_tenant_id g) s = Inr G_SATISFIED" if "goal_status g' = G_SATISFIED"
      using that 2(2) g t by simp
    with t 2 show ?thesis
      by (intro move_goal_moves [OF assms 2(1)]) (auto dest: goal_verdict_satisfied)
  qed (simp add: core_moves_def)
qed

subsection \<open>Evidence of the three capturing use cases\<close>

lemma use_case_guarded: "(guard = Inr () \<Longrightarrow> keeps P m) \<Longrightarrow> P s \<Longrightarrow> P (snd (use_case guard m s))"
  by (cases guard) (simp_all add: use_case_def keeps_transaction)

lemma record_evidence_authoritative: "evidence_ok s \<Longrightarrow> evidence_ok (snd (record_evidence amb ctx c s))"
  unfolding record_evidence_def Let_def
  by (erule use_case_guarded [rotated])
    (intro keeps_intros evidence_inv.writes evidence_inv.remember_kept add_evidence_keeps,
      auto simp: result_simps authoritative_def)

lemma saga_evidence_authoritative: "saga_evidence saga stored = Inr e \<Longrightarrow> authoritative e"
  by (auto simp: saga_evidence_def Let_def result_simps authoritative_def)

lemma commit_authoritative: "evidence_ok s \<Longrightarrow> evidence_ok (snd (commit_evidence_capture amb ctx key saga stored s))"
  unfolding commit_evidence_capture_def
  by (auto split: sum.split dest!: saga_evidence_authoritative
      intro!: keeps_transaction keeps_intros evidence_inv.writes evidence_inv.remember_kept add_evidence_keeps)

lemma new_capture_authoritative: "evidence_ok s \<Longrightarrow> evidence_ok (snd (new_capture app artifacts rb amb ctx key c s))"
  unfolding new_capture_def
  by (simp split: sum.split prod.split, intro allI impI andThen_keeps [where P = evidence_ok])
    (simp_all add: keeps_transaction evidence_inv.writes commit_authoritative split: sum.split)

lemma capture_authoritative: "evidence_ok s \<Longrightarrow> evidence_ok (snd (capture_authoritative_evidence app amb ctx c s))"
  unfolding capture_authoritative_evidence_def resume_capture_def Let_def
  by (auto split: sum.split option.split intro: commit_authoritative new_capture_authoritative)

lemma execution_evidence_authoritative: "execution_evidence amb x receipt = Inr e \<Longrightarrow> authoritative e"
  by (auto simp: execution_evidence_def authoritative_def)

lemma record_execution_authoritative: "authoritative e \<Longrightarrow> keeps evidence_ok (record_execution amb ctx key x r att e)"
  unfolding record_execution_def
  by (intro keeps_intros evidence_inv.writes evidence_inv.remember_kept add_evidence_keeps)

lemma execution_facts_authoritative:
  "bindE (execution_attempt amb x receipt) (\<lambda>att. bindE (execution_evidence amb x receipt) (\<lambda>e. Inr (att, e)))
     = Inr (attempt, item) \<Longrightarrow> authoritative item"
  by (auto simp: result_simps dest: execution_evidence_authoritative)

lemma execute_governed_action_authoritative:
  "evidence_ok (w_store w) \<Longrightarrow> evidence_ok (w_store (snd (execute_governed_action app amb ctx c w)))"
  unfolding execute_governed_action_def Let_def
  by (simp split: option.split, intro allI impI andThen_keeps [where P = "\<lambda>w. evidence_ok (w_store w)"])
    (simp_all add: lift_store_keeps [where P = evidence_ok] use_case_keeps evidence_inv.load_execution_kept
      keeps_transaction record_execution_authoritative execution_facts_authoritative
      split: option.split sum.split prod.split)

subsection \<open>Commands and steps\<close>

datatype command =
    Do_CreateGoal CreateGoal | Do_ActivateGoal ActivateGoal | Do_RequestRun RequestRun
  | Do_PrepareRunContext PrepareRunContext | Do_CreateValidatedPlan CreateValidatedPlan
  | Do_StartTask StartTask | Do_CompleteTask CompleteTask | Do_ProposeAction ProposeAction
  | Do_RequestApproval RequestApproval | Do_DecideApproval DecideApproval
  | Do_AuthorizeAction AuthorizeActionAtExecutionTime | Do_ExecuteGovernedAction ExecuteGovernedAction
  | Do_RecordActionAttempt RecordActionAttempt | Do_RecordEvidence RecordEvidence
  | Do_CaptureEvidence CaptureAuthoritativeEvidence | Do_RequestEvidenceDeletion RequestEvidenceDeletion
  | Do_ReconcileUnknownAction ReconcileUnknownAction | Do_VerifyOutcome VerifyOutcome
  | Do_CompleteRun CompleteRun | Do_SatisfyOrFailGoal SatisfyOrFailGoal
  | Do_CancelRun RunDecision | Do_FailRun RunDecision | Do_TakeOverRun RunDecision

definition on_store :: "(store \<Rightarrow> 'a result \<times> store) \<Rightarrow> world \<Rightarrow> world" where
  "on_store f w = w\<lparr>w_store := snd (f (w_store w))\<rparr>"

fun dispatch :: "application \<Rightarrow> ambient \<Rightarrow> CommandContext \<Rightarrow> command \<Rightarrow> world \<Rightarrow> world" where
  "dispatch app amb ctx (Do_CreateGoal c) = on_store (create_goal app amb ctx c)"
| "dispatch app amb ctx (Do_ActivateGoal c) = on_store (activate_goal amb ctx c)"
| "dispatch app amb ctx (Do_RequestRun c) = on_store (request_run app amb ctx c)"
| "dispatch app amb ctx (Do_PrepareRunContext c) = on_store (prepare_run_context amb ctx c)"
| "dispatch app amb ctx (Do_CreateValidatedPlan c) = on_store (create_validated_plan amb ctx c)"
| "dispatch app amb ctx (Do_StartTask c) = on_store (start_task amb ctx c)"
| "dispatch app amb ctx (Do_CompleteTask c) = on_store (complete_task amb ctx c)"
| "dispatch app amb ctx (Do_ProposeAction c) = on_store (propose_action amb ctx c)"
| "dispatch app amb ctx (Do_RequestApproval c) = on_store (request_approval amb ctx c)"
| "dispatch app amb ctx (Do_DecideApproval c) = on_store (decide_approval amb ctx c)"
| "dispatch app amb ctx (Do_AuthorizeAction c) = on_store (authorize_action_at_execution_time app amb ctx c)"
| "dispatch app amb ctx (Do_ExecuteGovernedAction c) = (\<lambda>w. snd (execute_governed_action app amb ctx c w))"
| "dispatch app amb ctx (Do_RecordActionAttempt c) = on_store (record_action_attempt amb ctx c)"
| "dispatch app amb ctx (Do_RecordEvidence c) = on_store (record_evidence amb ctx c)"
| "dispatch app amb ctx (Do_CaptureEvidence c) = on_store (capture_authoritative_evidence app amb ctx c)"
| "dispatch app amb ctx (Do_RequestEvidenceDeletion c) = on_store (request_evidence_deletion app amb ctx c)"
| "dispatch app amb ctx (Do_ReconcileUnknownAction c) = on_store (reconcile_unknown_action amb ctx c)"
| "dispatch app amb ctx (Do_VerifyOutcome c) = on_store (verify_outcome app amb ctx c)"
| "dispatch app amb ctx (Do_CompleteRun c) = on_store (complete_run amb ctx c)"
| "dispatch app amb ctx (Do_SatisfyOrFailGoal c) = on_store (satisfy_or_fail_goal amb ctx c)"
| "dispatch app amb ctx (Do_CancelRun c) = on_store (cancel_run amb ctx c)"
| "dispatch app amb ctx (Do_FailRun c) = on_store (fail_run amb ctx c)"
| "dispatch app amb ctx (Do_TakeOverRun c) = on_store (take_over_run amb ctx c)"

text \<open>
  One step: a command of any caller with a fresh identifier, or a write of another component
  (a memory that passed its gate, a registered agent).
\<close>

inductive app_step :: "application \<Rightarrow> world \<Rightarrow> world \<Rightarrow> bool" for app where
  app_command: "fresh_id (w_store w) (amb_ids amb 0) \<Longrightarrow> app_step app w (dispatch app amb ctx c w)"
| app_memory: "add_memory m (w_store w) = Inr ((), s) \<Longrightarrow> app_step app w (w\<lparr>w_store := s\<rparr>)"
| app_agent: "register_agent name v (w_store w) = Inr ((), s) \<Longrightarrow> app_step app w (w\<lparr>w_store := s\<rparr>)"

definition reachable :: "application \<Rightarrow> world \<Rightarrow> bool" where
  "reachable app w = (\<exists>g. (app_step app)\<^sup>*\<^sup>* \<lparr>w_store = empty_store, w_gateway = g\<rparr> w)"

lemma on_store_store [simp]: "w_store (on_store f w) = snd (f (w_store w))"
  by (simp add: on_store_def)

lemmas run_decision_defs = cancel_run_def fail_run_def take_over_run_def

text \<open>An invariant of every write is an invariant of every command.\<close>

context store_invariant
begin

lemma dispatch_keeps: "P (w_store w) \<Longrightarrow> P (w_store (dispatch app amb ctx c w))"
  by (cases c) (simp_all add: run_decision_defs create_goal_keeps activate_goal_keeps request_run_keeps
      prepare_run_context_keeps create_validated_plan_keeps start_task_keeps complete_task_keeps
      propose_action_keeps request_approval_keeps decide_approval_keeps authorize_action_keeps
      execute_governed_action_keeps record_action_attempt_keeps record_evidence_keeps capture_keeps
      request_evidence_deletion_keeps reconcile_unknown_action_keeps verify_outcome_keeps
      complete_run_keeps satisfy_or_fail_goal_keeps transition_run_keeps)

end

lemma dispatch_evidence_ok: "evidence_ok (w_store w) \<Longrightarrow> evidence_ok (w_store (dispatch app amb ctx c w))"
  by (cases c) (simp_all add: run_decision_defs evidence_inv.create_goal_keeps evidence_inv.activate_goal_keeps
      evidence_inv.request_run_keeps evidence_inv.prepare_run_context_keeps
      evidence_inv.create_validated_plan_keeps evidence_inv.start_task_keeps evidence_inv.complete_task_keeps
      evidence_inv.propose_action_keeps evidence_inv.request_approval_keeps evidence_inv.decide_approval_keeps
      evidence_inv.authorize_action_keeps execute_governed_action_authoritative
      evidence_inv.record_action_attempt_keeps record_evidence_authoritative capture_authoritative
      evidence_inv.request_evidence_deletion_keeps evidence_inv.reconcile_unknown_action_keeps
      evidence_inv.verify_outcome_keeps evidence_inv.complete_run_keeps
      evidence_inv.satisfy_or_fail_goal_keeps evidence_inv.transition_run_keeps)

text \<open>Every command is a move of the abstract machine or leaves its tables alone.\<close>

lemma dispatch_moves:
  assumes "core_ok (core (w_store w))" "fresh_id (w_store w) (amb_ids amb 0)"
  shows "core_moves (w_store w) (w_store (dispatch app amb ctx c w))"
  using assms
  by (cases c) (simp_all add: run_decision_defs create_goal_moves activate_goal_moves request_run_moves
      create_validated_plan_moves transition_run_moves complete_run_moves verify_outcome_moves
      satisfy_or_fail_goal_moves core_moves_same core_inv.prepare_run_context_keeps core_inv.start_task_keeps
      core_inv.complete_task_keeps core_inv.propose_action_keeps core_inv.request_approval_keeps
      core_inv.decide_approval_keeps core_inv.authorize_action_keeps core_inv.execute_governed_action_keeps
      core_inv.record_action_attempt_keeps core_inv.record_evidence_keeps core_inv.capture_keeps
      core_inv.request_evidence_deletion_keeps core_inv.reconcile_unknown_action_keeps)

subsection \<open>Invariants of every reachable world\<close>

definition world_ok :: "world \<Rightarrow> bool" where
  "world_ok w = (core_ok (core (w_store w)) \<and> evidence_ok (w_store w) \<and> audit_ok (w_store w))"

lemma other_writes:
  "add_memory m s = Inr (u, s') \<Longrightarrow> core s' = core s \<and> evidence_tables s' = evidence_tables s \<and> audits s' = audits s
     \<and> idem_tables s' = idem_tables s"
  "register_agent name v s = Inr (u, s') \<Longrightarrow> core s' = core s \<and> evidence_tables s' = evidence_tables s
     \<and> audits s' = audits s \<and> idem_tables s' = idem_tables s"
  by (auto simp: add_memory_def register_agent_def tx_simps core_def evidence_tables_def idem_tables_def
      split: if_splits)

lemma app_step_moves: "app_step app w w' \<Longrightarrow> core_ok (core (w_store w)) \<Longrightarrow> core_moves (w_store w) (w_store w')"
  by (induction rule: app_step.induct) (auto simp: dispatch_moves dest: other_writes intro: core_moves_same)

lemma app_step_ok: "app_step app w w' \<Longrightarrow> world_ok w \<Longrightarrow> world_ok w'"
proof (induction rule: app_step.induct)
  case (app_command w amb ctx c)
  then show ?case
    by (auto simp: world_ok_def dispatch_evidence_ok audit_inv.dispatch_keeps intro: core_moves_ok dispatch_moves)
next
  case (app_memory m w s)
  from other_writes(1) [OF app_memory.hyps] app_memory.prems show ?case
    by (auto simp: world_ok_def audit_ok_def elim: evidence_ok_tables [rotated])
next
  case (app_agent name v w s)
  from other_writes(2) [OF app_agent.hyps] app_agent.prems show ?case
    by (auto simp: world_ok_def audit_ok_def elim: evidence_ok_tables [rotated])
qed

lemma empty_world_ok: "world_ok \<lparr>w_store = empty_store, w_gateway = g\<rparr>"
  using core_ok_empty by (simp add: world_ok_def core_def evidence_ok_def empty_store_def dict_values_def
      audit_ok_empty [unfolded empty_store_def])

lemma reachable_ok: "reachable app w \<Longrightarrow> world_ok w"
proof -
  have "(app_step app)\<^sup>*\<^sup>* v w \<Longrightarrow> world_ok v \<Longrightarrow> world_ok w" for v
    by (induction rule: rtranclp_induct) (auto intro: app_step_ok)
  then show "reachable app w \<Longrightarrow> world_ok w" by (auto simp: reachable_def empty_world_ok)
qed

subsection \<open>What stays known\<close>

text \<open>Runs are never removed and keep their tenant, so a remembered run can be read again.\<close>

definition run_known :: "uuid \<Rightarrow> uuid \<Rightarrow> core_tables \<Rightarrow> bool" where
  "run_known t i = (\<lambda>(G, R, U). \<exists>r. map_of R i = Some r \<and> run_tenant_id r = t)"

lemma core_step_run_known: "core_step c c' \<Longrightarrow> run_known t i c \<Longrightarrow> run_known t i c'"
  by (induction rule: core_step.induct) (auto simp: run_known_def same_run_def)

lemma app_steps_run_known:
  assumes "(app_step app)\<^sup>*\<^sup>* w w'" "world_ok w" "run_known t i (core (w_store w))"
  shows "world_ok w' \<and> run_known t i (core (w_store w'))"
  using assms
proof (induction rule: rtranclp_induct)
  case (step v v')
  then have "core_moves (w_store v) (w_store v')" by (auto intro: app_step_moves simp: world_ok_def)
  with step show ?case by (auto simp: core_moves_def intro: app_step_ok core_step_run_known)
qed simp

lemma app_steps_bound:
  assumes "(app_step app)\<^sup>*\<^sup>* w w'" "bound_to t key i d (w_store w)"
  shows "bound_to t key i d (w_store w')"
  using assms
proof (induction rule: rtranclp_induct)
  case (step v v')
  from step.hyps(2) step.IH [OF step.prems] show ?case
    by (induction rule: app_step.induct)
      (auto simp: idem_inv.dispatch_keeps dest!: other_writes elim: bound_to_tables [rotated])
qed simp

text \<open>What the key lookup answers for a bound key.\<close>

lemma load_bound:
  assumes "bound_to (cc_tenant ctx) key i d s"
  shows "load_idempotency ctx key s = (if cc_request_digest ctx = d then Inr (Some i)
     else Inl (ConcurrencyConflict ''idempotency key was reused with a different request''))"
  using assms by (simp add: load_idempotency_def get_idempotency_def bound_to_def raise_if_def)

lemma remember_return_bound:
  "remember_return ctx key i x s = Inr (y, s') \<Longrightarrow> cc_request_digest ctx \<noteq> [] \<Longrightarrow>
     bound_to (cc_tenant ctx) key i (cc_request_digest ctx) s'"
  by (auto simp: remember_return_def remember_def put_idempotency_def tx_simps bound_to_def)

subsection \<open>The first execution of a run request\<close>

lemma request_run_first:
  assumes "request_run app amb ctx c s = (Inr r, s')" "load_idempotency ctx (idem_key ''request_run'' ctx) s = Inr None"
  shows "require_any ctx OPERATORS = Inr () \<and> (\<exists>a s1. add_run r a (amb_now amb) s = Inr ((), s1)
     \<and> remember_return ctx (idem_key ''request_run'' ctx) (run_id r) r s1 = Inr (r, s') \<and> run_tenant_id r = cc_tenant ctx)"
proof -
  from assms have "require_any ctx OPERATORS = Inr () \<and> (\<exists>x a s1. add_run x a (amb_now amb) s = Inr ((), s1)
     \<and> remember_return ctx (idem_key ''request_run'' ctx) (run_id x) x s1 = Inr (r, s') \<and> run_tenant_id x = cc_tenant ctx)"
    by (simp add: request_run_def Let_def use_case_Inr replay_or_Inr tx_simps)
      (elim exE conjE, intro exI conjI, assumption, simp, simp)
  then show ?thesis by (metis remember_return_Inr)
qed

lemma request_run_bound:
  assumes "request_run app amb ctx c s = (Inr r, s')" "cc_request_digest ctx \<noteq> []"
    "load_idempotency ctx (idem_key ''request_run'' ctx) s = Inr None"
  shows "bound_to (cc_tenant ctx) (idem_key ''request_run'' ctx) (run_id r) (cc_request_digest ctx) s'
     \<and> run_known (cc_tenant ctx) (run_id r) (core s') \<and> require_any ctx OPERATORS = Inr ()"
  using request_run_first [OF assms(1,3)] assms(2)
  by (auto simp: run_known_def dest: remember_return_bound remember_return_Inr dest!: add_run_core)

end
