(* ===== verification/Scenario.thy ===== *)
theory Scenario
  imports Execution
begin

text \<open>
  A concrete run of the application from the empty store to a satisfied goal: fourteen commands of one
  operator, with an agent catalog, an artifact store and an authoritative readback that always answer.
  The audit trail is kept abstract (\<open>A\<close>), so no digest has to be computed.
\<close>

subsection \<open>Evaluating transactions forward\<close>

definition audits_ok :: "AuditEvent list \<Rightarrow> bool" where
  "audits_ok A = (\<forall>t. chain_ok (tenant_audits t A))"

lemma audit_ok_audits: "audit_ok s \<longleftrightarrow> audits_ok (audits s)"
  by (simp add: audit_ok_def audits_ok_def)

definition appended :: "AuditEvent list \<Rightarrow> AuditEvent \<Rightarrow> int \<Rightarrow> AuditEvent" where
  "appended A a now = (case next_audit A a now of Inr e \<Rightarrow> e | Inl _ \<Rightarrow> a)"

lemma record_audit_run:
  assumes "audits_ok (audits s)"
  shows "record_audit a now s = Inr ((), s\<lparr>audits := audits s @ [appended (audits s) a now]\<rparr>)"
proof -
  from record_audit_total [of s a now] assms obtain s' where "record_audit a now s = Inr ((), s')"
    by (auto simp: audit_ok_audits)
  then show ?thesis by (auto simp: record_audit_Inr appended_def)
qed

lemma audits_ok_appended [simp]: "audits_ok A \<Longrightarrow> audits_ok (A @ [appended A a now])"
  using keepsD [OF keeps_record_audit, of "empty_store\<lparr>audits := A\<rparr>" a now "()"]
    record_audit_run [of "empty_store\<lparr>audits := A\<rparr>" a now] by (simp add: audit_ok_audits)

lemma audits_ok_Nil [simp]: "audits_ok []"
  by (simp add: audits_ok_def)

lemma appended_Nil_tenant [simp]: "ae_tenant_id (appended [] a now) = ae_tenant_id a"
  by (simp add: appended_def next_audit_def chained_def genesis_digest_def)

lemmas tx_run = bindT_def thenT_def liftT_def readT_def checkT_def modifyT_def returnT_def use_case_def
  transaction_def replay_or_def cached_or_def cached_goal_def cached_run_def cached_task_def
  remember_return_def remember_def load_idempotency_def get_idempotency_def put_idempotency_def
  raise_if_def record_audit_run

subsection \<open>The participants\<close>

definition sc_agent :: AgentVersion where
  "sc_agent = \<lparr>av_tenant_id = 1, av_agent_id = 30, av_version = 1, av_instruction = ''work'', av_model_route = ''m'',
     av_skill_ids = [], av_tool_ids = [],
     av_loop_policy = \<lparr>max_rounds = 1, max_tokens = 1, max_cost_units = 1, timeout_seconds = 1\<rparr>,
     av_stage = AS_STABLE, agent_version_id = 31\<rparr>"

definition sc_manifest :: GoalTypeManifest where
  "sc_manifest = \<lparr>gtm_goal_type = ''report'', gtm_input_schema = JObj [], gtm_agent = ''analyst'',
     gtm_evaluation_suite = ''suite'', gtm_default_policy = ''policy'', gtm_default_budget = 10\<rparr>"

definition sc_observation :: AuthoritativeObservation where
  "sc_observation = \<lparr>obs_source = ''crm'', obs_source_identity = ''crm-1'', obs_reference = ''crm://7'',
     obs_observed_state = ''closed'', obs_content = [1, 2, 3], obs_criterion_met = Some True,
     obs_captured_at = Aware 11, obs_valid_until = Aware 1000\<rparr>"

definition sc_artifacts :: EvidenceArtifactStore where
  "sc_artifacts = \<lparr>as_describe = (\<lambda>t e d c n u. \<lparr>art_tenant_id = t, art_evidence_id = e, artifact_uri = ''s3://e'',
       art_content_digest = d, art_classification = c, art_size_bytes = n, art_retained_until = u,
       art_version_id = None\<rparr>),
     as_store = (\<lambda>d bytes ct. Inr d), as_retrieve_verified = (\<lambda>d. Inr [1, 2, 3]),
     as_delete = (\<lambda>d. Inl (PermissionError ''retained''))\<rparr>"

definition sc_app :: application where
  "sc_app = \<lparr>app_goal_type = (\<lambda>t n. Inr sc_manifest), app_stable_agent = (\<lambda>t n. Inr sc_agent),
     app_validate_payload = (\<lambda>m p. Inr ()), app_governed_gateway = None,
     app_legacy_authorization_enabled = True, app_evidence_artifacts = Some sc_artifacts,
     app_authoritative_readback = Some (\<lambda>source t subjects c. Inr sc_observation),
     app_evidence_policy = \<lparr>maximum_bytes = 100, reject_detected_secrets = True,
       secret_pattern_found = (\<lambda>_. False), pii_pattern_found = (\<lambda>_. False)\<rparr>,
     app_shadow_write_guard = None, app_run_deployment_router = None\<rparr>"

definition sc_amb :: "int \<Rightarrow> nat \<Rightarrow> ambient" where
  "sc_amb t n = \<lparr>amb_now = t, amb_ids = (\<lambda>i. of_nat (n + i))\<rparr>"

definition sc_ctx :: "string \<Rightarrow> CommandContext" where
  "sc_ctx key = \<lparr>cc_identity = \<lparr>ic_tenant_id = 1, ic_actor_id = 7, ic_principal_id = 7, ic_roles = [''operator''],
       ic_agent_id = None, ic_subject = None, ic_token_type = ''user''\<rparr>,
     cc_correlation_id = 90, cc_causation_id = 91, cc_idempotency_key = key, cc_request_digest = genesis_digest\<rparr>"

lemma sc_operator [simp]: "require_any (sc_ctx key) OPERATORS = Inr ()"
  by (simp add: require_any_def sc_ctx_def OPERATORS_def)

lemma sc_ctx_fields [simp]:
  "cc_tenant (sc_ctx key) = 1" "cc_actor (sc_ctx key) = 7" "ic_principal_id (cc_identity (sc_ctx key)) = 7"
  "cc_idempotency_key (sc_ctx key) = key" "cc_request_digest (sc_ctx key) = genesis_digest"
  by (simp_all add: sc_ctx_def)

lemma sc_amb_fields [simp]: "amb_now (sc_amb t n) = t" "amb_ids (sc_amb t n) i = of_nat (n + i)"
  by (simp_all add: sc_amb_def)

lemma genesis_nonempty [simp]: "genesis_digest \<noteq> []"
  by (simp add: genesis_digest_def)

lemma genesis_not_blank [simp]: "\<not> blank genesis_digest"
  by (simp add: genesis_digest_def blank_iff list_all_iff py_isspace_def code_point_def)

text \<open>No letter is white space, so the texts of the scenario are not blank.\<close>

lemma letters [simp]:
  "\<not> py_isspace CHR ''a''" "\<not> py_isspace CHR ''b''" "\<not> py_isspace CHR ''c''" "\<not> py_isspace CHR ''d''"
  "\<not> py_isspace CHR ''e''" "\<not> py_isspace CHR ''f''" "\<not> py_isspace CHR ''g''" "\<not> py_isspace CHR ''h''"
  "\<not> py_isspace CHR ''i''" "\<not> py_isspace CHR ''j''" "\<not> py_isspace CHR ''k''" "\<not> py_isspace CHR ''l''"
  "\<not> py_isspace CHR ''m''" "\<not> py_isspace CHR ''n''" "\<not> py_isspace CHR ''o''" "\<not> py_isspace CHR ''p''"
  "\<not> py_isspace CHR ''q''" "\<not> py_isspace CHR ''r''" "\<not> py_isspace CHR ''s''" "\<not> py_isspace CHR ''t''"
  "\<not> py_isspace CHR ''u''" "\<not> py_isspace CHR ''v''" "\<not> py_isspace CHR ''w''" "\<not> py_isspace CHR ''x''"
  "\<not> py_isspace CHR ''y''" "\<not> py_isspace CHR ''z''" "\<not> py_isspace CHR ''7''"
  by (simp_all add: py_isspace_def code_point_def)

definition sc_criterion :: SuccessCriterion where
  "sc_criterion = \<lparr>criterion_id = ''closed'', crit_description = ''case closed'', crit_evidence_type = ''readback''\<rparr>"

definition sc_goal0 :: CreateGoal where
  "sc_goal0 = \<lparr>cg_goal_type = ''report'', cg_statement = ''write the report'',
     cg_desired_outcome = ''the report is closed'',
     cg_subject_refs = [\<lparr>subj_system = ''crm'', subject_type = ''case'', subject_id = ''7'', subj_version = None\<rparr>],
     cg_success_criteria = [sc_criterion], cg_constraints = [], cg_owner_id = 7, cg_risk_tier = RT_LOW,
     cg_budget_limit = None, cg_deadline = Aware 500, cg_input_payload = [], cg_correlation_id = 90,
     cg_budget_unit = COST_UNITS, cg_delegation_id = None, cg_maximum_classification = CONFIDENTIAL,
     cg_allowed_regions = [], cg_retention_days = 30, cg_execution_mode = SUPERVISED, cg_max_concurrent_runs = 1\<rparr>"

lemma sc_payload: "JsonObject_from_value [] = Inr \<lparr>canonical = ''{}''\<rparr>"
proof -
  have "dumps_canonical (JObj []) = ''{}''" "loads ''{}'' = Some (JObj [])" by code_simp+
  moreover have "length (utf8 ''{}'') = 2" by code_simp
  ultimately show ?thesis
    by (simp add: JsonObject_from_value_def JsonObject_post_init_def validate_json.simps)
qed

definition sc_goal :: GoalContract where
  "sc_goal = \<lparr>goal_tenant_id = 1, goal_type = ''report'', goal_statement = ''write the report'',
     goal_desired_outcome = ''the report is closed'',
     goal_subject_refs = [\<lparr>subj_system = ''crm'', subject_type = ''case'', subject_id = ''7'', subj_version = None\<rparr>],
     goal_success_criteria = [sc_criterion], goal_constraints = [], goal_owner_id = 7, goal_risk_tier = RT_LOW,
     goal_budget_limit = \<lparr>amount = 10, unit = COST_UNITS\<rparr>, goal_deadline = Aware 500,
     goal_input_payload = \<lparr>canonical = ''{}''\<rparr>, goal_delegation_id = None,
     goal_data_policy = \<lparr>maximum_classification = CONFIDENTIAL, allowed_regions = [], retention_days = 30\<rparr>,
     goal_execution_mode = SUPERVISED, goal_max_concurrent_runs = 1, goal_id = 2, goal_version = 1,
     goal_status = G_DRAFT, goal_created_at = Aware 1, goal_transitions = []\<rparr>"

text \<open>The store without its audit trail after each command.\<close>

definition remembered :: "string \<Rightarrow> uuid \<Rightarrow> store \<Rightarrow> store" where
  "remembered k i V = V\<lparr>idempotency := idempotency V @ [((1, k), i)],
     idempotency_digests := idempotency_digests V @ [((1, k), genesis_digest)]\<rparr>"

definition moved :: "string \<Rightarrow> string \<Rightarrow> string \<Rightarrow> int \<Rightarrow> StateTransition" where
  "moved a b reason t = \<lparr>from_status = a, to_status = b, occurred_at = Aware t, st_reason = reason, st_actor_id = 7\<rparr>"

lemmas lookup_run = get_defs lookup_record_def assert_tenant_def
lemmas move_run_defs = require_transition_def allowed_targets_def transition_record_def StateTransition_post_init_def

definition V1 :: store where
  "V1 = remembered ''create_goal:k1'' 2 (empty_store\<lparr>goals := [(2, sc_goal)]\<rparr>)"

lemma step1:
  "audits_ok A \<Longrightarrow> \<exists>A'. create_goal sc_app (sc_amb 1 2) (sc_ctx ''k1'') sc_goal0 (empty_store\<lparr>audits := A\<rparr>)
     = (Inr sc_goal, V1\<lparr>audits := A'\<rparr>)"
  by (simp add: create_goal_def Let_def tx_run sc_app_def sc_manifest_def sc_goal0_def build_goal_def
      BudgetAmount_post_init_def DataPolicy_post_init_def GoalContract_post_init_def sc_payload
      add_goal_def V1_def remembered_def empty_store_def sc_goal_def idem_key_def)

subsection \<open>Activation and the run\<close>

definition sc_active :: GoalContract where
  "sc_active = sc_goal\<lparr>goal_status := G_ACTIVE, goal_version := 2, goal_transitions := [moved ''draft'' ''active'' ''go'' 2]\<rparr>"

definition V2 :: store where
  "V2 = remembered ''activate_goal:k2'' 2 (V1\<lparr>goals := [(2, sc_active)]\<rparr>)"

lemma step2:
  "audits_ok A \<Longrightarrow> \<exists>A'. activate_goal (sc_amb 2 3) (sc_ctx ''k2'') \<lparr>ag_goal_id = 2, ag_reason = ''go''\<rparr> (V1\<lparr>audits := A\<rparr>)
     = (Inr sc_active, V2\<lparr>audits := A'\<rparr>)"
  by (simp add: activate_goal_def Let_def tx_run lookup_run move_run_defs GoalContract_transition_to_def
      GOAL_TRANSITIONS_def GoalContract_post_init_def save_goal_def V2_def V1_def remembered_def empty_store_def
      sc_active_def sc_goal_def idem_key_def sc_amb_def moved_def)

definition sc_run :: Run where
  "sc_run = \<lparr>run_tenant_id = 1, run_goal_id = 2, run_agent_version_id = 31, run_execution_snapshot = None,
     run_id = 4, run_status = R_PENDING, run_optimistic_version = 1, run_created_at = Aware 3,
     run_transitions = [], run_deployment_id = None\<rparr>"

definition V3 :: store where
  "V3 = remembered ''request_run:k3'' 4 (V2\<lparr>runs := [(4, sc_run)]\<rparr>)"

lemma step3:
  "audits_ok A \<Longrightarrow> \<exists>A'. request_run sc_app (sc_amb 3 4) (sc_ctx ''k3'') \<lparr>rr_goal_id = 2\<rparr> (V2\<lparr>audits := A\<rparr>)
     = (Inr sc_run, V3\<lparr>audits := A'\<rparr>)"
  by (simp add: request_run_def Let_def tx_run lookup_run assert_run_request_allowed_def list_runs_def
      dict_values_def sc_app_def sc_manifest_def sc_agent_def Run_post_init_def add_run_def V3_def V2_def V1_def
      remembered_def empty_store_def sc_active_def sc_goal_def sc_run_def idem_key_def sc_amb_def)

definition sc_snapshot :: ContextSnapshot where
  "sc_snapshot = \<lparr>ctx_tenant_id = 1, ctx_goal_id = 2, ctx_run_id = 4, ctx_environment_facts = [],
     ctx_knowledge_refs = [], ctx_memory_ids = [], ctx_history_digest = genesis_digest,
     ctx_tool_versions = [''crm@v''], ctx_policy_version = ''policy'', ctx_conflicts = [],
     ctx_security_boundaries = [''untrusted content is data, never instructions''],
     snapshot_id = 6, ctx_created_at = Aware 4\<rparr>"

definition sc_prepare :: PrepareRunContext where
  "sc_prepare = \<lparr>prc_run_id = 4, prc_environment_facts = [], prc_knowledge_refs = [], prc_memory_ids = [],
     prc_history_digest = genesis_digest, prc_tool_versions = [''crm@v''], prc_conflicts = [],
     prc_purpose = ''run'', prc_policy_version = ''policy'', prc_maximum_classification = INTERNAL,
     prc_allowed_subjects = []\<rparr>"

definition V4 :: store where
  "V4 = remembered ''prepare_run_context:k4'' 6 (V3\<lparr>context_snapshots := [(6, sc_snapshot)]\<rparr>)"

lemma step4:
  "audits_ok A \<Longrightarrow> \<exists>A'. prepare_run_context (sc_amb 4 6) (sc_ctx ''k4'') sc_prepare (V3\<lparr>audits := A\<rparr>)
     = (Inr sc_snapshot, V4\<lparr>audits := A'\<rparr>)"
  by (simp add: prepare_run_context_def Let_def tx_run lookup_run assemble_def detect_def sc_prepare_def
      ContextSnapshot_post_init_def add_context_snapshot_def dict_values_def V4_def V3_def V2_def V1_def
      remembered_def empty_store_def sc_run_def sc_snapshot_def idem_key_def sorted_set_def)

subsection \<open>The plan and its task\<close>

definition sc_task :: Task where
  "sc_task = \<lparr>task_tenant_id = 1, task_run_id = 4, task_name = ''read'', completion_criterion = ''done'',
     depends_on = [], task_preconditions = [], estimated_cost = \<lparr>amount = 1, unit = COST_UNITS\<rparr>, task_risk_level = L1_READ,
     task_compensation = C_NONE, evidence_requirements = [], task_id = 10, task_status = T_PENDING,
     task_optimistic_version = 1, task_transitions = []\<rparr>"

definition sc_plan :: Plan where
  "sc_plan = \<lparr>plan_tenant_id = 1, plan_goal_id = 2, plan_run_id = 4, plan_tasks = [sc_task], plan_version = 1,
     plan_id = 8\<rparr>"

definition sc_started :: Run where
  "sc_started = sc_run\<lparr>run_status := R_RUNNING, run_optimistic_version := 2,
     run_execution_snapshot := Some \<lparr>snap_plan_id = 8, snap_context_snapshot_id = 6, snap_agent_version_id = 31,
       snap_skill_versions = [], snap_tool_versions = [''crm@v''], snap_model_route = ''m'',
       snap_policy_version = ''policy''\<rparr>,
     run_transitions := [moved ''pending'' ''running'' ''validated Plan and immutable execution snapshot bound'' 5]\<rparr>"

definition sc_create_plan :: CreateValidatedPlan where
  "sc_create_plan = \<lparr>cvp_run_id = 4, cvp_tasks = [\<lparr>td_name = ''read'', td_completion_criterion = ''done'',
       td_depends_on = [], td_preconditions = [], td_estimated_cost = \<lparr>amount = 1, unit = COST_UNITS\<rparr>,
       td_risk_level = L1_READ, td_compensation = C_NONE, td_evidence_requirements = [], td_task_id = None\<rparr>],
     cvp_skill_versions = [], cvp_tool_versions = [''crm@v''], cvp_model_route = ''m'',
     cvp_policy_version = ''policy''\<rparr>"

definition V5 :: store where
  "V5 = remembered ''create_validated_plan:k5'' 8
     (V4\<lparr>plans := [(8, sc_plan)], tasks := [(10, sc_task)], runs := [(4, sc_started)]\<rparr>)"

lemmas V_defs = V4_def V3_def V2_def V1_def remembered_def empty_store_def

lemma step5:
  "audits_ok A \<Longrightarrow> \<exists>A'. create_validated_plan (sc_amb 5 8) (sc_ctx ''k5'') sc_create_plan (V4\<lparr>audits := A\<rparr>)
     = (Inr sc_plan, V5\<lparr>audits := A'\<rparr>)"
  by (simp add: create_validated_plan_def Let_def tx_run lookup_run sc_create_plan_def build_task_def
      Task_post_init_def Plan_post_init_def RunExecutionSnapshot_post_init_def Run_bind_execution_def
      Run_transition_to_def RUN_TRANSITIONS_def Run_post_init_def move_run_defs mutable_reference_def
      visit.simps dependencies_def get_context_snapshot_def add_plan_def put_task_def
      save_run_def sc_plan_def sc_task_def sc_started_def dict_values_def V5_def V_defs
      sc_run_def sc_snapshot_def idem_key_def sc_amb_def moved_def)

definition sc_running :: Task where
  "sc_running = sc_task\<lparr>task_status := T_RUNNING, task_optimistic_version := 3,
     task_transitions := [moved ''pending'' ''ready'' ''task dependencies satisfied'' 6,
       moved ''ready'' ''running'' ''task execution started'' 6]\<rparr>"

definition V6 :: store where
  "V6 = remembered ''start_task:k6'' 10 (V5\<lparr>tasks := [(10, sc_running)]\<rparr>)"

lemma step6:
  "audits_ok A \<Longrightarrow> \<exists>A'. start_task (sc_amb 6 12) (sc_ctx ''k6'') \<lparr>stt_task_id = 10\<rparr> (V5\<lparr>audits := A\<rparr>)
     = (Inr sc_running, V6\<lparr>audits := A'\<rparr>)"
  by (simp add: start_task_def Let_def tx_run lookup_run Task_transition_to_def TASK_TRANSITIONS_def
      Task_post_init_def move_run_defs save_task_def put_task_def sc_task_def sc_running_def V6_def V5_def V_defs
      idem_key_def sc_amb_def moved_def)

subsection \<open>The action\<close>

definition sc_action :: Action where
  "sc_action = \<lparr>action_tenant_id = 1, action_run_id = 4, action_task_id = 10, action_tool_name = ''crm'',
     action_tool_version = ''v'', action_operation = ''read'', action_resource_scope = ''case'',
     action_parameters = \<lparr>canonical = ''{}''\<rparr>, action_risk_level = L1_READ, action_idempotency_key = ''k7'',
     action_expected_effect = ''none'', action_classification = INTERNAL, action_execution_mode = SUPERVISED,
     action_id = 20, action_status = A_PROPOSED, action_optimistic_version = 1, action_transitions = []\<rparr>"

definition sc_propose :: ProposeAction where
  "sc_propose = \<lparr>pa_task_id = 10, pa_tool_name = ''crm'', pa_tool_version = ''v'', pa_operation = ''read'',
     pa_resource_scope = ''case'', pa_parameters = [], pa_risk_level = L1_READ, pa_expected_effect = ''none'',
     pa_classification = INTERNAL, pa_execution_mode = SUPERVISED\<rparr>"

definition V7 :: store where
  "V7 = remembered ''propose_action:k7'' 20 (V6\<lparr>actions := [(20, sc_action)]\<rparr>)"

lemma step7:
  "audits_ok A \<Longrightarrow> \<exists>A'. propose_action (sc_amb 7 20) (sc_ctx ''k7'') sc_propose (V6\<lparr>audits := A\<rparr>)
     = (Inr sc_action, V7\<lparr>audits := A'\<rparr>)"
  by (simp add: propose_action_def Let_def tx_run lookup_run sc_payload Action_post_init_def add_action_def dict_values_def
      sc_propose_def sc_action_def sc_task_def sc_running_def sc_started_def sc_run_def V7_def V6_def V5_def V_defs
      idem_key_def sc_amb_def moved_def)

text \<open>The authorized action, with the fields the next steps read.\<close>

definition sc_authorized :: Action where
  "sc_authorized = sc_action\<lparr>action_status := A_AUTHORIZED, action_optimistic_version := 2, action_transitions :=
     [moved ''proposed'' ''authorized'' ''execution-time policy policy allowed'' 8]\<rparr>"

lemma sc_action_fields [simp]:
  "action_status sc_action = A_PROPOSED" "action_tenant_id sc_action = 1" "action_id sc_action = 20"
  "action_run_id sc_action = 4" "action_optimistic_version sc_action = 1" "action_risk_level sc_action = L1_READ"
  "action_status sc_authorized = A_AUTHORIZED" "action_tenant_id sc_authorized = 1" "action_id sc_authorized = 20"
  "action_run_id sc_authorized = 4" "action_optimistic_version sc_authorized = 2"
  by (simp_all add: sc_action_def sc_authorized_def)

lemma sc_authorize: "Action_transition_to sc_action A_AUTHORIZED 7 ''execution-time policy policy allowed'' (Aware 8)
    = Inr sc_authorized"
  by (simp add: Action_transition_to_def ACTION_TRANSITIONS_def move_run_defs Action_post_init_def sc_authorized_def
      moved_def) (simp add: sc_action_def)

lemma sc_envelope:
  "\<exists>e. ActionExecutionEnvelope_from_action 23 sc_authorized 7 7 ''agent'' ''d'' ''b'' None ''policy'' (Aware 400) ''t'' = Inr e
     \<and> env_invocation_id e = 23"
proof -
  have "action_valid sc_authorized" by (simp add: action_valid_iff sc_authorized_def sc_action_def)
  then have "is_ok (ActionExecutionEnvelope_from_action 23 sc_authorized 7 7 ''agent'' ''d'' ''b'' None ''policy''
      (Aware 400) ''t'')" by (subst from_action_accepts) simp_all
  then show ?thesis by (auto simp: is_ok_iff dest: envelope_from_action_canonical)
qed

definition V8 :: store where
  "V8 = remembered ''authorize_action:k8'' 23 (V7\<lparr>actions := [(20, sc_authorized)]\<rparr>)"

definition sc_authorize_command :: AuthorizeActionAtExecutionTime where
  "sc_authorize_command = \<lparr>aa_action_id = 20, aa_policy_version = ''policy'', aa_policy_allowed = True,
     aa_policy_reason = ''ok'', aa_approval_id = None, aa_agent_identity = ''agent'', aa_delegation_ref = ''d'',
     aa_budget_ref = ''b'', aa_deadline = Aware 400, aa_traceparent = ''t''\<rparr>"

lemma step8:
  assumes "audits_ok A"
  shows "\<exists>A'. snd (authorize_action_at_execution_time sc_app (sc_amb 8 22) (sc_ctx ''k8'') sc_authorize_command
     (V7\<lparr>audits := A\<rparr>)) = V8\<lparr>audits := A'\<rparr>"
proof -
  from sc_envelope obtain e where e: "ActionExecutionEnvelope_from_action 23 sc_authorized 7 7 ''agent'' ''d'' ''b'' None
      ''policy'' (Aware 400) ''t'' = Inr e" "env_invocation_id e = 23" by blast
  with assms show ?thesis
    by (simp add: authorize_action_at_execution_time_def Let_def tx_run lookup_run sc_authorize_command_def
        legacy_denied_reason_def authorize_allowed_def WRITE_RISKS_def sc_app_def save_action_def
        V8_def V7_def V6_def V5_def V_defs idem_key_def andThen_def sc_authorize)
qed

definition sc_done :: Action where
  "sc_done = sc_action\<lparr>action_status := A_SUCCEEDED, action_optimistic_version := 4, action_transitions :=
     [moved ''proposed'' ''authorized'' ''execution-time policy policy allowed'' 8,
      moved ''authorized'' ''executing'' ''tool invocation started'' 9,
      moved ''executing'' ''succeeded'' ''tool receipt: r'' 9]\<rparr>"

definition sc_attempt :: ActionAttempt where
  "sc_attempt = \<lparr>att_tenant_id = 1, att_run_id = 4, att_action_id = 20, att_invocation_id = 23,
     att_status = AT_SUCCEEDED, att_idempotency_key = ''k9'', att_receipt_ref = ''r'',
     att_executor_identity = ''worker'', att_failure_reason = None, attempt_id = 24, att_recorded_at = Aware 9\<rparr>"

definition V9 :: store where
  "V9 = remembered ''record_action_attempt:k9'' 20
     (V8\<lparr>actions := [(20, sc_done)], action_attempts := [(24, sc_attempt)]\<rparr>)"

definition sc_record_attempt :: RecordActionAttempt where
  "sc_record_attempt = \<lparr>raa_action_id = 20, raa_invocation_id = 23, raa_status = AT_SUCCEEDED,
     raa_receipt_ref = ''r'', raa_executor_identity = ''worker'', raa_failure_reason = None\<rparr>"

lemma step9:
  "audits_ok A \<Longrightarrow> \<exists>A'. record_action_attempt (sc_amb 9 24) (sc_ctx ''k9'') sc_record_attempt (V8\<lparr>audits := A\<rparr>)
     = (Inr sc_done, V9\<lparr>audits := A'\<rparr>)"
  by (simp add: record_action_attempt_def Let_def tx_run lookup_run Action_transition_to_def ACTION_TRANSITIONS_def
      Action_post_init_def ActionAttempt_post_init_def move_run_defs sc_record_attempt_def action_target_def
      or_text_def or_failure_def save_action_def add_action_attempt_def dict_values_def V9_def V8_def V7_def V6_def
      V5_def V_defs idem_key_def sc_authorized_def sc_action_def sc_done_def sc_attempt_def moved_def)

definition sc_completed :: Task where
  "sc_completed = sc_running\<lparr>task_status := T_SUCCEEDED, task_optimistic_version := 4,
     task_transitions := task_transitions sc_running @ [moved ''running'' ''succeeded'' ''done'' 10]\<rparr>"

definition V10 :: store where
  "V10 = remembered ''complete_task:k10'' 10 (V9\<lparr>tasks := [(10, sc_completed)]\<rparr>)"

lemmas V_more_defs = V9_def V8_def V7_def V6_def V5_def V_defs

lemma step10:
  "audits_ok A \<Longrightarrow> \<exists>A'. complete_task (sc_amb 10 26) (sc_ctx ''k10'')
       \<lparr>cpt_task_id = 10, cpt_succeeded = True, cpt_reason = ''done''\<rparr> (V9\<lparr>audits := A\<rparr>)
     = (Inr sc_completed, V10\<lparr>audits := A'\<rparr>)"
  by (simp add: complete_task_def Let_def tx_run lookup_run Task_transition_to_def TASK_TRANSITIONS_def
      Task_post_init_def move_run_defs save_task_def put_task_def sc_task_def sc_running_def sc_completed_def
      V10_def V_more_defs idem_key_def moved_def)

subsection \<open>Evidence, outcome and the end\<close>

definition sc_evidence :: Evidence where
  "sc_evidence = \<lparr>ev_tenant_id = 1, ev_run_id = 4, ev_action_id = 20, ev_source = ''crm'',
     ev_source_identity = ''crm-1'', ev_capture_method = AUTHORITATIVE_READBACK, ev_reference = ''s3://e'',
     ev_observed_state = ''closed'', ev_content_digest = sha256_hex_bytes [1, 2, 3], ev_classification = INTERNAL,
     ev_valid_from = Aware 11, ev_valid_until = Aware 1000, ev_integrity = EI_VERIFIED,
     ev_source_reference = ''crm://7'', ev_subject_refs = goal_subject_refs sc_goal,
     ev_retained_until = Some (Aware (11 + days 30)), ev_artifact_version_id = None,
     evidence_id = capture_id (sc_ctx ''k11''), ev_captured_at = Aware 11\<rparr>"

definition sc_saga :: EvidenceCaptureSaga where
  "sc_saga = \<lparr>saga_tenant_id = 1, saga_evidence_id = capture_id (sc_ctx ''k11''), saga_run_id = 4,
     saga_action_id = 20, saga_criterion_id = ''closed'', saga_source = ''crm'', saga_artifact_uri = ''s3://e'',
     saga_expected_digest = sha256_hex_bytes [1, 2, 3],
     saga_definition = \<lparr>def_source = ''crm'', def_source_identity = ''crm-1'', def_source_reference = ''crm://7'',
       def_observed_state = ''closed'', def_captured_at = Aware 11, def_valid_until = Aware 1000,
       def_retained_until = Aware (11 + days 30), def_classification = INTERNAL, def_size_bytes = 3,
       def_content_type = ''json'', def_subject_refs = goal_subject_refs sc_goal\<rparr>,
     saga_status = EC_COMMITTED, saga_failure_reason = None\<rparr>"

definition V11 :: store where
  "V11 = remembered ''capture_authoritative_evidence:k11'' (capture_id (sc_ctx ''k11''))
     (V10\<lparr>evidence := [(evidence_id sc_evidence, sc_evidence)],
       evidence_capture_sagas := [(evidence_id sc_evidence, sc_saga)]\<rparr>)"

definition sc_capture :: CaptureAuthoritativeEvidence where
  "sc_capture = \<lparr>cae_run_id = 4, cae_action_id = 20, cae_criterion_id = ''closed'', cae_source = ''crm'',
     cae_declared_classification = INTERNAL, cae_content_type = ''json''\<rparr>"

lemma step11:
  "audits_ok A \<Longrightarrow> \<exists>A'. capture_authoritative_evidence sc_app (sc_amb 11 28) (sc_ctx ''k11'') sc_capture (V10\<lparr>audits := A\<rparr>)
     = (Inr sc_evidence, V11\<lparr>audits := A'\<rparr>)"
  by (simp add: capture_authoritative_evidence_def new_capture_def prepare_capture_def commit_evidence_capture_def
      saga_evidence_def decode_subject_def SubjectRef_post_init_def Let_def tx_run lookup_run andThen_def
      sc_app_def sc_artifacts_def sc_observation_def sc_capture_def admit_def max_rank_def obs_content_digest_def
      Evidence_post_init_def sha256_hex_bytes_is_hex start_evidence_capture_def add_evidence_def
      complete_evidence_capture_def get_evidence_capture_def V11_def V10_def V_more_defs idem_key_def
      sc_started_def sc_run_def sc_active_def sc_goal_def sc_criterion_def sc_done_def sc_evidence_def sc_saga_def
      days_def seconds_def RANK_def)

definition sc_outcome :: Outcome where
  "sc_outcome = \<lparr>out_tenant_id = 1, out_goal_id = 2, out_run_id = 4, out_criterion_id = ''closed'',
     out_verifier_version = ''trusted-readback@1'', out_status = O_VERIFIED, out_evidence = [sc_evidence],
     outcome_id = 30, out_verified_at = Some (Aware 12)\<rparr>"

definition V12 :: store where
  "V12 = remembered ''verify_outcome:k12'' 30 (V11\<lparr>outcomes := [(30, sc_outcome)]\<rparr>)"

lemma step12:
  "audits_ok A \<Longrightarrow> \<exists>A'. verify_outcome sc_app (sc_amb 12 30) (sc_ctx ''k12'')
       \<lparr>vo_run_id = 4, vo_criterion_id = ''closed'', vo_evidence_ids = [capture_id (sc_ctx ''k11'')]\<rparr> (V11\<lparr>audits := A\<rparr>)
     = (Inr sc_outcome, V12\<lparr>audits := A'\<rparr>)"
  by (simp add: verify_outcome_def app_outcome_verifier_def verify_def verification_candidate_def Let_def tx_run
      lookup_run sc_app_def sc_artifacts_def sc_observation_def observation_mismatch_def obs_content_digest_def
      criterion_status_def Outcome_post_init_def evidence_ids_def add_outcome_def V12_def V11_def V10_def
      V_more_defs idem_key_def sc_started_def sc_run_def sc_active_def sc_goal_def sc_criterion_def
      sc_evidence_def sc_outcome_def)

definition sc_succeeded :: Run where
  "sc_succeeded = sc_started\<lparr>run_status := R_SUCCEEDED, run_optimistic_version := 3, run_transitions :=
     run_transitions sc_started @ [moved ''running'' ''succeeded'' ''all required Outcomes verified'' 13]\<rparr>"

definition V13 :: store where
  "V13 = remembered ''complete_run:k13'' 4 (V12\<lparr>runs := [(4, sc_succeeded)]\<rparr>)"

lemma step13:
  "audits_ok A \<Longrightarrow> \<exists>A'. complete_run (sc_amb 13 32) (sc_ctx ''k13'') \<lparr>cr_run_id = 4\<rparr> (V12\<lparr>audits := A\<rparr>)
     = (Inr sc_succeeded, V13\<lparr>audits := A'\<rparr>)"
  by (simp add: complete_run_def completion_target_def required_criteria_def verified_criteria_def Let_def tx_run
      lookup_run list_tasks_def list_actions_def list_outcomes_def dict_values_def Run_transition_to_def
      RUN_TRANSITIONS_def Run_post_init_def move_run_defs save_run_def V13_def V12_def V11_def V10_def V_more_defs
      idem_key_def sc_succeeded_def sc_started_def sc_run_def sc_active_def sc_goal_def sc_criterion_def
      sc_completed_def sc_running_def sc_task_def sc_done_def sc_outcome_def moved_def image_iff)

definition sc_satisfied :: GoalContract where
  "sc_satisfied = sc_active\<lparr>goal_status := G_SATISFIED, goal_version := 3, goal_transitions :=
     goal_transitions sc_active @ [moved ''active'' ''satisfied'' ''done'' 14]\<rparr>"

definition V14 :: store where
  "V14 = remembered ''finish_goal:k14'' 2 (V13\<lparr>goals := [(2, sc_satisfied)]\<rparr>)"

lemma step14:
  "audits_ok A \<Longrightarrow> \<exists>A'. satisfy_or_fail_goal (sc_amb 14 34) (sc_ctx ''k14'')
       \<lparr>sfg_goal_id = 2, sfg_satisfied = True, sfg_reason = ''done''\<rparr> (V13\<lparr>audits := A\<rparr>)
     = (Inr sc_satisfied, V14\<lparr>audits := A'\<rparr>)"
  by (simp add: satisfy_or_fail_goal_def goal_verdict_def required_criteria_def verified_criteria_def Let_def tx_run
      lookup_run list_runs_def list_outcomes_def dict_values_def GoalContract_transition_to_def GOAL_TRANSITIONS_def
      GoalContract_post_init_def move_run_defs save_goal_def V14_def V13_def V12_def V11_def V10_def V_more_defs
      idem_key_def sc_succeeded_def sc_started_def sc_run_def sc_active_def sc_satisfied_def sc_goal_def
      sc_criterion_def sc_outcome_def moved_def)

subsection \<open>The run is reachable\<close>

definition reached :: "gateway_state \<Rightarrow> store \<Rightarrow> bool" where
  "reached g V = (\<exists>A. reachable sc_app \<lparr>w_store = V\<lparr>audits := A\<rparr>, w_gateway = g\<rparr>)"

lemma reached_empty: "reached g empty_store"
  unfolding reached_def reachable_def by (intro exI [of _ "[]"] exI [of _ g]) (simp add: empty_store_def)

lemma reached_step:
  assumes "reached g V" and "dispatch sc_app (sc_amb t n) (sc_ctx key) c = on_store f"
    and "\<And>A. audits_ok A \<Longrightarrow> \<exists>A'. snd (f (V\<lparr>audits := A\<rparr>)) = V'\<lparr>audits := A'\<rparr>"
    and "\<And>A. fresh_id (V\<lparr>audits := A\<rparr>) (of_nat n)"
  shows "reached g V'"
proof -
  from assms(1) obtain A where r: "reachable sc_app \<lparr>w_store = V\<lparr>audits := A\<rparr>, w_gateway = g\<rparr>"
    by (auto simp: reached_def)
  then have "audits_ok A" using reachable_ok by (fastforce simp: world_ok_def audit_ok_audits)
  with assms(3) obtain A' where A': "snd (f (V\<lparr>audits := A\<rparr>)) = V'\<lparr>audits := A'\<rparr>" by blast
  have "app_step sc_app \<lparr>w_store = V\<lparr>audits := A\<rparr>, w_gateway = g\<rparr> \<lparr>w_store = V'\<lparr>audits := A'\<rparr>, w_gateway = g\<rparr>"
    using app_command [of "\<lparr>w_store = V\<lparr>audits := A\<rparr>, w_gateway = g\<rparr>" "sc_amb t n" sc_app "sc_ctx key" c]
      assms(2,4) A' by (simp add: on_store_def)
  with r show ?thesis unfolding reached_def reachable_def by (blast intro: rtranclp.rtrancl_into_rtrancl)
qed

lemma sndI: "\<exists>A'. r = (x, f A') \<Longrightarrow> \<exists>A'. snd r = f A'"
  by auto

lemmas fresh_defs = fresh_id_def V14_def V13_def V12_def V11_def V10_def V_more_defs

lemma reached_V1: "reached g V1"
  by (rule reached_step [OF reached_empty dispatch.simps(1)]) (erule step1 [THEN sndI], simp add: fresh_defs)

lemma reached_V2: "reached g V2"
  by (rule reached_step [OF reached_V1 dispatch.simps(2)]) (erule step2 [THEN sndI], simp add: fresh_defs)

lemma reached_V3: "reached g V3"
  by (rule reached_step [OF reached_V2 dispatch.simps(3)]) (erule step3 [THEN sndI], simp add: fresh_defs)

text \<open>The first command leaves an audit event.\<close>

lemma first_event: "list_audit_events (snd (create_goal sc_app (sc_amb 1 2) (sc_ctx ''k1'') sc_goal0 empty_store)) 1 \<noteq> []"
proof -
  let ?s = "snd (create_goal sc_app (sc_amb 1 2) (sc_ctx ''k1'') sc_goal0 (empty_store\<lparr>audits := []\<rparr>))"
  have "\<exists>e. audits ?s = [e] \<and> ae_tenant_id e = 1"
    by (simp add: create_goal_def Let_def tx_run sc_app_def sc_manifest_def sc_goal0_def build_goal_def
        BudgetAmount_post_init_def DataPolicy_post_init_def GoalContract_post_init_def sc_payload
        add_goal_def empty_store_def idem_key_def audit_def)
  moreover have "empty_store\<lparr>audits := []\<rparr> = empty_store" by (simp add: empty_store_def)
  ultimately show ?thesis by (auto simp: list_audit_events_def)
qed

lemma reached_V9: "reached g V9"
proof -
  have "reached g V4"
    by (rule reached_step [OF reached_V3 dispatch.simps(4)]) (erule step4 [THEN sndI], simp add: fresh_defs)
  then have "reached g V5"
    by (rule reached_step [OF _ dispatch.simps(5)]) (erule step5 [THEN sndI], simp add: fresh_defs)
  then have "reached g V6"
    by (rule reached_step [OF _ dispatch.simps(6)]) (erule step6 [THEN sndI], simp add: fresh_defs)
  then have "reached g V7"
    by (rule reached_step [OF _ dispatch.simps(8)]) (erule step7 [THEN sndI], simp add: fresh_defs)
  then have "reached g V8"
    by (rule reached_step [OF _ dispatch.simps(11)]) (erule step8, simp add: fresh_defs)
  then show ?thesis
    by (rule reached_step [OF _ dispatch.simps(13)]) (erule step9 [THEN sndI], simp add: fresh_defs)
qed

lemma reached_V14: "reached g V14"
proof -
  have "reached g V10"
    by (rule reached_step [OF reached_V9 dispatch.simps(7)]) (erule step10 [THEN sndI], simp add: fresh_defs)
  then have "reached g V11"
    by (rule reached_step [OF _ dispatch.simps(15)]) (erule step11 [THEN sndI], simp add: fresh_defs)
  then have "reached g V12"
    by (rule reached_step [OF _ dispatch.simps(18)]) (erule step12 [THEN sndI], simp add: fresh_defs)
  then have "reached g V13"
    by (rule reached_step [OF _ dispatch.simps(19)]) (erule step13 [THEN sndI], simp add: fresh_defs)
  then show ?thesis
    by (rule reached_step [OF _ dispatch.simps(20)]) (erule step14 [THEN sndI], simp add: fresh_defs)
qed

end
