(* ===== verification/Reconciliation.thy ===== *)
theory Reconciliation
  imports Gateway
begin

text \<open>
  \<open>packages/gateways/src/autonoesis_gateways/tool_reconciliation.py\<close>: the timeout watchdog, the
  reconciliation of unknown actions and compensation. The two queries of the reconciler that a
  deployment overrides are arguments; the class's own versions are \<open>check_external_effect\<close> and
  \<open>confirm_no_side_effect\<close>.
\<close>

datatype ReconciliationResult = RR_SUCCEEDED | RR_FAILED | RR_STILL_UNKNOWN

record ReconciliationRecord =
  reconciliation_id :: uuid
  recon_action_id :: uuid
  recon_result :: ReconciliationResult
  recon_evidence_source :: string
  recon_evidence_reference :: string
  recon_observed_state :: string
  recon_escalated :: bool
  recon_resolved_at :: datetime

subsection \<open>TimeoutWatchdog\<close>

definition watchdog_check :: "Action \<Rightarrow> datetime option \<Rightarrow> int \<Rightarrow> Action result" where
  "watchdog_check action deadline now =
     bindE (case deadline of None \<Rightarrow> Inr False
       | Some d \<Rightarrow> bindE (dt_geE d (Aware now)) (\<lambda>in_time. Inr (\<not> in_time))) (\<lambda>late.
     if late \<and> action_status action \<in> {A_PROPOSED, A_AUTHORIZED, A_EXECUTING}
     then default_transition now A_UNKNOWN action
     else Inr action)"

text \<open>The awaited coroutine finishes, raises, or is still running at the timeout.\<close>

datatype awaited = Finished | Raised error | TimedOut

definition with_timeout :: "awaited \<Rightarrow> Action option \<Rightarrow> int \<Rightarrow> Action option result" where
  "with_timeout coro on_timeout now =
     (let timeout = (case on_timeout of None \<Rightarrow> Inr None
        | Some action \<Rightarrow> bindE (default_transition now A_UNKNOWN action) (\<lambda>a. Inr (Some a))) in
      case coro of
        Finished \<Rightarrow> Inr None
      | TimedOut \<Rightarrow> timeout
      | Raised (TimeoutError _) \<Rightarrow> timeout
      | Raised e \<Rightarrow> Inl e)"

subsection \<open>UnknownReconciler\<close>

definition check_external_effect :: "Action \<Rightarrow> string option" where
  "check_external_effect action = None"

definition confirm_no_side_effect :: "Action \<Rightarrow> bool" where
  "confirm_no_side_effect action = False"

definition reconcile ::
  "(Action \<Rightarrow> string option) \<Rightarrow> (Action \<Rightarrow> bool) \<Rightarrow> uuid \<Rightarrow> Action \<Rightarrow> bool \<Rightarrow> bool \<Rightarrow> int
     \<Rightarrow> (Action \<times> ReconciliationRecord) result" where
  "reconcile external absent new_id action check_external idempotency_check now =
     (let entry = \<lparr>reconciliation_id = new_id, recon_action_id = action_id action,
        recon_result = RR_STILL_UNKNOWN, recon_evidence_source = [], recon_evidence_reference = [],
        recon_observed_state = [], recon_escalated = False, recon_resolved_at = Aware now\<rparr> in
     thenE (raise_if (action_status action \<noteq> A_UNKNOWN) (ValueError ''only UNKNOWN actions can be reconciled''))
    (case (if check_external then external action else None) of
       Some found \<Rightarrow> bindE (default_transition now A_SUCCEEDED action) (\<lambda>a.
         Inr (a, entry\<lparr>recon_result := RR_SUCCEEDED, recon_evidence_source := ''external_system'',
           recon_evidence_reference := found, recon_observed_state := ''side_effect_confirmed''\<rparr>))
     | None \<Rightarrow>
         if idempotency_check \<and> absent action then
           bindE (default_transition now A_FAILED action) (\<lambda>a.
           Inr (a, entry\<lparr>recon_result := RR_FAILED, recon_evidence_source := ''external_system'',
             recon_evidence_reference := ''idempotency_check'', recon_observed_state := ''no_side_effect''\<rparr>))
         else Inr (action, entry\<lparr>recon_escalated := True\<rparr>)))"

subsection \<open>CompensationExecutor\<close>

definition compensate :: "Action \<Rightarrow> string \<Rightarrow> json option \<Rightarrow> int \<Rightarrow> Action result" where
  "compensate action reason plan now =
     thenE (raise_if (plan = None)
        (ValueError (''no compensation plan provided for action '' @ str_uuid (action_id action))))
       (default_transition now A_FAILED action)"

subsection \<open>What they do\<close>

text \<open>
  Reconciling an unknown action never fails and resolves it exactly by the evidence: it succeeds when
  the external system shows the effect, fails when the effect is confirmed absent, and otherwise stays
  unknown and is escalated; the three answers exclude each other, and an action in any other state is
  refused.
\<close>

lemma reconcile_by_evidence:
  assumes "action_valid action"
  shows "(action_status action \<noteq> A_UNKNOWN \<longrightarrow>
        reconcile external absent i action ce ic now = Inl (ValueError ''only UNKNOWN actions can be reconciled''))
     \<and> (action_status action = A_UNKNOWN \<longrightarrow> (\<exists>a entry. reconcile external absent i action ce ic now = Inr (a, entry)
        \<and> same_action action a
        \<and> (action_status a = A_SUCCEEDED \<longleftrightarrow> ce \<and> external action \<noteq> None)
        \<and> (action_status a = A_FAILED \<longleftrightarrow> \<not> (ce \<and> external action \<noteq> None) \<and> ic \<and> absent action)
        \<and> (action_status a = A_UNKNOWN \<longleftrightarrow> recon_escalated entry)
        \<and> (action_status a = A_SUCCEEDED \<longrightarrow> Some (recon_evidence_reference entry) = external action)
        \<and> (action_status a = A_SUCCEEDED \<longleftrightarrow> recon_result entry = RR_SUCCEEDED)
        \<and> (action_status a = A_FAILED \<longleftrightarrow> recon_result entry = RR_FAILED)))"
proof (cases "action_status action = A_UNKNOWN")
  case True
  have "\<exists>a. default_transition now t action = Inr a \<and> same_action action a \<and> action_status a = t"
    if "t \<in> {A_SUCCEEDED, A_FAILED}" for t
    using default_transition_ok [OF assms, of t now] default_transition_Inr [of now t action] True that
    by (auto simp: action_targets)
  then obtain s f where "default_transition now A_SUCCEEDED action = Inr s" "same_action action s"
      "action_status s = A_SUCCEEDED" "default_transition now A_FAILED action = Inr f"
      "same_action action f" "action_status f = A_FAILED" by (metis insertCI)
  with True show ?thesis by (cases "external action") (auto simp: reconcile_def Let_def)
qed (simp add: reconcile_def Let_def)

lemma reconcile_by_evidence_instance:
  "\<exists>a entry. reconcile check_external_effect confirm_no_side_effect 90 (sample_action\<lparr>action_status := A_UNKNOWN\<rparr>)
     True True 5 = Inr (a, entry) \<and> action_status a = A_UNKNOWN \<and> recon_escalated entry"
proof -
  have "action_valid (sample_action\<lparr>action_status := A_UNKNOWN\<rparr>)" by code_simp
  from reconcile_by_evidence [OF this, of check_external_effect confirm_no_side_effect 90 True True 5]
  show ?thesis by (auto simp: check_external_effect_def confirm_no_side_effect_def reconcile_def Let_def)
qed

text \<open>
  The watchdog lists proposed and authorized among the states it moves to unknown, but the transition
  table has no such move: on a late proposed or authorized action it raises.
\<close>

theorem watchdog_raises_before_execution:
  assumes "action_status action \<in> {A_PROPOSED, A_AUTHORIZED}" and "deadline < now"
  shows "\<exists>m. watchdog_check action (Some (Aware deadline)) now = Inl (InvalidStateTransition m)"
proof -
  have "A_UNKNOWN \<notin> set (allowed_targets ACTION_TRANSITIONS (action_status action))"
    using assms(1) by (auto simp: action_targets)
  with assms show ?thesis
    by (auto simp: watchdog_check_def default_transition_def Action_transition_to_def
        require_transition_def)
qed

lemma watchdog_executing:
  "action_valid action \<Longrightarrow> action_status action = A_EXECUTING \<Longrightarrow> deadline < now \<Longrightarrow>
     \<exists>a. watchdog_check action (Some (Aware deadline)) now = Inr a \<and> action_status a = A_UNKNOWN"
  using default_transition_ok [of action A_UNKNOWN now] default_transition_Inr [of now A_UNKNOWN action]
  by (auto simp: watchdog_check_def action_targets)

text \<open>
  Compensation ends in failed, which only executing and unknown actions can reach: an action whose side
  effect succeeded, the case compensation is for, is refused.
\<close>

theorem compensate_refuses_succeeded:
  assumes "action_status action = A_SUCCEEDED"
  shows "\<exists>m. compensate action reason (Some plan) now = Inl (InvalidStateTransition m)"
proof -
  have "A_FAILED \<notin> set (allowed_targets ACTION_TRANSITIONS (action_status action))"
    using assms by (auto simp: action_targets)
  then show ?thesis
    by (auto simp: compensate_def default_transition_def Action_transition_to_def require_transition_def)
qed

end
