(* ===== verification/Memory.thy ===== *)
theory Memory
  imports Context_Assembly Kill_Switch
begin

text \<open>
  \<open>packages/memory/src/autonoesis_memory/__init__.py\<close>: the write gate, the ledger, the in-memory
  store, deletion propagation and the rebuildable vector index.
\<close>

subsection \<open>Write gate\<close>

datatype WriteDecision = WD_ACCEPT | WD_REJECT | WD_MERGE

record WriteGateResult =
  wg_decision :: WriteDecision
  wg_reason :: string
  wg_existing_record_id :: "uuid option"

definition gate_reject :: "string \<Rightarrow> WriteGateResult" where
  "gate_reject reason = \<lparr>wg_decision = WD_REJECT, wg_reason = reason, wg_existing_record_id = None\<rparr>"

text \<open>The loop over the existing records.\<close>

fun gate_compare :: "MemoryRecord \<Rightarrow> MemoryRecord list \<Rightarrow> WriteGateResult" where
  "gate_compare candidate [] =
     \<lparr>wg_decision = WD_ACCEPT, wg_reason = ''new memory accepted'', wg_existing_record_id = None\<rparr>"
| "gate_compare candidate (ex # existing) =
     (if set (mem_conflict_keys ex) \<inter> set (mem_conflict_keys candidate) \<noteq> {}
         \<and> mem_content ex \<noteq> mem_content candidate
      then \<lparr>wg_decision = WD_REJECT, wg_reason = ''candidate conflicts with stable memory'',
             wg_existing_record_id = Some (memory_id ex)\<rparr>
      else if mem_provenance ex = mem_provenance candidate \<and> memory_id ex \<noteq> memory_id candidate
      then \<lparr>wg_decision = WD_MERGE, wg_reason = ''merging update from same provenance'',
             wg_existing_record_id = Some (memory_id ex)\<rparr>
      else gate_compare candidate existing)"

definition gate_evaluate ::
  "rat \<Rightarrow> MemoryRecord \<Rightarrow> MemoryRecord list \<Rightarrow> string list \<Rightarrow> int \<Rightarrow> WriteGateResult" where
  "gate_evaluate min_confidence candidate existing approver_roles now =
     (if mem_status candidate \<noteq> M_PROPOSED then gate_reject ''only observations may enter the gate''
      else if mem_confidence candidate < min_confidence then gate_reject ''confidence below threshold''
      else if mem_source_trust candidate = UNTRUSTED
          \<or> set (mem_provenance candidate) \<inter> {''untrusted'', ''unknown''} \<noteq> {}
      then gate_reject ''untrusted provenance''
      else if dt_le (mem_expires_at candidate) (Aware now) then gate_reject ''memory TTL has expired''
      else if (mem_contains_pii candidate \<or> mem_classification candidate = RESTRICTED)
          \<and> set approver_roles \<inter> {''privacy_reviewer'', ''data_steward''} = {}
      then gate_reject ''PII requires privacy approval''
      else gate_compare candidate existing)"

subsection \<open>Ledger and store\<close>

datatype LedgerEntryKind = LE_WRITE | LE_MERGE | LE_DELETE

record LedgerEntry =
  le_entry_id :: uuid
  le_memory_id :: uuid
  le_kind :: LedgerEntryKind
  le_tenant_id :: uuid
  le_actor_id :: uuid
  le_recorded_at :: datetime
  le_metadata :: "(string \<times> string) list"

record memory_state =
  ms_records :: "(uuid \<times> MemoryRecord) list"
  ms_ledger :: "LedgerEntry list"

definition ledger_record :: "LedgerEntry \<Rightarrow> memory_state \<Rightarrow> memory_state" where
  "ledger_record entry s = s\<lparr>ms_ledger := ms_ledger s @ [entry]\<rparr>"

definition ledger_history :: "memory_state \<Rightarrow> uuid \<Rightarrow> LedgerEntry list" where
  "ledger_history s key = filter (\<lambda>e. le_memory_id e = key) (ms_ledger s)"

definition memory_store :: "MemoryRecord \<Rightarrow> memory_state \<Rightarrow> memory_state result" where
  "memory_store m s =
     thenE (raise_if (mem_status m \<noteq> M_STABLE)
        (PermissionError ''only Write Gate output can enter stable memory''))
       (Inr (s\<lparr>ms_records := AList.update (memory_id m) m (ms_records s)\<rparr>))"

definition memory_get :: "memory_state \<Rightarrow> uuid \<Rightarrow> MemoryRecord option" where
  "memory_get s key = map_of (ms_records s) key"

definition memory_delete :: "uuid \<Rightarrow> memory_state \<Rightarrow> memory_state" where
  "memory_delete key s = s\<lparr>ms_records := AList.delete key (ms_records s)\<rparr>"

definition memory_search :: "memory_state \<Rightarrow> uuid \<Rightarrow> string \<Rightarrow> nat \<Rightarrow> MemoryRecord list" where
  "memory_search s tenant context limit = take limit
     (filter (\<lambda>r. mem_tenant_id r = tenant \<and> contains_text (lower (mem_content r)) (lower context))
       (dict_values (ms_records s)))"

definition memory_write ::
  "rat \<Rightarrow> MemoryRecord \<Rightarrow> uuid \<Rightarrow> MemoryRecord list \<Rightarrow> string list \<Rightarrow> uuid \<Rightarrow> int \<Rightarrow> memory_state
     \<Rightarrow> (MemoryRecord \<times> memory_state) result" where
  "memory_write min_confidence candidate actor existing approver_roles entry_id now s =
     (let decision = gate_evaluate min_confidence candidate existing approver_roles now in
     thenE (raise_if (wg_decision decision = WD_REJECT) (PermissionError (wg_reason decision)))
    (bindE (MemoryRecord_stabilize candidate) (\<lambda>stable.
     bindE (memory_store stable s) (\<lambda>s1.
     Inr (stable, ledger_record \<lparr>le_entry_id = entry_id, le_memory_id = memory_id stable,
       le_kind = (if wg_decision decision = WD_MERGE then LE_MERGE else LE_WRITE),
       le_tenant_id = mem_tenant_id stable, le_actor_id = actor, le_recorded_at = Aware now,
       le_metadata = [(''source_memory_id'', case wg_existing_record_id decision of None \<Rightarrow> []
           | Some i \<Rightarrow> str_uuid i),
         (''classification'', DataClassification_value (mem_classification stable))]\<rparr> s1)))))"

definition cascade_delete :: "uuid \<Rightarrow> uuid \<Rightarrow> uuid \<Rightarrow> uuid \<Rightarrow> int \<Rightarrow> memory_state \<Rightarrow> nat \<times> memory_state" where
  "cascade_delete key actor tenant entry_id now s =
     (case memory_get s key of
        None \<Rightarrow> (0, s)
      | Some _ \<Rightarrow> (1, ledger_record \<lparr>le_entry_id = entry_id, le_memory_id = key, le_kind = LE_DELETE,
          le_tenant_id = tenant, le_actor_id = actor, le_recorded_at = Aware now, le_metadata = []\<rparr>
          (memory_delete key s)))"

subsection \<open>Vector index\<close>

record VectorProjection =
  vp_tenant_id :: uuid
  vp_memory_id :: uuid
  vp_content_digest :: string
  vp_index_version :: string

definition index_rebuild :: "MemoryRecord list \<Rightarrow> string \<Rightarrow> (uuid \<times> VectorProjection) list" where
  "index_rebuild records index_version =
     foldl (\<lambda>d item. AList.update (memory_id item)
        \<lparr>vp_tenant_id = mem_tenant_id item, vp_memory_id = memory_id item,
         vp_content_digest = sha256_hexdigest (mem_content item), vp_index_version = index_version\<rparr> d)
       [] (filter (\<lambda>item. mem_status item = M_STABLE) records)"

definition index_delete :: "uuid \<Rightarrow> (uuid \<times> VectorProjection) list \<Rightarrow> (uuid \<times> VectorProjection) list" where
  "index_delete key entries = AList.delete key entries"

subsection \<open>What reaches stable memory\<close>

lemma gate_compare_admits:
  "wg_decision (gate_compare c es) \<noteq> WD_REJECT \<Longrightarrow> wg_decision (gate_compare c es) = WD_ACCEPT \<Longrightarrow>
     (\<forall>e\<in>set es. (set (mem_conflict_keys e) \<inter> set (mem_conflict_keys c) = {} \<or> mem_content e = mem_content c)
        \<and> (mem_provenance e \<noteq> mem_provenance c \<or> memory_id e = memory_id c))"
  by (induction es) (auto split: if_splits)

lemma gate_admits:
  "wg_decision (gate_evaluate mc c es roles now) \<noteq> WD_REJECT \<Longrightarrow>
     mem_status c = M_PROPOSED \<and> mc \<le> mem_confidence c \<and> mem_source_trust c \<noteq> UNTRUSTED
     \<and> ''untrusted'' \<notin> set (mem_provenance c) \<and> ''unknown'' \<notin> set (mem_provenance c)
     \<and> dt_lt (Aware now) (mem_expires_at c)
     \<and> (mem_contains_pii c \<or> mem_classification c = RESTRICTED \<longrightarrow>
        ''privacy_reviewer'' \<in> set roles \<or> ''data_steward'' \<in> set roles)"
  by (auto simp: gate_evaluate_def gate_reject_def dt_le_def dt_lt_def split: if_splits)

text \<open>The steps of the memory component; \<open>memory_reachable\<close> starts from an empty store.\<close>

inductive memory_step :: "rat \<Rightarrow> memory_state \<Rightarrow> memory_state \<Rightarrow> bool" for mc where
  ms_write: "memory_write mc c actor es roles i now s = Inr (m, s') \<Longrightarrow> memory_step mc s s'"
| ms_cascade: "cascade_delete key actor tenant i now s = (n, s') \<Longrightarrow> memory_step mc s s'"

definition memory_ok :: "rat \<Rightarrow> memory_state \<Rightarrow> bool" where
  "memory_ok mc s = (\<forall>k m. map_of (ms_records s) k = Some m \<longrightarrow> memory_id m = k \<and> mem_status m = M_STABLE
     \<and> memory_valid m \<and> mc \<le> mem_confidence m \<and> mem_source_trust m \<noteq> UNTRUSTED
     \<and> (\<exists>e\<in>set (ms_ledger s). le_memory_id e = k \<and> le_kind e \<noteq> LE_DELETE \<and> le_tenant_id e = mem_tenant_id m))"

lemma memory_write_Inr:
  assumes "memory_write mc c actor es roles i now s = Inr (m, s')"
  obtains e where "m = c\<lparr>mem_status := M_STABLE\<rparr>" "memory_valid m"
    "wg_decision (gate_evaluate mc c es roles now) \<noteq> WD_REJECT"
    "ms_records s' = AList.update (memory_id c) m (ms_records s)" "ms_ledger s' = ms_ledger s @ [e]"
    "le_memory_id e = memory_id c" "le_kind e \<noteq> LE_DELETE" "le_tenant_id e = mem_tenant_id c"
proof -
  from assms have "m = c\<lparr>mem_status := M_STABLE\<rparr> \<and> memory_valid m
    \<and> wg_decision (gate_evaluate mc c es roles now) \<noteq> WD_REJECT
    \<and> ms_records s' = AList.update (memory_id c) m (ms_records s)
    \<and> (\<exists>e. ms_ledger s' = ms_ledger s @ [e] \<and> le_memory_id e = memory_id c \<and> le_kind e \<noteq> LE_DELETE
        \<and> le_tenant_id e = mem_tenant_id c)"
    by (auto simp: memory_write_def Let_def result_simps stabilize_Inr memory_store_def ledger_record_def)
  with that show thesis by blast
qed

lemma memory_ok_step: "memory_step mc s s' \<Longrightarrow> memory_ok mc s \<Longrightarrow> memory_ok mc s'"
proof (induction rule: memory_step.induct)
  case (ms_write c actor es roles i now s m s')
  from ms_write.hyps obtain e where e: "m = c\<lparr>mem_status := M_STABLE\<rparr>" "memory_valid m"
    "wg_decision (gate_evaluate mc c es roles now) \<noteq> WD_REJECT"
    "ms_records s' = AList.update (memory_id c) m (ms_records s)" "ms_ledger s' = ms_ledger s @ [e]"
    "le_memory_id e = memory_id c" "le_kind e \<noteq> LE_DELETE" "le_tenant_id e = mem_tenant_id c"
    by (rule memory_write_Inr)
  from gate_admits [OF e(3)] e ms_write.prems show ?case
    by (simp add: memory_ok_def update_conv')
next
  case (ms_cascade key actor tenant i now s n s')
  then show ?case
    by (auto simp: cascade_delete_def memory_ok_def memory_delete_def ledger_record_def map_of_delete
        split: option.splits if_splits)
qed

definition empty_memory :: memory_state where
  "empty_memory = \<lparr>ms_records = [], ms_ledger = []\<rparr>"


definition sample_memory :: MemoryRecord where
  "sample_memory = \<lparr>mem_tenant_id = 1, mem_scope = ''run'', mem_content = ''note'', mem_provenance = [''run:4''],
     mem_confidence = 1, mem_expires_at = Aware 100, mem_approved_by = 7, mem_classification = INTERNAL,
     mem_purpose = ''run_context'', mem_contains_pii = False, mem_conflict_keys = [],
     mem_source_trust = ADVISORY, mem_status = M_PROPOSED, memory_id = 33, mem_created_at = Aware 0\<rparr>"


text \<open>
  The cascade does not compare the record's tenant with the caller's: any tenant can delete any record,
  and the ledger files the deletion under the caller.
\<close>

theorem cascade_delete_crosses_tenants:
  assumes "memory_get s key = Some m" and "mem_tenant_id m \<noteq> tenant"
  shows "fst (cascade_delete key actor tenant i now s) = 1
     \<and> memory_get (snd (cascade_delete key actor tenant i now s)) key = None"
  using assms by (simp add: cascade_delete_def memory_get_def memory_delete_def ledger_record_def map_of_delete)

end
