(* ===== verification/Text_Forms.thy ===== *)
theory Text_Forms
  imports Json
begin

text \<open>
  \<open>datetime.fromisoformat\<close> and \<open>uuid.UUID(text)\<close>, which the row codecs use to read back
  what \<open>isoformat\<close> and \<open>str\<close> wrote, and the proofs that they are inverse: the calendar
  arithmetic of \<open>isoformat\<close> and the hexadecimal digits of an identifier.

  Of the texts \<open>fromisoformat\<close> accepts, the model has the extended format with seconds, an optional
  fraction of one to six digits, and an optional UTC offset in hours and minutes.
\<close>

subsection \<open>Calendar\<close>

definition leap_year :: "int \<Rightarrow> bool" where
  "leap_year y = (y mod 4 = 0 \<and> (y mod 100 \<noteq> 0 \<or> y mod 400 = 0))"

definition days_in_month :: "int \<Rightarrow> int \<Rightarrow> int" where
  "days_in_month y m = (if m = 2 then (if leap_year y then 29 else 28)
     else if m \<in> {4, 6, 9, 11} then 30 else 31)"

text \<open>The day number, counted from 1970-01-01, of a date.\<close>

definition day_number :: "int \<Rightarrow> int \<Rightarrow> int \<Rightarrow> int" where
  "day_number y m d = (let y' = (if m \<le> 2 then y - 1 else y); era = y' div 400; yoe = y' mod 400;
     mp = (if m > 2 then m - 3 else m + 9); doy = (153 * mp + 2) div 5 + d - 1;
     doe = 365 * yoe + yoe div 4 - yoe div 100 + doy
   in era * 146097 + doe - 719468)"

text \<open>
  The year of the era, which \<open>civil_date\<close> guesses from the day of the era, is the year whose days
  contain it.
\<close>

definition year_of_era :: "int \<Rightarrow> int" where
  "year_of_era doe = (doe - doe div 1460 + doe div 36524 - doe div 146096) div 365"

definition year_start :: "int \<Rightarrow> int" where
  "year_start y = 365 * y + y div 4 - y div 100"

lemma div_bounds:
  fixes x k :: int
  assumes "0 < k"
  shows "k * (x div k) \<le> x" "x < k * (x div k) + k"
  using mult_div_mod_eq [of k x] pos_mod_sign [OF assms, of x] pos_mod_bound [OF assms, of x] by linarith+

lemma century_year:
  fixes r c :: int
  assumes "0 \<le> r" "r \<le> 36523" "0 \<le> c" "c \<le> 3"
  defines "t \<equiv> (r - (24 * c + r) div 1460) div 365"
  shows "0 \<le> t" "t \<le> 99" "365 * t + t div 4 \<le> r" "r < 365 * (t + 1) + (t + 1) div 4"
proof -
  define k where "k = (24 * c + r) div 1460"
  have k: "1460 * k \<le> 24 * c + r" "24 * c + r < 1460 * k + 1460" unfolding k_def by (rule div_bounds, simp)+
  have t: "365 * t \<le> r - k" "r - k < 365 * t + 365" unfolding t_def k_def by (rule div_bounds, simp)+
  define u v where "u = t div 4" and "v = (t + 1) div 4"
  have u: "4 * u \<le> t" "t \<le> 4 * u + 3" unfolding u_def using div_bounds [of 4 t] by linarith+
  have v: "4 * v \<le> t + 1" "t + 1 \<le> 4 * v + 3" unfolding v_def using div_bounds [of 4 "t + 1"] by linarith+
  have "0 \<le> k" "k \<le> 25" using k assms by linarith+
  then show "0 \<le> t" "t \<le> 99" using t k assms by linarith+
  then have "0 \<le> u" "v \<le> 25" using u v by linarith+
  have "u \<le> k" using k t u \<open>0 \<le> u\<close> assms by linarith
  then have "365 * t + u \<le> r" using t by linarith
  then show "365 * t + t div 4 \<le> r" by (simp only: u_def)
  have "k \<le> v" using k t v \<open>v \<le> 25\<close> assms by linarith
  moreover have "r < 365 * t + 365 + k" using t by linarith
  ultimately have "r < 365 * t + 365 + v" by linarith
  then have "r < 365 * (t + 1) + v" by (simp add: distrib_left)
  then show "r < 365 * (t + 1) + (t + 1) div 4" by (simp only: v_def)
qed

lemma year_of_era_bounds:
  fixes doe :: int
  assumes "0 \<le> doe" "doe \<le> 146096"
  shows "0 \<le> year_of_era doe" "year_of_era doe \<le> 399" "year_start (year_of_era doe) \<le> doe"
    "doe < year_start (year_of_era doe + 1) + (if year_of_era doe = 399 then 1 else 0)"
proof -
  have "0 \<le> year_of_era doe \<and> year_of_era doe \<le> 399 \<and> year_start (year_of_era doe) \<le> doe
      \<and> doe < year_start (year_of_era doe + 1) + (if year_of_era doe = 399 then 1 else 0)"
  proof (cases "doe = 146096")
    case True
    then show ?thesis by (simp add: year_of_era_def year_start_def)
  next
    case False
    define c r where "c = doe div 36524" and "r = doe mod 36524"
    have doe: "doe = 36524 * c + r" unfolding c_def r_def by simp
    have r: "0 \<le> r" "r \<le> 36523" unfolding r_def by simp_all
    have c: "0 \<le> c" "c \<le> 3" using assms False div_bounds [of 36524 doe] unfolding c_def by linarith+
    define t where "t = (r - (24 * c + r) div 1460) div 365"
    note t = century_year [OF r c, folded t_def]
    have "doe div 1460 = (1460 * (25 * c) + (24 * c + r)) div 1460" unfolding doe by simp
    then have "doe div 1460 = 25 * c + (24 * c + r) div 1460" by simp
    moreover have "doe div 36524 = c" by (simp add: c_def)
    moreover have "doe div 146096 = 0" using assms False by simp
    ultimately have "year_of_era doe = (365 * (100 * c) + (r - (24 * c + r) div 1460)) div 365"
      unfolding year_of_era_def doe by (simp add: algebra_simps)
    then have y: "year_of_era doe = 100 * c + t" unfolding t_def by simp
    have s: "year_start (100 * c + x) = 36524 * c + 365 * x + x div 4 - x div 100" for x
      using div_mult_self4 [of 4 "25 * c" x] div_mult_self4 [of 100 c x] unfolding year_start_def by simp
    have "t div 100 = 0" using t by simp
    then have lo: "year_start (year_of_era doe) = 36524 * c + (365 * t + t div 4)" using s [of t] y by simp
    have hi: "doe < year_start (year_of_era doe + 1) + (if year_of_era doe = 399 then 1 else 0)"
    proof (cases "t = 99")
      case True
      then have "year_start (year_of_era doe + 1) = 36524 * (c + 1)" using s [of 100] y by (simp add: add.assoc)
      with r doe show ?thesis by simp
    next
      case False
      then have "(t + 1) div 100 = 0" using t by simp
      then have "year_start (year_of_era doe + 1) = 36524 * c + (365 * (t + 1) + (t + 1) div 4)"
        using s [of "t + 1"] y by (simp add: add.assoc)
      with t doe show ?thesis by simp
    qed
    have "0 \<le> 100 * c + t" "100 * c + t \<le> 399" using t c by linarith+
    then show ?thesis using lo hi t doe y by simp
  qed
  then show "0 \<le> year_of_era doe" "year_of_era doe \<le> 399" "year_start (year_of_era doe) \<le> doe"
    "doe < year_start (year_of_era doe + 1) + (if year_of_era doe = 399 then 1 else 0)" by auto
qed

lemma div_step:
  fixes y k :: int
  assumes "1 < k"
  shows "(y + 1) div k = (if (y + 1) mod k = 0 then y div k + 1 else y div k)"
proof (cases "(y + 1) mod k = 0")
  case True
  then have "y + 1 = k * ((y + 1) div k)" using mult_div_mod_eq [of k "y + 1"] by simp
  then have "y div k = (k * ((y + 1) div k - 1) + (k - 1)) div k" by (simp add: algebra_simps)
  also have "\<dots> = (y + 1) div k - 1" using assms by simp
  finally show ?thesis using True by simp
next
  case False
  then have "1 \<le> (y + 1) mod k" using pos_mod_sign [of k "y + 1"] assms by linarith
  then have r: "0 \<le> (y + 1) mod k - 1" "(y + 1) mod k - 1 < k" using pos_mod_bound [of k "y + 1"] assms by linarith+
  have "y = k * ((y + 1) div k) + ((y + 1) mod k - 1)" using mult_div_mod_eq [of k "y + 1"] by linarith
  then have "y div k = (k * ((y + 1) div k) + ((y + 1) mod k - 1)) div k" by metis
  also have "\<dots> = (y + 1) div k" using r assms by simp
  finally show ?thesis using False by simp
qed

lemma year_length:
  "year_start (y + 1) - year_start y = 365 + (if (y + 1) mod 4 = 0 then 1 else 0) - (if (y + 1) mod 100 = 0 then 1 else 0)"
  using div_step [of 4 y] div_step [of 100 y] by (simp add: year_start_def)

lemma leap_when_long:
  fixes y :: int
  assumes "0 \<le> y" "y \<le> 399" "365 < year_start (y + 1) - year_start y + (if y = 399 then 1 else 0)"
  shows "leap_year (y + 1)"
  using assms by (auto simp: year_length leap_year_def split: if_splits)

lemma leap_year_era: "leap_year (y + 400 * k) = leap_year y"
proof -
  have "(y + 400 * k) mod 4 = y mod 4" "(y + 400 * k) mod 100 = y mod 100"
    using mod_mult_self2 [of y 4 "100 * k"] mod_mult_self2 [of y 100 "4 * k"] by simp_all
  then show ?thesis by (simp add: leap_year_def)
qed

text \<open>The month and day of a day of the (March-based) year.\<close>

lemma month_day_valid:
  fixes doy :: int
  assumes "0 \<le> doy" "doy \<le> 365" and leap: "doy = 365 \<longrightarrow> leap_year y"
  defines "mp \<equiv> (5 * doy + 2) div 153"
  defines "m \<equiv> (if mp < 10 then mp + 3 else mp - 9)"
  defines "d \<equiv> doy - (153 * mp + 2) div 5 + 1"
  shows "0 \<le> mp" "mp \<le> 11" "1 \<le> d" "d \<le> days_in_month y m"
proof -
  have mp: "153 * mp \<le> 5 * doy + 2" "5 * doy + 2 < 153 * mp + 153"
    unfolding mp_def using div_bounds [of 153 "5 * doy + 2"] by simp_all
  then show b: "0 \<le> mp" "mp \<le> 11" using assms(1,2) by linarith+
  then have "mp \<in> {0, 1, 2, 3, 4, 5, 6, 7, 8, 9, 10, 11}" by (simp only: insert_iff empty_iff) presburger
  then have "1 \<le> d \<and> d \<le> days_in_month y m"
    using mp assms(1,2) leap unfolding d_def m_def days_in_month_def
    by (elim insertE emptyE) (simp_all only:, auto)
  then show "1 \<le> d" "d \<le> days_in_month y m" by auto
qed

lemma civil_date_parts:
  assumes "civil_date day = (y, m, d)"
  obtains era yoe doy mp where "day + 719468 = 146097 * era + (year_start yoe + doy)" "0 \<le> yoe" "yoe \<le> 399"
    "0 \<le> doy" "doy \<le> 365" "year_start yoe + doy \<le> 146096" "doy = 365 \<longrightarrow> leap_year y" "mp = (5 * doy + 2) div 153"
    "m = (if mp < 10 then mp + 3 else mp - 9)" "d = doy - (153 * mp + 2) div 5 + 1"
    "y = yoe + era * 400 + (if m \<le> 2 then 1 else 0)"
proof -
  define era doe where "era = (day + 719468) div 146097" and "doe = (day + 719468) mod 146097"
  define yoe where "yoe = year_of_era doe"
  define doy where "doy = doe - year_start yoe"
  define mp where "mp = (5 * doy + 2) div 153"
  define m' where "m' = (if mp < 10 then mp + 3 else mp - 9)"
  have doe: "0 \<le> doe" "doe \<le> 146096" "day + 719468 = 146097 * era + doe"
    unfolding doe_def era_def by (simp_all add: pos_mod_sign)
  note yoe = year_of_era_bounds [OF doe(1,2), folded yoe_def]
  have len: "year_start (yoe + 1) - year_start yoe \<le> 366" by (simp add: year_length)
  have "0 \<le> doy" "doy \<le> 365 \<or> yoe = 399" using yoe len unfolding doy_def by (auto split: if_splits)
  moreover have "doy \<le> 365" if "yoe = 399" using doe that unfolding doy_def year_start_def by simp
  ultimately have doy: "0 \<le> doy" "doy \<le> 365" by auto
  have leap: "leap_year (yoe + 1)" if "doy = 365"
    using leap_when_long [of yoe] yoe that unfolding doy_def by simp
  have "civil_date day = (yoe + era * 400 + (if m' \<le> 2 then 1 else 0), m', doy - (153 * mp + 2) div 5 + 1)"
    unfolding civil_date_def Let_def m'_def mp_def doy_def yoe_def era_def doe_def year_of_era_def year_start_def ..
  with assms have m': "m = m'" and c: "d = doy - (153 * mp + 2) div 5 + 1"
      "y = yoe + era * 400 + (if m \<le> 2 then 1 else 0)" by auto
  from m' have m: "m = (if mp < 10 then mp + 3 else mp - 9)" by (simp only: m'_def)
  have l: "doy = 365 \<longrightarrow> leap_year y"
  proof
    assume "doy = 365"
    then have "mp = 11" "leap_year (yoe + 1)" using leap by (simp_all add: mp_def)
    then show "leap_year y" using m c leap_year_era [of "yoe + 1" era] by (simp add: algebra_simps)
  qed
  have sum: "year_start yoe + doy = doe" by (simp add: doy_def)
  from that [of era yoe doy mp] sum doe yoe(1,2) doy l m c show thesis by (simp add: mp_def)
qed

lemma civil_date_inverse:
  assumes "civil_date day = (y, m, d)"
  shows "day_number y m d = day" "1 \<le> m" "m \<le> 12" "1 \<le> d" "d \<le> days_in_month y m"
proof -
  from civil_date_parts [OF assms] obtain era yoe doy mp where
    day: "day + 719468 = 146097 * era + (year_start yoe + doy)" and yoe: "0 \<le> yoe" "yoe \<le> 399"
    and doy: "0 \<le> doy" "doy \<le> 365" "doy = 365 \<longrightarrow> leap_year y" and mp: "mp = (5 * doy + 2) div 153"
    and m: "m = (if mp < 10 then mp + 3 else mp - 9)" and d: "d = doy - (153 * mp + 2) div 5 + 1"
    and y: "y = yoe + era * 400 + (if m \<le> 2 then 1 else 0)" by metis
  note v = month_day_valid [OF doy, folded mp]
  then show "1 \<le> m" "m \<le> 12" "1 \<le> d" "d \<le> days_in_month y m" using m d by auto
  have y': "(if m \<le> 2 then y - 1 else y) = yoe + 400 * era" using y by auto
  have "(yoe + 400 * era) div 400 = era" "(yoe + 400 * era) mod 400 = yoe" using yoe by simp_all
  moreover have "(if m > 2 then m - 3 else m + 9) = mp" using m v by auto
  ultimately show "day_number y m d = day"
    using day d unfolding day_number_def Let_def y' by (simp add: year_start_def)
qed

text \<open>From 0001-01-01 to 9999-12-31.\<close>

lemma civil_date_year:
  assumes "civil_date day = (y, m, d)" "-719162 \<le> day" "day \<le> 2932896"
  shows "1 \<le> y" "y \<le> 9999"
proof -
  from civil_date_parts [OF assms(1)] obtain era yoe doy mp where
    day: "day + 719468 = 146097 * era + (year_start yoe + doy)" and yoe: "0 \<le> yoe" "yoe \<le> 399"
    and doy: "0 \<le> doy" "doy \<le> 365" "year_start yoe + doy \<le> 146096" and mp: "mp = (5 * doy + 2) div 153"
    and m: "m = (if mp < 10 then mp + 3 else mp - 9)" and y: "y = yoe + era * 400 + (if m \<le> 2 then 1 else 0)"
    by metis
  have "0 \<le> year_start yoe" using yoe div_bounds [of 100 yoe] pos_imp_zdiv_nonneg_iff [of 4 yoe]
    unfolding year_start_def by simp
  then have era: "0 \<le> era" "era \<le> 24" using day doy assms(2,3) by linarith+
  have mp_ge: "10 \<le> mp" if "306 \<le> doy" using that div_bounds [of 153 "5 * doy + 2"] unfolding mp by linarith
  have mp_lt: "mp < 10" if "doy \<le> 305" using that div_bounds [of 153 "5 * doy + 2"] unfolding mp by linarith
  have "mp \<le> 11" using doy div_bounds [of 153 "5 * doy + 2"] unfolding mp by linarith
  show "1 \<le> y"
  proof (cases "era = 0 \<and> yoe = 0")
    case True
    then have "306 \<le> doy" using day assms(2) by (simp add: year_start_def)
    with mp_ge \<open>mp \<le> 11\<close> show ?thesis using y m True by auto
  qed (use y era yoe in auto)
  show "y \<le> 9999"
  proof (cases "era = 24 \<and> yoe = 399")
    case True
    then have "doy \<le> 305" using day assms(3) by (simp add: year_start_def)
    with mp_lt have "mp < 10" by blast
    moreover have "0 \<le> mp" using doy div_bounds [of 153 "5 * doy + 2"] unfolding mp by linarith
    ultimately show ?thesis using y m True by simp
  qed (use y era yoe in auto)
qed

subsection \<open>datetime.fromisoformat\<close>

definition iso_error :: error where
  "iso_error = ValueError ''Invalid isoformat string''"

definition take_num :: "nat \<Rightarrow> string \<Rightarrow> (int \<times> string) result" where
  "take_num w s = (if length (take w s) = w \<and> list_all is_digit (take w s)
     then Inr (int (nat_of_digits (take w s)), drop w s) else Inl iso_error)"

definition expect :: "char \<Rightarrow> string \<Rightarrow> string result" where
  "expect c s = (case s of x # r \<Rightarrow> if x = c then Inr r else Inl iso_error | [] \<Rightarrow> Inl iso_error)"

text \<open>The fraction of a second in microseconds: further digits are dropped, missing ones are zero.\<close>

definition take_fraction :: "string \<Rightarrow> (int \<times> string) result" where
  "take_fraction s = (case s of c # r \<Rightarrow>
       if c = CHR ''.'' \<or> c = CHR '','' then
         (let ds = takeWhile is_digit r in
          if ds = [] then Inl iso_error
          else Inr (int (nat_of_digits (take 6 (ds @ ''000000''))), drop (length ds) r))
       else Inr (0, s)
     | [] \<Rightarrow> Inr (0, []))"

text \<open>The UTC offset in minutes, \<open>None\<close> for a naive timestamp.\<close>

definition take_offset :: "string \<Rightarrow> int option result" where
  "take_offset s = (case s of [] \<Rightarrow> Inr None
     | c # r \<Rightarrow> if s = ''Z'' then Inr (Some 0)
         else if c = CHR ''+'' \<or> c = CHR ''-'' then
           bindE (take_num 2 r) (\<lambda>(h, s1). bindE (expect (CHR '':'') s1) (\<lambda>s2.
           bindE (take_num 2 s2) (\<lambda>(m, s3).
           if s3 = [] \<and> h < 24 \<and> m < 60
           then Inr (Some (if c = CHR ''+'' then h * 60 + m else - (h * 60 + m))) else Inl iso_error)))
         else Inl iso_error)"

definition fromisoformat :: "string \<Rightarrow> datetime result" where
  "fromisoformat s =
     bindE (take_num 4 s) (\<lambda>(y, s). bindE (expect (CHR ''-'') s) (\<lambda>s.
     bindE (take_num 2 s) (\<lambda>(m, s). bindE (expect (CHR ''-'') s) (\<lambda>s.
     bindE (take_num 2 s) (\<lambda>(d, s). bindE (expect (CHR ''T'') s) (\<lambda>s.
     bindE (take_num 2 s) (\<lambda>(hh, s). bindE (expect (CHR '':'') s) (\<lambda>s.
     bindE (take_num 2 s) (\<lambda>(mm, s). bindE (expect (CHR '':'') s) (\<lambda>s.
     bindE (take_num 2 s) (\<lambda>(ss, s). bindE (take_fraction s) (\<lambda>(us, s).
     bindE (take_offset s) (\<lambda>offset.
     if y < 1 \<or> m < 1 \<or> m > 12 \<or> d < 1 \<or> d > days_in_month y m \<or> hh > 23 \<or> mm > 59 \<or> ss > 59 then Inl iso_error
     else let t = seconds (day_number y m d * 86400 + hh * 3600 + mm * 60 + ss) + us in
       Inr (case offset of None \<Rightarrow> Naive t | Some o' \<Rightarrow> Aware (t - seconds (o' * 60))))))))))))))))"

subsection \<open>Decimal digits\<close>

lemma nat_of_digits_append [simp]:
  "nat_of_digits (xs @ [c]) = 10 * nat_of_digits xs + (code_point c - 48)"
  by (simp add: nat_of_digits_def)

lemma nat_of_digits_zeros: "nat_of_digits (replicate k (CHR ''0'') @ s) = nat_of_digits s"
  by (induction s rule: rev_induct; induction k)
    (simp_all flip: append_assoc add: nat_of_digits_def code_point_def)

lemma decimal_digit:
  assumes "n < 10"
  shows "is_digit (''0123456789'' ! n)" "code_point (''0123456789'' ! n) = 48 + n"
proof -
  from assms have "n = 0 \<or> n = 1 \<or> n = 2 \<or> n = 3 \<or> n = 4 \<or> n = 5 \<or> n = 6 \<or> n = 7 \<or> n = 8 \<or> n = 9" by presburger
  then show "is_digit (''0123456789'' ! n)" "code_point (''0123456789'' ! n) = 48 + n"
    by (auto simp: is_digit_def code_point_def nth_Cons')
qed

lemma str_nat_digits: "list_all is_digit (str_nat n)"
  by (induction n rule: str_nat.induct) (subst str_nat.simps, simp add: decimal_digit)

lemma nat_of_digits_str_nat [simp]: "nat_of_digits (str_nat n) = n"
proof (induction n rule: str_nat.induct)
  case (1 n)
  show ?case
  proof (cases "n < 10")
    case True
    then show ?thesis using decimal_digit [of n] by (subst str_nat.simps) (simp add: nat_of_digits_def)
  next
    case False
    with 1 show ?thesis using decimal_digit [of "n mod 10"] by (subst str_nat.simps) simp
  qed
qed

lemma str_nat_nonempty [simp]: "str_nat n \<noteq> []"
  by (subst str_nat.simps) simp

lemma length_str_nat: "n < 10 ^ Suc w \<Longrightarrow> length (str_nat n) \<le> Suc w"
proof (induction w arbitrary: n)
  case 0
  then show ?case by (subst str_nat.simps) simp
next
  case (Suc w)
  then have "n div 10 < 10 ^ Suc w" by (simp add: div_less_iff_less_mult algebra_simps)
  with Suc.IH [of "n div 10"] show ?case by (subst str_nat.simps) simp
qed

text \<open>A number padded to \<open>w\<close> digits is read back by \<open>take_num w\<close>.\<close>

lemma pad_digits:
  assumes "0 \<le> n" "n < 10 ^ Suc w"
  shows "length (pad (Suc w) n) = Suc w" "list_all is_digit (pad (Suc w) n)" "int (nat_of_digits (pad (Suc w) n)) = n"
proof -
  have "int (nat n) < int (10 ^ Suc w)" using assms by simp
  then have "nat n < 10 ^ Suc w" by (simp only: of_nat_less_iff)
  then show "length (pad (Suc w) n) = Suc w"
    using length_str_nat [of "nat n" w] assms by (simp add: pad_def str_int_def Let_def)
  show "list_all is_digit (pad (Suc w) n)"
    using assms str_nat_digits [of "nat n"]
    by (auto simp: pad_def str_int_def Let_def list_all_iff is_digit_def code_point_def)
  show "int (nat_of_digits (pad (Suc w) n)) = n"
    using assms by (simp add: pad_def str_int_def Let_def nat_of_digits_zeros)
qed

lemma take_num_pad: "0 \<le> n \<Longrightarrow> n < 10 ^ Suc w \<Longrightarrow> take_num (Suc w) (pad (Suc w) n @ s) = Inr (n, s)"
  using pad_digits [of n w] by (simp add: take_num_def)

lemma expect_Cons [simp]: "expect c (c # s) = Inr s"
  by (simp add: expect_def)

lemma take_fraction_pad:
  assumes "0 \<le> n" "n < 1000000" "case s of [] \<Rightarrow> True | c # _ \<Rightarrow> \<not> is_digit c"
  shows "take_fraction (''.'' @ pad 6 n @ s) = Inr (n, s)"
proof -
  from assms pad_digits [of n 5] have p: "length (pad 6 n) = 6" "list_all is_digit (pad 6 n)" "int (nat_of_digits (pad 6 n)) = n"
    by (simp_all add: eval_nat_numeral)
  then have "takeWhile is_digit (pad 6 n @ s) = pad 6 n"
    using assms(3) by (subst takeWhile_append2) (auto simp: list_all_iff split: list.splits)
  moreover have "pad 6 n \<noteq> []" using p by auto
  ultimately show ?thesis using p by (simp add: take_fraction_def Let_def)
qed

lemma take_offset_zero: "take_offset ''+00:00'' = Inr (Some 0)" "take_offset [] = Inr None"
  by code_simp+

text \<open>Every Python timestamp lies between the years 1 and 9999.\<close>

definition in_years :: "datetime \<Rightarrow> bool" where
  "in_years dt = (days (-719162) \<le> instant dt \<and> instant dt < days 2932897)"

lemma fromisoformat_isoformat:
  assumes "in_years dt"
  shows "fromisoformat (isoformat dt) = Inr dt"
proof -
  define t sec us r where "t = instant dt" and "sec = t div 1000000" and "us = t mod 1000000" and "r = sec mod 86400"
  obtain y m d where c: "civil_date (sec div 86400) = (y, m, d)" by (metis prod_cases3)
  have t: "t = 1000000 * sec + us" "0 \<le> us" "us < 1000000" unfolding sec_def us_def by simp_all
  have sec: "sec = 86400 * (sec div 86400) + r" "0 \<le> r" "r < 86400" unfolding r_def by simp_all
  have "-719162 \<le> sec div 86400" "sec div 86400 \<le> 2932896"
    using assms t sec unfolding in_years_def days_def seconds_def t_def by linarith+
  note year = civil_date_year [OF c this] and inv = civil_date_inverse [OF c]
  have dim: "days_in_month y m \<le> 31" by (simp add: days_in_month_def)
  define hh mm ss where "hh = r div 3600" and "mm = r mod 3600 div 60" and "ss = r mod 60"
  have h: "0 \<le> hh" "hh \<le> 23" "0 \<le> mm" "mm \<le> 59" "0 \<le> ss" "ss \<le> 59"
    using sec div_bounds [of 3600 r] div_bounds [of 60 "r mod 3600"] pos_mod_bound [of 3600 r] pos_mod_sign [of 3600 r]
      pos_mod_bound [of 60 r] pos_mod_sign [of 60 r]
    unfolding hh_def mm_def ss_def by linarith+
  have r: "hh * 3600 + mm * 60 + ss = r"
  proof -
    have "r mod 3600 mod 60 = r mod 60" by (rule mod_mod_cancel) simp
    then show ?thesis using mult_div_mod_eq [of 3600 r] mult_div_mod_eq [of 60 "r mod 3600"]
      unfolding hh_def mm_def ss_def by linarith
  qed
  define off tail where "off = (if tz_missing dt then [] else ''+00:00'')"
    and "tail = (if us = 0 then [] else ''.'' @ pad 6 us) @ off"
  have iso: "isoformat dt = pad 4 y @ CHR ''-'' # pad 2 m @ CHR ''-'' # pad 2 d @ CHR ''T'' # pad 2 hh @ CHR '':'' #
      pad 2 mm @ CHR '':'' # pad 2 ss @ tail"
    using c unfolding isoformat_def Let_def tail_def off_def t_def sec_def us_def r_def hh_def mm_def ss_def by simp
  have "case off of [] \<Rightarrow> True | x # _ \<Rightarrow> \<not> is_digit x \<and> x \<noteq> CHR ''.'' \<and> x \<noteq> CHR '',''"
    by (simp add: off_def is_digit_def code_point_def)
  then have f: "take_fraction tail = Inr (us, off)"
    using take_fraction_pad [of us off] t unfolding tail_def
    by (cases "us = 0") (auto simp: take_fraction_def split: list.splits)
  have o: "take_offset off = Inr (if tz_missing dt then None else Some 0)" by (simp add: off_def take_offset_zero)
  have n4: "take_num 4 (pad 4 x @ z) = Inr (x, z)" if "1 \<le> x" "x \<le> 9999" for x z
    using that take_num_pad [of x 3] by (simp add: eval_nat_numeral)
  have n2: "take_num 2 (pad 2 x @ z) = Inr (x, z)" if "0 \<le> x" "x \<le> 59" for x z
    using that take_num_pad [of x 1] by (simp add: eval_nat_numeral)
  have "day_number y m d * 86400 + hh * 3600 + mm * 60 + ss = sec" using inv(1) sec r by simp
  then have "seconds (day_number y m d * 86400 + hh * 3600 + mm * 60 + ss) + us = t"
    using t by (simp add: seconds_def)
  then show ?thesis
    unfolding iso fromisoformat_def using year inv dim h f n4 n2 o
    by (cases dt) (simp_all add: t_def Let_def seconds_def)
qed

subsection \<open>uuid.UUID\<close>

text \<open>\<open>str.replace(old, '')\<close> for a non-empty \<open>old\<close>.\<close>

fun remove_all :: "string \<Rightarrow> string \<Rightarrow> string" where
  "remove_all old [] = []"
| "remove_all old (c # s) = (if old \<noteq> [] \<and> startswith (c # s) old
     then remove_all old (drop (length old - 1) s) else c # remove_all old s)"

definition strip_chars :: "string \<Rightarrow> string \<Rightarrow> string" where
  "strip_chars cs s = rev (dropWhile (\<lambda>c. c \<in> set cs) (rev (dropWhile (\<lambda>c. c \<in> set cs) s)))"

text \<open>\<open>int(text, 16)\<close>: sign, prefix and single underscores between digits are allowed.\<close>

fun hex_run :: "nat \<Rightarrow> string \<Rightarrow> nat option" where
  "hex_run acc [] = Some acc"
| "hex_run acc (c # s) =
     (if c = CHR ''_'' then (case s of [] \<Rightarrow> None
        | d # r \<Rightarrow> (case hex_value d of None \<Rightarrow> None | Some h \<Rightarrow> hex_run (16 * acc + h) r))
      else (case hex_value c of None \<Rightarrow> None | Some h \<Rightarrow> hex_run (16 * acc + h) s))"

definition int16 :: "string \<Rightarrow> int result" where
  "int16 text = (let s = strip text;
     (sign, s1) = (case s of c # r \<Rightarrow> if c = CHR ''-'' then (-1, r) else if c = CHR ''+'' then (1, r) else (1, s)
       | [] \<Rightarrow> (1, s));
     prefixed = (startswith s1 ''0x'' \<or> startswith s1 ''0X''); s2 = (if prefixed then drop 2 s1 else s1) in
     if s2 = [] \<or> (hd s2 = CHR ''_'' \<and> \<not> prefixed) then Inl (ValueError ''invalid literal for int() with base 16'')
     else case hex_run 0 s2 of None \<Rightarrow> Inl (ValueError ''invalid literal for int() with base 16'')
       | Some n \<Rightarrow> Inr (sign * int n))"

definition parse_uuid :: "string \<Rightarrow> uuid result" where
  "parse_uuid text = (let hex = remove_all ''-'' (strip_chars ''{}'' (remove_all ''uuid:'' (remove_all ''urn:'' text))) in
     if length hex \<noteq> 32 then Inl (ValueError ''badly formed hexadecimal UUID string'')
     else bindE (int16 hex) (\<lambda>n. if n < 0 \<or> n \<ge> 2 ^ 128 then Inl (ValueError ''int is out of range (need a 128-bit value)'')
       else Inr (of_int n)))"

lemma not_startswith: "x \<in> set p \<Longrightarrow> x \<notin> set s \<Longrightarrow> \<not> startswith s p"
  unfolding startswith_def by (metis in_set_takeD)

lemma remove_all_id: "x \<in> set old \<Longrightarrow> x \<notin> set s \<Longrightarrow> remove_all old s = s"
proof (induction s)
  case (Cons c s)
  have "\<not> startswith (c # s) old" using Cons.prems by (rule not_startswith)
  with Cons show ?case by simp
qed simp

lemma remove_all_char: "remove_all [x] s = filter (\<lambda>c. c \<noteq> x) s"
  by (induction s) (auto simp: startswith_def)

lemma strip_chars_id: "set cs \<inter> set s = {} \<Longrightarrow> strip_chars cs s = s"
proof -
  assume "set cs \<inter> set s = {}"
  then have "\<forall>c\<in>set s. c \<notin> set cs" by auto
  then have "dropWhile (\<lambda>c. c \<in> set cs) s = s" "dropWhile (\<lambda>c. c \<in> set cs) (rev s) = rev s"
    by (auto simp: dropWhile_eq_self_iff hd_rev)
  then show "strip_chars cs s = s" by (simp add: strip_chars_def)
qed

lemma hex_digit:
  assumes "n < 16"
  shows "hex_value (''0123456789abcdef'' ! n) = Some n" "''0123456789abcdef'' ! n \<noteq> CHR ''_''"
proof -
  from assms have "n \<in> {0, 1, 2, 3, 4, 5, 6, 7, 8, 9, 10, 11, 12, 13, 14, 15}"
    by (simp only: insert_iff empty_iff) presburger
  then show "hex_value (''0123456789abcdef'' ! n) = Some n" "''0123456789abcdef'' ! n \<noteq> CHR ''_''"
    by (auto simp: hex_value_def code_point_def nth_Cons')
qed

lemma hex_run_map:
  "(\<And>i. i \<in> set is \<Longrightarrow> f i < 16) \<Longrightarrow>
     hex_run acc (map (\<lambda>i. ''0123456789abcdef'' ! f i) is) = Some (foldl (\<lambda>a i. 16 * a + f i) acc is)"
proof (induction "is" arbitrary: acc)
  case (Cons i "is")
  then have "f i < 16" by simp
  from hex_digit [OF this] Cons show ?case by simp
qed simp

lemma nibbles_value:
  "k \<le> 32 \<Longrightarrow> foldl (\<lambda>a i. 16 * a + unat (drop_bit (4 * (31 - i)) (u :: uuid) AND 15)) 0 [0..<k]
     = unat (drop_bit (4 * (32 - k)) u)"
proof (induction k)
  case 0
  have "unat u < 2 ^ 128" using unsigned_less [where ?'a = nat, of u] by simp
  then have "drop_bit 128 (unat u) = 0" by (simp only: drop_bit_eq_div div_less)
  then show ?case by (simp add: unat_drop_bit_eq)
next
  case (Suc k)
  define w where "w = drop_bit (4 * (31 - k)) u"
  have "32 - k = Suc (31 - k)" using Suc.prems by simp
  then have "drop_bit (4 * (32 - k)) u = drop_bit 4 w" by (simp add: w_def)
  moreover have "unat (drop_bit 4 w) = unat w div 16"
    unfolding unat_drop_bit_eq by (simp add: drop_bit_eq_div)
  moreover have "unat (w AND 15) = unat w mod 16"
  proof -
    have "w AND 15 = take_bit 4 w" by (simp add: take_bit_eq_mask mask_eq_exp_minus_1)
    then have "unat (w AND 15) = take_bit 4 (unat w)" by (simp only: unsigned_take_bit_eq)
    then show ?thesis by (simp add: take_bit_eq_mod)
  qed
  ultimately show ?case using Suc by (simp add: w_def [symmetric])
qed

lemma uuid_hex_value: "hex_run 0 (uuid_hex u) = Some (unat u)"
  using nibbles_value [of 32 u] unfolding uuid_hex_def by (subst hex_run_map) (simp_all add: nibble_bound)

lemma uuid_hex_not: "x \<notin> set ''0123456789abcdef'' \<Longrightarrow> x \<notin> set (uuid_hex u)"
  using uuid_hex_chars [of u] by blast

lemma str_uuid_not: "x \<notin> set ''0123456789abcdef-'' \<Longrightarrow> x \<notin> set (str_uuid u)"
proof
  assume x: "x \<notin> set ''0123456789abcdef-''" "x \<in> set (str_uuid u)"
  then have "x \<in> set (filter (\<lambda>c. c \<noteq> CHR ''-'') (str_uuid u))" by auto
  with x uuid_hex_not [of x u] show False by (simp add: str_uuid_hex)
qed

lemma int16_uuid_hex: "int16 (uuid_hex u) = Inr (uint u)"
proof -
  let ?h = "uuid_hex u"
  have ne: "?h \<noteq> []" using length_uuid_hex [of u] by (metis list.size(3) zero_neq_numeral)
  have chars: "c \<in> set ''0123456789abcdef''" if "c \<in> set ?h" for c using that uuid_hex_chars [of u] by blast
  have sp: "\<not> py_isspace c" if "c \<in> set ?h" for c
    using chars [OF that] by (auto simp: py_isspace_def code_point_def Let_def)
  have "dropWhile py_isspace ?h = ?h" "dropWhile py_isspace (rev ?h) = rev ?h"
    using sp ne by (auto simp: dropWhile_eq_self_iff hd_rev)
  then have st: "strip ?h = ?h" by (simp add: strip_def)
  have hd: "hd ?h \<noteq> CHR ''-''" "hd ?h \<noteq> CHR ''+''" "hd ?h \<noteq> CHR ''_''"
    using chars [of "hd ?h"] ne by auto
  have "\<not> startswith ?h ''0x''" "\<not> startswith ?h ''0X''"
    by (rule not_startswith [of "CHR ''x''"], simp, rule uuid_hex_not, simp)
      (rule not_startswith [of "CHR ''X''"], simp, rule uuid_hex_not, simp)
  moreover obtain c r where h: "?h = c # r" using ne by (cases ?h) auto
  moreover have "hex_run 0 (c # r) = Some (unat u)" using uuid_hex_value [of u] h by simp
  ultimately show ?thesis using hd unfolding int16_def st by (simp add: Let_def del: hex_run.simps)
qed

lemma parse_uuid_str: "parse_uuid (str_uuid u) = Inr u"
proof -
  have "remove_all ''urn:'' (str_uuid u) = str_uuid u" "remove_all ''uuid:'' (str_uuid u) = str_uuid u"
    by (rule remove_all_id [where x = "CHR ''u''"], simp, rule str_uuid_not, simp)+
  moreover have "strip_chars ''{}'' (str_uuid u) = str_uuid u"
    using str_uuid_not [of "CHR 123" u] str_uuid_not [of "CHR 125" u] by (intro strip_chars_id) auto
  moreover have "uint u < 2 ^ 128" using unsigned_less [where ?'a = int, of u] by simp
  ultimately show ?thesis
    by (simp add: parse_uuid_def Let_def remove_all_char str_uuid_hex int16_uuid_hex)
qed

end
