(* ===== verification/Json_Roundtrip.thy ===== *)
theory Json_Roundtrip
  imports Text_Forms
begin

text \<open>
  \<open>json.loads\<close> reads what \<open>json.dumps\<close> wrote: a value with distinct keys comes back with
  its keys sorted, so the canonical text of a \<open>JsonObject\<close> is a fixed point of reading and writing.
\<close>

subsection \<open>Well-formed values and their normal form\<close>

text \<open>A float token is one that reads back as itself.\<close>

definition float_token :: "string \<Rightarrow> bool" where
  "float_token r = (parse_number r = Some (JFloat (Finite_Repr r), []))"

fun wf_json :: "json \<Rightarrow> bool" where
  "wf_json JNull = True"
| "wf_json (JBool b) = True"
| "wf_json (JInt i) = True"
| "wf_json (JFloat f) = (case f of Finite_Repr r \<Rightarrow> float_token r | _ \<Rightarrow> False)"
| "wf_json (JStr s) = True"
| "wf_json (JList xs) = (\<forall>x\<in>set xs. wf_json x)"
| "wf_json (JObj kvs) = (distinct (map fst kvs) \<and> (\<forall>kv\<in>set kvs. wf_json (snd kv)))"

fun norm_json :: "json \<Rightarrow> json" where
  "norm_json (JList xs) = JList (map norm_json xs)"
| "norm_json (JObj kvs) = JObj (sort_key fst (map (\<lambda>kv. (fst kv, norm_json (snd kv))) kvs))"
| "norm_json v = v"

lemma insort_key_map: "insort_key f (g x) (map g xs) = map g (insort_key (\<lambda>y. f (g y)) x xs)"
  by (induction xs) auto

lemma sort_key_map: "sort_key f (map g xs) = map g (sort_key (\<lambda>y. f (g y)) xs)"
  by (induction xs) (auto simp: insort_key_map)

lemma sort_key_pairs: "sort_key fst (map (\<lambda>kv. (fst kv, h (snd kv))) kvs) = map (\<lambda>kv. (fst kv, h (snd kv))) (sort_key fst kvs)"
  by (simp add: sort_key_map)

lemma dumps_obj: "dumps a i k (JObj kvs) = ''{'' @ join i (map (\<lambda>kv. dump_string a (fst kv) @ k @ dumps a i k (snd kv))
     (sort_key fst kvs)) @ ''}''"
proof -
  have e: "map (\<lambda>(ka, v). (ka, dumps a i k v)) kvs = map (\<lambda>kv. (fst kv, dumps a i k (snd kv))) kvs" by auto
  show ?thesis unfolding dumps.simps(7) e sort_key_pairs by (simp add: comp_def)
qed

declare dumps.simps(7) [simp del]

lemma dumps_norm: "dumps a i k (norm_json v) = dumps a i k v"
proof (induction v rule: norm_json.induct)
  case (1 xs)
  then show ?case by (auto intro!: arg_cong [where f = "join i"])
next
  case (2 kvs)
  have "sort_key fst (sort_key fst (map (\<lambda>kv. (fst kv, norm_json (snd kv))) kvs))
      = map (\<lambda>kv. (fst kv, norm_json (snd kv))) (sort_key fst kvs)"
    by (simp add: sort_key_pairs sort_key_id_if_sorted)
  with 2 show ?case by (auto simp: dumps_obj comp_def intro!: arg_cong [where f = "join i"])
qed simp_all

lemma wf_norm: "wf_json v \<Longrightarrow> wf_json (norm_json v)"
  by (induction v rule: norm_json.induct) (auto simp: comp_def sort_key_pairs distinct_map)

subsection \<open>Strings\<close>

lemma hex4_small:
  assumes "n < 256"
  shows "hex4 n = [CHR ''0'', CHR ''0'', ''0123456789abcdef'' ! (n div 16), ''0123456789abcdef'' ! (n mod 16)]"
proof -
  from assms have "n div 16 mod 16 = n div 16" "n div 256 = 0" "n div 4096 = 0" by simp_all
  then show ?thesis by (simp add: hex4_def upt_rec)
qed

lemma parse_escape:
  "parse_string (escape_char False c @ s) = map_option (\<lambda>(t, r). (c # t, r)) (parse_string s)"
proof -
  define n where "n = code_point c"
  have c: "c = char_of n" "n < 256" by (simp_all add: n_def code_point_def)
  have hex: "hex_value (''0123456789abcdef'' ! (n div 16)) = Some (n div 16)"
      "hex_value (''0123456789abcdef'' ! (n mod 16)) = Some (n mod 16)" "hex_value (CHR ''0'') = Some 0"
    using c hex_digit(1) [of "n div 16"] hex_digit(1) [of "n mod 16"] by simp_all (simp add: hex_value_def code_point_def)
  have at: "n = of_char d \<longleftrightarrow> c = d" for d by (simp add: n_def code_point_def)
  have cp: "code_point c = n" "c = CHR 34 \<longleftrightarrow> n = 34" "c = CHR 92 \<longleftrightarrow> n = 92"
    using at [of "CHR 34"] at [of "CHR 92"] by (simp_all add: n_def)
  consider "n \<in> {34, 92, 10, 13, 9, 12, 8}" | "n \<notin> {34, 92, 10, 13, 9, 12, 8}" "n < 32"
    | "n \<notin> {34, 92, 10, 13, 9, 12, 8}" "32 \<le> n" by linarith
  then show ?thesis
  proof cases
    case 1
    then have "c \<in> {CHR 34, CHR 92, CHR 10, CHR 13, CHR 9, CHR 12, CHR 8}"
      using at [of "CHR 34"] at [of "CHR 92"] at [of "CHR 10"] at [of "CHR 13"] at [of "CHR 9"] at [of "CHR 12"]
        at [of "CHR 8"] by auto
    then show ?thesis by (auto simp: escape_char_def simple_escape_def code_point_def)
  next
    case 2
    then have "escape_char False c = [CHR 92, CHR ''u''] @ hex4 n" by (simp add: escape_char_def cp Let_def)
    then show ?thesis using hex c by (simp add: hex4_small)
  next
    case 3
    then have "escape_char False c = [c]" by (simp add: escape_char_def cp Let_def)
    then show ?thesis using 3 by (simp add: cp)
  qed
qed

lemma parse_dump_string:
  "parse_string (concat (map (escape_char False) s) @ CHR 34 # r) = Some (s, r)"
  by (induction s) (simp_all add: parse_escape)

subsection \<open>Numbers\<close>

definition sign_part :: "string \<Rightarrow> string" where
  "sign_part s = (case s of c # r \<Rightarrow> if c = CHR ''-'' then ''-'' else [] | [] \<Rightarrow> [])"

definition int_part :: "string \<Rightarrow> string" where
  "int_part s = (case s of c # r \<Rightarrow> if c = CHR ''0'' then [c] else takeWhile is_digit s | [] \<Rightarrow> [])"

definition frac_part :: "string \<Rightarrow> string" where
  "frac_part s = (case s of c # r \<Rightarrow> if c = CHR ''.'' \<and> takeWhile is_digit r \<noteq> []
     then c # takeWhile is_digit r else [] | [] \<Rightarrow> [])"

definition exp_sign :: "string \<Rightarrow> string" where
  "exp_sign r = (case r of d # _ \<Rightarrow> if d = CHR ''+'' \<or> d = CHR ''-'' then [d] else [] | [] \<Rightarrow> [])"

definition exp_part :: "string \<Rightarrow> string" where
  "exp_part s = (case s of c # r \<Rightarrow> if c = CHR ''e'' \<or> c = CHR ''E'' then
       (let es = takeWhile is_digit (drop (length (exp_sign r)) r)
        in if es = [] then [] else c # exp_sign r @ es)
     else [] | [] \<Rightarrow> [])"

lemma parse_number_parts:
  "parse_number s =
     (let sg = sign_part s; s0 = drop (length sg) s; ds = int_part s0; s1 = drop (length ds) s0;
          fr = frac_part s1; s2 = drop (length fr) s1; ex = exp_part s2; s3 = drop (length ex) s2
      in if ds = [] then None
         else if fr = [] \<and> ex = [] then
           Some (JInt (if sg = [] then int (nat_of_digits ds) else - int (nat_of_digits ds)), s3)
         else Some (JFloat (Finite_Repr (sg @ ds @ fr @ ex)), s3))"
proof -
  have "(case s of c # r \<Rightarrow> if c = CHR ''-'' then (''-'', r) else ([], s) | [] \<Rightarrow> ([], s))
      = (sign_part s, drop (length (sign_part s)) s)"
    by (cases s) (simp_all add: sign_part_def)
  then show ?thesis
    unfolding parse_number_def int_part_def frac_part_def exp_part_def exp_sign_def Let_def by simp
qed

text \<open>What follows a number in a document written without spaces.\<close>

definition stops :: "string \<Rightarrow> bool" where
  "stops r = (r = [] \<or> hd r \<in> {CHR '','', CHR '']'', CHR ''}''})"

lemma stops_simps [simp]: "stops []" "stops (c # r) \<longleftrightarrow> c \<in> {CHR '','', CHR '']'', CHR ''}''}"
  by (simp_all add: stops_def)

lemma stops_cases: "stops r \<Longrightarrow> r = [] \<or> (\<exists>c q. r = c # q \<and> c \<in> {CHR '','', CHR '']'', CHR ''}''})"
  by (cases r) auto

lemma digits_stop: "stops r \<Longrightarrow> takeWhile is_digit (s @ r) = takeWhile is_digit s"
  by (induction s) (auto dest!: stops_cases simp: is_digit_def code_point_def)

lemma exp_sign_stop: "stops r \<Longrightarrow> exp_sign (s @ r) = exp_sign s"
  by (cases s) (auto simp: exp_sign_def dest!: stops_cases)

lemma exp_sign_length: "length (exp_sign s) \<le> length s"
  by (cases s) (auto simp: exp_sign_def)

lemma parts_stop:
  assumes "stops r"
  shows "sign_part (s @ r) = sign_part s" "int_part (s @ r) = int_part s" "frac_part (s @ r) = frac_part s"
    "exp_part (s @ r) = exp_part s"
proof -
  show "sign_part (s @ r) = sign_part s" using assms by (cases s) (auto simp: sign_part_def dest!: stops_cases)
  show "int_part (s @ r) = int_part s"
    using assms digits_stop [OF assms, of s]
    by (cases s) (auto simp: int_part_def is_digit_def code_point_def dest!: stops_cases)
  show "frac_part (s @ r) = frac_part s"
    using assms digits_stop [OF assms] by (cases s) (auto simp: frac_part_def dest!: stops_cases)
  show "exp_part (s @ r) = exp_part s"
  proof (cases s)
    case Nil
    then show ?thesis using assms by (auto simp: exp_part_def dest!: stops_cases)
  next
    case (Cons c q)
    have "drop (length (exp_sign q)) (q @ r) = drop (length (exp_sign q)) q @ r" using exp_sign_length [of q] by simp
    then show ?thesis using Cons digits_stop [OF assms] exp_sign_stop [OF assms, of q]
      by (simp add: exp_part_def Let_def)
  qed
qed

lemma parts_prefix: "length (sign_part s) \<le> length s" "length (int_part s) \<le> length s"
    "length (frac_part s) \<le> length s" "length (exp_part s) \<le> length s"
proof -
  show "length (sign_part s) \<le> length s" "length (int_part s) \<le> length s" "length (frac_part s) \<le> length s"
    by (cases s; simp add: sign_part_def int_part_def frac_part_def length_takeWhile_le)+
  show "length (exp_part s) \<le> length s"
  proof (cases s)
    case (Cons c q)
    have "length (takeWhile is_digit (drop (length (exp_sign q)) q)) \<le> length q - length (exp_sign q)"
      using length_takeWhile_le [of is_digit "drop (length (exp_sign q)) q"] by simp
    with exp_sign_length [of q] Cons show ?thesis by (auto simp: exp_part_def Let_def)
  qed (simp add: exp_part_def)
qed

lemma parts_drop:
  assumes "stops r"
  shows "drop (length (sign_part s)) (s @ r) = drop (length (sign_part s)) s @ r"
    "drop (length (int_part s)) (s @ r) = drop (length (int_part s)) s @ r"
    "drop (length (frac_part s)) (s @ r) = drop (length (frac_part s)) s @ r"
    "drop (length (exp_part s)) (s @ r) = drop (length (exp_part s)) s @ r"
  using parts_prefix [of s] by simp_all

lemma parse_number_stop:
  assumes "stops r" "parse_number s = Some (v, q)"
  shows "parse_number (s @ r) = Some (v, q @ r)"
  using assms(2) unfolding parse_number_parts Let_def parts_stop [OF assms(1)] parts_drop [OF assms(1)]
  by (auto simp only: option.inject prod.inject option.simps split: if_splits)

lemma str_nat_Cons:
  obtains c r where "str_nat n = c # r" "is_digit c" "c = CHR ''0'' \<longleftrightarrow> n = 0"
proof -
  have "\<exists>c r. str_nat n = c # r \<and> (c = CHR ''0'' \<longleftrightarrow> n = 0)"
  proof (induction n rule: str_nat.induct)
    case (1 n)
    show ?case
    proof (cases "n < 10")
      case True
      then have "n \<in> {0, 1, 2, 3, 4, 5, 6, 7, 8, 9}" by (simp only: insert_iff empty_iff) presburger
      then show ?thesis by (subst str_nat.simps) (auto simp: nth_Cons')
    next
      case False
      with 1 show ?thesis by (subst str_nat.simps) auto
    qed
  qed
  then obtain c r where c: "str_nat n = c # r" "c = CHR ''0'' \<longleftrightarrow> n = 0" by blast
  with str_nat_digits [of n] that show thesis by simp
qed

lemma int_part_str_nat: "int_part (str_nat n) = str_nat n"
proof -
  obtain c r where c: "str_nat n = c # r" "is_digit c" "c = CHR ''0'' \<longleftrightarrow> n = 0" by (rule str_nat_Cons)
  show ?thesis
  proof (cases "n = 0")
    case True
    then have "str_nat n = ''0''" by (subst str_nat.simps) simp
    then show ?thesis by (simp add: int_part_def)
  next
    case False
    have "takeWhile is_digit (str_nat n) = str_nat n"
      using str_nat_digits [of n] by (intro takeWhile_eq_all_conv [THEN iffD2]) (simp add: list_all_iff)
    with False c show ?thesis by (simp add: int_part_def)
  qed
qed

lemma parse_str_int: "parse_number (str_int i) = Some (JInt i, [])"
proof (cases "i < 0")
  case True
  then show ?thesis
    by (simp add: parse_number_parts Let_def str_int_def sign_part_def int_part_str_nat frac_part_def exp_part_def)
next
  case False
  obtain c r where c: "str_nat (nat i) = c # r" "is_digit c" by (rule str_nat_Cons)
  then have "sign_part (str_nat (nat i)) = []" by (auto simp: sign_part_def is_digit_def code_point_def)
  with False show ?thesis
    by (simp add: parse_number_parts Let_def str_int_def int_part_str_nat frac_part_def exp_part_def)
qed

text \<open>A text that reads as a number starts with a digit, after an optional sign.\<close>

lemma number_head:
  assumes "parse_number s = Some (v, q)"
  shows "(\<exists>c r. s = c # r \<and> is_digit c) \<or> (\<exists>c r. s = CHR ''-'' # c # r \<and> is_digit c)"
proof -
  have "int_part (drop (length (sign_part s)) s) \<noteq> []"
    using assms unfolding parse_number_parts Let_def by (auto split: if_splits)
  then have "\<exists>c r. drop (length (sign_part s)) s = c # r \<and> is_digit c"
    by (auto simp: int_part_def is_digit_def code_point_def split: list.splits if_splits)
  then show ?thesis by (cases s) (auto simp: sign_part_def split: if_splits)
qed

lemma not_starts: "c \<noteq> d \<Longrightarrow> \<not> startswith (c # s) (d # p)"
  by (simp add: startswith_def)

lemma parse_literal_number:
  assumes "parse_number s = Some (v, q)"
  shows "parse_literal s = Some (v, q)"
  using number_head [OF assms] assms
  by (auto simp: parse_literal_def startswith_def is_digit_def code_point_def)

lemma parse_value_number:
  assumes "parse_number s = Some (v, q)" "0 < n"
  shows "parse_value n s = Some (v, q)"
proof -
  obtain m where "n = Suc m" using assms(2) by (cases n) auto
  with number_head [OF assms(1)] parse_literal_number [OF assms(1)] show ?thesis
    by (auto simp: is_digit_def code_point_def)
qed

subsection \<open>Documents\<close>

text \<open>The first character of a written value.\<close>

definition opens :: "string \<Rightarrow> bool" where
  "opens s = (s \<noteq> [] \<and> \<not> json_ws (hd s) \<and> hd s \<notin> {CHR '','', CHR '']'', CHR ''}''})"

lemma skip_ws_opens [simp]: "opens s \<Longrightarrow> skip_ws (s @ r) = s @ r"
  by (cases s) (simp_all add: opens_def skip_ws_def)

lemma skip_ws_stops [simp]: "stops r \<Longrightarrow> skip_ws r = r"
  by (auto dest!: stops_cases simp: skip_ws_def json_ws_def)

lemma skip_ws_colon [simp]: "skip_ws (CHR '':'' # r) = CHR '':'' # r"
  by (simp add: skip_ws_def json_ws_def)

lemma number_opens: "parse_number s = Some (v, q) \<Longrightarrow> opens s"
  using number_head [of s v q] by (auto simp: opens_def json_ws_def is_digit_def code_point_def)

abbreviation dump :: "json \<Rightarrow> string" where
  "dump \<equiv> dumps False '','' '':''"

lemma dump_opens: "wf_json v \<Longrightarrow> opens (dump v)"
proof (cases v)
  case (JInt i)
  then show ?thesis using number_opens [OF parse_str_int] by simp
next
  case (JFloat f)
  assume "wf_json v"
  with JFloat show ?thesis using number_opens by (auto simp: dump_float_def float_token_def split: float_lit.splits)
qed (auto simp: opens_def json_ws_def dump_string_def dumps_obj)

text \<open>A value reads back in any context with fuel for its length.\<close>

definition reads :: "json \<Rightarrow> json \<Rightarrow> bool" where
  "reads v w = (\<forall>n r. stops r \<longrightarrow> length (dump v) \<le> n \<longrightarrow> parse_value n (dump v @ r) = Some (w, r))"

lemma join_Cons: "ss \<noteq> [] \<Longrightarrow> join sep (s # ss) = s @ sep @ join sep ss"
  by (cases ss) simp_all

lemma parse_elements_dump:
  assumes "xs \<noteq> []" "\<forall>x\<in>set xs. wf_json x \<and> reads x (f x)" "length (join '','' (map dump xs)) < n"
  shows "parse_elements n (join '','' (map dump xs) @ CHR '']'' # r) = Some (map f xs, r)"
  using assms
proof (induction xs arbitrary: n)
  case (Cons x xs)
  then obtain m where n: "n = Suc m" by (cases n) auto
  show ?case
  proof (cases "xs = []")
    case True
    with Cons.prems n have "parse_value m (dump x @ CHR '']'' # r) = Some (f x, CHR '']'' # r)"
      by (simp add: reads_def)
    with True n show ?thesis by simp
  next
    case False
    then have j: "join '','' (dump x # map dump xs) = dump x @ CHR '','' # join '','' (map dump xs)" by (simp add: join_Cons)
    with Cons.prems n have l: "length (dump x) \<le> m" "length (join '','' (map dump xs)) < m" by simp_all
    let ?t = "join '','' (map dump xs) @ CHR '']'' # r"
    have "parse_value m (dump x @ CHR '','' # ?t) = Some (f x, CHR '','' # ?t)"
      using Cons.prems(2) l by (simp add: reads_def)
    moreover have "parse_elements m ?t = Some (map f xs, r)" using Cons False l by simp
    moreover have "skip_ws ?t = ?t"
    proof -
      obtain y ys where xs: "xs = y # ys" using False by (cases xs) auto
      with Cons.prems(2) dump_opens have "opens (dump y)" by simp
      then have "opens (join '','' (map dump xs))" using xs by (cases ys) (auto simp: opens_def)
      then show ?thesis by (rule skip_ws_opens)
    qed
    ultimately show ?thesis using n by (simp add: j)
  qed
qed simp

abbreviation dump_member :: "string \<times> json \<Rightarrow> string" where
  "dump_member kv \<equiv> dump_string False (fst kv) @ '':'' @ dump (snd kv)"

lemma parse_members_dump:
  assumes "kvs \<noteq> []" "\<forall>kv\<in>set kvs. wf_json (snd kv) \<and> reads (snd kv) (f (snd kv))"
    "length (join '','' (map dump_member kvs)) < n"
  shows "parse_members n (join '','' (map dump_member kvs) @ CHR ''}'' # r)
     = Some (map (\<lambda>kv. (fst kv, f (snd kv))) kvs, r)"
  using assms
proof (induction kvs arbitrary: n)
  case (Cons kv kvs)
  obtain k v where kv: "kv = (k, v)" by (cases kv)
  from Cons.prems obtain m where n: "n = Suc m" by (cases n) auto
  have v: "wf_json v" "reads v (f v)" using Cons.prems kv by simp_all
  have str: "dump_string False k = CHR 34 # concat (map (escape_char False) k) @ [CHR 34]" by (simp add: dump_string_def)
  have first: "parse_value m (skip_ws (dump v @ q)) = Some (f v, q)" if "stops q" "length (dump v) \<le> m" for q
    using that v dump_opens [OF v(1)] by (simp add: reads_def)
  show ?case
  proof (cases "kvs = []")
    case True
    with Cons.prems n kv have "length (dump v) \<le> m" by simp
    then show ?thesis using True n kv first [of "CHR ''}'' # r"] parse_dump_string [of k] str by simp
  next
    case False
    then have j: "join '','' (dump_member kv # map dump_member kvs) = dump_member kv @ CHR '','' # join '','' (map dump_member kvs)"
      by (simp add: join_Cons)
    with Cons.prems n kv have l: "length (dump v) \<le> m" "length (join '','' (map dump_member kvs)) < m" by simp_all
    let ?t = "join '','' (map dump_member kvs) @ CHR ''}'' # r"
    have "parse_members m ?t = Some (map (\<lambda>kv. (fst kv, f (snd kv))) kvs, r)" using Cons False l by simp
    moreover have "skip_ws ?t = ?t"
    proof -
      obtain y ys where xs: "kvs = y # ys" using False by (cases kvs) auto
      then have "opens (join '','' (map dump_member kvs))" by (cases ys) (auto simp: opens_def dump_string_def json_ws_def)
      then show ?thesis by (rule skip_ws_opens)
    qed
    ultimately show ?thesis
      using n first [of "CHR '','' # ?t"] parse_dump_string [of k] str l j kv
      by simp
  qed
qed simp

lemma fold_update_fresh:
  "distinct (map fst kvs) \<Longrightarrow> fst ` set kvs \<inter> fst ` set acc = {} \<Longrightarrow>
     fold (\<lambda>(k, v). AList.update k v) kvs acc = acc @ kvs"
proof (induction kvs arbitrary: acc)
  case (Cons kv kvs)
  then have "map_of acc (fst kv) = None" by (auto simp: map_of_eq_None_iff)
  then have "AList.update (fst kv) (snd kv) acc = acc @ [kv]" by (simp add: update_fresh)
  with Cons show ?case by (simp add: case_prod_beta)
qed simp

lemma reads_number: "parse_number (dump v) = Some (w, []) \<Longrightarrow> reads v w"
  unfolding reads_def
proof (intro allI impI)
  fix n r assume a: "parse_number (dump v) = Some (w, [])" "stops r" "length (dump v) \<le> n"
  then have "0 < n" using number_opens [OF a(1)] by (cases "dump v") (auto simp: opens_def)
  with parse_number_stop [OF a(2,1)] parse_value_number show "parse_value n (dump v @ r) = Some (w, r)" by simp
qed

lemma readsI: "(\<And>n r. stops r \<Longrightarrow> length (dump v) \<le> Suc n \<Longrightarrow> parse_value (Suc n) (dump v @ r) = Some (w, r)) \<Longrightarrow>
    dump v \<noteq> [] \<Longrightarrow> reads v w"
  unfolding reads_def by (metis le_zero_eq length_0_conv not0_implies_Suc)

lemma dump_nonempty: "wf_json v \<Longrightarrow> dump v \<noteq> []"
  using dump_opens [of v] by (auto simp: opens_def)

lemma reads_list:
  assumes "\<forall>x\<in>set xs. wf_json x \<and> reads x (f x)"
  shows "reads (JList xs) (JList (map f xs))"
proof (rule readsI)
  fix n r assume n: "length (dump (JList xs)) \<le> Suc n"
  let ?t = "join '','' (map dump xs)"
  show "parse_value (Suc n) (dump (JList xs) @ r) = Some (JList (map f xs), r)"
  proof (cases xs)
    case Nil
    then show ?thesis by (simp add: skip_ws_def json_ws_def)
  next
    case (Cons y ys)
    then have o: "opens ?t" using assms dump_opens [of y] by (cases ys) (auto simp: opens_def)
    then obtain c q where t: "?t = c # q" "c \<noteq> CHR '']''" by (cases ?t) (auto simp: opens_def)
    have "parse_elements n (?t @ CHR '']'' # r) = Some (map f xs, r)"
      using parse_elements_dump [of xs f n r] assms Cons n by simp
    with skip_ws_opens [OF o] t show ?thesis by (simp del: list.map)
  qed
qed simp

lemma reads_obj:
  assumes "distinct (map fst kvs)" "\<forall>kv\<in>set kvs. wf_json (snd kv) \<and> reads (snd kv) (f (snd kv))"
  shows "reads (JObj kvs) (JObj (sort_key fst (map (\<lambda>kv. (fst kv, f (snd kv))) kvs)))"
proof (rule readsI)
  fix n r assume n: "length (dump (JObj kvs)) \<le> Suc n"
  define ss where "ss = sort_key fst kvs"
  let ?t = "join '','' (map dump_member ss)"
  have sort: "sort_key fst (map (\<lambda>kv. (fst kv, f (snd kv))) kvs) = map (\<lambda>kv. (fst kv, f (snd kv))) ss"
    by (simp add: sort_key_pairs ss_def)
  have ss: "set ss = set kvs" "distinct (map fst ss)"
    using assms(1) by (simp_all add: ss_def distinct_map)
  have d: "dump (JObj kvs) = CHR ''{'' # ?t @ ''}''" by (simp add: dumps_obj ss_def)
  show "parse_value (Suc n) (dump (JObj kvs) @ r) = Some (JObj (sort_key fst (map (\<lambda>kv. (fst kv, f (snd kv))) kvs)), r)"
  proof (cases ss)
    case Nil
    then show ?thesis by (simp add: d sort skip_ws_def json_ws_def)
  next
    case (Cons y ys)
    then have o: "opens ?t" by (cases ys) (auto simp: opens_def dump_string_def json_ws_def)
    then obtain c q where t: "?t = c # q" "c \<noteq> CHR ''}''" by (cases ?t) (auto simp: opens_def)
    have "parse_members n (?t @ CHR ''}'' # r) = Some (map (\<lambda>kv. (fst kv, f (snd kv))) ss, r)"
    proof (rule parse_members_dump)
      show "ss \<noteq> []" "\<forall>kv\<in>set ss. wf_json (snd kv) \<and> reads (snd kv) (f (snd kv))" "length ?t < n"
        using Cons assms(2) ss(1) n d by auto
    qed
    moreover have "fold (\<lambda>(k, v). AList.update k v) (map (\<lambda>kv. (fst kv, f (snd kv))) ss) []
        = map (\<lambda>kv. (fst kv, f (snd kv))) ss"
      using fold_update_fresh [of "map (\<lambda>kv. (fst kv, f (snd kv))) ss" "[]"] ss by (simp add: comp_def)
    ultimately show ?thesis using skip_ws_opens [OF o] t by (simp add: d sort)
  qed
qed (simp add: dumps_obj)

lemma wf_json_reads: "wf_json v \<Longrightarrow> reads v (norm_json v)"
proof (induction v rule: norm_json.induct, goal_cases)
  case (1 xs)
  then show ?case by (simp add: reads_list)
next
  case (2 kvs)
  then show ?case by (simp add: reads_obj)
next
  case (5 i)
  then show ?case by (simp add: reads_number parse_str_int)
next
  case (6 f)
  then show ?case by (auto simp: dump_float_def float_token_def intro!: reads_number split: float_lit.splits)
next
  case (7 s)
  show ?case using parse_dump_string [of s] by (intro readsI) (auto simp: dump_string_def)
qed (auto intro!: readsI simp: parse_literal_def startswith_def split: if_splits)

lemma json_reads_dump:
  assumes "wf_json v"
  shows "loads (dump v) = Some (norm_json v)"
proof -
  have "parse_value (2 * length (dump v) + 2) (dump v @ []) = Some (norm_json v, [])"
    using wf_json_reads [OF assms, unfolded reads_def, rule_format, where r = "[]"] by (simp del: parse_value.simps)
  moreover have "skip_ws (dump v) = dump v" using skip_ws_opens [OF dump_opens [OF assms], of "[]"] by simp
  ultimately show ?thesis by (simp add: loads_def skip_ws_def)
qed

text \<open>
  Reading back a written document: \<open>json.loads(json.dumps(v, sort_keys=True, separators=(',', ':')))\<close>
  succeeds for every value with distinct keys and finite numbers and returns the value with its keys
  sorted. The fuel of the reader is enough for every text the writer produces.
\<close>

lemma json_roundtrip:
  assumes "wf_json v"
  shows "loads (dumps_canonical v) = Some (norm_json v)"
  using assms by (rule json_reads_dump)

lemma json_roundtrip_instance:
  "loads (dumps_canonical (JObj [(''b'', JList [JInt (-5), JNull]), (''a'', JStr ''x y'')]))
     = Some (JObj [(''a'', JStr ''x y''), (''b'', JList [JInt (-5), JNull])])"
  by (subst json_roundtrip) code_simp+

subsection \<open>What loads returns\<close>

lemma digit_not [simp]: "is_digit c \<Longrightarrow> c \<noteq> CHR ''-''" "is_digit c \<Longrightarrow> c \<noteq> CHR ''+''"
    "is_digit (CHR ''0'')" "\<not> is_digit (CHR ''.'')" "\<not> is_digit (CHR ''e'')" "\<not> is_digit (CHR ''E'')"
  by (auto simp: is_digit_def code_point_def)

lemma int_part_form: "int_part s = ds \<Longrightarrow> ds \<noteq> [] \<Longrightarrow> is_digit (hd ds) \<and> (ds = ''0'' \<or> hd ds \<noteq> CHR ''0'' \<and> list_all is_digit ds)"
  by (cases s) (auto simp: int_part_def list_all_iff dest: set_takeWhileD split: if_splits)

lemma frac_part_form: "frac_part s = [] \<or> (\<exists>ds. frac_part s = CHR ''.'' # ds \<and> ds \<noteq> [] \<and> list_all is_digit ds)"
  by (cases s) (auto simp: frac_part_def list_all_iff dest: set_takeWhileD)

lemma exp_part_form: "exp_part s = [] \<or> (\<exists>c sg es. exp_part s = c # sg @ es \<and> c \<in> {CHR ''e'', CHR ''E''}
     \<and> sg \<in> {[], ''+'', ''-''} \<and> es \<noteq> [] \<and> list_all is_digit es)"
proof (cases s)
  case (Cons c r)
  have "exp_sign r \<in> {[], ''+'', ''-''}" by (cases r) (auto simp: exp_sign_def)
  with Cons show ?thesis by (auto simp: exp_part_def Let_def list_all_iff dest: set_takeWhileD)
qed (simp add: exp_part_def)

lemma takeWhile_all_digits: "list_all is_digit ds \<Longrightarrow> takeWhile is_digit (ds @ s) = ds @ takeWhile is_digit s"
  by (induction ds) auto

lemma exp_part_again: "exp_part (exp_part s) = exp_part s"
  using exp_part_form [of s]
proof
  assume "\<exists>c sg es. exp_part s = c # sg @ es \<and> c \<in> {CHR ''e'', CHR ''E''} \<and> sg \<in> {[], ''+'', ''-''} \<and> es \<noteq> []
      \<and> list_all is_digit es"
  then obtain c sg es where e: "exp_part s = c # sg @ es" "c \<in> {CHR ''e'', CHR ''E''}" "sg \<in> {[], ''+'', ''-''}"
      "es \<noteq> []" "list_all is_digit es" by blast
  moreover have sg: "exp_sign (sg @ es) = sg" using e by (cases es) (auto simp: exp_sign_def)
  moreover have tw: "takeWhile is_digit es = es" using e takeWhile_all_digits [of es "[]"] by simp
  ultimately show ?thesis unfolding e(1) by (auto simp: exp_part_def Let_def sg tw)
qed (simp add: exp_part_def)

lemma parse_number_token:
  assumes "parse_number s = Some (JFloat (Finite_Repr t), q)"
  shows "float_token t"
proof -
  define sg s0 ds s1 fr s2 ex where "sg = sign_part s" and "s0 = drop (length sg) s" and "ds = int_part s0"
    and "s1 = drop (length ds) s0" and "fr = frac_part s1" and "s2 = drop (length fr) s1" and "ex = exp_part s2"
  have t: "ds \<noteq> []" "\<not> (fr = [] \<and> ex = [])" "t = sg @ ds @ fr @ ex"
    using assms unfolding parse_number_parts Let_def sg_def s0_def ds_def s1_def fr_def s2_def ex_def
    by (auto split: if_splits)
  note d = int_part_form [OF ds_def [symmetric] t(1)] and f = frac_part_form [of s1, folded fr_def]
    and e = exp_part_form [of s2, folded ex_def] and ee = exp_part_again [of s2, folded ex_def]
  obtain c cs where ds: "ds = c # cs" using t(1) by (cases ds) auto
  have ex0: "takeWhile is_digit ex = []" "frac_part ex = []" using e by (auto simp: frac_part_def)
  have "sign_part (sg @ ds @ fr @ ex) = sg" using d ds by (auto simp: sg_def sign_part_def split: list.splits)
  moreover have "int_part (ds @ fr @ ex) = ds"
    using d ds f ex0 takeWhile_all_digits [of ds "fr @ ex"] by (auto simp: int_part_def)
  moreover have "frac_part (fr @ ex) = fr"
    using f ex0 takeWhile_all_digits [of _ ex] by (auto simp: frac_part_def)
  ultimately show ?thesis
    unfolding float_token_def t(3) parse_number_parts Let_def using t(1,2) ee by simp
qed

fun parsed_ok :: "json \<Rightarrow> bool" where
  "parsed_ok (JFloat f) = (case f of Finite_Repr r \<Rightarrow> float_token r | _ \<Rightarrow> True)"
| "parsed_ok (JList xs) = (\<forall>x\<in>set xs. parsed_ok x)"
| "parsed_ok (JObj kvs) = (distinct (map fst kvs) \<and> (\<forall>kv\<in>set kvs. parsed_ok (snd kv)))"
| "parsed_ok v = True"

lemma parse_number_ok: "parse_number s = Some (v, q) \<Longrightarrow> parsed_ok v"
  using parse_number_token [of s _ q]
  by (cases v) (auto simp: parse_number_parts Let_def split: if_splits float_lit.splits)

lemma parse_literal_ok: "parse_literal s = Some (v, q) \<Longrightarrow> parsed_ok v"
  by (auto simp: parse_literal_def parse_number_ok split: if_splits)

lemma fold_update_ok:
  "distinct (map fst acc) \<Longrightarrow> (\<forall>kv\<in>set acc. P (snd kv)) \<Longrightarrow> (\<forall>kv\<in>set kvs. P (snd kv)) \<Longrightarrow>
     distinct (map fst (fold (\<lambda>(k, v). AList.update k v) kvs acc))
     \<and> (\<forall>kv\<in>set (fold (\<lambda>(k, v). AList.update k v) kvs acc). P (snd kv))"
proof (induction kvs arbitrary: acc)
  case (Cons kv kvs)
  have "distinct (map fst (AList.update (fst kv) (snd kv) acc))"
      "\<forall>x\<in>set (AList.update (fst kv) (snd kv) acc). P (snd x)"
    using Cons.prems by (auto simp: distinct_update set_update_distinct)
  from Cons.IH [OF this] Cons.prems show ?case by (simp add: case_prod_beta)
qed simp

lemma obj_ok: "\<forall>kv\<in>set kvs. parsed_ok (snd kv) \<Longrightarrow> parsed_ok (JObj (fold (\<lambda>(k, v). AList.update k v) kvs []))"
  using fold_update_ok [of "[]" parsed_ok kvs] by simp

lemma parse_ok:
  "parse_value n s = Some (v, r) \<Longrightarrow> parsed_ok v"
  "parse_elements n s = Some (vs, r) \<Longrightarrow> \<forall>v\<in>set vs. parsed_ok v"
  "parse_members n s = Some (kvs, r) \<Longrightarrow> \<forall>kv\<in>set kvs. parsed_ok (snd kv)"
proof (induction n s and n s and n s arbitrary: v r and vs r and kvs r
    rule: parse_value_parse_elements_parse_members.induct)
  case (2 n s)
  then show ?case
    by (auto simp: parse_literal_ok simp del: parsed_ok.simps(3) intro!: obj_ok split: list.splits if_splits)
      (simp, metis snd_conv)
next
  case (4 n s)
  then show ?case by (auto split: option.splits list.splits if_splits)
next
  case (6 n s)
  then show ?case by (auto split: option.splits list.splits if_splits) (metis snd_conv)
qed auto

lemma loads_ok: "loads s = Some v \<Longrightarrow> parsed_ok v"
  by (auto simp: loads_def simp del: parse_value.simps split: option.splits if_splits dest: parse_ok(1))

lemma validate_wf: "parsed_ok v \<Longrightarrow> validate_json d v = Inr () \<Longrightarrow> wf_json v"
proof (induction v arbitrary: d rule: wf_json.induct)
  case (4 f)
  then show ?case by (auto simp: validate_json.simps split: float_lit.splits if_splits)
next
  case (6 xs)
  then show ?case by (force simp: validate_json.simps [of d "JList xs"] result_simps split: if_splits)
next
  case (7 kvs)
  then show ?case by (force simp: validate_json.simps [of d "JObj kvs"] result_simps split: if_splits)
qed simp_all

lemma validate_norm: "validate_json d v = Inr () \<Longrightarrow> validate_json d (norm_json v) = Inr ()"
proof (induction v arbitrary: d rule: norm_json.induct)
  case (1 xs)
  then show ?case
    by (auto simp: validate_json.simps [of d "JList _"] result_simps split: if_splits)
next
  case (2 kvs)
  then show ?case
    by (auto simp: validate_json.simps [of d "JObj _"] result_simps split: if_splits)
qed simp_all

lemma JsonObject_roundtrip:
  assumes "JsonObject_post_init x = Inr j"
  shows "\<exists>kvs. JsonObject_to_value j = Inr (JObj kvs) \<and> JsonObject_from_value kvs = Inr j"
proof -
  from assms obtain kvs where l: "loads (canonical x) = Some (JObj kvs)" "validate_json 0 (JObj kvs) = Inr ()"
      "length (utf8 (dump (JObj kvs))) \<le> 1048576" "j = x\<lparr>canonical := dump (JObj kvs)\<rparr>"
    by (auto simp: JsonObject_post_init_def result_simps Let_def split: option.splits json.splits if_splits)
  have wf: "wf_json (JObj kvs)" using validate_wf [OF loads_ok [OF l(1)] l(2)] .
  obtain ss where ss: "norm_json (JObj kvs) = JObj ss" by simp
  note n = validate_norm [OF l(2), unfolded ss] and d = dumps_norm [where v = "JObj kvs", unfolded ss]
  from json_reads_dump [OF wf] have rd: "loads (dump (JObj kvs)) = Some (JObj ss)" by (simp only: ss)
  then have "JsonObject_to_value j = Inr (JObj ss)" by (simp add: JsonObject_to_value_def l(4))
  moreover have "JsonObject_from_value ss = Inr j"
    using n rd l(3) by (cases x) (simp add: JsonObject_from_value_def JsonObject_post_init_def d Let_def l(4))
  ultimately show ?thesis by blast
qed

text \<open>
  A JSON object keeps its value: what \<open>to_value\<close> returns for a constructed \<open>JsonObject\<close>
  is accepted by \<open>from_value\<close> and gives the same object, so storing the value and reading it back
  preserves the canonical text and its digest.
\<close>

lemma JsonObject_value_roundtrip:
  assumes "JsonObject_post_init x = Inr j"
  shows "\<exists>kvs. JsonObject_to_value j = Inr (JObj kvs) \<and> JsonObject_from_value kvs = Inr j"
  using assms by (rule JsonObject_roundtrip)

definition sample_json :: json where
  "sample_json = JObj [(''b'', JInt 1), (''a'', JList [])]"

lemma JsonObject_value_roundtrip_instance:
  "\<exists>kvs. JsonObject_post_init \<lparr>canonical = dumps_default sample_json\<rparr> = Inr \<lparr>canonical = dumps_canonical sample_json\<rparr>
     \<and> JsonObject_to_value \<lparr>canonical = dumps_canonical sample_json\<rparr> = Inr (JObj kvs)
     \<and> JsonObject_from_value kvs = Inr \<lparr>canonical = dumps_canonical sample_json\<rparr>"
proof -
  have "JsonObject_post_init \<lparr>canonical = dumps_default sample_json\<rparr> = Inr \<lparr>canonical = dumps_canonical sample_json\<rparr>"
  proof -
    let ?v = "JObj [(''a'', JList []), (''b'', JInt 1)]"
    have "loads (dumps_default sample_json) = Some ?v" "dumps_canonical ?v = dumps_canonical sample_json"
        "length (utf8 (dumps_canonical ?v)) = 14" "validate_json 0 ?v = Inr ()"
      by code_simp+
    then show ?thesis by (simp add: JsonObject_post_init_def Let_def del: dumps.simps)
  qed
  with JsonObject_value_roundtrip [OF this] show ?thesis by simp
qed

end
