(* ===== verification/Codec.thy ===== *)
theory Codec
  imports Evidence Identity Context_Domain Json_Roundtrip
begin

text \<open>
  The row codecs of \<open>packages/adapters/src/autonoesis_adapters/persistence_codec.py\<close> and the payload
  methods of \<open>SqlAlchemyPlatformRepository\<close>: how an aggregate is written to the columns of its row
  and read back. A row is the dictionary SQLAlchemy returns,
  the columns an operation writes are the list of its keyword arguments, a JSON column holds a JSON value.
\<close>

subsection \<open>Rows and their columns\<close>

datatype cell = C_Null | C_Bool bool | C_Text string | C_Int int | C_Float rat | C_Time datetime | C_Json json

type_synonym row = "string \<rightharpoonup> cell"

type_synonym columns = "(string \<times> cell) list"

text \<open>A selected row carries at least the columns that were written.\<close>

definition row_has :: "row \<Rightarrow> columns \<Rightarrow> bool" where
  "row_has r cols = list_all (\<lambda>(k, v). r k = Some v) cols"

lemma row_has_simps [simp]:
  "row_has r []" "row_has r ((k, v) # cols) \<longleftrightarrow> r k = Some v \<and> row_has r cols"
  by (simp_all add: row_has_def)

lemma row_has_self: "distinct (map fst cols) \<Longrightarrow> row_has (map_of cols) cols"
  by (auto simp: row_has_def list_all_iff)

text \<open>\<open>row["name"]\<close> at the type of the column; a column of another type is a \<open>TypeError\<close>.\<close>

definition column :: "row \<Rightarrow> string \<Rightarrow> cell result" where
  "column r name = (case r name of None \<Rightarrow> Inl (KeyError name) | Some c \<Rightarrow> Inr c)"

definition text_column :: "row \<Rightarrow> string \<Rightarrow> string result" where
  "text_column r name = bindE (column r name) (\<lambda>c. case c of C_Text s \<Rightarrow> Inr s | _ \<Rightarrow> Inl (TypeError name))"

definition int_column :: "row \<Rightarrow> string \<Rightarrow> int result" where
  "int_column r name = bindE (column r name) (\<lambda>c. case c of C_Int i \<Rightarrow> Inr i | _ \<Rightarrow> Inl (TypeError name))"

definition time_column :: "row \<Rightarrow> string \<Rightarrow> datetime result" where
  "time_column r name = bindE (column r name) (\<lambda>c. case c of C_Time t \<Rightarrow> Inr t | _ \<Rightarrow> Inl (TypeError name))"

definition json_column :: "row \<Rightarrow> string \<Rightarrow> json result" where
  "json_column r name = bindE (column r name) (\<lambda>c. case c of C_Json j \<Rightarrow> Inr j | _ \<Rightarrow> Inl (TypeError name))"

definition float_column :: "row \<Rightarrow> string \<Rightarrow> rat result" where
  "float_column r name = bindE (column r name) (\<lambda>c. case c of C_Float x \<Rightarrow> Inr x | _ \<Rightarrow> Inl (TypeError name))"

definition uuid_column :: "row \<Rightarrow> string \<Rightarrow> uuid result" where
  "uuid_column r name = bindE (text_column r name) parse_uuid"

text \<open>\<open>definition["name"]\<close> and \<open>definition.get("name", default)\<close>.\<close>

definition jget :: "json \<Rightarrow> string \<Rightarrow> json result" where
  "jget j name = (case j of JObj kvs \<Rightarrow> (case map_of kvs name of None \<Rightarrow> Inl (KeyError name) | Some v \<Rightarrow> Inr v)
     | _ \<Rightarrow> Inl (TypeError name))"

definition jget_or :: "json \<Rightarrow> json \<Rightarrow> string \<Rightarrow> json result" where
  "jget_or def j name = (case j of JObj kvs \<Rightarrow> (case map_of kvs name of None \<Rightarrow> Inr def | Some v \<Rightarrow> Inr v)
     | _ \<Rightarrow> Inl (TypeError name))"

definition as_text :: "json \<Rightarrow> string result" where
  "as_text j = (case j of JStr s \<Rightarrow> Inr s | _ \<Rightarrow> Inl (TypeError ''str''))"

definition as_int :: "json \<Rightarrow> int result" where
  "as_int j = (case j of JInt i \<Rightarrow> Inr i | _ \<Rightarrow> Inl (TypeError ''int''))"

definition as_bool :: "json \<Rightarrow> bool result" where
  "as_bool j = (case j of JBool b \<Rightarrow> Inr b | _ \<Rightarrow> Inl (TypeError ''bool''))"

definition as_list :: "json \<Rightarrow> json list result" where
  "as_list j = (case j of JList xs \<Rightarrow> Inr xs | _ \<Rightarrow> Inl (TypeError ''list''))"

definition as_object :: "json \<Rightarrow> (string \<times> json) list result" where
  "as_object j = (case j of JObj kvs \<Rightarrow> Inr kvs | _ \<Rightarrow> Inl (TypeError ''dict''))"

definition get_text :: "json \<Rightarrow> string \<Rightarrow> string result" where
  "get_text j name = bindE (jget j name) as_text"

definition get_uuid :: "json \<Rightarrow> string \<Rightarrow> uuid result" where
  "get_uuid j name = bindE (get_text j name) parse_uuid"

definition get_time :: "json \<Rightarrow> string \<Rightarrow> datetime result" where
  "get_time j name = bindE (get_text j name) fromisoformat"

definition get_texts :: "json \<Rightarrow> string \<Rightarrow> string list result" where
  "get_texts j name = bindE (bindE (jget j name) as_list) (mapE as_text)"

text \<open>\<open>definition.get(name)\<close> for an optional text; and \<open>f(definition[name]) if definition.get(name) else None\<close>.\<close>

definition opt_text :: "json \<Rightarrow> string \<Rightarrow> string option result" where
  "opt_text j name = bindE (jget_or JNull j name) (\<lambda>v. case v of JNull \<Rightarrow> Inr None | _ \<Rightarrow> bindE (as_text v) (\<lambda>s. Inr (Some s)))"

definition opt_parsed :: "(string \<Rightarrow> 'a result) \<Rightarrow> json \<Rightarrow> string \<Rightarrow> 'a option result" where
  "opt_parsed f j name = bindE (opt_text j name) (\<lambda>v. case v of None \<Rightarrow> Inr None
     | Some s \<Rightarrow> if s = [] then Inr None else bindE (f s) (\<lambda>x. Inr (Some x)))"

definition jopt :: "('a \<Rightarrow> json) \<Rightarrow> 'a option \<Rightarrow> json" where
  "jopt f v = (case v of None \<Rightarrow> JNull | Some x \<Rightarrow> f x)"

definition juuid :: "uuid \<Rightarrow> json" where
  "juuid u = JStr (str_uuid u)"

definition jtime :: "datetime \<Rightarrow> json" where
  "jtime t = JStr (isoformat t)"

definition jtexts :: "string list \<Rightarrow> json" where
  "jtexts xs = JList (map JStr xs)"

text \<open>\<open>Status(value)\<close> of an enumeration.\<close>

definition enum_of :: "('a \<Rightarrow> string) \<Rightarrow> 'a list \<Rightarrow> string \<Rightarrow> 'a result" where
  "enum_of val members s = (case find (\<lambda>x. val x = s) members of Some x \<Rightarrow> Inr x
     | None \<Rightarrow> Inl (ValueError (s @ '' is not a valid member'')))"

lemma str_uuid_nonempty [simp]: "str_uuid u \<noteq> []"
  by (simp add: str_uuid_def Let_def)

lemma isoformat_nonempty [simp]: "isoformat t \<noteq> []"
  by (simp add: isoformat_def Let_def split: prod.split)

lemma mapE_map: "mapE f (map g xs) = mapE (\<lambda>x. f (g x)) xs"
  by (induction xs) simp_all

lemma mapE_id: "(\<And>x. x \<in> set xs \<Longrightarrow> f x = Inr (g x)) \<Longrightarrow> mapE f xs = Inr (map g xs)"
  by (induction xs) simp_all

text \<open>An enumeration is stored as the value of its member; distinct values make the reading unambiguous.\<close>

locale enumeration =
  fixes val :: "'a \<Rightarrow> string" and members :: "'a list"
  assumes complete: "x \<in> set members" and distinct_values: "distinct (map val members)"
begin

lemma value_inj: "val x = val y \<longleftrightarrow> x = y"
  using complete [of x] complete [of y] distinct_values by (auto simp: distinct_map inj_on_def)

lemma of_value: "enum_of val members (val x) = Inr x"
proof -
  have "find (\<lambda>y. val y = val x) members = Some x"
    using complete [of x] by (induction members) (auto simp: value_inj)
  then show ?thesis by (simp add: enum_of_def)
qed

lemma of_unknown: "s \<notin> range val \<Longrightarrow> \<exists>e. enum_of val members s = Inl e"
  by (auto simp: enum_of_def find_Some_iff split: option.splits)

end

text \<open>A payload codec: whatever was encoded from a valid value is decoded to it.\<close>

locale payload_codec =
  fixes enc :: "'a \<Rightarrow> json" and dec :: "json \<Rightarrow> 'a result" and ok :: "'a \<Rightarrow> bool"
  assumes dec_enc: "ok x \<Longrightarrow> dec (enc x) = Inr x"
begin

lemma dec_list: "list_all ok xs \<Longrightarrow> mapE dec (map enc xs) = Inr xs"
  by (induction xs) (simp_all add: dec_enc)

lemma dec_comp: "list_all ok xs \<Longrightarrow> mapE (\<lambda>x. dec (enc x)) xs = Inr xs"
  using dec_list [of xs] by (simp add: mapE_map)

lemma enc_inj: "ok x \<Longrightarrow> ok y \<Longrightarrow> enc x = enc y \<Longrightarrow> x = y"
  by (metis dec_enc sum.inject(2))

end

named_theorems codec_simps

text \<open>Each accessor returns what was written under its name.\<close>

lemma column_read [codec_simps]:
  "r k = Some (C_Text s) \<Longrightarrow> text_column r k = Inr s"
  "r k = Some (C_Int i) \<Longrightarrow> int_column r k = Inr i"
  "r k = Some (C_Time t) \<Longrightarrow> time_column r k = Inr t"
  "r k = Some (C_Json j) \<Longrightarrow> json_column r k = Inr j"
  "r k = Some (C_Float x) \<Longrightarrow> float_column r k = Inr x"
  "r k = Some (C_Text (str_uuid u)) \<Longrightarrow> uuid_column r k = Inr u"
  by (simp_all add: text_column_def int_column_def time_column_def json_column_def uuid_column_def column_def
      float_column_def parse_uuid_str)

lemma jget_read [codec_simps]:
  "map_of kvs k = Some v \<Longrightarrow> jget (JObj kvs) k = Inr v"
  "map_of kvs k = Some v \<Longrightarrow> jget_or d (JObj kvs) k = Inr v"
  "map_of kvs k = None \<Longrightarrow> jget_or d (JObj kvs) k = Inr d"
  by (simp_all add: jget_def jget_or_def)

lemma as_simps [codec_simps]:
  "as_text (JStr s) = Inr s" "as_int (JInt i) = Inr i" "as_bool (JBool b) = Inr b" "as_list (JList xs) = Inr xs"
  "as_object (JObj kvs) = Inr kvs"
  by (simp_all add: as_text_def as_int_def as_bool_def as_list_def as_object_def)

lemma mapE_texts [codec_simps]: "mapE as_text (map JStr xs) = Inr xs"
  by (induction xs) (simp_all add: codec_simps)

lemma mapE_uuids [codec_simps]: "mapE parse_uuid (map str_uuid xs) = Inr xs"
  by (induction xs) (simp_all add: parse_uuid_str)

lemma get_read [codec_simps]:
  "map_of kvs k = Some (JStr s) \<Longrightarrow> get_text (JObj kvs) k = Inr s"
  "map_of kvs k = Some (juuid u) \<Longrightarrow> get_uuid (JObj kvs) k = Inr u"
  "map_of kvs k = Some (jtime t) \<Longrightarrow> in_years t \<Longrightarrow> get_time (JObj kvs) k = Inr t"
  "map_of kvs k = Some (jtexts xs) \<Longrightarrow> get_texts (JObj kvs) k = Inr xs"
  by (simp_all add: get_text_def get_uuid_def get_time_def get_texts_def juuid_def jtime_def jtexts_def
      codec_simps parse_uuid_str fromisoformat_isoformat)

lemma opt_read [codec_simps]:
  "map_of kvs k = Some (jopt JStr v) \<Longrightarrow> opt_text (JObj kvs) k = Inr v"
  "map_of kvs k = Some (jopt juuid u) \<Longrightarrow> opt_parsed parse_uuid (JObj kvs) k = Inr u"
  "map_of kvs k = Some (jopt jtime t) \<Longrightarrow> pred_option in_years t \<Longrightarrow> opt_parsed fromisoformat (JObj kvs) k = Inr t"
  by (auto simp: opt_parsed_def opt_text_def jopt_def juuid_def jtime_def codec_simps parse_uuid_str
      fromisoformat_isoformat split: option.splits)

subsection \<open>State transitions\<close>

definition transition_payload :: "StateTransition \<Rightarrow> json" where
  "transition_payload item = JObj
     [(''from_status'', JStr (from_status item)), (''to_status'', JStr (to_status item)),
      (''occurred_at'', jtime (occurred_at item)), (''reason'', JStr (st_reason item)),
      (''actor_id'', juuid (st_actor_id item))]"

definition transition_from :: "json \<Rightarrow> StateTransition result" where
  "transition_from item =
     bindE (get_text item ''from_status'') (\<lambda>a. bindE (get_text item ''to_status'') (\<lambda>b.
     bindE (get_time item ''occurred_at'') (\<lambda>t. bindE (get_text item ''reason'') (\<lambda>r.
     bindE (get_uuid item ''actor_id'') (\<lambda>u. StateTransition_post_init
       \<lparr>from_status = a, to_status = b, occurred_at = t, st_reason = r, st_actor_id = u\<rparr>)))))"

definition transitions_from :: "json \<Rightarrow> StateTransition list result" where
  "transitions_from payload = (case payload of JList items \<Rightarrow> mapE transition_from items | _ \<Rightarrow> Inr [])"

definition transition_ok :: "StateTransition \<Rightarrow> bool" where
  "transition_ok t = (StateTransition_post_init t = Inr t \<and> in_years (occurred_at t))"

interpretation transition: payload_codec transition_payload transition_from transition_ok
proof unfold_locales
  fix t assume "transition_ok t"
  then show "transition_from (transition_payload t) = Inr t"
    by (cases t) (simp add: transition_from_def transition_payload_def transition_ok_def codec_simps)
qed

lemma transitions_roundtrip [codec_simps]:
  "list_all transition_ok ts \<Longrightarrow> transitions_from (JList (map transition_payload ts)) = Inr ts"
  by (simp add: transitions_from_def transition.dec_list)

subsection \<open>Runs\<close>

definition RUN_STATUSES :: "RunStatus list" where
  "RUN_STATUSES = [R_PENDING, R_RUNNING, R_BLOCKED, R_AWAITING_EVIDENCE, R_SUCCEEDED, R_FAILED, R_CANCELLED]"

interpretation run_status: enumeration RunStatus_value RUN_STATUSES
  by unfold_locales (auto simp: RUN_STATUSES_def intro: RunStatus.exhaust)

definition snapshot_payload :: "RunExecutionSnapshot \<Rightarrow> json" where
  "snapshot_payload snapshot = JObj
     [(''plan_id'', juuid (snap_plan_id snapshot)),
      (''context_snapshot_id'', juuid (snap_context_snapshot_id snapshot)),
      (''agent_version_id'', juuid (snap_agent_version_id snapshot)),
      (''skill_versions'', jtexts (snap_skill_versions snapshot)),
      (''tool_versions'', jtexts (snap_tool_versions snapshot)),
      (''model_route'', JStr (snap_model_route snapshot)),
      (''policy_version'', JStr (snap_policy_version snapshot))]"

definition run_payload :: "Run \<Rightarrow> json" where
  "run_payload run = JObj
     [(''execution_snapshot'', jopt snapshot_payload (run_execution_snapshot run)),
      (''transitions'', JList (map transition_payload (run_transitions run))),
      (''deployment_id'', jopt juuid (run_deployment_id run))]"

definition snapshot_from :: "json \<Rightarrow> RunExecutionSnapshot result" where
  "snapshot_from snapshot =
     bindE (get_uuid snapshot ''plan_id'') (\<lambda>p. bindE (get_uuid snapshot ''context_snapshot_id'') (\<lambda>c.
     bindE (get_uuid snapshot ''agent_version_id'') (\<lambda>a. bindE (get_texts snapshot ''skill_versions'') (\<lambda>sk.
     bindE (get_texts snapshot ''tool_versions'') (\<lambda>tv. bindE (get_text snapshot ''model_route'') (\<lambda>m.
     bindE (get_text snapshot ''policy_version'') (\<lambda>pv. RunExecutionSnapshot_post_init
       \<lparr>snap_plan_id = p, snap_context_snapshot_id = c, snap_agent_version_id = a, snap_skill_versions = sk,
        snap_tool_versions = tv, snap_model_route = m, snap_policy_version = pv\<rparr>)))))))"

text \<open>An empty dictionary is as false as \<open>None\<close>.\<close>

definition truthy :: "json \<Rightarrow> bool" where
  "truthy j = (j \<notin> {JNull, JObj [], JList [], JStr [], JBool False, JInt 0, JFloat (Finite_Repr ''0.0''), JFloat (Finite_Repr ''-0.0'')})"

definition run_from_row :: "row \<Rightarrow> Run result" where
  "run_from_row row =
     bindE (json_column row ''definition'') (\<lambda>d0. let definition = (if truthy d0 then d0 else JObj []) in
     bindE (jget_or JNull definition ''execution_snapshot'') (\<lambda>snapshot.
     bindE (uuid_column row ''tenant_id'') (\<lambda>tenant. bindE (uuid_column row ''goal_id'') (\<lambda>goal.
     bindE (uuid_column row ''agent_version_id'') (\<lambda>agent.
     bindE (if truthy snapshot then bindE (snapshot_from snapshot) (\<lambda>s. Inr (Some s)) else Inr None) (\<lambda>snap.
     bindE (uuid_column row ''id'') (\<lambda>i. bindE (bindE (text_column row ''status'') (enum_of RunStatus_value RUN_STATUSES)) (\<lambda>st.
     bindE (int_column row ''optimistic_version'') (\<lambda>v. bindE (time_column row ''created_at'') (\<lambda>created.
     bindE (bindE (jget_or JNull definition ''transitions'') transitions_from) (\<lambda>ts.
     bindE (opt_parsed parse_uuid definition ''deployment_id'') (\<lambda>dep. Run_post_init
       \<lparr>run_tenant_id = tenant, run_goal_id = goal, run_agent_version_id = agent, run_execution_snapshot = snap,
        run_id = i, run_status = st, run_optimistic_version = v, run_created_at = created, run_transitions = ts,
        run_deployment_id = dep\<rparr>))))))))))))"

text \<open>\<open>TenantNamespaces(tenant_id).workflow_id(run_id)\<close>.\<close>

definition workflow_id :: "uuid \<Rightarrow> uuid \<Rightarrow> string" where
  "workflow_id tenant run = ''tenant-'' @ uuid_hex tenant @ ''-goal-run-'' @ str_uuid run"

text \<open>The columns \<open>add_run\<close> inserts.\<close>

definition run_row :: "Run \<Rightarrow> columns" where
  "run_row run =
     [(''id'', C_Text (str_uuid (run_id run))), (''tenant_id'', C_Text (str_uuid (run_tenant_id run))),
      (''goal_id'', C_Text (str_uuid (run_goal_id run))),
      (''agent_version_id'', C_Text (str_uuid (run_agent_version_id run))),
      (''status'', C_Text (RunStatus_value (run_status run))),
      (''temporal_workflow_id'', C_Text (workflow_id (run_tenant_id run) (run_id run))),
      (''definition'', C_Json (run_payload run)), (''optimistic_version'', C_Int (run_optimistic_version run)),
      (''created_at'', C_Time (run_created_at run))]"

definition run_storable :: "Run \<Rightarrow> bool" where
  "run_storable r = (run_valid r \<and> (case run_execution_snapshot r of None \<Rightarrow> True | Some s \<Rightarrow> snapshot_valid s)
     \<and> list_all transition_ok (run_transitions r))"

interpretation snapshot: payload_codec snapshot_payload snapshot_from snapshot_valid
proof unfold_locales
  fix s assume "snapshot_valid s"
  then show "snapshot_from (snapshot_payload s) = Inr s"
    by (cases s) (simp add: snapshot_from_def snapshot_payload_def codec_simps)
qed

lemma truthy_simps [simp]: "\<not> truthy JNull" "truthy (JObj (x # xs))" "truthy (snapshot_payload s)"
  by (simp_all add: truthy_def snapshot_payload_def)

lemma run_read: "run_storable x \<Longrightarrow> row_has r (run_row x) \<Longrightarrow> run_from_row r = Inr x"
  by (cases x; cases "run_execution_snapshot x") (simp_all add: run_from_row_def run_row_def run_payload_def run_storable_def
      run_status.of_value snapshot.dec_enc jopt_def [of snapshot_payload] codec_simps)

subsection \<open>Goals\<close>

fun RiskTier_value :: "RiskTier \<Rightarrow> string" where
  "RiskTier_value RT_LOW = ''low''"
| "RiskTier_value RT_MEDIUM = ''medium''"
| "RiskTier_value RT_HIGH = ''high''"
| "RiskTier_value RT_CRITICAL = ''critical''"

definition RISK_TIERS :: "RiskTier list" where
  "RISK_TIERS = [RT_LOW, RT_MEDIUM, RT_HIGH, RT_CRITICAL]"

definition BUDGET_UNITS :: "BudgetUnit list" where
  "BUDGET_UNITS = [COST_UNITS, TOKENS, USD_MICROS]"

definition CLASSIFICATIONS :: "DataClassification list" where
  "CLASSIFICATIONS = [PUBLIC, INTERNAL, CONFIDENTIAL, RESTRICTED]"

definition EXECUTION_MODES :: "ExecutionMode list" where
  "EXECUTION_MODES = [AUTONOMOUS, SUPERVISED, HUMAN_ONLY, SHADOW_MODE]"

definition GOAL_STATUSES :: "GoalStatus list" where
  "GOAL_STATUSES = [G_DRAFT, G_ACTIVE, G_PAUSED, G_SATISFIED, G_FAILED, G_CANCELLED]"

interpretation risk_tier: enumeration RiskTier_value RISK_TIERS
  by unfold_locales (auto simp: RISK_TIERS_def intro: RiskTier.exhaust)

interpretation budget_unit: enumeration BudgetUnit_value BUDGET_UNITS
  by unfold_locales (auto simp: BUDGET_UNITS_def intro: BudgetUnit.exhaust)

interpretation classification: enumeration DataClassification_value CLASSIFICATIONS
  by unfold_locales (auto simp: CLASSIFICATIONS_def intro: DataClassification.exhaust)

interpretation execution_mode: enumeration ExecutionMode_value EXECUTION_MODES
  by unfold_locales (auto simp: EXECUTION_MODES_def intro: ExecutionMode.exhaust)

interpretation goal_status: enumeration GoalStatus_value GOAL_STATUSES
  by unfold_locales (auto simp: GOAL_STATUSES_def intro: GoalStatus.exhaust)

lemmas [codec_simps] = risk_tier.of_value budget_unit.of_value classification.of_value execution_mode.of_value
  goal_status.of_value run_status.of_value

definition budget_payload :: "BudgetAmount \<Rightarrow> json" where
  "budget_payload b = JObj [(''amount'', JInt (amount b)), (''unit'', JStr (BudgetUnit_value (unit b)))]"

definition budget_from :: "json \<Rightarrow> BudgetAmount result" where
  "budget_from j = bindE (bindE (jget j ''amount'') as_int) (\<lambda>n.
     bindE (bindE (get_text j ''unit'') (enum_of BudgetUnit_value BUDGET_UNITS)) (\<lambda>u.
     BudgetAmount_post_init \<lparr>amount = n, unit = u\<rparr>))"

definition subject_payload :: "SubjectRef \<Rightarrow> json" where
  "subject_payload ref = JObj [(''system'', JStr (subj_system ref)), (''subject_type'', JStr (subject_type ref)),
     (''subject_id'', JStr (subject_id ref)), (''version'', jopt JStr (subj_version ref))]"

definition subject_from :: "json \<Rightarrow> SubjectRef result" where
  "subject_from item = bindE (get_text item ''system'') (\<lambda>a. bindE (get_text item ''subject_type'') (\<lambda>b.
     bindE (get_text item ''subject_id'') (\<lambda>c. bindE (opt_text item ''version'') (\<lambda>v.
     SubjectRef_post_init \<lparr>subj_system = a, subject_type = b, subject_id = c, subj_version = v\<rparr>))))"

definition criterion_payload :: "SuccessCriterion \<Rightarrow> json" where
  "criterion_payload item = JObj [(''criterion_id'', JStr (criterion_id item)),
     (''description'', JStr (crit_description item)), (''evidence_type'', JStr (crit_evidence_type item))]"

definition criterion_from :: "json \<Rightarrow> SuccessCriterion result" where
  "criterion_from item = bindE (get_text item ''criterion_id'') (\<lambda>a. bindE (get_text item ''description'') (\<lambda>b.
     bindE (get_text item ''evidence_type'') (\<lambda>c.
     SuccessCriterion_post_init \<lparr>criterion_id = a, crit_description = b, crit_evidence_type = c\<rparr>)))"

text \<open>\<open>input_payload.to_value()\<close> may raise, so the payload of a goal may.\<close>

definition goal_contract :: "GoalContract \<Rightarrow> json \<Rightarrow> json" where
  "goal_contract goal input = JObj
     [(''statement'', JStr (goal_statement goal)), (''desired_outcome'', JStr (goal_desired_outcome goal)),
      (''subject_refs'', JList (map subject_payload (goal_subject_refs goal))),
      (''success_criteria'', JList (map criterion_payload (goal_success_criteria goal))),
      (''constraints'', jtexts (goal_constraints goal)),
      (''risk_tier'', JStr (RiskTier_value (goal_risk_tier goal))),
      (''budget_limit'', budget_payload (goal_budget_limit goal)), (''deadline'', jtime (goal_deadline goal)),
      (''input_payload'', input), (''delegation_id'', jopt juuid (goal_delegation_id goal)),
      (''data_policy'', JObj
        [(''maximum_classification'', JStr (DataClassification_value (maximum_classification (goal_data_policy goal)))),
         (''allowed_regions'', jtexts (allowed_regions (goal_data_policy goal))),
         (''retention_days'', JInt (retention_days (goal_data_policy goal)))]),
      (''execution_mode'', JStr (ExecutionMode_value (goal_execution_mode goal))),
      (''max_concurrent_runs'', JInt (goal_max_concurrent_runs goal)),
      (''transitions'', JList (map transition_payload (goal_transitions goal)))]"

definition goal_payload :: "GoalContract \<Rightarrow> json result" where
  "goal_payload goal = bindE (JsonObject_to_value (goal_input_payload goal)) (\<lambda>input. Inr (goal_contract goal input))"

definition policy_from :: "json \<Rightarrow> DataPolicy result" where
  "policy_from policy =
     bindE (bindE (bindE (jget_or (JStr ''internal'') policy ''maximum_classification'') as_text)
       (enum_of DataClassification_value CLASSIFICATIONS)) (\<lambda>c.
     bindE (bindE (bindE (jget_or (JList []) policy ''allowed_regions'') as_list) (mapE as_text)) (\<lambda>rs.
     bindE (bindE (jget_or (JInt 30) policy ''retention_days'') as_int) (\<lambda>n.
     DataPolicy_post_init \<lparr>maximum_classification = c, allowed_regions = rs, retention_days = n\<rparr>)))"

definition goal_from_row :: "row \<Rightarrow> GoalContract result" where
  "goal_from_row row = bindE (json_column row ''contract'') (\<lambda>payload.
     bindE (uuid_column row ''tenant_id'') (\<lambda>tenant. bindE (text_column row ''goal_type'') (\<lambda>gt.
     bindE (get_text payload ''statement'') (\<lambda>stmt. bindE (get_text payload ''desired_outcome'') (\<lambda>out.
     bindE (bindE (bindE (jget payload ''subject_refs'') as_list) (mapE subject_from)) (\<lambda>subjects.
     bindE (bindE (bindE (jget payload ''success_criteria'') as_list) (mapE criterion_from)) (\<lambda>criteria.
     bindE (get_texts payload ''constraints'') (\<lambda>cons. bindE (uuid_column row ''owner_id'') (\<lambda>owner.
     bindE (bindE (get_text payload ''risk_tier'') (enum_of RiskTier_value RISK_TIERS)) (\<lambda>risk.
     bindE (bindE (jget payload ''budget_limit'') budget_from) (\<lambda>budget.
     bindE (get_time payload ''deadline'') (\<lambda>deadline.
     bindE (bindE (bindE (jget payload ''input_payload'') as_object) JsonObject_from_value) (\<lambda>input.
     bindE (opt_parsed parse_uuid payload ''delegation_id'') (\<lambda>delegation.
     bindE (bindE (jget_or (JObj []) payload ''data_policy'') policy_from) (\<lambda>policy.
     bindE (bindE (bindE (jget_or (JStr ''supervised'') payload ''execution_mode'') as_text)
       (enum_of ExecutionMode_value EXECUTION_MODES)) (\<lambda>mode.
     bindE (bindE (jget_or (JInt 1) payload ''max_concurrent_runs'') as_int) (\<lambda>mx.
     bindE (uuid_column row ''id'') (\<lambda>i. bindE (int_column row ''optimistic_version'') (\<lambda>v.
     bindE (bindE (text_column row ''status'') (enum_of GoalStatus_value GOAL_STATUSES)) (\<lambda>st.
     bindE (time_column row ''created_at'') (\<lambda>created.
     bindE (bindE (jget_or JNull payload ''transitions'') transitions_from) (\<lambda>ts.
     GoalContract_post_init \<lparr>goal_tenant_id = tenant, goal_type = gt, goal_statement = stmt,
       goal_desired_outcome = out, goal_subject_refs = subjects, goal_success_criteria = criteria,
       goal_constraints = cons, goal_owner_id = owner, goal_risk_tier = risk, goal_budget_limit = budget,
       goal_deadline = deadline, goal_input_payload = input, goal_delegation_id = delegation,
       goal_data_policy = policy, goal_execution_mode = mode, goal_max_concurrent_runs = mx, goal_id = i,
       goal_version = v, goal_status = st, goal_created_at = created, goal_transitions = ts\<rparr>))))))))))))))))))))))"

text \<open>The columns \<open>add_goal\<close> inserts.\<close>

definition goal_columns :: "GoalContract \<Rightarrow> json \<Rightarrow> columns" where
  "goal_columns goal contract =
     [(''id'', C_Text (str_uuid (goal_id goal))), (''tenant_id'', C_Text (str_uuid (goal_tenant_id goal))),
      (''goal_type'', C_Text (goal_type goal)), (''owner_id'', C_Text (str_uuid (goal_owner_id goal))),
      (''status'', C_Text (GoalStatus_value (goal_status goal))), (''contract'', C_Json contract),
      (''optimistic_version'', C_Int (goal_version goal)), (''created_at'', C_Time (goal_created_at goal))]"

definition goal_row :: "GoalContract \<Rightarrow> columns result" where
  "goal_row goal = bindE (goal_payload goal) (\<lambda>contract. Inr (goal_columns goal contract))"

definition json_ok :: "JsonObject \<Rightarrow> bool" where
  "json_ok j = (JsonObject_post_init j = Inr j)"

definition goal_storable :: "GoalContract \<Rightarrow> bool" where
  "goal_storable g = (goal_valid g \<and> list_all (\<lambda>x. SubjectRef_post_init x = Inr x) (goal_subject_refs g)
     \<and> list_all (\<lambda>x. SuccessCriterion_post_init x = Inr x) (goal_success_criteria g)
     \<and> BudgetAmount_post_init (goal_budget_limit g) = Inr (goal_budget_limit g)
     \<and> DataPolicy_post_init (goal_data_policy g) = Inr (goal_data_policy g)
     \<and> json_ok (goal_input_payload g) \<and> in_years (goal_deadline g) \<and> list_all transition_ok (goal_transitions g))"

interpretation budget: payload_codec budget_payload budget_from "\<lambda>b. BudgetAmount_post_init b = Inr b"
proof unfold_locales
  fix b assume "BudgetAmount_post_init b = Inr b"
  then show "budget_from (budget_payload b) = Inr b"
    by (cases b) (simp add: budget_from_def budget_payload_def codec_simps)
qed

interpretation subject: payload_codec subject_payload subject_from "\<lambda>x. SubjectRef_post_init x = Inr x"
proof unfold_locales
  fix x assume "SubjectRef_post_init x = Inr x"
  then show "subject_from (subject_payload x) = Inr x"
    by (cases x) (simp add: subject_from_def subject_payload_def codec_simps)
qed

interpretation criterion: payload_codec criterion_payload criterion_from "\<lambda>x. SuccessCriterion_post_init x = Inr x"
proof unfold_locales
  fix x assume "SuccessCriterion_post_init x = Inr x"
  then show "criterion_from (criterion_payload x) = Inr x"
    by (cases x) (simp add: criterion_from_def criterion_payload_def codec_simps)
qed

lemma json_ok_value: "json_ok j \<Longrightarrow> \<exists>kvs. JsonObject_to_value j = Inr (JObj kvs) \<and> JsonObject_from_value kvs = Inr j"
  unfolding json_ok_def by (rule JsonObject_roundtrip)

text \<open>The data policy is read back from the nested dictionary.\<close>

lemma policy_read [codec_simps]:
  "DataPolicy_post_init \<lparr>maximum_classification = c, allowed_regions = rs, retention_days = n\<rparr>
     = Inr \<lparr>maximum_classification = c, allowed_regions = rs, retention_days = n\<rparr> \<Longrightarrow>
   policy_from (JObj [(''maximum_classification'', JStr (DataClassification_value c)),
     (''allowed_regions'', jtexts rs), (''retention_days'', JInt n)])
     = Inr \<lparr>maximum_classification = c, allowed_regions = rs, retention_days = n\<rparr>"
  by (simp add: policy_from_def jtexts_def codec_simps)

lemma goal_read:
  assumes ok: "goal_storable g" and row: "goal_row g = Inr cols" and has: "row_has r cols"
  shows "goal_from_row r = Inr g"
proof -
  from ok obtain kvs where kvs: "JsonObject_to_value (goal_input_payload g) = Inr (JObj kvs)"
      "JsonObject_from_value kvs = Inr (goal_input_payload g)"
    using json_ok_value [of "goal_input_payload g"] by (auto simp: goal_storable_def)
  obtain c rs n where p: "goal_data_policy g = \<lparr>maximum_classification = c, allowed_regions = rs, retention_days = n\<rparr>"
    by (cases "goal_data_policy g")
  have "row_has r (goal_columns g (goal_contract g (JObj kvs)))"
    using row has kvs by (simp add: goal_row_def goal_payload_def)
  then show ?thesis
    using ok kvs p
    by (cases g) (simp add: goal_columns_def goal_contract_def goal_from_row_def goal_storable_def budget.dec_enc
        subject.dec_list criterion.dec_list codec_simps)
qed

lemma goal_row_ok: "goal_storable g \<Longrightarrow> \<exists>cols. goal_row g = Inr cols \<and> row_has (map_of cols) cols"
  using json_ok_value [of "goal_input_payload g"]
  by (auto simp: goal_storable_def goal_row_def goal_payload_def goal_columns_def)

end
