(* ===== verification/Codec_Records.thy ===== *)
theory Codec_Records
  imports Codec
begin

text \<open>
  The rest of \<open>persistence_codec.py\<close> that the goal execution path uses: tasks and plans, actions,
  attempts, approvals, evidence, outcomes and agent versions, each with the columns its repository
  method inserts and the lemma that a row carrying those columns is read back as the object.
\<close>

subsection \<open>Enumerations\<close>

fun CompensationCapability_value :: "CompensationCapability \<Rightarrow> string" where
  "CompensationCapability_value C_NONE = ''none''"
| "CompensationCapability_value C_AVAILABLE = ''available''"
| "CompensationCapability_value C_REQUIRED = ''required''"

fun ActionAttemptStatus_value :: "ActionAttemptStatus \<Rightarrow> string" where
  "ActionAttemptStatus_value AT_STARTED = ''started''"
| "ActionAttemptStatus_value AT_SUCCEEDED = ''succeeded''"
| "ActionAttemptStatus_value AT_FAILED = ''failed''"
| "ActionAttemptStatus_value AT_UNKNOWN = ''unknown''"

fun EvidenceCaptureMethod_value :: "EvidenceCaptureMethod \<Rightarrow> string" where
  "EvidenceCaptureMethod_value AUTHORITATIVE_READBACK = ''authoritative_readback''"
| "EvidenceCaptureMethod_value SIGNED_EVENT = ''signed_event''"
| "EvidenceCaptureMethod_value SYSTEM_QUERY = ''system_query''"
| "EvidenceCaptureMethod_value HUMAN_ATTESTATION = ''human_attestation''"

fun EvidenceIntegrity_value :: "EvidenceIntegrity \<Rightarrow> string" where
  "EvidenceIntegrity_value EI_VERIFIED = ''verified''"
| "EvidenceIntegrity_value EI_UNVERIFIED = ''unverified''"
| "EvidenceIntegrity_value EI_INVALID = ''invalid''"

fun AssetStage_value :: "AssetStage \<Rightarrow> string" where
  "AssetStage_value AS_CANDIDATE = ''candidate''"
| "AssetStage_value AS_STABLE = ''stable''"
| "AssetStage_value AS_RETIRED = ''retired''"

definition COMPENSATIONS :: "CompensationCapability list" where
  "COMPENSATIONS = [C_NONE, C_AVAILABLE, C_REQUIRED]"

definition ATTEMPT_STATUSES :: "ActionAttemptStatus list" where
  "ATTEMPT_STATUSES = [AT_STARTED, AT_SUCCEEDED, AT_FAILED, AT_UNKNOWN]"

definition CAPTURE_METHODS :: "EvidenceCaptureMethod list" where
  "CAPTURE_METHODS = [AUTHORITATIVE_READBACK, SIGNED_EVENT, SYSTEM_QUERY, HUMAN_ATTESTATION]"

definition INTEGRITIES :: "EvidenceIntegrity list" where
  "INTEGRITIES = [EI_VERIFIED, EI_UNVERIFIED, EI_INVALID]"

definition ASSET_STAGES :: "AssetStage list" where
  "ASSET_STAGES = [AS_CANDIDATE, AS_STABLE, AS_RETIRED]"

definition TASK_STATUSES :: "TaskStatus list" where
  "TASK_STATUSES = [T_PENDING, T_READY, T_RUNNING, T_BLOCKED, T_SUCCEEDED, T_FAILED]"

definition RISK_LEVELS :: "RiskLevel list" where
  "RISK_LEVELS = [L0_COMPUTE, L1_READ, L2_REVERSIBLE_WRITE, L3_HIGH_IMPACT_WRITE, L4_PRIVILEGED]"

definition ACTION_STATUSES :: "ActionStatus list" where
  "ACTION_STATUSES = [A_PROPOSED, A_AWAITING_APPROVAL, A_AUTHORIZED, A_EXECUTING, A_SUCCEEDED, A_FAILED, A_DENIED, A_UNKNOWN]"

definition APPROVAL_STATUSES :: "ApprovalStatus list" where
  "APPROVAL_STATUSES = [P_PENDING, P_APPROVED, P_REJECTED, P_EXPIRED]"

definition OUTCOME_STATUSES :: "OutcomeStatus list" where
  "OUTCOME_STATUSES = [O_VERIFIED, O_NOT_MET, O_UNKNOWN]"

interpretation compensation: enumeration CompensationCapability_value COMPENSATIONS
  by unfold_locales (auto simp: COMPENSATIONS_def intro: CompensationCapability.exhaust)

interpretation attempt_status: enumeration ActionAttemptStatus_value ATTEMPT_STATUSES
  by unfold_locales (auto simp: ATTEMPT_STATUSES_def intro: ActionAttemptStatus.exhaust)

interpretation capture_method: enumeration EvidenceCaptureMethod_value CAPTURE_METHODS
  by unfold_locales (auto simp: CAPTURE_METHODS_def intro: EvidenceCaptureMethod.exhaust)

interpretation integrity: enumeration EvidenceIntegrity_value INTEGRITIES
  by unfold_locales (auto simp: INTEGRITIES_def intro: EvidenceIntegrity.exhaust)

interpretation asset_stage: enumeration AssetStage_value ASSET_STAGES
  by unfold_locales (auto simp: ASSET_STAGES_def intro: AssetStage.exhaust)

interpretation task_status: enumeration TaskStatus_value TASK_STATUSES
  by unfold_locales (auto simp: TASK_STATUSES_def intro: TaskStatus.exhaust)

interpretation risk_level: enumeration RiskLevel_value RISK_LEVELS
  by unfold_locales (auto simp: RISK_LEVELS_def intro: RiskLevel.exhaust)

interpretation action_status: enumeration ActionStatus_value ACTION_STATUSES
  by unfold_locales (auto simp: ACTION_STATUSES_def intro: ActionStatus.exhaust)

interpretation approval_status: enumeration ApprovalStatus_value APPROVAL_STATUSES
  by unfold_locales (auto simp: APPROVAL_STATUSES_def intro: ApprovalStatus.exhaust)

interpretation outcome_status: enumeration OutcomeStatus_value OUTCOME_STATUSES
  by unfold_locales (auto simp: OUTCOME_STATUSES_def intro: OutcomeStatus.exhaust)

lemmas [codec_simps] = compensation.of_value attempt_status.of_value capture_method.of_value integrity.of_value
  asset_stage.of_value task_status.of_value risk_level.of_value action_status.of_value approval_status.of_value
  outcome_status.of_value

subsection \<open>Tasks and plans\<close>

definition juuids :: "uuid list \<Rightarrow> json" where
  "juuids us = JList (map juuid us)"

definition get_uuids :: "json \<Rightarrow> string \<Rightarrow> uuid list result" where
  "get_uuids j name = bindE (get_texts j name) (mapE parse_uuid)"

lemma get_uuids_read [codec_simps]: "map_of kvs k = Some (juuids us) \<Longrightarrow> get_uuids (JObj kvs) k = Inr us"
proof -
  assume "map_of kvs k = Some (juuids us)"
  moreover have "juuids us = jtexts (map str_uuid us)" by (simp add: juuids_def jtexts_def juuid_def)
  ultimately show ?thesis by (simp add: get_uuids_def codec_simps)
qed

definition task_payload :: "Task \<Rightarrow> json" where
  "task_payload task = JObj
     [(''name'', JStr (task_name task)), (''completion_criterion'', JStr (completion_criterion task)),
      (''depends_on'', juuids (depends_on task)), (''preconditions'', jtexts (task_preconditions task)),
      (''estimated_cost'', budget_payload (estimated_cost task)),
      (''risk_level'', JStr (RiskLevel_value (task_risk_level task))),
      (''compensation'', JStr (CompensationCapability_value (task_compensation task))),
      (''evidence_requirements'', jtexts (evidence_requirements task)),
      (''transitions'', JList (map transition_payload (task_transitions task)))]"

definition task_from_row :: "row \<Rightarrow> Task result" where
  "task_from_row row = bindE (json_column row ''definition'') (\<lambda>definition.
     bindE (jget definition ''estimated_cost'') (\<lambda>estimated.
     bindE (uuid_column row ''tenant_id'') (\<lambda>tenant. bindE (uuid_column row ''run_id'') (\<lambda>run.
     bindE (get_text definition ''name'') (\<lambda>name. bindE (get_text definition ''completion_criterion'') (\<lambda>crit.
     bindE (get_uuids definition ''depends_on'') (\<lambda>deps. bindE (get_texts definition ''preconditions'') (\<lambda>pre.
     bindE (budget_from estimated) (\<lambda>cost.
     bindE (bindE (get_text definition ''risk_level'') (enum_of RiskLevel_value RISK_LEVELS)) (\<lambda>risk.
     bindE (bindE (get_text definition ''compensation'') (enum_of CompensationCapability_value COMPENSATIONS)) (\<lambda>comp.
     bindE (get_texts definition ''evidence_requirements'') (\<lambda>reqs. bindE (uuid_column row ''id'') (\<lambda>i.
     bindE (bindE (text_column row ''status'') (enum_of TaskStatus_value TASK_STATUSES)) (\<lambda>st.
     bindE (int_column row ''optimistic_version'') (\<lambda>v.
     bindE (bindE (jget_or JNull definition ''transitions'') transitions_from) (\<lambda>ts. Task_post_init
       \<lparr>task_tenant_id = tenant, task_run_id = run, task_name = name, completion_criterion = crit,
        depends_on = deps, task_preconditions = pre, estimated_cost = cost, task_risk_level = risk,
        task_compensation = comp, evidence_requirements = reqs, task_id = i, task_status = st,
        task_optimistic_version = v, task_transitions = ts\<rparr>))))))))))))))))"

definition plan_from_rows :: "row \<Rightarrow> row list \<Rightarrow> Plan result" where
  "plan_from_rows plan_row task_rows =
     bindE (uuid_column plan_row ''tenant_id'') (\<lambda>tenant. bindE (uuid_column plan_row ''goal_id'') (\<lambda>goal.
     bindE (uuid_column plan_row ''run_id'') (\<lambda>run. bindE (mapE task_from_row task_rows) (\<lambda>tasks.
     bindE (int_column plan_row ''version'') (\<lambda>v. bindE (uuid_column plan_row ''id'') (\<lambda>i. Plan_post_init
       \<lparr>plan_tenant_id = tenant, plan_goal_id = goal, plan_run_id = run, plan_tasks = tasks,
        plan_version = v, plan_id = i\<rparr>))))))"

text \<open>The columns \<open>add_plan\<close> inserts for the plan and for each of its tasks.\<close>

definition plan_row :: "Plan \<Rightarrow> datetime \<Rightarrow> columns" where
  "plan_row plan now =
     [(''id'', C_Text (str_uuid (plan_id plan))), (''tenant_id'', C_Text (str_uuid (plan_tenant_id plan))),
      (''goal_id'', C_Text (str_uuid (plan_goal_id plan))), (''run_id'', C_Text (str_uuid (plan_run_id plan))),
      (''version'', C_Int (plan_version plan)),
      (''definition'', C_Json (JObj [(''task_ids'', juuids (map task_id (plan_tasks plan)))])),
      (''optimistic_version'', C_Int 1), (''created_at'', C_Time now)]"

definition task_row :: "Plan \<Rightarrow> datetime \<Rightarrow> Task \<Rightarrow> columns" where
  "task_row plan now task =
     [(''id'', C_Text (str_uuid (task_id task))), (''tenant_id'', C_Text (str_uuid (task_tenant_id task))),
      (''run_id'', C_Text (str_uuid (task_run_id task))), (''plan_id'', C_Text (str_uuid (plan_id plan))),
      (''status'', C_Text (TaskStatus_value (task_status task))), (''definition'', C_Json (task_payload task)),
      (''optimistic_version'', C_Int (task_optimistic_version task)), (''created_at'', C_Time now)]"

definition task_storable :: "Task \<Rightarrow> bool" where
  "task_storable t = (task_valid t \<and> BudgetAmount_post_init (estimated_cost t) = Inr (estimated_cost t)
     \<and> list_all transition_ok (task_transitions t))"

definition plan_storable :: "Plan \<Rightarrow> bool" where
  "plan_storable p = (plan_valid p \<and> list_all task_storable (plan_tasks p))"

lemma task_read: "task_storable t \<Longrightarrow> row_has r (task_row p now t) \<Longrightarrow> task_from_row r = Inr t"
  by (cases t) (simp add: task_from_row_def task_row_def task_payload_def task_storable_def budget.dec_enc codec_simps)

lemma tasks_read: "list_all task_storable ts \<Longrightarrow> list_all2 row_has rs (map (task_row p now) ts) \<Longrightarrow> mapE task_from_row rs = Inr ts"
proof (induction ts arbitrary: rs)
  case (Cons t ts)
  then show ?case by (cases rs) (auto simp: task_read)
qed simp

lemma plan_read:
  "plan_storable p \<Longrightarrow> row_has r (plan_row p now) \<Longrightarrow> list_all2 row_has rs (map (task_row p now) (plan_tasks p)) \<Longrightarrow>
   plan_from_rows r rs = Inr p"
  using tasks_read [of "plan_tasks p" rs p now]
  by (cases p) (simp add: plan_from_rows_def plan_row_def plan_storable_def codec_simps)

subsection \<open>Actions and attempts\<close>

definition action_definition :: "Action \<Rightarrow> json \<Rightarrow> json" where
  "action_definition action parameters = JObj
     [(''tool_name'', JStr (action_tool_name action)), (''tool_version'', JStr (action_tool_version action)),
      (''operation'', JStr (action_operation action)), (''resource_scope'', JStr (action_resource_scope action)),
      (''parameters'', parameters), (''risk_level'', JStr (RiskLevel_value (action_risk_level action))),
      (''expected_effect'', JStr (action_expected_effect action)),
      (''classification'', JStr (DataClassification_value (action_classification action))),
      (''execution_mode'', JStr (ExecutionMode_value (action_execution_mode action))),
      (''transitions'', JList (map transition_payload (action_transitions action)))]"

definition action_payload :: "Action \<Rightarrow> json result" where
  "action_payload action =
     bindE (JsonObject_to_value (action_parameters action)) (\<lambda>parameters. Inr (action_definition action parameters))"

definition action_from_row :: "row \<Rightarrow> Action result" where
  "action_from_row row = bindE (json_column row ''definition'') (\<lambda>definition.
     bindE (uuid_column row ''tenant_id'') (\<lambda>tenant. bindE (uuid_column row ''run_id'') (\<lambda>run.
     bindE (uuid_column row ''task_id'') (\<lambda>task. bindE (get_text definition ''tool_name'') (\<lambda>tool.
     bindE (get_text definition ''tool_version'') (\<lambda>tv. bindE (get_text definition ''operation'') (\<lambda>op.
     bindE (get_text definition ''resource_scope'') (\<lambda>scope.
     bindE (bindE (bindE (jget definition ''parameters'') as_object) JsonObject_from_value) (\<lambda>parameters.
     bindE (bindE (get_text definition ''risk_level'') (enum_of RiskLevel_value RISK_LEVELS)) (\<lambda>risk.
     bindE (text_column row ''idempotency_key'') (\<lambda>key. bindE (get_text definition ''expected_effect'') (\<lambda>effect.
     bindE (bindE (get_text definition ''classification'') (enum_of DataClassification_value CLASSIFICATIONS)) (\<lambda>cl.
     bindE (bindE (get_text definition ''execution_mode'') (enum_of ExecutionMode_value EXECUTION_MODES)) (\<lambda>mode.
     bindE (uuid_column row ''id'') (\<lambda>i.
     bindE (bindE (text_column row ''status'') (enum_of ActionStatus_value ACTION_STATUSES)) (\<lambda>st.
     bindE (int_column row ''optimistic_version'') (\<lambda>v.
     bindE (bindE (jget_or JNull definition ''transitions'') transitions_from) (\<lambda>ts. Action_post_init
       \<lparr>action_tenant_id = tenant, action_run_id = run, action_task_id = task, action_tool_name = tool,
        action_tool_version = tv, action_operation = op, action_resource_scope = scope,
        action_parameters = parameters, action_risk_level = risk, action_idempotency_key = key,
        action_expected_effect = effect, action_classification = cl, action_execution_mode = mode,
        action_id = i, action_status = st, action_optimistic_version = v, action_transitions = ts\<rparr>))))))))))))))))))"

text \<open>The columns \<open>add_action\<close> inserts.\<close>

definition action_columns :: "Action \<Rightarrow> json \<Rightarrow> datetime \<Rightarrow> columns" where
  "action_columns action definition now =
     [(''id'', C_Text (str_uuid (action_id action))), (''tenant_id'', C_Text (str_uuid (action_tenant_id action))),
      (''run_id'', C_Text (str_uuid (action_run_id action))), (''task_id'', C_Text (str_uuid (action_task_id action))),
      (''status'', C_Text (ActionStatus_value (action_status action))),
      (''idempotency_key'', C_Text (action_idempotency_key action)),
      (''action_digest'', C_Text (canonical_digest action)), (''definition'', C_Json definition),
      (''optimistic_version'', C_Int (action_optimistic_version action)), (''created_at'', C_Time now)]"

definition action_row :: "Action \<Rightarrow> datetime \<Rightarrow> columns result" where
  "action_row action now = bindE (action_payload action) (\<lambda>definition. Inr (action_columns action definition now))"

definition action_storable :: "Action \<Rightarrow> bool" where
  "action_storable a = (action_valid a \<and> json_ok (action_parameters a) \<and> list_all transition_ok (action_transitions a))"

lemma action_read:
  assumes ok: "action_storable a" and row: "action_row a now = Inr cols" and has: "row_has r cols"
  shows "action_from_row r = Inr a"
proof -
  from ok obtain kvs where kvs: "JsonObject_to_value (action_parameters a) = Inr (JObj kvs)"
      "JsonObject_from_value kvs = Inr (action_parameters a)"
    using json_ok_value [of "action_parameters a"] by (auto simp: action_storable_def)
  have "row_has r (action_columns a (action_definition a (JObj kvs)) now)"
    using row has kvs by (simp add: action_row_def action_payload_def)
  then show ?thesis
    using ok kvs
    by (cases a) (simp add: action_columns_def action_definition_def action_from_row_def action_storable_def codec_simps)
qed

lemma action_row_ok: "action_storable a \<Longrightarrow> \<exists>cols. action_row a now = Inr cols \<and> row_has (map_of cols) cols"
  using json_ok_value [of "action_parameters a"]
  by (auto simp: action_storable_def action_row_def action_payload_def action_columns_def)

definition action_attempt_payload :: "ActionAttempt \<Rightarrow> json" where
  "action_attempt_payload item = JObj
     [(''executor_identity'', JStr (att_executor_identity item)),
      (''failure_reason'', jopt JStr (att_failure_reason item)), (''recorded_at'', jtime (att_recorded_at item))]"

definition action_attempt_from_row :: "row \<Rightarrow> ActionAttempt result" where
  "action_attempt_from_row row = bindE (json_column row ''definition'') (\<lambda>definition.
     bindE (uuid_column row ''tenant_id'') (\<lambda>tenant. bindE (uuid_column row ''run_id'') (\<lambda>run.
     bindE (uuid_column row ''action_id'') (\<lambda>action. bindE (uuid_column row ''invocation_id'') (\<lambda>inv.
     bindE (bindE (text_column row ''status'') (enum_of ActionAttemptStatus_value ATTEMPT_STATUSES)) (\<lambda>st.
     bindE (text_column row ''idempotency_key'') (\<lambda>key. bindE (text_column row ''receipt_ref'') (\<lambda>receipt.
     bindE (get_text definition ''executor_identity'') (\<lambda>exec. bindE (opt_text definition ''failure_reason'') (\<lambda>reason.
     bindE (uuid_column row ''id'') (\<lambda>i. bindE (get_time definition ''recorded_at'') (\<lambda>t. ActionAttempt_post_init
       \<lparr>att_tenant_id = tenant, att_run_id = run, att_action_id = action, att_invocation_id = inv,
        att_status = st, att_idempotency_key = key, att_receipt_ref = receipt, att_executor_identity = exec,
        att_failure_reason = reason, attempt_id = i, att_recorded_at = t\<rparr>))))))))))))"

text \<open>The columns \<open>add_action_attempt\<close> inserts.\<close>

definition attempt_row :: "ActionAttempt \<Rightarrow> columns" where
  "attempt_row attempt =
     [(''id'', C_Text (str_uuid (attempt_id attempt))), (''tenant_id'', C_Text (str_uuid (att_tenant_id attempt))),
      (''run_id'', C_Text (str_uuid (att_run_id attempt))), (''action_id'', C_Text (str_uuid (att_action_id attempt))),
      (''invocation_id'', C_Text (str_uuid (att_invocation_id attempt))),
      (''status'', C_Text (ActionAttemptStatus_value (att_status attempt))),
      (''idempotency_key'', C_Text (att_idempotency_key attempt)), (''receipt_ref'', C_Text (att_receipt_ref attempt)),
      (''definition'', C_Json (action_attempt_payload attempt)), (''optimistic_version'', C_Int 1),
      (''created_at'', C_Time (att_recorded_at attempt))]"

definition attempt_storable :: "ActionAttempt \<Rightarrow> bool" where
  "attempt_storable a = (attempt_valid a \<and> in_years (att_recorded_at a))"

lemma attempt_read: "attempt_storable a \<Longrightarrow> row_has r (attempt_row a) \<Longrightarrow> action_attempt_from_row r = Inr a"
  by (cases a) (simp add: action_attempt_from_row_def attempt_row_def action_attempt_payload_def attempt_storable_def codec_simps)

subsection \<open>Approvals\<close>

definition review_payload :: "ApprovalReview \<Rightarrow> json" where
  "review_payload review = JObj
     [(''actor_id'', juuid (rev_actor_id review)), (''principal_id'', juuid (rev_principal_id review)),
      (''approved'', JBool (rev_approved review)), (''reason'', JStr (rev_reason review)),
      (''reviewed_at'', jtime (rev_reviewed_at review))]"

definition review_from :: "json \<Rightarrow> ApprovalReview result" where
  "review_from item = bindE (get_uuid item ''actor_id'') (\<lambda>a. bindE (get_uuid item ''principal_id'') (\<lambda>p.
     bindE (jget item ''approved'') (\<lambda>b. bindE (get_text item ''reason'') (\<lambda>r. bindE (get_time item ''reviewed_at'') (\<lambda>t.
     ApprovalReview_post_init \<lparr>rev_actor_id = a, rev_principal_id = p, rev_approved = truthy b, rev_reason = r,
       rev_reviewed_at = t\<rparr>)))))"

definition approval_payload :: "ApprovalRequest \<Rightarrow> json" where
  "approval_payload approval = JObj
     [(''tool_version'', JStr (appr_tool_version approval)), (''operation'', JStr (appr_operation approval)),
      (''resource_scope'', JStr (appr_resource_scope approval)),
      (''argument_digest'', JStr (appr_argument_digest approval)),
      (''policy_version'', JStr (appr_policy_version approval)),
      (''impact_summary'', JStr (appr_impact_summary approval)),
      (''required_role'', JStr (appr_required_role approval)),
      (''decided_by'', jopt juuid (appr_decided_by approval)), (''reason'', jopt JStr (appr_reason approval)),
      (''decided_at'', jopt jtime (appr_decided_at approval)),
      (''required_reviews'', JInt (appr_required_reviews approval)),
      (''reviews'', JList (map review_payload (appr_reviews approval))),
      (''transitions'', JList (map transition_payload (appr_transitions approval)))]"

definition approval_from_row :: "row \<Rightarrow> ApprovalRequest result" where
  "approval_from_row row = bindE (json_column row ''definition'') (\<lambda>definition.
     bindE (uuid_column row ''tenant_id'') (\<lambda>tenant. bindE (uuid_column row ''run_id'') (\<lambda>run.
     bindE (uuid_column row ''action_id'') (\<lambda>action. bindE (text_column row ''action_digest'') (\<lambda>digest.
     bindE (get_text definition ''tool_version'') (\<lambda>tv. bindE (get_text definition ''operation'') (\<lambda>op.
     bindE (get_text definition ''resource_scope'') (\<lambda>scope. bindE (get_text definition ''argument_digest'') (\<lambda>arg.
     bindE (get_text definition ''policy_version'') (\<lambda>pol. bindE (get_text definition ''impact_summary'') (\<lambda>impact.
     bindE (get_text definition ''required_role'') (\<lambda>role. bindE (time_column row ''expires_at'') (\<lambda>expires.
     bindE (uuid_column row ''id'') (\<lambda>i.
     bindE (bindE (text_column row ''status'') (enum_of ApprovalStatus_value APPROVAL_STATUSES)) (\<lambda>st.
     bindE (opt_parsed parse_uuid definition ''decided_by'') (\<lambda>decider. bindE (opt_text definition ''reason'') (\<lambda>reason.
     bindE (time_column row ''created_at'') (\<lambda>created. bindE (opt_parsed fromisoformat definition ''decided_at'') (\<lambda>decided.
     bindE (int_column row ''optimistic_version'') (\<lambda>v.
     bindE (bindE (jget_or JNull definition ''transitions'') transitions_from) (\<lambda>ts.
     bindE (bindE (jget_or (JInt 1) definition ''required_reviews'') as_int) (\<lambda>n.
     bindE (bindE (bindE (jget_or (JList []) definition ''reviews'') as_list) (mapE review_from)) (\<lambda>reviews.
     ApprovalRequest_post_init
       \<lparr>appr_tenant_id = tenant, appr_run_id = run, appr_action_id = action, appr_action_digest = digest,
        appr_tool_version = tv, appr_operation = op, appr_resource_scope = scope, appr_argument_digest = arg,
        appr_policy_version = pol, appr_impact_summary = impact, appr_required_role = role,
        appr_expires_at = expires, approval_id = i, appr_status = st, appr_decided_by = decider, appr_reason = reason,
        appr_created_at = created, appr_decided_at = decided, appr_optimistic_version = v,
        appr_transitions = ts, appr_required_reviews = n, appr_reviews = reviews\<rparr>)))))))))))))))))))))))"

text \<open>The columns \<open>add_approval\<close> inserts.\<close>

definition approval_row :: "ApprovalRequest \<Rightarrow> columns" where
  "approval_row approval =
     [(''id'', C_Text (str_uuid (approval_id approval))), (''tenant_id'', C_Text (str_uuid (appr_tenant_id approval))),
      (''run_id'', C_Text (str_uuid (appr_run_id approval))), (''action_id'', C_Text (str_uuid (appr_action_id approval))),
      (''status'', C_Text (ApprovalStatus_value (appr_status approval))),
      (''action_digest'', C_Text (appr_action_digest approval)), (''expires_at'', C_Time (appr_expires_at approval)),
      (''definition'', C_Json (approval_payload approval)),
      (''optimistic_version'', C_Int (appr_optimistic_version approval)),
      (''created_at'', C_Time (appr_created_at approval))]"

definition review_ok :: "ApprovalReview \<Rightarrow> bool" where
  "review_ok x = (ApprovalReview_post_init x = Inr x \<and> in_years (rev_reviewed_at x))"

definition approval_storable :: "ApprovalRequest \<Rightarrow> bool" where
  "approval_storable a = (approval_valid a \<and> pred_option in_years (appr_decided_at a)
     \<and> list_all transition_ok (appr_transitions a) \<and> list_all review_ok (appr_reviews a))"

lemma truthy_bool [simp]: "truthy (JBool b) = b"
  by (simp add: truthy_def)

interpretation review: payload_codec review_payload review_from review_ok
proof unfold_locales
  fix x assume "review_ok x"
  then show "review_from (review_payload x) = Inr x"
    by (cases x) (simp add: review_from_def review_payload_def review_ok_def codec_simps)
qed

lemma approval_read: "approval_storable a \<Longrightarrow> row_has r (approval_row a) \<Longrightarrow> approval_from_row r = Inr a"
  by (cases a) (simp add: approval_from_row_def approval_row_def approval_payload_def approval_storable_def review.dec_list
      codec_simps)

subsection \<open>Evidence and outcomes\<close>

definition evidence_payload :: "Evidence \<Rightarrow> json" where
  "evidence_payload item = JObj
     [(''observed_state'', JStr (ev_observed_state item)), (''captured_at'', jtime (ev_captured_at item)),
      (''source_reference'', JStr (ev_source_reference item)),
      (''subject_refs'', JList (map subject_payload (ev_subject_refs item))),
      (''retained_until'', jopt jtime (ev_retained_until item)),
      (''artifact_version_id'', jopt JStr (ev_artifact_version_id item))]"

definition evidence_from_row :: "row \<Rightarrow> Evidence result" where
  "evidence_from_row row = bindE (json_column row ''definition'') (\<lambda>definition.
     bindE (uuid_column row ''tenant_id'') (\<lambda>tenant. bindE (uuid_column row ''run_id'') (\<lambda>run.
     bindE (uuid_column row ''action_id'') (\<lambda>action. bindE (text_column row ''source'') (\<lambda>source.
     bindE (text_column row ''source_identity'') (\<lambda>identity.
     bindE (bindE (text_column row ''capture_method'') (enum_of EvidenceCaptureMethod_value CAPTURE_METHODS)) (\<lambda>cm.
     bindE (text_column row ''artifact_uri'') (\<lambda>uri. bindE (get_text definition ''observed_state'') (\<lambda>state.
     bindE (text_column row ''content_digest'') (\<lambda>digest.
     bindE (bindE (text_column row ''classification'') (enum_of DataClassification_value CLASSIFICATIONS)) (\<lambda>cl.
     bindE (time_column row ''valid_from'') (\<lambda>vf. bindE (time_column row ''valid_until'') (\<lambda>vu.
     bindE (bindE (text_column row ''integrity'') (enum_of EvidenceIntegrity_value INTEGRITIES)) (\<lambda>integ.
     bindE (bindE (jget_or (JStr []) definition ''source_reference'') as_text) (\<lambda>ref.
     bindE (bindE (bindE (jget_or (JList []) definition ''subject_refs'') as_list) (mapE subject_from)) (\<lambda>subjects.
     bindE (opt_parsed fromisoformat definition ''retained_until'') (\<lambda>retained.
     bindE (opt_text definition ''artifact_version_id'') (\<lambda>av. bindE (uuid_column row ''id'') (\<lambda>i.
     bindE (get_time definition ''captured_at'') (\<lambda>captured. Evidence_post_init
       \<lparr>ev_tenant_id = tenant, ev_run_id = run, ev_action_id = action, ev_source = source,
        ev_source_identity = identity, ev_capture_method = cm, ev_reference = uri, ev_observed_state = state,
        ev_content_digest = digest, ev_classification = cl, ev_valid_from = vf, ev_valid_until = vu,
        ev_integrity = integ, ev_source_reference = ref, ev_subject_refs = subjects,
        ev_retained_until = retained, ev_artifact_version_id = av, evidence_id = i,
        ev_captured_at = captured\<rparr>))))))))))))))))))))"

text \<open>The columns \<open>add_evidence\<close> inserts.\<close>

definition evidence_row :: "Evidence \<Rightarrow> columns" where
  "evidence_row item =
     [(''id'', C_Text (str_uuid (evidence_id item))), (''tenant_id'', C_Text (str_uuid (ev_tenant_id item))),
      (''run_id'', C_Text (str_uuid (ev_run_id item))), (''action_id'', C_Text (str_uuid (ev_action_id item))),
      (''source'', C_Text (ev_source item)), (''source_identity'', C_Text (ev_source_identity item)),
      (''capture_method'', C_Text (EvidenceCaptureMethod_value (ev_capture_method item))),
      (''artifact_uri'', C_Text (ev_reference item)), (''content_digest'', C_Text (ev_content_digest item)),
      (''classification'', C_Text (DataClassification_value (ev_classification item))),
      (''valid_from'', C_Time (ev_valid_from item)), (''valid_until'', C_Time (ev_valid_until item)),
      (''integrity'', C_Text (EvidenceIntegrity_value (ev_integrity item))),
      (''definition'', C_Json (evidence_payload item)), (''optimistic_version'', C_Int 1),
      (''created_at'', C_Time (ev_captured_at item))]"

definition evidence_storable :: "Evidence \<Rightarrow> bool" where
  "evidence_storable e = (evidence_valid e \<and> list_all (\<lambda>x. SubjectRef_post_init x = Inr x) (ev_subject_refs e)
     \<and> pred_option in_years (ev_retained_until e) \<and> in_years (ev_captured_at e))"

lemma evidence_read: "evidence_storable e \<Longrightarrow> row_has r (evidence_row e) \<Longrightarrow> evidence_from_row r = Inr e"
  by (cases e) (simp add: evidence_from_row_def evidence_row_def evidence_payload_def evidence_storable_def subject.dec_list
      codec_simps)

definition outcome_payload :: "Outcome \<Rightarrow> json" where
  "outcome_payload item = JObj [(''evidence_ids'', juuids (evidence_ids item)),
     (''verified_at'', jopt jtime (out_verified_at item))]"

definition outcome_from_row :: "row \<Rightarrow> Evidence list \<Rightarrow> Outcome result" where
  "outcome_from_row row evidence_items = bindE (json_column row ''result'') (\<lambda>payload.
     bindE (uuid_column row ''tenant_id'') (\<lambda>tenant. bindE (uuid_column row ''goal_id'') (\<lambda>goal.
     bindE (uuid_column row ''run_id'') (\<lambda>run. bindE (text_column row ''criterion_id'') (\<lambda>crit.
     bindE (text_column row ''verifier_version'') (\<lambda>vv.
     bindE (bindE (text_column row ''status'') (enum_of OutcomeStatus_value OUTCOME_STATUSES)) (\<lambda>st.
     bindE (uuid_column row ''id'') (\<lambda>i. bindE (opt_parsed fromisoformat payload ''verified_at'') (\<lambda>t. Outcome_post_init
       \<lparr>out_tenant_id = tenant, out_goal_id = goal, out_run_id = run, out_criterion_id = crit,
        out_verifier_version = vv, out_status = st, out_evidence = evidence_items, outcome_id = i,
        out_verified_at = t\<rparr>)))))))))"

text \<open>The columns \<open>add_outcome\<close> inserts, and the identifiers \<open>get_outcome\<close> loads the evidence of.\<close>

definition outcome_row :: "Outcome \<Rightarrow> datetime \<Rightarrow> columns" where
  "outcome_row item now =
     [(''id'', C_Text (str_uuid (outcome_id item))), (''tenant_id'', C_Text (str_uuid (out_tenant_id item))),
      (''goal_id'', C_Text (str_uuid (out_goal_id item))), (''run_id'', C_Text (str_uuid (out_run_id item))),
      (''criterion_id'', C_Text (out_criterion_id item)), (''verifier_version'', C_Text (out_verifier_version item)),
      (''status'', C_Text (OutcomeStatus_value (out_status item))), (''result'', C_Json (outcome_payload item)),
      (''optimistic_version'', C_Int 1), (''created_at'', C_Time now)]"

definition outcome_evidence_ids :: "row \<Rightarrow> uuid list result" where
  "outcome_evidence_ids row = bindE (json_column row ''result'') (\<lambda>payload.
     bindE (bindE (bindE (jget_or (JList []) payload ''evidence_ids'') as_list) (mapE as_text)) (mapE parse_uuid))"

definition outcome_storable :: "Outcome \<Rightarrow> bool" where
  "outcome_storable x = (outcome_valid x \<and> pred_option in_years (out_verified_at x))"

lemma outcome_read:
  "outcome_storable x \<Longrightarrow> row_has r (outcome_row x now) \<Longrightarrow> outcome_from_row r (out_evidence x) = Inr x"
  by (cases x) (simp add: outcome_from_row_def outcome_row_def outcome_payload_def outcome_storable_def codec_simps)

lemma outcome_evidence_ids_read: "row_has r (outcome_row x now) \<Longrightarrow> outcome_evidence_ids r = Inr (evidence_ids x)"
proof -
  have "juuids us = JList (map JStr (map str_uuid us))" for us by (simp add: juuids_def juuid_def)
  then show "row_has r (outcome_row x now) \<Longrightarrow> outcome_evidence_ids r = Inr (evidence_ids x)"
    by (simp add: outcome_evidence_ids_def outcome_row_def outcome_payload_def codec_simps del: map_map)
qed

subsection \<open>Agent versions\<close>

definition loop_payload :: "LoopPolicy \<Rightarrow> json" where
  "loop_payload p = JObj [(''max_rounds'', JInt (max_rounds p)), (''max_tokens'', JInt (max_tokens p)),
     (''max_cost_units'', JInt (max_cost_units p)), (''timeout_seconds'', JInt (timeout_seconds p))]"

definition loop_from :: "json \<Rightarrow> LoopPolicy result" where
  "loop_from loop = bindE (bindE (jget loop ''max_rounds'') as_int) (\<lambda>a. bindE (bindE (jget loop ''max_tokens'') as_int) (\<lambda>b.
     bindE (bindE (jget loop ''max_cost_units'') as_int) (\<lambda>c. bindE (bindE (jget loop ''timeout_seconds'') as_int) (\<lambda>d.
     LoopPolicy_post_init \<lparr>max_rounds = a, max_tokens = b, max_cost_units = c, timeout_seconds = d\<rparr>))))"

definition agent_payload :: "AgentVersion \<Rightarrow> json" where
  "agent_payload version = JObj
     [(''instruction'', JStr (av_instruction version)), (''model_route'', JStr (av_model_route version)),
      (''skill_ids'', jtexts (av_skill_ids version)), (''tool_ids'', jtexts (av_tool_ids version)),
      (''loop_policy'', loop_payload (av_loop_policy version))]"

definition agent_from_row :: "row \<Rightarrow> AgentVersion result" where
  "agent_from_row row = bindE (json_column row ''definition'') (\<lambda>definition. bindE (jget definition ''loop_policy'') (\<lambda>loop.
     bindE (uuid_column row ''tenant_id'') (\<lambda>tenant. bindE (uuid_column row ''agent_id'') (\<lambda>agent.
     bindE (int_column row ''version'') (\<lambda>v. bindE (get_text definition ''instruction'') (\<lambda>instruction.
     bindE (get_text definition ''model_route'') (\<lambda>route. bindE (get_texts definition ''skill_ids'') (\<lambda>skills.
     bindE (get_texts definition ''tool_ids'') (\<lambda>tools. bindE (loop_from loop) (\<lambda>policy.
     bindE (bindE (text_column row ''stage'') (enum_of AssetStage_value ASSET_STAGES)) (\<lambda>stage.
     bindE (uuid_column row ''id'') (\<lambda>i. AgentVersion_post_init
       \<lparr>av_tenant_id = tenant, av_agent_id = agent, av_version = v, av_instruction = instruction,
        av_model_route = route, av_skill_ids = skills, av_tool_ids = tools, av_loop_policy = policy,
        av_stage = stage, agent_version_id = i\<rparr>))))))))))))"

text \<open>The columns \<open>add_agent\<close> inserts.\<close>

definition agent_row :: "string \<Rightarrow> AgentVersion \<Rightarrow> datetime \<Rightarrow> columns" where
  "agent_row name version now =
     [(''id'', C_Text (str_uuid (agent_version_id version))), (''tenant_id'', C_Text (str_uuid (av_tenant_id version))),
      (''agent_id'', C_Text (str_uuid (av_agent_id version))), (''name'', C_Text name),
      (''version'', C_Int (av_version version)), (''stage'', C_Text (AssetStage_value (av_stage version))),
      (''definition'', C_Json (agent_payload version)), (''optimistic_version'', C_Int 1), (''created_at'', C_Time now)]"

definition agent_storable :: "AgentVersion \<Rightarrow> bool" where
  "agent_storable a = (AgentVersion_post_init a = Inr a \<and> LoopPolicy_post_init (av_loop_policy a) = Inr (av_loop_policy a))"

interpretation loop: payload_codec loop_payload loop_from "\<lambda>p. LoopPolicy_post_init p = Inr p"
proof unfold_locales
  fix p assume "LoopPolicy_post_init p = Inr p"
  then show "loop_from (loop_payload p) = Inr p"
    by (cases p) (simp add: loop_from_def loop_payload_def codec_simps)
qed

lemma agent_read: "agent_storable a \<Longrightarrow> row_has r (agent_row name a now) \<Longrightarrow> agent_from_row r = Inr a"
  by (cases a) (simp add: agent_from_row_def agent_row_def agent_payload_def agent_storable_def loop.dec_enc codec_simps)

end
