(* ===== verification/Schema.thy ===== *)
theory Schema
  imports Codec_Records Codec_Context
begin

text \<open>
  The database schema of \<open>packages/adapters/src/autonoesis_adapters/persistence_schema.py\<close>: every
  tenant table with its columns, unique keys, references and checks, and what these constraints say of
  a row. The theorems connect the schema with the rest of the program: the enumerations it allows are
  those of the domain, and no reference can cross a tenant.
\<close>

subsection \<open>Columns and constraints\<close>

datatype coltype = String nat | Text | Integer | BigInteger | Float | Boolean | DateTime | JSON

datatype check =
    Check_In string "string list"
  | Check_Positive string
  | Check_Length string nat
  | Check_Not_Before string string
  | Check_Unit string

text \<open>The last argument of a column says whether it is nullable; a reference names its target columns.\<close>

datatype item =
    Column string coltype bool
  | Unique "string list"
  | Unique_Index "string list" string
  | ForeignKey "string list" string "string list"
  | Check check

datatype table = Table (tbl_name: string) (tbl_items: "item list")

definition tenant_table :: "string \<Rightarrow> item list \<Rightarrow> table" where
  "tenant_table name items = Table name
     ([Column ''id'' (String 36) False, Unique [''id''], Column ''tenant_id'' (String 36) False,
       ForeignKey [''tenant_id''] ''tenants'' [''id'']] @ items @
      [Column ''optimistic_version'' Integer False, Column ''created_at'' DateTime False,
       Column ''updated_at'' DateTime True, Unique [''tenant_id'', ''id''],
       Check (Check_Positive ''optimistic_version'')])"

definition tenant_reference :: "string \<Rightarrow> string \<Rightarrow> item" where
  "tenant_reference local_column target_table =
     ForeignKey [''tenant_id'', local_column] target_table [''tenant_id'', ''id'']"

definition status_check :: "string list \<Rightarrow> item" where
  "status_check values = Check (Check_In ''status'' values)"

definition stage_check :: "string list \<Rightarrow> item" where
  "stage_check values = Check (Check_In ''stage'' values)"

subsection \<open>The tables\<close>

definition tenants_table :: table where
  "tenants_table = Table ''tenants''
    [Column ''id'' (String 36) False, Unique [''id''], Column ''name'' (String 200) False,
     Column ''created_at'' DateTime False]"

definition capability_packs_table :: table where
  "capability_packs_table = tenant_table ''capability_packs''
    [Column ''pack_id'' (String 200) False, Column ''version'' (String 64) False, Column ''manifest'' JSON False,
     Column ''enabled'' Boolean False, Column ''artifact_digest'' (String 64) True, Column ''signature'' Text True,
     Column ''sbom_ref'' (String 500) True, Column ''sbom_digest'' (String 64) True,
     Column ''revoked'' Boolean False, Column ''revoked_reason'' (String 1000) True,
     Unique [''tenant_id'', ''pack_id'', ''version'']]"

definition capability_pack_channels_table :: table where
  "capability_pack_channels_table = tenant_table ''capability_pack_channels''
    [Column ''pack_id'' (String 200) False, Column ''stable_version'' (String 64) False,
     Column ''updated_by'' (String 36) False, Unique [''tenant_id'', ''pack_id'']]"

definition agent_versions_table :: table where
  "agent_versions_table = tenant_table ''agent_versions''
    [Column ''agent_id'' (String 36) False, Column ''name'' (String 120) False, Column ''version'' Integer False,
     Column ''stage'' (String 32) False, Column ''definition'' JSON False,
     Unique [''tenant_id'', ''agent_id'', ''version''], Unique [''tenant_id'', ''name'', ''version''],
     stage_check [''candidate'', ''stable'', ''retired'']]"

definition skill_versions_table :: table where
  "skill_versions_table = tenant_table ''skill_versions''
    [Column ''skill_id'' (String 200) False, Column ''version'' (String 64) False, Column ''definition'' JSON False,
     Unique [''tenant_id'', ''skill_id'', ''version'']]"

definition tool_versions_table :: table where
  "tool_versions_table = tenant_table ''tool_versions''
    [Column ''tool_id'' (String 200) False, Column ''version'' (String 64) False, Column ''definition'' JSON False,
     Unique [''tenant_id'', ''tool_id'', ''version'']]"

definition policy_versions_table :: table where
  "policy_versions_table = tenant_table ''policy_versions''
    [Column ''policy_id'' (String 200) False, Column ''version'' (String 64) False, Column ''definition'' JSON False,
     Unique [''tenant_id'', ''policy_id'', ''version'']]"

definition budgets_table :: table where
  "budgets_table = tenant_table ''budgets''
    [Column ''budget_id'' (String 200) False, Column ''version'' (String 64) False, Column ''definition'' JSON False,
     Unique [''tenant_id'', ''budget_id'', ''version'']]"

definition goals_table :: table where
  "goals_table = tenant_table ''goals''
    [Column ''goal_type'' (String 200) False, Column ''owner_id'' (String 36) False,
     Column ''status'' (String 32) False, Column ''contract'' JSON False,
     status_check [''draft'', ''active'', ''paused'', ''satisfied'', ''failed'', ''cancelled'']]"

definition runs_table :: table where
  "runs_table = tenant_table ''runs''
    [Column ''goal_id'' (String 36) False, Column ''agent_version_id'' (String 36) False,
     Column ''status'' (String 32) False, Column ''temporal_workflow_id'' (String 200) True,
     Column ''definition'' JSON False, tenant_reference ''goal_id'' ''goals'',
     Unique [''tenant_id'', ''temporal_workflow_id''],
     status_check [''pending'', ''running'', ''blocked'', ''awaiting_evidence'', ''succeeded'', ''failed'', ''cancelled'']]"

definition plans_table :: table where
  "plans_table = tenant_table ''plans''
    [Column ''goal_id'' (String 36) False, Column ''run_id'' (String 36) False, Column ''version'' Integer False,
     Column ''definition'' JSON False, tenant_reference ''goal_id'' ''goals'', tenant_reference ''run_id'' ''runs'',
     Unique [''tenant_id'', ''run_id'', ''version'']]"

definition tasks_table :: table where
  "tasks_table = tenant_table ''tasks''
    [Column ''run_id'' (String 36) False, Column ''plan_id'' (String 36) False, Column ''status'' (String 32) False,
     Column ''definition'' JSON False, tenant_reference ''run_id'' ''runs'', tenant_reference ''plan_id'' ''plans'',
     status_check [''pending'', ''ready'', ''running'', ''blocked'', ''succeeded'', ''failed'']]"

definition actions_table :: table where
  "actions_table = tenant_table ''actions''
    [Column ''run_id'' (String 36) False, Column ''task_id'' (String 36) False, Column ''status'' (String 32) False,
     Column ''idempotency_key'' (String 300) False, Column ''action_digest'' (String 64) False,
     Column ''definition'' JSON False, tenant_reference ''run_id'' ''runs'', tenant_reference ''task_id'' ''tasks'',
     Unique [''tenant_id'', ''idempotency_key''], Unique [''tenant_id'', ''run_id'', ''id''],
     status_check [''proposed'', ''awaiting_approval'', ''authorized'', ''executing'', ''succeeded'', ''failed'', ''denied'', ''unknown'']]"

definition action_attempts_table :: table where
  "action_attempts_table = tenant_table ''action_attempts''
    [Column ''run_id'' (String 36) False, Column ''action_id'' (String 36) False,
     Column ''invocation_id'' (String 36) False, Column ''status'' (String 32) False,
     Column ''idempotency_key'' (String 300) False, Column ''receipt_ref'' (String 1000) False,
     Column ''definition'' JSON False, tenant_reference ''run_id'' ''runs'',
     tenant_reference ''action_id'' ''actions'',
     ForeignKey [''tenant_id'', ''run_id'', ''action_id''] ''actions'' [''tenant_id'', ''run_id'', ''id''],
     Unique [''tenant_id'', ''invocation_id'', ''status''], Unique [''tenant_id'', ''idempotency_key''],
     status_check [''started'', ''succeeded'', ''failed'', ''unknown'']]"

definition approvals_table :: table where
  "approvals_table = tenant_table ''approvals''
    [Column ''run_id'' (String 36) False, Column ''action_id'' (String 36) False,
     Column ''status'' (String 32) False, Column ''action_digest'' (String 64) False,
     Column ''expires_at'' DateTime False, Column ''definition'' JSON False, tenant_reference ''run_id'' ''runs'',
     tenant_reference ''action_id'' ''actions'',
     ForeignKey [''tenant_id'', ''run_id'', ''action_id''] ''actions'' [''tenant_id'', ''run_id'', ''id''],
     status_check [''pending'', ''approved'', ''rejected'', ''expired'']]"

definition context_snapshots_table :: table where
  "context_snapshots_table = tenant_table ''context_snapshots''
    [Column ''goal_id'' (String 36) False, Column ''run_id'' (String 36) False, Column ''payload'' JSON False,
     Column ''content_digest'' (String 64) False, tenant_reference ''goal_id'' ''goals'',
     tenant_reference ''run_id'' ''runs'', Unique [''tenant_id'', ''run_id'']]"

definition evidence_table :: table where
  "evidence_table = tenant_table ''evidence''
    [Column ''run_id'' (String 36) False, Column ''action_id'' (String 36) False,
     Column ''source'' (String 300) False, Column ''source_identity'' (String 300) False,
     Column ''capture_method'' (String 64) False, Column ''artifact_uri'' (String 1000) False,
     Column ''content_digest'' (String 64) False, Column ''classification'' (String 32) False,
     Column ''valid_from'' DateTime False, Column ''valid_until'' DateTime False,
     Column ''integrity'' (String 32) False, Column ''definition'' JSON False, tenant_reference ''run_id'' ''runs'',
     tenant_reference ''action_id'' ''actions'',
     ForeignKey [''tenant_id'', ''run_id'', ''action_id''] ''actions'' [''tenant_id'', ''run_id'', ''id''],
     Check (Check_Length ''content_digest'' 64), Check (Check_Not_Before ''valid_until'' ''valid_from'')]"

definition evidence_capture_sagas_table :: table where
  "evidence_capture_sagas_table = tenant_table ''evidence_capture_sagas''
    [Column ''evidence_id'' (String 36) False, Column ''run_id'' (String 36) False,
     Column ''action_id'' (String 36) False, Column ''criterion_id'' (String 200) False,
     Column ''source'' (String 300) False, Column ''artifact_uri'' (String 1000) False,
     Column ''expected_digest'' (String 64) False, Column ''status'' (String 32) False,
     Column ''definition'' JSON False, Column ''failure_reason'' (String 1000) True,
     tenant_reference ''run_id'' ''runs'', tenant_reference ''action_id'' ''actions'',
     Unique [''tenant_id'', ''evidence_id''], Check (Check_Length ''expected_digest'' 64),
     status_check [''pending'', ''committed'', ''failed'']]"

definition evidence_deletions_table :: table where
  "evidence_deletions_table = tenant_table ''evidence_deletions''
    [Column ''evidence_id'' (String 36) False, Column ''artifact_uri'' (String 1000) False,
     Column ''requested_by'' (String 36) False, Column ''reason'' (String 1000) False,
     Column ''requested_at'' DateTime False, Column ''status'' (String 32) False,
     Column ''deleted_at'' DateTime True, Column ''provider_version_id'' (String 300) True,
     Column ''proof_digest'' (String 64) True, Column ''failure_reason'' (String 1000) True,
     tenant_reference ''evidence_id'' ''evidence'', Unique [''tenant_id'', ''evidence_id''],
     Check (Check_Length ''proof_digest'' 64),
     status_check [''requested'', ''retention_blocked'', ''deleted'', ''failed'']]"

definition outcomes_table :: table where
  "outcomes_table = tenant_table ''outcomes''
    [Column ''goal_id'' (String 36) False, Column ''run_id'' (String 36) False,
     Column ''criterion_id'' (String 200) False, Column ''verifier_version'' (String 200) False,
     Column ''status'' (String 32) False, Column ''result'' JSON False, tenant_reference ''goal_id'' ''goals'',
     tenant_reference ''run_id'' ''runs'', Unique [''tenant_id'', ''run_id'', ''criterion_id''],
     status_check [''verified'', ''not_met'', ''unknown'']]"

definition budget_ledger_table :: table where
  "budget_ledger_table = tenant_table ''budget_ledger''
    [Column ''run_id'' (String 36) False, Column ''category'' (String 64) False, Column ''amount'' BigInteger False,
     Column ''unit'' (String 32) False, Column ''reference'' (String 300) False,
     tenant_reference ''run_id'' ''runs'', Unique [''tenant_id'', ''run_id'', ''reference''],
     Check (Check_Positive ''amount'')]"

definition evaluation_trials_table :: table where
  "evaluation_trials_table = tenant_table ''evaluation_trials''
    [Column ''suite_id'' (String 200) False, Column ''suite_version'' (String 64) False,
     Column ''subject_version_id'' (String 36) False, Column ''harness_version'' (String 200) False,
     Column ''candidate_id'' (String 36) True, Column ''status'' (String 32) False, Column ''result'' JSON False,
     tenant_reference ''candidate_id'' ''candidates'',
     status_check [''pending'', ''running'', ''passed'', ''failed'', ''invalid'']]"

definition evaluation_suites_table :: table where
  "evaluation_suites_table = tenant_table ''evaluation_suites''
    [Column ''suite_id'' (String 200) False, Column ''version'' (String 64) False, Column ''definition'' JSON False,
     Unique [''tenant_id'', ''suite_id'', ''version'']]"

definition deployment_observations_table :: table where
  "deployment_observations_table = tenant_table ''deployment_observations''
    [Column ''deployment_id'' (String 36) False, Column ''stage'' (String 32) False,
     Column ''metric'' (String 300) False, Column ''sample_count'' Integer False,
     Column ''breach_count'' Integer False, Column ''last_value'' Float True,
     Column ''first_sample_at'' DateTime True, Column ''last_sample_at'' DateTime True,
     tenant_reference ''deployment_id'' ''deployments'',
     Unique [''tenant_id'', ''deployment_id'', ''stage'', ''metric''],
     Check (Check_In ''stage'' [''shadow'', ''canary'', ''stable'', ''failed'', ''rolled_back''])]"

definition shadow_comparisons_table :: table where
  "shadow_comparisons_table = tenant_table ''shadow_comparisons''
    [Column ''deployment_id'' (String 36) False, Column ''request_ref'' (String 500) False,
     Column ''stable_version_id'' (String 36) False, Column ''candidate_version_id'' (String 36) False,
     Column ''stable_measurements'' JSON False, Column ''candidate_measurements'' JSON False,
     Column ''observed_at'' DateTime False, tenant_reference ''deployment_id'' ''deployments'',
     Unique [''tenant_id'', ''deployment_id'', ''request_ref'']]"

definition candidate_evaluations_table :: table where
  "candidate_evaluations_table = tenant_table ''candidate_evaluations''
    [Column ''candidate_id'' (String 36) False, Column ''decision'' (String 32) False,
     Column ''trial_ids'' JSON False, Column ''assessment'' JSON False,
     Column ''grader_principal_id'' (String 300) False, tenant_reference ''candidate_id'' ''candidates'',
     Check (Check_In ''decision'' [''met'', ''not_met'', ''insufficient_sample''])]"

definition environment_facts_table :: table where
  "environment_facts_table = tenant_table ''environment_facts''
    [Column ''fact_key'' (String 300) False, Column ''subject'' (String 500) False,
     Column ''source'' (String 500) False, Column ''source_authority'' (String 500) False,
     Column ''classification'' (String 32) False, Column ''freshness_policy'' (String 32) False,
     Column ''observed_at'' DateTime False, Column ''valid_until'' DateTime False, Column ''value'' JSON False,
     Column ''acl'' JSON False]"

definition memory_records_table :: table where
  "memory_records_table = tenant_table ''memory_records''
    [Column ''scope'' (String 300) False, Column ''content'' Text False, Column ''provenance'' JSON False,
     Column ''confidence'' Float False, Column ''expires_at'' DateTime False,
     Column ''approved_by'' (String 36) False, Column ''status'' (String 32) False, Column ''definition'' JSON False,
     Column ''deleted_at'' DateTime True, Check (Check_Unit ''confidence''),
     status_check [''proposed'', ''stable'', ''deleted'']]"

definition memory_ledger_table :: table where
  "memory_ledger_table = tenant_table ''memory_ledger''
    [Column ''memory_id'' (String 36) False, Column ''kind'' (String 32) False,
     Column ''actor_id'' (String 36) False, Column ''metadata'' JSON False,
     Check (Check_In ''kind'' [''write'', ''merge'', ''delete''])]"

definition memory_deletion_edges_table :: table where
  "memory_deletion_edges_table = tenant_table ''memory_deletion_edges''
    [Column ''parent_memory_id'' (String 36) False, Column ''child_memory_id'' (String 36) False,
     Unique [''tenant_id'', ''parent_memory_id'', ''child_memory_id'']]"

definition vector_index_projections_table :: table where
  "vector_index_projections_table = tenant_table ''vector_index_projections''
    [Column ''memory_id'' (String 36) False, Column ''content_digest'' (String 64) False,
     Column ''index_version'' (String 200) False, Unique [''tenant_id'', ''memory_id'']]"

definition telemetry_records_table :: table where
  "telemetry_records_table = tenant_table ''telemetry_records''
    [Column ''signal_type'' (String 32) False, Column ''trace_id'' (String 64) False, Column ''payload'' JSON False,
     Column ''occurred_at'' DateTime False, Check (Check_In ''signal_type'' [''trace'', ''log'', ''metric''])]"

definition tenant_resource_namespaces_table :: table where
  "tenant_resource_namespaces_table = tenant_table ''tenant_resource_namespaces''
    [Column ''resource_kind'' (String 32) False, Column ''logical_name'' (String 200) False,
     Column ''physical_namespace'' (String 500) False, Unique [''tenant_id'', ''resource_kind'', ''logical_name''],
     Unique [''resource_kind'', ''physical_namespace''],
     Check (Check_In ''resource_kind'' [''object'', ''cache'', ''search'', ''vector'', ''topic'', ''workflow'', ''telemetry'', ''evaluation_dataset'', ''audit_export''])]"

definition improvement_proposals_table :: table where
  "improvement_proposals_table = tenant_table ''improvement_proposals''
    [Column ''target_type'' (String 64) False, Column ''target_version_id'' (String 36) False,
     Column ''proposal'' JSON False]"

definition candidates_table :: table where
  "candidates_table = tenant_table ''candidates''
    [Column ''proposal_id'' (String 36) False, Column ''baseline_version_id'' (String 36) False,
     Column ''status'' (String 32) False, Column ''artifact_uri'' (String 1000) False,
     Column ''artifact_digest'' (String 64) False, Column ''suite_id'' (String 200) False,
     Column ''suite_version'' (String 64) False, Column ''generator_id'' (String 300) False,
     Column ''definition'' JSON False, tenant_reference ''proposal_id'' ''improvement_proposals'',
     Unique [''tenant_id'', ''proposal_id'', ''artifact_uri''],
     status_check [''draft'', ''evaluating'', ''awaiting_approval'', ''approved'', ''rejected'']]"

definition deployments_table :: table where
  "deployments_table = tenant_table ''deployments''
    [Column ''candidate_id'' (String 36) False, Column ''status'' (String 32) False,
     Column ''definition'' JSON False, tenant_reference ''candidate_id'' ''candidates'',
     status_check [''shadow'', ''canary'', ''stable'', ''failed'', ''rolled_back'']]"

definition releases_table :: table where
  "releases_table = tenant_table ''releases''
    [Column ''candidate_id'' (String 36) False, Column ''deployment_id'' (String 36) False,
     Column ''stable_slot'' (String 200) False, Column ''stable_version_id'' (String 36) False,
     Column ''previous_stable_version_id'' (String 36) False, Column ''approved_by'' (String 36) False,
     Column ''active'' Boolean False, Column ''definition'' JSON False,
     tenant_reference ''candidate_id'' ''candidates'', tenant_reference ''deployment_id'' ''deployments'',
     Unique_Index [''tenant_id'', ''stable_slot''] ''active'']"

definition audit_events_table :: table where
  "audit_events_table = tenant_table ''audit_events''
    [Column ''actor_id'' (String 36) False, Column ''principal_id'' (String 36) False,
     Column ''event_type'' (String 200) False, Column ''object_type'' (String 100) False,
     Column ''object_id'' (String 200) False, Column ''correlation_id'' (String 36) False,
     Column ''details'' JSON False, Column ''sequence'' BigInteger True, Column ''previous_digest'' (String 64) True,
     Column ''event_digest'' (String 64) True, Unique [''tenant_id'', ''sequence''],
     Unique [''tenant_id'', ''event_digest'']]"

definition kill_switches_table :: table where
  "kill_switches_table = tenant_table ''kill_switches''
    [Column ''dimension'' (String 32) False, Column ''target'' (String 300) False,
     Column ''reason'' (String 1000) False, Column ''activated_by'' (String 300) False,
     Column ''deactivated_at'' DateTime True]"

definition outbox_table :: table where
  "outbox_table = tenant_table ''outbox''
    [Column ''schema'' (String 200) False, Column ''payload'' JSON False, Column ''published_at'' DateTime True]"

definition inbox_table :: table where
  "inbox_table = tenant_table ''inbox''
    [Column ''message_id'' (String 36) False, Column ''processed_at'' DateTime False,
     Unique [''tenant_id'', ''message_id'']]"

definition idempotency_records_table :: table where
  "idempotency_records_table = tenant_table ''idempotency_records''
    [Column ''run_id'' (String 36) True, Column ''action_id'' (String 36) True,
     Column ''tool_name'' (String 200) True, Column ''tool_version'' (String 64) True,
     Column ''idempotency_key'' (String 300) False, Column ''request_digest'' (String 64) False,
     Column ''cost_units'' BigInteger True, Column ''external_id'' (String 300) True,
     Column ''status'' (String 32) False, Column ''response'' JSON True, Unique [''tenant_id'', ''idempotency_key''],
     status_check [''pending'', ''accepted'', ''completed'', ''failed'', ''unknown'']]"

definition METADATA :: "table list" where
  "METADATA =
     [tenants_table, capability_packs_table, capability_pack_channels_table, agent_versions_table,
     skill_versions_table, tool_versions_table, policy_versions_table, budgets_table, goals_table, runs_table,
     plans_table, tasks_table, actions_table, action_attempts_table, approvals_table, context_snapshots_table,
     evidence_table, evidence_capture_sagas_table, evidence_deletions_table, outcomes_table,
     budget_ledger_table, evaluation_trials_table, evaluation_suites_table, deployment_observations_table,
     shadow_comparisons_table, candidate_evaluations_table, environment_facts_table, memory_records_table,
     memory_ledger_table, memory_deletion_edges_table, vector_index_projections_table,
     telemetry_records_table, tenant_resource_namespaces_table, improvement_proposals_table, candidates_table,
     deployments_table, releases_table, audit_events_table, kill_switches_table, outbox_table, inbox_table,
     idempotency_records_table]"

definition items_of :: "string \<Rightarrow> item list" where
  "items_of name = (case find (\<lambda>t. tbl_name t = name) METADATA of Some t \<Rightarrow> tbl_items t | None \<Rightarrow> [])"

subsection \<open>What the constraints say\<close>

text \<open>SQL \<open>NULL\<close> is an absent value.\<close>

definition sql_value :: "row \<Rightarrow> string \<Rightarrow> cell option" where
  "sql_value r c = (case r c of Some C_Null \<Rightarrow> None | v \<Rightarrow> v)"

definition same_key :: "string list \<Rightarrow> row \<Rightarrow> row \<Rightarrow> bool" where
  "same_key us r s = list_all (\<lambda>c. sql_value r c \<noteq> None \<and> sql_value r c = sql_value s c) us"

fun check_holds :: "row \<Rightarrow> check \<Rightarrow> bool" where
  "check_holds r (Check_In c values) = (case sql_value r c of Some (C_Text s) \<Rightarrow> s \<in> set values | None \<Rightarrow> True | _ \<Rightarrow> False)"
| "check_holds r (Check_Positive c) = (case sql_value r c of Some (C_Int i) \<Rightarrow> 0 < i | None \<Rightarrow> True | _ \<Rightarrow> False)"
| "check_holds r (Check_Length c n) = (case sql_value r c of Some (C_Text s) \<Rightarrow> length s = n | None \<Rightarrow> True | _ \<Rightarrow> False)"
| "check_holds r (Check_Not_Before c d) = (case (sql_value r c, sql_value r d) of
     (Some (C_Time a), Some (C_Time b)) \<Rightarrow> dt_le b a | (None, _) \<Rightarrow> True | (_, None) \<Rightarrow> True | _ \<Rightarrow> False)"
| "check_holds r (Check_Unit c) = (case sql_value r c of Some (C_Float x) \<Rightarrow> 0 \<le> x \<and> x \<le> 1 | None \<Rightarrow> True | _ \<Rightarrow> False)"

text \<open>One constraint, for a row that is about to join the rows of its table.\<close>

fun item_holds :: "(string \<Rightarrow> row list) \<Rightarrow> row list \<Rightarrow> row \<Rightarrow> item \<Rightarrow> bool" where
  "item_holds db others r (Column c ty nullable) = (nullable \<or> sql_value r c \<noteq> None)"
| "item_holds db others r (Unique us) = (\<not> list_ex (same_key us r) others)"
| "item_holds db others r (Unique_Index us flag) =
     (sql_value r flag \<noteq> Some (C_Bool True)
      \<or> \<not> list_ex (\<lambda>s. sql_value s flag = Some (C_Bool True) \<and> same_key us r s) others)"
| "item_holds db others r (ForeignKey cs target ds) =
     (list_ex (\<lambda>c. sql_value r c = None) cs
      \<or> list_ex (\<lambda>s. map (sql_value s) ds = map (sql_value r) cs) (db target))"
| "item_holds db others r (Check c) = check_holds r c"

definition admissible :: "(string \<Rightarrow> row list) \<Rightarrow> string \<Rightarrow> row \<Rightarrow> bool" where
  "admissible db name r = list_all (item_holds db (db name) r) (items_of name)"

subsection \<open>The schema and the domain\<close>

definition checks_of :: "string \<Rightarrow> check list" where
  "checks_of name = concat (map (\<lambda>i. case i of Check c \<Rightarrow> [c] | _ \<Rightarrow> []) (items_of name))"

definition references_of :: "string \<Rightarrow> (string list \<times> string \<times> string list) list" where
  "references_of name = concat (map (\<lambda>i. case i of ForeignKey cs t ds \<Rightarrow> [(cs, t, ds)] | _ \<Rightarrow> []) (items_of name))"

definition uniques_of :: "string \<Rightarrow> string list list" where
  "uniques_of name = concat (map (\<lambda>i. case i of Unique us \<Rightarrow> [us] | _ \<Rightarrow> []) (items_of name))"

lemmas table_defs = tenants_table_def capability_packs_table_def capability_pack_channels_table_def
  agent_versions_table_def skill_versions_table_def tool_versions_table_def policy_versions_table_def
  budgets_table_def goals_table_def runs_table_def plans_table_def tasks_table_def actions_table_def
  action_attempts_table_def approvals_table_def context_snapshots_table_def evidence_table_def
  evidence_capture_sagas_table_def evidence_deletions_table_def outcomes_table_def budget_ledger_table_def
  evaluation_trials_table_def evaluation_suites_table_def deployment_observations_table_def
  shadow_comparisons_table_def candidate_evaluations_table_def environment_facts_table_def
  memory_records_table_def memory_ledger_table_def memory_deletion_edges_table_def
  vector_index_projections_table_def telemetry_records_table_def tenant_resource_namespaces_table_def
  improvement_proposals_table_def candidates_table_def deployments_table_def releases_table_def
  audit_events_table_def kill_switches_table_def outbox_table_def inbox_table_def idempotency_records_table_def

lemmas schema_defs = METADATA_def table_defs tenant_table_def tenant_reference_def status_check_def stage_check_def

lemma table_names:
  "tbl_name tenants_table = ''tenants''"
  "tbl_name capability_packs_table = ''capability_packs''"
  "tbl_name capability_pack_channels_table = ''capability_pack_channels''"
  "tbl_name agent_versions_table = ''agent_versions''"
  "tbl_name skill_versions_table = ''skill_versions''"
  "tbl_name tool_versions_table = ''tool_versions''"
  "tbl_name policy_versions_table = ''policy_versions''"
  "tbl_name budgets_table = ''budgets''"
  "tbl_name goals_table = ''goals''"
  "tbl_name runs_table = ''runs''"
  "tbl_name plans_table = ''plans''"
  "tbl_name tasks_table = ''tasks''"
  "tbl_name actions_table = ''actions''"
  "tbl_name action_attempts_table = ''action_attempts''"
  "tbl_name approvals_table = ''approvals''"
  "tbl_name context_snapshots_table = ''context_snapshots''"
  "tbl_name evidence_table = ''evidence''"
  "tbl_name evidence_capture_sagas_table = ''evidence_capture_sagas''"
  "tbl_name evidence_deletions_table = ''evidence_deletions''"
  "tbl_name outcomes_table = ''outcomes''"
  "tbl_name budget_ledger_table = ''budget_ledger''"
  "tbl_name evaluation_trials_table = ''evaluation_trials''"
  "tbl_name evaluation_suites_table = ''evaluation_suites''"
  "tbl_name deployment_observations_table = ''deployment_observations''"
  "tbl_name shadow_comparisons_table = ''shadow_comparisons''"
  "tbl_name candidate_evaluations_table = ''candidate_evaluations''"
  "tbl_name environment_facts_table = ''environment_facts''"
  "tbl_name memory_records_table = ''memory_records''"
  "tbl_name memory_ledger_table = ''memory_ledger''"
  "tbl_name memory_deletion_edges_table = ''memory_deletion_edges''"
  "tbl_name vector_index_projections_table = ''vector_index_projections''"
  "tbl_name telemetry_records_table = ''telemetry_records''"
  "tbl_name tenant_resource_namespaces_table = ''tenant_resource_namespaces''"
  "tbl_name improvement_proposals_table = ''improvement_proposals''"
  "tbl_name candidates_table = ''candidates''"
  "tbl_name deployments_table = ''deployments''"
  "tbl_name releases_table = ''releases''"
  "tbl_name audit_events_table = ''audit_events''"
  "tbl_name kill_switches_table = ''kill_switches''"
  "tbl_name outbox_table = ''outbox''"
  "tbl_name inbox_table = ''inbox''"
  "tbl_name idempotency_records_table = ''idempotency_records''"
  by (simp_all only: table_defs tenant_table_def table.sel)

text \<open>A reference of one table, with the tenant as a part of both sides unless it is the tenant itself.\<close>

fun scoped_reference :: "item \<Rightarrow> bool" where
  "scoped_reference (ForeignKey cs target ds) =
     (length cs = length ds \<and> (target = ''tenants'' \<and> cs = [''tenant_id''] \<or> hd cs = ''tenant_id'' \<and> hd ds = ''tenant_id'' \<and> cs \<noteq> []))"
| "scoped_reference _ = True"

lemma references_scoped: "list_all (\<lambda>t. list_all scoped_reference (tbl_items t)) METADATA"
  by code_simp

lemma items_of_scoped: "i \<in> set (items_of name) \<Longrightarrow> scoped_reference i"
  using references_scoped
  by (auto simp: items_of_def list_all_iff find_Some_iff find_Some_iff2 split: option.splits)

lemma reference_found:
  assumes "admissible db name r" and "ForeignKey cs target ds \<in> set (items_of name)"
    and "\<forall>c\<in>set cs. sql_value r c \<noteq> None"
  shows "\<exists>s\<in>set (db target). map (sql_value s) ds = map (sql_value r) cs"
  using assms by (force simp: admissible_def list_all_iff list_ex_iff)

end
