(* ===== verification/Sql_Repository.thy ===== *)
theory Sql_Repository
  imports Schema Store "HOL-Library.Multiset"
begin

text \<open>
  \<open>SqlAlchemyPlatformRepository\<close> of \<open>packages/adapters/src/autonoesis_adapters/persistence.py\<close>: the
  operations the execution of goals uses, over a database. The database itself is not part of the
  repository: it is a parameter with the statements the repository issues, and what is relied on is the
  documented meaning of these statements. A method runs in one transaction, so a method that raises
  leaves no trace: an error has no state. The tenant scope of a session only matters to the row-level
  policies of the database, which repeat the conditions the statements already have.
\<close>

subsection \<open>The database\<close>

text \<open>
  \<open>select(t).where(c1 == v1, ...)\<close>, \<open>insert(t).values(...)\<close>, and \<open>update(t).where(...).values(...)\<close> with its
  \<open>rowcount\<close>. A constraint the statement violates is an error.
\<close>

record 'd engine =
  select_from :: "string \<Rightarrow> columns \<Rightarrow> 'd \<Rightarrow> row list"
  insert_into :: "string \<Rightarrow> columns \<Rightarrow> 'd \<Rightarrow> 'd result"
  update_where :: "string \<Rightarrow> columns \<Rightarrow> columns \<Rightarrow> 'd \<Rightarrow> (nat \<times> 'd) result"

definition rows_of :: "'d engine \<Rightarrow> 'd \<Rightarrow> string \<Rightarrow> row list" where
  "rows_of eng d name = select_from eng name [] d"

text \<open>A condition selects the rows that meet it, in an unspecified order.\<close>

definition select_law :: "'d engine \<Rightarrow> bool" where
  "select_law eng = (\<forall>name w d.
     mset (select_from eng name w d) = mset (filter (\<lambda>r. row_has r w) (rows_of eng d name)))"

text \<open>An accepted insertion adds one row with the given columns that meets the constraints of the schema.\<close>

definition insert_law :: "'d engine \<Rightarrow> bool" where
  "insert_law eng = (\<forall>name cols d d'. insert_into eng name cols d = Inr d' \<longrightarrow>
     (\<exists>r. row_has r cols \<and> admissible (rows_of eng d) name r
        \<and> mset (rows_of eng d' name) = add_mset r (mset (rows_of eng d name)))
     \<and> (\<forall>other. other \<noteq> name \<longrightarrow> mset (rows_of eng d' other) = mset (rows_of eng d other)))"

text \<open>An accepted update overrides the given columns of the rows that meet the condition and counts them.\<close>

definition update_law :: "'d engine \<Rightarrow> bool" where
  "update_law eng = (\<forall>name w v d n d'. update_where eng name w v d = Inr (n, d') \<longrightarrow>
     n = length (select_from eng name w d)
     \<and> mset (rows_of eng d' name) =
         image_mset (\<lambda>r. if row_has r w then r ++ map_of v else r) (mset (rows_of eng d name))
     \<and> (\<forall>other. other \<noteq> name \<longrightarrow> mset (rows_of eng d' other) = mset (rows_of eng d other)))"

definition engine_laws :: "'d engine \<Rightarrow> bool" where
  "engine_laws eng = (select_law eng \<and> insert_law eng \<and> update_law eng)"

subsection \<open>Shared steps of the methods\<close>

definition where_id :: "uuid \<Rightarrow> uuid \<Rightarrow> columns" where
  "where_id tenant_id object_id = [(''id'', C_Text (str_uuid object_id)), (''tenant_id'', C_Text (str_uuid tenant_id))]"

text \<open>\<open>one_or_none()\<close>: more than one row is an error of its own.\<close>

definition one_or_none :: "row list \<Rightarrow> row option result" where
  "one_or_none rows = (case rows of [] \<Rightarrow> Inr None | [r] \<Rightarrow> Inr (Some r)
     | _ \<Rightarrow> Inl (OtherError ''MultipleResultsFound'' ''multiple rows were found''))"

definition get_row :: "'d engine \<Rightarrow> string \<Rightarrow> string \<Rightarrow> uuid \<Rightarrow> uuid \<Rightarrow> 'd \<Rightarrow> row result" where
  "get_row eng name what tenant_id object_id d =
     bindE (one_or_none (select_from eng name (where_id tenant_id object_id) d)) (\<lambda>found.
     case found of None \<Rightarrow> Inl (RecordNotFound (not_found what object_id)) | Some row \<Rightarrow> Inr row)"

definition list_rows :: "'d engine \<Rightarrow> string \<Rightarrow> uuid \<Rightarrow> 'd \<Rightarrow> row list" where
  "list_rows eng name tenant_id d = select_from eng name [(''tenant_id'', C_Text (str_uuid tenant_id))] d"

text \<open>A nullable column.\<close>

definition opt_int_column :: "row \<Rightarrow> string \<Rightarrow> int option result" where
  "opt_int_column r name = bindE (column r name) (\<lambda>c. case c of C_Null \<Rightarrow> Inr None | C_Int i \<Rightarrow> Inr (Some i)
     | _ \<Rightarrow> Inl (TypeError name))"

definition opt_text_column :: "row \<Rightarrow> string \<Rightarrow> string option result" where
  "opt_text_column r name = bindE (column r name) (\<lambda>c. case c of C_Null \<Rightarrow> Inr None | C_Text s \<Rightarrow> Inr (Some s)
     | _ \<Rightarrow> Inl (TypeError name))"

subsection \<open>The audit trail and the outbox\<close>

definition audit_from_row :: "row \<Rightarrow> AuditEvent result" where
  "audit_from_row row =
     bindE (uuid_column row ''tenant_id'') (\<lambda>tenant. bindE (uuid_column row ''actor_id'') (\<lambda>actor.
     bindE (uuid_column row ''principal_id'') (\<lambda>principal. bindE (text_column row ''event_type'') (\<lambda>et.
     bindE (text_column row ''object_type'') (\<lambda>ot. bindE (text_column row ''object_id'') (\<lambda>oid.
     bindE (uuid_column row ''correlation_id'') (\<lambda>corr.
     bindE (bindE (json_column row ''details'') as_object) (\<lambda>details. bindE (uuid_column row ''id'') (\<lambda>i.
     bindE (opt_int_column row ''sequence'') (\<lambda>seq. bindE (opt_text_column row ''previous_digest'') (\<lambda>prev.
     bindE (opt_text_column row ''event_digest'') (\<lambda>dig. bindE (time_column row ''created_at'') (\<lambda>created. Inr
       \<lparr>ae_tenant_id = tenant, ae_actor_id = actor, ae_principal_id = principal, ae_event_type = et,
        ae_object_type = ot, ae_object_id = oid, ae_correlation_id = corr, ae_details = details,
        ae_event_id = i, ae_sequence = seq, ae_previous_digest = prev, ae_event_digest = dig,
        ae_created_at = Some created\<rparr>)))))))))))))"

definition opt_int :: "int option \<Rightarrow> cell" where
  "opt_int v = (case v of None \<Rightarrow> C_Null | Some i \<Rightarrow> C_Int i)"

definition opt_str :: "string option \<Rightarrow> cell" where
  "opt_str v = (case v of None \<Rightarrow> C_Null | Some s \<Rightarrow> C_Text s)"

definition audit_row :: "AuditEvent \<Rightarrow> datetime \<Rightarrow> columns" where
  "audit_row event created_at =
     [(''id'', C_Text (str_uuid (ae_event_id event))), (''tenant_id'', C_Text (str_uuid (ae_tenant_id event))),
      (''actor_id'', C_Text (str_uuid (ae_actor_id event))),
      (''principal_id'', C_Text (str_uuid (ae_principal_id event))),
      (''event_type'', C_Text (ae_event_type event)), (''object_type'', C_Text (ae_object_type event)),
      (''object_id'', C_Text (ae_object_id event)), (''correlation_id'', C_Text (str_uuid (ae_correlation_id event))),
      (''details'', C_Json (JObj (ae_details event))), (''sequence'', opt_int (ae_sequence event)),
      (''previous_digest'', opt_str (ae_previous_digest event)), (''event_digest'', opt_str (ae_event_digest event)),
      (''optimistic_version'', C_Int 1), (''created_at'', C_Time created_at)]"

text \<open>\<open>order_by(sequence.desc()).limit(1)\<close> over the events that carry a sequence number and a digest.\<close>

definition sequence_of :: "row \<Rightarrow> int" where
  "sequence_of r = (case r ''sequence'' of Some (C_Int i) \<Rightarrow> i | _ \<Rightarrow> 0)"

definition chain_rows :: "row list \<Rightarrow> row list" where
  "chain_rows rows = sort_key sequence_of
     (filter (\<lambda>r. sql_value r ''sequence'' \<noteq> None \<and> sql_value r ''event_digest'' \<noteq> None) rows)"

definition latest_audit :: "row list \<Rightarrow> row option" where
  "latest_audit rows = (if chain_rows rows = [] then None else Some (last (chain_rows rows)))"

definition add_audit :: "'d engine \<Rightarrow> AuditEvent \<Rightarrow> datetime \<Rightarrow> 'd \<Rightarrow> (AuditEvent \<times> 'd) result" where
  "add_audit eng audit created_at d =
     bindE (case latest_audit (list_rows eng ''audit_events'' (ae_tenant_id audit) d) of
         None \<Rightarrow> Inr (1, genesis_digest)
       | Some previous \<Rightarrow> bindE (int_column previous ''sequence'') (\<lambda>n.
           bindE (text_column previous ''event_digest'') (\<lambda>digest. Inr (n + 1, digest)))) (\<lambda>(sequence, previous_digest).
     bindE (chained audit sequence previous_digest created_at) (\<lambda>event.
     bindE (insert_into eng ''audit_events'' (audit_row event created_at) d) (\<lambda>d1. Inr (event, d1))))"

definition outbox_row :: "uuid \<Rightarrow> AuditEvent \<Rightarrow> datetime \<Rightarrow> columns" where
  "outbox_row outbox_id audit created_at =
     [(''id'', C_Text (str_uuid outbox_id)), (''tenant_id'', C_Text (str_uuid (ae_tenant_id audit))),
      (''schema'', C_Text (''autonoesis.'' @ ae_event_type audit @ ''.v1'')),
      (''payload'', C_Json (JObj
        [(''event_type'', JStr (ae_event_type audit)), (''object_type'', JStr (ae_object_type audit)),
         (''object_id'', JStr (ae_object_id audit)), (''correlation_id'', juuid (ae_correlation_id audit)),
         (''audit_ref'', jopt JStr (audit_ref audit)), (''audit_sequence'', jopt JInt (ae_sequence audit)),
         (''audit_digest'', jopt JStr (ae_event_digest audit)), (''details'', JObj (ae_details audit))])),
      (''optimistic_version'', C_Int 1), (''created_at'', C_Time created_at)]"

definition add_audit_and_outbox :: "'d engine \<Rightarrow> uuid \<Rightarrow> AuditEvent \<Rightarrow> datetime \<Rightarrow> 'd \<Rightarrow> 'd result" where
  "add_audit_and_outbox eng outbox_id audit created_at d =
     bindE (add_audit eng audit created_at d) (\<lambda>(event, d1).
     insert_into eng ''outbox'' (outbox_row outbox_id event created_at) d1)"

text \<open>The random identifiers of a recorded fact: of the event, of its correlation, of the outbox message.\<close>

record fact_ids =
  fid_event :: uuid
  fid_correlation :: uuid
  fid_outbox :: uuid

definition record_fact ::
  "'d engine \<Rightarrow> fact_ids \<Rightarrow> uuid \<Rightarrow> string \<Rightarrow> string \<Rightarrow> uuid \<Rightarrow> int \<Rightarrow> datetime \<Rightarrow> 'd \<Rightarrow> 'd result" where
  "record_fact eng ids tenant_id event_type object_type object_id version created_at d =
     add_audit_and_outbox eng (fid_outbox ids)
       \<lparr>ae_tenant_id = tenant_id, ae_actor_id = 0, ae_principal_id = 0, ae_event_type = event_type,
        ae_object_type = object_type, ae_object_id = str_uuid object_id, ae_correlation_id = fid_correlation ids,
        ae_details = [(''version'', JInt version)], ae_event_id = fid_event ids, ae_sequence = None,
        ae_previous_digest = None, ae_event_digest = None, ae_created_at = None\<rparr> created_at d"

definition sql_list_audit_events :: "'d engine \<Rightarrow> uuid \<Rightarrow> 'd \<Rightarrow> AuditEvent list result" where
  "sql_list_audit_events eng tenant_id d =
     mapE audit_from_row (sort_key sequence_of (list_rows eng ''audit_events'' tenant_id d))"

text \<open>The conditional update on the optimistic version that every save starts with.\<close>

definition update_versioned ::
  "'d engine \<Rightarrow> string \<Rightarrow> uuid \<Rightarrow> uuid \<Rightarrow> int \<Rightarrow> int \<Rightarrow> columns \<Rightarrow> string \<Rightarrow> datetime \<Rightarrow> 'd \<Rightarrow> 'd result" where
  "update_versioned eng name tenant_id object_id expected_version new_version values object_type now d =
     bindE (update_where eng name (where_id tenant_id object_id @ [(''optimistic_version'', C_Int expected_version)])
       (values @ [(''optimistic_version'', C_Int new_version), (''updated_at'', C_Time now)]) d) (\<lambda>(rowcount, d1).
     thenE (raise_if (rowcount \<noteq> 1) (ConcurrencyConflict (object_type @ '' optimistic version changed''))) (Inr d1))"

definition save_versioned ::
  "'d engine \<Rightarrow> fact_ids \<Rightarrow> string \<Rightarrow> uuid \<Rightarrow> uuid \<Rightarrow> int \<Rightarrow> int \<Rightarrow> columns \<Rightarrow> string \<Rightarrow> datetime \<Rightarrow> 'd \<Rightarrow> 'd result" where
  "save_versioned eng ids name tenant_id object_id expected_version new_version values object_type now d =
     bindE (update_versioned eng name tenant_id object_id expected_version new_version values object_type now d)
       (record_fact eng ids tenant_id (object_type @ ''.updated'') object_type object_id new_version now)"

subsection \<open>Goals\<close>

definition sql_add_goal :: "'d engine \<Rightarrow> uuid \<Rightarrow> GoalContract \<Rightarrow> AuditEvent \<Rightarrow> 'd \<Rightarrow> 'd result" where
  "sql_add_goal eng outbox_id goal audit d =
     bindE (goal_row goal) (\<lambda>cols. bindE (insert_into eng ''goals'' cols d)
       (add_audit_and_outbox eng outbox_id audit (goal_created_at goal)))"

definition sql_get_goal :: "'d engine \<Rightarrow> uuid \<Rightarrow> uuid \<Rightarrow> 'd \<Rightarrow> GoalContract result" where
  "sql_get_goal eng tenant_id key d = bindE (get_row eng ''goals'' ''goal'' tenant_id key d) goal_from_row"

definition sql_list_goals :: "'d engine \<Rightarrow> uuid \<Rightarrow> 'd \<Rightarrow> GoalContract list result" where
  "sql_list_goals eng tenant_id d = mapE goal_from_row (list_rows eng ''goals'' tenant_id d)"

definition goal_changes :: "GoalContract \<Rightarrow> json \<Rightarrow> columns" where
  "goal_changes goal contract = [(''status'', C_Text (GoalStatus_value (goal_status goal))), (''contract'', C_Json contract)]"

definition sql_save_goal ::
  "'d engine \<Rightarrow> uuid \<Rightarrow> GoalContract \<Rightarrow> int \<Rightarrow> AuditEvent \<Rightarrow> datetime \<Rightarrow> 'd \<Rightarrow> 'd result" where
  "sql_save_goal eng outbox_id goal expected_version audit now d =
     bindE (goal_payload goal) (\<lambda>contract.
     bindE (update_versioned eng ''goals'' (goal_tenant_id goal) (goal_id goal) expected_version (goal_version goal)
       (goal_changes goal contract) ''goal'' now d)
       (add_audit_and_outbox eng outbox_id audit now))"

subsection \<open>Runs\<close>

definition sql_add_run :: "'d engine \<Rightarrow> uuid \<Rightarrow> Run \<Rightarrow> AuditEvent \<Rightarrow> 'd \<Rightarrow> 'd result" where
  "sql_add_run eng outbox_id run audit d =
     bindE (insert_into eng ''runs'' (run_row run) d) (add_audit_and_outbox eng outbox_id audit (run_created_at run))"

definition sql_get_run :: "'d engine \<Rightarrow> uuid \<Rightarrow> uuid \<Rightarrow> 'd \<Rightarrow> Run result" where
  "sql_get_run eng tenant_id key d = bindE (get_row eng ''runs'' ''run'' tenant_id key d) run_from_row"

definition run_changes :: "Run \<Rightarrow> columns" where
  "run_changes run = [(''status'', C_Text (RunStatus_value (run_status run))), (''definition'', C_Json (run_payload run))]"

definition sql_save_run ::
  "'d engine \<Rightarrow> fact_ids \<Rightarrow> Run \<Rightarrow> int \<Rightarrow> AuditEvent option \<Rightarrow> datetime \<Rightarrow> 'd \<Rightarrow> 'd result" where
  "sql_save_run eng ids run expected_version audit now d =
     bindE (update_versioned eng ''runs'' (run_tenant_id run) (run_id run) expected_version (run_optimistic_version run)
       (run_changes run) ''run'' now d) (\<lambda>d1.
     case audit of
       None \<Rightarrow> record_fact eng ids (run_tenant_id run) ''run.updated'' ''run'' (run_id run) (run_optimistic_version run) now d1
     | Some event \<Rightarrow> add_audit_and_outbox eng (fid_outbox ids) event now d1)"

definition sql_list_runs :: "'d engine \<Rightarrow> uuid \<Rightarrow> uuid option \<Rightarrow> 'd \<Rightarrow> Run list result" where
  "sql_list_runs eng tenant_id goal d = mapE run_from_row (select_from eng ''runs''
     ((''tenant_id'', C_Text (str_uuid tenant_id)) # (case goal of None \<Rightarrow> [] | Some g \<Rightarrow> [(''goal_id'', C_Text (str_uuid g))])) d)"

subsection \<open>Plans and tasks\<close>

fun insert_all :: "'d engine \<Rightarrow> string \<Rightarrow> columns list \<Rightarrow> 'd \<Rightarrow> 'd result" where
  "insert_all eng name [] d = Inr d"
| "insert_all eng name (cols # rest) d = bindE (insert_into eng name cols d) (insert_all eng name rest)"

definition sql_add_plan :: "'d engine \<Rightarrow> fact_ids \<Rightarrow> Plan \<Rightarrow> datetime \<Rightarrow> 'd \<Rightarrow> 'd result" where
  "sql_add_plan eng ids plan now d =
     bindE (insert_into eng ''plans'' (plan_row plan now) d) (\<lambda>d1.
     bindE (insert_all eng ''tasks'' (map (task_row plan now) (plan_tasks plan)) d1)
       (record_fact eng ids (plan_tenant_id plan) ''plan.created'' ''plan'' (plan_id plan) (plan_version plan) now))"

definition sql_get_plan :: "'d engine \<Rightarrow> uuid \<Rightarrow> uuid \<Rightarrow> 'd \<Rightarrow> Plan result" where
  "sql_get_plan eng tenant_id key d =
     bindE (get_row eng ''plans'' ''plan'' tenant_id key d) (\<lambda>row. plan_from_rows row
       (select_from eng ''tasks'' [(''plan_id'', C_Text (str_uuid key)), (''tenant_id'', C_Text (str_uuid tenant_id))] d))"

definition sql_get_task :: "'d engine \<Rightarrow> uuid \<Rightarrow> uuid \<Rightarrow> 'd \<Rightarrow> Task result" where
  "sql_get_task eng tenant_id key d = bindE (get_row eng ''tasks'' ''tasks'' tenant_id key d) task_from_row"

definition sql_list_tasks :: "'d engine \<Rightarrow> uuid \<Rightarrow> uuid \<Rightarrow> 'd \<Rightarrow> Task list result" where
  "sql_list_tasks eng tenant_id run d = mapE task_from_row (select_from eng ''tasks''
     [(''tenant_id'', C_Text (str_uuid tenant_id)), (''run_id'', C_Text (str_uuid run))] d)"

definition task_changes :: "Task \<Rightarrow> columns" where
  "task_changes task = [(''status'', C_Text (TaskStatus_value (task_status task))), (''definition'', C_Json (task_payload task))]"

definition sql_save_task :: "'d engine \<Rightarrow> fact_ids \<Rightarrow> Task \<Rightarrow> int \<Rightarrow> datetime \<Rightarrow> 'd \<Rightarrow> 'd result" where
  "sql_save_task eng ids task expected_version now d =
     bindE (update_versioned eng ''tasks'' (task_tenant_id task) (task_id task) expected_version
       (task_optimistic_version task) (task_changes task) ''task'' now d)
       (record_fact eng ids (task_tenant_id task) ''task.updated'' ''task'' (task_id task) (task_optimistic_version task) now)"

subsection \<open>Actions and attempts\<close>

definition sql_add_action :: "'d engine \<Rightarrow> fact_ids \<Rightarrow> Action \<Rightarrow> datetime \<Rightarrow> 'd \<Rightarrow> 'd result" where
  "sql_add_action eng ids action now d =
     bindE (action_row action now) (\<lambda>cols. bindE (insert_into eng ''actions'' cols d)
       (record_fact eng ids (action_tenant_id action) ''action.proposed'' ''action'' (action_id action)
         (action_optimistic_version action) now))"

definition sql_get_action :: "'d engine \<Rightarrow> uuid \<Rightarrow> uuid \<Rightarrow> 'd \<Rightarrow> Action result" where
  "sql_get_action eng tenant_id key d = bindE (get_row eng ''actions'' ''actions'' tenant_id key d) action_from_row"

definition action_changes :: "Action \<Rightarrow> json \<Rightarrow> columns" where
  "action_changes action definition = [(''status'', C_Text (ActionStatus_value (action_status action))),
     (''action_digest'', C_Text (canonical_digest action)), (''definition'', C_Json definition)]"

definition sql_save_action :: "'d engine \<Rightarrow> fact_ids \<Rightarrow> Action \<Rightarrow> int \<Rightarrow> datetime \<Rightarrow> 'd \<Rightarrow> 'd result" where
  "sql_save_action eng ids action expected_version now d =
     bindE (action_payload action) (\<lambda>definition.
     save_versioned eng ids ''actions'' (action_tenant_id action) (action_id action) expected_version
       (action_optimistic_version action) (action_changes action definition) ''action'' now d)"

definition sql_list_actions :: "'d engine \<Rightarrow> uuid \<Rightarrow> uuid \<Rightarrow> 'd \<Rightarrow> Action list result" where
  "sql_list_actions eng tenant_id run d = mapE action_from_row (select_from eng ''actions''
     [(''tenant_id'', C_Text (str_uuid tenant_id)), (''run_id'', C_Text (str_uuid run))] d)"

definition sql_add_action_attempt :: "'d engine \<Rightarrow> fact_ids \<Rightarrow> ActionAttempt \<Rightarrow> 'd \<Rightarrow> 'd result" where
  "sql_add_action_attempt eng ids attempt d =
     bindE (insert_into eng ''action_attempts'' (attempt_row attempt) d)
       (record_fact eng ids (att_tenant_id attempt) ''action.attempt_recorded'' ''action_attempt'' (attempt_id attempt) 1
         (att_recorded_at attempt))"

definition sql_list_action_attempts :: "'d engine \<Rightarrow> uuid \<Rightarrow> uuid \<Rightarrow> 'd \<Rightarrow> ActionAttempt list result" where
  "sql_list_action_attempts eng tenant_id action d = mapE action_attempt_from_row (select_from eng ''action_attempts''
     [(''tenant_id'', C_Text (str_uuid tenant_id)), (''action_id'', C_Text (str_uuid action))] d)"

subsection \<open>Approvals\<close>

definition sql_add_approval :: "'d engine \<Rightarrow> fact_ids \<Rightarrow> ApprovalRequest \<Rightarrow> datetime \<Rightarrow> 'd \<Rightarrow> 'd result" where
  "sql_add_approval eng ids approval now d =
     bindE (sql_get_action eng (appr_tenant_id approval) (appr_action_id approval) d) (\<lambda>authoritative_action.
     thenE (raise_if (action_run_id authoritative_action \<noteq> appr_run_id approval
          \<or> canonical_digest authoritative_action \<noteq> appr_action_digest approval
          \<or> action_tool_version authoritative_action \<noteq> appr_tool_version approval
          \<or> action_operation authoritative_action \<noteq> appr_operation approval
          \<or> action_resource_scope authoritative_action \<noteq> appr_resource_scope approval
          \<or> parameter_digest authoritative_action \<noteq> appr_argument_digest approval)
        (ValueError ''approval must exactly bind the authoritative persisted Action''))
    (bindE (insert_into eng ''approvals'' (approval_row approval) d)
       (record_fact eng ids (appr_tenant_id approval) ''approval.requested'' ''approval'' (approval_id approval)
         (appr_optimistic_version approval) now)))"

definition sql_get_approval :: "'d engine \<Rightarrow> uuid \<Rightarrow> uuid \<Rightarrow> 'd \<Rightarrow> ApprovalRequest result" where
  "sql_get_approval eng tenant_id key d = bindE (get_row eng ''approvals'' ''approvals'' tenant_id key d) approval_from_row"

definition sql_list_approvals :: "'d engine \<Rightarrow> uuid \<Rightarrow> 'd \<Rightarrow> ApprovalRequest list result" where
  "sql_list_approvals eng tenant_id d = mapE approval_from_row (list_rows eng ''approvals'' tenant_id d)"

definition approval_changes :: "ApprovalRequest \<Rightarrow> columns" where
  "approval_changes approval = [(''status'', C_Text (ApprovalStatus_value (appr_status approval))),
     (''definition'', C_Json (approval_payload approval)), (''expires_at'', C_Time (appr_expires_at approval))]"

definition sql_save_approval :: "'d engine \<Rightarrow> fact_ids \<Rightarrow> ApprovalRequest \<Rightarrow> int \<Rightarrow> datetime \<Rightarrow> 'd \<Rightarrow> 'd result" where
  "sql_save_approval eng ids approval expected_version now d =
     save_versioned eng ids ''approvals'' (appr_tenant_id approval) (approval_id approval) expected_version
       (appr_optimistic_version approval) (approval_changes approval) ''approval'' now d"

subsection \<open>Evidence and outcomes\<close>

definition sql_add_evidence :: "'d engine \<Rightarrow> fact_ids \<Rightarrow> Evidence \<Rightarrow> datetime \<Rightarrow> 'd \<Rightarrow> 'd result" where
  "sql_add_evidence eng ids item now d =
     bindE (insert_into eng ''evidence'' (evidence_row item) d)
       (record_fact eng ids (ev_tenant_id item) ''evidence.captured'' ''evidence'' (evidence_id item) 1 now)"

definition sql_get_evidence :: "'d engine \<Rightarrow> uuid \<Rightarrow> uuid \<Rightarrow> 'd \<Rightarrow> Evidence result" where
  "sql_get_evidence eng tenant_id key d = bindE (get_row eng ''evidence'' ''evidence'' tenant_id key d) evidence_from_row"

definition sql_list_evidence :: "'d engine \<Rightarrow> uuid \<Rightarrow> 'd \<Rightarrow> Evidence list result" where
  "sql_list_evidence eng tenant_id d = mapE evidence_from_row (list_rows eng ''evidence'' tenant_id d)"

text \<open>
  \<open>persisted_ids != evidence_ids\<close>: some cited item has no row of this tenant and run; then every item is
  compared with its persisted record.
\<close>

definition evidence_persisted :: "'d engine \<Rightarrow> Outcome \<Rightarrow> 'd \<Rightarrow> bool" where
  "evidence_persisted eng item d = list_all (\<lambda>i. select_from eng ''evidence''
     [(''tenant_id'', C_Text (str_uuid (out_tenant_id item))), (''run_id'', C_Text (str_uuid (out_run_id item))),
      (''id'', C_Text (str_uuid i))] d \<noteq> []) (evidence_ids item)"

definition sql_add_outcome :: "'d engine \<Rightarrow> fact_ids \<Rightarrow> Outcome \<Rightarrow> datetime \<Rightarrow> 'd \<Rightarrow> 'd result" where
  "sql_add_outcome eng ids item now d =
     thenE (raise_if (\<not> evidence_persisted eng item d)
        (ValueError ''outcome evidence must be complete, integrity-verified, and persisted''))
    (thenE (forE (\<lambda>e. bindE (sql_get_evidence eng (out_tenant_id item) (evidence_id e) d) (\<lambda>persisted.
        raise_if (persisted \<noteq> e)
          (ValueError ''outcome evidence must exactly match the authoritative persisted record''))) (out_evidence item))
    (bindE (insert_into eng ''outcomes'' (outcome_row item now) d)
       (record_fact eng ids (out_tenant_id item) ''outcome.recorded'' ''outcome'' (outcome_id item) 1 now)))"

definition sql_outcome_of :: "'d engine \<Rightarrow> uuid \<Rightarrow> 'd \<Rightarrow> row \<Rightarrow> Outcome result" where
  "sql_outcome_of eng tenant_id d row =
     bindE (outcome_evidence_ids row) (\<lambda>eids.
     bindE (mapE (\<lambda>i. sql_get_evidence eng tenant_id i d) eids) (outcome_from_row row))"

definition sql_get_outcome :: "'d engine \<Rightarrow> uuid \<Rightarrow> uuid \<Rightarrow> 'd \<Rightarrow> Outcome result" where
  "sql_get_outcome eng tenant_id key d =
     bindE (get_row eng ''outcomes'' ''outcomes'' tenant_id key d) (sql_outcome_of eng tenant_id d)"

definition sql_list_outcomes :: "'d engine \<Rightarrow> uuid \<Rightarrow> uuid \<Rightarrow> 'd \<Rightarrow> Outcome list result" where
  "sql_list_outcomes eng tenant_id run d = mapE (sql_outcome_of eng tenant_id d) (select_from eng ''outcomes''
     [(''tenant_id'', C_Text (str_uuid tenant_id)), (''run_id'', C_Text (str_uuid run))] d)"

subsection \<open>Idempotency records\<close>

definition sql_get_idempotency :: "'d engine \<Rightarrow> uuid \<Rightarrow> string \<Rightarrow> string option \<Rightarrow> 'd \<Rightarrow> uuid option result" where
  "sql_get_idempotency eng tenant_id key request_digest d =
     bindE (one_or_none (select_from eng ''idempotency_records''
       [(''tenant_id'', C_Text (str_uuid tenant_id)), (''idempotency_key'', C_Text key), (''status'', C_Text ''completed'')] d)) (\<lambda>found.
     case found of None \<Rightarrow> Inr None | Some row \<Rightarrow>
       bindE (text_column row ''request_digest'') (\<lambda>digest.
       thenE (raise_if (request_digest \<noteq> None \<and> request_digest \<noteq> Some digest)
          (ConcurrencyConflict ''idempotency key was reused with a different request''))
      (bindE (uuid_column row ''external_id'') (\<lambda>i. Inr (Some i)))))"

text \<open>\<open>on_conflict_do_nothing\<close> on the tenant and the key: nothing is inserted when they are taken.\<close>

definition sql_put_idempotency ::
  "'d engine \<Rightarrow> uuid \<Rightarrow> uuid \<Rightarrow> string \<Rightarrow> uuid \<Rightarrow> string option \<Rightarrow> datetime \<Rightarrow> 'd \<Rightarrow> 'd result" where
  "sql_put_idempotency eng record_id tenant_id key external_id request_digest now d =
     (case select_from eng ''idempotency_records''
        [(''tenant_id'', C_Text (str_uuid tenant_id)), (''idempotency_key'', C_Text key)] d of
        [] \<Rightarrow> insert_into eng ''idempotency_records''
          [(''id'', C_Text (str_uuid record_id)), (''tenant_id'', C_Text (str_uuid tenant_id)),
           (''idempotency_key'', C_Text key),
           (''request_digest'', C_Text (case request_digest of None \<Rightarrow> genesis_digest
              | Some s \<Rightarrow> if s = [] then genesis_digest else s)),
           (''external_id'', C_Text (str_uuid external_id)), (''status'', C_Text ''completed''), (''response'', C_Null),
           (''optimistic_version'', C_Int 1), (''created_at'', C_Time now)] d
      | accepted # _ \<Rightarrow>
          bindE (text_column accepted ''external_id'') (\<lambda>ext. bindE (text_column accepted ''request_digest'') (\<lambda>digest.
          thenE (raise_if (ext \<noteq> str_uuid external_id \<or> (request_digest \<noteq> None \<and> request_digest \<noteq> Some digest))
             (ConcurrencyConflict ''idempotency key is already bound to a different result'')) (Inr d))))"

end
