(* ===== verification/Sql_Tables.thy ===== *)
theory Sql_Tables
  imports Sql_Repository
begin

text \<open>
  What the relational repository guarantees. A locale states once what a table with optimistic
  versions needs (how a row represents an object, which columns a save rewrites); from it and from the
  laws of the database follow the lookups after an insertion and after a conditional update. The goals,
  runs, tasks, actions and approvals of the repository are its interpretations.
\<close>

subsection \<open>Consequences of the laws\<close>

lemma select_set:
  assumes "engine_laws eng"
  shows "set (select_from eng name w d) = {r \<in> set (rows_of eng d name). row_has r w}"
    and "length (select_from eng name w d) = length (filter (\<lambda>r. row_has r w) (rows_of eng d name))"
proof -
  have eq: "mset (select_from eng name w d) = mset (filter (\<lambda>r. row_has r w) (rows_of eng d name))"
    using assms by (simp add: engine_laws_def select_law_def)
  show "set (select_from eng name w d) = {r \<in> set (rows_of eng d name). row_has r w}"
    using mset_eq_setD [OF eq] by auto
  show "length (select_from eng name w d) = length (filter (\<lambda>r. row_has r w) (rows_of eng d name))"
    using mset_eq_length [OF eq] .
qed

lemma inserted:
  assumes "engine_laws eng" "insert_into eng name cols d = Inr d'"
  shows "\<exists>r. row_has r cols \<and> admissible (rows_of eng d) name r
      \<and> mset (rows_of eng d' name) = add_mset r (mset (rows_of eng d name))"
    and "other \<noteq> name \<Longrightarrow> mset (rows_of eng d' other) = mset (rows_of eng d other)"
  using assms by (simp_all add: engine_laws_def insert_law_def)

lemma updated:
  assumes "engine_laws eng" "update_where eng name w v d = Inr (n, d')"
  shows "n = length (select_from eng name w d)"
    and "mset (rows_of eng d' name) =
      image_mset (\<lambda>r. if row_has r w then r ++ map_of v else r) (mset (rows_of eng d name))"
    and "other \<noteq> name \<Longrightarrow> mset (rows_of eng d' other) = mset (rows_of eng d other)"
  using assms by (simp_all add: engine_laws_def update_law_def)

lemma length_filter_mono: "(\<And>x. P x \<Longrightarrow> Q x) \<Longrightarrow> length (filter P xs) \<le> length (filter Q xs)"
  by (induction xs) (auto intro: le_SucI)

text \<open>The state predicate: a unique key selects at most one row of its table.\<close>

definition keys_unique :: "'d engine \<Rightarrow> 'd \<Rightarrow> bool" where
  "keys_unique eng d = (\<forall>name us w. us \<in> set (uniques_of name) \<longrightarrow> map fst w = us \<longrightarrow> C_Null \<notin> snd ` set w \<longrightarrow>
     length (filter (\<lambda>r. row_has r w) (rows_of eng d name)) \<le> 1)"

lemma length_filter_mset: "length (filter P xs) = size (filter_mset P (mset xs))"
  by (simp flip: mset_filter)

lemma uniques_of_mem: "us \<in> set (uniques_of name) \<longleftrightarrow> Unique us \<in> set (items_of name)"
  by (force simp: uniques_of_def split: item.splits)

lemma same_key_row_has:
  "row_has r w \<Longrightarrow> row_has s w \<Longrightarrow> C_Null \<notin> snd ` set w \<Longrightarrow> same_key (map fst w) r s"
  by (force simp: same_key_def row_has_def list_all_iff sql_value_def split: cell.splits)

lemma insert_keys_unique:
  assumes laws: "engine_laws eng" and inv: "keys_unique eng d" and ins: "insert_into eng name cols d = Inr d'"
  shows "keys_unique eng d'"
  unfolding keys_unique_def
proof (intro allI impI)
  fix tab us w
  assume key: "us \<in> set (uniques_of tab)" "map fst w = us" "C_Null \<notin> snd ` set w"
  from inserted(1) [OF laws ins] obtain r where r: "admissible (rows_of eng d) name r"
      "mset (rows_of eng d' name) = add_mset r (mset (rows_of eng d name))" by blast
  note frame = inserted(2) [OF laws ins]
  have old: "size (filter_mset (\<lambda>r. row_has r w) (mset (rows_of eng d tab))) \<le> 1"
    using inv key by (simp add: keys_unique_def length_filter_mset)
  have "size (filter_mset (\<lambda>r. row_has r w) (mset (rows_of eng d' tab))) \<le> 1"
  proof (cases "tab = name \<and> row_has r w")
    case False
    then show ?thesis using old r(2) frame [of tab] by (cases "tab = name") auto
  next
    case True
    have "\<not> row_has s w" if "s \<in> set (rows_of eng d name)" for s
      using r(1) key that True same_key_row_has [of r w s]
      by (force simp: admissible_def list_all_iff list_ex_iff uniques_of_mem)
    then have "filter_mset (\<lambda>r. row_has r w) (mset (rows_of eng d name)) = {#}"
      by (simp add: filter_empty_conv flip: mset_filter)
    then show ?thesis using True r(2) by simp
  qed
  then show "length (filter (\<lambda>r. row_has r w) (rows_of eng d' tab)) \<le> 1" by (simp add: length_filter_mset)
qed

text \<open>An update that leaves the columns of every unique key alone keeps the keys unique.\<close>

lemma row_has_override:
  "fst ` set w \<inter> fst ` set v = {} \<Longrightarrow> row_has (r ++ map_of v) w = row_has r w"
  by (force simp: row_has_def list_all_iff map_add_def split: option.splits dest!: map_of_SomeD)

lemma update_keys_unique:
  assumes laws: "engine_laws eng" and inv: "keys_unique eng d" and upd: "update_where eng name w v d = Inr (n, d')"
    and keys: "\<And>us. us \<in> set (uniques_of name) \<Longrightarrow> set us \<inter> fst ` set v = {}"
  shows "keys_unique eng d'"
  unfolding keys_unique_def
proof (intro allI impI)
  fix tab us k
  assume key: "us \<in> set (uniques_of tab)" "map fst k = us" "C_Null \<notin> snd ` set k"
  note new = updated(2) [OF laws upd] and frame = updated(3) [OF laws upd]
  have old: "size (filter_mset (\<lambda>r. row_has r k) (mset (rows_of eng d tab))) \<le> 1"
    using inv key by (simp add: keys_unique_def length_filter_mset)
  have "size (filter_mset (\<lambda>r. row_has r k) (mset (rows_of eng d' tab))) \<le> 1"
  proof (cases "tab = name")
    case False
    then show ?thesis using old frame by simp
  next
    case True
    have "fst ` set k \<inter> fst ` set v = {}" using keys key True by (metis list.set_map)
    then have "row_has (if row_has r w then r ++ map_of v else r) k = row_has r k" for r
      by (simp add: row_has_override)
    then show ?thesis using old True new by (simp add: filter_mset_image_mset)
  qed
  then show "length (filter (\<lambda>r. row_has r k) (rows_of eng d' tab)) \<le> 1" by (simp add: length_filter_mset)
qed

text \<open>A row just inserted is the one its key selects, also after statements on other tables.\<close>

lemma inserted_row:
  assumes laws: "engine_laws eng" and inv: "keys_unique eng d" and ins: "insert_into eng name cols d = Inr d'"
    and key: "[''id''] \<in> set (uniques_of name)" "\<And>r. row_has r cols \<Longrightarrow> row_has r (where_id t i)"
  shows "\<exists>r. row_has r cols \<and> select_from eng name (where_id t i) d' = [r]"
proof -
  obtain r where r: "row_has r cols" "mset (rows_of eng d' name) = add_mset r (mset (rows_of eng d name))"
    using inserted(1) [OF laws ins] by blast
  have mem: "r \<in> set (select_from eng name (where_id t i) d')"
    using r key(2) select_set(1) [OF laws] mset_eq_setD [of "rows_of eng d' name" "r # rows_of eng d name"] by simp
  have "length (filter (\<lambda>r. row_has r [(''id'', C_Text (str_uuid i))]) (rows_of eng d' name)) \<le> 1"
    using insert_keys_unique [OF laws inv ins] key(1) unfolding keys_unique_def by (auto simp del: row_has_simps)
  then have "length (select_from eng name (where_id t i) d') \<le> 1"
    unfolding select_set(2) [OF laws]
    by (rule order_trans [rotated], intro length_filter_mono) (simp add: where_id_def)
  with mem r(1) show ?thesis by (cases "select_from eng name (where_id t i) d'") auto
qed

lemma select_stable:
  assumes laws: "engine_laws eng" and "mset (rows_of eng d' name) = mset (rows_of eng d name)"
    and "select_from eng name w d = [r]"
  shows "select_from eng name w d' = [r]"
proof -
  have "mset (select_from eng name w d') = mset (select_from eng name w d)"
    using assms(1,2) by (simp add: engine_laws_def select_law_def)
  then show ?thesis using assms(3) by simp
qed

subsection \<open>Versioned tables\<close>

definition lookup_row :: "'d engine \<Rightarrow> string \<Rightarrow> string \<Rightarrow> (row \<Rightarrow> 'a result) \<Rightarrow> uuid \<Rightarrow> uuid \<Rightarrow> 'd \<Rightarrow> 'a result" where
  "lookup_row eng name what decode tenant_id key d = bindE (get_row eng name what tenant_id key d) decode"

text \<open>Every row of the table represents a valid object, and keys are unique.\<close>

definition table_inv :: "string \<Rightarrow> ('a \<Rightarrow> bool) \<Rightarrow> (row \<Rightarrow> 'a \<Rightarrow> bool) \<Rightarrow> 'd engine \<Rightarrow> 'd \<Rightarrow> bool" where
  "table_inv name ok represents eng d =
     (keys_unique eng d \<and> (\<forall>r\<in>set (rows_of eng d name). \<exists>x. ok x \<and> represents r x))"

text \<open>
  A row \<open>represents\<close> an object; an insertion of the columns \<open>written\<close> for it makes such a row, and the
  columns \<open>rewritten\<close> by a save turn a row of the old object into one of the new, provided the columns a
  save does not touch were the same.
\<close>

locale sql_table =
  fixes name what :: string
    and decode :: "row \<Rightarrow> 'a result"
    and represents :: "row \<Rightarrow> 'a \<Rightarrow> bool"
    and written rewritten :: "'a \<Rightarrow> columns \<Rightarrow> bool"
    and ok :: "'a \<Rightarrow> bool"
    and untouched :: "'a \<Rightarrow> 'a \<Rightarrow> bool"
    and tenant_of ident_of :: "'a \<Rightarrow> uuid"
    and version_of :: "'a \<Rightarrow> int"
  assumes represents_written: "written x cols \<Longrightarrow> row_has r cols \<Longrightarrow> represents r x"
    and represents_key: "represents r x \<Longrightarrow> row_has r (where_id (tenant_of x) (ident_of x) @ [(''optimistic_version'', C_Int (version_of x))])"
    and represents_decode: "ok x \<Longrightarrow> represents r x \<Longrightarrow> decode r = Inr x"
    and represents_rewritten: "represents r x \<Longrightarrow> untouched x y \<Longrightarrow> rewritten y v \<Longrightarrow>
      represents (r ++ map_of (v @ [(''optimistic_version'', C_Int (version_of y)), (''updated_at'', C_Time now)])) y"
    and untouched_key: "untouched x y \<Longrightarrow> tenant_of y = tenant_of x \<and> ident_of y = ident_of x"
    and primary_key: "[''id''] \<in> set (uniques_of name)"
    and rewritten_columns: "rewritten y v \<Longrightarrow> us \<in> set (uniques_of name) \<Longrightarrow>
      set us \<inter> (fst ` set v \<union> {''optimistic_version'', ''updated_at''}) = {}"
    and other_tables: "name \<noteq> ''audit_events''" "name \<noteq> ''outbox''"
begin

lemma row_keys: "represents r x \<Longrightarrow> row_has r (where_id t i) \<longleftrightarrow> t = tenant_of x \<and> i = ident_of x"
  using represents_key [of r x] by (auto simp: where_id_def str_uuid_inj)

lemma same_row_key: "represents r x \<Longrightarrow> represents r y \<Longrightarrow> tenant_of y = tenant_of x \<and> ident_of y = ident_of x"
  using row_keys [of r x "tenant_of y" "ident_of y"] row_keys [of r y "tenant_of y" "ident_of y"] by simp

lemma decode_inj: "ok x \<Longrightarrow> ok y \<Longrightarrow> represents r x \<Longrightarrow> represents r y \<Longrightarrow> x = y"
  using represents_decode [of x r] represents_decode [of y r] by simp

lemma select_key:
  assumes laws: "engine_laws eng" and inv: "table_inv name ok represents eng d" and r: "r \<in> set (rows_of eng d name)" "represents r x"
  shows "select_from eng name (where_id (tenant_of x) (ident_of x)) d = [r]"
proof -
  let ?w = "where_id (tenant_of x) (ident_of x)"
  have "length (filter (\<lambda>r. row_has r [(''id'', C_Text (str_uuid (ident_of x)))]) (rows_of eng d name)) \<le> 1"
    using inv primary_key unfolding table_inv_def keys_unique_def by (auto simp del: row_has_simps)
  then have "length (select_from eng name ?w d) \<le> 1"
    unfolding select_set(2) [OF laws]
    by (rule order_trans [rotated], intro length_filter_mono) (simp add: where_id_def)
  moreover have "r \<in> set (select_from eng name ?w d)"
    using r row_keys select_set(1) [OF laws] by simp
  ultimately show ?thesis by (cases "select_from eng name ?w d") auto
qed

text \<open>A lookup finds exactly what a row of the table represents, and otherwise reports a missing record.\<close>

lemma lookup_iff:
  assumes laws: "engine_laws eng" and inv: "table_inv name ok represents eng d"
  shows "lookup_row eng name what decode t i d = Inr x \<longleftrightarrow>
    (\<exists>r\<in>set (rows_of eng d name). ok x \<and> represents r x \<and> tenant_of x = t \<and> ident_of x = i)"
proof
  assume "lookup_row eng name what decode t i d = Inr x"
  then obtain r where r: "select_from eng name (where_id t i) d = [r]" "decode r = Inr x"
    by (auto simp: lookup_row_def get_row_def one_or_none_def split: list.splits option.splits)
  then have mem: "r \<in> set (rows_of eng d name)" "row_has r (where_id t i)"
    using select_set(1) [OF laws, of name "where_id t i" d] by auto
  with inv obtain y where y: "ok y" "represents r y" unfolding table_inv_def by blast
  then show "\<exists>r\<in>set (rows_of eng d name). ok x \<and> represents r x \<and> tenant_of x = t \<and> ident_of x = i"
    using r(2) mem represents_decode [of y r] row_keys [of r y t i] by auto
next
  assume "\<exists>r\<in>set (rows_of eng d name). ok x \<and> represents r x \<and> tenant_of x = t \<and> ident_of x = i"
  then show "lookup_row eng name what decode t i d = Inr x"
    using select_key [OF laws inv] represents_decode
    by (auto simp: lookup_row_def get_row_def one_or_none_def)
qed

lemma lookup_missing:
  assumes laws: "engine_laws eng" and inv: "table_inv name ok represents eng d"
    and none: "\<And>x. lookup_row eng name what decode t i d \<noteq> Inr x"
  shows "lookup_row eng name what decode t i d = Inl (RecordNotFound (not_found what i))"
proof (cases "select_from eng name (where_id t i) d")
  case Nil
  then show ?thesis by (simp add: lookup_row_def get_row_def one_or_none_def)
next
  case (Cons r rs)
  then have mem: "r \<in> set (rows_of eng d name)" "row_has r (where_id t i)"
    using select_set(1) [OF laws, of name "where_id t i" d] by auto
  with inv obtain y where "ok y" "represents r y" unfolding table_inv_def by blast
  with mem have "lookup_row eng name what decode t i d = Inr y"
    using lookup_iff [OF laws inv, of t i y] row_keys [of r y t i] by blast
  with none [of y] show ?thesis by simp
qed

lemma lookup_cong:
  assumes "engine_laws eng" "table_inv name ok represents eng d" "table_inv name ok represents eng d'"
    and "\<And>x. ok x \<Longrightarrow> tenant_of x = t \<Longrightarrow> ident_of x = i \<Longrightarrow>
      (\<exists>r\<in>set (rows_of eng d' name). represents r x) = (\<exists>r\<in>set (rows_of eng d name). represents r x)"
  shows "lookup_row eng name what decode t i d' = lookup_row eng name what decode t i d"
proof -
  have same: "lookup_row eng name what decode t i d' = Inr x \<longleftrightarrow> lookup_row eng name what decode t i d = Inr x" for x
    using lookup_iff [OF assms(1,2), of t i x] lookup_iff [OF assms(1,3), of t i x] assms(4) [of x] by auto
  show ?thesis
  proof (cases "lookup_row eng name what decode t i d")
    case (Inr x)
    then show ?thesis using same by simp
  next
    case (Inl e)
    then have "\<And>x. lookup_row eng name what decode t i d' \<noteq> Inr x" using same by simp
    then show ?thesis
      using Inl lookup_missing [OF assms(1,3)] lookup_missing [OF assms(1,2), of t i] by simp
  qed
qed

text \<open>Statements on other tables change nothing here.\<close>

lemma other_insert:
  assumes "engine_laws eng" "table_inv name ok represents eng d" "insert_into eng tab cols d = Inr d'" "tab \<noteq> name"
  shows "table_inv name ok represents eng d'" and "lookup_row eng name what decode t i d' = lookup_row eng name what decode t i d"
proof -
  have "mset (rows_of eng d' name) = mset (rows_of eng d name)"
    using inserted(2) [OF assms(1,3)] assms(4) by simp
  then have rows: "set (rows_of eng d' name) = set (rows_of eng d name)" by (rule mset_eq_setD)
  show inv: "table_inv name ok represents eng d'"
    using insert_keys_unique [OF assms(1) _ assms(3)] assms(2) rows by (auto simp: table_inv_def)
  show "lookup_row eng name what decode t i d' = lookup_row eng name what decode t i d"
    by (rule lookup_cong [OF assms(1,2) inv]) (simp add: rows)
qed

lemma other_audit:
  assumes "engine_laws eng" "table_inv name ok represents eng d" "add_audit_and_outbox eng u audit now d = Inr d'"
  shows "table_inv name ok represents eng d'" and "lookup_row eng name what decode t i d' = lookup_row eng name what decode t i d"
proof -
  obtain acols ocols d1 where 1: "insert_into eng ''audit_events'' acols d = Inr d1"
      and 2: "insert_into eng ''outbox'' ocols d1 = Inr d'"
    using assms(3) by (auto simp: add_audit_and_outbox_def add_audit_def bindE_Inr split: prod.splits)
  note s1 = other_insert [OF assms(1,2) 1 other_tables(1) [symmetric]]
  note s2 = other_insert [OF assms(1) s1(1) 2 other_tables(2) [symmetric]]
  show "table_inv name ok represents eng d'" by (rule s2(1))
  show "lookup_row eng name what decode t i d' = lookup_row eng name what decode t i d" using s1(2) s2(2) by simp
qed

text \<open>An accepted insertion: the object was not there, is there now, and nothing else changed.\<close>

lemma add_stores:
  assumes laws: "engine_laws eng" and inv: "table_inv name ok represents eng d" and ok: "ok x" and w: "written x cols"
    and ins: "insert_into eng name cols d = Inr d'"
  shows "table_inv name ok represents eng d'" and "lookup_row eng name what decode (tenant_of x) (ident_of x) d' = Inr x"
    and "lookup_row eng name what decode (tenant_of x) (ident_of x) d = Inl (RecordNotFound (not_found what (ident_of x)))"
    and "(t, i) \<noteq> (tenant_of x, ident_of x) \<Longrightarrow> lookup_row eng name what decode t i d' = lookup_row eng name what decode t i d"
proof -
  from inserted(1) [OF laws ins] obtain r where r: "row_has r cols" "admissible (rows_of eng d) name r"
      "mset (rows_of eng d' name) = add_mset r (mset (rows_of eng d name))" by blast
  then have rows: "set (rows_of eng d' name) = insert r (set (rows_of eng d name))"
    using mset_eq_setD [of "rows_of eng d' name" "r # rows_of eng d name"] by simp
  have rep: "represents r x" by (rule represents_written [OF w r(1)])
  show inv': "table_inv name ok represents eng d'"
    using insert_keys_unique [OF laws _ ins] inv rows ok rep by (auto simp: table_inv_def)
  show "lookup_row eng name what decode (tenant_of x) (ident_of x) d' = Inr x"
    using lookup_iff [OF laws inv'] ok rep rows by auto
  have "\<not> same_key [''id''] r s" if "s \<in> set (rows_of eng d name)" for s
    using r(2) primary_key that by (force simp: admissible_def list_all_iff list_ex_iff uniques_of_mem)
  moreover have "same_key [''id''] r s" if "represents s y" "ident_of y = ident_of x" for s y
    using represents_key [OF rep] represents_key [OF that(1)] that(2)
    by (simp add: same_key_def sql_value_def where_id_def)
  ultimately have "lookup_row eng name what decode (tenant_of x) (ident_of x) d \<noteq> Inr y" for y
    using lookup_iff [OF laws inv, of "tenant_of x" "ident_of x" y] by blast
  then show "lookup_row eng name what decode (tenant_of x) (ident_of x) d = Inl (RecordNotFound (not_found what (ident_of x)))"
    by (rule lookup_missing [OF laws inv])
  assume "(t, i) \<noteq> (tenant_of x, ident_of x)"
  then show "lookup_row eng name what decode t i d' = lookup_row eng name what decode t i d"
    using same_row_key [OF rep] rows by (intro lookup_cong [OF laws inv inv']) auto
qed

text \<open>An accepted save: the version was the expected one, the new object replaced the old, nothing else changed.\<close>

lemma save_stores:
  assumes laws: "engine_laws eng" and inv: "table_inv name ok represents eng d" and ok: "ok y" and v: "rewritten y v"
    and cur: "lookup_row eng name what decode (tenant_of y) (ident_of y) d = Inr x" and same: "untouched x y"
    and upd: "update_versioned eng name (tenant_of y) (ident_of y) expected (version_of y) v what' now d = Inr d'"
  shows "version_of x = expected" and "table_inv name ok represents eng d'"
    and "lookup_row eng name what decode (tenant_of y) (ident_of y) d' = Inr y"
    and "(t, i) \<noteq> (tenant_of y, ident_of y) \<Longrightarrow> lookup_row eng name what decode t i d' = lookup_row eng name what decode t i d"
proof -
  let ?w = "where_id (tenant_of y) (ident_of y) @ [(''optimistic_version'', C_Int expected)]"
  let ?v = "v @ [(''optimistic_version'', C_Int (version_of y)), (''updated_at'', C_Time now)]"
  from upd have u: "update_where eng name ?w ?v d = Inr (1, d')"
    by (auto simp: update_versioned_def bindE_Inr thenE_Inr raise_if_Inr split: prod.splits)
  from cur obtain r where r: "r \<in> set (rows_of eng d name)" "ok x" "represents r x"
      and key: "tenant_of x = tenant_of y" "ident_of x = ident_of y"
    using lookup_iff [OF laws inv] by blast
  have only: "s = r" if "s \<in> set (rows_of eng d name)" "row_has s (where_id (tenant_of y) (ident_of y))" for s
    using select_key [OF laws inv r(1,3)] select_set(1) [OF laws, of name "where_id (tenant_of y) (ident_of y)" d] that key by auto
  obtain s where s: "s \<in> set (rows_of eng d name)" "row_has s ?w"
    using updated(1) [OF laws u] select_set(1) [OF laws, of name ?w d] by (cases "select_from eng name ?w d") auto
  then have "row_has r ?w" using only [of s] by (auto simp: row_has_def)
  then show expected: "version_of x = expected" using represents_key [OF r(3)] by (simp add: where_id_def)
  have hit: "row_has s ?w \<longleftrightarrow> s = r" if "s \<in> set (rows_of eng d name)" for s
    using only [of s] that \<open>row_has r ?w\<close> by (auto simp: row_has_def)
  define r' where "r' = r ++ map_of ?v"
  have rows: "set (rows_of eng d' name) = (\<lambda>s. if s = r then r' else s) ` set (rows_of eng d name)"
  proof -
    have "set (rows_of eng d' name) = set_mset (mset (rows_of eng d' name))" by simp
    also have "\<dots> = (\<lambda>s. if row_has s ?w then s ++ map_of ?v else s) ` set (rows_of eng d name)"
      unfolding updated(2) [OF laws u] by simp
    also have "\<dots> = (\<lambda>s. if s = r then r' else s) ` set (rows_of eng d name)"
      using hit by (intro image_cong) (auto simp: r'_def simp del: map_of_append)
    finally show ?thesis .
  qed
  have rep: "represents r' y" unfolding r'_def by (rule represents_rewritten [OF r(3) same v])
  have keys: "keys_unique eng d'"
    using update_keys_unique [OF laws _ u] inv rewritten_columns [OF v] by (force simp: table_inv_def)
  show inv': "table_inv name ok represents eng d'" using keys rows inv rep ok by (auto simp: table_inv_def)
  show "lookup_row eng name what decode (tenant_of y) (ident_of y) d' = Inr y"
    using lookup_iff [OF laws inv'] rep ok rows r(1) by auto
  assume other: "(t, i) \<noteq> (tenant_of y, ident_of y)"
  show "lookup_row eng name what decode t i d' = lookup_row eng name what decode t i d"
  proof (rule lookup_cong [OF laws inv inv'])
    fix z assume "ok z" "tenant_of z = t" "ident_of z = i"
    then have "\<not> represents r z" "\<not> represents r' z"
      using other same_row_key [OF r(3)] same_row_key [OF rep] key by auto
    then show "(\<exists>r\<in>set (rows_of eng d' name). represents r z) = (\<exists>r\<in>set (rows_of eng d name). represents r z)"
      using rows by auto
  qed
qed

end

subsection \<open>The tables of the repository\<close>

definition goal_represented :: "row \<Rightarrow> GoalContract \<Rightarrow> bool" where
  "goal_represented r g = (\<exists>cols. goal_row g = Inr cols \<and> row_has r cols)"

definition goal_untouched :: "GoalContract \<Rightarrow> GoalContract \<Rightarrow> bool" where
  "goal_untouched g h = (goal_id h = goal_id g \<and> goal_tenant_id h = goal_tenant_id g \<and> goal_type h = goal_type g
     \<and> goal_owner_id h = goal_owner_id g \<and> goal_created_at h = goal_created_at g)"

lemma uniques_simps:
  "uniques_of ''goals'' = [[''id''], [''tenant_id'', ''id'']]"
  "uniques_of ''runs'' = [[''id''], [''tenant_id'', ''temporal_workflow_id''], [''tenant_id'', ''id'']]"
  "uniques_of ''tasks'' = [[''id''], [''tenant_id'', ''id'']]"
  "uniques_of ''actions'' = [[''id''], [''tenant_id'', ''idempotency_key''], [''tenant_id'', ''run_id'', ''id''], [''tenant_id'', ''id'']]"
  "uniques_of ''approvals'' = [[''id''], [''tenant_id'', ''id'']]"
  "uniques_of ''evidence'' = [[''id''], [''tenant_id'', ''id'']]"
  by (simp_all add: uniques_of_def items_of_def METADATA_def table_names)
    (simp_all add: schema_defs)

interpretation goals_sql: sql_table "''goals''" "''goal''" goal_from_row goal_represented
  "\<lambda>g cols. goal_row g = Inr cols" "\<lambda>g v. \<exists>c. goal_payload g = Inr c \<and> v = goal_changes g c" goal_storable goal_untouched
  goal_tenant_id goal_id goal_version
proof unfold_locales
  fix r g assume "goal_represented r g"
  then show "row_has r (where_id (goal_tenant_id g) (goal_id g) @ [(''optimistic_version'', C_Int (goal_version g))])"
    by (auto simp: goal_represented_def goal_row_def goal_columns_def where_id_def bindE_Inr)
next
  fix r g h v now
  assume "goal_represented r g" "goal_untouched g h" "\<exists>c. goal_payload h = Inr c \<and> v = goal_changes h c"
  then show "goal_represented (r ++ map_of (v @ [(''optimistic_version'', C_Int (goal_version h)), (''updated_at'', C_Time now)])) h"
    by (auto simp: goal_represented_def goal_untouched_def goal_row_def goal_columns_def goal_changes_def bindE_Inr)
qed (auto simp: goal_represented_def goal_untouched_def uniques_simps goal_changes_def intro: goal_read)

definition run_untouched :: "Run \<Rightarrow> Run \<Rightarrow> bool" where
  "run_untouched a b = (run_id b = run_id a \<and> run_tenant_id b = run_tenant_id a \<and> run_goal_id b = run_goal_id a
     \<and> run_agent_version_id b = run_agent_version_id a \<and> run_created_at b = run_created_at a)"

interpretation runs_sql: sql_table "''runs''" "''run''" run_from_row "\<lambda>r x. row_has r (run_row x)"
  "\<lambda>x cols. cols = run_row x" "\<lambda>x v. v = run_changes x" run_storable run_untouched
  run_tenant_id run_id run_optimistic_version
  by unfold_locales (auto simp: run_row_def where_id_def run_untouched_def run_changes_def uniques_simps intro: run_read)

definition task_represented :: "row \<Rightarrow> Task \<Rightarrow> bool" where
  "task_represented r t = (\<exists>p now. row_has r (task_row p now t))"

definition task_untouched :: "Task \<Rightarrow> Task \<Rightarrow> bool" where
  "task_untouched a b = (task_id b = task_id a \<and> task_tenant_id b = task_tenant_id a \<and> task_run_id b = task_run_id a)"

interpretation tasks_sql: sql_table "''tasks''" "''tasks''" task_from_row task_represented
  "\<lambda>x cols. \<exists>p now. cols = task_row p now x" "\<lambda>x v. v = task_changes x" task_storable task_untouched
  task_tenant_id task_id task_optimistic_version
proof unfold_locales
  fix r x y v now
  assume "task_represented r x" "task_untouched x y" "v = task_changes y"
  then show "task_represented (r ++ map_of (v @ [(''optimistic_version'', C_Int (task_optimistic_version y)), (''updated_at'', C_Time now)])) y"
    by (fastforce simp: task_represented_def task_untouched_def task_row_def task_changes_def)
qed (auto simp: task_represented_def task_row_def where_id_def task_untouched_def task_changes_def uniques_simps task_read)

definition action_represented :: "row \<Rightarrow> Action \<Rightarrow> bool" where
  "action_represented r a = (\<exists>cols now. action_row a now = Inr cols \<and> row_has r cols)"

definition action_untouched :: "Action \<Rightarrow> Action \<Rightarrow> bool" where
  "action_untouched a b = (action_id b = action_id a \<and> action_tenant_id b = action_tenant_id a \<and> action_run_id b = action_run_id a
     \<and> action_task_id b = action_task_id a \<and> action_idempotency_key b = action_idempotency_key a)"

interpretation actions_sql: sql_table "''actions''" "''actions''" action_from_row action_represented
  "\<lambda>x cols. \<exists>now. action_row x now = Inr cols" "\<lambda>x v. \<exists>c. action_payload x = Inr c \<and> v = action_changes x c"
  action_storable action_untouched action_tenant_id action_id action_optimistic_version
proof unfold_locales
  fix r x assume "action_represented r x"
  then show "row_has r (where_id (action_tenant_id x) (action_id x) @ [(''optimistic_version'', C_Int (action_optimistic_version x))])"
    by (auto simp: action_represented_def action_row_def action_columns_def where_id_def bindE_Inr)
next
  fix r x y v now
  assume "action_represented r x" "action_untouched x y" "\<exists>c. action_payload y = Inr c \<and> v = action_changes y c"
  then show "action_represented (r ++ map_of (v @ [(''optimistic_version'', C_Int (action_optimistic_version y)), (''updated_at'', C_Time now)])) y"
    by (fastforce simp: action_represented_def action_untouched_def action_row_def action_columns_def action_changes_def bindE_Inr)
qed (auto simp: action_represented_def action_untouched_def uniques_simps action_changes_def intro: action_read)

definition approval_untouched :: "ApprovalRequest \<Rightarrow> ApprovalRequest \<Rightarrow> bool" where
  "approval_untouched a b = (approval_id b = approval_id a \<and> appr_tenant_id b = appr_tenant_id a \<and> appr_run_id b = appr_run_id a
     \<and> appr_action_id b = appr_action_id a \<and> appr_action_digest b = appr_action_digest a \<and> appr_created_at b = appr_created_at a)"

interpretation approvals_sql: sql_table "''approvals''" "''approvals''" approval_from_row "\<lambda>r x. row_has r (approval_row x)"
  "\<lambda>x cols. cols = approval_row x" "\<lambda>x v. v = approval_changes x" approval_storable approval_untouched
  appr_tenant_id approval_id appr_optimistic_version
  by unfold_locales (auto simp: approval_row_def where_id_def approval_untouched_def approval_changes_def uniques_simps intro: approval_read)

text \<open>Evidence is never rewritten.\<close>

interpretation evidence_sql: sql_table "''evidence''" "''evidence''" evidence_from_row "\<lambda>r x. row_has r (evidence_row x)"
  "\<lambda>x cols. cols = evidence_row x" "\<lambda>x v. False" evidence_storable "\<lambda>x y. False" ev_tenant_id evidence_id "\<lambda>x. 1"
  by unfold_locales (auto simp: evidence_row_def where_id_def uniques_simps intro: evidence_read)

end
