(* ===== verification/Sql_Audit.thy ===== *)
theory Sql_Audit
  imports Sql_Tables
begin

text \<open>
  The audit chain in the relational repository: the rows of a tenant, in the order of their sequence
  numbers, are a verified chain, and every recorded fact extends it.
\<close>

lemma mapE_list_all2: "mapE f xs = Inr ys \<longleftrightarrow> list_all2 (\<lambda>x y. f x = Inr y) xs ys"
proof (induction xs arbitrary: ys)
  case (Cons x xs)
  then show ?case by (cases ys) (auto simp: bindE_Inr)
qed (auto simp: eq_commute)

lemma sort_key_unique:
  assumes "distinct (map f ys)" and "sorted (map f ys)" and eq: "mset xs = mset ys"
  shows "sort_key f xs = ys"
proof (rule properties_for_sort_key)
  fix k assume k: "k \<in> set ys"
  have single: "filter (\<lambda>x. f k = f x) zs = [k]" if "distinct (map f zs)" "k \<in> set zs" for zs
    using that by (induction zs) (auto simp: filter_empty_conv image_iff)
  have "distinct (map f xs)" using assms(1) eq by (metis mset_eq_imp_distinct_iff mset_map)
  moreover have "k \<in> set xs" using k eq by (metis mset_eq_setD)
  ultimately show "filter (\<lambda>x. f k = f x) ys = filter (\<lambda>x. f k = f x) xs"
    using single [of ys] single [of xs] assms(1) k by simp
qed (use assms in simp_all)

lemma numbered: "sorted (map (\<lambda>k. 1 + int k) [0..<n])" "distinct (map (\<lambda>k. 1 + int k) [0..<n])"
  by (induction n) (auto simp: sorted_append)

lemma chain_nth:
  "verify_from p s es = Inr True \<Longrightarrow> k < length es \<Longrightarrow>
   ae_sequence (es ! k) = Some (s + int k) \<and> (\<exists>dig. ae_event_digest (es ! k) = Some dig)"
proof (induction es arbitrary: p s k)
  case (Cons e es)
  then have e: "event_ok p s e" and rest: "verify_from (the (ae_event_digest e)) (s + 1) es = Inr True"
    by (simp_all only: verify_from_Cons)
  show ?case
  proof (cases k)
    case 0
    then show ?thesis using e by (auto simp: event_ok_def)
  next
    case (Suc j)
    then show ?thesis using Cons.IH [OF rest, of j] Cons.prems(2) by simp
  qed
qed simp

lemma audit_row_fields:
  assumes "audit_from_row r = Inr e"
  shows "ae_sequence e = Some n \<Longrightarrow> r ''sequence'' = Some (C_Int n)"
    and "ae_event_digest e = Some s \<Longrightarrow> r ''event_digest'' = Some (C_Text s)"
  using assms
  by (auto simp: audit_from_row_def bindE_Inr opt_int_column_def opt_text_column_def column_def
      split: option.splits cell.splits)

definition audit_chain :: "row list \<Rightarrow> AuditEvent list \<Rightarrow> bool" where
  "audit_chain rows es = (mapE audit_from_row (sort_key sequence_of rows) = Inr es \<and> chain_ok es)"

lemma chain_rows_numbered:
  assumes "audit_chain rows es"
  shows "map sequence_of (sort_key sequence_of rows) = map (\<lambda>k. 1 + int k) [0..<length es]"
    and "chain_rows rows = sort_key sequence_of rows"
proof -
  let ?rs = "sort_key sequence_of rows"
  have l2: "list_all2 (\<lambda>x y. audit_from_row x = Inr y) ?rs es" and ok: "verify_from genesis_digest 1 es = Inr True"
    using assms by (simp_all add: audit_chain_def mapE_list_all2 chain_ok_def)
  have len: "length ?rs = length es" using l2 by (rule list_all2_lengthD)
  have row: "?rs ! k = ?rs ! k \<and> (?rs ! k) ''sequence'' = Some (C_Int (1 + int k))
      \<and> (\<exists>s. (?rs ! k) ''event_digest'' = Some (C_Text s))" if "k < length es" for k
    using chain_nth [OF ok that] audit_row_fields [of "?rs ! k" "es ! k"] list_all2_nthD2 [OF l2 that] by auto
  show "map sequence_of ?rs = map (\<lambda>k. 1 + int k) [0..<length es]"
    using row len by (intro nth_equalityI) (simp_all add: sequence_of_def)
  have "sql_value r ''sequence'' \<noteq> None \<and> sql_value r ''event_digest'' \<noteq> None" if "r \<in> set rows" for r
  proof -
    from that have "r \<in> set ?rs" by simp
    then obtain k where "k < length es" "r = ?rs ! k" using len by (metis in_set_conv_nth)
    then show ?thesis using row [of k] by (auto simp: sql_value_def)
  qed
  then show "chain_rows rows = ?rs" by (simp add: chain_rows_def filter_True cong: filter_cong)
qed

lemma audit_chain_cong:
  assumes "audit_chain rows es" "mset rows' = mset rows"
  shows "audit_chain rows' es"
proof -
  have "sort_key sequence_of rows' = sort_key sequence_of rows"
    using chain_rows_numbered(1) [OF assms(1)] assms(2)
    by (intro sort_key_unique) (simp_all add: numbered)
  then show ?thesis using assms(1) by (simp add: audit_chain_def)
qed

lemma audit_chain_snoc:
  assumes chain: "audit_chain rows es" and "mset rows' = add_mset r (mset rows)" and r: "audit_from_row r = Inr e"
    and ok: "chain_ok (es @ [e])"
  shows "audit_chain rows' (es @ [e])"
proof -
  let ?rs = "sort_key sequence_of rows"
  have "event_ok (head_digest genesis_digest es) (1 + int (length es)) e"
    using ok by (simp add: chain_ok_def verify_from_snoc)
  then have seq: "sequence_of r = 1 + int (length es)"
    using audit_row_fields(1) [OF r] by (auto simp: event_ok_def sequence_of_def)
  have keys: "map sequence_of (?rs @ [r]) = map (\<lambda>k. 1 + int k) [0..<Suc (length es)]"
    using chain_rows_numbered(1) [OF chain] seq by simp
  have "sort_key sequence_of rows' = ?rs @ [r]"
  proof (rule sort_key_unique)
    show "distinct (map sequence_of (?rs @ [r]))" unfolding keys by (rule numbered)
    show "sorted (map sequence_of (?rs @ [r]))" unfolding keys by (rule numbered)
  qed (use assms(2) in simp)
  then show ?thesis using chain r ok by (simp add: audit_chain_def mapE_list_all2 list_all2_appendI)
qed

lemma latest_of_chain:
  assumes "audit_chain rows es"
  shows "latest_audit rows = None \<longleftrightarrow> es = []"
    and "latest_audit rows = Some r \<Longrightarrow> int_column r ''sequence'' = Inr (int (length es))
      \<and> text_column r ''event_digest'' = Inr (head_digest genesis_digest es)"
proof -
  let ?rs = "sort_key sequence_of rows"
  have l2: "list_all2 (\<lambda>x y. audit_from_row x = Inr y) ?rs es" and ok: "verify_from genesis_digest 1 es = Inr True"
    using assms by (simp_all add: audit_chain_def mapE_list_all2 chain_ok_def)
  have len: "length ?rs = length es" using l2 by (rule list_all2_lengthD)
  then show "latest_audit rows = None \<longleftrightarrow> es = []"
    unfolding latest_audit_def chain_rows_numbered(2) [OF assms] by (cases es; cases ?rs) (auto simp del: length_sort)
  assume "latest_audit rows = Some r"
  then have ne: "?rs \<noteq> []" "r = last ?rs"
    using chain_rows_numbered(2) [OF assms] by (auto simp: latest_audit_def split: if_splits)
  with len obtain es' e where es: "es = es' @ [e]" by (cases es rule: rev_cases) auto
  have last: "r = ?rs ! length es'" "length es' < length es"
    using ne len es by (simp_all add: last_conv_nth)
  then have dec: "audit_from_row r = Inr e" using list_all2_nthD2 [OF l2, of "length es'"] es by simp
  have "ae_sequence e = Some (1 + int (length es'))" "\<exists>dig. ae_event_digest e = Some dig"
    using chain_nth [OF ok last(2)] es by auto
  then show "int_column r ''sequence'' = Inr (int (length es)) \<and> text_column r ''event_digest'' = Inr (head_digest genesis_digest es)"
    using audit_row_fields [OF dec] es by (auto simp: codec_simps head_digest_snoc)
qed

subsection \<open>The invariant of the audit tables\<close>

definition audits_inv :: "'d engine \<Rightarrow> 'd \<Rightarrow> bool" where
  "audits_inv eng d = (\<forall>tenant. \<exists>es. audit_chain (list_rows eng ''audit_events'' tenant d) es)"

lemma list_rows_cong:
  assumes "engine_laws eng" "mset (rows_of eng d' name) = mset (rows_of eng d name)"
  shows "mset (list_rows eng name t d') = mset (list_rows eng name t d)"
  using assms by (simp add: engine_laws_def select_law_def list_rows_def)

lemma audits_frame:
  assumes "engine_laws eng" "audits_inv eng d" "mset (rows_of eng d' ''audit_events'') = mset (rows_of eng d ''audit_events'')"
  shows "audits_inv eng d'"
  using assms(2) audit_chain_cong list_rows_cong [OF assms(1,3)] unfolding audits_inv_def by meson

lemma audits_insert:
  assumes "engine_laws eng" "audits_inv eng d" "insert_into eng name cols d = Inr d'" "name \<noteq> ''audit_events''"
  shows "audits_inv eng d'"
  using audits_frame [OF assms(1,2) inserted(2) [OF assms(1,3)]] assms(4) by simp

lemma audits_insert_all:
  assumes "engine_laws eng" "audits_inv eng d" "insert_all eng name rows d = Inr d'" "name \<noteq> ''audit_events''"
  shows "audits_inv eng d'"
  using assms(2,3)
proof (induction rows arbitrary: d)
  case (Cons cols rows)
  then obtain d1 where "insert_into eng name cols d = Inr d1" "insert_all eng name rows d1 = Inr d'"
    by (auto simp: bindE_Inr)
  then show ?case using Cons audits_insert [OF assms(1) _ _ assms(4)] by blast
qed simp

lemma audits_update:
  assumes "engine_laws eng" "audits_inv eng d" "update_versioned eng name t i v w values what now d = Inr d'"
    and "name \<noteq> ''audit_events''"
  shows "audits_inv eng d'"
proof -
  from assms(3) obtain n k u where "update_where eng name k u d = Inr (n, d')"
    by (auto simp: update_versioned_def bindE_Inr thenE_Inr)
  from updated(3) [OF assms(1) this] assms(4) show ?thesis by (intro audits_frame [OF assms(1,2)]) simp
qed

lemma chained_snoc:
  "chain_ok es \<Longrightarrow> chained a (1 + int (length es)) (head_digest genesis_digest es) t = Inr e \<Longrightarrow> chain_ok (es @ [e])"
  by (auto simp: chain_ok_def verify_from_snoc event_ok_def chained_def result_simps)

lemma chained_fields:
  "chained a n p t = Inr e \<Longrightarrow> ae_tenant_id e = ae_tenant_id a \<and> ae_created_at e = Some t"
  by (auto simp: chained_def result_simps)

lemma audit_read:
  assumes "row_has r (audit_row e t)" "ae_created_at e = Some t"
  shows "audit_from_row r = Inr e"
proof -
  have "opt_int_column r ''sequence'' = Inr (ae_sequence e)" "opt_text_column r ''previous_digest'' = Inr (ae_previous_digest e)"
    "opt_text_column r ''event_digest'' = Inr (ae_event_digest e)"
    using assms(1) by (auto simp: audit_row_def opt_int_column_def opt_text_column_def opt_int_def opt_str_def column_def
        split: option.splits)
  then show ?thesis using assms by (cases e) (simp add: audit_from_row_def audit_row_def codec_simps)
qed

text \<open>Recording an event extends the chain of its tenant by one verified event.\<close>

lemma add_audit_extends:
  assumes laws: "engine_laws eng" and inv: "audits_inv eng d" and add: "add_audit eng a t d = Inr (e, d')"
  shows "audits_inv eng d'"
    and "audit_chain (list_rows eng ''audit_events'' (ae_tenant_id a) d) es \<Longrightarrow>
         audit_chain (list_rows eng ''audit_events'' (ae_tenant_id a) d') (es @ [e])"
proof -
  let ?rows = "list_rows eng ''audit_events''"
  from add obtain n p where np: "(case latest_audit (?rows (ae_tenant_id a) d) of
         None \<Rightarrow> Inr (1, genesis_digest)
       | Some previous \<Rightarrow> bindE (int_column previous ''sequence'') (\<lambda>n.
           bindE (text_column previous ''event_digest'') (\<lambda>digest. Inr (n + 1, digest)))) = Inr (n, p)"
      and e: "chained a n p t = Inr e" and ins: "insert_into eng ''audit_events'' (audit_row e t) d = Inr d'"
    by (auto simp: add_audit_def bindE_Inr split: prod.splits)
  from inserted(1) [OF laws ins] obtain r where r: "row_has r (audit_row e t)"
      "mset (rows_of eng d' ''audit_events'') = add_mset r (mset (rows_of eng d ''audit_events''))" by blast
  have tenant: "r ''tenant_id'' = Some (C_Text (str_uuid (ae_tenant_id a)))"
    using r(1) chained_fields [OF e] by (simp add: audit_row_def)
  have rows: "mset (?rows u d') = (if u = ae_tenant_id a then add_mset r (mset (?rows u d)) else mset (?rows u d))" for u
    using laws r(2) tenant by (simp add: list_rows_def engine_laws_def select_law_def str_uuid_inj)
  show extend: "audit_chain (?rows (ae_tenant_id a) d') (es @ [e])" if chain: "audit_chain (?rows (ae_tenant_id a) d) es" for es
  proof -
    have "n = 1 + int (length es)" "p = head_digest genesis_digest es"
      using np latest_of_chain [OF chain] by (auto simp: bindE_Inr split: option.splits)
    then have "chain_ok (es @ [e])" using chain e by (intro chained_snoc) (auto simp: audit_chain_def)
    then show ?thesis
      using chain rows audit_read [OF r(1)] chained_fields [OF e] by (intro audit_chain_snoc [OF chain]) simp_all
  qed
  show "audits_inv eng d'"
    unfolding audits_inv_def
  proof
    fix u
    from inv obtain es where es: "audit_chain (?rows u d) es" unfolding audits_inv_def by blast
    show "\<exists>es. audit_chain (?rows u d') es"
    proof (cases "u = ae_tenant_id a")
      case True
      then show ?thesis using extend es by blast
    next
      case False
      then show ?thesis using audit_chain_cong [OF es] rows [of u] by auto
    qed
  qed
qed

lemma audits_fact:
  "engine_laws eng \<Longrightarrow> audits_inv eng d \<Longrightarrow> add_audit_and_outbox eng u a t d = Inr d' \<Longrightarrow> audits_inv eng d'"
  "engine_laws eng \<Longrightarrow> audits_inv eng d \<Longrightarrow> record_fact eng ids tn et ot i v t d = Inr d' \<Longrightarrow> audits_inv eng d'"
  by (auto simp: add_audit_and_outbox_def record_fact_def bindE_Inr dest: add_audit_extends(1) audits_insert)

subsection \<open>Sequences of repository operations\<close>

datatype repo_op =
    Add_Goal uuid GoalContract AuditEvent
  | Save_Goal uuid GoalContract int AuditEvent datetime
  | Add_Run uuid Run AuditEvent
  | Save_Run fact_ids Run int "AuditEvent option" datetime
  | Add_Plan fact_ids Plan datetime
  | Save_Task fact_ids Task int datetime
  | Add_Action fact_ids Action datetime
  | Save_Action fact_ids Action int datetime
  | Add_Attempt fact_ids ActionAttempt
  | Add_Approval fact_ids ApprovalRequest datetime
  | Save_Approval fact_ids ApprovalRequest int datetime
  | Add_Evidence fact_ids Evidence datetime
  | Add_Outcome fact_ids Outcome datetime
  | Put_Idempotency uuid uuid string uuid "string option" datetime
  | Record_Audit uuid AuditEvent datetime

fun perform :: "'d engine \<Rightarrow> repo_op \<Rightarrow> 'd \<Rightarrow> 'd result" where
  "perform eng (Add_Goal u g a) d = sql_add_goal eng u g a d"
| "perform eng (Save_Goal u g v a t) d = sql_save_goal eng u g v a t d"
| "perform eng (Add_Run u r a) d = sql_add_run eng u r a d"
| "perform eng (Save_Run i r v a t) d = sql_save_run eng i r v a t d"
| "perform eng (Add_Plan i p t) d = sql_add_plan eng i p t d"
| "perform eng (Save_Task i k v t) d = sql_save_task eng i k v t d"
| "perform eng (Add_Action i x t) d = sql_add_action eng i x t d"
| "perform eng (Save_Action i x v t) d = sql_save_action eng i x v t d"
| "perform eng (Add_Attempt i x) d = sql_add_action_attempt eng i x d"
| "perform eng (Add_Approval i x t) d = sql_add_approval eng i x t d"
| "perform eng (Save_Approval i x v t) d = sql_save_approval eng i x v t d"
| "perform eng (Add_Evidence i x t) d = sql_add_evidence eng i x t d"
| "perform eng (Add_Outcome i x t) d = sql_add_outcome eng i x t d"
| "perform eng (Put_Idempotency i tn k x dg t) d = sql_put_idempotency eng i tn k x dg t d"
| "perform eng (Record_Audit u a t) d = add_audit_and_outbox eng u a t d"

text \<open>An operation that raises is rolled back.\<close>

fun perform_all :: "'d engine \<Rightarrow> repo_op list \<Rightarrow> 'd \<Rightarrow> 'd" where
  "perform_all eng [] d = d"
| "perform_all eng (op # ops) d = perform_all eng ops (case perform eng op d of Inr d' \<Rightarrow> d' | Inl _ \<Rightarrow> d)"

text \<open>The shapes of the methods: an insertion or a conditional update, then a recorded fact.\<close>

lemma audits_shapes:
  assumes laws: "engine_laws eng" and inv: "audits_inv eng d" and name: "name \<noteq> ''audit_events''"
  shows "bindE (insert_into eng name cols d) (record_fact eng ids tn et ot i v t) = Inr d' \<Longrightarrow> audits_inv eng d'"
    and "bindE (insert_into eng name cols d) (add_audit_and_outbox eng u a t) = Inr d' \<Longrightarrow> audits_inv eng d'"
    and "bindE (update_versioned eng name tn i v w vals what t d) (record_fact eng ids tn' et ot i' v' t') = Inr d' \<Longrightarrow> audits_inv eng d'"
    and "bindE (update_versioned eng name tn i v w vals what t d) (add_audit_and_outbox eng u a t') = Inr d' \<Longrightarrow> audits_inv eng d'"
  unfolding bindE_Inr
  by (elim exE conjE; erule audits_fact [OF laws, rotated], erule audits_insert [OF laws inv _ name] audits_update [OF laws inv _ name])+

lemma perform_audits:
  assumes laws: "engine_laws eng" and inv: "audits_inv eng d" and res: "perform eng op d = Inr d'"
  shows "audits_inv eng d'"
proof -
  note shapes = audits_shapes [OF laws inv]
  note defs = sql_add_goal_def sql_save_goal_def sql_add_run_def sql_save_task_def sql_add_action_def sql_save_action_def
    save_versioned_def sql_add_action_attempt_def sql_add_approval_def sql_save_approval_def sql_add_evidence_def
    sql_add_outcome_def
  show ?thesis
  proof (cases op)
    case (Save_Run ids r v a t)
    then show ?thesis using res
      by (cases a) (auto simp: sql_save_run_def intro: shapes(3,4) [of "''runs''"])
  next
    case (Add_Plan ids pl t)
    then obtain d1 d2 where 1: "insert_into eng ''plans'' (plan_row pl t) d = Inr d1"
        and 2: "insert_all eng ''tasks'' (map (task_row pl t) (plan_tasks pl)) d1 = Inr d2"
        and 3: "record_fact eng ids (plan_tenant_id pl) ''plan.created'' ''plan'' (plan_id pl) (plan_version pl) t d2 = Inr d'"
      using res by (auto simp: sql_add_plan_def bindE_Inr)
    show ?thesis
      by (rule audits_fact(2) [OF laws audits_insert_all [OF laws audits_insert [OF laws inv 1] 2] 3]) simp_all
  next
    case (Put_Idempotency i tn k x dg t)
    then show ?thesis using res inv
      by (auto simp: sql_put_idempotency_def bindE_Inr thenE_Inr split: list.splits dest: audits_insert [OF laws inv])
  next
    case (Record_Audit u a t)
    then show ?thesis using res audits_fact(1) [OF laws inv] by simp
  qed (use res in \<open>auto simp: defs bindE_Inr [of "goal_row g" for g] bindE_Inr [of "goal_payload g" for g]
      bindE_Inr [of "action_row x t" for x t] bindE_Inr [of "action_payload x" for x]
      bindE_Inr [of "sql_get_action e tn i x" for e tn i x] thenE_Inr dest!: shapes [rotated]\<close>)
qed

lemma perform_all_audits: "engine_laws eng \<Longrightarrow> audits_inv eng d \<Longrightarrow> audits_inv eng (perform_all eng ops d)"
proof (induction ops arbitrary: d)
  case (Cons op ops)
  then show ?case by (auto split: sum.splits intro: perform_audits)
qed simp

end
