(* ===== verification/Sql_Refinement.thy ===== *)
theory Sql_Refinement
  imports Sql_Audit
begin

text \<open>
  The relational repository as a set of versioned maps: what a reader sees of the goals, runs, tasks,
  actions, approvals and evidence is a map from tenant and identifier to an object; adding requires the key to
  be free, saving is a compare-and-swap on the version, and every operation on one table leaves what
  readers see of the others as it was.
\<close>

subsection \<open>Operations on other tables\<close>

fun op_tables :: "repo_op \<Rightarrow> string list" where
  "op_tables (Add_Goal _ _ _) = [''goals'']"
| "op_tables (Save_Goal _ _ _ _ _) = [''goals'']"
| "op_tables (Add_Run _ _ _) = [''runs'']"
| "op_tables (Save_Run _ _ _ _ _) = [''runs'']"
| "op_tables (Add_Plan _ _ _) = [''plans'', ''tasks'']"
| "op_tables (Save_Task _ _ _ _) = [''tasks'']"
| "op_tables (Add_Action _ _ _) = [''actions'']"
| "op_tables (Save_Action _ _ _ _) = [''actions'']"
| "op_tables (Add_Attempt _ _) = [''action_attempts'']"
| "op_tables (Add_Approval _ _ _) = [''approvals'']"
| "op_tables (Save_Approval _ _ _ _) = [''approvals'']"
| "op_tables (Add_Evidence _ _ _) = [''evidence'']"
| "op_tables (Add_Outcome _ _ _) = [''outcomes'']"
| "op_tables (Put_Idempotency _ _ _ _ _ _) = [''idempotency_records'']"
| "op_tables (Record_Audit _ _ _) = []"

text \<open>The columns a save rewrites belong to no unique key of the tables that are saved.\<close>

lemma save_columns_free:
  "us \<in> set (uniques_of ''goals'') \<Longrightarrow> set us \<inter> fst ` set (goal_changes g c @ [(''optimistic_version'', x), (''updated_at'', y)]) = {}"
  "us \<in> set (uniques_of ''runs'') \<Longrightarrow> set us \<inter> fst ` set (run_changes r @ [(''optimistic_version'', x), (''updated_at'', y)]) = {}"
  "us \<in> set (uniques_of ''tasks'') \<Longrightarrow> set us \<inter> fst ` set (task_changes t @ [(''optimistic_version'', x), (''updated_at'', y)]) = {}"
  "us \<in> set (uniques_of ''actions'') \<Longrightarrow> set us \<inter> fst ` set (action_changes a c @ [(''optimistic_version'', x), (''updated_at'', y)]) = {}"
  "us \<in> set (uniques_of ''approvals'') \<Longrightarrow> set us \<inter> fst ` set (approval_changes p @ [(''optimistic_version'', x), (''updated_at'', y)]) = {}"
  by (auto simp: uniques_simps goal_changes_def run_changes_def task_changes_def action_changes_def approval_changes_def)

subsection \<open>Versioned maps\<close>

definition put_fresh :: "('k \<rightharpoonup> 'a) \<Rightarrow> 'k \<Rightarrow> 'a \<Rightarrow> ('k \<rightharpoonup> 'a) option" where
  "put_fresh m k x = (if m k = None then Some (m(k \<mapsto> x)) else None)"

definition swap :: "('a \<Rightarrow> int) \<Rightarrow> int \<Rightarrow> ('k \<rightharpoonup> 'a) \<Rightarrow> 'k \<Rightarrow> 'a \<Rightarrow> ('k \<rightharpoonup> 'a) option" where
  "swap version_of expected m k x =
     (case m k of Some cur \<Rightarrow> if version_of cur = expected then Some (m(k \<mapsto> x)) else None | None \<Rightarrow> None)"

definition keeps_fixed :: "('a \<Rightarrow> 'a \<Rightarrow> bool) \<Rightarrow> 'a option \<Rightarrow> 'a \<Rightarrow> bool" where
  "keeps_fixed untouched cur x = (case cur of None \<Rightarrow> True | Some y \<Rightarrow> untouched y x)"

context sql_table begin

definition same_table :: "'d engine \<Rightarrow> 'd \<Rightarrow> 'd \<Rightarrow> bool" where
  "same_table eng d d' = (table_inv name ok represents eng d'
     \<and> (\<forall>t i. lookup_row eng name what decode t i d' = lookup_row eng name what decode t i d))"

lemma same_insert:
  "engine_laws eng \<Longrightarrow> table_inv name ok represents eng d \<Longrightarrow> insert_into eng tab cols d = Inr d' \<Longrightarrow> tab \<noteq> name \<Longrightarrow>
   same_table eng d d'"
  by (simp add: same_table_def other_insert)

lemma same_table_refl: "table_inv name ok represents eng d \<Longrightarrow> same_table eng d d"
  by (simp add: same_table_def)

lemma same_trans: "same_table eng d d1 \<Longrightarrow> same_table eng d1 d2 \<Longrightarrow> same_table eng d d2"
  by (simp add: same_table_def)

lemma same_inv: "same_table eng d d' \<Longrightarrow> table_inv name ok represents eng d'"
  by (simp add: same_table_def)

lemma same_audit:
  assumes "engine_laws eng" "table_inv name ok represents eng d"
  shows "add_audit_and_outbox eng u a t d = Inr d' \<Longrightarrow> same_table eng d d'"
    and "record_fact eng ids tn et ot i v t d = Inr d' \<Longrightarrow> same_table eng d d'"
  using other_audit [OF assms] by (simp_all add: same_table_def record_fact_def)

lemma same_update:
  assumes laws: "engine_laws eng" and inv: "table_inv name ok represents eng d"
    and upd: "update_versioned eng tab tn i v w vals msg now d = Inr d'" and other: "tab \<noteq> name"
    and free: "\<And>us. us \<in> set (uniques_of tab) \<Longrightarrow>
      set us \<inter> fst ` set (vals @ [(''optimistic_version'', C_Int w), (''updated_at'', C_Time now)]) = {}"
  shows "same_table eng d d'"
proof -
  from upd obtain n where u: "update_where eng tab (where_id tn i @ [(''optimistic_version'', C_Int v)])
      (vals @ [(''optimistic_version'', C_Int w), (''updated_at'', C_Time now)]) d = Inr (n, d')"
    by (auto simp: update_versioned_def bindE_Inr thenE_Inr)
  have rows: "set (rows_of eng d' name) = set (rows_of eng d name)"
    using updated(3) [OF laws u] other mset_eq_setD by metis
  have keys: "keys_unique eng d'"
    using update_keys_unique [OF laws _ u free] inv by (simp add: table_inv_def)
  have inv': "table_inv name ok represents eng d'" using keys rows inv by (simp add: table_inv_def)
  show ?thesis
    unfolding same_table_def using inv' lookup_cong [OF laws inv inv'] rows by simp
qed

lemma same_insert_all:
  assumes "engine_laws eng" "table_inv name ok represents eng d" "insert_all eng tab rows d = Inr d'" "tab \<noteq> name"
  shows "same_table eng d d'"
  using assms(2,3)
proof (induction rows arbitrary: d)
  case Nil
  then show ?case by (simp add: same_table_def)
next
  case (Cons cols rows)
  then obtain d1 where 1: "insert_into eng tab cols d = Inr d1" and 2: "insert_all eng tab rows d1 = Inr d'"
    by (auto simp: bindE_Inr)
  have s1: "same_table eng d d1" by (rule same_insert [OF assms(1) Cons.prems(1) 1 assms(4)])
  show ?case by (rule same_trans [OF s1 Cons.IH [OF same_inv [OF s1] 2]])
qed

lemma same_then_audit:
  assumes laws: "engine_laws eng" and same: "\<And>d1. m = Inr d1 \<Longrightarrow> same_table eng d d1"
  shows "bindE m (record_fact eng ids tn et ot i v t) = Inr d' \<Longrightarrow> same_table eng d d'"
    and "bindE m (add_audit_and_outbox eng u a t) = Inr d' \<Longrightarrow> same_table eng d d'"
  unfolding bindE_Inr
  by (elim exE conjE, rule same_trans [OF same same_audit(2) [OF laws same_inv [OF same]]], assumption+)
    (elim exE conjE, rule same_trans [OF same same_audit(1) [OF laws same_inv [OF same]]], assumption+)

lemma same_shapes:
  assumes laws: "engine_laws eng" and inv: "table_inv name ok represents eng d" and tab: "tab \<noteq> name"
  shows "bindE (insert_into eng tab cols d) (record_fact eng ids tn et ot i v t) = Inr d' \<Longrightarrow> same_table eng d d'"
    and "bindE (insert_into eng tab cols d) (add_audit_and_outbox eng u a t) = Inr d' \<Longrightarrow> same_table eng d d'"
  by (rule same_then_audit [OF laws same_insert [OF laws inv _ tab]], assumption, assumption)+

lemma same_save_shapes:
  assumes laws: "engine_laws eng" and inv: "table_inv name ok represents eng d" and tab: "tab \<noteq> name"
    and free: "\<And>us. us \<in> set (uniques_of tab) \<Longrightarrow>
      set us \<inter> fst ` set (vals @ [(''optimistic_version'', C_Int w), (''updated_at'', C_Time now)]) = {}"
  shows "bindE (update_versioned eng tab tn i v w vals msg now d) (record_fact eng ids tn' et ot i' v' t') = Inr d' \<Longrightarrow> same_table eng d d'"
    and "bindE (update_versioned eng tab tn i v w vals msg now d) (add_audit_and_outbox eng u a t') = Inr d' \<Longrightarrow> same_table eng d d'"
  by (rule same_then_audit [OF laws same_update [OF laws inv _ tab free]], assumption, assumption, assumption)+

lemma perform_other:
  assumes laws: "engine_laws eng" and inv: "table_inv name ok represents eng d" and res: "perform eng op d = Inr d'"
    and other: "name \<notin> set (op_tables op)"
  shows "same_table eng d d'"
proof -
  note ins = same_shapes [OF laws inv] and upd = same_save_shapes [OF laws inv _ save_columns_free(1)]
    same_save_shapes [OF laws inv _ save_columns_free(2)] same_save_shapes [OF laws inv _ save_columns_free(3)]
    same_save_shapes [OF laws inv _ save_columns_free(4)] same_save_shapes [OF laws inv _ save_columns_free(5)]
  show ?thesis
  proof (cases op)
    case (Save_Run ids r v a t)
    then show ?thesis using res other
      by (cases a) (auto simp: sql_save_run_def intro: upd(3,4))
  next
    case (Add_Plan ids pl t)
    then obtain d1 d2 where 1: "insert_into eng ''plans'' (plan_row pl t) d = Inr d1"
        and 2: "insert_all eng ''tasks'' (map (task_row pl t) (plan_tasks pl)) d1 = Inr d2"
        and 3: "record_fact eng ids (plan_tenant_id pl) ''plan.created'' ''plan'' (plan_id pl) (plan_version pl) t d2 = Inr d'"
      using res by (auto simp: sql_add_plan_def bindE_Inr)
    have names: "''plans'' \<noteq> name" "''tasks'' \<noteq> name" using other Add_Plan by auto
    note s1 = same_insert [OF laws inv 1 names(1)]
    note s2 = same_insert_all [OF laws same_inv [OF s1] 2 names(2)]
    show ?thesis by (rule same_trans [OF s1 same_trans [OF s2 same_audit(2) [OF laws same_inv [OF s2] 3]]])
  next
    case (Put_Idempotency i tn k x dg t)
    then show ?thesis using res inv other
      by (auto simp: sql_put_idempotency_def bindE_Inr thenE_Inr split: list.splits
          intro: same_insert [OF laws inv] same_table_refl)
  next
    case (Record_Audit u a t)
    then show ?thesis using res same_audit(1) [OF laws inv] by simp
  next
    case (Add_Goal u g a)
    then show ?thesis using res other by (auto simp: sql_add_goal_def bindE_Inr [of "goal_row g" for g] intro: ins)
  next
    case (Save_Goal u g v a t)
    then show ?thesis using res other by (auto simp: sql_save_goal_def bindE_Inr [of "goal_payload g" for g] intro: upd(2))
  next
    case (Add_Run u r a)
    then show ?thesis using res other by (auto simp: sql_add_run_def intro: ins)
  next
    case (Save_Task ids x v t)
    then show ?thesis using res other by (auto simp: sql_save_task_def intro: upd(5))
  next
    case (Add_Action ids x t)
    then show ?thesis using res other by (auto simp: sql_add_action_def bindE_Inr [of "action_row x t" for x t] intro: ins)
  next
    case (Save_Action ids x v t)
    then show ?thesis using res other
      by (auto simp: sql_save_action_def save_versioned_def bindE_Inr [of "action_payload x" for x] intro: upd(7))
  next
    case (Add_Attempt ids x)
    then show ?thesis using res other by (auto simp: sql_add_action_attempt_def intro: ins)
  next
    case (Add_Approval ids x t)
    then show ?thesis using res other
      by (auto simp: sql_add_approval_def bindE_Inr [of "sql_get_action e tn i x" for e tn i x] thenE_Inr intro: ins)
  next
    case (Save_Approval ids x v t)
    then show ?thesis using res other by (auto simp: sql_save_approval_def save_versioned_def intro: upd(9))
  next
    case (Add_Evidence ids x t)
    then show ?thesis using res other by (auto simp: sql_add_evidence_def intro: ins)
  next
    case (Add_Outcome ids x t)
    then show ?thesis using res other by (auto simp: sql_add_outcome_def thenE_Inr intro: ins)
  qed
qed

text \<open>What a reader sees of the table.\<close>

definition seen :: "'d engine \<Rightarrow> 'd \<Rightarrow> uuid \<times> uuid \<rightharpoonup> 'a" where
  "seen eng d k = (case lookup_row eng name what decode (fst k) (snd k) d of Inr x \<Rightarrow> Some x | Inl _ \<Rightarrow> None)"

lemma same_seen: "same_table eng d d' \<Longrightarrow> seen eng d' = seen eng d"
  by (simp add: same_table_def seen_def fun_eq_iff)

lemma seen_lookup: "seen eng d (t, i) = Some x \<longleftrightarrow> lookup_row eng name what decode t i d = Inr x"
  by (simp add: seen_def split: sum.splits)

lemma add_seen:
  assumes "engine_laws eng" "table_inv name ok represents eng d" "ok x" "written x cols" "insert_into eng name cols d = Inr d'"
  shows "seen eng d (tenant_of x, ident_of x) = None"
    and "seen eng d' = (seen eng d)((tenant_of x, ident_of x) \<mapsto> x)" and "table_inv name ok represents eng d'"
  using add_stores [OF assms] by (auto simp: seen_def fun_eq_iff)

lemma save_seen:
  assumes "engine_laws eng" "table_inv name ok represents eng d" "ok y" "rewritten y v"
    and "seen eng d (tenant_of y, ident_of y) = Some x" "untouched x y"
    and "update_versioned eng name (tenant_of y) (ident_of y) expected (version_of y) v msg now d = Inr d'"
  shows "version_of x = expected" and "seen eng d' = (seen eng d)((tenant_of y, ident_of y) \<mapsto> y)"
    and "table_inv name ok represents eng d'"
  using save_stores [OF assms(1-4) assms(5) [unfolded seen_lookup] assms(6,7)] by (auto simp: seen_def fun_eq_iff)

text \<open>A save of an object that is not there is rejected.\<close>

lemma save_absent:
  assumes laws: "engine_laws eng" and inv: "table_inv name ok represents eng d"
    and none: "seen eng d (t, i) = None"
  shows "update_versioned eng name t i expected w v msg now d \<noteq> Inr d'"
proof
  assume "update_versioned eng name t i expected w v msg now d = Inr d'"
  then have u: "update_where eng name (where_id t i @ [(''optimistic_version'', C_Int expected)])
      (v @ [(''optimistic_version'', C_Int w), (''updated_at'', C_Time now)]) d = Inr (1, d')"
    by (auto simp: update_versioned_def bindE_Inr thenE_Inr split: prod.splits)
  then obtain r where r: "r \<in> set (rows_of eng d name)" "row_has r (where_id t i)"
    using updated(1) [OF laws u] select_set(1) [OF laws, of name "where_id t i @ [(''optimistic_version'', C_Int expected)]" d]
    by (cases "select_from eng name (where_id t i @ [(''optimistic_version'', C_Int expected)]) d") (auto simp: row_has_def)
  with inv obtain x where "ok x" "represents r x" unfolding table_inv_def by blast
  then show False using r none seen_lookup [of eng d t i x] lookup_iff [OF laws inv, of t i x] row_keys [of r x t i] by auto
qed

lemma audit_seen:
  assumes "engine_laws eng" "table_inv name ok represents eng d"
  shows "add_audit_and_outbox eng u a t d = Inr d' \<Longrightarrow> table_inv name ok represents eng d' \<and> seen eng d' = seen eng d"
    and "record_fact eng ids tn et ot i v t d = Inr d' \<Longrightarrow> table_inv name ok represents eng d' \<and> seen eng d' = seen eng d"
  by (blast intro: same_inv [OF same_audit(1) [OF assms]] same_seen [OF same_audit(1) [OF assms]])
    (blast intro: same_inv [OF same_audit(2) [OF assms]] same_seen [OF same_audit(2) [OF assms]])

lemma add_then:
  assumes laws: "engine_laws eng" and inv: "table_inv name ok represents eng d" and x: "ok x" "written x cols"
    and k: "k = (tenant_of x, ident_of x)"
  shows "bindE (insert_into eng name cols d) (add_audit_and_outbox eng u a t) = Inr d' \<Longrightarrow>
      table_inv name ok represents eng d' \<and> put_fresh (seen eng d) k x = Some (seen eng d')"
    and "bindE (insert_into eng name cols d) (record_fact eng ids tn et ot i v t) = Inr d' \<Longrightarrow>
      table_inv name ok represents eng d' \<and> put_fresh (seen eng d) k x = Some (seen eng d')"
proof -
  have step: "table_inv name ok represents eng d1" "put_fresh (seen eng d) k x = Some (seen eng d1)"
    if "insert_into eng name cols d = Inr d1" for d1
    using add_seen [OF laws inv x that] k by (simp_all add: put_fresh_def)
  show "bindE (insert_into eng name cols d) (add_audit_and_outbox eng u a t) = Inr d' \<Longrightarrow>
      table_inv name ok represents eng d' \<and> put_fresh (seen eng d) k x = Some (seen eng d')"
    using step audit_seen(1) [OF laws] by (fastforce simp: bindE_Inr)
  show "bindE (insert_into eng name cols d) (record_fact eng ids tn et ot i v t) = Inr d' \<Longrightarrow>
      table_inv name ok represents eng d' \<and> put_fresh (seen eng d) k x = Some (seen eng d')"
    using step audit_seen(2) [OF laws] by (fastforce simp: bindE_Inr)
qed

lemma save_then:
  assumes laws: "engine_laws eng" and inv: "table_inv name ok represents eng d" and y: "ok y" "rewritten y v"
    and k: "k = (tenant_of y, ident_of y)" and fixed: "keeps_fixed untouched (seen eng d k) y"
    and t: "t = tenant_of y" and i: "i = ident_of y" and w: "w = version_of y"
  shows "bindE (update_versioned eng name t i expected w v msg now d) (add_audit_and_outbox eng u a now') = Inr d' \<Longrightarrow>
      table_inv name ok represents eng d' \<and> swap version_of expected (seen eng d) k y = Some (seen eng d')"
    and "bindE (update_versioned eng name t i expected w v msg now d) (record_fact eng ids tn et ot i' v' now') = Inr d' \<Longrightarrow>
      table_inv name ok represents eng d' \<and> swap version_of expected (seen eng d) k y = Some (seen eng d')"
proof -
  have step: "table_inv name ok represents eng d1 \<and> swap version_of expected (seen eng d) k y = Some (seen eng d1)"
    if upd: "update_versioned eng name t i expected w v msg now d = Inr d1" for d1
  proof (cases "seen eng d k")
    case None
    then show ?thesis using save_absent [OF laws inv] upd k t i by blast
  next
    case (Some x)
    then have "untouched x y" using fixed by (simp add: keeps_fixed_def)
    with Some show ?thesis
      using save_seen [OF laws inv y, of x expected msg now d1] upd k t i w by (simp add: swap_def)
  qed
  show "bindE (update_versioned eng name t i expected w v msg now d) (add_audit_and_outbox eng u a now') = Inr d' \<Longrightarrow>
      table_inv name ok represents eng d' \<and> swap version_of expected (seen eng d) k y = Some (seen eng d')"
    using step audit_seen(1) [OF laws] by (fastforce simp: bindE_Inr)
  show "bindE (update_versioned eng name t i expected w v msg now d) (record_fact eng ids tn et ot i' v' now') = Inr d' \<Longrightarrow>
      table_inv name ok represents eng d' \<and> swap version_of expected (seen eng d) k y = Some (seen eng d')"
    using step audit_seen(2) [OF laws] by (fastforce simp: bindE_Inr)
qed

end

subsection \<open>The abstract store\<close>

record versioned_maps =
  vm_goals :: "uuid \<times> uuid \<rightharpoonup> GoalContract"
  vm_runs :: "uuid \<times> uuid \<rightharpoonup> Run"
  vm_actions :: "uuid \<times> uuid \<rightharpoonup> Action"
  vm_approvals :: "uuid \<times> uuid \<rightharpoonup> ApprovalRequest"
  vm_evidence :: "uuid \<times> uuid \<rightharpoonup> Evidence"

fun spec_step :: "repo_op \<Rightarrow> versioned_maps \<Rightarrow> versioned_maps option" where
  "spec_step (Add_Goal _ g _) s = map_option (\<lambda>m. s\<lparr>vm_goals := m\<rparr>) (put_fresh (vm_goals s) (goal_tenant_id g, goal_id g) g)"
| "spec_step (Save_Goal _ g v _ _) s = map_option (\<lambda>m. s\<lparr>vm_goals := m\<rparr>)
     (swap goal_version v (vm_goals s) (goal_tenant_id g, goal_id g) g)"
| "spec_step (Add_Run _ r _) s = map_option (\<lambda>m. s\<lparr>vm_runs := m\<rparr>) (put_fresh (vm_runs s) (run_tenant_id r, run_id r) r)"
| "spec_step (Save_Run _ r v _ _) s = map_option (\<lambda>m. s\<lparr>vm_runs := m\<rparr>)
     (swap run_optimistic_version v (vm_runs s) (run_tenant_id r, run_id r) r)"
| "spec_step (Add_Action _ a _) s = map_option (\<lambda>m. s\<lparr>vm_actions := m\<rparr>)
     (put_fresh (vm_actions s) (action_tenant_id a, action_id a) a)"
| "spec_step (Save_Action _ a v _) s = map_option (\<lambda>m. s\<lparr>vm_actions := m\<rparr>)
     (swap action_optimistic_version v (vm_actions s) (action_tenant_id a, action_id a) a)"
| "spec_step (Add_Approval _ a _) s = map_option (\<lambda>m. s\<lparr>vm_approvals := m\<rparr>)
     (put_fresh (vm_approvals s) (appr_tenant_id a, approval_id a) a)"
| "spec_step (Save_Approval _ a v _) s = map_option (\<lambda>m. s\<lparr>vm_approvals := m\<rparr>)
     (swap appr_optimistic_version v (vm_approvals s) (appr_tenant_id a, approval_id a) a)"
| "spec_step (Add_Evidence _ e _) s = map_option (\<lambda>m. s\<lparr>vm_evidence := m\<rparr>)
     (put_fresh (vm_evidence s) (ev_tenant_id e, evidence_id e) e)"
| "spec_step _ s = Some s"

text \<open>The maps a reader of the repository sees.\<close>

definition found :: "'a result \<Rightarrow> 'a option" where
  "found r = (case r of Inr x \<Rightarrow> Some x | Inl _ \<Rightarrow> None)"

lemma found_Some: "found r = Some x \<longleftrightarrow> r = Inr x"
  by (simp add: found_def split: sum.splits)

definition maps_of :: "'d engine \<Rightarrow> 'd \<Rightarrow> versioned_maps" where
  "maps_of eng d = \<lparr>vm_goals = (\<lambda>k. found (sql_get_goal eng (fst k) (snd k) d)),
     vm_runs = (\<lambda>k. found (sql_get_run eng (fst k) (snd k) d)),
     vm_actions = (\<lambda>k. found (sql_get_action eng (fst k) (snd k) d)),
     vm_approvals = (\<lambda>k. found (sql_get_approval eng (fst k) (snd k) d)),
     vm_evidence = (\<lambda>k. found (sql_get_evidence eng (fst k) (snd k) d))\<rparr>"

definition sql_inv :: "'d engine \<Rightarrow> 'd \<Rightarrow> bool" where
  "sql_inv eng d = (table_inv ''goals'' goal_storable goal_represented eng d
     \<and> table_inv ''runs'' run_storable (\<lambda>r x. row_has r (run_row x)) eng d
     \<and> table_inv ''actions'' action_storable action_represented eng d
     \<and> table_inv ''approvals'' approval_storable (\<lambda>r x. row_has r (approval_row x)) eng d
     \<and> table_inv ''evidence'' evidence_storable (\<lambda>r x. row_has r (evidence_row x)) eng d)"

text \<open>
  What the callers supply: objects the domain constructors accept, and saves that change no column a save
  does not write.
\<close>

fun op_valid :: "versioned_maps \<Rightarrow> repo_op \<Rightarrow> bool" where
  "op_valid s (Add_Goal _ g _) = goal_storable g"
| "op_valid s (Save_Goal _ g v _ _) = (goal_storable g \<and> keeps_fixed goal_untouched (vm_goals s (goal_tenant_id g, goal_id g)) g)"
| "op_valid s (Add_Run _ r _) = run_storable r"
| "op_valid s (Save_Run _ r v _ _) = (run_storable r \<and> keeps_fixed run_untouched (vm_runs s (run_tenant_id r, run_id r)) r)"
| "op_valid s (Add_Action _ a _) = action_storable a"
| "op_valid s (Save_Action _ a v _) = (action_storable a \<and> keeps_fixed action_untouched (vm_actions s (action_tenant_id a, action_id a)) a)"
| "op_valid s (Add_Approval _ a _) = approval_storable a"
| "op_valid s (Save_Approval _ a v _) = (approval_storable a \<and> keeps_fixed approval_untouched (vm_approvals s (appr_tenant_id a, approval_id a)) a)"
| "op_valid s (Add_Evidence _ e _) = evidence_storable e"
| "op_valid s _ = True"

lemma maps_of_seen:
  "vm_goals (maps_of eng d) = goals_sql.seen eng d" "vm_runs (maps_of eng d) = runs_sql.seen eng d"
  "vm_actions (maps_of eng d) = actions_sql.seen eng d" "vm_approvals (maps_of eng d) = approvals_sql.seen eng d"
  "vm_evidence (maps_of eng d) = evidence_sql.seen eng d"
  by (simp_all add: maps_of_def found_def fun_eq_iff sql_get_goal_def sql_get_run_def sql_get_action_def sql_get_approval_def
      sql_get_evidence_def goals_sql.seen_def runs_sql.seen_def actions_sql.seen_def approvals_sql.seen_def evidence_sql.seen_def
      lookup_row_def)

text \<open>Each table is left alone by the operations on the others.\<close>

lemma frames:
  assumes "engine_laws eng" "sql_inv eng d" "perform eng op d = Inr d'"
  shows "''goals'' \<notin> set (op_tables op) \<Longrightarrow>
      table_inv ''goals'' goal_storable goal_represented eng d' \<and> vm_goals (maps_of eng d') = vm_goals (maps_of eng d)"
    and "''runs'' \<notin> set (op_tables op) \<Longrightarrow>
      table_inv ''runs'' run_storable (\<lambda>r x. row_has r (run_row x)) eng d' \<and> vm_runs (maps_of eng d') = vm_runs (maps_of eng d)"
    and "''actions'' \<notin> set (op_tables op) \<Longrightarrow>
      table_inv ''actions'' action_storable action_represented eng d' \<and> vm_actions (maps_of eng d') = vm_actions (maps_of eng d)"
    and "''approvals'' \<notin> set (op_tables op) \<Longrightarrow>
      table_inv ''approvals'' approval_storable (\<lambda>r x. row_has r (approval_row x)) eng d' \<and> vm_approvals (maps_of eng d') = vm_approvals (maps_of eng d)"
    and "''evidence'' \<notin> set (op_tables op) \<Longrightarrow>
      table_inv ''evidence'' evidence_storable (\<lambda>r x. row_has r (evidence_row x)) eng d' \<and> vm_evidence (maps_of eng d') = vm_evidence (maps_of eng d)"
proof -
  have inv: "table_inv ''goals'' goal_storable goal_represented eng d" "table_inv ''runs'' run_storable (\<lambda>r x. row_has r (run_row x)) eng d"
      "table_inv ''actions'' action_storable action_represented eng d" "table_inv ''approvals'' approval_storable (\<lambda>r x. row_has r (approval_row x)) eng d"
      "table_inv ''evidence'' evidence_storable (\<lambda>r x. row_has r (evidence_row x)) eng d"
    using assms(2) by (simp_all add: sql_inv_def)
  note g = goals_sql.perform_other [OF assms(1) inv(1) assms(3)] and r = runs_sql.perform_other [OF assms(1) inv(2) assms(3)]
    and a = actions_sql.perform_other [OF assms(1) inv(3) assms(3)] and p = approvals_sql.perform_other [OF assms(1) inv(4) assms(3)]
    and e = evidence_sql.perform_other [OF assms(1) inv(5) assms(3)]
  show "''goals'' \<notin> set (op_tables op) \<Longrightarrow>
      table_inv ''goals'' goal_storable goal_represented eng d' \<and> vm_goals (maps_of eng d') = vm_goals (maps_of eng d)"
    using goals_sql.same_inv [OF g] goals_sql.same_seen [OF g] by (simp add: maps_of_seen)
  show "''runs'' \<notin> set (op_tables op) \<Longrightarrow>
      table_inv ''runs'' run_storable (\<lambda>r x. row_has r (run_row x)) eng d' \<and> vm_runs (maps_of eng d') = vm_runs (maps_of eng d)"
    using runs_sql.same_inv [OF r] runs_sql.same_seen [OF r] by (simp add: maps_of_seen)
  show "''actions'' \<notin> set (op_tables op) \<Longrightarrow>
      table_inv ''actions'' action_storable action_represented eng d' \<and> vm_actions (maps_of eng d') = vm_actions (maps_of eng d)"
    using actions_sql.same_inv [OF a] actions_sql.same_seen [OF a] by (simp add: maps_of_seen)
  show "''approvals'' \<notin> set (op_tables op) \<Longrightarrow>
      table_inv ''approvals'' approval_storable (\<lambda>r x. row_has r (approval_row x)) eng d' \<and> vm_approvals (maps_of eng d') = vm_approvals (maps_of eng d)"
    using approvals_sql.same_inv [OF p] approvals_sql.same_seen [OF p] by (simp add: maps_of_seen)
  show "''evidence'' \<notin> set (op_tables op) \<Longrightarrow>
      table_inv ''evidence'' evidence_storable (\<lambda>r x. row_has r (evidence_row x)) eng d' \<and> vm_evidence (maps_of eng d') = vm_evidence (maps_of eng d)"
    using evidence_sql.same_inv [OF e] evidence_sql.same_seen [OF e] by (simp add: maps_of_seen)
qed

lemma maps_update:
  "vm_runs s' = vm_runs s \<Longrightarrow> vm_actions s' = vm_actions s \<Longrightarrow> vm_approvals s' = vm_approvals s \<Longrightarrow> vm_evidence s' = vm_evidence s \<Longrightarrow>
     s' = s\<lparr>vm_goals := vm_goals s'\<rparr>"
  "vm_goals s' = vm_goals s \<Longrightarrow> vm_actions s' = vm_actions s \<Longrightarrow> vm_approvals s' = vm_approvals s \<Longrightarrow> vm_evidence s' = vm_evidence s \<Longrightarrow>
     s' = s\<lparr>vm_runs := vm_runs s'\<rparr>"
  "vm_goals s' = vm_goals s \<Longrightarrow> vm_runs s' = vm_runs s \<Longrightarrow> vm_approvals s' = vm_approvals s \<Longrightarrow> vm_evidence s' = vm_evidence s \<Longrightarrow>
     s' = s\<lparr>vm_actions := vm_actions s'\<rparr>"
  "vm_goals s' = vm_goals s \<Longrightarrow> vm_runs s' = vm_runs s \<Longrightarrow> vm_actions s' = vm_actions s \<Longrightarrow> vm_evidence s' = vm_evidence s \<Longrightarrow>
     s' = s\<lparr>vm_approvals := vm_approvals s'\<rparr>"
  "vm_goals s' = vm_goals s \<Longrightarrow> vm_runs s' = vm_runs s \<Longrightarrow> vm_actions s' = vm_actions s \<Longrightarrow> vm_approvals s' = vm_approvals s \<Longrightarrow>
     s' = s\<lparr>vm_evidence := vm_evidence s'\<rparr>"
  "vm_goals s' = vm_goals s \<Longrightarrow> vm_runs s' = vm_runs s \<Longrightarrow> vm_actions s' = vm_actions s \<Longrightarrow> vm_approvals s' = vm_approvals s \<Longrightarrow>
     vm_evidence s' = vm_evidence s \<Longrightarrow> s' = (s :: versioned_maps)"
  by (cases s; cases s'; simp)+

text \<open>The operations on the table itself.\<close>

lemma own_goals:
  assumes laws: "engine_laws eng" and inv: "table_inv ''goals'' goal_storable goal_represented eng d" and res: "perform eng op d = Inr d'"
    and ok: "op_valid (maps_of eng d) op" and own: "op_tables op = [''goals'']"
  shows "table_inv ''goals'' goal_storable goal_represented eng d'
    \<and> (\<exists>m. spec_step op (maps_of eng d) = Some ((maps_of eng d)\<lparr>vm_goals := m\<rparr>) \<and> m = vm_goals (maps_of eng d'))"
proof (cases op)
  case (Add_Goal u g a)
  then obtain cols where cols: "goal_row g = Inr cols"
      "bindE (insert_into eng ''goals'' cols d) (add_audit_and_outbox eng u a (goal_created_at g)) = Inr d'"
    using res by (auto simp: sql_add_goal_def bindE_Inr [of "goal_row g"])
  then show ?thesis
    using goals_sql.add_then(1) [OF laws inv _ cols(1) refl cols(2)] ok Add_Goal by (simp add: maps_of_seen)
next
  case (Save_Goal u g v a t)
  then obtain c where c: "goal_payload g = Inr c"
      "bindE (update_versioned eng ''goals'' (goal_tenant_id g) (goal_id g) v (goal_version g) (goal_changes g c) ''goal'' t d)
        (add_audit_and_outbox eng u a t) = Inr d'"
    using res by (auto simp: sql_save_goal_def bindE_Inr [of "goal_payload g"])
  have "\<exists>c'. goal_payload g = Inr c' \<and> goal_changes g c = goal_changes g c'" using c(1) by simp
  then show ?thesis
    using goals_sql.save_then(1) [OF laws inv _ _ refl _ refl refl refl c(2)] ok Save_Goal by (simp add: maps_of_seen)
qed (use own in auto)

lemma own_runs:
  assumes laws: "engine_laws eng" and inv: "table_inv ''runs'' run_storable (\<lambda>r x. row_has r (run_row x)) eng d"
    and res: "perform eng op d = Inr d'" and ok: "op_valid (maps_of eng d) op" and own: "op_tables op = [''runs'']"
  shows "table_inv ''runs'' run_storable (\<lambda>r x. row_has r (run_row x)) eng d'
    \<and> (\<exists>m. spec_step op (maps_of eng d) = Some ((maps_of eng d)\<lparr>vm_runs := m\<rparr>) \<and> m = vm_runs (maps_of eng d'))"
proof (cases op)
  case (Add_Run u r a)
  then show ?thesis
    using runs_sql.add_then(1) [OF laws inv _ refl refl] ok res by (simp add: maps_of_seen sql_add_run_def)
next
  case (Save_Run ids r v a t)
  then have ok': "run_storable r" "keeps_fixed run_untouched (runs_sql.seen eng d (run_tenant_id r, run_id r)) r"
    using ok by (simp_all add: maps_of_seen)
  note steps = runs_sql.save_then [OF laws inv ok'(1) refl refl ok'(2) refl refl refl]
  show ?thesis
  proof (cases a)
    case None
    then show ?thesis using steps(2) Save_Run res by (simp add: maps_of_seen sql_save_run_def)
  next
    case (Some e)
    then show ?thesis using steps(1) Save_Run res by (simp add: maps_of_seen sql_save_run_def)
  qed
qed (use own in auto)

lemma own_actions:
  assumes laws: "engine_laws eng" and inv: "table_inv ''actions'' action_storable action_represented eng d"
    and res: "perform eng op d = Inr d'" and ok: "op_valid (maps_of eng d) op" and own: "op_tables op = [''actions'']"
  shows "table_inv ''actions'' action_storable action_represented eng d'
    \<and> (\<exists>m. spec_step op (maps_of eng d) = Some ((maps_of eng d)\<lparr>vm_actions := m\<rparr>) \<and> m = vm_actions (maps_of eng d'))"
proof (cases op)
  case (Add_Action ids x t)
  then obtain cols where cols: "action_row x t = Inr cols" and ins: "bindE (insert_into eng ''actions'' cols d)
      (record_fact eng ids (action_tenant_id x) ''action.proposed'' ''action'' (action_id x) (action_optimistic_version x) t) = Inr d'"
    using res by (auto simp: sql_add_action_def bindE_Inr [of "action_row x t"])
  have "\<exists>now. action_row x now = Inr cols" using cols by blast
  then show ?thesis
    using actions_sql.add_then(2) [OF laws inv _ _ refl ins] ok Add_Action by (simp add: maps_of_seen)
next
  case (Save_Action ids x v t)
  then obtain c where c: "action_payload x = Inr c"
      "bindE (update_versioned eng ''actions'' (action_tenant_id x) (action_id x) v (action_optimistic_version x) (action_changes x c) ''action'' t d)
        (record_fact eng ids (action_tenant_id x) (''action'' @ ''.updated'') ''action'' (action_id x) (action_optimistic_version x) t) = Inr d'"
    using res by (auto simp: sql_save_action_def save_versioned_def bindE_Inr [of "action_payload x"])
  have "\<exists>c'. action_payload x = Inr c' \<and> action_changes x c = action_changes x c'" using c(1) by simp
  then show ?thesis
    using actions_sql.save_then(2) [OF laws inv _ _ refl _ refl refl refl c(2)] ok Save_Action by (simp add: maps_of_seen)
qed (use own in auto)

lemma own_approvals:
  assumes laws: "engine_laws eng" and inv: "table_inv ''approvals'' approval_storable (\<lambda>r x. row_has r (approval_row x)) eng d"
    and res: "perform eng op d = Inr d'" and ok: "op_valid (maps_of eng d) op" and own: "op_tables op = [''approvals'']"
  shows "table_inv ''approvals'' approval_storable (\<lambda>r x. row_has r (approval_row x)) eng d'
    \<and> (\<exists>m. spec_step op (maps_of eng d) = Some ((maps_of eng d)\<lparr>vm_approvals := m\<rparr>) \<and> m = vm_approvals (maps_of eng d'))"
proof (cases op)
  case (Add_Approval ids x t)
  then have ins: "bindE (insert_into eng ''approvals'' (approval_row x) d)
      (record_fact eng ids (appr_tenant_id x) ''approval.requested'' ''approval'' (approval_id x) (appr_optimistic_version x) t) = Inr d'"
    using res by (auto simp: sql_add_approval_def bindE_Inr [of "sql_get_action eng (appr_tenant_id x) (appr_action_id x) d"] thenE_Inr)
  then show ?thesis
    using approvals_sql.add_then(2) [OF laws inv _ refl refl ins] ok Add_Approval by (simp add: maps_of_seen)
next
  case (Save_Approval ids x v t)
  then have upd: "bindE (update_versioned eng ''approvals'' (appr_tenant_id x) (approval_id x) v (appr_optimistic_version x)
        (approval_changes x) ''approval'' t d)
      (record_fact eng ids (appr_tenant_id x) (''approval'' @ ''.updated'') ''approval'' (approval_id x) (appr_optimistic_version x) t) = Inr d'"
    using res by (simp add: sql_save_approval_def save_versioned_def)
  show ?thesis
    using approvals_sql.save_then(2) [OF laws inv _ refl refl _ refl refl refl upd] ok Save_Approval by (simp add: maps_of_seen)
qed (use own in auto)

lemma own_evidence:
  assumes laws: "engine_laws eng" and inv: "table_inv ''evidence'' evidence_storable (\<lambda>r x. row_has r (evidence_row x)) eng d"
    and res: "perform eng op d = Inr d'" and ok: "op_valid (maps_of eng d) op" and own: "op_tables op = [''evidence'']"
  shows "table_inv ''evidence'' evidence_storable (\<lambda>r x. row_has r (evidence_row x)) eng d'
    \<and> (\<exists>m. spec_step op (maps_of eng d) = Some ((maps_of eng d)\<lparr>vm_evidence := m\<rparr>) \<and> m = vm_evidence (maps_of eng d'))"
proof (cases op)
  case (Add_Evidence ids x t)
  then show ?thesis
    using evidence_sql.add_then(2) [OF laws inv _ refl refl] ok res by (simp add: maps_of_seen sql_add_evidence_def)
qed (use own in auto)

text \<open>The forward simulation.\<close>

lemma spec_step_other:
  "set (op_tables op) \<inter> {''goals'', ''runs'', ''actions'', ''approvals'', ''evidence''} = {} \<Longrightarrow> spec_step op s = Some s"
  by (cases op) simp_all

lemma perform_refines:
  assumes laws: "engine_laws eng" and inv: "sql_inv eng d" and ok: "op_valid (maps_of eng d) op" and res: "perform eng op d = Inr d'"
  shows "sql_inv eng d' \<and> spec_step op (maps_of eng d) = Some (maps_of eng d')"
proof -
  note fr = frames [OF laws inv res]
  have invs: "table_inv ''goals'' goal_storable goal_represented eng d" "table_inv ''runs'' run_storable (\<lambda>r x. row_has r (run_row x)) eng d"
      "table_inv ''actions'' action_storable action_represented eng d" "table_inv ''approvals'' approval_storable (\<lambda>r x. row_has r (approval_row x)) eng d"
      "table_inv ''evidence'' evidence_storable (\<lambda>r x. row_has r (evidence_row x)) eng d"
    using inv by (simp_all add: sql_inv_def)
  consider "op_tables op = [''goals'']" | "op_tables op = [''runs'']" | "op_tables op = [''actions'']"
    | "op_tables op = [''approvals'']" | "op_tables op = [''evidence'']"
    | "set (op_tables op) \<inter> {''goals'', ''runs'', ''actions'', ''approvals'', ''evidence''} = {}"
    by (cases op) simp_all
  then show ?thesis
  proof cases
    case 1
    then show ?thesis using own_goals [OF laws invs(1) res ok] fr maps_update(1) [of "maps_of eng d'" "maps_of eng d"] by (simp add: sql_inv_def)
  next
    case 2
    then show ?thesis using own_runs [OF laws invs(2) res ok] fr maps_update(2) [of "maps_of eng d'" "maps_of eng d"] by (simp add: sql_inv_def)
  next
    case 3
    then show ?thesis using own_actions [OF laws invs(3) res ok] fr maps_update(3) [of "maps_of eng d'" "maps_of eng d"] by (simp add: sql_inv_def)
  next
    case 4
    then show ?thesis using own_approvals [OF laws invs(4) res ok] fr maps_update(4) [of "maps_of eng d'" "maps_of eng d"] by (simp add: sql_inv_def)
  next
    case 5
    then show ?thesis using own_evidence [OF laws invs(5) res ok] fr maps_update(5) [of "maps_of eng d'" "maps_of eng d"] by (simp add: sql_inv_def)
  next
    case 6
    then show ?thesis using fr maps_update(6) [of "maps_of eng d'" "maps_of eng d"] by (simp add: sql_inv_def spec_step_other)
  qed
qed

end
