(* ===== verification/Sql_Guarantees.thy ===== *)
theory Sql_Guarantees
  imports Sql_Refinement Scenario
begin

text \<open>
  The guarantees of the relational repository, with a database that keeps its rows in lists as the
  instance of the statements the repository relies on.
\<close>

subsection \<open>A database of lists\<close>

definition list_engine :: "(string \<Rightarrow> row list) engine" where
  "list_engine = \<lparr>select_from = (\<lambda>name w d. filter (\<lambda>r. row_has r w) (d name)),
     insert_into = (\<lambda>name cols d. if distinct (map fst cols) \<and> admissible d name (map_of cols)
       then Inr (d(name := map_of cols # d name)) else Inl (OtherError ''IntegrityError'' name)),
     update_where = (\<lambda>name w v d. Inr (length (filter (\<lambda>r. row_has r w) (d name)),
       d(name := map (\<lambda>r. if row_has r w then r ++ map_of v else r) (d name))))\<rparr>"

lemma rows_of_list_engine [simp]: "rows_of list_engine d = d"
  by (simp add: rows_of_def list_engine_def fun_eq_iff)

lemma list_engine_laws: "engine_laws list_engine"
proof -
  have "select_law list_engine" by (simp add: select_law_def) (simp add: list_engine_def)
  moreover have "insert_law list_engine"
    using row_has_self by (auto simp: insert_law_def) (auto simp: list_engine_def split: if_splits)
  moreover have "update_law list_engine" by (simp add: update_law_def) (simp add: list_engine_def)
  ultimately show ?thesis by (simp add: engine_laws_def)
qed

definition sample_db :: "string \<Rightarrow> row list" where
  "sample_db = (\<lambda>name. []) (''tenants'' := [map_of [(''id'', C_Text (str_uuid 1)), (''name'', C_Text ''acme''),
     (''created_at'', C_Time (Aware 0))]])"

definition sample_audit :: AuditEvent where
  "sample_audit = \<lparr>ae_tenant_id = 1, ae_actor_id = 7, ae_principal_id = 7, ae_event_type = ''goal.created'',
     ae_object_type = ''goal'', ae_object_id = ''2'', ae_correlation_id = 90, ae_details = [], ae_event_id = 60,
     ae_sequence = None, ae_previous_digest = None, ae_event_digest = None, ae_created_at = None\<rparr>"

lemma items_goals: "items_of ''goals'' = tbl_items goals_table" and items_audit: "items_of ''audit_events'' = tbl_items audit_events_table"
  and items_outbox: "items_of ''outbox'' = tbl_items outbox_table"
  by (simp_all add: items_of_def METADATA_def table_names)

lemma audit_added:
  assumes "d ''audit_events'' = []" "d ''outbox'' = []" "d ''tenants'' = sample_db ''tenants''" and a: "ae_tenant_id a = 1"
  shows "\<exists>d'. add_audit_and_outbox list_engine u a (Aware t) d = Inr d'"
proof -
  define e where "e = a\<lparr>ae_sequence := Some 1, ae_previous_digest := Some genesis_digest,
     ae_event_digest := Some (sha256_hexdigest (audit_text a 1 genesis_digest (Aware t))), ae_created_at := Some (Aware t)\<rparr>"
  have rows: "list_rows list_engine ''audit_events'' 1 d = []" using assms by (simp add: list_rows_def list_engine_def)
  have "chained a 1 genesis_digest (Aware t) = Inr e" by (simp add: chained_def e_def)
  moreover have "admissible d ''audit_events'' (map_of (audit_row e (Aware t)))"
    using assms by (simp add: admissible_def items_audit audit_events_table_def tenant_table_def audit_row_def e_def
        opt_int_def opt_str_def sql_value_def sample_db_def)
  moreover have "distinct (map fst (audit_row e (Aware t)))" by (simp add: audit_row_def)
  ultimately have 1: "add_audit list_engine a (Aware t) d = Inr (e, d(''audit_events'' := [map_of (audit_row e (Aware t))]))"
    using rows assms by (simp add: add_audit_def latest_audit_def chain_rows_def) (simp add: list_engine_def)
  let ?d = "d(''audit_events'' := [map_of (audit_row e (Aware t))])"
  have "admissible ?d ''outbox'' (map_of (outbox_row u e (Aware t)))"
    using assms by (simp add: admissible_def items_outbox outbox_table_def tenant_table_def outbox_row_def e_def
        sql_value_def sample_db_def)
  moreover have "distinct (map fst (outbox_row u e (Aware t)))" by (simp add: outbox_row_def)
  ultimately show ?thesis by (simp add: add_audit_and_outbox_def 1) (simp add: list_engine_def)
qed

lemma sc_goal_ok: "goal_storable sc_goal"
proof -
  have "JsonObject_post_init \<lparr>canonical = ''{}''\<rparr> = Inr \<lparr>canonical = ''{}''\<rparr>"
    using sc_payload by (auto simp: JsonObject_from_value_def thenE_Inr)
  moreover have "in_years (Aware 500)" by code_simp
  moreover have "goal_valid sc_goal" by code_simp
  ultimately show ?thesis
    by (simp add: goal_storable_def json_ok_def) (simp add: sc_goal_def sc_criterion_def SubjectRef_post_init_def
        SuccessCriterion_post_init_def BudgetAmount_post_init_def DataPolicy_post_init_def raise_if_def thenE_def)
qed

lemma sample_db_empty: "name \<noteq> ''tenants'' \<Longrightarrow> sample_db name = []"
  by (simp add: sample_db_def)

lemma keys_unique_small: "(\<And>name. length (rows_of eng d name) \<le> 1) \<Longrightarrow> keys_unique eng d"
  unfolding keys_unique_def using length_filter_le order_trans by metis

lemma sample_db_inv: "sql_inv list_engine sample_db"
proof -
  have "keys_unique list_engine sample_db" by (rule keys_unique_small) (simp add: sample_db_def)
  then show ?thesis by (simp add: sql_inv_def table_inv_def sample_db_empty)
qed

lemma sample_goal_added: "\<exists>d'. perform list_engine (Add_Goal 50 sc_goal sample_audit) sample_db = Inr d'"
proof -
  have payload: "JsonObject_to_value (goal_input_payload sc_goal) = Inr (JObj [])" by code_simp
  let ?cols = "goal_columns sc_goal (goal_contract sc_goal (JObj []))"
  have cols: "goal_row sc_goal = Inr ?cols" by (simp add: goal_row_def goal_payload_def payload)
  have "admissible sample_db ''goals'' (map_of ?cols)"
    by (simp add: admissible_def items_goals goals_table_def tenant_table_def status_check_def goal_columns_def sc_goal_def
        sql_value_def sample_db_def)
  moreover have "distinct (map fst ?cols)" by (simp add: goal_columns_def)
  ultimately have ins: "insert_into list_engine ''goals'' ?cols sample_db = Inr (sample_db(''goals'' := [map_of ?cols]))"
    by (simp add: list_engine_def sample_db_empty)
  have "goal_created_at sc_goal = Aware 1" by (simp add: sc_goal_def)
  then show ?thesis
    using audit_added [of "sample_db(''goals'' := [map_of ?cols])" sample_audit 50 1]
    by (simp add: sql_add_goal_def cols ins sample_db_empty sample_audit_def)
qed

subsection \<open>The repository is a versioned map\<close>

text \<open>
  C24. Every operation of the relational repository that is accepted by a database with the documented meaning of
  SELECT, INSERT and UPDATE does what the abstract store of versioned maps does: an added goal, run, action,
  approval or evidence item was absent and is afterwards exactly what a reader gets; a save succeeds only if the
  stored version is the expected one and then the reader gets the saved object; every other key of every
  table reads as before; and the rows keep representing valid objects under unique keys.
\<close>

theorem sql_refines_versioned_maps:
  assumes "engine_laws eng" and "sql_inv eng d" and "op_valid (maps_of eng d) op" and "perform eng op d = Inr d'"
  shows "sql_inv eng d' \<and> spec_step op (maps_of eng d) = Some (maps_of eng d')"
  using perform_refines [OF assms] .

theorem sql_refines_versioned_maps_witness:
  "\<exists>d'. perform list_engine (Add_Goal 50 sc_goal sample_audit) sample_db = Inr d' \<and> sql_inv list_engine d'
     \<and> spec_step (Add_Goal 50 sc_goal sample_audit) (maps_of list_engine sample_db) = Some (maps_of list_engine d')"
proof -
  obtain d' where d': "perform list_engine (Add_Goal 50 sc_goal sample_audit) sample_db = Inr d'"
    using sample_goal_added by blast
  from sql_refines_versioned_maps [OF list_engine_laws sample_db_inv _ d'] sc_goal_ok d' show ?thesis by auto
qed

subsection \<open>The audit chain\<close>

text \<open>
  C37. Whatever sequence of repository operations is performed on a database whose audit table starts
  empty, with any of them failing and being rolled back, the audit events listed for a tenant are a chain the
  verifier accepts.
\<close>

theorem sql_audit_chain_verified:
  assumes "engine_laws eng" and "rows_of eng d ''audit_events'' = []"
  shows "\<exists>es. sql_list_audit_events eng tenant (perform_all eng ops d) = Inr es
     \<and> (es = [] \<or> verify_audit_chain es = Inr True)"
proof -
  have "list_rows eng ''audit_events'' t d = []" for t
    using select_set(2) [OF assms(1), of "''audit_events''" "[(''tenant_id'', C_Text (str_uuid t))]" d] assms(2)
    by (simp add: list_rows_def)
  then have "audits_inv eng d" by (simp add: audits_inv_def audit_chain_def)
  then have "audits_inv eng (perform_all eng ops d)" by (rule perform_all_audits [OF assms(1)])
  then obtain es where "audit_chain (list_rows eng ''audit_events'' tenant (perform_all eng ops d)) es"
    unfolding audits_inv_def by blast
  then show ?thesis by (auto simp: audit_chain_def sql_list_audit_events_def verify_audit_chain_iff)
qed

theorem sql_audit_chain_verified_witness:
  "\<exists>es. sql_list_audit_events list_engine 1 (perform_all list_engine [Add_Goal 50 sc_goal sample_audit] sample_db) = Inr es
     \<and> (es = [] \<or> verify_audit_chain es = Inr True)"
  by (rule sql_audit_chain_verified [OF list_engine_laws]) (simp add: sample_db_empty)

subsection \<open>References stay inside a tenant\<close>

text \<open>
  C38. A row that meets the constraints of the schema refers only to rows of its own tenant: for every reference of every
  table but the one to the tenant itself, and with its columns filled in, the referenced row exists and
  carries the same tenant.
\<close>

theorem references_within_tenant:
  assumes "admissible db name r" and "ForeignKey cs target ds \<in> set (items_of name)" and "target \<noteq> ''tenants''"
    and "\<forall>c\<in>set cs. sql_value r c \<noteq> None"
  shows "\<exists>s\<in>set (db target). sql_value s ''tenant_id'' = sql_value r ''tenant_id'' \<and> map (sql_value s) ds = map (sql_value r) cs"
proof -
  obtain s where s: "s \<in> set (db target)" "map (sql_value s) ds = map (sql_value r) cs"
    using reference_found [OF assms(1,2,4)] by blast
  from items_of_scoped [OF assms(2)] assms(3) obtain cs' ds' where "cs = ''tenant_id'' # cs'" "ds = ''tenant_id'' # ds'"
    by (cases cs; cases ds) auto
  with s show ?thesis by auto
qed

definition sample_rows :: "string \<Rightarrow> row list" where
  "sample_rows = sample_db(''goals'' := [map_of (goal_columns sc_goal (goal_contract sc_goal (JObj [])))],
     ''runs'' := [map_of (run_row sc_run)], ''evidence'' := [map_of (evidence_row sc_evidence)])"

lemma sample_run_admissible: "admissible (sample_rows(''runs'' := [])) ''runs'' (map_of (run_row sc_run))"
proof -
  have items: "items_of ''runs'' = tbl_items runs_table" by (simp add: items_of_def METADATA_def table_names)
  show ?thesis
    by (simp add: admissible_def items runs_table_def tenant_table_def tenant_reference_def status_check_def run_row_def
        sample_rows_def sample_db_def sql_value_def goal_columns_def sc_goal_def sc_run_def)
qed

theorem references_within_tenant_witness:
  "\<exists>s\<in>set ((sample_rows(''runs'' := [])) ''goals''). sql_value s ''tenant_id'' = sql_value (map_of (run_row sc_run)) ''tenant_id''
     \<and> map (sql_value s) [''tenant_id'', ''id''] = map (sql_value (map_of (run_row sc_run))) [''tenant_id'', ''goal_id'']"
proof (rule references_within_tenant [OF sample_run_admissible])
  show "ForeignKey [''tenant_id'', ''goal_id''] ''goals'' [''tenant_id'', ''id''] \<in> set (items_of ''runs'')"
    by (simp add: items_of_def METADATA_def table_names) (simp add: runs_table_def tenant_table_def tenant_reference_def)
qed (simp_all add: sql_value_def run_row_def)

subsection \<open>Outcomes and their evidence\<close>

text \<open>
  C39. An outcome the repository accepts cites only evidence that is persisted exactly as cited, and is read back,
  evidence included, as it was recorded.
\<close>

theorem sql_outcome_roundtrip:
  assumes laws: "engine_laws eng" and inv: "sql_inv eng d" and ok: "outcome_storable x" and add: "sql_add_outcome eng ids x now d = Inr d'"
  shows "(\<forall>e\<in>set (out_evidence x). sql_get_evidence eng (out_tenant_id x) (evidence_id e) d = Inr e)
    \<and> sql_get_outcome eng (out_tenant_id x) (outcome_id x) d' = Inr x"
proof -
  let ?cols = "outcome_row x now"
  from add obtain d1 where ev: "forE (\<lambda>e. bindE (sql_get_evidence eng (out_tenant_id x) (evidence_id e) d) (\<lambda>persisted.
        raise_if (persisted \<noteq> e) (ValueError ''outcome evidence must exactly match the authoritative persisted record''))) (out_evidence x) = Inr ()"
      and ins: "insert_into eng ''outcomes'' ?cols d = Inr d1"
      and fact: "record_fact eng ids (out_tenant_id x) ''outcome.recorded'' ''outcome'' (outcome_id x) 1 now d1 = Inr d'"
    by (auto simp: sql_add_outcome_def thenE_Inr bindE_Inr)
  have cited: "sql_get_evidence eng (out_tenant_id x) (evidence_id e) d = Inr e" if "e \<in> set (out_evidence x)" for e
    using ev that by (auto simp: forE_Inr bindE_Inr)
  have "perform eng (Add_Outcome ids x now) d = Inr d'" using add by simp
  then have "vm_evidence (maps_of eng d') = vm_evidence (maps_of eng d)"
    using frames(5) [OF laws inv, of "Add_Outcome ids x now" d'] by simp
  then have "found (sql_get_evidence eng (out_tenant_id x) (evidence_id e) d') = Some e" if "e \<in> set (out_evidence x)" for e
    using cited [OF that] by (simp add: maps_of_def fun_eq_iff found_Some)
  then have cited': "sql_get_evidence eng (out_tenant_id x) (evidence_id e) d' = Inr e" if "e \<in> set (out_evidence x)" for e
    using that by (simp add: found_Some)
  then have items: "mapE (\<lambda>i. sql_get_evidence eng (out_tenant_id x) i d') (evidence_ids x) = Inr (out_evidence x)"
    using mapE_id [of "out_evidence x" "\<lambda>e. sql_get_evidence eng (out_tenant_id x) (evidence_id e) d'" "\<lambda>e. e"]
    by (simp add: evidence_ids_def mapE_map)
  have key: "[''id''] \<in> set (uniques_of ''outcomes'')"
    by (simp add: uniques_of_def items_of_def METADATA_def table_names) (simp add: outcomes_table_def tenant_table_def)
  obtain r where r: "row_has r ?cols" "select_from eng ''outcomes'' (where_id (out_tenant_id x) (outcome_id x)) d1 = [r]"
    using inserted_row [OF laws _ ins key, of "out_tenant_id x" "outcome_id x"] inv
    by (auto simp: sql_inv_def table_inv_def outcome_row_def where_id_def)
  obtain d2 where 2: "mset (rows_of eng d2 ''outcomes'') = mset (rows_of eng d1 ''outcomes'')"
      "mset (rows_of eng d' ''outcomes'') = mset (rows_of eng d2 ''outcomes'')"
    using fact inserted(2) [OF laws, of "''audit_events''"] inserted(2) [OF laws, of "''outbox''"]
    by (fastforce simp: record_fact_def add_audit_and_outbox_def add_audit_def bindE_Inr split: prod.splits)
  have "select_from eng ''outcomes'' (where_id (out_tenant_id x) (outcome_id x)) d' = [r]"
    by (rule select_stable [OF laws _ r(2)]) (simp add: 2)
  then have "sql_get_outcome eng (out_tenant_id x) (outcome_id x) d' = Inr x"
    using outcome_evidence_ids_read [OF r(1)] outcome_read [OF ok r(1)] items
    by (simp add: sql_get_outcome_def get_row_def one_or_none_def sql_outcome_of_def)
  with cited show ?thesis by blast
qed

lemma sc_evidence_storable: "evidence_storable sc_evidence" "row_has (map_of (evidence_row sc_evidence)) (evidence_row sc_evidence)"
  by (simp_all add: evidence_storable_def sc_evidence_def evidence_valid_def is_ok_def Evidence_post_init_def evidence_row_def
        sc_goal_def SubjectRef_post_init_def in_years_def days_def seconds_def raise_if_def thenE_def
        sha256_hex_bytes_is_hex)

lemma sample_rows_inv: "sql_inv list_engine sample_rows"
proof -
  have "goal_row sc_goal = Inr (goal_columns sc_goal (goal_contract sc_goal (JObj [])))"
  proof -
    have "JsonObject_to_value (goal_input_payload sc_goal) = Inr (JObj [])" by code_simp
    then show ?thesis by (simp add: goal_row_def goal_payload_def)
  qed
  then have g: "goal_represented (map_of (goal_columns sc_goal (goal_contract sc_goal (JObj [])))) sc_goal"
    by (auto simp: goal_represented_def goal_columns_def)
  have r: "run_storable sc_run" "row_has (map_of (run_row sc_run)) (run_row sc_run)"
    by (simp_all add: run_storable_def run_valid_def is_ok_def Run_post_init_def sc_run_def run_row_def)
  note e = sc_evidence_storable
  have "keys_unique list_engine sample_rows" by (rule keys_unique_small) (simp add: sample_rows_def sample_db_def)
  then show ?thesis
    using g r e sc_goal_ok by (auto simp: sql_inv_def table_inv_def sample_rows_def sample_db_empty)
qed

lemma sample_evidence: "sql_get_evidence list_engine 1 (evidence_id sc_evidence) sample_rows = Inr sc_evidence"
proof -
  have "\<exists>r\<in>set (rows_of list_engine sample_rows ''evidence''). evidence_storable sc_evidence \<and> row_has r (evidence_row sc_evidence)
      \<and> ev_tenant_id sc_evidence = 1 \<and> evidence_id sc_evidence = evidence_id sc_evidence"
    using sc_evidence_storable by (simp add: sample_rows_def) (simp add: sc_evidence_def)
  then show ?thesis
    using evidence_sql.lookup_iff [OF list_engine_laws, of sample_rows 1 "evidence_id sc_evidence" sc_evidence] sample_rows_inv
    by (simp add: sql_get_evidence_def lookup_row_def sql_inv_def)
qed

lemma sample_outcome_added: "\<exists>d'. sql_add_outcome list_engine \<lparr>fid_event = 70, fid_correlation = 71, fid_outbox = 72\<rparr> sc_outcome (Aware 12) sample_rows = Inr d'"
proof -
  let ?cols = "outcome_row sc_outcome (Aware 12)"
  have "evidence_persisted list_engine sc_outcome sample_rows"
    by (simp add: evidence_persisted_def evidence_ids_def sc_outcome_def list_engine_def sample_rows_def evidence_row_def)
      (simp add: sc_evidence_def)
  moreover have "forE (\<lambda>e. bindE (sql_get_evidence list_engine (out_tenant_id sc_outcome) (evidence_id e) sample_rows) (\<lambda>persisted.
      raise_if (persisted \<noteq> e) (ValueError ''outcome evidence must exactly match the authoritative persisted record''))) (out_evidence sc_outcome) = Inr ()"
    by (simp add: sc_outcome_def sample_evidence thenE_def)
  moreover have "admissible sample_rows ''outcomes'' (map_of ?cols)"
  proof -
    have "items_of ''outcomes'' = tbl_items outcomes_table" by (simp add: items_of_def METADATA_def table_names)
    then show ?thesis
      by (simp add: admissible_def outcomes_table_def tenant_table_def tenant_reference_def status_check_def outcome_row_def
          sample_rows_def sample_db_def sql_value_def goal_columns_def run_row_def sc_goal_def sc_run_def sc_outcome_def)
  qed
  moreover have "distinct (map fst ?cols)" by (simp add: outcome_row_def)
  ultimately have "sql_add_outcome list_engine ids sc_outcome (Aware 12) sample_rows
      = record_fact list_engine ids 1 ''outcome.recorded'' ''outcome'' 30 1 (Aware 12) (sample_rows(''outcomes'' := [map_of ?cols]))" for ids
    by (simp add: sql_add_outcome_def thenE_def raise_if_def) (simp add: list_engine_def sample_rows_def sample_db_empty sc_outcome_def)
  then show ?thesis
    using audit_added [of "sample_rows(''outcomes'' := [map_of ?cols])"]
    by (simp add: record_fact_def sample_rows_def sample_db_empty)
qed

theorem sql_outcome_roundtrip_witness:
  "\<exists>d'. (\<forall>e\<in>set (out_evidence sc_outcome). sql_get_evidence list_engine 1 (evidence_id e) sample_rows = Inr e)
     \<and> sql_get_outcome list_engine 1 30 d' = Inr sc_outcome"
proof -
  obtain d' where "sql_add_outcome list_engine \<lparr>fid_event = 70, fid_correlation = 71, fid_outbox = 72\<rparr> sc_outcome (Aware 12) sample_rows = Inr d'"
    using sample_outcome_added by blast
  moreover have "outcome_storable sc_outcome"
    by (simp add: outcome_storable_def outcome_valid_def is_ok_def Outcome_post_init_def evidence_ids_def sc_outcome_def sc_evidence_def
        raise_if_def thenE_def in_years_def days_def seconds_def)
  ultimately have "(\<forall>e\<in>set (out_evidence sc_outcome). sql_get_evidence list_engine (out_tenant_id sc_outcome) (evidence_id e) sample_rows = Inr e)
     \<and> sql_get_outcome list_engine (out_tenant_id sc_outcome) (outcome_id sc_outcome) d' = Inr sc_outcome"
    using sql_outcome_roundtrip [OF list_engine_laws sample_rows_inv] by blast
  moreover have "out_tenant_id sc_outcome = 1" "outcome_id sc_outcome = 30" by (simp_all add: sc_outcome_def)
  ultimately show ?thesis by metis
qed

subsection \<open>Context snapshots\<close>

text \<open>
  A context snapshot is read back from its row with every field as it was stored, its sets of roles and purposes up to
  the order of their members, and its recomputed content digest equals the digest column of the row.
\<close>

lemma context_snapshot_roundtrip:
  assumes "context_storable c" and "row_has r (context_row c)"
  shows "context_snapshot_from_row r = Inr (listed_snapshot c)
     \<and> text_column r ''content_digest'' = Inr (ContextSnapshot_content_digest (listed_snapshot c))"
  using context_read [OF assms] assms(2) by (simp add: listed_digest context_row_def codec_simps)

lemma sc_snapshot_storable: "context_storable sc_snapshot"
  by (simp add: context_storable_def context_valid_def is_ok_def ContextSnapshot_post_init_def sc_snapshot_def in_years_def
      days_def seconds_def raise_if_def thenE_def)

lemma context_snapshot_roundtrip_instance:
  "context_snapshot_from_row (map_of (context_row sc_snapshot)) = Inr (listed_snapshot sc_snapshot)
     \<and> text_column (map_of (context_row sc_snapshot)) ''content_digest'' = Inr (ContextSnapshot_content_digest (listed_snapshot sc_snapshot))"
  by (rule context_snapshot_roundtrip [OF sc_snapshot_storable]) (simp add: context_row_def)

end
