(* ===== verification/Evaluation.thy ===== *)
theory Evaluation
  imports Context_Assembly
begin

text \<open>
  Repeatable evaluation: the trial objects of \<open>packages/domain/src/autonoesis_domain/evaluation.py\<close> and the
  confidence gate of \<open>packages/evaluation/src/autonoesis_evaluation/statistics.py\<close>. Finite floats are
  rationals; the floating-point operations, which round, and the number formats are an argument of the gate.
\<close>

subsection \<open>Trials and grades\<close>

datatype TrialStatus = TS_PENDING | TS_RUNNING | TS_PASSED | TS_FAILED | TS_INVALID

datatype GraderStatus = GS_PASS | GS_FAIL | GS_UNKNOWN | GS_INVALID

datatype GraderKind = GK_DETERMINISTIC | GK_OUTCOME | GK_TRAJECTORY | GK_LLM | GK_HUMAN

datatype CaseVisibility = CV_PUBLIC | CV_HIDDEN | CV_PRODUCTION_REPLAY

record TrajectoryStep =
  tstep_kind :: string
  tstep_name :: string
  tstep_outcome :: string
  tstep_order :: int

definition TrajectoryStep_post_init :: "TrajectoryStep \<Rightarrow> TrajectoryStep result" where
  "TrajectoryStep_post_init self =
     thenE (raise_if (blank (tstep_kind self) \<or> blank (tstep_name self))
        (ValueError ''trajectory step requires a kind and a name''))
    (thenE (raise_if (tstep_order self < 0) (ValueError ''trajectory step order cannot be negative''))
       (Inr self))"

record TrajectoryRule =
  rule_type :: string
  rule_step :: string
  rule_before :: string
  rule_after :: string

definition TrajectoryRule_post_init :: "TrajectoryRule \<Rightarrow> TrajectoryRule result" where
  "TrajectoryRule_post_init self =
     thenE (raise_if (rule_type self \<notin> {''required'', ''forbidden'', ''order''})
        (ValueError ''trajectory rule type must be one of ['forbidden', 'order', 'required']''))
    (thenE (raise_if (rule_type self \<in> {''required'', ''forbidden''} \<and> blank (rule_step self))
        (ValueError (rule_type self @ '' trajectory rule requires a step name'')))
    (thenE (raise_if (rule_type self = ''order'' \<and> (blank (rule_before self) \<or> blank (rule_after self)))
        (ValueError ''order trajectory rule requires before and after steps''))
       (Inr self)))"

record EvaluationCase =
  case_id :: string
  case_input_payload :: "(string \<times> json) list"
  case_expected_outcome :: "(string \<times> json) list"
  case_tags :: "string list"
  case_visibility :: CaseVisibility
  case_weight :: rat
  case_gating :: bool

definition EvaluationCase_post_init :: "EvaluationCase \<Rightarrow> EvaluationCase result" where
  "EvaluationCase_post_init self =
     thenE (raise_if (case_id self = [] \<or> case_weight self \<le> 0)
        (ValueError ''evaluation case requires an id and positive weight'')) (Inr self)"

record EvaluationSuite =
  suite_id :: string
  suite_version :: string
  suite_cases :: "EvaluationCase list"
  suite_pass_threshold :: rat

definition EvaluationSuite_post_init :: "EvaluationSuite \<Rightarrow> EvaluationSuite result" where
  "EvaluationSuite_post_init self =
     thenE (raise_if (suite_cases self = [] \<or> \<not> (0 \<le> suite_pass_threshold self \<and> suite_pass_threshold self \<le> 1))
        (ValueError ''evaluation suite requires cases and a valid threshold'')) (Inr self)"

record GraderResult =
  gr_trial_id :: uuid
  gr_grader_id :: string
  gr_grader_version :: string
  gr_score :: "rat option"
  gr_passed :: "bool option"
  gr_rationale :: string
  gr_evidence_refs :: "string list"
  gr_status :: "GraderStatus option"
  gr_kind :: GraderKind

definition GraderResult_post_init :: "GraderResult \<Rightarrow> GraderResult result" where
  "GraderResult_post_init self =
     thenE (raise_if (case gr_score self of None \<Rightarrow> False | Some x \<Rightarrow> \<not> (0 \<le> x \<and> x \<le> 1))
        (ValueError ''grader score must be between zero and one''))
    (thenE (raise_if (gr_score self = None \<and> gr_passed self \<noteq> None)
        (ValueError ''unknown score must have an unknown pass result''))
    (let inferred = (case gr_passed self of Some True \<Rightarrow> GS_PASS | Some False \<Rightarrow> GS_FAIL | None \<Rightarrow> GS_UNKNOWN) in
     case gr_status self of
       None \<Rightarrow> Inr (self\<lparr>gr_status := Some inferred\<rparr>)
     | Some status \<Rightarrow>
         if status \<in> {GS_PASS, GS_FAIL} \<and> status \<noteq> inferred
           then Inl (ValueError ''grader status conflicts with pass result'')
         else if status = GS_INVALID \<and> gr_passed self \<noteq> None
           then Inl (ValueError ''invalid grader result cannot have a pass result'')
         else Inr self))"

record TrialCaseResult =
  tcr_case_id :: string
  tcr_input_payload :: "(string \<times> json) list"
  tcr_output_payload :: "(string \<times> json) list option"
  tcr_subject_executed :: bool
  tcr_grader_results :: "GraderResult list"
  tcr_evidence_refs :: "string list"
  tcr_executor_id :: "string option"
  tcr_environment_ref :: "string option"
  tcr_model_ref :: "string option"
  tcr_tool_refs :: "string list"
  tcr_random_seed :: "int option"
  tcr_cost_microunits :: int
  tcr_failure_reason :: "string option"

text \<open>\<open>not value\<close> of an optional text.\<close>

definition missing :: "string option \<Rightarrow> bool" where
  "missing v = (v = None \<or> v = Some [])"

definition TrialCaseResult_post_init :: "TrialCaseResult \<Rightarrow> TrialCaseResult result" where
  "TrialCaseResult_post_init self =
     thenE (raise_if (tcr_cost_microunits self < 0) (ValueError ''case cost cannot be negative''))
    (thenE (raise_if (tcr_subject_executed self \<and> (tcr_output_payload self = None \<or> missing (tcr_executor_id self)
          \<or> tcr_evidence_refs self = [] \<or> missing (tcr_environment_ref self)))
        (ValueError ''executed subject requires output, executor, evidence, and environment''))
    (thenE (raise_if (\<not> tcr_subject_executed self \<and> missing (tcr_failure_reason self))
        (ValueError ''unexecuted subject requires a failure reason''))
       (Inr self)))"

record Trial =
  trial_tenant_id :: uuid
  trial_suite_id :: string
  trial_suite_version :: string
  trial_subject_version_id :: uuid
  trial_harness_version :: string
  trial_id :: uuid
  trial_status :: TrialStatus
  trial_random_seed :: "int option"
  trial_case_results :: "TrialCaseResult list"
  trial_total_cost_microunits :: int
  trial_failure_reason :: "string option"
  trial_started_at :: "datetime option"
  trial_completed_at :: "datetime option"
  trial_candidate_id :: "uuid option"

definition Trial_post_init :: "Trial \<Rightarrow> Trial result" where
  "Trial_post_init self =
     thenE (raise_if (trial_total_cost_microunits self < 0) (ValueError ''trial cost cannot be negative''))
    (thenE (raise_if (trial_status self \<in> {TS_PASSED, TS_FAILED}
          \<and> (trial_case_results self = [] \<or> list_ex (\<lambda>r. \<not> tcr_subject_executed r) (trial_case_results self)))
        (ValueError ''a completed trial requires executed subject results''))
    (thenE (raise_if (list_ex (\<lambda>r. list_ex (\<lambda>g. gr_trial_id g \<noteq> trial_id self) (tcr_grader_results r)) (trial_case_results self))
        (ValueError ''grader result must belong to its containing trial''))
    (thenE (raise_if (trial_status self = TS_INVALID \<and> missing (trial_failure_reason self))
        (ValueError ''an invalid trial requires a failure reason''))
       (Inr self))))"

subsection \<open>The confidence gate\<close>

datatype ConfidenceDecision = CD_MET | CD_NOT_MET | CD_INSUFFICIENT_SAMPLE

fun ConfidenceDecision_value :: "ConfidenceDecision \<Rightarrow> string" where
  "ConfidenceDecision_value CD_MET = ''met''"
| "ConfidenceDecision_value CD_NOT_MET = ''not_met''"
| "ConfidenceDecision_value CD_INSUFFICIENT_SAMPLE = ''insufficient_sample''"

record RepeatedTrialPolicy =
  rtp_pass_threshold :: rat
  rtp_confidence_level :: rat
  rtp_min_valid_trials :: int

definition RepeatedTrialPolicy_post_init :: "RepeatedTrialPolicy \<Rightarrow> RepeatedTrialPolicy result" where
  "RepeatedTrialPolicy_post_init self =
     thenE (raise_if (\<not> (0 < rtp_pass_threshold self \<and> rtp_pass_threshold self < 1))
        (ValueError ''repeated-trial threshold must be between zero and one, exclusive''))
    (thenE (raise_if (\<not> (1 / 2 < rtp_confidence_level self \<and> rtp_confidence_level self < 1))
        (ValueError ''confidence level must be between one half and one, exclusive''))
    (thenE (raise_if (rtp_min_valid_trials self < 1)
        (ValueError ''repeated-trial policy requires at least one valid trial''))
       (Inr self)))"

record TrialConfidenceAssessment =
  tca_policy :: RepeatedTrialPolicy
  tca_decision :: ConfidenceDecision
  tca_passed_trials :: int
  tca_failed_trials :: int
  tca_invalid_trials :: int
  tca_pass_rate :: "rat option"
  tca_lower_bound :: "rat option"
  tca_upper_bound :: "rat option"
  tca_rationale :: string

definition tca_valid_trials :: "TrialConfidenceAssessment \<Rightarrow> int" where
  "tca_valid_trials self = tca_passed_trials self + tca_failed_trials self"

definition tca_met :: "TrialConfidenceAssessment \<Rightarrow> bool" where
  "tca_met self = (tca_decision self = CD_MET)"

text \<open>
  The floating-point operations and the number formats of the gate and of the harness: rounding, \<open>math.sqrt\<close>,
  \<open>NormalDist().inv_cdf\<close>, \<open>int / int\<close>, \<open>sum\<close>, \<open>:.4f\<close>, \<open>:.0%\<close> and \<open>str\<close>.
\<close>

record numerics =
  fl_add :: "rat \<Rightarrow> rat \<Rightarrow> rat"
  fl_sub :: "rat \<Rightarrow> rat \<Rightarrow> rat"
  fl_mul :: "rat \<Rightarrow> rat \<Rightarrow> rat"
  fl_div :: "rat \<Rightarrow> rat \<Rightarrow> rat"
  fl_sqrt :: "rat \<Rightarrow> rat"
  fl_inv_cdf :: "rat \<Rightarrow> rat"
  int_div :: "int \<Rightarrow> int \<Rightarrow> rat"
  fl_of_int :: "int \<Rightarrow> rat"
  fl_sum :: "rat list \<Rightarrow> rat"
  num_fixed4 :: "rat \<Rightarrow> string"
  num_fixed1 :: "rat \<Rightarrow> string"
  num_percent :: "rat \<Rightarrow> string"
  num_str :: "rat \<Rightarrow> string"

definition wilson_bounds :: "numerics \<Rightarrow> int \<Rightarrow> int \<Rightarrow> rat \<Rightarrow> rat \<times> rat" where
  "wilson_bounds num passes n_total confidence_level = (let
     z = fl_inv_cdf num (fl_add num (1 / 2) (fl_div num confidence_level 2));
     rate = int_div num passes n_total;
     z_squared = fl_mul num z z;
     denominator = fl_add num 1 (fl_div num z_squared (fl_of_int num n_total));
     center = fl_div num (fl_add num rate (fl_div num z_squared (fl_of_int num (2 * n_total)))) denominator;
     spread = fl_mul num (fl_div num z denominator) (fl_sqrt num
       (fl_add num (fl_div num (fl_mul num rate (fl_sub num 1 rate)) (fl_of_int num n_total))
          (fl_div num z_squared (fl_of_int num (4 * n_total * n_total)))))
   in (max 0 (fl_sub num center spread), min 1 (fl_add num center spread)))"

definition wilson_score_interval :: "numerics \<Rightarrow> int \<Rightarrow> int \<Rightarrow> rat \<Rightarrow> (rat \<times> rat) result" where
  "wilson_score_interval num passes n_total confidence_level =
     thenE (raise_if (n_total \<le> 0) (ValueError ''wilson interval requires at least one trial''))
    (thenE (raise_if (\<not> (0 \<le> passes \<and> passes \<le> n_total))
        (ValueError ''passes must be between zero and the trial total''))
    (thenE (raise_if (\<not> (1 / 2 < confidence_level \<and> confidence_level < 1))
        (ValueError ''confidence level must be between one half and one, exclusive''))
       (Inr (wilson_bounds num passes n_total confidence_level))))"

definition TERMINAL_STATUSES :: "TrialStatus list" where
  "TERMINAL_STATUSES = [TS_PASSED, TS_FAILED, TS_INVALID]"

fun require_terminal :: "uuid list \<Rightarrow> Trial list \<Rightarrow> unit result" where
  "require_terminal seen [] = Inr ()"
| "require_terminal seen (trial # trials) =
     thenE (raise_if (trial_status trial \<notin> set TERMINAL_STATUSES)
        (ValueError ''confidence assessment requires terminal trials only''))
    (thenE (raise_if (trial_id trial \<in> set seen)
        (ValueError ''repeated trials must be distinct: duplicate trial id''))
       (require_terminal (trial_id trial # seen) trials))"

definition require_one_subject :: "Trial list \<Rightarrow> unit result" where
  "require_one_subject trials = thenE (require_terminal [] trials)
     (case trials of [] \<Rightarrow> Inr ()
      | reference # _ \<Rightarrow>
          thenE (raise_if (list_ex (\<lambda>t. trial_tenant_id t \<noteq> trial_tenant_id reference) trials)
             (ValueError ''repeated trials must share tenant_id''))
         (thenE (raise_if (list_ex (\<lambda>t. trial_suite_id t \<noteq> trial_suite_id reference) trials)
             (ValueError ''repeated trials must share suite_id''))
         (thenE (raise_if (list_ex (\<lambda>t. trial_suite_version t \<noteq> trial_suite_version reference) trials)
             (ValueError ''repeated trials must share suite_version''))
         (thenE (raise_if (list_ex (\<lambda>t. trial_subject_version_id t \<noteq> trial_subject_version_id reference) trials)
             (ValueError ''repeated trials must share subject_version_id''))
            (raise_if (list_ex (\<lambda>t. trial_harness_version t \<noteq> trial_harness_version reference) trials)
             (ValueError ''repeated trials must share harness_version''))))))"

definition count_status :: "TrialStatus \<Rightarrow> Trial list \<Rightarrow> int" where
  "count_status s trials = int (length (filter (\<lambda>t. trial_status t = s) trials))"

definition assess :: "numerics \<Rightarrow> RepeatedTrialPolicy \<Rightarrow> Trial list \<Rightarrow> TrialConfidenceAssessment result" where
  "assess num policy trials = thenE (require_one_subject trials)
     (let passed = count_status TS_PASSED trials; failed = count_status TS_FAILED trials;
        invalid = count_status TS_INVALID trials; valid = passed + failed in
      bindE (if valid \<noteq> 0 then bindE (wilson_score_interval num passed valid (rtp_confidence_level policy)) (\<lambda>b. Inr (Some b))
             else Inr None) (\<lambda>bounds.
      let rate = (if valid \<noteq> 0 then Some (int_div num passed valid) else None); threshold = rtp_pass_threshold policy;
        result = (\<lambda>decision rationale. \<lparr>tca_policy = policy, tca_decision = decision, tca_passed_trials = passed,
          tca_failed_trials = failed, tca_invalid_trials = invalid, tca_pass_rate = rate,
          tca_lower_bound = map_option fst bounds, tca_upper_bound = map_option snd bounds, tca_rationale = rationale\<rparr>) in
      if valid < rtp_min_valid_trials policy then
        Inr (result CD_INSUFFICIENT_SAMPLE (str_int valid @ '' valid trials do not satisfy the minimum sample of ''
          @ str_int (rtp_min_valid_trials policy) @ ''; '' @ str_int invalid @ '' invalid trials cannot close the gap''))
      else (case (bounds, rate) of
        (Some (low, high), Some r) \<Rightarrow>
          let head = ''pass rate '' @ num_fixed4 num r; conf = num_percent num (rtp_confidence_level policy) in
          if threshold \<le> low then
            Inr (result CD_MET (head @ '' holds a '' @ conf @ '' lower bound of '' @ num_fixed4 num low
              @ '' at or above threshold '' @ num_str num threshold))
          else if high < threshold then
            Inr (result CD_NOT_MET (head @ '' holds a '' @ conf @ '' upper bound of '' @ num_fixed4 num high
              @ '' below threshold '' @ num_str num threshold))
          else
            Inr (result CD_INSUFFICIENT_SAMPLE (head @ '' with '' @ conf @ '' bounds ['' @ num_fixed4 num low @ '', ''
              @ num_fixed4 num high @ ''] straddles threshold '' @ num_str num threshold))
      | _ \<Rightarrow> Inl (AssertionError []))))"

subsection \<open>What the gate decides\<close>

lemma require_terminal_Inr:
  "require_terminal seen ts = Inr () \<longleftrightarrow> (\<forall>t\<in>set ts. trial_status t \<in> set TERMINAL_STATUSES)
     \<and> distinct (map trial_id ts) \<and> set (map trial_id ts) \<inter> set seen = {}"
  by (induction ts arbitrary: seen) (auto simp: result_simps)

definition same_subject :: "Trial list \<Rightarrow> bool" where
  "same_subject ts = (\<forall>t\<in>set ts. \<forall>u\<in>set ts. trial_tenant_id t = trial_tenant_id u \<and> trial_suite_id t = trial_suite_id u
     \<and> trial_suite_version t = trial_suite_version u \<and> trial_subject_version_id t = trial_subject_version_id u
     \<and> trial_harness_version t = trial_harness_version u)"

lemma require_one_subject_Inr:
  "require_one_subject ts = Inr () \<longleftrightarrow> (\<forall>t\<in>set ts. trial_status t \<in> set TERMINAL_STATUSES) \<and> distinct (map trial_id ts)
     \<and> same_subject ts"
proof (cases ts)
  case Nil
  then show ?thesis by (simp add: require_one_subject_def result_simps same_subject_def)
next
  case (Cons r rs)
  then show ?thesis
    by (auto simp: require_one_subject_def result_simps require_terminal_Inr same_subject_def list_ex_iff)
qed

lemma require_one_subject_filter:
  "require_one_subject ts = Inr () \<Longrightarrow> require_one_subject (filter P ts) = Inr ()"
  by (auto simp: require_one_subject_Inr same_subject_def distinct_map intro: inj_on_subset)

text \<open>The decision as a function of the numbers of passed and failed trials.\<close>

definition gate_decision :: "numerics \<Rightarrow> RepeatedTrialPolicy \<Rightarrow> int \<Rightarrow> int \<Rightarrow> ConfidenceDecision" where
  "gate_decision num policy passed failed =
     (if passed + failed < rtp_min_valid_trials policy then CD_INSUFFICIENT_SAMPLE
      else let (low, high) = wilson_bounds num passed (passed + failed) (rtp_confidence_level policy) in
        if rtp_pass_threshold policy \<le> low then CD_MET
        else if high < rtp_pass_threshold policy then CD_NOT_MET else CD_INSUFFICIENT_SAMPLE)"

lemma count_status_nonneg: "0 \<le> count_status st ts"
  by (simp add: count_status_def)

lemma assess_decides:
  assumes "RepeatedTrialPolicy_post_init policy = Inr policy" and "require_one_subject ts = Inr ()"
  shows "\<exists>a. assess num policy ts = Inr a
     \<and> tca_decision a = gate_decision num policy (count_status TS_PASSED ts) (count_status TS_FAILED ts)"
proof -
  let ?p = "count_status TS_PASSED ts" and ?f = "count_status TS_FAILED ts"
  have nn: "0 \<le> ?p" "0 \<le> ?f" by (rule count_status_nonneg)+
  have pol: "1 \<le> rtp_min_valid_trials policy" "1 / 2 < rtp_confidence_level policy" "rtp_confidence_level policy < 1"
    using assms(1) by (auto simp: RepeatedTrialPolicy_post_init_def result_simps)
  show ?thesis
  proof (cases "?p + ?f = 0")
    case True
    with assms(2) pol show ?thesis by (simp add: assess_def gate_decision_def Let_def)
  next
    case False
    with nn have "0 < ?p + ?f" by linarith
    with nn pol have w: "wilson_score_interval num ?p (?p + ?f) (rtp_confidence_level policy)
        = Inr (wilson_bounds num ?p (?p + ?f) (rtp_confidence_level policy))"
      by (simp add: wilson_score_interval_def)
    obtain low high where "wilson_bounds num ?p (?p + ?f) (rtp_confidence_level policy) = (low, high)" by fastforce
    with assms(2) False w show ?thesis by (simp add: assess_def gate_decision_def Let_def)
  qed
qed



end
