(* ===== verification/Improvement.thy ===== *)
theory Improvement
  imports Evaluation Lifecycle
begin

text \<open>
  Governed improvement, \<open>packages/domain/src/autonoesis_domain/improvement.py\<close>: proposals, candidates with
  their graders and approvers, deployments with their canary traffic rule, observations and releases.
\<close>

subsection \<open>Targets\<close>

datatype ImprovementTarget = IT_AGENT_INSTRUCTION | IT_SKILL | IT_PROMPT_ASSET | IT_MODEL_ROUTE

fun ImprovementTarget_value :: "ImprovementTarget \<Rightarrow> string" where
  "ImprovementTarget_value IT_AGENT_INSTRUCTION = ''agent_instruction''"
| "ImprovementTarget_value IT_SKILL = ''skill''"
| "ImprovementTarget_value IT_PROMPT_ASSET = ''prompt_asset''"
| "ImprovementTarget_value IT_MODEL_ROUTE = ''model_route''"

definition FORBIDDEN_IMPROVEMENT_TARGETS :: "string list" where
  "FORBIDDEN_IMPROVEMENT_TARGETS = [''identity'', ''delegation'', ''tenant_isolation'', ''policy_root'', ''audit_retention'',
     ''kill_switch'', ''production_code'', ''infrastructure'']"

definition require_improvement_target_allowed :: "string \<Rightarrow> unit result" where
  "require_improvement_target_allowed raw_target =
     raise_if (lower (strip raw_target) \<in> set FORBIDDEN_IMPROVEMENT_TARGETS)
       (PermissionError (''improvement target is forbidden: '' @ lower (strip raw_target)))"

text \<open>\<open>repr(str)\<close> on code points below 256.\<close>

definition repr_char :: "char \<Rightarrow> char \<Rightarrow> string" where
  "repr_char quote c = (let n = code_point c in
     if c = quote \<or> n = 92 then [CHR 0x5C, c]
     else if n = 9 then [CHR 0x5C, CHR ''t''] else if n = 10 then [CHR 0x5C, CHR ''n'']
     else if n = 13 then [CHR 0x5C, CHR ''r'']
     else if n < 32 \<or> (127 \<le> n \<and> n \<le> 160) \<or> n = 173
       then [CHR 0x5C, CHR ''x'', ''0123456789abcdef'' ! (n div 16), ''0123456789abcdef'' ! (n mod 16)]
     else [c])"

definition repr_str :: "string \<Rightarrow> string" where
  "repr_str s = (let quote = (if CHR 0x27 \<in> set s \<and> CHR 0x22 \<notin> set s then CHR 0x22 else CHR 0x27) in
     [quote] @ concat (map (repr_char quote) s) @ [quote])"

text \<open>\<open>ImprovementTarget(raw_target)\<close>.\<close>

definition ImprovementTarget_of :: "string \<Rightarrow> ImprovementTarget result" where
  "ImprovementTarget_of raw_target =
     (case find (\<lambda>t. ImprovementTarget_value t = raw_target) [IT_AGENT_INSTRUCTION, IT_SKILL, IT_PROMPT_ASSET, IT_MODEL_ROUTE] of
        Some t \<Rightarrow> Inr t
      | None \<Rightarrow> Inl (ValueError (repr_str raw_target @ '' is not a valid ImprovementTarget'')))"

datatype CandidateStatus = CS_DRAFT | CS_EVALUATING | CS_AWAITING_APPROVAL | CS_APPROVED | CS_REJECTED

fun CandidateStatus_value :: "CandidateStatus \<Rightarrow> string" where
  "CandidateStatus_value CS_DRAFT = ''draft''"
| "CandidateStatus_value CS_EVALUATING = ''evaluating''"
| "CandidateStatus_value CS_AWAITING_APPROVAL = ''awaiting_approval''"
| "CandidateStatus_value CS_APPROVED = ''approved''"
| "CandidateStatus_value CS_REJECTED = ''rejected''"

datatype DeploymentStatus = DS_SHADOW | DS_CANARY | DS_STABLE | DS_FAILED | DS_ROLLED_BACK

fun DeploymentStatus_value :: "DeploymentStatus \<Rightarrow> string" where
  "DeploymentStatus_value DS_SHADOW = ''shadow''"
| "DeploymentStatus_value DS_CANARY = ''canary''"
| "DeploymentStatus_value DS_STABLE = ''stable''"
| "DeploymentStatus_value DS_FAILED = ''failed''"
| "DeploymentStatus_value DS_ROLLED_BACK = ''rolled_back''"

datatype GuardrailOperator = GO_LT | GO_GT | GO_LTE | GO_GTE

definition CANDIDATE_EVALUATION_DECISIONS :: "string list" where
  "CANDIDATE_EVALUATION_DECISIONS = [''met'', ''not_met'', ''insufficient_sample'']"

text \<open>The values of an assessment payload.\<close>

datatype payload_value = PV_str string | PV_int int | PV_float rat | PV_None

record CandidateEvaluation =
  ce_tenant_id :: uuid
  ce_candidate_id :: uuid
  ce_decision :: string
  ce_trial_ids :: "uuid list"
  ce_assessment :: "(string \<times> payload_value) list"
  ce_grader_principal_id :: string
  evaluation_id :: uuid
  ce_decided_at :: "datetime option"

definition CandidateEvaluation_post_init :: "CandidateEvaluation \<Rightarrow> CandidateEvaluation result" where
  "CandidateEvaluation_post_init self =
     thenE (raise_if (ce_decision self \<notin> set CANDIDATE_EVALUATION_DECISIONS)
        (ValueError ''candidate evaluation decision is not a known gate outcome''))
    (thenE (raise_if (ce_trial_ids self = [])
        (ValueError ''candidate evaluation must reference at least one Trial''))
    (thenE (raise_if (ce_assessment self = [])
        (ValueError ''candidate evaluation requires the assessment payload''))
    (thenE (raise_if (blank (ce_grader_principal_id self))
        (ValueError ''candidate evaluation requires the grading principal''))
       (Inr self))))"

definition CANDIDATE_TRANSITIONS :: "CandidateStatus transition_table" where
  "CANDIDATE_TRANSITIONS =
    [(CS_DRAFT, [CS_EVALUATING, CS_REJECTED]),
     (CS_EVALUATING, [CS_AWAITING_APPROVAL, CS_REJECTED]),
     (CS_AWAITING_APPROVAL, [CS_APPROVED, CS_REJECTED])]"

definition DEPLOYMENT_TRANSITIONS :: "DeploymentStatus transition_table" where
  "DEPLOYMENT_TRANSITIONS =
    [(DS_SHADOW, [DS_CANARY, DS_FAILED, DS_ROLLED_BACK]),
     (DS_CANARY, [DS_STABLE, DS_FAILED, DS_ROLLED_BACK]),
     (DS_STABLE, [DS_ROLLED_BACK])]"

record ImprovementProposal =
  prop_tenant_id :: uuid
  prop_target :: ImprovementTarget
  prop_target_version_id :: uuid
  prop_evidence_refs :: "string list"
  prop_diagnosis :: string
  prop_proposed_change :: string
  prop_validation_suite_id :: string
  prop_rollback_plan :: string
  prop_proposer_id :: string
  proposal_id :: uuid

definition ImprovementProposal_post_init :: "ImprovementProposal \<Rightarrow> ImprovementProposal result" where
  "ImprovementProposal_post_init self =
     thenE (raise_if (prop_evidence_refs self = []) (ValueError ''improvement proposal requires evidence''))
    (thenE (raise_if (list_ex blank [prop_diagnosis self, prop_proposed_change self, prop_validation_suite_id self,
          prop_rollback_plan self, prop_proposer_id self])
        (ValueError ''improvement proposal fields must not be empty''))
       (Inr self))"

subsection \<open>Candidates\<close>

record CandidateVersion =
  cand_tenant_id :: uuid
  cand_proposal_id :: uuid
  cand_baseline_version_id :: uuid
  cand_artifact_ref :: string
  cand_artifact_digest :: string
  cand_suite_id :: string
  cand_suite_version :: string
  cand_generator_id :: string
  candidate_id :: uuid
  cand_status :: CandidateStatus
  cand_optimistic_version :: int
  cand_transitions :: "StateTransition list"
  cand_grader_principal_id :: "string option"
  cand_approver_principal_id :: "string option"
  cand_approval_reason :: "string option"

definition CandidateVersion_post_init :: "CandidateVersion \<Rightarrow> CandidateVersion result" where
  "CandidateVersion_post_init self =
     thenE (raise_if (blank (cand_artifact_ref self) \<or> blank (cand_generator_id self))
        (ValueError ''candidate artifact and generator are required''))
    (thenE (raise_if (\<not> is_sha256_hex (cand_artifact_digest self))
        (ValueError ''candidate artifact digest must be a lowercase sha256 hex digest''))
    (thenE (raise_if (blank (cand_suite_id self) \<or> blank (cand_suite_version self))
        (ValueError ''candidate suite id and version are required''))
    (thenE (raise_if (cand_optimistic_version self < 1)
        (ValueError ''candidate optimistic version must be positive''))
       (Inr self))))"

definition CandidateVersion_transition_to ::
  "CandidateVersion \<Rightarrow> CandidateStatus \<Rightarrow> uuid \<Rightarrow> string \<Rightarrow> datetime \<Rightarrow> CandidateVersion result" where
  "CandidateVersion_transition_to self target actor_id reason now =
     thenE (require_transition CandidateStatus_value (cand_status self) target CANDIDATE_TRANSITIONS)
    (bindE (transition_record CandidateStatus_value (cand_status self) target actor_id reason now) (\<lambda>transition.
     CandidateVersion_post_init (self\<lparr>cand_status := target,
       cand_optimistic_version := cand_optimistic_version self + 1,
       cand_transitions := cand_transitions self @ [transition]\<rparr>)))"

definition record_evaluation :: "CandidateVersion \<Rightarrow> CandidateStatus \<Rightarrow> uuid \<Rightarrow> datetime \<Rightarrow> CandidateVersion result" where
  "record_evaluation self target grader_principal_id now =
     thenE (raise_if (str_uuid grader_principal_id = cand_generator_id self)
        (PermissionError ''candidate generator cannot grade its own candidate''))
    (bindE (CandidateVersion_transition_to self target grader_principal_id ''evaluation recorded'' now) (\<lambda>moved.
     CandidateVersion_post_init (moved\<lparr>cand_grader_principal_id := Some (str_uuid grader_principal_id)\<rparr>)))"

definition record_approval ::
  "CandidateVersion \<Rightarrow> CandidateStatus \<Rightarrow> uuid \<Rightarrow> string \<Rightarrow> datetime \<Rightarrow> CandidateVersion result" where
  "record_approval self target approver_principal_id reason now =
     thenE (raise_if (blank reason) (ValueError ''candidate approval requires a recorded rationale''))
    (thenE (raise_if (str_uuid approver_principal_id = cand_generator_id self
          \<or> Some (str_uuid approver_principal_id) = cand_grader_principal_id self)
        (PermissionError ''candidate approval requires an independent principal''))
    (bindE (CandidateVersion_transition_to self target approver_principal_id
        (''approval recorded: '' @ strip reason) now) (\<lambda>moved.
     CandidateVersion_post_init (moved\<lparr>cand_approver_principal_id := Some (str_uuid approver_principal_id),
       cand_approval_reason := Some (strip reason)\<rparr>))))"

subsection \<open>Canary traffic\<close>

datatype TrafficRoute = ROUTE_STABLE | ROUTE_CANDIDATE

record TrafficAllocation =
  ta_salt :: string
  ta_candidate_percent :: int

definition TrafficAllocation_post_init :: "TrafficAllocation \<Rightarrow> TrafficAllocation result" where
  "TrafficAllocation_post_init self =
     thenE (raise_if (blank (ta_salt self)) (ValueError ''traffic allocation salt is required''))
    (thenE (raise_if (\<not> (1 \<le> ta_candidate_percent self \<and> ta_candidate_percent self \<le> 100))
        (ValueError ''traffic allocation percent must be within 1..100''))
       (Inr self))"

definition percentile :: "string \<Rightarrow> string \<Rightarrow> nat" where
  "percentile salt key = sha256_prefix64 (''canary:'' @ salt @ '':'' @ key) mod 10000"

definition assign :: "TrafficAllocation \<Rightarrow> string \<Rightarrow> TrafficRoute" where
  "assign self request_id =
     (if int (percentile (ta_salt self) request_id) < ta_candidate_percent self * 100 then ROUTE_CANDIDATE else ROUTE_STABLE)"

subsection \<open>Deployments\<close>

record Deployment =
  dep_tenant_id :: uuid
  dep_candidate_id :: uuid
  dep_status :: DeploymentStatus
  deployment_id :: uuid
  dep_optimistic_version :: int
  dep_transitions :: "StateTransition list"
  dep_traffic_allocation :: "TrafficAllocation option"

definition Deployment_post_init :: "Deployment \<Rightarrow> Deployment result" where
  "Deployment_post_init self =
     thenE (raise_if (dep_optimistic_version self < 1) (ValueError ''deployment optimistic version must be positive''))
       (Inr self)"

definition Deployment_transition_to ::
  "Deployment \<Rightarrow> DeploymentStatus \<Rightarrow> uuid \<Rightarrow> string \<Rightarrow> datetime \<Rightarrow> Deployment result" where
  "Deployment_transition_to self target actor_id reason now =
     thenE (require_transition DeploymentStatus_value (dep_status self) target DEPLOYMENT_TRANSITIONS)
    (bindE (transition_record DeploymentStatus_value (dep_status self) target actor_id reason now) (\<lambda>transition.
     Deployment_post_init (self\<lparr>dep_status := target,
       dep_optimistic_version := dep_optimistic_version self + 1,
       dep_transitions := dep_transitions self @ [transition]\<rparr>)))"

definition begin_deployment :: "CandidateVersion \<Rightarrow> uuid \<Rightarrow> string \<Rightarrow> uuid \<Rightarrow> datetime \<Rightarrow> Deployment result" where
  "begin_deployment self actor_id reason new_id now =
     thenE (raise_if (cand_status self \<noteq> CS_APPROVED) (ValueError ''only an approved candidate can begin deployment''))
    (bindE (StateTransition_post_init \<lparr>from_status = ''approved'', to_status = DeploymentStatus_value DS_SHADOW,
        occurred_at = now, st_reason = reason, st_actor_id = actor_id\<rparr>) (\<lambda>transition.
     Deployment_post_init \<lparr>dep_tenant_id = cand_tenant_id self, dep_candidate_id = candidate_id self, dep_status = DS_SHADOW,
       deployment_id = new_id, dep_optimistic_version = 1, dep_transitions = [transition], dep_traffic_allocation = None\<rparr>))"

definition enter_canary :: "Deployment \<Rightarrow> TrafficAllocation \<Rightarrow> uuid \<Rightarrow> string \<Rightarrow> datetime \<Rightarrow> Deployment result" where
  "enter_canary self allocation actor_id reason now =
     bindE (Deployment_transition_to self DS_CANARY actor_id reason now) (\<lambda>promoted.
     Deployment_post_init (promoted\<lparr>dep_traffic_allocation := Some allocation\<rparr>))"

definition assign_request :: "Deployment \<Rightarrow> string \<Rightarrow> TrafficRoute result" where
  "assign_request self request_id =
     thenE (raise_if (dep_status self \<noteq> DS_CANARY) (ValueError ''traffic assignment requires a canary deployment''))
     (case dep_traffic_allocation self of
        None \<Rightarrow> Inl (ValueError ''canary deployment carries no traffic allocation rule'')
      | Some allocation \<Rightarrow> Inr (assign allocation request_id))"

definition entered_at :: "Deployment \<Rightarrow> DeploymentStatus \<Rightarrow> datetime option" where
  "entered_at self status =
     map_option occurred_at (find (\<lambda>t. to_status t = DeploymentStatus_value status) (dep_transitions self))"

subsection \<open>Observations, shadow comparisons and releases\<close>

record DeploymentObservation =
  obsv_tenant_id :: uuid
  obsv_deployment_id :: uuid
  obsv_stage :: DeploymentStatus
  obsv_metric :: string
  obsv_sample_count :: int
  obsv_breach_count :: int
  obsv_last_value :: "rat option"
  obsv_first_sample_at :: "datetime option"
  obsv_last_sample_at :: "datetime option"
  observation_id :: uuid
  obsv_optimistic_version :: int

definition DeploymentObservation_post_init :: "DeploymentObservation \<Rightarrow> DeploymentObservation result" where
  "DeploymentObservation_post_init self =
     thenE (raise_if (blank (obsv_metric self)) (ValueError ''observation metric is required''))
    (thenE (raise_if (obsv_sample_count self < 0 \<or> obsv_breach_count self < 0)
        (ValueError ''observation counts cannot be negative''))
    (thenE (raise_if (obsv_sample_count self < obsv_breach_count self)
        (ValueError ''breach count cannot exceed sample count''))
       (Inr self)))"

text \<open>Scores and latencies are finite floats.\<close>

record ShadowMeasurements =
  sm_outcome_score :: rat
  sm_cost_microunits :: int
  sm_latency_ms :: rat
  sm_security_violations :: int
  sm_human_corrections :: int
  sm_external_write_attempts :: int

definition ShadowMeasurements_post_init :: "ShadowMeasurements \<Rightarrow> ShadowMeasurements result" where
  "ShadowMeasurements_post_init self =
     thenE (raise_if (\<not> (0 \<le> sm_outcome_score self \<and> sm_outcome_score self \<le> 1))
        (ValueError ''shadow outcome score must be finite and between zero and one''))
    (thenE (raise_if (sm_latency_ms self < 0) (ValueError ''shadow latency must be finite and non-negative''))
    (thenE (raise_if (sm_cost_microunits self < 0) (ValueError ''shadow cost cannot be negative''))
    (thenE (raise_if (sm_security_violations self < 0) (ValueError ''shadow security violations cannot be negative''))
    (thenE (raise_if (sm_human_corrections self < 0) (ValueError ''shadow human corrections cannot be negative''))
    (thenE (raise_if (sm_external_write_attempts self < 0)
        (ValueError ''shadow external write attempts cannot be negative''))
       (Inr self))))))"

record ShadowComparison =
  shc_tenant_id :: uuid
  shc_deployment_id :: uuid
  shc_request_ref :: string
  shc_stable_version_id :: uuid
  shc_candidate_version_id :: uuid
  shc_stable :: ShadowMeasurements
  shc_candidate :: ShadowMeasurements
  shc_observed_at :: datetime
  comparison_id :: uuid

definition ShadowComparison_post_init :: "ShadowComparison \<Rightarrow> ShadowComparison result" where
  "ShadowComparison_post_init self =
     thenE (raise_if (blank (shc_request_ref self)) (ValueError ''shadow comparison request reference is required''))
    (thenE (raise_if (tz_missing (shc_observed_at self))
        (ValueError ''shadow comparison timestamp must be timezone-aware''))
       (Inr self))"

record Release =
  rel_tenant_id :: uuid
  rel_candidate_id :: uuid
  rel_deployment_id :: uuid
  rel_stable_version_id :: uuid
  rel_previous_stable_version_id :: uuid
  rel_approved_by :: uuid
  release_id :: uuid

definition from_stable_deployment :: "Deployment \<Rightarrow> uuid \<Rightarrow> uuid \<Rightarrow> uuid \<Rightarrow> uuid \<Rightarrow> Release result" where
  "from_stable_deployment deployment stable_version_id previous_stable_version_id approved_by new_id =
     thenE (raise_if (dep_status deployment \<noteq> DS_STABLE) (ValueError ''release requires a stable deployment''))
       (Inr \<lparr>rel_tenant_id = dep_tenant_id deployment, rel_candidate_id = dep_candidate_id deployment,
          rel_deployment_id = deployment_id deployment, rel_stable_version_id = stable_version_id,
          rel_previous_stable_version_id = previous_stable_version_id, rel_approved_by = approved_by,
          release_id = new_id\<rparr>)"

section \<open>Behaviour\<close>

lemma CandidateVersion_transition_to_Inr:
  "CandidateVersion_transition_to c target actor reason now = Inr c' \<Longrightarrow>
     target \<in> set (allowed_targets CANDIDATE_TRANSITIONS (cand_status c)) \<and>
     c' = c\<lparr>cand_status := target, cand_optimistic_version := cand_optimistic_version c + 1,
       cand_transitions := cand_transitions c @ [\<lparr>from_status = CandidateStatus_value (cand_status c),
         to_status = CandidateStatus_value target, occurred_at = now, st_reason = reason, st_actor_id = actor\<rparr>]\<rparr>"
  by (auto simp: CandidateVersion_transition_to_def CandidateVersion_post_init_def result_simps transition_record_Inr)

lemma Deployment_transition_to_Inr:
  "Deployment_transition_to d target actor reason now = Inr d' \<Longrightarrow>
     target \<in> set (allowed_targets DEPLOYMENT_TRANSITIONS (dep_status d)) \<and>
     d' = d\<lparr>dep_status := target, dep_optimistic_version := dep_optimistic_version d + 1,
       dep_transitions := dep_transitions d @ [\<lparr>from_status = DeploymentStatus_value (dep_status d),
         to_status = DeploymentStatus_value target, occurred_at = now, st_reason = reason, st_actor_id = actor\<rparr>]\<rparr>"
  by (auto simp: Deployment_transition_to_def Deployment_post_init_def result_simps transition_record_Inr)

interpretation candidate_lc: lifecycle CandidateStatus_value CANDIDATE_TRANSITIONS cand_status cand_transitions
    cand_optimistic_version CandidateVersion_transition_to
  by unfold_locales (drule CandidateVersion_transition_to_Inr, simp)+

interpretation deployment_lc: lifecycle DeploymentStatus_value DEPLOYMENT_TRANSITIONS dep_status dep_transitions
    dep_optimistic_version Deployment_transition_to
  by unfold_locales (drule Deployment_transition_to_Inr, simp)+

subsection \<open>Separation of duties\<close>

lemma record_evaluation_Inr:
  "record_evaluation c target grader now = Inr c' \<Longrightarrow>
     str_uuid grader \<noteq> cand_generator_id c \<and>
     (\<exists>m. CandidateVersion_transition_to c target grader ''evaluation recorded'' now = Inr m
        \<and> c' = m\<lparr>cand_grader_principal_id := Some (str_uuid grader)\<rparr>)"
  by (auto simp: record_evaluation_def CandidateVersion_post_init_def result_simps)

lemma record_approval_Inr:
  "record_approval c target approver reason now = Inr c' \<Longrightarrow>
     str_uuid approver \<noteq> cand_generator_id c \<and> Some (str_uuid approver) \<noteq> cand_grader_principal_id c \<and> \<not> blank reason \<and>
     (\<exists>m. CandidateVersion_transition_to c target approver (''approval recorded: '' @ strip reason) now = Inr m
        \<and> c' = m\<lparr>cand_approver_principal_id := Some (str_uuid approver), cand_approval_reason := Some (strip reason)\<rparr>)"
  by (auto simp: record_approval_def CandidateVersion_post_init_def result_simps)

lemma begin_deployment_Inr:
  "begin_deployment c actor reason new_id now = Inr d \<Longrightarrow>
     cand_status c = CS_APPROVED \<and> dep_tenant_id d = cand_tenant_id c \<and> dep_candidate_id d = candidate_id c
     \<and> deployment_id d = new_id \<and> dep_status d = DS_SHADOW \<and> dep_optimistic_version d = 1 \<and> dep_traffic_allocation d = None
     \<and> dep_transitions d = [\<lparr>from_status = ''approved'', to_status = ''shadow'', occurred_at = now, st_reason = reason,
          st_actor_id = actor\<rparr>]"
  by (auto simp: begin_deployment_def Deployment_post_init_def StateTransition_post_init_def result_simps)

lemma enter_canary_Inr:
  "enter_canary d allocation actor reason now = Inr d' \<Longrightarrow>
     \<exists>m. Deployment_transition_to d DS_CANARY actor reason now = Inr m \<and> d' = m\<lparr>dep_traffic_allocation := Some allocation\<rparr>"
  by (auto simp: enter_canary_def Deployment_post_init_def result_simps)

subsection \<open>Canary traffic\<close>

lemma percentile_bound: "percentile salt key < 10000"
  by (simp add: percentile_def)

text \<open>
  Canary traffic is sticky and only grows. For two valid rules with one salt, a request that the candidate serves at
  the smaller percentage is served by the candidate at the larger one, and at one hundred percent the candidate serves
  every request.
\<close>

lemma canary_assignment_monotone:
  assumes "TrafficAllocation_post_init a = Inr a" and "TrafficAllocation_post_init b = Inr b"
    and "ta_salt a = ta_salt b" and "ta_candidate_percent a \<le> ta_candidate_percent b"
  shows "(assign a r = ROUTE_CANDIDATE \<longrightarrow> assign b r = ROUTE_CANDIDATE)
     \<and> (ta_candidate_percent b = 100 \<longrightarrow> assign b r = ROUTE_CANDIDATE)"
  using assms percentile_bound [of "ta_salt b" r]
  by (auto simp: TrafficAllocation_post_init_def result_simps assign_def split: if_splits)

lemma canary_assignment_monotone_instance:
  "assign \<lparr>ta_salt = ''s'', ta_candidate_percent = 100\<rparr> ''r'' = ROUTE_CANDIDATE"
  using canary_assignment_monotone [of "\<lparr>ta_salt = ''s'', ta_candidate_percent = 5\<rparr>"
      "\<lparr>ta_salt = ''s'', ta_candidate_percent = 100\<rparr>" "''r''"]
  by (simp add: TrafficAllocation_post_init_def py_isspace_def code_point_def)

end
