(* ===== verification/Evolution.thy ===== *)
theory Evolution
  imports Improvement Application
begin

text \<open>
  The evolution service \<open>CandidateLifecycleService\<close> of
  \<open>packages/application/src/autonoesis_application/evolution.py\<close> over the evolution tables of
  \<open>InMemoryPlatformStore\<close> (\<open>packages/adapters/src/autonoesis_adapters/memory.py\<close>). The service
  opens no transaction: what a use case wrote before it raises stays written, so a use case returns its result and the
  store in every case. The improvement policy, the shadow runtime and the float operations are arguments.
\<close>

subsection \<open>The tables\<close>

record evolution_store =
  proposals :: "(uuid \<times> ImprovementProposal) list"
  candidates :: "(uuid \<times> CandidateVersion) list"
  deployments :: "(uuid \<times> Deployment) list"
  releases :: "(uuid \<times> Release) list"
  trials :: "(uuid \<times> Trial) list"
  suites :: "((uuid \<times> string \<times> string) \<times> EvaluationSuite) list"
  candidate_evaluations :: "(uuid \<times> CandidateEvaluation) list"
  observations :: "((uuid \<times> uuid \<times> string \<times> string) \<times> DeploymentObservation) list"
  shadow_comparisons :: "(uuid \<times> ShadowComparison) list"

definition empty_evolution :: evolution_store where
  "empty_evolution = \<lparr>proposals = [], candidates = [], deployments = [], releases = [], trials = [], suites = [],
     candidate_evaluations = [], observations = [], shadow_comparisons = []\<rparr>"

definition add_trial :: "Trial \<Rightarrow> evolution_store \<Rightarrow> evolution_store" where
  "add_trial trial s = s\<lparr>trials := AList.update (trial_id trial) trial (trials s)\<rparr>"

definition add_suite :: "uuid \<Rightarrow> EvaluationSuite \<Rightarrow> evolution_store \<Rightarrow> evolution_store" where
  "add_suite tenant_id suite s =
     s\<lparr>suites := AList.update (tenant_id, suite_id suite, suite_version suite) suite (suites s)\<rparr>"

definition get_suite :: "evolution_store \<Rightarrow> uuid \<Rightarrow> string \<Rightarrow> string \<Rightarrow> EvaluationSuite result" where
  "get_suite s tenant_id suite version =
     (case map_of (suites s) (tenant_id, suite, version) of
        Some item \<Rightarrow> Inr item
      | None \<Rightarrow> Inl (RecordNotFound (''evaluation suite not found: '' @ suite @ ''@'' @ version)))"

definition list_suites :: "evolution_store \<Rightarrow> uuid \<Rightarrow> EvaluationSuite list" where
  "list_suites s tenant_id = map snd (filter (\<lambda>((owner, _, _), _). owner = tenant_id) (suites s))"

definition list_trials :: "evolution_store \<Rightarrow> uuid \<Rightarrow> Trial list" where
  "list_trials s tenant_id = filter (\<lambda>item. trial_tenant_id item = tenant_id) (dict_values (trials s))"

definition list_trials_for_candidate :: "evolution_store \<Rightarrow> uuid \<Rightarrow> uuid \<Rightarrow> Trial list" where
  "list_trials_for_candidate s tenant_id candidate =
     filter (\<lambda>item. trial_tenant_id item = tenant_id \<and> trial_candidate_id item = Some candidate) (dict_values (trials s))"

definition add_evaluation_record :: "CandidateEvaluation \<Rightarrow> evolution_store \<Rightarrow> evolution_store" where
  "add_evaluation_record record s =
     s\<lparr>candidate_evaluations := AList.update (evaluation_id record) record (candidate_evaluations s)\<rparr>"

definition list_evaluation_records :: "evolution_store \<Rightarrow> uuid \<Rightarrow> uuid \<Rightarrow> CandidateEvaluation list" where
  "list_evaluation_records s tenant_id candidate =
     filter (\<lambda>record. ce_tenant_id record = tenant_id \<and> ce_candidate_id record = candidate)
       (dict_values (candidate_evaluations s))"

definition get_observation ::
  "evolution_store \<Rightarrow> uuid \<Rightarrow> uuid \<Rightarrow> DeploymentStatus \<Rightarrow> string \<Rightarrow> DeploymentObservation option" where
  "get_observation s tenant_id deployment stage metric =
     map_of (observations s) (tenant_id, deployment, DeploymentStatus_value stage, metric)"

definition save_observation :: "DeploymentObservation \<Rightarrow> evolution_store \<Rightarrow> evolution_store" where
  "save_observation obs s = s\<lparr>observations := AList.update
     (obsv_tenant_id obs, obsv_deployment_id obs, DeploymentStatus_value (obsv_stage obs), obsv_metric obs) obs (observations s)\<rparr>"

definition add_shadow_comparison :: "ShadowComparison \<Rightarrow> evolution_store \<Rightarrow> evolution_store" where
  "add_shadow_comparison comparison s =
     s\<lparr>shadow_comparisons := AList.update (comparison_id comparison) comparison (shadow_comparisons s)\<rparr>"

definition list_shadow_comparisons :: "evolution_store \<Rightarrow> uuid \<Rightarrow> uuid \<Rightarrow> ShadowComparison list" where
  "list_shadow_comparisons s tenant_id deployment =
     filter (\<lambda>item. shc_tenant_id item = tenant_id \<and> shc_deployment_id item = deployment) (dict_values (shadow_comparisons s))"

definition add_proposal :: "ImprovementProposal \<Rightarrow> evolution_store \<Rightarrow> evolution_store" where
  "add_proposal proposal s = s\<lparr>proposals := AList.update (proposal_id proposal) proposal (proposals s)\<rparr>"

definition get_proposal :: "evolution_store \<Rightarrow> uuid \<Rightarrow> uuid \<Rightarrow> ImprovementProposal result" where
  "get_proposal s tenant_id key = lookup_record (proposals s) prop_tenant_id ''proposal was not found'' tenant_id key"

definition list_proposals :: "evolution_store \<Rightarrow> uuid \<Rightarrow> ImprovementProposal list" where
  "list_proposals s tenant_id = filter (\<lambda>item. prop_tenant_id item = tenant_id) (dict_values (proposals s))"

definition list_releases :: "evolution_store \<Rightarrow> uuid \<Rightarrow> Release list" where
  "list_releases s tenant_id = filter (\<lambda>item. rel_tenant_id item = tenant_id) (dict_values (releases s))"

definition save_candidate :: "CandidateVersion \<Rightarrow> evolution_store \<Rightarrow> evolution_store" where
  "save_candidate candidate s = s\<lparr>candidates := AList.update (candidate_id candidate) candidate (candidates s)\<rparr>"

definition add_candidate :: "CandidateVersion \<Rightarrow> evolution_store \<Rightarrow> evolution_store" where
  "add_candidate candidate s = s\<lparr>candidates := AList.update (candidate_id candidate) candidate (candidates s)\<rparr>"

definition get_candidate :: "evolution_store \<Rightarrow> uuid \<Rightarrow> uuid \<Rightarrow> CandidateVersion result" where
  "get_candidate s tenant_id key = lookup_record (candidates s) cand_tenant_id (not_found ''candidate'' key) tenant_id key"

definition add_deployment :: "Deployment \<Rightarrow> evolution_store \<Rightarrow> evolution_store" where
  "add_deployment deployment s = s\<lparr>deployments := AList.update (deployment_id deployment) deployment (deployments s)\<rparr>"

definition save_deployment :: "Deployment \<Rightarrow> evolution_store \<Rightarrow> evolution_store" where
  "save_deployment deployment s = s\<lparr>deployments := AList.update (deployment_id deployment) deployment (deployments s)\<rparr>"

definition get_deployment :: "evolution_store \<Rightarrow> uuid \<Rightarrow> uuid \<Rightarrow> Deployment result" where
  "get_deployment s tenant_id key =
     lookup_record (deployments s) dep_tenant_id (not_found ''deployment'' key) tenant_id key"

definition list_deployments :: "evolution_store \<Rightarrow> uuid \<Rightarrow> DeploymentStatus option \<Rightarrow> Deployment list" where
  "list_deployments s tenant_id status =
     filter (\<lambda>item. dep_tenant_id item = tenant_id \<and> (status = None \<or> status = Some (dep_status item)))
       (map snd (sort_key fst (deployments s)))"

definition add_release :: "Release \<Rightarrow> evolution_store \<Rightarrow> evolution_store" where
  "add_release release s = s\<lparr>releases := AList.update (release_id release) release (releases s)\<rparr>"

definition get_active_release :: "evolution_store \<Rightarrow> uuid \<Rightarrow> uuid \<Rightarrow> Release result" where
  "get_active_release s tenant_id key =
     lookup_record (releases s) rel_tenant_id (not_found ''release'' key) tenant_id key"

subsection \<open>Commands\<close>

record ProposeImprovement =
  pi_target :: string
  pi_target_version_id :: uuid
  pi_evidence_refs :: "string list"
  pi_diagnosis :: string
  pi_proposed_change :: string
  pi_validation_suite_id :: string
  pi_rollback_plan :: string

record RegisterCandidate =
  rc_proposal_id :: uuid
  rc_baseline_version_id :: uuid
  rc_artifact_ref :: string
  rc_artifact_digest :: string
  rc_suite_id :: string
  rc_suite_version :: string

record PromotionPolicy =
  pp_min_samples :: int
  pp_observation_seconds :: int
  pp_required_metrics :: "string list"

definition PromotionPolicy_post_init :: "PromotionPolicy \<Rightarrow> PromotionPolicy result" where
  "PromotionPolicy_post_init self =
     thenE (raise_if (pp_min_samples self < 1) (ValueError ''promotion policy requires a positive minimum sample''))
    (thenE (raise_if (pp_observation_seconds self < 0)
        (ValueError ''promotion policy observation window cannot be negative''))
       (Inr self))"

definition default_PromotionPolicy :: PromotionPolicy where
  "default_PromotionPolicy = \<lparr>pp_min_samples = 1, pp_observation_seconds = 0, pp_required_metrics = []\<rparr>"

record RecordObservation =
  ro_deployment_id :: uuid
  ro_stage :: DeploymentStatus
  ro_metric :: string
  ro_value :: rat
  ro_operator :: "GuardrailOperator option"
  ro_threshold :: "rat option"

definition RecordObservation_post_init :: "RecordObservation \<Rightarrow> RecordObservation result" where
  "RecordObservation_post_init self =
     thenE (raise_if ((ro_operator self = None) \<noteq> (ro_threshold self = None))
        (ValueError ''guardrail operator and threshold must be provided together''))
       (Inr self)"

record ExecuteShadowPair =
  sp_deployment_id :: uuid
  sp_request_ref :: string
  sp_input_payload :: "(string \<times> json) list"

definition ExecuteShadowPair_post_init :: "ExecuteShadowPair \<Rightarrow> ExecuteShadowPair result" where
  "ExecuteShadowPair_post_init self =
     thenE (raise_if (blank (sp_request_ref self)) (ValueError ''shadow request reference is required'')) (Inr self)"

definition opt_float :: "rat option \<Rightarrow> payload_value" where
  "opt_float v = (case v of None \<Rightarrow> PV_None | Some x \<Rightarrow> PV_float x)"

definition assessment_payload :: "TrialConfidenceAssessment \<Rightarrow> (string \<times> payload_value) list" where
  "assessment_payload assessment =
    [(''decision'', PV_str (ConfidenceDecision_value (tca_decision assessment))),
     (''passed_trials'', PV_int (tca_passed_trials assessment)),
     (''failed_trials'', PV_int (tca_failed_trials assessment)),
     (''invalid_trials'', PV_int (tca_invalid_trials assessment)),
     (''valid_trials'', PV_int (tca_valid_trials assessment)),
     (''pass_rate'', opt_float (tca_pass_rate assessment)),
     (''lower_bound'', opt_float (tca_lower_bound assessment)),
     (''upper_bound'', opt_float (tca_upper_bound assessment)),
     (''confidence_level'', PV_float (rtp_confidence_level (tca_policy assessment))),
     (''pass_threshold'', PV_float (rtp_pass_threshold (tca_policy assessment))),
     (''min_valid_trials'', PV_int (rtp_min_valid_trials (tca_policy assessment))),
     (''rationale'', PV_str (tca_rationale assessment))]"

fun guardrail_breached :: "GuardrailOperator option \<Rightarrow> rat option \<Rightarrow> rat \<Rightarrow> bool" where
  "guardrail_breached (Some GO_LT) (Some threshold) v = (v < threshold)"
| "guardrail_breached (Some GO_GT) (Some threshold) v = (v > threshold)"
| "guardrail_breached (Some GO_LTE) (Some threshold) v = (v \<le> threshold)"
| "guardrail_breached (Some GO_GTE) (Some threshold) v = (v \<ge> threshold)"
| "guardrail_breached _ _ _ = False"

subsection \<open>Proposals and candidates\<close>

text \<open>The optional external improvement policy raises or accepts a raw target.\<close>

type_synonym improvement_policy = "(string \<Rightarrow> unit result) option"

definition forbid_disallowed_target :: "improvement_policy \<Rightarrow> string \<Rightarrow> ImprovementTarget result" where
  "forbid_disallowed_target policy raw_target =
     thenE (require_improvement_target_allowed raw_target)
    (thenE (case policy of None \<Rightarrow> Inr () | Some assert_target_allowed \<Rightarrow> assert_target_allowed raw_target)
       (ImprovementTarget_of raw_target))"

definition propose_improvement ::
  "improvement_policy \<Rightarrow> ambient \<Rightarrow> IdentityContext \<Rightarrow> ProposeImprovement \<Rightarrow> evolution_store
     \<Rightarrow> ImprovementProposal result \<times> evolution_store" where
  "propose_improvement policy amb identity command s =
     andThen (forbid_disallowed_target policy (pi_target command), s) (\<lambda>target s.
     andThen (ImprovementProposal_post_init \<lparr>prop_tenant_id = ic_tenant_id identity, prop_target = target,
         prop_target_version_id = pi_target_version_id command, prop_evidence_refs = pi_evidence_refs command,
         prop_diagnosis = pi_diagnosis command, prop_proposed_change = pi_proposed_change command,
         prop_validation_suite_id = pi_validation_suite_id command, prop_rollback_plan = pi_rollback_plan command,
         prop_proposer_id = str_uuid (ic_principal_id identity), proposal_id = amb_ids amb 0\<rparr>, s) (\<lambda>proposal s.
     (Inr proposal, add_proposal proposal s)))"

definition register_candidate ::
  "improvement_policy \<Rightarrow> ambient \<Rightarrow> IdentityContext \<Rightarrow> RegisterCandidate \<Rightarrow> evolution_store
     \<Rightarrow> CandidateVersion result \<times> evolution_store" where
  "register_candidate policy amb identity command s =
     andThen (get_proposal s (ic_tenant_id identity) (rc_proposal_id command), s) (\<lambda>proposal s.
     andThen (forbid_disallowed_target policy (ImprovementTarget_value (prop_target proposal)), s) (\<lambda>_ s.
     if rc_suite_id command \<noteq> prop_validation_suite_id proposal then
       (Inl (ValueError (''candidate must be graded against the proposal's fixed validation suite: ''
          @ rc_suite_id command @ '' != '' @ prop_validation_suite_id proposal)), s)
     else
     andThen (CandidateVersion_post_init \<lparr>cand_tenant_id = ic_tenant_id identity, cand_proposal_id = rc_proposal_id command,
         cand_baseline_version_id = rc_baseline_version_id command, cand_artifact_ref = rc_artifact_ref command,
         cand_artifact_digest = rc_artifact_digest command, cand_suite_id = rc_suite_id command,
         cand_suite_version = rc_suite_version command, cand_generator_id = str_uuid (ic_principal_id identity),
         candidate_id = amb_ids amb 0, cand_status = CS_DRAFT, cand_optimistic_version = 1, cand_transitions = [],
         cand_grader_principal_id = None, cand_approver_principal_id = None, cand_approval_reason = None\<rparr>, s) (\<lambda>candidate s.
     (Inr candidate, add_candidate candidate s))))"

definition submit_for_evaluation ::
  "ambient \<Rightarrow> uuid \<Rightarrow> uuid \<Rightarrow> evolution_store \<Rightarrow> CandidateVersion result \<times> evolution_store" where
  "submit_for_evaluation amb tenant_id candidate s =
     andThen (get_candidate s tenant_id candidate, s) (\<lambda>cand s.
     andThen (CandidateVersion_transition_to cand CS_EVALUATING SYSTEM_ACTOR_ID ''system transition'' (Aware (amb_now amb)), s)
       (\<lambda>cand s. (Inr cand, save_candidate cand s)))"

definition trial_of_candidate :: "CandidateVersion \<Rightarrow> uuid \<Rightarrow> Trial \<Rightarrow> unit result" where
  "trial_of_candidate cand candidate trial =
     thenE (raise_if (trial_subject_version_id trial \<noteq> candidate)
        (ValueError (''candidate evaluation trials must execute the candidate itself: trial '' @ str_uuid (trial_id trial)
           @ '' executed '' @ str_uuid (trial_subject_version_id trial))))
       (raise_if ((trial_suite_id trial, trial_suite_version trial) \<noteq> (cand_suite_id cand, cand_suite_version cand))
        (ValueError (''candidate evaluation trials must use the candidate's fixed suite: trial '' @ str_uuid (trial_id trial)
           @ '' used '' @ trial_suite_id trial @ ''@'' @ trial_suite_version trial)))"

definition complete_evaluation ::
  "numerics \<Rightarrow> ambient \<Rightarrow> IdentityContext \<Rightarrow> uuid \<Rightarrow> RepeatedTrialPolicy \<Rightarrow> evolution_store
     \<Rightarrow> (CandidateVersion \<times> CandidateEvaluation) result \<times> evolution_store" where
  "complete_evaluation num amb identity candidate policy s =
     andThen (get_candidate s (ic_tenant_id identity) candidate, s) (\<lambda>cand s.
     let sample = list_trials_for_candidate s (ic_tenant_id identity) candidate in
     andThen (forE (trial_of_candidate cand candidate) sample, s) (\<lambda>_ s.
     andThen (assess num policy sample, s) (\<lambda>assessment s.
     andThen (CandidateEvaluation_post_init \<lparr>ce_tenant_id = ic_tenant_id identity, ce_candidate_id = candidate,
         ce_decision = ConfidenceDecision_value (tca_decision assessment), ce_trial_ids = map trial_id sample,
         ce_assessment = assessment_payload assessment, ce_grader_principal_id = str_uuid (ic_principal_id identity),
         evaluation_id = amb_ids amb 0, ce_decided_at = None\<rparr>, s) (\<lambda>record s.
     let s = add_evaluation_record record s in
     andThen (if tca_met assessment then Inr CS_AWAITING_APPROVAL
        else if tca_decision assessment = CD_NOT_MET then Inr CS_REJECTED
        else Inl (ValueError (''candidate evaluation evidence is incomplete: '' @ tca_rationale assessment)), s) (\<lambda>target s.
     andThen (record_evaluation cand target (ic_principal_id identity) (Aware (amb_now amb)), s) (\<lambda>cand s.
     (Inr (cand, record), save_candidate cand s)))))))"

definition decide ::
  "ambient \<Rightarrow> IdentityContext \<Rightarrow> uuid \<Rightarrow> bool \<Rightarrow> string \<Rightarrow> evolution_store \<Rightarrow> CandidateVersion result \<times> evolution_store" where
  "decide amb identity candidate approved reason s =
     andThen (get_candidate s (ic_tenant_id identity) candidate, s) (\<lambda>cand s.
     andThen (record_approval cand (if approved then CS_APPROVED else CS_REJECTED) (ic_principal_id identity) reason
         (Aware (amb_now amb)), s) (\<lambda>cand s.
     (Inr cand, save_candidate cand s)))"

subsection \<open>Deployments\<close>

text \<open>The guard that \<open>begin_shadow\<close> and \<open>promote_to_canary\<close> repeat.\<close>

definition require_independent :: "IdentityContext \<Rightarrow> CandidateVersion \<Rightarrow> unit result" where
  "require_independent identity cand =
     raise_if (Some (str_uuid (ic_principal_id identity)) \<in>
         {Some (cand_generator_id cand), cand_grader_principal_id cand, cand_approver_principal_id cand})
       (PermissionError ''release execution requires an independent principal'')"

definition begin_shadow :: "ambient \<Rightarrow> IdentityContext \<Rightarrow> uuid \<Rightarrow> evolution_store \<Rightarrow> Deployment result \<times> evolution_store" where
  "begin_shadow amb identity candidate s =
     andThen (get_candidate s (ic_tenant_id identity) candidate, s) (\<lambda>cand s.
     andThen (require_independent identity cand, s) (\<lambda>_ s.
     andThen (begin_deployment cand (ic_actor_id identity) ''approved candidate entered shadow'' (amb_ids amb 0)
         (Aware (amb_now amb)), s) (\<lambda>deployment s.
     (Inr deployment, add_deployment deployment s))))"

definition record_observation ::
  "ambient \<Rightarrow> uuid \<Rightarrow> IdentityContext \<Rightarrow> RecordObservation \<Rightarrow> evolution_store
     \<Rightarrow> DeploymentObservation result \<times> evolution_store" where
  "record_observation amb new_id identity command s =
     andThen (get_deployment s (ic_tenant_id identity) (ro_deployment_id command), s) (\<lambda>deployment s.
     if dep_status deployment \<noteq> ro_stage command then
       (Inl (ValueError (''observation stage '' @ DeploymentStatus_value (ro_stage command)
          @ '' does not match deployment status '' @ DeploymentStatus_value (dep_status deployment))), s)
     else
     let now = Aware (amb_now amb);
       breached = (if ro_operator command \<noteq> None
         then guardrail_breached (ro_operator command) (ro_threshold command) (ro_value command) else False) in
     andThen (case get_observation s (ic_tenant_id identity) (ro_deployment_id command) (ro_stage command) (ro_metric command) of
         None \<Rightarrow> DeploymentObservation_post_init \<lparr>obsv_tenant_id = ic_tenant_id identity,
           obsv_deployment_id = ro_deployment_id command, obsv_stage = ro_stage command, obsv_metric = ro_metric command,
           obsv_sample_count = 1, obsv_breach_count = (if breached then 1 else 0), obsv_last_value = Some (ro_value command),
           obsv_first_sample_at = Some now, obsv_last_sample_at = Some now, observation_id = new_id,
           obsv_optimistic_version = 1\<rparr>
       | Some existing \<Rightarrow> DeploymentObservation_post_init (existing\<lparr>obsv_sample_count := obsv_sample_count existing + 1,
           obsv_breach_count := (if breached then obsv_breach_count existing + 1 else 0),
           obsv_last_value := Some (ro_value command), obsv_last_sample_at := Some now\<rparr>), s) (\<lambda>observation s.
     (Inr observation, save_observation observation s)))"

text \<open>\<open>execute_shadow_subject\<close>: tenant, deployment, version, request, input, external effects enabled.\<close>

type_synonym shadow_runtime =
  "uuid \<Rightarrow> uuid \<Rightarrow> uuid \<Rightarrow> string \<Rightarrow> (string \<times> json) list \<Rightarrow> bool \<Rightarrow> ShadowMeasurements result"

definition shadow_metrics :: "numerics \<Rightarrow> ShadowMeasurements \<Rightarrow> ShadowMeasurements \<Rightarrow> (string \<times> rat) list" where
  "shadow_metrics num stable_result candidate_result =
    [(''outcome_score_delta'', fl_sub num (sm_outcome_score candidate_result) (sm_outcome_score stable_result)),
     (''cost_microunits_delta'', fl_of_int num (sm_cost_microunits candidate_result - sm_cost_microunits stable_result)),
     (''latency_ms_delta'', fl_sub num (sm_latency_ms candidate_result) (sm_latency_ms stable_result)),
     (''security_violations'', fl_of_int num (sm_security_violations candidate_result)),
     (''human_corrections_delta'', fl_of_int num (sm_human_corrections candidate_result - sm_human_corrections stable_result))]"

text \<open>The loop over the metrics; the observation of the \<open>n\<close>-th metric gets the identifier \<open>n\<close>.\<close>

fun record_shadow_metrics ::
  "ambient \<Rightarrow> nat \<Rightarrow> IdentityContext \<Rightarrow> uuid \<Rightarrow> (string \<times> rat) list \<Rightarrow> evolution_store \<Rightarrow> unit result \<times> evolution_store" where
  "record_shadow_metrics amb n identity deployment [] s = (Inr (), s)"
| "record_shadow_metrics amb n identity deployment ((metric, v) # metrics) s =
     andThen (record_observation amb (amb_ids amb n) identity \<lparr>ro_deployment_id = deployment, ro_stage = DS_SHADOW,
         ro_metric = metric, ro_value = v, ro_operator = None, ro_threshold = None\<rparr> s) (\<lambda>_ s.
     record_shadow_metrics amb (Suc n) identity deployment metrics s)"

text \<open>
  The two executions of \<open>asyncio.gather\<close> run concurrently: when both raise, the exception of the first to fail
  is raised, here the one of the stable version.
\<close>

definition execute_shadow_pair ::
  "numerics \<Rightarrow> shadow_runtime \<Rightarrow> ambient \<Rightarrow> IdentityContext \<Rightarrow> ExecuteShadowPair \<Rightarrow> evolution_store
     \<Rightarrow> ShadowComparison result \<times> evolution_store" where
  "execute_shadow_pair num runtime amb identity command s =
     andThen (get_deployment s (ic_tenant_id identity) (sp_deployment_id command), s) (\<lambda>deployment s.
     if dep_status deployment \<noteq> DS_SHADOW then
       (Inl (ValueError ''shadow pair execution requires a shadow deployment''), s)
     else
     andThen (get_candidate s (ic_tenant_id identity) (dep_candidate_id deployment), s) (\<lambda>cand s.
     andThen (runtime (ic_tenant_id identity) (deployment_id deployment) (cand_baseline_version_id cand)
         (sp_request_ref command) (sp_input_payload command) True, s) (\<lambda>stable_result s.
     andThen (runtime (ic_tenant_id identity) (deployment_id deployment) (candidate_id cand)
         (sp_request_ref command) (sp_input_payload command) False, s) (\<lambda>candidate_result s.
     andThen (ShadowComparison_post_init \<lparr>shc_tenant_id = ic_tenant_id identity, shc_deployment_id = deployment_id deployment,
         shc_request_ref = sp_request_ref command, shc_stable_version_id = cand_baseline_version_id cand,
         shc_candidate_version_id = candidate_id cand, shc_stable = stable_result, shc_candidate = candidate_result,
         shc_observed_at = Aware (amb_now amb), comparison_id = amb_ids amb 0\<rparr>, s) (\<lambda>comparison s.
     andThen (record_shadow_metrics amb 1 identity (deployment_id deployment)
         (shadow_metrics num stable_result candidate_result) (add_shadow_comparison comparison s)) (\<lambda>_ s.
     (Inr comparison, s)))))))"

definition promote_to_canary ::
  "ambient \<Rightarrow> IdentityContext \<Rightarrow> uuid \<Rightarrow> TrafficAllocation \<Rightarrow> evolution_store \<Rightarrow> Deployment result \<times> evolution_store" where
  "promote_to_canary amb identity key allocation s =
     andThen (get_deployment s (ic_tenant_id identity) key, s) (\<lambda>deployment s.
     andThen (get_candidate s (ic_tenant_id identity) (dep_candidate_id deployment), s) (\<lambda>cand s.
     andThen (require_independent identity cand, s) (\<lambda>_ s.
     andThen (enter_canary deployment allocation (ic_actor_id identity) (''canary entered with ''
         @ str_int (ta_candidate_percent allocation) @ ''% deterministic candidate traffic'') (Aware (amb_now amb)), s)
       (\<lambda>deployment s. (Inr deployment, save_deployment deployment s)))))"

definition resolve_request_route ::
  "IdentityContext \<Rightarrow> uuid \<Rightarrow> uuid \<Rightarrow> evolution_store \<Rightarrow> (TrafficRoute \<times> TrafficAllocation) result" where
  "resolve_request_route identity key request_id s =
     bindE (get_deployment s (ic_tenant_id identity) key) (\<lambda>deployment.
     bindE (assign_request deployment (str_uuid request_id)) (\<lambda>route.
     case dep_traffic_allocation deployment of
       None \<Rightarrow> Inl (ValueError ''canary deployment carries no traffic allocation rule'')
     | Some allocation \<Rightarrow> Inr (route, allocation)))"

subsection \<open>Releases and rollbacks\<close>

definition metric_gate :: "evolution_store \<Rightarrow> Deployment \<Rightarrow> PromotionPolicy \<Rightarrow> string \<Rightarrow> unit result" where
  "metric_gate s deployment policy metric =
     (let obs = get_observation s (dep_tenant_id deployment) (deployment_id deployment) DS_CANARY metric;
        count = (case obs of None \<Rightarrow> 0 | Some x \<Rightarrow> obsv_sample_count x) in
      if (case obs of None \<Rightarrow> True | Some x \<Rightarrow> obsv_sample_count x < pp_min_samples policy) then
        Inl (ValueError (''missing evidence for required metric '' @ repr_str metric @ '': '' @ str_int count @ '' < ''
           @ str_int (pp_min_samples policy) @ '' samples''))
      else raise_if ((case obs of None \<Rightarrow> True | Some x \<Rightarrow> obsv_last_value x = None))
        (ValueError (''missing evidence for required metric '' @ repr_str metric @ '': no sample value'')))"

text \<open>
  The elapsed time is compared exactly; the rounding of \<open>total_seconds()\<close> is smaller than a microsecond for the
  windows a policy can mean (below two centuries).
\<close>

definition assert_promotion_gate :: "numerics \<Rightarrow> ambient \<Rightarrow> evolution_store \<Rightarrow> Deployment \<Rightarrow> PromotionPolicy \<Rightarrow> unit result" where
  "assert_promotion_gate num amb s deployment policy =
     (case entered_at deployment DS_CANARY of
        None \<Rightarrow> Inl (ValueError ''canary observation window has not started'')
      | Some entered \<Rightarrow> let elapsed = amb_now amb - instant entered in
          thenE (raise_if (elapsed < seconds (pp_observation_seconds policy))
             (ValueError (''canary observation window not elapsed: '' @ num_fixed1 num (int_div num elapsed 1000000)
                @ ''s < '' @ str_int (pp_observation_seconds policy) @ ''s'')))
            (forE (metric_gate s deployment policy) (pp_required_metrics policy)))"

definition release_stable ::
  "numerics \<Rightarrow> ambient \<Rightarrow> IdentityContext \<Rightarrow> uuid \<Rightarrow> uuid \<Rightarrow> PromotionPolicy option \<Rightarrow> evolution_store
     \<Rightarrow> Release result \<times> evolution_store" where
  "release_stable num amb identity key stable_version_id policy s =
     andThen (get_deployment s (ic_tenant_id identity) key, s) (\<lambda>deployment s.
     if dep_status deployment \<noteq> DS_CANARY then
       (Inl (ValueError ''only a canary deployment can promote to stable''), s)
     else
     andThen (assert_promotion_gate num amb s deployment
         (case policy of None \<Rightarrow> default_PromotionPolicy | Some p \<Rightarrow> p), s) (\<lambda>_ s.
     andThen (get_candidate s (ic_tenant_id identity) (dep_candidate_id deployment), s) (\<lambda>cand s.
     andThen (Deployment_transition_to deployment DS_STABLE (ic_actor_id identity) ''canary gate passed''
         (Aware (amb_now amb)), s) (\<lambda>deployment s.
     andThen (from_stable_deployment deployment stable_version_id (cand_baseline_version_id cand) (ic_actor_id identity)
         (amb_ids amb 0), s) (\<lambda>release s.
     (Inr release, add_release release (save_deployment deployment s)))))))"

definition rollback_deployment ::
  "ambient \<Rightarrow> IdentityContext \<Rightarrow> uuid \<Rightarrow> string \<Rightarrow> evolution_store \<Rightarrow> Deployment result \<times> evolution_store" where
  "rollback_deployment amb identity key reason s =
     (if blank reason then (Inl (ValueError ''rollback requires a recorded reason''), s)
      else
      andThen (get_deployment s (ic_tenant_id identity) key, s) (\<lambda>deployment s.
      andThen (Deployment_transition_to deployment DS_ROLLED_BACK (ic_actor_id identity) (strip reason)
          (Aware (amb_now amb)), s) (\<lambda>deployment s.
      (Inr deployment, save_deployment deployment s))))"

definition rollback_if_breached ::
  "ambient \<Rightarrow> IdentityContext \<Rightarrow> uuid \<Rightarrow> DeploymentStatus \<Rightarrow> string \<Rightarrow> int \<Rightarrow> evolution_store
     \<Rightarrow> Deployment option result \<times> evolution_store" where
  "rollback_if_breached amb identity key stage metric min_consecutive s =
     (case get_observation s (ic_tenant_id identity) key stage metric of
        None \<Rightarrow> (Inr None, s)
      | Some observation \<Rightarrow>
          if obsv_breach_count observation < min_consecutive then (Inr None, s)
          else andThen (rollback_deployment amb identity key (''guardrail breach: '' @ metric @ '' breached ''
              @ str_int (obsv_breach_count observation) @ '' consecutive samples'') s) (\<lambda>deployment s.
            (Inr (Some deployment), s)))"

definition rollback :: "ambient \<Rightarrow> IdentityContext \<Rightarrow> uuid \<Rightarrow> evolution_store \<Rightarrow> Release result \<times> evolution_store" where
  "rollback amb identity key s =
     andThen (get_active_release s (ic_tenant_id identity) key, s) (\<lambda>release s.
     andThen (get_deployment s (ic_tenant_id identity) (rel_deployment_id release), s) (\<lambda>deployment s.
     andThen (Deployment_transition_to deployment DS_ROLLED_BACK (ic_actor_id identity) ''release rollback requested''
         (Aware (amb_now amb)), s) (\<lambda>deployment s.
     let rollback_release = \<lparr>rel_tenant_id = ic_tenant_id identity, rel_candidate_id = rel_candidate_id release,
         rel_deployment_id = rel_deployment_id release, rel_stable_version_id = rel_previous_stable_version_id release,
         rel_previous_stable_version_id = rel_stable_version_id release, rel_approved_by = ic_actor_id identity,
         release_id = amb_ids amb 0\<rparr> in
     (Inr rollback_release, add_release rollback_release (save_deployment deployment s)))))"

end
