(* ===== verification/Evolution_Invariant.thy ===== *)
theory Evolution_Invariant
  imports Evolution Invariants
begin

text \<open>
  The effects of the use cases of the evolution service and the invariant they keep over any sequence: who graded and
  approved a candidate and on which trials, which candidate a deployment carries, which deployment a release comes from.
\<close>

section \<open>Effects of the use cases\<close>

lemma andThen_simps [simp]:
  "andThen (Inl e, s) k = (Inl e, s)" "andThen (Inr x, s) k = k x s"
  by (simp_all add: andThen_def)

lemma andThen_pure: "andThen (r, s) k = (q, t) \<longleftrightarrow> (\<exists>e. r = Inl e \<and> q = Inl e \<and> t = s) \<or> (\<exists>x. r = Inr x \<and> k x s = (q, t))"
  by (cases r) auto

lemmas evo_lookups = get_candidate_def get_deployment_def get_active_release_def lookup_record_Inr

text \<open>Each use case leaves the store alone or makes the one change it is for.\<close>

lemma register_candidate_effect:
  assumes "register_candidate policy amb identity command s = (r, s')"
  shows "s' = s \<or> (\<exists>c. s' = add_candidate c s \<and> candidate_id c = amb_ids amb 0 \<and> cand_status c = CS_DRAFT)"
  using assms
  by (auto simp: register_candidate_def andThen_pure CandidateVersion_post_init_def result_simps split: if_splits)

lemma submit_effect:
  assumes "submit_for_evaluation amb t k s = (r, s')"
  shows "s' = s \<or> (\<exists>c c'. map_of (candidates s) k = Some c \<and> s' = save_candidate c' s
     \<and> CandidateVersion_transition_to c CS_EVALUATING SYSTEM_ACTOR_ID ''system transition'' (Aware (amb_now amb)) = Inr c')"
  using assms by (auto simp: submit_for_evaluation_def andThen_pure evo_lookups)

lemma decide_effect:
  assumes "decide amb identity k approved reason s = (r, s')"
  shows "s' = s \<or> (\<exists>c c'. map_of (candidates s) k = Some c \<and> s' = save_candidate c' s
     \<and> record_approval c (if approved then CS_APPROVED else CS_REJECTED) (ic_principal_id identity) reason (Aware (amb_now amb))
         = Inr c')"
  using assms by (auto simp: decide_def andThen_pure evo_lookups)

text \<open>The record an evaluation writes: the decision of the gate on the persisted trials of the candidate.\<close>

definition evaluation_of :: "numerics \<Rightarrow> evolution_store \<Rightarrow> CandidateVersion \<Rightarrow> CandidateEvaluation \<Rightarrow> bool" where
  "evaluation_of num s c e = (ce_tenant_id e = cand_tenant_id c \<and> ce_candidate_id e = candidate_id c \<and>
     (\<exists>policy sample a. set sample \<subseteq> set (list_trials_for_candidate s (cand_tenant_id c) (candidate_id c))
        \<and> ce_trial_ids e = map trial_id sample \<and> sample \<noteq> []
        \<and> (\<forall>t\<in>set sample. trial_subject_version_id t = candidate_id c \<and> trial_suite_id t = cand_suite_id c
             \<and> trial_suite_version t = cand_suite_version c)
        \<and> assess num policy sample = Inr a \<and> ce_decision e = ConfidenceDecision_value (tca_decision a)
        \<and> ce_assessment e = assessment_payload a))"

lemma complete_evaluation_effect:
  assumes "complete_evaluation num amb identity k policy s = (r, s')" and "keyed candidate_id (candidates s)"
  shows "s' = s \<or> (\<exists>c e. map_of (candidates s) k = Some c \<and> evaluation_of num s c e \<and> evaluation_id e = amb_ids amb 0
     \<and> (s' = add_evaluation_record e s \<or> (\<exists>c' target. s' = save_candidate c' (add_evaluation_record e s)
          \<and> record_evaluation c target (ic_principal_id identity) (Aware (amb_now amb)) = Inr c'
          \<and> ce_grader_principal_id e = str_uuid (ic_principal_id identity)
          \<and> (target = CS_AWAITING_APPROVAL \<and> ce_decision e = ''met'' \<or> target = CS_REJECTED))))"
proof (cases "get_candidate s (ic_tenant_id identity) k")
  case (Inl e)
  with assms(1) show ?thesis by (auto simp: complete_evaluation_def)
next
  case (Inr c)
  then have c: "map_of (candidates s) k = Some c" "cand_tenant_id c = ic_tenant_id identity" by (auto simp: evo_lookups)
  with assms(2) have k: "candidate_id c = k" by (auto dest: keyed_lookup)
  let ?sample = "list_trials_for_candidate s (ic_tenant_id identity) k"
  show ?thesis
  proof (cases "s' = s")
    case False
    with assms(1) Inr obtain a e where a: "forE (trial_of_candidate c k) ?sample = Inr ()" "assess num policy ?sample = Inr a"
        and e: "e = \<lparr>ce_tenant_id = ic_tenant_id identity, ce_candidate_id = k,
          ce_decision = ConfidenceDecision_value (tca_decision a), ce_trial_ids = map trial_id ?sample,
          ce_assessment = assessment_payload a, ce_grader_principal_id = str_uuid (ic_principal_id identity),
          evaluation_id = amb_ids amb 0, ce_decided_at = None\<rparr>" "?sample \<noteq> []"
        and rest: "andThen (if tca_met a then Inr CS_AWAITING_APPROVAL else if tca_decision a = CD_NOT_MET then Inr CS_REJECTED
           else Inl (ValueError (''candidate evaluation evidence is incomplete: '' @ tca_rationale a)), add_evaluation_record e s)
          (\<lambda>target s. andThen (record_evaluation c target (ic_principal_id identity) (Aware (amb_now amb)), s)
            (\<lambda>cand s. (Inr (cand, e), save_candidate cand s))) = (r, s')"
      by (auto simp: complete_evaluation_def andThen_pure Let_def CandidateEvaluation_post_init_def result_simps)
    have trial: "trial_of_candidate c k t = Inr () \<longleftrightarrow> trial_subject_version_id t = k \<and> trial_suite_id t = cand_suite_id c
        \<and> trial_suite_version t = cand_suite_version c" for t
      by (auto simp: trial_of_candidate_def result_simps)
    have "evaluation_of num s c e"
      using a e k c(2) trial unfolding evaluation_of_def by (auto simp: result_simps intro!: exI [of _ policy] exI [of _ ?sample])
    moreover have "s' = add_evaluation_record e s \<or> (\<exists>c' target. s' = save_candidate c' (add_evaluation_record e s)
        \<and> record_evaluation c target (ic_principal_id identity) (Aware (amb_now amb)) = Inr c'
        \<and> (target = CS_AWAITING_APPROVAL \<and> ce_decision e = ''met'' \<or> target = CS_REJECTED))"
      using rest e by (auto simp: andThen_pure tca_met_def split: if_splits)
    ultimately show ?thesis using c(1) e by (intro disjI2 exI [of _ c] exI [of _ e]) auto
  qed simp
qed

lemma begin_shadow_effect:
  assumes "begin_shadow amb identity k s = (r, s')"
  shows "s' = s \<or> (\<exists>c d. map_of (candidates s) k = Some c \<and> s' = add_deployment d s \<and> require_independent identity c = Inr ()
     \<and> begin_deployment c (ic_actor_id identity) ''approved candidate entered shadow'' (amb_ids amb 0) (Aware (amb_now amb)) = Inr d)"
  using assms by (auto simp: begin_shadow_def andThen_pure evo_lookups)

lemma promote_effect:
  assumes "promote_to_canary amb identity k a s = (r, s')"
  shows "s' = s \<or> (\<exists>d d' reason. map_of (deployments s) k = Some d \<and> s' = save_deployment d' s
     \<and> enter_canary d a (ic_actor_id identity) reason (Aware (amb_now amb)) = Inr d')"
  using assms by (auto simp: promote_to_canary_def andThen_pure evo_lookups)

lemma rollback_deployment_effect:
  assumes "rollback_deployment amb identity k reason s = (r, s')"
  shows "s' = s \<or> (\<exists>d d'. map_of (deployments s) k = Some d \<and> s' = save_deployment d' s
     \<and> Deployment_transition_to d DS_ROLLED_BACK (ic_actor_id identity) (strip reason) (Aware (amb_now amb)) = Inr d')"
  using assms by (auto simp: rollback_deployment_def andThen_pure evo_lookups split: if_splits)

lemma rollback_if_breached_effect:
  assumes "rollback_if_breached amb identity k stage metric n s = (r, s')"
  shows "s' = s \<or> (\<exists>d d' reason. map_of (deployments s) k = Some d \<and> s' = save_deployment d' s
     \<and> Deployment_transition_to d DS_ROLLED_BACK (ic_actor_id identity) reason (Aware (amb_now amb)) = Inr d')"
proof (cases "s' = s")
  case False
  with assms obtain x reason where "andThen (rollback_deployment amb identity k reason s) (\<lambda>d s. (Inr (Some d), s)) = (r, s')"
    by (auto simp: rollback_if_breached_def split: option.splits if_splits)
  then have "rollback_deployment amb identity k reason s = (fst (rollback_deployment amb identity k reason s), s')"
    by (cases "rollback_deployment amb identity k reason s") (auto simp: andThen_pure)
  from rollback_deployment_effect [OF this] False show ?thesis by blast
qed simp

lemma release_stable_Inl: "release_stable num amb identity k v policy s = (Inl e, s') \<Longrightarrow> s' = s"
  by (auto simp: release_stable_def andThen_pure split: if_splits)

lemma release_stable_Inr:
  assumes "release_stable num amb identity k v policy s = (Inr rel, s')"
  shows "\<exists>d c d'. map_of (deployments s) k = Some d \<and> dep_tenant_id d = ic_tenant_id identity \<and> dep_status d = DS_CANARY
     \<and> assert_promotion_gate num amb s d (case policy of None \<Rightarrow> default_PromotionPolicy | Some p \<Rightarrow> p) = Inr ()
     \<and> map_of (candidates s) (dep_candidate_id d) = Some c
     \<and> Deployment_transition_to d DS_STABLE (ic_actor_id identity) ''canary gate passed'' (Aware (amb_now amb)) = Inr d'
     \<and> s' = add_release rel (save_deployment d' s)
     \<and> rel = \<lparr>rel_tenant_id = dep_tenant_id d, rel_candidate_id = dep_candidate_id d, rel_deployment_id = deployment_id d,
         rel_stable_version_id = v, rel_previous_stable_version_id = cand_baseline_version_id c,
         rel_approved_by = ic_actor_id identity, release_id = amb_ids amb 0\<rparr>"
proof -
  have frame: "dep_tenant_id d' = dep_tenant_id d \<and> dep_candidate_id d' = dep_candidate_id d \<and> deployment_id d' = deployment_id d"
    if "Deployment_transition_to d DS_STABLE a reason now = Inr d'" for d d' a reason now
    using Deployment_transition_to_Inr [OF that] by simp
  from assms show ?thesis
    by (auto simp: release_stable_def andThen_pure evo_lookups from_stable_deployment_def result_simps frame split: if_splits)
qed

lemma release_stable_effect:
  assumes "release_stable num amb identity k v policy s = (r, s')"
  shows "s' = s \<or> (\<exists>d d' rel. map_of (deployments s) k = Some d \<and> s' = add_release rel (save_deployment d' s)
     \<and> dep_status d = DS_CANARY
     \<and> Deployment_transition_to d DS_STABLE (ic_actor_id identity) ''canary gate passed'' (Aware (amb_now amb)) = Inr d'
     \<and> rel_tenant_id rel = dep_tenant_id d \<and> rel_candidate_id rel = dep_candidate_id d \<and> rel_deployment_id rel = deployment_id d
     \<and> release_id rel = amb_ids amb 0)"
proof (cases r)
  case (Inl e)
  with assms release_stable_Inl show ?thesis by blast
next
  case (Inr rel)
  from release_stable_Inr [OF assms [unfolded Inr]] obtain d c d' where "map_of (deployments s) k = Some d"
      "dep_status d = DS_CANARY" "s' = add_release rel (save_deployment d' s)"
      "Deployment_transition_to d DS_STABLE (ic_actor_id identity) ''canary gate passed'' (Aware (amb_now amb)) = Inr d'"
      "rel_tenant_id rel = dep_tenant_id d" "rel_candidate_id rel = dep_candidate_id d" "rel_deployment_id rel = deployment_id d"
      "release_id rel = amb_ids amb 0"
    by auto
  then show ?thesis by blast
qed

lemma rollback_Inl: "rollback amb identity k s = (Inl e, s') \<Longrightarrow> s' = s"
  by (auto simp: rollback_def andThen_pure Let_def)

lemma rollback_Inr:
  assumes "rollback amb identity k s = (Inr rel', s')"
  shows "\<exists>rel d d'. map_of (releases s) k = Some rel \<and> rel_tenant_id rel = ic_tenant_id identity
     \<and> map_of (deployments s) (rel_deployment_id rel) = Some d \<and> dep_tenant_id d = ic_tenant_id identity
     \<and> Deployment_transition_to d DS_ROLLED_BACK (ic_actor_id identity) ''release rollback requested'' (Aware (amb_now amb)) = Inr d'
     \<and> s' = add_release rel' (save_deployment d' s)
     \<and> rel' = \<lparr>rel_tenant_id = rel_tenant_id rel, rel_candidate_id = rel_candidate_id rel,
         rel_deployment_id = rel_deployment_id rel, rel_stable_version_id = rel_previous_stable_version_id rel,
         rel_previous_stable_version_id = rel_stable_version_id rel, rel_approved_by = ic_actor_id identity,
         release_id = amb_ids amb 0\<rparr>"
  using assms by (auto simp: rollback_def andThen_pure evo_lookups Let_def)

lemma rollback_effect:
  assumes "rollback amb identity k s = (r, s')"
  shows "s' = s \<or> (\<exists>rel d d' rel'. map_of (releases s) k = Some rel \<and> map_of (deployments s) (rel_deployment_id rel) = Some d
     \<and> s' = add_release rel' (save_deployment d' s)
     \<and> Deployment_transition_to d DS_ROLLED_BACK (ic_actor_id identity) ''release rollback requested'' (Aware (amb_now amb)) = Inr d'
     \<and> rel_tenant_id rel' = rel_tenant_id rel \<and> rel_candidate_id rel' = rel_candidate_id rel
     \<and> rel_deployment_id rel' = rel_deployment_id rel \<and> release_id rel' = amb_ids amb 0)"
proof (cases r)
  case (Inl e)
  with assms rollback_Inl show ?thesis by blast
next
  case (Inr rel')
  from rollback_Inr [OF assms [unfolded Inr]] obtain rel d d' where "map_of (releases s) k = Some rel"
      "map_of (deployments s) (rel_deployment_id rel) = Some d" "s' = add_release rel' (save_deployment d' s)"
      "Deployment_transition_to d DS_ROLLED_BACK (ic_actor_id identity) ''release rollback requested'' (Aware (amb_now amb)) = Inr d'"
      "rel_tenant_id rel' = rel_tenant_id rel" "rel_candidate_id rel' = rel_candidate_id rel"
      "rel_deployment_id rel' = rel_deployment_id rel" "release_id rel' = amb_ids amb 0"
    by auto
  then show ?thesis by blast
qed

text \<open>The tables that carry the governance of a candidate; proposals, suites, observations and comparisons are not among them.\<close>

definition governed :: "evolution_store \<Rightarrow> (uuid \<times> CandidateVersion) list \<times> (uuid \<times> Deployment) list \<times> (uuid \<times> Release) list
    \<times> (uuid \<times> Trial) list \<times> (uuid \<times> CandidateEvaluation) list" where
  "governed s = (candidates s, deployments s, releases s, trials s, candidate_evaluations s)"

lemma record_observation_governed:
  "record_observation amb i identity command s = (r, s') \<Longrightarrow> governed s' = governed s"
  by (auto simp: record_observation_def andThen_pure Let_def save_observation_def governed_def split: if_splits option.splits)

lemma record_shadow_metrics_governed:
  "record_shadow_metrics amb n identity k metrics s = (r, s') \<Longrightarrow> governed s' = governed s"
proof (induction amb n identity k metrics s arbitrary: r s' rule: record_shadow_metrics.induct)
  case (2 amb n identity k metric v metrics s)
  obtain q t where q: "record_observation amb (amb_ids amb n) identity \<lparr>ro_deployment_id = k, ro_stage = DS_SHADOW,
      ro_metric = metric, ro_value = v, ro_operator = None, ro_threshold = None\<rparr> s = (q, t)" by fastforce
  from record_observation_governed [OF this] have t: "governed t = governed s" .
  show ?case
  proof (cases q)
    case (Inl e)
    with 2 q t show ?thesis by auto
  next
    case (Inr x)
    with 2 q t show ?thesis by auto
  qed
qed simp

lemma andThen_return: "andThen m (\<lambda>_. Pair q) = (r, t) \<Longrightarrow> t = snd m"
  by (cases m; cases "fst m") auto

lemma execute_shadow_pair_governed:
  assumes "execute_shadow_pair num runtime amb identity command s = (r, s')"
  shows "governed s' = governed s"
proof -
  have "governed (snd (record_shadow_metrics amb n identity k metrics (add_shadow_comparison c s))) = governed s" for n k metrics c
    using record_shadow_metrics_governed [OF prod.collapse [symmetric], of amb n identity k metrics "add_shadow_comparison c s"]
    by (simp add: governed_def add_shadow_comparison_def)
  with assms show ?thesis
    by (auto simp: execute_shadow_pair_def andThen_pure split: if_splits dest!: andThen_return)
qed

section \<open>Sequences of use cases\<close>

text \<open>
  The use cases with their arguments. \<open>E_TRIAL\<close> is \<open>add_trial\<close>, by which the evaluation harness persists a
  trial; the use cases that only read, or only write proposals, suites, observations and comparisons, are one step each.
\<close>

datatype evolution_command =
    E_PROPOSE ambient IdentityContext ProposeImprovement
  | E_REGISTER ambient IdentityContext RegisterCandidate
  | E_SUBMIT ambient uuid uuid
  | E_SUITE uuid EvaluationSuite
  | E_TRIAL Trial
  | E_EVALUATE ambient IdentityContext uuid RepeatedTrialPolicy
  | E_DECIDE ambient IdentityContext uuid bool string
  | E_SHADOW ambient IdentityContext uuid
  | E_PAIR shadow_runtime ambient IdentityContext ExecuteShadowPair
  | E_CANARY ambient IdentityContext uuid TrafficAllocation
  | E_OBSERVE ambient IdentityContext RecordObservation
  | E_RELEASE ambient IdentityContext uuid uuid "PromotionPolicy option"
  | E_GUARD ambient IdentityContext uuid DeploymentStatus string int
  | E_ROLLBACK_DEPLOYMENT ambient IdentityContext uuid string
  | E_ROLLBACK ambient IdentityContext uuid

fun evolve :: "numerics \<Rightarrow> improvement_policy \<Rightarrow> evolution_command \<Rightarrow> evolution_store \<Rightarrow> evolution_store" where
  "evolve num policy (E_PROPOSE amb i c) s = snd (propose_improvement policy amb i c s)"
| "evolve num policy (E_REGISTER amb i c) s = snd (register_candidate policy amb i c s)"
| "evolve num policy (E_SUBMIT amb t k) s = snd (submit_for_evaluation amb t k s)"
| "evolve num policy (E_SUITE t suite) s = add_suite t suite s"
| "evolve num policy (E_TRIAL trial) s = add_trial trial s"
| "evolve num policy (E_EVALUATE amb i k p) s = snd (complete_evaluation num amb i k p s)"
| "evolve num policy (E_DECIDE amb i k a reason) s = snd (decide amb i k a reason s)"
| "evolve num policy (E_SHADOW amb i k) s = snd (begin_shadow amb i k s)"
| "evolve num policy (E_PAIR runtime amb i c) s = snd (execute_shadow_pair num runtime amb i c s)"
| "evolve num policy (E_CANARY amb i k a) s = snd (promote_to_canary amb i k a s)"
| "evolve num policy (E_OBSERVE amb i c) s = snd (record_observation amb (amb_ids amb 0) i c s)"
| "evolve num policy (E_RELEASE amb i k v p) s = snd (release_stable num amb i k v p s)"
| "evolve num policy (E_GUARD amb i k stage metric n) s = snd (rollback_if_breached amb i k stage metric n s)"
| "evolve num policy (E_ROLLBACK_DEPLOYMENT amb i k reason) s = snd (rollback_deployment amb i k reason s)"
| "evolve num policy (E_ROLLBACK amb i k) s = snd (rollback amb i k s)"

text \<open>\<open>uuid4\<close> never returns an identifier that is in use.\<close>

definition unused :: "uuid \<Rightarrow> evolution_store \<Rightarrow> bool" where
  "unused i s = (i \<notin> dom (map_of (candidates s)) \<and> i \<notin> dom (map_of (deployments s)) \<and> i \<notin> dom (map_of (releases s))
     \<and> i \<notin> dom (map_of (trials s)) \<and> i \<notin> dom (map_of (candidate_evaluations s)))"

fun fresh_for :: "evolution_command \<Rightarrow> evolution_store \<Rightarrow> bool" where
  "fresh_for (E_REGISTER amb _ _) s = unused (amb_ids amb 0) s"
| "fresh_for (E_TRIAL trial) s = unused (trial_id trial) s"
| "fresh_for (E_EVALUATE amb _ _ _) s = unused (amb_ids amb 0) s"
| "fresh_for (E_SHADOW amb _ _) s = unused (amb_ids amb 0) s"
| "fresh_for (E_RELEASE amb _ _ _ _) s = unused (amb_ids amb 0) s"
| "fresh_for (E_ROLLBACK amb _ _) s = unused (amb_ids amb 0) s"
| "fresh_for _ s = True"

inductive evolved :: "numerics \<Rightarrow> improvement_policy \<Rightarrow> evolution_store \<Rightarrow> bool" for num policy where
  evolved_empty: "evolved num policy empty_evolution"
| evolved_step: "evolved num policy s \<Longrightarrow> fresh_for c s \<Longrightarrow> evolved num policy (evolve num policy c s)"

section \<open>The invariant\<close>

definition graded_by :: "numerics \<Rightarrow> evolution_store \<Rightarrow> CandidateVersion \<Rightarrow> string \<Rightarrow> bool" where
  "graded_by num s c g = (\<exists>e\<in>set (list_evaluation_records s (cand_tenant_id c) (candidate_id c)).
     ce_grader_principal_id e = g \<and> ce_decision e = ''met'' \<and> evaluation_of num s c e)"

definition candidate_ok :: "numerics \<Rightarrow> evolution_store \<Rightarrow> CandidateVersion \<Rightarrow> bool" where
  "candidate_ok num s c =
     ((cand_status c \<in> {CS_AWAITING_APPROVAL, CS_APPROVED} \<longrightarrow>
        (\<exists>g. cand_grader_principal_id c = Some g \<and> g \<noteq> cand_generator_id c \<and> graded_by num s c g))
      \<and> (cand_status c = CS_APPROVED \<longrightarrow> (\<exists>a. cand_approver_principal_id c = Some a \<and> a \<noteq> cand_generator_id c
          \<and> cand_approver_principal_id c \<noteq> cand_grader_principal_id c)))"

definition deployment_ok :: "evolution_store \<Rightarrow> Deployment \<Rightarrow> bool" where
  "deployment_ok s d =
     ((\<exists>c. map_of (candidates s) (dep_candidate_id d) = Some c \<and> cand_tenant_id c = dep_tenant_id d \<and> cand_status c = CS_APPROVED)
      \<and> linked ''approved'' (dep_transitions d) (DeploymentStatus_value (dep_status d))
      \<and> (dep_status d \<in> {DS_CANARY, DS_STABLE} \<longrightarrow> dep_traffic_allocation d \<noteq> None \<and> ''canary'' \<in> to_status ` set (dep_transitions d)))"

definition release_ok :: "evolution_store \<Rightarrow> Release \<Rightarrow> bool" where
  "release_ok s r = (\<exists>d. map_of (deployments s) (rel_deployment_id r) = Some d \<and> dep_tenant_id d = rel_tenant_id r
     \<and> dep_candidate_id d = rel_candidate_id r \<and> dep_status d \<in> {DS_STABLE, DS_ROLLED_BACK}
     \<and> {''canary'', ''stable''} \<subseteq> to_status ` set (dep_transitions d))"

definition evolution_keyed :: "evolution_store \<Rightarrow> bool" where
  "evolution_keyed s = (keyed candidate_id (candidates s) \<and> keyed deployment_id (deployments s)
     \<and> keyed release_id (releases s) \<and> keyed trial_id (trials s) \<and> keyed evaluation_id (candidate_evaluations s))"

definition evolution_ok :: "numerics \<Rightarrow> evolution_store \<Rightarrow> bool" where
  "evolution_ok num s = (evolution_keyed s
     \<and> (\<forall>k c. map_of (candidates s) k = Some c \<longrightarrow> candidate_ok num s c)
     \<and> (\<forall>k d. map_of (deployments s) k = Some d \<longrightarrow> deployment_ok s d)
     \<and> (\<forall>k r. map_of (releases s) k = Some r \<longrightarrow> release_ok s r))"

lemma evolution_ok_governed:
  assumes "governed s' = governed s" and "evolution_ok num s"
  shows "evolution_ok num s'"
  using assms
  by (simp add: governed_def evolution_ok_def evolution_keyed_def candidate_ok_def deployment_ok_def release_ok_def
      graded_by_def evaluation_of_def list_evaluation_records_def list_trials_for_candidate_def)

subsection \<open>Growing tables\<close>

lemma dict_values_fresh: "k \<notin> dom (map_of d) \<Longrightarrow> dict_values (AList.update k v d) = dict_values d @ [v]"
  by (induction d) (auto simp: dict_values_def split: if_splits)

lemma graded_by_mono:
  assumes "graded_by num s c g"
    and "set (dict_values (trials s)) \<subseteq> set (dict_values (trials s'))"
    and "set (dict_values (candidate_evaluations s)) \<subseteq> set (dict_values (candidate_evaluations s'))"
  shows "graded_by num s' c g"
proof -
  from assms(1) obtain e where e: "e \<in> set (list_evaluation_records s (cand_tenant_id c) (candidate_id c))"
      "ce_grader_principal_id e = g" "ce_decision e = ''met''" "evaluation_of num s c e" by (auto simp: graded_by_def)
  have "set (list_trials_for_candidate s t k) \<subseteq> set (list_trials_for_candidate s' t k)" for t k
    using assms(2) by (auto simp: list_trials_for_candidate_def)
  with e(4) have "evaluation_of num s' c e" unfolding evaluation_of_def by (meson order_trans)
  moreover have "e \<in> set (list_evaluation_records s' (cand_tenant_id c) (candidate_id c))"
    using e(1) assms(3) by (auto simp: list_evaluation_records_def)
  ultimately show ?thesis using e by (auto simp: graded_by_def)
qed

lemma candidate_ok_mono:
  assumes "candidate_ok num s c"
    and "set (dict_values (trials s)) \<subseteq> set (dict_values (trials s'))"
    and "set (dict_values (candidate_evaluations s)) \<subseteq> set (dict_values (candidate_evaluations s'))"
  shows "candidate_ok num s' c"
  using assms graded_by_mono [of num s c _ s'] by (fastforce simp: candidate_ok_def)

lemma trial_keeps:
  assumes "evolution_ok num s" and "unused (trial_id t) s"
  shows "evolution_ok num (add_trial t s)"
proof -
  have "candidate_ok num (add_trial t s) c" if "candidate_ok num s c" for c
    using candidate_ok_mono [OF that, of "add_trial t s"] assms(2) by (auto simp: add_trial_def unused_def dict_values_fresh)
  with assms(1) show ?thesis
    by (auto simp: evolution_ok_def evolution_keyed_def add_trial_def deployment_ok_def release_ok_def intro: keyed_update)
qed

lemma evaluation_keeps:
  assumes "evolution_ok num s" and "unused (evaluation_id e) s"
  shows "evolution_ok num (add_evaluation_record e s)"
proof -
  have "candidate_ok num (add_evaluation_record e s) c" if "candidate_ok num s c" for c
    using candidate_ok_mono [OF that, of "add_evaluation_record e s"] assms(2)
    by (auto simp: add_evaluation_record_def unused_def dict_values_fresh)
  with assms(1) show ?thesis
    by (auto simp: evolution_ok_def evolution_keyed_def add_evaluation_record_def deployment_ok_def release_ok_def intro: keyed_update)
qed

subsection \<open>Changing records\<close>

lemma evolution_ok_lookups:
  assumes "evolution_ok num s"
  shows "map_of (candidates s) k = Some c \<Longrightarrow> candidate_id c = k" "map_of (candidates s) k = Some c \<Longrightarrow> candidate_ok num s c"
    "map_of (deployments s) k = Some d \<Longrightarrow> deployment_id d = k" "map_of (deployments s) k = Some d \<Longrightarrow> deployment_ok s d"
    "map_of (releases s) k = Some r \<Longrightarrow> release_ok s r"
  using assms by (auto simp: evolution_ok_def evolution_keyed_def dest: keyed_lookup)

lemma candidate_ok_frame:
  "candidate_ok num (save_candidate c' s) c = candidate_ok num s c" "candidate_ok num (add_candidate c' s) c = candidate_ok num s c"
  "candidate_ok num (save_deployment d s) c = candidate_ok num s c" "candidate_ok num (add_deployment d s) c = candidate_ok num s c"
  "candidate_ok num (add_release r s) c = candidate_ok num s c"
  by (simp_all add: candidate_ok_def graded_by_def evaluation_of_def list_evaluation_records_def list_trials_for_candidate_def
      save_candidate_def add_candidate_def save_deployment_def add_deployment_def add_release_def)

lemma candidate_change:
  assumes "evolution_ok num s" and "map_of (candidates s) k = Some c" and "candidate_id c' = candidate_id c"
    and "cand_status c \<noteq> CS_APPROVED" and "candidate_ok num s c'"
  shows "evolution_ok num (save_candidate c' s)"
proof -
  from assms have k: "candidate_id c' = k" by (auto dest: evolution_ok_lookups)
  have "deployment_ok (save_candidate c' s) d" if "deployment_ok s d" for d
    using that assms(2,4) k by (auto simp: deployment_ok_def save_candidate_def)
  with assms k show ?thesis
    by (auto simp: evolution_ok_def evolution_keyed_def candidate_ok_frame release_ok_def intro: keyed_update)
      (auto simp: save_candidate_def release_ok_def keyed_update split: if_splits)
qed

lemma candidate_new:
  assumes "evolution_ok num s" and "unused (candidate_id c) s" and "cand_status c = CS_DRAFT"
  shows "evolution_ok num (add_candidate c s)"
proof -
  have "deployment_ok (add_candidate c s) d" if "deployment_ok s d" for d
    using that assms(2) by (auto simp: deployment_ok_def add_candidate_def unused_def)
  moreover have "candidate_ok num s c" using assms(3) by (simp add: candidate_ok_def)
  ultimately show ?thesis using assms
    by (auto simp: evolution_ok_def evolution_keyed_def candidate_ok_frame)
      (auto simp: add_candidate_def release_ok_def keyed_update split: if_splits)
qed

lemma deployment_new:
  assumes "evolution_ok num s" and "unused (deployment_id d) s" and "deployment_ok s d"
  shows "evolution_ok num (add_deployment d s)"
proof -
  have "release_ok (add_deployment d s) r" if "release_ok s r" for r
    using that assms(2) by (auto simp: release_ok_def add_deployment_def unused_def)
  with assms show ?thesis
    by (auto simp: evolution_ok_def evolution_keyed_def candidate_ok_frame)
      (auto simp: add_deployment_def deployment_ok_def keyed_update split: if_splits)
qed

lemma deployment_change:
  assumes "evolution_ok num s" and "map_of (deployments s) k = Some d" and "deployment_ok s d'"
    and "deployment_id d' = deployment_id d" "dep_tenant_id d' = dep_tenant_id d" "dep_candidate_id d' = dep_candidate_id d"
    and "set (dep_transitions d) \<subseteq> set (dep_transitions d')"
    and "dep_status d \<in> {DS_STABLE, DS_ROLLED_BACK} \<Longrightarrow> dep_status d' = DS_ROLLED_BACK"
  shows "evolution_ok num (save_deployment d' s)"
proof -
  from assms have k: "deployment_id d' = k" by (auto dest: evolution_ok_lookups)
  have "release_ok (save_deployment d' s) r" if "release_ok s r" for r
    using that assms(2,5-8) k unfolding release_ok_def save_deployment_def by (auto simp: image_iff)
  with assms k show ?thesis
    by (auto simp: evolution_ok_def evolution_keyed_def candidate_ok_frame)
      (auto simp: save_deployment_def deployment_ok_def keyed_update split: if_splits)
qed

lemma release_new:
  assumes "evolution_ok num s" and "release_ok s r"
  shows "evolution_ok num (add_release r s)"
  using assms
  by (auto simp: evolution_ok_def evolution_keyed_def candidate_ok_frame)
    (auto simp: add_release_def deployment_ok_def release_ok_def keyed_update split: if_splits)

lemma CANDIDATE_moves [simp]:
  "CS_EVALUATING \<in> set (allowed_targets CANDIDATE_TRANSITIONS x) \<longleftrightarrow> x = CS_DRAFT"
  "CS_AWAITING_APPROVAL \<in> set (allowed_targets CANDIDATE_TRANSITIONS x) \<longleftrightarrow> x = CS_EVALUATING"
  "CS_APPROVED \<in> set (allowed_targets CANDIDATE_TRANSITIONS x) \<longleftrightarrow> x = CS_AWAITING_APPROVAL"
  "CS_REJECTED \<in> set (allowed_targets CANDIDATE_TRANSITIONS x) \<longleftrightarrow> x \<in> {CS_DRAFT, CS_EVALUATING, CS_AWAITING_APPROVAL}"
  by (cases x; simp add: CANDIDATE_TRANSITIONS_def allowed_targets_def)+

lemma DEPLOYMENT_moves [simp]:
  "DS_CANARY \<in> set (allowed_targets DEPLOYMENT_TRANSITIONS x) \<longleftrightarrow> x = DS_SHADOW"
  "DS_STABLE \<in> set (allowed_targets DEPLOYMENT_TRANSITIONS x) \<longleftrightarrow> x = DS_CANARY"
  "DS_ROLLED_BACK \<in> set (allowed_targets DEPLOYMENT_TRANSITIONS x) \<longleftrightarrow> x \<in> {DS_SHADOW, DS_CANARY, DS_STABLE}"
  by (cases x; simp add: DEPLOYMENT_TRANSITIONS_def allowed_targets_def)+

lemma submit_keeps:
  assumes "evolution_ok num s"
  shows "evolution_ok num (snd (submit_for_evaluation amb t k s))"
proof -
  obtain r s' where s': "submit_for_evaluation amb t k s = (r, s')" by fastforce
  from submit_effect [OF this] show ?thesis
  proof (elim disjE exE conjE)
    fix c c' assume c: "map_of (candidates s) k = Some c" "s' = save_candidate c' s"
      "CandidateVersion_transition_to c CS_EVALUATING SYSTEM_ACTOR_ID ''system transition'' (Aware (amb_now amb)) = Inr c'"
    from CandidateVersion_transition_to_Inr [OF c(3)]
    have "cand_status c = CS_DRAFT" "cand_status c' = CS_EVALUATING" "candidate_id c' = candidate_id c" by auto
    with candidate_change [OF assms c(1), of c'] c(2) s' show ?thesis by (simp add: candidate_ok_def)
  qed (simp add: s' assms)
qed

lemma decide_keeps:
  assumes "evolution_ok num s"
  shows "evolution_ok num (snd (decide amb identity k approved reason s))"
proof -
  obtain r s' where s': "decide amb identity k approved reason s = (r, s')" by fastforce
  from decide_effect [OF this] show ?thesis
  proof (elim disjE exE conjE)
    let ?target = "if approved then CS_APPROVED else CS_REJECTED"
    fix c c' assume c: "map_of (candidates s) k = Some c" "s' = save_candidate c' s"
      "record_approval c ?target (ic_principal_id identity) reason (Aware (amb_now amb)) = Inr c'"
    from record_approval_Inr [OF c(3)] obtain m where m: "str_uuid (ic_principal_id identity) \<noteq> cand_generator_id c"
        "Some (str_uuid (ic_principal_id identity)) \<noteq> cand_grader_principal_id c"
        "CandidateVersion_transition_to c ?target (ic_principal_id identity) (''approval recorded: '' @ strip reason)
           (Aware (amb_now amb)) = Inr m"
        "c' = m\<lparr>cand_approver_principal_id := Some (str_uuid (ic_principal_id identity)), cand_approval_reason := Some (strip reason)\<rparr>"
      by blast
    note step = CandidateVersion_transition_to_Inr [OF m(3)]
    have "candidate_ok num s c" using evolution_ok_lookups(2) [OF assms c(1)] .
    with step m(1,2,4) have "candidate_ok num s c'"
      by (auto simp: candidate_ok_def graded_by_def evaluation_of_def split: if_splits)
    moreover have "cand_status c \<noteq> CS_APPROVED" "candidate_id c' = candidate_id c" using step m(4) by (auto split: if_splits)
    ultimately show ?thesis using candidate_change [OF assms c(1), of c'] c(2) s' by simp
  qed (simp add: s' assms)
qed

lemma complete_evaluation_keeps:
  assumes "evolution_ok num s" and "unused (amb_ids amb 0) s"
  shows "evolution_ok num (snd (complete_evaluation num amb identity k policy s))"
proof -
  have keyed: "keyed candidate_id (candidates s)" using assms(1) by (simp add: evolution_ok_def evolution_keyed_def)
  obtain r s' where s': "complete_evaluation num amb identity k policy s = (r, s')" by fastforce
  show ?thesis
  proof (cases "s' = s")
    case False
    with complete_evaluation_effect [OF s' keyed] obtain c e where c: "map_of (candidates s) k = Some c"
        "evaluation_of num s c e" "evaluation_id e = amb_ids amb 0"
      and s'': "s' = add_evaluation_record e s \<or> (\<exists>c' target. s' = save_candidate c' (add_evaluation_record e s)
          \<and> record_evaluation c target (ic_principal_id identity) (Aware (amb_now amb)) = Inr c'
          \<and> ce_grader_principal_id e = str_uuid (ic_principal_id identity)
          \<and> (target = CS_AWAITING_APPROVAL \<and> ce_decision e = ''met'' \<or> target = CS_REJECTED))"
      by blast
    let ?t = "add_evaluation_record e s"
    have t: "evolution_ok num ?t" using evaluation_keeps [OF assms(1), of e] assms(2) c(3) by simp
    have ct: "map_of (candidates ?t) k = Some c" using c(1) by (simp add: add_evaluation_record_def)
    from s'' show ?thesis
    proof (elim disjE exE)
      fix c' target assume *: "s' = save_candidate c' ?t
          \<and> record_evaluation c target (ic_principal_id identity) (Aware (amb_now amb)) = Inr c'
          \<and> ce_grader_principal_id e = str_uuid (ic_principal_id identity)
          \<and> (target = CS_AWAITING_APPROVAL \<and> ce_decision e = ''met'' \<or> target = CS_REJECTED)"
      then obtain m where m: "str_uuid (ic_principal_id identity) \<noteq> cand_generator_id c"
          "CandidateVersion_transition_to c target (ic_principal_id identity) ''evaluation recorded'' (Aware (amb_now amb)) = Inr m"
          "c' = m\<lparr>cand_grader_principal_id := Some (str_uuid (ic_principal_id identity))\<rparr>"
        by (auto dest!: record_evaluation_Inr)
      note step = CandidateVersion_transition_to_Inr [OF m(2)]
      have same: "candidate_id c' = candidate_id c" "cand_tenant_id c' = cand_tenant_id c" "cand_suite_id c' = cand_suite_id c"
          "cand_suite_version c' = cand_suite_version c" "cand_generator_id c' = cand_generator_id c"
        using step m(3) by auto
      have "evaluation_of num ?t c' e"
        using c(2) same by (simp add: evaluation_of_def add_evaluation_record_def list_trials_for_candidate_def)
      moreover have "e \<in> set (list_evaluation_records ?t (cand_tenant_id c') (candidate_id c'))"
        using c(2,3) same assms(2)
        by (simp add: evaluation_of_def list_evaluation_records_def add_evaluation_record_def dict_values_fresh unused_def)
      ultimately have "candidate_ok num ?t c'"
        using * m(1,3) step same by (auto simp: candidate_ok_def graded_by_def)
      moreover have "cand_status c \<noteq> CS_APPROVED" using * step by auto
      ultimately show ?thesis using candidate_change [OF t ct, of c'] same(1) * s' by simp
    qed (simp add: s' t)
  qed (simp add: s' assms)
qed

text \<open>A deployment that moves along its table stays well formed.\<close>

lemma deployment_moved:
  assumes "evolution_ok num s" and "map_of (deployments s) k = Some d"
    and "Deployment_transition_to d target a reason now = Inr m" and "target \<noteq> DS_CANARY"
  shows "evolution_ok num (save_deployment m s)" and "deployment_ok s m"
proof -
  note step = Deployment_transition_to_Inr [OF assms(3)]
  have d: "deployment_ok s d" using evolution_ok_lookups(4) [OF assms(1,2)] .
  have target: "target \<in> {DS_STABLE, DS_ROLLED_BACK, DS_FAILED}"
    using step assms(4) by (cases "dep_status d") (auto simp: DEPLOYMENT_TRANSITIONS_def allowed_targets_def)
  show ok: "deployment_ok s m"
    using d step target by (auto simp: deployment_ok_def linked_append)
  show "evolution_ok num (save_deployment m s)"
    using deployment_change [OF assms(1,2) ok] step
    by (cases "dep_status d") (auto simp: DEPLOYMENT_TRANSITIONS_def allowed_targets_def)
qed

lemma begin_shadow_keeps:
  assumes "evolution_ok num s" and "unused (amb_ids amb 0) s"
  shows "evolution_ok num (snd (begin_shadow amb identity k s))"
proof -
  obtain r s' where s': "begin_shadow amb identity k s = (r, s')" by fastforce
  from begin_shadow_effect [OF this] show ?thesis
  proof (elim disjE exE conjE)
    fix c d assume c: "map_of (candidates s) k = Some c" "s' = add_deployment d s"
      "begin_deployment c (ic_actor_id identity) ''approved candidate entered shadow'' (amb_ids amb 0) (Aware (amb_now amb)) = Inr d"
    note d = begin_deployment_Inr [OF c(3)]
    have "deployment_ok s d"
      using c(1) d evolution_ok_lookups(1) [OF assms(1) c(1)] by (auto simp: deployment_ok_def)
    with deployment_new [OF assms(1), of d] assms(2) d c(2) s' show ?thesis by simp
  qed (simp add: s' assms)
qed

lemma promote_keeps:
  assumes "evolution_ok num s"
  shows "evolution_ok num (snd (promote_to_canary amb identity k allocation s))"
proof -
  obtain r s' where s': "promote_to_canary amb identity k allocation s = (r, s')" by fastforce
  from promote_effect [OF this] show ?thesis
  proof (elim disjE exE conjE)
    fix d d' reason assume d: "map_of (deployments s) k = Some d" "s' = save_deployment d' s"
      "enter_canary d allocation (ic_actor_id identity) reason (Aware (amb_now amb)) = Inr d'"
    from enter_canary_Inr [OF d(3)] obtain m where m:
        "Deployment_transition_to d DS_CANARY (ic_actor_id identity) reason (Aware (amb_now amb)) = Inr m"
        "d' = m\<lparr>dep_traffic_allocation := Some allocation\<rparr>" by blast
    note step = Deployment_transition_to_Inr [OF m(1)]
    have "deployment_ok s d'"
      using evolution_ok_lookups(4) [OF assms d(1)] step m(2) by (auto simp: deployment_ok_def linked_append)
    from deployment_change [OF assms d(1) this] step m(2) d(2) s' show ?thesis by auto
  qed (simp add: s' assms)
qed

lemma release_stable_keeps:
  assumes "evolution_ok num s"
  shows "evolution_ok num (snd (release_stable num amb identity k v policy s))"
proof -
  obtain r s' where s': "release_stable num amb identity k v policy s = (r, s')" by fastforce
  from release_stable_effect [OF this] show ?thesis
  proof (elim disjE exE conjE)
    fix d d' rel assume d: "map_of (deployments s) k = Some d" "s' = add_release rel (save_deployment d' s)" "dep_status d = DS_CANARY"
        "Deployment_transition_to d DS_STABLE (ic_actor_id identity) ''canary gate passed'' (Aware (amb_now amb)) = Inr d'"
      and rel: "rel_tenant_id rel = dep_tenant_id d" "rel_candidate_id rel = dep_candidate_id d" "rel_deployment_id rel = deployment_id d"
    have ok: "evolution_ok num (save_deployment d' s)" using deployment_moved(1) [OF assms d(1,4)] by simp
    have "''canary'' \<in> to_status ` set (dep_transitions d)"
      using evolution_ok_lookups(4) [OF assms d(1)] d(3) by (simp add: deployment_ok_def)
    then have "release_ok (save_deployment d' s) rel"
      using Deployment_transition_to_Inr [OF d(4)] rel by (auto simp: release_ok_def save_deployment_def)
    from release_new [OF ok this] d(2) s' show ?thesis by simp
  qed (simp add: s' assms)
qed

lemma rollback_keeps:
  assumes "evolution_ok num s"
  shows "evolution_ok num (snd (rollback amb identity k s))"
proof -
  obtain r s' where s': "rollback amb identity k s = (r, s')" by fastforce
  from rollback_effect [OF this] show ?thesis
  proof (elim disjE exE conjE)
    fix rel d d' rel' assume d: "map_of (releases s) k = Some rel" "map_of (deployments s) (rel_deployment_id rel) = Some d"
        "s' = add_release rel' (save_deployment d' s)"
        "Deployment_transition_to d DS_ROLLED_BACK (ic_actor_id identity) ''release rollback requested'' (Aware (amb_now amb)) = Inr d'"
      and rel: "rel_tenant_id rel' = rel_tenant_id rel" "rel_candidate_id rel' = rel_candidate_id rel"
        "rel_deployment_id rel' = rel_deployment_id rel"
    have ok: "evolution_ok num (save_deployment d' s)" using deployment_moved(1) [OF assms d(2,4)] by simp
    from d(2) have key: "deployment_id d' = rel_deployment_id rel"
      using Deployment_transition_to_Inr [OF d(4)] evolution_ok_lookups(3) [OF assms d(2)] by simp
    have "release_ok (save_deployment d' s) rel'"
      using evolution_ok_lookups(5) [OF assms d(1)] Deployment_transition_to_Inr [OF d(4)] rel key d(2)
      by (auto simp: release_ok_def save_deployment_def)
    from release_new [OF ok this] d(3) s' show ?thesis by simp
  qed (simp add: s' assms)
qed

lemma rollback_deployment_keeps:
  assumes "evolution_ok num s"
  shows "evolution_ok num (snd (rollback_deployment amb identity k reason s))"
    and "evolution_ok num (snd (rollback_if_breached amb identity k stage metric n s))"
  using rollback_deployment_effect [OF prod.collapse [symmetric], of amb identity k reason s]
    rollback_if_breached_effect [OF prod.collapse [symmetric], of amb identity k stage metric n s]
    deployment_moved(1) [OF assms] assms
  by (elim disjE exE conjE; simp)+

lemma evolve_keeps:
  assumes "evolution_ok num s" and "fresh_for c s"
  shows "evolution_ok num (evolve num policy c s)"
proof (cases c)
  case (E_PROPOSE amb i command)
  have "governed (snd (propose_improvement policy amb i command s)) = governed s"
    by (cases "fst (propose_improvement policy amb i command s)")
      (auto simp: propose_improvement_def andThen_def add_proposal_def governed_def split: sum.splits)
  with assms E_PROPOSE show ?thesis by (simp add: evolution_ok_governed)
next
  case (E_REGISTER amb i command)
  then show ?thesis
    using register_candidate_effect [OF prod.collapse [symmetric], of policy amb i command s] assms candidate_new [of num s]
    by auto
next
  case (E_SUITE t suite)
  with assms evolution_ok_governed [of "add_suite t suite s" s] show ?thesis by (simp add: governed_def add_suite_def)
next
  case (E_PAIR runtime amb i command)
  with assms execute_shadow_pair_governed [OF prod.collapse [symmetric]] show ?thesis by (simp add: evolution_ok_governed)
next
  case (E_OBSERVE amb i command)
  with assms record_observation_governed [OF prod.collapse [symmetric]] show ?thesis by (simp add: evolution_ok_governed)
qed (use assms in \<open>simp_all add: submit_keeps trial_keeps complete_evaluation_keeps decide_keeps begin_shadow_keeps promote_keeps
    release_stable_keeps rollback_keeps rollback_deployment_keeps\<close>)

lemma evolved_ok: "evolved num policy s \<Longrightarrow> evolution_ok num s"
proof (induction rule: evolved.induct)
  case evolved_empty
  show ?case by (simp add: evolution_ok_def evolution_keyed_def empty_evolution_def)
qed (rule evolve_keeps)

end
