(* ===== verification/Evolution_Scenario.thy ===== *)
theory Evolution_Scenario
  imports Evolution_Invariant
begin

text \<open>
  A concrete life of a candidate, from its proposal to a stable release and its rollback, by which the hypotheses of the
  guarantees are shown to be met. The numbers are exact and the normal quantile is two.
\<close>

definition exact :: numerics where
  "exact = \<lparr>fl_add = (+), fl_sub = (-), fl_mul = (*), fl_div = (/), fl_sqrt = (\<lambda>x. x), fl_inv_cdf = (\<lambda>_. 2),
     int_div = (\<lambda>a b. of_int a / of_int b), fl_of_int = of_int, fl_sum = sum_list, num_fixed4 = (\<lambda>_. []), num_fixed1 = (\<lambda>_. []),
     num_percent = (\<lambda>_. []), num_str = (\<lambda>_. [])\<rparr>"

definition demo_id :: "uuid \<Rightarrow> IdentityContext" where
  "demo_id p = \<lparr>ic_tenant_id = 1, ic_actor_id = p, ic_principal_id = p, ic_roles = [], ic_agent_id = None, ic_subject = None,
     ic_token_type = ''user''\<rparr>"

definition demo_amb :: "uuid \<Rightarrow> int \<Rightarrow> ambient" where
  "demo_amb i now = \<lparr>amb_now = now, amb_ids = (\<lambda>_. i)\<rparr>"

definition demo_digest :: string where
  "demo_digest = replicate 64 (CHR ''a'')"

definition demo_proposal :: ImprovementProposal where
  "demo_proposal = \<lparr>prop_tenant_id = 1, prop_target = IT_SKILL, prop_target_version_id = 50, prop_evidence_refs = [''e''],
     prop_diagnosis = ''d'', prop_proposed_change = ''c'', prop_validation_suite_id = ''s'', prop_rollback_plan = ''r'',
     prop_proposer_id = str_uuid 11, proposal_id = 101\<rparr>"

definition demo_draft :: CandidateVersion where
  "demo_draft = \<lparr>cand_tenant_id = 1, cand_proposal_id = 101, cand_baseline_version_id = 50, cand_artifact_ref = ''a'',
     cand_artifact_digest = demo_digest, cand_suite_id = ''s'', cand_suite_version = ''1'', cand_generator_id = str_uuid 11,
     candidate_id = 102, cand_status = CS_DRAFT, cand_optimistic_version = 1, cand_transitions = [],
     cand_grader_principal_id = None, cand_approver_principal_id = None, cand_approval_reason = None\<rparr>"

definition demo_case :: TrialCaseResult where
  "demo_case = \<lparr>tcr_case_id = ''c'', tcr_input_payload = [], tcr_output_payload = Some [], tcr_subject_executed = True,
     tcr_grader_results = [], tcr_evidence_refs = [''e''], tcr_executor_id = Some ''x'', tcr_environment_ref = Some ''v'',
     tcr_model_ref = None, tcr_tool_refs = [], tcr_random_seed = None, tcr_cost_microunits = 0, tcr_failure_reason = None\<rparr>"

definition demo_trial :: Trial where
  "demo_trial = \<lparr>trial_tenant_id = 1, trial_suite_id = ''s'', trial_suite_version = ''1'', trial_subject_version_id = 102,
     trial_harness_version = ''h'', trial_id = 103, trial_status = TS_PASSED, trial_random_seed = None, trial_case_results = [demo_case],
     trial_total_cost_microunits = 0, trial_failure_reason = None, trial_started_at = None, trial_completed_at = None,
     trial_candidate_id = Some 102\<rparr>"

definition demo_policy :: RepeatedTrialPolicy where
  "demo_policy = \<lparr>rtp_pass_threshold = 1 / 10, rtp_confidence_level = 9 / 10, rtp_min_valid_trials = 1\<rparr>"

definition demo_allocation :: TrafficAllocation where
  "demo_allocation = \<lparr>ta_salt = ''s'', ta_candidate_percent = 10\<rparr>"

definition demo_rule :: PromotionPolicy where
  "demo_rule = \<lparr>pp_min_samples = 2, pp_observation_seconds = 60, pp_required_metrics = [''m'']\<rparr>"

definition demo_sample :: "rat \<Rightarrow> RecordObservation" where
  "demo_sample v = \<lparr>ro_deployment_id = 105, ro_stage = DS_CANARY, ro_metric = ''m'', ro_value = v,
     ro_operator = Some GO_GT, ro_threshold = Some 5\<rparr>"

subsection \<open>The records it makes\<close>

definition demo_move :: "string \<Rightarrow> string \<Rightarrow> int \<Rightarrow> string \<Rightarrow> uuid \<Rightarrow> StateTransition" where
  "demo_move f t now reason actor = \<lparr>from_status = f, to_status = t, occurred_at = Aware now, st_reason = reason, st_actor_id = actor\<rparr>"

definition demo_submitted :: CandidateVersion where
  "demo_submitted = demo_draft\<lparr>cand_status := CS_EVALUATING, cand_optimistic_version := 2,
     cand_transitions := [demo_move ''draft'' ''evaluating'' 0 ''system transition'' SYSTEM_ACTOR_ID]\<rparr>"

definition demo_graded :: CandidateVersion where
  "demo_graded = demo_submitted\<lparr>cand_status := CS_AWAITING_APPROVAL, cand_optimistic_version := 3,
     cand_transitions := cand_transitions demo_submitted @ [demo_move ''evaluating'' ''awaiting_approval'' 0 ''evaluation recorded'' 12],
     cand_grader_principal_id := Some (str_uuid 12)\<rparr>"

definition demo_approved :: CandidateVersion where
  "demo_approved = demo_graded\<lparr>cand_status := CS_APPROVED, cand_optimistic_version := 4,
     cand_transitions := cand_transitions demo_graded @ [demo_move ''awaiting_approval'' ''approved'' 0 ''approval recorded: ok'' 13],
     cand_approver_principal_id := Some (str_uuid 13), cand_approval_reason := Some ''ok''\<rparr>"

definition demo_shadow :: Deployment where
  "demo_shadow = \<lparr>dep_tenant_id = 1, dep_candidate_id = 102, dep_status = DS_SHADOW, deployment_id = 105,
     dep_optimistic_version = 1, dep_transitions = [demo_move ''approved'' ''shadow'' 0 ''approved candidate entered shadow'' 14],
     dep_traffic_allocation = None\<rparr>"

definition demo_canary :: Deployment where
  "demo_canary = demo_shadow\<lparr>dep_status := DS_CANARY, dep_optimistic_version := 2, dep_transitions := dep_transitions demo_shadow
       @ [demo_move ''shadow'' ''canary'' 1000000 ''canary entered with 10% deterministic candidate traffic'' 14],
     dep_traffic_allocation := Some demo_allocation\<rparr>"

definition demo_stable :: Deployment where
  "demo_stable = demo_canary\<lparr>dep_status := DS_STABLE, dep_optimistic_version := 3, dep_transitions := dep_transitions demo_canary
       @ [demo_move ''canary'' ''stable'' 61000000 ''canary gate passed'' 14]\<rparr>"

definition demo_release :: Release where
  "demo_release = \<lparr>rel_tenant_id = 1, rel_candidate_id = 102, rel_deployment_id = 105, rel_stable_version_id = 51,
     rel_previous_stable_version_id = 50, rel_approved_by = 14, release_id = 107\<rparr>"

definition demo_evaluation :: CandidateEvaluation where
  "demo_evaluation = \<lparr>ce_tenant_id = 1, ce_candidate_id = 102, ce_decision = ''met'', ce_trial_ids = [103],
     ce_assessment = [(''decision'', PV_str ''met''), (''passed_trials'', PV_int 1), (''failed_trials'', PV_int 0),
       (''invalid_trials'', PV_int 0), (''valid_trials'', PV_int 1), (''pass_rate'', PV_float 1), (''lower_bound'', PV_float (1 / 5)),
       (''upper_bound'', PV_float 1), (''confidence_level'', PV_float (9 / 10)), (''pass_threshold'', PV_float (1 / 10)),
       (''min_valid_trials'', PV_int 1),
       (''rationale'', PV_str ''pass rate  holds a  lower bound of  at or above threshold '')],
     ce_grader_principal_id = str_uuid 12, evaluation_id = 104, ce_decided_at = None\<rparr>"

definition demo_observation :: "int \<Rightarrow> int \<Rightarrow> rat \<Rightarrow> int \<Rightarrow> DeploymentObservation" where
  "demo_observation n b v now = \<lparr>obsv_tenant_id = 1, obsv_deployment_id = 105, obsv_stage = DS_CANARY, obsv_metric = ''m'',
     obsv_sample_count = n, obsv_breach_count = b, obsv_last_value = Some v, obsv_first_sample_at = Some (Aware 2000000),
     obsv_last_sample_at = Some (Aware now), observation_id = 106, obsv_optimistic_version = 1\<rparr>"

text \<open>The store with these candidates, deployments, trials, evaluations, observations and releases.\<close>

definition demo_store :: "CandidateVersion list \<Rightarrow> Deployment list \<Rightarrow> Trial list \<Rightarrow> CandidateEvaluation list
    \<Rightarrow> DeploymentObservation list \<Rightarrow> Release list \<Rightarrow> evolution_store" where
  "demo_store cs ds ts es os rs = \<lparr>proposals = [(101, demo_proposal)], candidates = map (\<lambda>c. (102, c)) cs,
     deployments = map (\<lambda>d. (105, d)) ds, releases = map (\<lambda>r. (release_id r, r)) rs, trials = map (\<lambda>t. (103, t)) ts, suites = [],
     candidate_evaluations = map (\<lambda>e. (104, e)) es, observations = map (\<lambda>x. ((1, 105, ''canary'', ''m''), x)) os,
     shadow_comparisons = []\<rparr>"

lemmas demo_records = demo_proposal_def demo_draft_def demo_submitted_def demo_graded_def demo_approved_def demo_shadow_def
  demo_canary_def demo_stable_def demo_release_def demo_move_def demo_id_def demo_amb_def demo_trial_def demo_policy_def
  demo_allocation_def demo_rule_def demo_sample_def demo_evaluation_def demo_observation_def demo_store_def

subsection \<open>The steps\<close>

lemma not_blank_str_uuid [simp]: "\<not> blank (str_uuid u)"
  by (simp add: str_uuid_def Let_def py_isspace_def code_point_def)

lemma demo_hex: "is_sha256_hex demo_digest"
  by (simp add: demo_digest_def is_sha256_hex_def list_all_iff)

lemmas demo_eval = demo_records py_isspace_def code_point_def str_uuid_inj Let_def

lemma demo_1: "evolve exact None (E_PROPOSE (demo_amb 101 0) (demo_id 11) \<lparr>pi_target = ''skill'', pi_target_version_id = 50, pi_evidence_refs = [''e''],
     pi_diagnosis = ''d'', pi_proposed_change = ''c'', pi_validation_suite_id = ''s'', pi_rollback_plan = ''r''\<rparr>)
     (empty_evolution) = demo_store [] [] [] [] [] []"
  by (simp add: demo_eval propose_improvement_def forbid_disallowed_target_def require_improvement_target_allowed_def
      lower_def lower_char_def strip_def FORBIDDEN_IMPROVEMENT_TARGETS_def ImprovementTarget_of_def ImprovementProposal_post_init_def
      add_proposal_def empty_evolution_def)

lemma demo_2: "evolve exact None (E_REGISTER (demo_amb 102 0) (demo_id 11) \<lparr>rc_proposal_id = 101, rc_baseline_version_id = 50, rc_artifact_ref = ''a'',
     rc_artifact_digest = demo_digest, rc_suite_id = ''s'', rc_suite_version = ''1''\<rparr>)
     (demo_store [] [] [] [] [] []) = demo_store [demo_draft] [] [] [] [] []"
  by (simp add: demo_eval register_candidate_def get_proposal_def lookup_record_def assert_tenant_def forbid_disallowed_target_def require_improvement_target_allowed_def
      lower_def lower_char_def strip_def FORBIDDEN_IMPROVEMENT_TARGETS_def ImprovementTarget_of_def
      CandidateVersion_post_init_def demo_hex add_candidate_def)

lemma demo_3: "evolve exact None (E_SUBMIT (demo_amb 0 0) 1 102)
     (demo_store [demo_draft] [] [] [] [] []) = demo_store [demo_submitted] [] [] [] [] []"
  by (simp add: demo_eval submit_for_evaluation_def get_candidate_def lookup_record_def assert_tenant_def save_candidate_def CandidateVersion_transition_to_def require_transition_def transition_record_def StateTransition_post_init_def allowed_targets_def
      CANDIDATE_TRANSITIONS_def CandidateVersion_post_init_def demo_hex)

lemma demo_4: "evolve exact None (E_TRIAL demo_trial)
     (demo_store [demo_submitted] [] [] [] [] []) = demo_store [demo_submitted] [] [demo_trial] [] [] []"
  by (simp add: demo_eval add_trial_def)

lemma demo_5: "evolve exact None (E_EVALUATE (demo_amb 104 0) (demo_id 12) 102 demo_policy)
     (demo_store [demo_submitted] [] [demo_trial] [] [] []) = demo_store [demo_graded] [] [demo_trial] [demo_evaluation] [] []"
  by (simp add: demo_eval complete_evaluation_def get_candidate_def lookup_record_def assert_tenant_def list_trials_for_candidate_def dict_values_def trial_of_candidate_def
      assess_def require_one_subject_def TERMINAL_STATUSES_def count_status_def wilson_score_interval_def wilson_bounds_def exact_def
      CandidateEvaluation_post_init_def CANDIDATE_EVALUATION_DECISIONS_def assessment_payload_def opt_float_def tca_valid_trials_def tca_met_def
      add_evaluation_record_def record_evaluation_def save_candidate_def CandidateVersion_transition_to_def require_transition_def transition_record_def StateTransition_post_init_def allowed_targets_def
      CANDIDATE_TRANSITIONS_def CandidateVersion_post_init_def demo_hex)

lemma demo_6: "evolve exact None (E_DECIDE (demo_amb 0 0) (demo_id 13) 102 True ''ok'')
     (demo_store [demo_graded] [] [demo_trial] [demo_evaluation] [] []) = demo_store [demo_approved] [] [demo_trial] [demo_evaluation] [] []"
  by (simp add: demo_eval decide_def get_candidate_def lookup_record_def assert_tenant_def record_approval_def save_candidate_def strip_def CandidateVersion_transition_to_def require_transition_def transition_record_def StateTransition_post_init_def allowed_targets_def
      CANDIDATE_TRANSITIONS_def CandidateVersion_post_init_def demo_hex)

lemma demo_7: "evolve exact None (E_SHADOW (demo_amb 105 0) (demo_id 14) 102)
     (demo_store [demo_approved] [] [demo_trial] [demo_evaluation] [] []) = demo_store [demo_approved] [demo_shadow] [demo_trial] [demo_evaluation] [] []"
  by (simp add: demo_eval begin_shadow_def get_candidate_def lookup_record_def assert_tenant_def require_independent_def begin_deployment_def add_deployment_def
      StateTransition_post_init_def Deployment_post_init_def)

lemma demo_8: "evolve exact None (E_CANARY (demo_amb 0 1000000) (demo_id 14) 105 demo_allocation)
     (demo_store [demo_approved] [demo_shadow] [demo_trial] [demo_evaluation] [] []) = demo_store [demo_approved] [demo_canary] [demo_trial] [demo_evaluation] [] []"
  by (simp add: demo_eval promote_to_canary_def get_candidate_def get_deployment_def lookup_record_def assert_tenant_def require_independent_def enter_canary_def save_deployment_def
      str_int_def str_nat.simps Deployment_transition_to_def require_transition_def transition_record_def StateTransition_post_init_def allowed_targets_def
      DEPLOYMENT_TRANSITIONS_def Deployment_post_init_def)

lemma demo_9: "evolve exact None (E_OBSERVE (demo_amb 106 2000000) (demo_id 14) (demo_sample 1))
     (demo_store [demo_approved] [demo_canary] [demo_trial] [demo_evaluation] [] []) = demo_store [demo_approved] [demo_canary] [demo_trial] [demo_evaluation] [demo_observation 1 0 1 2000000] []"
  by (simp add: demo_eval record_observation_def get_deployment_def lookup_record_def assert_tenant_def get_observation_def save_observation_def DeploymentObservation_post_init_def)

lemma demo_10: "evolve exact None (E_OBSERVE (demo_amb 0 3000000) (demo_id 14) (demo_sample 9))
     (demo_store [demo_approved] [demo_canary] [demo_trial] [demo_evaluation] [demo_observation 1 0 1 2000000] []) = demo_store [demo_approved] [demo_canary] [demo_trial] [demo_evaluation] [demo_observation 2 1 9 3000000] []"
  by (simp add: demo_eval record_observation_def get_deployment_def lookup_record_def assert_tenant_def get_observation_def save_observation_def DeploymentObservation_post_init_def)

lemma demo_11: "evolve exact None (E_RELEASE (demo_amb 107 61000000) (demo_id 14) 105 51 (Some demo_rule))
     (demo_store [demo_approved] [demo_canary] [demo_trial] [demo_evaluation] [demo_observation 2 1 9 3000000] []) = demo_store [demo_approved] [demo_stable] [demo_trial] [demo_evaluation] [demo_observation 2 1 9 3000000] [demo_release]"
  by (simp add: demo_eval release_stable_def get_candidate_def get_deployment_def lookup_record_def assert_tenant_def assert_promotion_gate_def entered_at_def seconds_def metric_gate_def
      get_observation_def from_stable_deployment_def add_release_def save_deployment_def Deployment_transition_to_def require_transition_def transition_record_def StateTransition_post_init_def allowed_targets_def
      DEPLOYMENT_TRANSITIONS_def Deployment_post_init_def)

lemma evolved_by: "evolved num policy s \<Longrightarrow> fresh_for c s \<Longrightarrow> evolve num policy c s = t \<Longrightarrow> evolved num policy t"
  using evolved_step by blast

lemma evolved_demo_1: "evolved exact None (demo_store [] [] [] [] [] [])"
  by (rule evolved_by [OF evolved_empty _ demo_1]) (simp add: demo_eval unused_def)

lemma evolved_demo_2: "evolved exact None (demo_store [demo_draft] [] [] [] [] [])"
  by (rule evolved_by [OF evolved_demo_1 _ demo_2]) (simp add: demo_eval unused_def)

lemma evolved_demo_3: "evolved exact None (demo_store [demo_submitted] [] [] [] [] [])"
  by (rule evolved_by [OF evolved_demo_2 _ demo_3]) (simp add: demo_eval unused_def)

lemma evolved_demo_4: "evolved exact None (demo_store [demo_submitted] [] [demo_trial] [] [] [])"
  by (rule evolved_by [OF evolved_demo_3 _ demo_4]) (simp add: demo_eval unused_def)

lemma evolved_demo_5: "evolved exact None (demo_store [demo_graded] [] [demo_trial] [demo_evaluation] [] [])"
  by (rule evolved_by [OF evolved_demo_4 _ demo_5]) (simp add: demo_eval unused_def)

lemma evolved_demo_6: "evolved exact None (demo_store [demo_approved] [] [demo_trial] [demo_evaluation] [] [])"
  by (rule evolved_by [OF evolved_demo_5 _ demo_6]) (simp add: demo_eval unused_def)

lemma evolved_demo_7: "evolved exact None (demo_store [demo_approved] [demo_shadow] [demo_trial] [demo_evaluation] [] [])"
  by (rule evolved_by [OF evolved_demo_6 _ demo_7]) (simp add: demo_eval unused_def)

lemma evolved_demo_8: "evolved exact None (demo_store [demo_approved] [demo_canary] [demo_trial] [demo_evaluation] [] [])"
  by (rule evolved_by [OF evolved_demo_7 _ demo_8]) (simp add: demo_eval unused_def)

lemma evolved_demo_9: "evolved exact None (demo_store [demo_approved] [demo_canary] [demo_trial] [demo_evaluation] [demo_observation 1 0 1 2000000] [])"
  by (rule evolved_by [OF evolved_demo_8 _ demo_9]) (simp add: demo_eval unused_def)

lemma evolved_demo_10: "evolved exact None (demo_store [demo_approved] [demo_canary] [demo_trial] [demo_evaluation] [demo_observation 2 1 9 3000000] [])"
  by (rule evolved_by [OF evolved_demo_9 _ demo_10]) (simp add: demo_eval unused_def)

lemma evolved_demo_11: "evolved exact None (demo_store [demo_approved] [demo_stable] [demo_trial] [demo_evaluation] [demo_observation 2 1 9 3000000] [demo_release])"
  by (rule evolved_by [OF evolved_demo_10 _ demo_11]) (simp add: demo_eval unused_def)

subsection \<open>The release and its rollback\<close>

abbreviation demo_before :: evolution_store where
  "demo_before \<equiv> demo_store [demo_approved] [demo_canary] [demo_trial] [demo_evaluation] [demo_observation 2 1 9 3000000] []"

abbreviation demo_after :: evolution_store where
  "demo_after \<equiv> demo_store [demo_approved] [demo_stable] [demo_trial] [demo_evaluation] [demo_observation 2 1 9 3000000] [demo_release]"

lemma demo_released:
  "release_stable exact (demo_amb 107 61000000) (demo_id 14) 105 51 (Some demo_rule) demo_before = (Inr demo_release, demo_after)"
  by (simp add: demo_eval release_stable_def get_candidate_def get_deployment_def lookup_record_def assert_tenant_def
      assert_promotion_gate_def entered_at_def seconds_def metric_gate_def get_observation_def from_stable_deployment_def
      add_release_def save_deployment_def Deployment_transition_to_def require_transition_def transition_record_def StateTransition_post_init_def allowed_targets_def
      DEPLOYMENT_TRANSITIONS_def Deployment_post_init_def)

definition demo_rolled :: Deployment where
  "demo_rolled = demo_stable\<lparr>dep_status := DS_ROLLED_BACK, dep_optimistic_version := 4, dep_transitions := dep_transitions demo_stable
       @ [demo_move ''stable'' ''rolled_back'' 70000000 ''release rollback requested'' 14]\<rparr>"

definition demo_undo :: Release where
  "demo_undo = \<lparr>rel_tenant_id = 1, rel_candidate_id = 102, rel_deployment_id = 105, rel_stable_version_id = 50,
     rel_previous_stable_version_id = 51, rel_approved_by = 14, release_id = 108\<rparr>"

lemma demo_rollback:
  "rollback (demo_amb 108 70000000) (demo_id 14) 107 demo_after =
     (Inr demo_undo, demo_store [demo_approved] [demo_rolled] [demo_trial] [demo_evaluation] [demo_observation 2 1 9 3000000]
        [demo_release, demo_undo])"
  by (simp add: demo_eval demo_rolled_def demo_undo_def rollback_def get_active_release_def get_deployment_def lookup_record_def
      assert_tenant_def add_release_def save_deployment_def Deployment_transition_to_def require_transition_def transition_record_def StateTransition_post_init_def allowed_targets_def
      DEPLOYMENT_TRANSITIONS_def Deployment_post_init_def)

end
