(* ===== verification/Evolution_Guarantees.thy ===== *)
theory Evolution_Guarantees
  imports Evolution_Scenario
begin

text \<open>
  What the evolution service guarantees over any sequence of its use cases: separation of duties, evidence behind every
  approval, provenance of every release, the promotion gate, the breach counter and the rollback.
\<close>

section \<open>Separation of duties and provenance\<close>

lemma ConfidenceDecision_value_met: "ConfidenceDecision_value d = ''met'' \<longleftrightarrow> d = CD_MET"
  by (cases d) auto

text \<open>
  C25. After any sequence of use cases, an approved candidate has three different principals behind it, its generator, its
  grader and its approver, and a persisted evaluation by that grader whose decision is that the confidence gate is met on
  persisted trials that executed the candidate itself on its fixed suite.
\<close>

theorem approved_candidate_separated:
  assumes "evolved num policy s" and "get_candidate s t k = Inr c" and "cand_status c = CS_APPROVED"
  shows "\<exists>g a. cand_grader_principal_id c = Some g \<and> cand_approver_principal_id c = Some a
     \<and> distinct [cand_generator_id c, g, a]
     \<and> (\<exists>e\<in>set (list_evaluation_records s t k). ce_grader_principal_id e = g \<and> ce_decision e = ''met''
          \<and> (\<exists>rule sample x. set sample \<subseteq> set (list_trials_for_candidate s t k) \<and> ce_trial_ids e = map trial_id sample
              \<and> (\<forall>trial\<in>set sample. trial_subject_version_id trial = k \<and> trial_suite_id trial = cand_suite_id c
                   \<and> trial_suite_version trial = cand_suite_version c)
              \<and> assess num rule sample = Inr x \<and> tca_decision x = CD_MET))"
proof -
  note ok = evolved_ok [OF assms(1)]
  from assms(2) have c: "map_of (candidates s) k = Some c" "cand_tenant_id c = t" by (auto simp: evo_lookups)
  note k = evolution_ok_lookups(1) [OF ok c(1)]
  from evolution_ok_lookups(2) [OF ok c(1)] assms(3) obtain g a where g: "cand_grader_principal_id c = Some g"
      "g \<noteq> cand_generator_id c" "graded_by num s c g" "cand_approver_principal_id c = Some a" "a \<noteq> cand_generator_id c"
      "cand_approver_principal_id c \<noteq> cand_grader_principal_id c"
    by (auto simp: candidate_ok_def)
  from g(3) c(2) k obtain e where "e \<in> set (list_evaluation_records s t k)" "ce_grader_principal_id e = g" "ce_decision e = ''met''"
      "evaluation_of num s c e" by (auto simp: graded_by_def)
  moreover from this(3,4) c(2) k obtain rule sample x where "set sample \<subseteq> set (list_trials_for_candidate s t k)"
      "ce_trial_ids e = map trial_id sample" "assess num rule sample = Inr x" "tca_decision x = CD_MET"
      "\<forall>trial\<in>set sample. trial_subject_version_id trial = k \<and> trial_suite_id trial = cand_suite_id c
         \<and> trial_suite_version trial = cand_suite_version c"
    unfolding evaluation_of_def by (metis ConfidenceDecision_value_met)
  ultimately have "\<exists>e\<in>set (list_evaluation_records s t k). ce_grader_principal_id e = g \<and> ce_decision e = ''met''
      \<and> (\<exists>rule sample x. set sample \<subseteq> set (list_trials_for_candidate s t k) \<and> ce_trial_ids e = map trial_id sample
          \<and> (\<forall>trial\<in>set sample. trial_subject_version_id trial = k \<and> trial_suite_id trial = cand_suite_id c
               \<and> trial_suite_version trial = cand_suite_version c)
          \<and> assess num rule sample = Inr x \<and> tca_decision x = CD_MET)" by blast
  with g show ?thesis by auto
qed

theorem approved_candidate_separated_witness:
  "\<exists>g a. cand_grader_principal_id demo_approved = Some g \<and> cand_approver_principal_id demo_approved = Some a
     \<and> distinct [cand_generator_id demo_approved, g, a]
     \<and> (\<exists>e\<in>set (list_evaluation_records demo_after 1 102). ce_grader_principal_id e = g \<and> ce_decision e = ''met'')"
proof -
  have "get_candidate demo_after 1 102 = Inr demo_approved" "cand_status demo_approved = CS_APPROVED"
    by (simp_all add: demo_records evo_lookups)
  from approved_candidate_separated [OF evolved_demo_11 this] show ?thesis by blast
qed

text \<open>
  C26. After any sequence of use cases, every release belongs to a deployment of its own tenant that went through canary and
  stable without a gap in its history since approval, and to an approved candidate.
\<close>

theorem release_provenance:
  assumes "evolved num policy s" and "get_active_release s t k = Inr r"
  shows "\<exists>d c. get_deployment s t (rel_deployment_id r) = Inr d \<and> get_candidate s t (rel_candidate_id r) = Inr c
     \<and> dep_candidate_id d = rel_candidate_id r \<and> cand_status c = CS_APPROVED \<and> dep_status d \<in> {DS_STABLE, DS_ROLLED_BACK}
     \<and> linked ''approved'' (dep_transitions d) (DeploymentStatus_value (dep_status d))
     \<and> {''canary'', ''stable''} \<subseteq> to_status ` set (dep_transitions d)"
proof -
  note ok = evolved_ok [OF assms(1)]
  from assms(2) have r: "map_of (releases s) k = Some r" "rel_tenant_id r = t" by (auto simp: evo_lookups)
  from evolution_ok_lookups(5) [OF ok r(1)] r(2) obtain d where d: "map_of (deployments s) (rel_deployment_id r) = Some d"
      "dep_tenant_id d = t" "dep_candidate_id d = rel_candidate_id r" "dep_status d \<in> {DS_STABLE, DS_ROLLED_BACK}"
      "{''canary'', ''stable''} \<subseteq> to_status ` set (dep_transitions d)"
    by (auto simp: release_ok_def)
  from evolution_ok_lookups(4) [OF ok d(1)] d(2,3) obtain c where "map_of (candidates s) (rel_candidate_id r) = Some c"
      "cand_tenant_id c = t" "cand_status c = CS_APPROVED" "linked ''approved'' (dep_transitions d) (DeploymentStatus_value (dep_status d))"
    by (auto simp: deployment_ok_def)
  with d show ?thesis by (auto simp: evo_lookups)
qed

theorem release_provenance_witness:
  "\<exists>d c. get_deployment demo_after 1 105 = Inr d \<and> get_candidate demo_after 1 102 = Inr c \<and> cand_status c = CS_APPROVED
     \<and> {''canary'', ''stable''} \<subseteq> to_status ` set (dep_transitions d)"
proof -
  have "get_active_release demo_after 1 107 = Inr demo_release" by (simp add: demo_records evo_lookups)
  from release_provenance [OF evolved_demo_11 this] show ?thesis by (auto simp: demo_release_def)
qed

section \<open>Promotion and rollback\<close>

lemma metric_gate_Inr:
  "metric_gate s d policy m = Inr () \<longleftrightarrow> (\<exists>x. get_observation s (dep_tenant_id d) (deployment_id d) DS_CANARY m = Some x
     \<and> pp_min_samples policy \<le> obsv_sample_count x \<and> obsv_last_value x \<noteq> None)"
  by (auto simp: metric_gate_def Let_def split: option.splits)

text \<open>
  C27. A release is made only through the gate: the deployment was in canary, its observation window had elapsed since it
  entered canary, and every required metric had the minimum number of canary samples. The release then names the baseline
  of the candidate as the version to return to, and the deployment is stable.
\<close>

theorem release_stable_gate:
  assumes "evolved num policy s" and "release_stable num amb identity k v (Some rule) s = (Inr rel, s')"
  shows "\<exists>d c entered d'. get_deployment s (ic_tenant_id identity) k = Inr d \<and> dep_status d = DS_CANARY
     \<and> entered_at d DS_CANARY = Some entered
     \<and> instant entered + seconds (pp_observation_seconds rule) \<le> amb_now amb
     \<and> (\<forall>m\<in>set (pp_required_metrics rule). \<exists>x. get_observation s (ic_tenant_id identity) k DS_CANARY m = Some x
          \<and> pp_min_samples rule \<le> obsv_sample_count x \<and> obsv_last_value x \<noteq> None)
     \<and> get_candidate s (ic_tenant_id identity) (rel_candidate_id rel) = Inr c
     \<and> rel_stable_version_id rel = v \<and> rel_previous_stable_version_id rel = cand_baseline_version_id c
     \<and> get_active_release s' (ic_tenant_id identity) (release_id rel) = Inr rel
     \<and> get_deployment s' (ic_tenant_id identity) k = Inr d' \<and> dep_status d' = DS_STABLE"
proof -
  note ok = evolved_ok [OF assms(1)]
  from release_stable_Inr [OF assms(2)] obtain d c d' where d: "map_of (deployments s) k = Some d"
      "dep_tenant_id d = ic_tenant_id identity" "dep_status d = DS_CANARY" "map_of (candidates s) (dep_candidate_id d) = Some c"
      "Deployment_transition_to d DS_STABLE (ic_actor_id identity) ''canary gate passed'' (Aware (amb_now amb)) = Inr d'"
    and gate: "assert_promotion_gate num amb s d rule = Inr ()"
    and s': "s' = add_release rel (save_deployment d' s)"
    and rel: "rel = \<lparr>rel_tenant_id = dep_tenant_id d, rel_candidate_id = dep_candidate_id d, rel_deployment_id = deployment_id d,
         rel_stable_version_id = v, rel_previous_stable_version_id = cand_baseline_version_id c,
         rel_approved_by = ic_actor_id identity, release_id = amb_ids amb 0\<rparr>"
    by auto
  have k: "deployment_id d = k" using evolution_ok_lookups(3) [OF ok d(1)] .
  note d' = Deployment_transition_to_Inr [OF d(5)]
  from evolution_ok_lookups(4) [OF ok d(1)] d(2,4) have c: "cand_tenant_id c = ic_tenant_id identity" by (auto simp: deployment_ok_def)
  from gate obtain entered where entered: "entered_at d DS_CANARY = Some entered"
      "instant entered + seconds (pp_observation_seconds rule) \<le> amb_now amb"
      "\<forall>m\<in>set (pp_required_metrics rule). metric_gate s d rule m = Inr ()"
    by (auto simp: assert_promotion_gate_def Let_def result_simps split: option.splits)
  have "get_active_release s' (ic_tenant_id identity) (release_id rel) = Inr rel" "get_deployment s' (ic_tenant_id identity) k = Inr d'"
    using s' rel d(2) d' k by (simp_all add: evo_lookups add_release_def save_deployment_def)
  with d entered rel c k d' show ?thesis by (auto simp: metric_gate_Inr evo_lookups)
qed

theorem release_stable_gate_witness:
  "\<exists>x. get_observation demo_before 1 105 DS_CANARY ''m'' = Some x \<and> pp_min_samples demo_rule \<le> obsv_sample_count x"
  using release_stable_gate [OF evolved_demo_10 demo_released] by (auto simp: demo_rule_def demo_id_def)

text \<open>
  C28. A rollback returns to the version before: the new release swaps the stable and the previous version of the release it
  undoes, and the deployment is rolled back. It happens at most once: rolling back either release again raises
  \<open>InvalidStateTransition\<close> and changes nothing.
\<close>

theorem rollback_restores_once:
  assumes "evolved num policy s" and "get_active_release s (ic_tenant_id identity) k = Inr rel"
    and "rollback amb identity k s = (Inr rel', s')" and "unused (amb_ids amb 0) s"
  shows "rel_stable_version_id rel' = rel_previous_stable_version_id rel
     \<and> rel_previous_stable_version_id rel' = rel_stable_version_id rel
     \<and> (\<exists>d. get_deployment s' (ic_tenant_id identity) (rel_deployment_id rel) = Inr d \<and> dep_status d = DS_ROLLED_BACK)
     \<and> (\<forall>amb' again. again \<in> {k, release_id rel'} \<longrightarrow>
          (\<exists>m. rollback amb' identity again s' = (Inl (InvalidStateTransition m), s')))"
proof -
  note ok = evolved_ok [OF assms(1)]
  from rollback_Inr [OF assms(3)] assms(2) obtain d d' where d: "map_of (deployments s) (rel_deployment_id rel) = Some d"
      "dep_tenant_id d = ic_tenant_id identity"
      "Deployment_transition_to d DS_ROLLED_BACK (ic_actor_id identity) ''release rollback requested'' (Aware (amb_now amb)) = Inr d'"
    and s': "s' = add_release rel' (save_deployment d' s)"
    and rel: "map_of (releases s) k = Some rel" "rel_tenant_id rel = ic_tenant_id identity"
      "rel' = \<lparr>rel_tenant_id = rel_tenant_id rel, rel_candidate_id = rel_candidate_id rel,
         rel_deployment_id = rel_deployment_id rel, rel_stable_version_id = rel_previous_stable_version_id rel,
         rel_previous_stable_version_id = rel_stable_version_id rel, rel_approved_by = ic_actor_id identity,
         release_id = amb_ids amb 0\<rparr>"
    by (auto simp: evo_lookups)
  note d' = Deployment_transition_to_Inr [OF d(3)]
  have key: "deployment_id d' = rel_deployment_id rel" using d' evolution_ok_lookups(3) [OF ok d(1)] by simp
  have dep: "get_deployment s' (ic_tenant_id identity) (rel_deployment_id rel) = Inr d'" "dep_status d' = DS_ROLLED_BACK"
    using s' d(2) d' key by (auto simp: evo_lookups add_release_def save_deployment_def)
  have again: "\<exists>x. get_active_release s' (ic_tenant_id identity) again = Inr x \<and> rel_deployment_id x = rel_deployment_id rel"
    if "again \<in> {k, release_id rel'}" for again
    using that s' rel assms(4) by (auto simp: evo_lookups add_release_def save_deployment_def unused_def)
  have "\<exists>m. Deployment_transition_to d' DS_ROLLED_BACK a reason now = Inl (InvalidStateTransition m)" for a reason now
    using dep(2) by (simp add: Deployment_transition_to_def require_transition_def raise_if_def)
  then have "\<exists>m. rollback amb' identity again s' = (Inl (InvalidStateTransition m), s')" if "again \<in> {k, release_id rel'}" for amb' again
    using again [OF that] dep(1) unfolding rollback_def by (metis andThen_simps)
  with rel dep show ?thesis by auto
qed

theorem rollback_restores_once_witness:
  "rel_stable_version_id demo_undo = rel_previous_stable_version_id demo_release
     \<and> (\<exists>m. rollback (demo_amb 109 80000000) (demo_id 14) 107
          (demo_store [demo_approved] [demo_rolled] [demo_trial] [demo_evaluation] [demo_observation 2 1 9 3000000]
            [demo_release, demo_undo]) = (Inl (InvalidStateTransition m),
          demo_store [demo_approved] [demo_rolled] [demo_trial] [demo_evaluation] [demo_observation 2 1 9 3000000]
            [demo_release, demo_undo]))"
proof -
  have "get_active_release demo_after (ic_tenant_id (demo_id 14)) 107 = Inr demo_release"
    "unused (amb_ids (demo_amb 108 70000000) 0) demo_after"
    by (simp_all add: demo_records evo_lookups unused_def)
  from rollback_restores_once [OF evolved_demo_11 this(1) demo_rollback this(2)] show ?thesis by blast
qed

section \<open>The breach counter\<close>

definition breaches :: "RecordObservation \<Rightarrow> bool" where
  "breaches c = guardrail_breached (ro_operator c) (ro_threshold c) (ro_value c)"

lemma guardrail_none: "\<not> guardrail_breached None threshold v"
  by simp

text \<open>One sample after another, each with its own clock and identifiers.\<close>

fun record_samples :: "IdentityContext \<Rightarrow> (ambient \<times> RecordObservation) list \<Rightarrow> evolution_store \<Rightarrow> evolution_store" where
  "record_samples identity [] s = s"
| "record_samples identity ((amb, c) # samples) s =
     record_samples identity samples (snd (record_observation amb (amb_ids amb 0) identity c s))"

text \<open>The counters that a list of samples, latest first, should lead to.\<close>

definition counted :: "DeploymentObservation option \<Rightarrow> RecordObservation list \<Rightarrow> bool" where
  "counted x latest_first = (case x of
      None \<Rightarrow> latest_first = []
    | Some obs \<Rightarrow> obsv_sample_count obs = int (length latest_first)
        \<and> obsv_breach_count obs = int (length (takeWhile breaches latest_first)))"

lemma record_observation_counts:
  assumes "get_deployment s (ic_tenant_id identity) k = Inr d" and "dep_status d = stage" and "\<not> blank metric"
    and "ro_deployment_id c = k" "ro_stage c = stage" "ro_metric c = metric"
    and inv: "case get_observation s (ic_tenant_id identity) k stage metric of None \<Rightarrow> latest = []
      | Some obs \<Rightarrow> obsv_tenant_id obs = ic_tenant_id identity \<and> obsv_deployment_id obs = k \<and> obsv_stage obs = stage
          \<and> obsv_metric obs = metric \<and> counted (Some obs) latest"
  shows "\<exists>obs s'. record_observation amb i identity c s = (Inr obs, s')
     \<and> get_observation s' (ic_tenant_id identity) k stage metric = Some obs
     \<and> obsv_tenant_id obs = ic_tenant_id identity \<and> obsv_deployment_id obs = k \<and> obsv_stage obs = stage
     \<and> obsv_metric obs = metric \<and> counted (Some obs) (c # latest) \<and> deployments s' = deployments s"
proof -
  have le: "length (takeWhile breaches latest) \<le> length latest" by (rule length_takeWhile_le)
  show ?thesis
  proof (cases "get_observation s (ic_tenant_id identity) k stage metric")
    case None
    with assms show ?thesis
      by (simp add: record_observation_def Let_def DeploymentObservation_post_init_def save_observation_def get_observation_def
          counted_def breaches_def)
  next
    case (Some obs)
    with assms le show ?thesis
      by (simp add: record_observation_def Let_def DeploymentObservation_post_init_def save_observation_def get_observation_def
          counted_def breaches_def)
  qed
qed

lemma record_samples_counts:
  assumes "get_deployment s (ic_tenant_id identity) k = Inr d" and "dep_status d = stage" and "\<not> blank metric"
    and "\<forall>(amb, c)\<in>set samples. ro_deployment_id c = k \<and> ro_stage c = stage \<and> ro_metric c = metric"
    and "case get_observation s (ic_tenant_id identity) k stage metric of None \<Rightarrow> latest = []
      | Some obs \<Rightarrow> obsv_tenant_id obs = ic_tenant_id identity \<and> obsv_deployment_id obs = k \<and> obsv_stage obs = stage
          \<and> obsv_metric obs = metric \<and> counted (Some obs) latest"
  shows "counted (get_observation (record_samples identity samples s) (ic_tenant_id identity) k stage metric)
     (rev (map snd samples) @ latest)"
  using assms
proof (induction samples arbitrary: s latest)
  case Nil
  then show ?case by (auto simp: counted_def split: option.splits)
next
  case (Cons sample samples)
  obtain amb c where sample: "sample = (amb, c)" by fastforce
  with Cons.prems(4) have c: "ro_deployment_id c = k" "ro_stage c = stage" "ro_metric c = metric" by auto
  from record_observation_counts [OF Cons.prems(1-3) c Cons.prems(5), of amb "amb_ids amb 0"] obtain obs s' where
      s': "record_observation amb (amb_ids amb 0) identity c s = (Inr obs, s')"
        "get_observation s' (ic_tenant_id identity) k stage metric = Some obs"
        "obsv_tenant_id obs = ic_tenant_id identity \<and> obsv_deployment_id obs = k \<and> obsv_stage obs = stage
           \<and> obsv_metric obs = metric \<and> counted (Some obs) (c # latest)" "deployments s' = deployments s" by blast
  have "get_deployment s' (ic_tenant_id identity) k = Inr d" using Cons.prems(1) s'(4) by (simp add: get_deployment_def)
  from Cons.IH [OF this Cons.prems(2,3), of "c # latest"] Cons.prems(4) s' sample show ?case by simp
qed

lemma takeWhile_run: "n \<le> length (takeWhile P xs) \<longleftrightarrow> n \<le> length xs \<and> (\<forall>x\<in>set (take n xs). P x)"
proof (induction xs arbitrary: n)
  case (Cons x xs)
  then show ?case by (cases n) auto
qed simp

text \<open>
  C29. The breach counter is the run of breaching samples at the end: recording samples of one metric one after another
  leaves their number and the length of that run in the observation, and the automatic rollback stays idle exactly when
  there are fewer than \<open>n\<close> samples or one of the last \<open>n\<close> did not breach.
\<close>

theorem breach_counter_is_trailing_run:
  assumes "get_deployment s (ic_tenant_id identity) k = Inr d" and "\<not> blank metric"
    and "get_observation s (ic_tenant_id identity) k (dep_status d) metric = None"
    and "\<forall>(amb, c)\<in>set samples. ro_deployment_id c = k \<and> ro_stage c = dep_status d \<and> ro_metric c = metric"
    and "samples \<noteq> []"
  shows "(\<exists>obs. get_observation (record_samples identity samples s) (ic_tenant_id identity) k (dep_status d) metric = Some obs
       \<and> obsv_sample_count obs = int (length samples)
       \<and> obsv_breach_count obs = int (length (takeWhile breaches (rev (map snd samples)))))
     \<and> (fst (rollback_if_breached amb identity k (dep_status d) metric (int n) (record_samples identity samples s)) = Inr None \<longleftrightarrow>
          \<not> (n \<le> length samples \<and> (\<forall>c\<in>set (take n (rev (map snd samples))). breaches c)))"
proof -
  let ?t = "record_samples identity samples s"
  from record_samples_counts [OF assms(1) refl assms(2,4), of "[]"] assms(3,5) obtain obs where
      obs: "get_observation ?t (ic_tenant_id identity) k (dep_status d) metric = Some obs"
        "obsv_sample_count obs = int (length samples)"
        "obsv_breach_count obs = int (length (takeWhile breaches (rev (map snd samples))))"
    by (auto simp: counted_def split: option.splits)
  have never: "fst (andThen m (\<lambda>x t. (Inr (Some x), t))) \<noteq> Inr None" for m :: "Deployment result \<times> evolution_store"
    by (cases m; cases "fst m") auto
  have "fst (rollback_if_breached amb identity k (dep_status d) metric (int n) ?t) = Inr None \<longleftrightarrow> obsv_breach_count obs < int n"
    using obs(1) never by (simp add: rollback_if_breached_def)
  moreover have "obsv_breach_count obs < int n \<longleftrightarrow> \<not> n \<le> length (takeWhile breaches (rev (map snd samples)))"
    using obs(3) by (simp add: not_le)
  ultimately show ?thesis using obs takeWhile_run [of n breaches "rev (map snd samples)"] by simp
qed

theorem breach_counter_is_trailing_run_witness:
  "\<exists>obs. get_observation (record_samples (demo_id 14) [(demo_amb 106 0, demo_sample 1), (demo_amb 0 1, demo_sample 9)]
       (demo_store [demo_approved] [demo_canary] [demo_trial] [demo_evaluation] [] [])) 1 105 DS_CANARY ''m'' = Some obs
     \<and> obsv_sample_count obs = 2 \<and> obsv_breach_count obs = 1"
proof -
  let ?s = "demo_store [demo_approved] [demo_canary] [demo_trial] [demo_evaluation] [] []"
  have d: "get_deployment ?s (ic_tenant_id (demo_id 14)) 105 = Inr demo_canary" "\<not> blank ''m''"
    "get_observation ?s (ic_tenant_id (demo_id 14)) 105 (dep_status demo_canary) ''m'' = None"
    "\<forall>(amb, c)\<in>set [(demo_amb 106 0, demo_sample 1), (demo_amb 0 1, demo_sample 9)].
       ro_deployment_id c = 105 \<and> ro_stage c = dep_status demo_canary \<and> ro_metric c = ''m''"
    by (simp_all add: demo_records evo_lookups get_observation_def py_isspace_def code_point_def)
  from breach_counter_is_trailing_run [OF d, of "demo_amb 0 2" 2] show ?thesis
    by (simp add: demo_id_def demo_canary_def demo_sample_def breaches_def)
qed

end
