(* ===== verification/Json_Termination.thy ===== *)
theory Json_Termination
  imports Json
begin

text \<open>
  The reader of canonical JSON never stops for lack of fuel: every parser consumes what it accepts, and the fuel that
  \<open>loads\<close> provides is enough for the nesting any text can have.
\<close>

subsection \<open>What is accepted is consumed\<close>

lemma skip_ws_length: "length (skip_ws s) \<le> length s"
  by (simp add: skip_ws_def length_dropWhile_le)

lemma parse_string_consumes: "parse_string s = Some (t, r) \<Longrightarrow> length r < length s"
proof (induction s arbitrary: t r rule: length_induct)
  case (1 s)
  note IH = 1(1) [rule_format]
  show ?case
  proof (cases s)
    case (Cons c s0)
    have rec: "length z < length u" if "parse_string u = Some (x, z)" "length u < length s" for u x z
      using IH [OF that(2,1)] .
    from 1(2) Cons show ?thesis
      by (auto split: if_splits list.splits option.splits simp: Let_def) (drule rec, simp, simp)+
  qed (use 1(2) in simp)
qed


lemma startswith_length: "startswith s p \<Longrightarrow> length p \<le> length s"
  unfolding startswith_def by (metis length_take min.cobounded1 min_def nat_le_linear order_refl)

lemma parse_number_consumes: "parse_number s = Some (v, r) \<Longrightarrow> length r < length s"
proof -
  assume a: "parse_number s = Some (v, r)"
  define s0 where "s0 = (case s of c # r \<Rightarrow> if c = CHR ''-'' then r else s | [] \<Rightarrow> s)"
  define ds where "ds = (case s0 of c # r \<Rightarrow> if c = CHR ''0'' then [c] else takeWhile is_digit s0 | [] \<Rightarrow> [])"
  have s0: "length s0 \<le> length s" by (auto simp: s0_def split: list.splits)
  have sign: "(case s of c # r \<Rightarrow> if c = CHR ''-'' then (''-'', r) else ([], s) | [] \<Rightarrow> ([], s))
      = (if s0 = s then [] else ''-'', s0)"
    by (auto simp: s0_def split: list.splits)
  from a have "ds \<noteq> []" "length r \<le> length s0 - length ds"
    by (auto simp: parse_number_def sign Let_def ds_def [symmetric] split: if_splits)
  moreover from this(1) have "s0 \<noteq> []" by (auto simp: ds_def)
  ultimately show "length r < length s" using s0 by (cases ds; cases s0) auto
qed

lemma parse_literal_consumes: "parse_literal s = Some (v, r) \<Longrightarrow> length r < length s"
  by (auto simp: parse_literal_def parse_number_consumes split: if_splits dest!: startswith_length)


lemma skip_ws_Cons: "skip_ws u = c # q \<Longrightarrow> length q < length u"
  using skip_ws_length [of u] by simp

lemma parse_consumes:
  "parse_value n s = Some (v, r) \<Longrightarrow> length r < length s"
  "parse_elements n s = Some (vs, r) \<Longrightarrow> length r < length s"
  "parse_members n s = Some (kvs, r) \<Longrightarrow> length r < length s"
proof (induction n arbitrary: s v r vs kvs)
  case (Suc n)
  have val: "length z < length u" if "parse_value n u = Some (x, z)" for x z u using Suc.IH(1) [OF that] .
  have elements: "length z < length u" if "parse_elements n w = Some (x, z)" "skip_ws u = w" for x z u w
    using Suc.IH(2) [OF that(1)] that(2) skip_ws_length [of u] by auto
  have members: "length z < length u" if "parse_members n w = Some (x, z)" "skip_ws u = w" for x z u w
    using Suc.IH(3) [OF that(1)] that(2) skip_ws_length [of u] by auto
  {
    case 1
    then show ?case
      by (cases s) (auto split: list.splits if_splits intro: less_SucI
        dest: parse_string_consumes parse_literal_consumes skip_ws_Cons elements members)
  next
    case 2
    then obtain x u where x: "parse_value n s = Some (x, u)" by (auto split: option.splits)
    then have "length u < length s" by (rule val)
    with 2 x show ?case
      by (auto split: list.splits if_splits dest!: skip_ws_Cons elements [OF _ refl])
  next
    case 3
    then obtain s0 k u u1 x u2 where s: "s = CHR 34 # s0" "parse_string s0 = Some (k, u)" "skip_ws u = CHR '':'' # u1"
        "parse_value n (skip_ws u1) = Some (x, u2)"
      by (auto split: option.splits list.splits if_splits)
    have "length u2 < length s"
      using parse_string_consumes [OF s(2)] skip_ws_Cons [OF s(3)] val [OF s(4)] skip_ws_length [of u1] s(1) by simp
    with 3 s show ?case
      by (auto split: list.splits if_splits dest!: skip_ws_Cons members [OF _ refl])
  }
qed simp_all

subsection \<open>Enough fuel\<close>

lemma parse_fuel:
  "2 * length s + 1 \<le> n \<Longrightarrow> 2 * length s + 1 \<le> m \<Longrightarrow> parse_value n s = parse_value m s"
  "2 * length s + 2 \<le> n \<Longrightarrow> 2 * length s + 2 \<le> m \<Longrightarrow> parse_elements n s = parse_elements m s"
  "2 * length s + 2 \<le> n \<Longrightarrow> 2 * length s + 2 \<le> m \<Longrightarrow> parse_members n s = parse_members m s"
proof (induction n arbitrary: s m)
  case (Suc n)
  {
    case 1
    then obtain k where k: "m = Suc k" by (cases m) auto
    show ?case
    proof (cases s)
      case (Cons c u)
      have "2 * length (skip_ws u) + 2 \<le> n" "2 * length (skip_ws u) + 2 \<le> k"
        using 1 k Cons skip_ws_length [of u] by auto
      from Suc.IH(2) [OF this] Suc.IH(3) [OF this] show ?thesis by (cases "skip_ws u") (auto simp: k Cons)
    qed (simp add: k)
  next
    case 2
    then obtain k where k: "m = Suc k" by (cases m) auto
    have "parse_value n s = parse_value k s" using Suc.IH(1) [of s k] 2 k by simp
    moreover have "parse_elements n (skip_ws q) = parse_elements k (skip_ws q)"
      if "parse_value k s = Some (v, r)" "skip_ws r = c # q" for v r c q
      using Suc.IH(2) [of "skip_ws q" k] 2 k parse_consumes(1) [OF that(1)] skip_ws_Cons [OF that(2)] skip_ws_length [of q] by simp
    ultimately show ?case by (simp add: k split: option.splits list.splits)
  next
    case 3
    then obtain k where k: "m = Suc k" by (cases m) auto
    show ?case
    proof (cases s)
      case (Cons c s0)
      have "parse_value n (skip_ws r1) = parse_value k (skip_ws r1)"
        if "parse_string s0 = Some (t, r)" "skip_ws r = d # r1" for t r d r1
        using Suc.IH(1) [of "skip_ws r1" k] 3 k Cons parse_string_consumes [OF that(1)] skip_ws_Cons [OF that(2)]
          skip_ws_length [of r1] by simp
      moreover have "parse_members n (skip_ws r3) = parse_members k (skip_ws r3)"
        if "parse_string s0 = Some (t, r)" "skip_ws r = d # r1" "parse_value k (skip_ws r1) = Some (v, r2)" "skip_ws r2 = e # r3"
        for t r d r1 v r2 e r3
        using Suc.IH(3) [of "skip_ws r3" k] 3 k Cons parse_string_consumes [OF that(1)] skip_ws_Cons [OF that(2)]
          skip_ws_length [of r1] parse_consumes(1) [OF that(3)] skip_ws_Cons [OF that(4)] skip_ws_length [of r3] by simp
      ultimately show ?thesis by (simp add: k Cons split: option.splits list.splits)
    qed (simp add: k)
  }
qed simp_all

lemma loads_any_fuel:
  assumes "2 * length s + 2 \<le> n"
  shows "loads s = (case parse_value n (skip_ws s) of None \<Rightarrow> None | Some (v, r) \<Rightarrow> if skip_ws r = [] then Some v else None)"
proof -
  have "parse_value (2 * length s + 2) (skip_ws s) = parse_value n (skip_ws s)"
    using assms skip_ws_length [of s] by (intro parse_fuel(1)) auto
  then show ?thesis by (simp only: loads_def)
qed

lemma forE_Inl: "forE f xs = Inl e \<Longrightarrow> \<exists>x\<in>set xs. f x = Inl e"
  by (induction xs) (auto simp: result_simps)

lemma validate_json_message: "validate_json d x \<noteq> Inl (ValueError ''canonical JSON is invalid'')"
proof (induction d x rule: validate_json.induct)
  case (1 d x)
  show ?case
  proof (cases x)
    case (JList xs)
    with 1 show ?thesis by (subst validate_json.simps) (auto dest!: forE_Inl)
  next
    case (JObj kvs)
    with 1 show ?thesis by (subst validate_json.simps) (auto dest!: forE_Inl simp: result_simps)
  qed (subst validate_json.simps, simp split: float_lit.splits)+
qed



end
