(* ===== verification/Json_Equality.thy ===== *)
theory Json_Equality
  imports Json
begin

text \<open>
  Python's \<open>==\<close> on JSON documents, by which the store of packs compares the contents of two manifests and the
  deterministic grader compares an output with the expected one.
\<close>

text \<open>
  \<open>==\<close> on documents: Booleans are the numbers zero and one, a float whose text ends in \<open>.0\<close> equals the whole number it
  shows, dictionaries are compared without order. Other floats are compared by their text.
\<close>

definition whole_number :: "json \<Rightarrow> int option" where
  "whole_number v = (case v of
     JBool b \<Rightarrow> Some (if b then 1 else 0)
   | JInt i \<Rightarrow> Some i
   | JFloat (Finite_Repr r) \<Rightarrow>
       (let sign = (r \<noteq> [] \<and> hd r = CHR ''-''); digits = (if sign then tl r else r); n = length digits - 2 in
        if 2 < length digits \<and> drop n digits = ''.0'' \<and> list_all is_digit (take n digits)
        then Some ((if sign then -1 else 1) * int (nat_of_digits (take n digits))) else None)
   | _ \<Rightarrow> None)"

fun py_eq :: "json \<Rightarrow> json \<Rightarrow> bool" where
  "py_eq (JList xs) (JList ys) = list_all2 py_eq xs ys"
| "py_eq (JObj kvs) (JObj kvs') = (length kvs = length kvs'
     \<and> list_all (\<lambda>(k, v). list_ex (\<lambda>(k', v'). k' = k \<and> py_eq v v') kvs') kvs)"
| "py_eq a b = (a = b \<or> (whole_number a \<noteq> None \<and> whole_number a = whole_number b))"

declare py_eq.simps [simp del]

lemma py_eq_refl: "py_eq v v"
proof (induction v)
  case (JList xs)
  then show ?case by (simp add: py_eq.simps list_all2_same)
next
  case (JObj kvs)
  have "list_ex (\<lambda>(k', v'). k' = k \<and> py_eq v v') kvs" if "(k, v) \<in> set kvs" for k v
    using that JObj [of "(k, v)" v] by (auto simp: list_ex_iff)
  then show ?case by (auto simp: py_eq.simps list_all_iff)
qed (simp_all add: py_eq.simps)

end
