(* ===== verification/Harness.thy ===== *)
theory Harness
  imports Evaluation Json_Equality
begin

text \<open>
  The evaluation harness of \<open>packages/evaluation/src/autonoesis_evaluation\<close>: the ordered, identity-separated
  grader pipeline (\<open>pipeline.py\<close>), the views of suites that keep protected cases from generators
  (\<open>suite_access.py\<close>) and the run of a suite against a fixed subject version (\<open>__init__.py\<close>). Subject executors and
  graders are arguments that return a value or raise; the trial identifier and the two readings of the clock are
  arguments too. \<open>sum\<close> of floats is \<open>fl_sum\<close> of the numerics.
\<close>

subsection \<open>The grader pipeline\<close>

type_synonym payload = "(string \<times> json) list"
type_synonym grader = "EvaluationCase \<Rightarrow> payload \<Rightarrow> GraderResult result"

record GraderAssessment =
  ga_status :: GraderStatus
  ga_score :: "rat option"
  ga_rationale :: string
  ga_evidence_refs :: "string list"

record IndependentGrader =
  ig_kind :: GraderKind
  ig_grader_id :: string
  ig_grader_version :: string
  ig_backend :: "EvaluationCase \<Rightarrow> payload \<Rightarrow> GraderAssessment result"

definition IndependentGrader_post_init :: "IndependentGrader \<Rightarrow> IndependentGrader result" where
  "IndependentGrader_post_init self =
     thenE (raise_if (ig_grader_id self = [] \<or> ig_grader_version self = [])
        (ValueError ''independent grader requires identity and version'')) (Inr self)"

definition IndependentGrader_grade :: "IndependentGrader \<Rightarrow> grader" where
  "IndependentGrader_grade self c actual_output =
     bindE (ig_backend self c actual_output) (\<lambda>assessment.
     GraderResult_post_init \<lparr>gr_trial_id = 0, gr_grader_id = ig_grader_id self, gr_grader_version = ig_grader_version self,
       gr_score = ga_score assessment,
       gr_passed = (case ga_status assessment of GS_PASS \<Rightarrow> Some True | GS_FAIL \<Rightarrow> Some False | _ \<Rightarrow> None),
       gr_rationale = ga_rationale assessment, gr_evidence_refs = ga_evidence_refs assessment,
       gr_status = Some (ga_status assessment), gr_kind = ig_kind self\<rparr>)"

text \<open>
  \<open>DeterministicGrader\<close>: every expected entry equals the entry of the output, a missing one being \<open>None\<close>. Its identifier
  is drawn from \<open>uuid4\<close>.
\<close>

definition DeterministicGrader_grade :: "uuid \<Rightarrow> grader" where
  "DeterministicGrader_grade trial c actual_output =
     (let passed = list_all (\<lambda>(key, expected). py_eq (case map_of actual_output key of Some v \<Rightarrow> v | None \<Rightarrow> JNull) expected)
        (case_expected_outcome c) in
      GraderResult_post_init \<lparr>gr_trial_id = trial, gr_grader_id = ''deterministic'', gr_grader_version = ''1'',
        gr_score = Some (if passed then 1 else 0), gr_passed = Some passed,
        gr_rationale = ''exact match check: '' @ (if passed then ''True'' else ''False''), gr_evidence_refs = [case_id c],
        gr_status = None, gr_kind = GK_DETERMINISTIC\<rparr>)"

fun GraderKind_value :: "GraderKind \<Rightarrow> string" where
  "GraderKind_value GK_DETERMINISTIC = ''deterministic''"
| "GraderKind_value GK_OUTCOME = ''outcome''"
| "GraderKind_value GK_TRAJECTORY = ''trajectory''"
| "GraderKind_value GK_LLM = ''llm''"
| "GraderKind_value GK_HUMAN = ''human''"

fun GraderStatus_value :: "GraderStatus \<Rightarrow> string" where
  "GraderStatus_value GS_PASS = ''pass''"
| "GraderStatus_value GS_FAIL = ''fail''"
| "GraderStatus_value GS_UNKNOWN = ''unknown''"
| "GraderStatus_value GS_INVALID = ''invalid''"

fun PRIORITY :: "GraderKind \<Rightarrow> nat" where
  "PRIORITY GK_DETERMINISTIC = 0"
| "PRIORITY GK_OUTCOME = 1"
| "PRIORITY GK_TRAJECTORY = 2"
| "PRIORITY GK_LLM = 3"
| "PRIORITY GK_HUMAN = 4"

record GraderStage =
  stage_kind :: GraderKind
  stage_grader :: grader

definition GraderPipeline_post_init :: "GraderStage list \<Rightarrow> GraderStage list result" where
  "GraderPipeline_post_init stages = (let kinds = map stage_kind stages in
     thenE (raise_if (stages = []) (ValueError ''grader pipeline requires at least one stage''))
    (thenE (raise_if (\<not> distinct kinds) (ValueError ''grader pipeline cannot repeat a stage kind''))
    (thenE (raise_if (sort_key PRIORITY kinds \<noteq> kinds) (ValueError ''grader stages must follow governance priority order''))
       (Inr stages))))"

fun pipeline_from :: "string list \<Rightarrow> GraderStage list \<Rightarrow> EvaluationCase \<Rightarrow> payload \<Rightarrow> GraderResult list result" where
  "pipeline_from identities [] c actual_output = Inr []"
| "pipeline_from identities (stage # stages) c actual_output =
     bindE (stage_grader stage c actual_output) (\<lambda>r.
     thenE (raise_if (gr_kind r \<noteq> stage_kind stage)
        (ValueError (''grader '' @ gr_grader_id r @ '' returned '' @ GraderKind_value (gr_kind r) @ '' for ''
           @ GraderKind_value (stage_kind stage) @ '' stage'')))
    (thenE (raise_if (gr_grader_id r \<in> set identities)
        (PermissionError ''grader identities must be distinct across pipeline stages''))
    (if gr_status r \<noteq> Some GS_PASS then Inr [r]
     else bindE (pipeline_from (gr_grader_id r # identities) stages c actual_output) (\<lambda>rs. Inr (r # rs)))))"

definition pipeline_grade :: "GraderStage list \<Rightarrow> EvaluationCase \<Rightarrow> payload \<Rightarrow> GraderResult list result" where
  "pipeline_grade stages = pipeline_from [] stages"

subsection \<open>Access to suites\<close>

datatype SuiteAccessRole = CANDIDATE_GENERATOR | EVALUATION_HARNESS

record SuiteAccessContext =
  sac_principal_id :: uuid
  sac_roles :: "SuiteAccessRole list"

record PublicCaseDescriptor =
  pcd_case_id :: string
  pcd_tags :: "string list"
  pcd_weight :: rat
  pcd_gating :: bool

record GeneratorSuiteView =
  gsv_suite_id :: string
  gsv_version :: string
  gsv_pass_threshold :: rat
  gsv_public_cases :: "PublicCaseDescriptor list"
  gsv_protected_case_count :: int

record HarnessSuite =
  hs_suite :: EvaluationSuite
  hs_loaded_by :: uuid

type_synonym suite_catalog = "((string \<times> string) \<times> EvaluationSuite) list"

definition EvaluationSuiteCatalog_init :: "EvaluationSuite list \<Rightarrow> suite_catalog result" where
  "EvaluationSuiteCatalog_init suites =
     (let index = fold (\<lambda>s. AList.update (suite_id s, suite_version s) s) suites [] in
      thenE (raise_if (length index \<noteq> length suites) (ValueError ''evaluation suites require unique id and version''))
        (Inr index))"

definition catalog_get :: "suite_catalog \<Rightarrow> string \<Rightarrow> string \<Rightarrow> EvaluationSuite result" where
  "catalog_get self key version = (case map_of self (key, version) of
     Some suite \<Rightarrow> Inr suite
   | None \<Rightarrow> Inl (KeyError (''evaluation suite not found: '' @ key @ ''@'' @ version)))"

definition public_descriptors :: "EvaluationCase list \<Rightarrow> PublicCaseDescriptor list" where
  "public_descriptors cs = map (\<lambda>c. \<lparr>pcd_case_id = case_id c, pcd_tags = case_tags c, pcd_weight = case_weight c,
     pcd_gating = case_gating c\<rparr>) (filter (\<lambda>c. case_visibility c = CV_PUBLIC) cs)"

definition describe_for_generator :: "suite_catalog \<Rightarrow> string \<Rightarrow> string \<Rightarrow> GeneratorSuiteView result" where
  "describe_for_generator self key version =
     bindE (catalog_get self key version) (\<lambda>suite.
     let public_cases = public_descriptors (suite_cases suite) in
     Inr \<lparr>gsv_suite_id = suite_id suite, gsv_version = suite_version suite, gsv_pass_threshold = suite_pass_threshold suite,
       gsv_public_cases = public_cases,
       gsv_protected_case_count = int (length (suite_cases suite)) - int (length public_cases)\<rparr>)"

definition load_for_harness :: "suite_catalog \<Rightarrow> string \<Rightarrow> string \<Rightarrow> SuiteAccessContext \<Rightarrow> HarnessSuite result" where
  "load_for_harness self key version access =
     thenE (raise_if (CANDIDATE_GENERATOR \<in> set (sac_roles access))
        (PermissionError ''candidate generator cannot read protected evaluation cases''))
    (thenE (raise_if (EVALUATION_HARNESS \<notin> set (sac_roles access))
        (PermissionError ''evaluation harness role is required''))
    (bindE (catalog_get self key version) (\<lambda>suite.
       Inr \<lparr>hs_suite = suite, hs_loaded_by = sac_principal_id access\<rparr>)))"

subsection \<open>The harness\<close>

record SubjectExecutionResult =
  ser_subject_version_id :: uuid
  ser_output_payload :: payload
  ser_executor_id :: string
  ser_evidence_refs :: "string list"
  ser_environment_ref :: string
  ser_model_ref :: "string option"
  ser_tool_refs :: "string list"
  ser_cost_microunits :: int

definition SubjectExecutionResult_post_init :: "SubjectExecutionResult \<Rightarrow> SubjectExecutionResult result" where
  "SubjectExecutionResult_post_init self =
     thenE (raise_if (ser_executor_id self = [] \<or> ser_evidence_refs self = [] \<or> ser_environment_ref self = [])
        (ValueError ''subject execution requires executor, evidence, and environment''))
    (thenE (raise_if (ser_cost_microunits self < 0) (ValueError ''subject execution cost cannot be negative''))
       (Inr self))"

type_synonym subject_executor = "uuid \<Rightarrow> payload \<Rightarrow> int \<Rightarrow> SubjectExecutionResult result"

record EvaluationHarness =
  eh_subject_executor :: "subject_executor option"
  eh_grader_pipeline :: "GraderStage list option"
  eh_harness_version :: string

definition GRADER_KINDS :: "GraderKind list" where
  "GRADER_KINDS = [GK_DETERMINISTIC, GK_OUTCOME, GK_TRAJECTORY, GK_LLM, GK_HUMAN]"

definition known_kind :: "string \<Rightarrow> GraderKind" where
  "known_kind name = (case find (\<lambda>k. GraderKind_value k = name) GRADER_KINDS of Some k \<Rightarrow> k | None \<Rightarrow> GK_DETERMINISTIC)"

definition EvaluationHarness_init ::
  "subject_executor option \<Rightarrow> (string \<times> grader) list \<Rightarrow> GraderStage list option \<Rightarrow> string \<Rightarrow> EvaluationHarness result" where
  "EvaluationHarness_init executor graders grader_pipeline harness_version =
     thenE (raise_if (grader_pipeline \<noteq> None \<and> graders \<noteq> [])
        (ValueError ''configure grader_pipeline or legacy graders, not both''))
    (bindE (case grader_pipeline of
         Some p \<Rightarrow> Inr (Some p)
       | None \<Rightarrow> if graders \<noteq> [] then bindE (GraderPipeline_post_init
             (map (\<lambda>(name, g). \<lparr>stage_kind = known_kind name, stage_grader = g\<rparr>) graders)) (\<lambda>p. Inr (Some p))
           else Inr None) (\<lambda>p.
     Inr \<lparr>eh_subject_executor = executor, eh_grader_pipeline = p, eh_harness_version = harness_version\<rparr>))"

definition sum_costs :: "TrialCaseResult list \<Rightarrow> int" where
  "sum_costs rs = sum_list (map tcr_cost_microunits rs)"

definition invalid_trial ::
  "EvaluationHarness \<Rightarrow> uuid \<Rightarrow> int \<Rightarrow> int \<Rightarrow> EvaluationSuite \<Rightarrow> uuid \<Rightarrow> uuid \<Rightarrow> int \<Rightarrow> string \<Rightarrow> TrialCaseResult list \<Rightarrow> Trial result" where
  "invalid_trial self trial started_at completed_at suite subject tenant_id random_seed reason case_results =
     Trial_post_init \<lparr>trial_tenant_id = tenant_id, trial_suite_id = suite_id suite, trial_suite_version = suite_version suite,
       trial_subject_version_id = subject, trial_harness_version = eh_harness_version self, trial_id = trial,
       trial_status = TS_INVALID, trial_random_seed = Some random_seed, trial_case_results = case_results,
       trial_total_cost_microunits = sum_costs case_results, trial_failure_reason = Some reason,
       trial_started_at = Some (Aware started_at), trial_completed_at = Some (Aware completed_at),
       trial_candidate_id = None\<rparr>"

text \<open>The result of a case whose subject was not executed, and of one that was.\<close>

definition unexecuted_case :: "EvaluationCase \<Rightarrow> int \<Rightarrow> string \<Rightarrow> TrialCaseResult result" where
  "unexecuted_case c case_seed reason =
     TrialCaseResult_post_init \<lparr>tcr_case_id = case_id c, tcr_input_payload = case_input_payload c, tcr_output_payload = None,
       tcr_subject_executed = False, tcr_grader_results = [], tcr_evidence_refs = [], tcr_executor_id = None,
       tcr_environment_ref = None, tcr_model_ref = None, tcr_tool_refs = [], tcr_random_seed = Some case_seed,
       tcr_cost_microunits = 0, tcr_failure_reason = Some reason\<rparr>"

definition executed_case ::
  "EvaluationCase \<Rightarrow> int \<Rightarrow> SubjectExecutionResult \<Rightarrow> GraderResult list \<Rightarrow> string option \<Rightarrow> TrialCaseResult result" where
  "executed_case c case_seed execution grader_results failure_reason =
     TrialCaseResult_post_init \<lparr>tcr_case_id = case_id c, tcr_input_payload = case_input_payload c,
       tcr_output_payload = Some (ser_output_payload execution), tcr_subject_executed = True,
       tcr_grader_results = grader_results, tcr_evidence_refs = ser_evidence_refs execution,
       tcr_executor_id = Some (ser_executor_id execution), tcr_environment_ref = Some (ser_environment_ref execution),
       tcr_model_ref = ser_model_ref execution, tcr_tool_refs = ser_tool_refs execution, tcr_random_seed = Some case_seed,
       tcr_cost_microunits = ser_cost_microunits execution, tcr_failure_reason = failure_reason\<rparr>"

text \<open>
  One pass of the loop over the cases: the result of the case, and the reason why the trial is invalid if it ends here.
\<close>

definition run_case ::
  "subject_executor \<Rightarrow> GraderStage list \<Rightarrow> uuid \<Rightarrow> uuid \<Rightarrow> int \<Rightarrow> EvaluationCase \<Rightarrow> (TrialCaseResult \<times> string option) result" where
  "run_case execute pipeline trial subject case_seed c =
     (case execute subject (case_input_payload c) case_seed of
        Inl exc \<Rightarrow> let reason = ''subject execution failed: '' @ error_name exc @ '': '' @ error_text exc in
          bindE (unexecuted_case c case_seed reason) (\<lambda>r. Inr (r, Some reason))
      | Inr execution \<Rightarrow>
          if ser_subject_version_id execution \<noteq> subject then
            let reason = ''executor returned output from a different subject version'' in
            bindE (unexecuted_case c case_seed reason) (\<lambda>r. Inr (r, Some reason))
          else
          (case bindE (pipeline_grade pipeline c (ser_output_payload execution))
               (mapE (\<lambda>grade. GraderResult_post_init (grade\<lparr>gr_trial_id := trial\<rparr>))) of
             Inl exc \<Rightarrow> let reason = ''grader execution failed: '' @ error_name exc @ '': '' @ error_text exc in
               bindE (executed_case c case_seed execution [] (Some reason)) (\<lambda>r. Inr (r, Some reason))
           | Inr grader_results \<Rightarrow>
               bindE (executed_case c case_seed execution grader_results None) (\<lambda>r. Inr (r, None))))"

fun run_cases ::
  "subject_executor \<Rightarrow> GraderStage list \<Rightarrow> uuid \<Rightarrow> uuid \<Rightarrow> int \<Rightarrow> EvaluationCase list \<Rightarrow> (TrialCaseResult list \<times> string option) result" where
  "run_cases execute pipeline trial subject case_seed [] = Inr ([], None)"
| "run_cases execute pipeline trial subject case_seed (c # cs) =
     bindE (run_case execute pipeline trial subject case_seed c) (\<lambda>(r, stop).
     case stop of
       Some reason \<Rightarrow> Inr ([r], Some reason)
     | None \<Rightarrow> bindE (run_cases execute pipeline trial subject (case_seed + 1) cs) (\<lambda>(rs, stop). Inr (r # rs, stop)))"

definition identity_conflict :: "TrialCaseResult list \<Rightarrow> string option" where
  "identity_conflict rs = find (\<lambda>_. True) (concat (map (\<lambda>r. map gr_grader_id
     (filter (\<lambda>g. Some (gr_grader_id g) = tcr_executor_id r) (tcr_grader_results r))) rs))"

definition uncertain :: "TrialCaseResult list \<Rightarrow> GraderResult option" where
  "uncertain rs = find (\<lambda>g. gr_status g \<in> {Some GS_UNKNOWN, Some GS_INVALID}) (concat (map tcr_grader_results rs))"

definition case_passes :: "TrialCaseResult \<Rightarrow> bool" where
  "case_passes r = (tcr_grader_results r \<noteq> [] \<and> list_all (\<lambda>g. gr_status g = Some GS_PASS) (tcr_grader_results r))"

definition suite_status :: "numerics \<Rightarrow> EvaluationSuite \<Rightarrow> TrialCaseResult list \<Rightarrow> TrialStatus result" where
  "suite_status num suite rs =
     (let graded = zip (suite_cases suite) (map case_passes rs);
        gating_failed = list_ex (\<lambda>(c, passed). case_gating c \<and> \<not> passed) graded;
        total_weight = fl_sum num (map case_weight (suite_cases suite));
        passed_weight = fl_sum num (map (\<lambda>(c, _). case_weight c) (filter snd graded)) in
      if gating_failed then Inr TS_FAILED
      else if total_weight = 0 then Inl (OtherError ''ZeroDivisionError'' ''division by zero'')
      else Inr (if suite_pass_threshold suite \<le> fl_div num passed_weight total_weight then TS_PASSED else TS_FAILED))"

datatype suite_input = Plain_suite EvaluationSuite | Loaded_suite HarnessSuite

fun resolved_suite :: "suite_input \<Rightarrow> EvaluationSuite" where
  "resolved_suite (Plain_suite s) = s"
| "resolved_suite (Loaded_suite h) = hs_suite h"

fun protected_plain :: "suite_input \<Rightarrow> bool" where
  "protected_plain (Plain_suite s) = list_ex (\<lambda>c. case_visibility c \<noteq> CV_PUBLIC) (suite_cases s)"
| "protected_plain (Loaded_suite _) = False"

definition run_suite ::
  "numerics \<Rightarrow> EvaluationHarness \<Rightarrow> uuid \<Rightarrow> int \<Rightarrow> int \<Rightarrow> suite_input \<Rightarrow> uuid \<Rightarrow> uuid \<Rightarrow> int \<Rightarrow> Trial result" where
  "run_suite num self trial started_at completed_at input subject tenant_id random_seed =
     (let suite = resolved_suite input;
        invalid = invalid_trial self trial started_at completed_at suite subject tenant_id random_seed in
      if protected_plain input then invalid ''protected suite must be loaded through the evaluation catalog'' []
      else case eh_subject_executor self of
        None \<Rightarrow> invalid ''subject executor is not configured'' []
      | Some execute \<Rightarrow>
        (case eh_grader_pipeline self of
           None \<Rightarrow> invalid ''no independent grader is configured'' []
         | Some pipeline \<Rightarrow>
           bindE (run_cases execute pipeline trial subject random_seed (suite_cases suite)) (\<lambda>(rs, stop).
           case stop of Some reason \<Rightarrow> invalid reason rs
           | None \<Rightarrow>
             (case identity_conflict rs of
                Some grader \<Rightarrow> invalid (''subject executor and grader share identity: '' @ grader) rs
              | None \<Rightarrow>
                (case uncertain rs of
                   Some g \<Rightarrow> invalid (''grader returned '' @ GraderStatus_value
                       (case gr_status g of Some x \<Rightarrow> x | None \<Rightarrow> GS_UNKNOWN) @ '': '' @ gr_rationale g) rs
                 | None \<Rightarrow>
                   bindE (suite_status num suite rs) (\<lambda>status.
                   Trial_post_init \<lparr>trial_tenant_id = tenant_id, trial_suite_id = suite_id suite,
                     trial_suite_version = suite_version suite, trial_subject_version_id = subject,
                     trial_harness_version = eh_harness_version self, trial_id = trial,
                     trial_status = status, trial_random_seed = Some random_seed,
                     trial_case_results = rs, trial_total_cost_microunits = sum_costs rs, trial_failure_reason = None,
                     trial_started_at = Some (Aware started_at), trial_completed_at = Some (Aware completed_at),
                     trial_candidate_id = None\<rparr>))))))"

subsection \<open>What the pipeline returns\<close>

text \<open>
  The grades of one output: they follow the stages in order without gaps, come from different graders, every grade but
  the last passes, and when all pass every stage has graded.
\<close>

definition graded_in_order :: "GraderStage list \<Rightarrow> GraderResult list \<Rightarrow> bool" where
  "graded_in_order stages grades \<longleftrightarrow>
     map gr_kind grades = take (length grades) (map stage_kind stages) \<and> distinct (map gr_grader_id grades)
     \<and> list_all (\<lambda>g. gr_status g = Some GS_PASS) (butlast grades)
     \<and> (list_all (\<lambda>g. gr_status g = Some GS_PASS) grades \<longrightarrow> length grades = length stages)"

lemma pipeline_from_grades:
  assumes "pipeline_from identities stages c out = Inr grades"
  shows "graded_in_order stages grades \<and> (\<forall>g \<in> set grades. gr_grader_id g \<notin> set identities)
    \<and> (stages \<noteq> [] \<longrightarrow> grades \<noteq> [])"
  using assms
proof (induction identities stages c out arbitrary: grades rule: pipeline_from.induct)
  case (2 identities stage stages c out)
  from 2(2) obtain r where r: "stage_grader stage c out = Inr r" "gr_kind r = stage_kind stage"
      "gr_grader_id r \<notin> set identities"
      and rest: "if gr_status r \<noteq> Some GS_PASS then grades = [r]
        else \<exists>rs. pipeline_from (gr_grader_id r # identities) stages c out = Inr rs \<and> grades = r # rs"
    by (auto simp: result_simps split: if_splits)
  show ?case
  proof (cases "gr_status r = Some GS_PASS")
    case False
    with r rest show ?thesis by (auto simp: graded_in_order_def)
  next
    case True
    with rest obtain rs where rs: "pipeline_from (gr_grader_id r # identities) stages c out = Inr rs" "grades = r # rs" by auto
    from 2(1) [OF r(1) _ _ _ rs(1)] r True show ?thesis by (auto simp: rs(2) graded_in_order_def)
  qed
qed (simp add: graded_in_order_def)

lemma GraderResult_post_init_keeps:
  "GraderResult_post_init g = Inr g' \<Longrightarrow> gr_status g \<noteq> None \<Longrightarrow> g' = g"
  by (auto simp: GraderResult_post_init_def result_simps Let_def split: if_splits)

lemma regrade:
  assumes "mapE (\<lambda>grade. GraderResult_post_init (grade\<lparr>gr_trial_id := trial\<rparr>)) grades = Inr gs"
    and "\<And>g. g \<in> set grades \<Longrightarrow> gr_status g \<noteq> None"
  shows "gs = map (\<lambda>g. g\<lparr>gr_trial_id := trial\<rparr>) grades"
  using assms
proof (induction grades arbitrary: gs)
  case (Cons g grades)
  then show ?case by (auto simp: result_simps dest: GraderResult_post_init_keeps)
qed simp

lemma pipeline_statuses:
  assumes "pipeline_from identities stages c out = Inr grades"
    and "\<And>s c out g. s \<in> set stages \<Longrightarrow> stage_grader s c out = Inr g \<Longrightarrow> gr_status g \<noteq> None"
    and "g \<in> set grades"
  shows "gr_status g \<noteq> None"
  using assms
proof (induction identities stages c out arbitrary: grades rule: pipeline_from.induct)
  case (2 identities stage stages c out)
  then show ?case by (fastforce simp: result_simps split: if_splits)
qed simp


subsection \<open>What a run of the suite records\<close>

text \<open>A grader of the pipeline returns constructed results, whose status is set.\<close>

definition constructed_graders :: "GraderStage list \<Rightarrow> bool" where
  "constructed_graders stages \<longleftrightarrow>
     (\<forall>s \<in> set stages. \<forall>c out g. stage_grader s c out = Inr g \<longrightarrow> gr_status g \<noteq> None)"

text \<open>The deterministic grader returns a constructed grade, which passes when the output is the expected one.\<close>

lemma DeterministicGrader_grades:
  "\<exists>g. DeterministicGrader_grade trial c out = Inr g \<and> gr_status g \<in> {Some GS_PASS, Some GS_FAIL} \<and> gr_kind g = GK_DETERMINISTIC"
  by (simp add: DeterministicGrader_grade_def GraderResult_post_init_def Let_def)

lemma DeterministicGrader_expected:
  assumes "distinct (map fst (case_expected_outcome c))"
  shows "\<exists>g. DeterministicGrader_grade trial c (case_expected_outcome c) = Inr g \<and> gr_status g = Some GS_PASS"
proof -
  have "list_all (\<lambda>(key, expected). py_eq (case map_of (case_expected_outcome c) key of Some v \<Rightarrow> v | None \<Rightarrow> JNull) expected)
      (case_expected_outcome c)"
    using assms by (auto simp: list_all_iff py_eq_refl)
  then show ?thesis by (simp add: DeterministicGrader_grade_def GraderResult_post_init_def)
qed

text \<open>
  The record of a case: the output of the fixed subject version on the input of the case under the given seed, graded in
  order by the pipeline.
\<close>

definition evaluated ::
  "subject_executor \<Rightarrow> GraderStage list \<Rightarrow> uuid \<Rightarrow> uuid \<Rightarrow> int \<Rightarrow> EvaluationCase \<Rightarrow> TrialCaseResult \<Rightarrow> bool" where
  "evaluated execute pipeline trial subject case_seed c r \<longleftrightarrow>
     (\<exists>execution. execute subject (case_input_payload c) case_seed = Inr execution
        \<and> ser_subject_version_id execution = subject
        \<and> tcr_output_payload r = Some (ser_output_payload execution) \<and> tcr_executor_id r = Some (ser_executor_id execution))
     \<and> tcr_case_id r = case_id c \<and> tcr_random_seed r = Some case_seed \<and> tcr_subject_executed r
     \<and> graded_in_order pipeline (tcr_grader_results r) \<and> (pipeline \<noteq> [] \<longrightarrow> tcr_grader_results r \<noteq> [])
     \<and> list_all (\<lambda>g. gr_trial_id g = trial) (tcr_grader_results r)"

lemma graded_in_order_trial:
  "graded_in_order stages (map (\<lambda>g. g\<lparr>gr_trial_id := trial\<rparr>) grades) = graded_in_order stages grades"
  by (simp add: graded_in_order_def comp_def list_all_iff map_butlast [symmetric])

lemma run_case_evaluated:
  assumes "run_case execute pipeline trial subject case_seed c = Inr (r, None)" and "constructed_graders pipeline"
  shows "evaluated execute pipeline trial subject case_seed c r"
proof -
  from assms(1) obtain execution gs where ex: "execute subject (case_input_payload c) case_seed = Inr execution"
      "ser_subject_version_id execution = subject"
      and gs: "bindE (pipeline_grade pipeline c (ser_output_payload execution))
               (mapE (\<lambda>grade. GraderResult_post_init (grade\<lparr>gr_trial_id := trial\<rparr>))) = Inr gs"
      and r: "executed_case c case_seed execution gs None = Inr r"
    by (auto simp: run_case_def result_simps Let_def split: sum.splits if_splits)
  from gs obtain grades where grades: "pipeline_from [] pipeline c (ser_output_payload execution) = Inr grades"
      and "mapE (\<lambda>grade. GraderResult_post_init (grade\<lparr>gr_trial_id := trial\<rparr>)) grades = Inr gs"
    by (auto simp: result_simps pipeline_grade_def)
  with regrade pipeline_statuses [OF grades] assms(2) have "gs = map (\<lambda>g. g\<lparr>gr_trial_id := trial\<rparr>) grades"
    by (metis constructed_graders_def)
  with pipeline_from_grades [OF grades] ex r show ?thesis
    by (auto simp: evaluated_def executed_case_def TrialCaseResult_post_init_def result_simps graded_in_order_trial list_all_iff)
qed

lemma run_cases_evaluated:
  assumes "run_cases execute pipeline trial subject case_seed cs = Inr (rs, None)" and "constructed_graders pipeline"
  shows "length rs = length cs
    \<and> (\<forall>i < length cs. evaluated execute pipeline trial subject (case_seed + int i) (cs ! i) (rs ! i))"
  using assms(1)
proof (induction cs arbitrary: case_seed rs)
  case (Cons c cs)
  then obtain r rs' where r: "run_case execute pipeline trial subject case_seed c = Inr (r, None)"
      and rs': "run_cases execute pipeline trial subject (case_seed + 1) cs = Inr (rs', None)" and rs: "rs = r # rs'"
    by (auto simp: result_simps split: option.splits)
  from run_case_evaluated [OF r assms(2)] Cons.IH [OF rs'] show ?case
    by (auto simp: rs nth_Cons less_Suc_eq_0_disj algebra_simps split: nat.splits)
qed simp

lemma identity_conflict_None:
  "identity_conflict rs = None \<longleftrightarrow> (\<forall>r \<in> set rs. \<forall>g \<in> set (tcr_grader_results r). tcr_executor_id r \<noteq> Some (gr_grader_id g))"
proof -
  have "find (\<lambda>_. True) xs = None \<longleftrightarrow> xs = []" for xs :: "string list" by (cases xs) auto
  then show ?thesis by (simp add: identity_conflict_def filter_empty_conv) metis
qed

lemma none_uncertain:
  "uncertain rs = None \<Longrightarrow> r \<in> set rs \<Longrightarrow> g \<in> set (tcr_grader_results r) \<Longrightarrow> gr_status g \<notin> {Some GS_UNKNOWN, Some GS_INVALID}"
  by (auto simp: uncertain_def find_None_iff)


lemma invalid_trial_Inr:
  "invalid_trial self trial started_at completed_at suite subject tenant_id seed reason rs = Inr t
     \<Longrightarrow> trial_status t = TS_INVALID \<and> trial_case_results t = rs \<and> trial_failure_reason t = Some reason \<and> reason \<noteq> []"
  by (auto simp: invalid_trial_def Trial_post_init_def missing_def result_simps)

text \<open>A trial that is not invalid comes from the end of the loop.\<close>

lemma run_suite_completed:
  assumes "run_suite num self trial started_at completed_at input subject tenant_id seed = Inr t" and "trial_status t \<noteq> TS_INVALID"
  obtains execute pipeline where "eh_subject_executor self = Some execute" "eh_grader_pipeline self = Some pipeline"
    "\<not> protected_plain input"
    "run_cases execute pipeline trial subject seed (suite_cases (resolved_suite input)) = Inr (trial_case_results t, None)"
    "identity_conflict (trial_case_results t) = None" "uncertain (trial_case_results t) = None"
    "suite_status num (resolved_suite input) (trial_case_results t) = Inr (trial_status t)"
proof -
  note invalid = invalid_trial_Inr [of self trial started_at completed_at "resolved_suite input" subject tenant_id seed _ _ t]
  from assms obtain execute pipeline where ep: "eh_subject_executor self = Some execute" "eh_grader_pipeline self = Some pipeline"
      "\<not> protected_plain input"
    by (auto simp: run_suite_def Let_def dest: invalid split: if_splits option.splits)
  with assms obtain rs stop where rs: "run_cases execute pipeline trial subject seed (suite_cases (resolved_suite input)) = Inr (rs, stop)"
    by (auto simp: run_suite_def Let_def result_simps)
  with assms ep have ends: "stop = None" "identity_conflict rs = None" "uncertain rs = None"
    by (auto simp: run_suite_def Let_def dest: invalid split: option.splits)
  with assms ep rs have "suite_status num (resolved_suite input) rs = Inr (trial_status t)" "trial_case_results t = rs"
    by (auto simp: run_suite_def Let_def result_simps Trial_post_init_def)
  with ep rs ends that show thesis by simp
qed

lemma suite_status_passed:
  assumes "suite_status num suite rs = Inr TS_PASSED" and "length rs = length (suite_cases suite)"
  shows "(\<forall>i < length rs. case_gating (suite_cases suite ! i) \<longrightarrow> case_passes (rs ! i))
    \<and> suite_pass_threshold suite \<le> fl_div num (fl_sum num (map (\<lambda>(c, r). case_weight c)
        (filter (\<lambda>(c, r). case_passes r) (zip (suite_cases suite) rs)))) (fl_sum num (map case_weight (suite_cases suite)))"
proof -
  have sel: "map (\<lambda>(c, _). case_weight c) (filter snd (zip cs (map case_passes rs)))
      = map (\<lambda>(c, r). case_weight c) (filter (\<lambda>(c, r). case_passes r) (zip cs rs))" for cs
    by (induction cs rs rule: list_induct2') auto
  from assms have gate: "list_all (\<lambda>(c, passed). case_gating c \<longrightarrow> passed) (zip (suite_cases suite) (map case_passes rs))"
    and weight: "suite_pass_threshold suite \<le> fl_div num (fl_sum num (map (\<lambda>(c, _). case_weight c)
        (filter snd (zip (suite_cases suite) (map case_passes rs))))) (fl_sum num (map case_weight (suite_cases suite)))"
    by (auto simp: suite_status_def Let_def list_ex_iff list_all_iff split: if_splits)
  have "case_passes (rs ! i)" if "i < length rs" "case_gating (suite_cases suite ! i)" for i
    using gate that assms(2) by (auto simp: list_all_length)
  with weight show ?thesis by (simp add: sel)
qed

text \<open>
  C31. A passed trial is a complete, independent evaluation of the subject version. When the harness returns a passed trial,
  each case of the suite was executed, in order, on the fixed subject version with the seed of its position; its output
  was graded by the stages of the pipeline in governance order, by different graders, none of which is the executor; no
  grade is unknown or invalid; a gating case was passed by every stage; and the weights of the passing cases reach the
  threshold of the suite. A suite with protected cases was loaded through the catalog.
\<close>

theorem passed_trial_sound:
  assumes "run_suite num self trial started_at completed_at input subject tenant_id seed = Inr t"
    and "trial_status t = TS_PASSED"
    and "eh_grader_pipeline self = Some pipeline" and "constructed_graders pipeline"
    and "GraderPipeline_post_init pipeline = Inr pipeline"
  defines "cases \<equiv> suite_cases (resolved_suite input)" and "rs \<equiv> trial_case_results t"
  shows "\<exists>execute. eh_subject_executor self = Some execute \<and> length rs = length cases
    \<and> (\<forall>i < length cases. evaluated execute pipeline trial subject (seed + int i) (cases ! i) (rs ! i)
        \<and> (\<forall>g \<in> set (tcr_grader_results (rs ! i)). tcr_executor_id (rs ! i) \<noteq> Some (gr_grader_id g)
             \<and> gr_status g \<notin> {Some GS_UNKNOWN, Some GS_INVALID})
        \<and> (case_gating (cases ! i) \<longrightarrow> map gr_kind (tcr_grader_results (rs ! i)) = map stage_kind pipeline
             \<and> (\<forall>g \<in> set (tcr_grader_results (rs ! i)). gr_status g = Some GS_PASS)))
    \<and> suite_pass_threshold (resolved_suite input) \<le> fl_div num
        (fl_sum num (map (\<lambda>(c, r). case_weight c) (filter (\<lambda>(c, r). case_passes r) (zip cases rs)))) (fl_sum num (map case_weight cases))
    \<and> (list_all (\<lambda>c. case_visibility c = CV_PUBLIC) cases \<or> input \<noteq> Plain_suite (resolved_suite input))"
proof -
  from assms(1,2) obtain execute where ex: "eh_subject_executor self = Some execute" "\<not> protected_plain input"
      "run_cases execute pipeline trial subject seed cases = Inr (rs, None)"
      and none: "identity_conflict rs = None" "uncertain rs = None"
      and status: "suite_status num (resolved_suite input) rs = Inr TS_PASSED"
    by (elim run_suite_completed) (use assms(3) in \<open>auto simp: cases_def rs_def\<close>)
  note run = run_cases_evaluated [OF ex(3) assms(4)]
  from suite_status_passed [OF status] run
  have gate: "\<forall>i < length rs. case_gating (cases ! i) \<longrightarrow> case_passes (rs ! i)" and weight: "suite_pass_threshold (resolved_suite input) \<le> fl_div num
        (fl_sum num (map (\<lambda>(c, r). case_weight c) (filter (\<lambda>(c, r). case_passes r) (zip cases rs)))) (fl_sum num (map case_weight cases))"
    by (auto simp: cases_def)
  have "map gr_kind (tcr_grader_results r) = map stage_kind pipeline"
    if "evaluated execute pipeline trial subject s c r" "case_passes r" for r s c
    using that by (auto simp: evaluated_def graded_in_order_def case_passes_def)
  with gate run have "\<forall>i < length cases. case_gating (cases ! i) \<longrightarrow> map gr_kind (tcr_grader_results (rs ! i)) = map stage_kind pipeline
             \<and> (\<forall>g \<in> set (tcr_grader_results (rs ! i)). gr_status g = Some GS_PASS)"
    by (auto simp: case_passes_def list_all_iff)
  moreover have "\<forall>i < length cases. \<forall>g \<in> set (tcr_grader_results (rs ! i)). tcr_executor_id (rs ! i) \<noteq> Some (gr_grader_id g)
             \<and> gr_status g \<notin> {Some GS_UNKNOWN, Some GS_INVALID}"
    using none run none_uncertain by (metis identity_conflict_None nth_mem)
  moreover have "list_all (\<lambda>c. case_visibility c = CV_PUBLIC) cases \<or> input \<noteq> Plain_suite (resolved_suite input)"
    using ex(2) by (cases input) (auto simp: cases_def list_ex_iff list_all_iff)
  ultimately show ?thesis using ex(1) run weight by blast
qed


text \<open>A concrete harness: a public case and a hidden gating one, graded by a deterministic and by a human stage.\<close>

definition harness_case :: "string \<Rightarrow> CaseVisibility \<Rightarrow> EvaluationCase" where
  "harness_case key visibility = \<lparr>case_id = key, case_input_payload = [(''q'', JStr key)], case_expected_outcome = [], case_tags = [],
     case_visibility = visibility, case_weight = 1, case_gating = (visibility \<noteq> CV_PUBLIC)\<rparr>"

definition demo_suite :: EvaluationSuite where
  "demo_suite = \<lparr>suite_id = ''s'', suite_version = ''1'', suite_cases = [harness_case ''a'' CV_PUBLIC, harness_case ''b'' CV_HIDDEN],
     suite_pass_threshold = 4 / 5\<rparr>"

definition demo_stage :: "GraderKind \<Rightarrow> string \<Rightarrow> GraderStage" where
  "demo_stage kind key = \<lparr>stage_kind = kind, stage_grader = IndependentGrader_grade \<lparr>ig_kind = kind, ig_grader_id = key,
     ig_grader_version = ''1'', ig_backend = (\<lambda>c out. Inr \<lparr>ga_status = GS_PASS, ga_score = Some 1, ga_rationale = ''ok'',
       ga_evidence_refs = [''e'']\<rparr>)\<rparr>\<rparr>"

definition demo_pipeline :: "GraderStage list" where
  "demo_pipeline = [demo_stage GK_DETERMINISTIC ''exact'', demo_stage GK_HUMAN ''reviewer'']"

definition demo_executor :: subject_executor where
  "demo_executor subject input seed = Inr \<lparr>ser_subject_version_id = subject, ser_output_payload = input, ser_executor_id = ''executor'',
     ser_evidence_refs = [''log''], ser_environment_ref = ''env'', ser_model_ref = None, ser_tool_refs = [], ser_cost_microunits = seed\<rparr>"

definition demo_harness :: EvaluationHarness where
  "demo_harness = \<lparr>eh_subject_executor = Some demo_executor, eh_grader_pipeline = Some demo_pipeline, eh_harness_version = ''2''\<rparr>"

definition demo_numerics :: numerics where
  "demo_numerics = \<lparr>fl_add = (+), fl_sub = (-), fl_mul = (*), fl_div = (/), fl_sqrt = (\<lambda>x. x), fl_inv_cdf = (\<lambda>_. 2),
     int_div = (\<lambda>a b. of_int a / of_int b), fl_of_int = of_int, fl_sum = sum_list, num_fixed4 = (\<lambda>_. []),
     num_fixed1 = (\<lambda>_. []), num_percent = (\<lambda>_. []), num_str = (\<lambda>_. [])\<rparr>"

lemmas harness_demo = demo_suite_def harness_case_def demo_stage_def demo_pipeline_def demo_executor_def demo_harness_def demo_numerics_def

lemma demo_pipeline_valid: "GraderPipeline_post_init demo_pipeline = Inr demo_pipeline"
  by (simp add: harness_demo GraderPipeline_post_init_def)

lemma demo_constructed: "constructed_graders demo_pipeline"
  by (auto simp: constructed_graders_def harness_demo IndependentGrader_grade_def GraderResult_post_init_def)

lemma demo_run:
  "\<exists>t. run_suite demo_numerics demo_harness 7 0 1 (Loaded_suite \<lparr>hs_suite = demo_suite, hs_loaded_by = 3\<rparr>) 5 1 10 = Inr t
     \<and> trial_status t = TS_PASSED"
  by (simp add: run_suite_def harness_demo run_case_def pipeline_grade_def IndependentGrader_grade_def GraderResult_post_init_def
      executed_case_def TrialCaseResult_post_init_def missing_def identity_conflict_def uncertain_def suite_status_def case_passes_def
      Trial_post_init_def sum_costs_def Let_def)

theorem passed_trial_sound_witness:
  "\<exists>t. run_suite demo_numerics demo_harness 7 0 1 (Loaded_suite \<lparr>hs_suite = demo_suite, hs_loaded_by = 3\<rparr>) 5 1 10 = Inr t
     \<and> length (trial_case_results t) = 2
     \<and> map gr_kind (tcr_grader_results (trial_case_results t ! 1)) = [GK_DETERMINISTIC, GK_HUMAN]"
proof -
  from demo_run obtain t where t: "run_suite demo_numerics demo_harness 7 0 1
        (Loaded_suite \<lparr>hs_suite = demo_suite, hs_loaded_by = 3\<rparr>) 5 1 10 = Inr t" "trial_status t = TS_PASSED" by blast
  have "eh_grader_pipeline demo_harness = Some demo_pipeline" by (simp add: demo_harness_def)
  from passed_trial_sound [OF t this demo_constructed demo_pipeline_valid] t(1) show ?thesis
    by (force simp: harness_demo)
qed

subsection \<open>The harness always reports\<close>

lemma run_case_total:
  assumes "\<And>input seed e. execute subject input seed = Inr e \<Longrightarrow> SubjectExecutionResult_post_init e = Inr e"
  shows "\<exists>r stop. run_case execute pipeline trial subject case_seed c = Inr (r, stop) \<and> 0 \<le> tcr_cost_microunits r
    \<and> (stop = None \<longrightarrow> tcr_subject_executed r) \<and> stop \<noteq> Some [] \<and> list_all (\<lambda>g. gr_trial_id g = trial) (tcr_grader_results r)"
proof (cases "execute subject (case_input_payload c) case_seed")
  case (Inl e)
  then show ?thesis
    by (simp add: run_case_def unexecuted_case_def TrialCaseResult_post_init_def missing_def Let_def)
next
  case (Inr execution)
  have built: "mapE (\<lambda>grade. GraderResult_post_init (grade\<lparr>gr_trial_id := trial\<rparr>)) grades = Inr gs
      \<Longrightarrow> list_all (\<lambda>g. gr_trial_id g = trial) gs" for grades gs
  proof (induction grades arbitrary: gs)
    case (Cons g grades)
    then show ?case by (auto simp: result_simps GraderResult_post_init_def Let_def split: option.splits if_splits)
  qed simp
  from assms [OF Inr] have "ser_executor_id execution \<noteq> []" "ser_evidence_refs execution \<noteq> []" "ser_environment_ref execution \<noteq> []"
      "0 \<le> ser_cost_microunits execution"
    by (auto simp: SubjectExecutionResult_post_init_def result_simps)
  then have run: "\<exists>r. executed_case c case_seed execution gs reason = Inr r \<and> 0 \<le> tcr_cost_microunits r \<and> tcr_subject_executed r
      \<and> tcr_grader_results r = gs" for gs reason
    by (simp add: executed_case_def TrialCaseResult_post_init_def missing_def)
  show ?thesis
  proof (cases "ser_subject_version_id execution = subject")
    case False
    with Inr show ?thesis
      by (simp add: run_case_def unexecuted_case_def TrialCaseResult_post_init_def missing_def Let_def)
  next
    case same: True
    show ?thesis
    proof (cases "bindE (pipeline_grade pipeline c (ser_output_payload execution))
               (mapE (\<lambda>grade. GraderResult_post_init (grade\<lparr>gr_trial_id := trial\<rparr>)))")
      case (Inl e)
      with Inr same run [of "[]"] show ?thesis by (auto simp: run_case_def Let_def) (metis append_is_Nil_conv bindE_simps(2) list.pred_inject(1) list.simps(3) option.inject)
    next
      case (Inr gs)
      then obtain grades where "mapE (\<lambda>grade. GraderResult_post_init (grade\<lparr>gr_trial_id := trial\<rparr>)) grades = Inr gs"
        by (auto simp: result_simps)
      from built [OF this] Inr same \<open>execute subject _ _ = _\<close> run [of gs None] show ?thesis by (auto simp: run_case_def)
    qed
  qed
qed

lemma run_cases_total:
  assumes "\<And>input seed e. execute subject input seed = Inr e \<Longrightarrow> SubjectExecutionResult_post_init e = Inr e"
  shows "\<exists>rs stop. run_cases execute pipeline trial subject case_seed cs = Inr (rs, stop) \<and> 0 \<le> sum_costs rs
    \<and> (stop = None \<longrightarrow> length rs = length cs \<and> list_all tcr_subject_executed rs) \<and> stop \<noteq> Some []
    \<and> list_all (\<lambda>r. list_all (\<lambda>g. gr_trial_id g = trial) (tcr_grader_results r)) rs"
proof (induction cs arbitrary: case_seed)
  case (Cons c cs)
  obtain r stop where r: "run_case execute pipeline trial subject case_seed c = Inr (r, stop)" "0 \<le> tcr_cost_microunits r"
      "stop = None \<longrightarrow> tcr_subject_executed r" "stop \<noteq> Some []" "list_all (\<lambda>g. gr_trial_id g = trial) (tcr_grader_results r)"
    using run_case_total [of execute subject pipeline trial case_seed c] assms by blast
  from Cons.IH [of "case_seed + 1"] r show ?case
    by (cases stop) (auto simp: sum_costs_def)
qed (simp add: sum_costs_def)

definition reported :: "Trial result \<Rightarrow> bool" where
  "reported r \<longleftrightarrow> (\<exists>t. r = Inr t \<and> trial_status t \<in> {TS_PASSED, TS_FAILED, TS_INVALID}
     \<and> (trial_status t = TS_INVALID \<longleftrightarrow> trial_failure_reason t \<noteq> None))"

lemma invalid_trial_reported:
  assumes "0 \<le> sum_costs rs" and "list_all (\<lambda>r. list_all (\<lambda>g. gr_trial_id g = trial) (tcr_grader_results r)) rs" and "reason \<noteq> []"
  shows "reported (invalid_trial self trial started_at completed_at suite subject tenant_id seed reason rs)"
  using assms by (auto simp: reported_def invalid_trial_def Trial_post_init_def missing_def list_ex_iff list_all_iff)

lemma suite_status_total:
  "0 < fl_sum num (map case_weight (suite_cases suite)) \<Longrightarrow> \<exists>status \<in> {TS_PASSED, TS_FAILED}. suite_status num suite rs = Inr status"
  by (simp add: suite_status_def Let_def)

text \<open>
  C32. The harness always reports. For a constructed suite with constructed cases, an executor whose results are constructed
  and sums of positive weights that are positive, a run of the suite returns a trial, whatever the executor and the graders
  raise: their exceptions end in an invalid trial. An invalid trial has a reason, the others have none.
\<close>

theorem run_suite_total:
  assumes "EvaluationSuite_post_init (resolved_suite input) = Inr (resolved_suite input)"
    and "\<And>c. c \<in> set (suite_cases (resolved_suite input)) \<Longrightarrow> EvaluationCase_post_init c = Inr c"
    and "\<And>execute i n e. eh_subject_executor self = Some execute \<Longrightarrow> execute subject i n = Inr e
       \<Longrightarrow> SubjectExecutionResult_post_init e = Inr e"
    and "\<And>ws. ws \<noteq> [] \<Longrightarrow> (\<And>w. w \<in> set ws \<Longrightarrow> 0 < w) \<Longrightarrow> 0 < fl_sum num ws"
  shows "\<exists>t. run_suite num self trial started_at completed_at input subject tenant_id seed = Inr t
    \<and> trial_status t \<in> {TS_PASSED, TS_FAILED, TS_INVALID} \<and> (trial_status t = TS_INVALID \<longleftrightarrow> trial_failure_reason t \<noteq> None)"
proof -
  let ?suite = "resolved_suite input"
  have "reported (run_suite num self trial started_at completed_at input subject tenant_id seed)"
  proof (cases "protected_plain input \<or> eh_subject_executor self = None \<or> eh_grader_pipeline self = None")
    case True
    have "reported (invalid_trial self trial started_at completed_at ?suite subject tenant_id seed reason [])" if "reason \<noteq> []" for reason
      using that by (simp add: invalid_trial_reported sum_costs_def)
    with True show ?thesis by (auto simp: run_suite_def Let_def split: option.splits)
  next
    case False
    then obtain execute pipeline where ep: "eh_subject_executor self = Some execute" "eh_grader_pipeline self = Some pipeline" by auto
    obtain rs stop where rs: "run_cases execute pipeline trial subject seed (suite_cases ?suite) = Inr (rs, stop)" "0 \<le> sum_costs rs"
        "stop = None \<longrightarrow> length rs = length (suite_cases ?suite) \<and> list_all tcr_subject_executed rs" "stop \<noteq> Some []"
        "list_all (\<lambda>r. list_all (\<lambda>g. gr_trial_id g = trial) (tcr_grader_results r)) rs"
      using run_cases_total [of execute subject pipeline trial seed "suite_cases ?suite"] assms(3) [OF ep(1)] by blast
    have cases: "suite_cases ?suite \<noteq> []" using assms(1) by (auto simp: EvaluationSuite_post_init_def result_simps)
    have "0 < fl_sum num (map case_weight (suite_cases ?suite))"
      by (rule assms(4)) (use cases assms(2) in \<open>auto simp: EvaluationCase_post_init_def result_simps not_le\<close>)
    then obtain status where status: "suite_status num ?suite rs = Inr status" "status \<in> {TS_PASSED, TS_FAILED}"
      using suite_status_total by blast
    show ?thesis
    proof (cases "stop = None \<and> identity_conflict rs = None \<and> uncertain rs = None")
      case True
      with rs cases have "rs \<noteq> []" "list_all tcr_subject_executed rs" by auto
      with True False ep rs status show ?thesis
        by (auto simp: run_suite_def Let_def Trial_post_init_def reported_def list_ex_iff list_all_iff)
    next
      case bad: False
      note report = invalid_trial_reported [OF rs(2,5)]
      from bad False ep rs(1,4) show ?thesis
        by (cases stop) (auto simp: run_suite_def Let_def intro!: report split: option.splits)
    qed
  qed
  then show ?thesis by (simp add: reported_def)
qed


text \<open>The executor raises; the trial is reported as invalid.\<close>

theorem run_suite_total_witness:
  "\<exists>t. run_suite demo_numerics (demo_harness\<lparr>eh_subject_executor := Some (\<lambda>_ _ _. Inl (TimeoutError ''late''))\<rparr>) 7 0 1
      (Loaded_suite \<lparr>hs_suite = demo_suite, hs_loaded_by = 3\<rparr>) 5 1 10 = Inr t
     \<and> trial_status t = TS_INVALID \<and> trial_failure_reason t = Some ''subject execution failed: TimeoutError: late''"
proof -
  let ?h = "demo_harness\<lparr>eh_subject_executor := Some (\<lambda>_ _ _. Inl (TimeoutError ''late''))\<rparr>"
  let ?in = "Loaded_suite \<lparr>hs_suite = demo_suite, hs_loaded_by = 3\<rparr>"
  have "\<exists>t. run_suite demo_numerics ?h 7 0 1 ?in 5 1 10 = Inr t
    \<and> trial_status t \<in> {TS_PASSED, TS_FAILED, TS_INVALID} \<and> (trial_status t = TS_INVALID \<longleftrightarrow> trial_failure_reason t \<noteq> None)"
  proof (rule run_suite_total)
    show "EvaluationSuite_post_init (resolved_suite ?in) = Inr (resolved_suite ?in)"
      by (simp add: harness_demo EvaluationSuite_post_init_def)
    show "EvaluationCase_post_init c = Inr c" if "c \<in> set (suite_cases (resolved_suite ?in))" for c
      using that by (auto simp: harness_demo EvaluationCase_post_init_def)
    show "0 < fl_sum demo_numerics ws" if "ws \<noteq> []" "\<And>w. w \<in> set ws \<Longrightarrow> 0 < w" for ws
      using that by (induction ws rule: list_nonempty_induct) (auto simp: demo_numerics_def add_pos_pos)
  qed auto
  then show ?thesis
    by (auto simp: run_suite_def harness_demo run_case_def unexecuted_case_def invalid_trial_def Trial_post_init_def
        TrialCaseResult_post_init_def missing_def sum_costs_def Let_def)
qed

subsection \<open>What a candidate generator can see\<close>

text \<open>
  A candidate generator learns nothing about protected cases. Its view of a suite is the same for any two catalogs
  that agree on the descriptors of the public cases, the threshold and the number of cases; it can not load a suite for the
  harness from any catalog; and a protected suite given to the harness directly is refused before any case is executed,
  with the same trial for every executor and every pipeline.
\<close>

lemma generator_noninterference:
  assumes "catalog_get catalog key version = Inr s" and "catalog_get catalog' key version = Inr s'"
    and "(suite_id s, suite_version s, suite_pass_threshold s) = (suite_id s', suite_version s', suite_pass_threshold s')"
    and "public_descriptors (suite_cases s) = public_descriptors (suite_cases s')"
    and "length (suite_cases s) = length (suite_cases s')"
    and "CANDIDATE_GENERATOR \<in> set (sac_roles access)"
    and "c \<in> set (suite_cases s)" and "case_visibility c \<noteq> CV_PUBLIC"
  shows "describe_for_generator catalog key version = describe_for_generator catalog' key version
    \<and> (\<exists>e. load_for_harness catalog key version access = Inl (PermissionError e))
    \<and> (\<exists>t. trial_status t = TS_INVALID \<and> trial_case_results t = [] \<and>
         (\<forall>execute pipeline. run_suite num \<lparr>eh_subject_executor = execute, eh_grader_pipeline = pipeline, eh_harness_version = hv\<rparr>
            trial started_at completed_at (Plain_suite s) subject tenant_id seed = Inr t))"
proof -
  have "protected_plain (Plain_suite s)" using assms(7,8) by (auto simp: list_ex_iff)
  then show ?thesis
    using assms(1-6) by (auto simp: describe_for_generator_def load_for_harness_def run_suite_def Let_def invalid_trial_def
        Trial_post_init_def missing_def sum_costs_def)
qed

text \<open>Two catalogs whose hidden cases differ.\<close>

lemma generator_noninterference_instance:
  "describe_for_generator [((''s'', ''1''), demo_suite)] ''s'' ''1''
     = describe_for_generator [((''s'', ''1''), demo_suite\<lparr>suite_cases := [harness_case ''z'' CV_PRODUCTION_REPLAY, harness_case ''a'' CV_PUBLIC]\<rparr>)]
         ''s'' ''1''
   \<and> (\<exists>t. trial_case_results t = []
        \<and> run_suite demo_numerics demo_harness 7 0 1 (Plain_suite demo_suite) 5 1 10 = Inr t)"
  using generator_noninterference [of "[((''s'', ''1''), demo_suite)]" "''s''" "''1''" demo_suite
      "[((''s'', ''1''), demo_suite\<lparr>suite_cases := [harness_case ''z'' CV_PRODUCTION_REPLAY, harness_case ''a'' CV_PUBLIC]\<rparr>)]"
      "demo_suite\<lparr>suite_cases := [harness_case ''z'' CV_PRODUCTION_REPLAY, harness_case ''a'' CV_PUBLIC]\<rparr>"
      "\<lparr>sac_principal_id = 3, sac_roles = [CANDIDATE_GENERATOR]\<rparr>" "harness_case ''b'' CV_HIDDEN" demo_numerics "''2''" 7 0 1 5 1 10]
  by (auto simp: catalog_get_def public_descriptors_def demo_suite_def harness_case_def demo_harness_def)

end
