(* ===== verification/Rollout.thy ===== *)
theory Rollout
  imports Harness
begin

text \<open>
  Helpers around governed evolution in \<open>packages/evolution/src/autonoesis_evolution\<close>: batches of repeated trials
  (\<open>trials.py\<close>) and the guardrail pipeline (\<open>deployment.py\<close>). Identifiers are arguments, and so is the clock, which an
  operation of the pipeline reads once. A batch of harness runs is composed with the confidence gate.
\<close>

subsection \<open>Batches of trials\<close>

datatype TrialStrategy = REPEAT_N | UNTIL_CONFIDENCE | ADVERSARIAL | ABLATION

record TrialBatchConfig =
  tbc_suite :: EvaluationSuite
  tbc_subject_version_id :: uuid
  tbc_tenant_id :: uuid
  tbc_strategy :: TrialStrategy
  tbc_repeat_count :: int
  tbc_min_confidence :: rat
  tbc_max_trials :: int
  tbc_random_seed :: int

record TrialBatchResult =
  tbr_batch_id :: uuid
  tbr_suite_id :: string
  tbr_trials :: "Trial list"
  tbr_total :: int
  tbr_passed :: int
  tbr_failed :: int
  tbr_invalid :: int

definition tbr_pass_rate :: "numerics \<Rightarrow> TrialBatchResult \<Rightarrow> rat" where
  "tbr_pass_rate num self = (if tbr_total self = 0 then 0 else int_div num (tbr_passed self) (tbr_total self))"

definition tbr_is_confident :: "TrialBatchResult \<Rightarrow> bool" where
  "tbr_is_confident self = (5 \<le> tbr_total self)"

definition unconfigured_trial :: "TrialBatchConfig \<Rightarrow> uuid \<Rightarrow> int \<Rightarrow> Trial result" where
  "unconfigured_trial config trial seed =
     Trial_post_init \<lparr>trial_tenant_id = tbc_tenant_id config, trial_suite_id = suite_id (tbc_suite config),
       trial_suite_version = suite_version (tbc_suite config), trial_subject_version_id = tbc_subject_version_id config,
       trial_harness_version = ''unconfigured'', trial_id = trial, trial_status = TS_INVALID, trial_random_seed = Some seed,
       trial_case_results = [], trial_total_cost_microunits = 0,
       trial_failure_reason = Some ''trial harness is not configured'', trial_started_at = None, trial_completed_at = None,
       trial_candidate_id = None\<rparr>"

text \<open>
  \<open>run_batch\<close>. The harness, when there is one, is called with the position of the trial (by which its identifier and its
  clock readings are drawn) and the seed.
\<close>

definition run_batch ::
  "(nat \<Rightarrow> EvaluationSuite \<Rightarrow> uuid \<Rightarrow> uuid \<Rightarrow> int \<Rightarrow> Trial result) option \<Rightarrow> (nat \<Rightarrow> uuid) \<Rightarrow> uuid \<Rightarrow> TrialBatchConfig
     \<Rightarrow> TrialBatchResult result" where
  "run_batch harness ids batch config =
     bindE (mapE (\<lambda>index. let seed = tbc_random_seed config + int index in
         case harness of
           None \<Rightarrow> unconfigured_trial config (ids index) seed
         | Some run \<Rightarrow> run index (tbc_suite config) (tbc_subject_version_id config) (tbc_tenant_id config) seed)
       [0..<nat (tbc_repeat_count config)]) (\<lambda>trials.
     Inr \<lparr>tbr_batch_id = batch, tbr_suite_id = suite_id (tbc_suite config), tbr_trials = trials, tbr_total = int (length trials),
       tbr_passed = int (length (filter (\<lambda>t. trial_status t = TS_PASSED) trials)),
       tbr_failed = int (length (filter (\<lambda>t. trial_status t = TS_FAILED) trials)),
       tbr_invalid = int (length (filter (\<lambda>t. trial_status t \<noteq> TS_PASSED \<and> trial_status t \<noteq> TS_FAILED) trials))\<rparr>)"

lemma batch_counts:
  assumes "run_batch harness ids batch config = Inr b"
  shows "tbr_total b = max 0 (tbc_repeat_count config) \<and> tbr_total b = tbr_passed b + tbr_failed b + tbr_invalid b"
proof -
  have "int (length ts) = int (length (filter (\<lambda>t. trial_status t = TS_PASSED) ts)) + int (length (filter (\<lambda>t. trial_status t = TS_FAILED) ts))
      + int (length (filter (\<lambda>t. trial_status t \<noteq> TS_PASSED \<and> trial_status t \<noteq> TS_FAILED) ts))" for ts
    by (induction ts) auto
  with assms show ?thesis by (auto simp: run_batch_def result_simps dest: mapE_length)
qed

subsection \<open>From the harness to the confidence gate\<close>

definition headed :: "EvaluationHarness \<Rightarrow> EvaluationSuite \<Rightarrow> uuid \<Rightarrow> uuid \<Rightarrow> uuid \<Rightarrow> Trial result \<Rightarrow> bool" where
  "headed self suite trial subject tenant_id r \<longleftrightarrow> (\<forall>t. r = Inr t \<longrightarrow>
     trial_tenant_id t = tenant_id \<and> trial_suite_id t = suite_id suite \<and> trial_suite_version t = suite_version suite
     \<and> trial_subject_version_id t = subject \<and> trial_harness_version t = eh_harness_version self \<and> trial_id t = trial
     \<and> trial_status t \<in> set TERMINAL_STATUSES)"

lemma headed_invalid:
  "headed self suite trial subject tenant_id (invalid_trial self trial started_at completed_at suite subject tenant_id seed reason rs)"
  by (auto simp: headed_def invalid_trial_def Trial_post_init_def result_simps TERMINAL_STATUSES_def)

lemma headed_bind: "(\<And>x. m = Inr x \<Longrightarrow> headed self suite trial subject tenant_id (f x))
    \<Longrightarrow> headed self suite trial subject tenant_id (bindE m f)"
  by (auto simp: headed_def result_simps)

lemma suite_status_terminal: "suite_status num suite rs = Inr status \<Longrightarrow> status \<in> {TS_PASSED, TS_FAILED}"
  by (auto simp: suite_status_def Let_def split: if_splits)

lemma run_suite_headed:
  "headed self (resolved_suite input) trial subject tenant_id
     (run_suite num self trial started_at completed_at input subject tenant_id seed)"
proof -
  have "headed self (resolved_suite input) trial subject tenant_id (Trial_post_init \<lparr>trial_tenant_id = tenant_id,
      trial_suite_id = suite_id (resolved_suite input), trial_suite_version = suite_version (resolved_suite input),
      trial_subject_version_id = subject, trial_harness_version = eh_harness_version self, trial_id = trial, trial_status = status,
      trial_random_seed = Some seed, trial_case_results = rs, trial_total_cost_microunits = sum_costs rs,
      trial_failure_reason = None, trial_started_at = Some (Aware started_at), trial_completed_at = Some (Aware completed_at),
      trial_candidate_id = None\<rparr>)" if "suite_status num (resolved_suite input) rs = Inr status" for rs status
    using suite_status_terminal [OF that] by (auto simp: headed_def Trial_post_init_def result_simps TERMINAL_STATUSES_def)
  then show ?thesis
    unfolding run_suite_def Let_def by (auto intro!: headed_invalid headed_bind split: option.splits)
qed


definition harness_port ::
  "numerics \<Rightarrow> EvaluationHarness \<Rightarrow> (nat \<Rightarrow> uuid) \<Rightarrow> (nat \<Rightarrow> int \<times> int) \<Rightarrow> nat \<Rightarrow> EvaluationSuite \<Rightarrow> uuid \<Rightarrow> uuid \<Rightarrow> int \<Rightarrow> Trial result" where
  "harness_port num self ids clock i suite subject tenant_id seed =
     run_suite num self (ids i) (fst (clock i)) (snd (clock i)) (Plain_suite suite) subject tenant_id seed"

text \<open>
  The trials of a batch that the harness runs are always comparable: when their identifiers are different, the confidence
  gate assesses them, whatever the executors and graders did.
\<close>

lemma batch_assessable:
  assumes "run_batch (Some (harness_port num self ids clock)) ids' batch config = Inr b" and "inj ids"
    and "RepeatedTrialPolicy_post_init policy = Inr policy"
  shows "\<exists>a. assess num policy (tbr_trials b) = Inr a
    \<and> tca_decision a = gate_decision num policy (tbr_passed b) (tbr_failed b)"
proof -
  let ?run = "\<lambda>i. harness_port num self ids clock i (tbc_suite config) (tbc_subject_version_id config) (tbc_tenant_id config)
      (tbc_random_seed config + int i)"
  from assms(1) have trials: "mapE ?run [0..<nat (tbc_repeat_count config)] = Inr (tbr_trials b)"
    and counts: "tbr_passed b = count_status TS_PASSED (tbr_trials b)" "tbr_failed b = count_status TS_FAILED (tbr_trials b)"
    by (auto simp: run_batch_def result_simps count_status_def)
  have nth: "i < length (tbr_trials b) \<Longrightarrow> ?run i = Inr (tbr_trials b ! i)" for i
    using mapE_nth [OF trials] mapE_length [OF trials] by simp
  have headed: "headed self (tbc_suite config) (ids i) (tbc_subject_version_id config) (tbc_tenant_id config) (?run i)" for i
    using run_suite_headed [of self "Plain_suite (tbc_suite config)"] by (simp add: harness_port_def)
  have row: "trial_tenant_id t = tbc_tenant_id config \<and> trial_suite_id t = suite_id (tbc_suite config)
      \<and> trial_suite_version t = suite_version (tbc_suite config) \<and> trial_subject_version_id t = tbc_subject_version_id config
      \<and> trial_harness_version t = eh_harness_version self \<and> trial_id t = ids i \<and> trial_status t \<in> set TERMINAL_STATUSES"
    if "i < length (tbr_trials b)" "t = tbr_trials b ! i" for i t
    using headed [of i] nth [OF that(1)] that(2) by (simp add: headed_def)
  have rows: "trial_tenant_id t = tbc_tenant_id config \<and> trial_suite_id t = suite_id (tbc_suite config)
      \<and> trial_suite_version t = suite_version (tbc_suite config) \<and> trial_subject_version_id t = tbc_subject_version_id config
      \<and> trial_harness_version t = eh_harness_version self \<and> trial_status t \<in> set TERMINAL_STATUSES"
    if "t \<in> set (tbr_trials b)" for t
  proof -
    from that obtain i where i: "i < length (tbr_trials b)" "t = tbr_trials b ! i" by (metis in_set_conv_nth)
    from row [OF i] show ?thesis by simp
  qed
  have "map trial_id (tbr_trials b) = map ids [0..<length (tbr_trials b)]"
    by (rule nth_equalityI) (use row in simp_all)
  then have "distinct (map trial_id (tbr_trials b))"
    using assms(2) by (metis distinct_map distinct_upt inj_on_subset subset_UNIV)
  moreover have "\<forall>t \<in> set (tbr_trials b). trial_status t \<in> set TERMINAL_STATUSES" using rows by blast
  moreover have "same_subject (tbr_trials b)" unfolding same_subject_def using rows by (intro ballI) metis
  ultimately have "require_one_subject (tbr_trials b) = Inr ()" by (simp only: require_one_subject_Inr simp_thms)
  from assess_decides [OF assms(3) this] show ?thesis by (auto simp: counts)
qed


subsection \<open>The guardrail pipeline\<close>

datatype DeploymentStage = STAGE_CANDIDATE | STAGE_EVALUATING | STAGE_SHADOW | STAGE_CANARY | STAGE_STABLE | STAGE_ROLLED_BACK | STAGE_FAILED

datatype TrafficSplit = SPLIT_SHADOW | SPLIT_CANARY_5 | SPLIT_CANARY_10 | SPLIT_CANARY_25 | SPLIT_CANARY_50 | SPLIT_STABLE

record GuardrailThreshold =
  gt_metric :: string
  gt_operator :: string
  gt_value :: rat
  gt_window_seconds :: int
  gt_consecutive_breaches :: int

record GuardrailStatus =
  gs_passed :: bool
  gs_breached_metrics :: "string list"
  gs_current_values :: "(string \<times> rat) list"

record ObservationWindow =
  ow_stage :: DeploymentStage
  ow_started_at :: int
  ow_duration :: int
  ow_metrics_collected :: int

definition ow_elapsed :: "int \<Rightarrow> ObservationWindow \<Rightarrow> int" where
  "ow_elapsed now self = now - ow_started_at self"

definition ow_is_complete :: "int \<Rightarrow> ObservationWindow \<Rightarrow> bool" where
  "ow_is_complete now self = (ow_duration self \<le> ow_elapsed now self)"

record DeploymentRecord =
  dr_deployment_id :: uuid
  dr_candidate_id :: uuid
  dr_stage :: DeploymentStage
  dr_split :: TrafficSplit
  dr_started_at :: int
  dr_promoted_at :: "int option"
  dr_rolled_back_at :: "int option"
  dr_rollback_reason :: string

record DeploymentPipeline =
  dp_guardrails :: "GuardrailThreshold list"
  dp_shadow_duration :: int
  dp_canary_duration :: int
  dp_deployments :: "(uuid \<times> DeploymentRecord) list"
  dp_windows :: "(uuid \<times> ObservationWindow) list"
  dp_breach_counters :: "(string \<times> int) list"

definition window :: "DeploymentStage \<Rightarrow> int \<Rightarrow> int \<Rightarrow> ObservationWindow" where
  "window stage now duration = \<lparr>ow_stage = stage, ow_started_at = now, ow_duration = duration, ow_metrics_collected = 0\<rparr>"

definition promote_to_shadow :: "uuid \<Rightarrow> int \<Rightarrow> uuid \<Rightarrow> DeploymentPipeline \<Rightarrow> DeploymentRecord \<times> DeploymentPipeline" where
  "promote_to_shadow key now candidate self =
     (let r = \<lparr>dr_deployment_id = key, dr_candidate_id = candidate, dr_stage = STAGE_SHADOW, dr_split = SPLIT_SHADOW,
        dr_started_at = now, dr_promoted_at = None, dr_rolled_back_at = None, dr_rollback_reason = []\<rparr> in
      (r, self\<lparr>dp_deployments := AList.update key r (dp_deployments self),
         dp_windows := AList.update key (window STAGE_SHADOW now (dp_shadow_duration self)) (dp_windows self)\<rparr>))"

text \<open>\<open>self._deployments[key]\<close>.\<close>

definition pipeline_get_deployment :: "DeploymentPipeline \<Rightarrow> uuid \<Rightarrow> DeploymentRecord result" where
  "pipeline_get_deployment self key = (case map_of (dp_deployments self) key of
     Some r \<Rightarrow> Inr r
   | None \<Rightarrow> Inl (KeyError (''UUID('' @ [CHR 39] @ str_uuid key @ [CHR 39] @ '')'')))"

definition get_window :: "DeploymentPipeline \<Rightarrow> uuid \<Rightarrow> ObservationWindow result" where
  "get_window self key = (case map_of (dp_windows self) key of
     Some w \<Rightarrow> Inr w
   | None \<Rightarrow> Inl (KeyError (''UUID('' @ [CHR 39] @ str_uuid key @ [CHR 39] @ '')'')))"

definition promote_record_to_canary ::
  "int \<Rightarrow> uuid \<Rightarrow> TrafficSplit \<Rightarrow> DeploymentPipeline \<Rightarrow> (DeploymentRecord \<times> DeploymentPipeline) result" where
  "promote_record_to_canary now key split self = bindE (pipeline_get_deployment self key) (\<lambda>r.
     let r' = r\<lparr>dr_stage := STAGE_CANARY, dr_split := split, dr_promoted_at := Some now, dr_rolled_back_at := None, dr_rollback_reason := []\<rparr> in
     Inr (r', self\<lparr>dp_deployments := AList.update key r' (dp_deployments self),
       dp_windows := AList.update key (window STAGE_CANARY now (dp_canary_duration self)) (dp_windows self)\<rparr>))"

definition promote_record_to_stable :: "int \<Rightarrow> uuid \<Rightarrow> DeploymentPipeline \<Rightarrow> (DeploymentRecord \<times> DeploymentPipeline) result" where
  "promote_record_to_stable now key self = bindE (pipeline_get_deployment self key) (\<lambda>r.
     let r' = r\<lparr>dr_stage := STAGE_STABLE, dr_split := SPLIT_STABLE, dr_promoted_at := Some now, dr_rolled_back_at := None, dr_rollback_reason := []\<rparr> in
     Inr (r', self\<lparr>dp_deployments := AList.update key r' (dp_deployments self)\<rparr>))"

definition rollback_record :: "int \<Rightarrow> uuid \<Rightarrow> string \<Rightarrow> DeploymentPipeline \<Rightarrow> (DeploymentRecord \<times> DeploymentPipeline) result" where
  "rollback_record now key reason self = bindE (pipeline_get_deployment self key) (\<lambda>r.
     let r' = r\<lparr>dr_stage := STAGE_ROLLED_BACK, dr_promoted_at := None, dr_rolled_back_at := Some now, dr_rollback_reason := reason\<rparr> in
     Inr (r', self\<lparr>dp_deployments := AList.update key r' (dp_deployments self)\<rparr>))"

definition threshold_breached :: "GuardrailThreshold \<Rightarrow> rat \<Rightarrow> bool" where
  "threshold_breached g v = (gt_operator g = ''lt'' \<and> v < gt_value g \<or> gt_operator g = ''gt'' \<and> v > gt_value g
     \<or> gt_operator g = ''lte'' \<and> v \<le> gt_value g \<or> gt_operator g = ''gte'' \<and> v \<ge> gt_value g)"

fun check_loop :: "GuardrailThreshold list \<Rightarrow> (string \<times> rat) list \<Rightarrow> (string \<times> int) list \<Rightarrow> string list \<times> (string \<times> int) list" where
  "check_loop [] metrics counters = ([], counters)"
| "check_loop (g # gs) metrics counters = (case map_of metrics (gt_metric g) of
     None \<Rightarrow> check_loop gs metrics (AList.update (gt_metric g) 0 counters)
   | Some v \<Rightarrow>
       if threshold_breached g v then
         let n = (case map_of counters (gt_metric g) of Some k \<Rightarrow> k | None \<Rightarrow> 0) + 1;
           rest = check_loop gs metrics (AList.update (gt_metric g) n counters) in
         (if gt_consecutive_breaches g \<le> n then (gt_metric g # fst rest, snd rest) else rest)
       else check_loop gs metrics (AList.update (gt_metric g) 0 counters))"

definition check_guardrails :: "(string \<times> rat) list \<Rightarrow> DeploymentPipeline \<Rightarrow> GuardrailStatus \<times> DeploymentPipeline" where
  "check_guardrails metrics self = (let (breaches, counters) = check_loop (dp_guardrails self) metrics (dp_breach_counters self) in
     (\<lparr>gs_passed = (breaches = []), gs_breached_metrics = breaches, gs_current_values = metrics\<rparr>,
      self\<lparr>dp_breach_counters := counters\<rparr>))"

definition auto_rollback_if_breached ::
  "int \<Rightarrow> uuid \<Rightarrow> (string \<times> rat) list \<Rightarrow> DeploymentPipeline \<Rightarrow> DeploymentRecord option result \<times> DeploymentPipeline" where
  "auto_rollback_if_breached now key metrics self = (let (status, self') = check_guardrails metrics self in
     if gs_passed status then (Inr None, self')
     else (case rollback_record now key (''guardrail breach: '' @ join '', '' (gs_breached_metrics status)) self' of
         Inl e \<Rightarrow> (Inl e, self')
       | Inr (r, self'') \<Rightarrow> (Inr (Some r), self'')))"

text \<open>With one guardrail per metric, a metric is reported exactly when its counter, this sample included, reaches the limit.\<close>

lemma check_loop_other: "m \<notin> gt_metric ` set gs \<Longrightarrow> map_of (snd (check_loop gs metrics counters)) m = map_of counters m"
  by (induction gs metrics counters rule: check_loop.induct) (auto simp: Let_def update_conv' split: option.splits)

lemma check_loop_listed: "set (fst (check_loop gs metrics counters)) \<subseteq> gt_metric ` set gs"
proof (induction gs arbitrary: counters)
  case (Cons g gs)
  then show ?case by (simp add: Let_def split: option.splits) blast
qed simp

definition next_count :: "GuardrailThreshold \<Rightarrow> (string \<times> rat) list \<Rightarrow> int \<Rightarrow> int" where
  "next_count g metrics n = (case map_of metrics (gt_metric g) of None \<Rightarrow> 0
     | Some v \<Rightarrow> if threshold_breached g v then n + 1 else 0)"

lemma check_loop_counts:
  assumes "distinct (map gt_metric gs)" and "g \<in> set gs" and "0 < gt_consecutive_breaches g"
    and "map_of counters (gt_metric g) = Some n \<or> map_of counters (gt_metric g) = None \<and> n = 0"
  shows "map_of (snd (check_loop gs metrics counters)) (gt_metric g) = Some (next_count g metrics n)
    \<and> (gt_metric g \<in> set (fst (check_loop gs metrics counters)) \<longleftrightarrow> gt_consecutive_breaches g \<le> next_count g metrics n)"
  using assms
proof (induction gs arbitrary: counters)
  case (Cons h gs)
  show ?case
  proof (cases "g = h")
    case True
    with Cons.prems have "gt_metric g \<notin> gt_metric ` set gs" by auto
    then have "gt_metric g \<notin> set (fst (check_loop gs metrics c))" "map_of (snd (check_loop gs metrics c)) (gt_metric g) = map_of c (gt_metric g)"
      for c using check_loop_listed [of gs metrics c] check_loop_other [of "gt_metric g" gs metrics c] by auto
    with Cons.prems True show ?thesis
      by (auto simp: next_count_def update_conv' Let_def split: option.splits)
  next
    case False
    with Cons.prems have g: "gt_metric g \<noteq> gt_metric h" "g \<in> set gs" "distinct (map gt_metric gs)" by (auto simp: image_iff)
    with Cons.prems Cons.IH show ?thesis by (auto simp: update_conv' Let_def split: option.splits)
  qed
qed simp

text \<open>
  The counters belong to the pipeline, not to a deployment: a breach of one deployment counts towards the rollback of
  another.
\<close>

lemma counters_shared_between_deployments:
  assumes "a \<noteq> b"
  shows "(let g = \<lparr>gt_metric = ''errors'', gt_operator = ''gt'', gt_value = 1, gt_window_seconds = 300, gt_consecutive_breaches = 2\<rparr>;
      p = \<lparr>dp_guardrails = [g], dp_shadow_duration = 1, dp_canary_duration = 1, dp_deployments = [], dp_windows = [], dp_breach_counters = []\<rparr>;
      p = snd (promote_to_shadow b 0 2 (snd (promote_to_shadow a 0 1 p)));
      p = snd (auto_rollback_if_breached 1 a [(''errors'', 2)] p) in
      map_option dr_stage (map_of (dp_deployments (snd (auto_rollback_if_breached 2 b [(''errors'', 2)] p))) b) = Some STAGE_ROLLED_BACK)"
  using assms by (simp add: promote_to_shadow_def auto_rollback_if_breached_def check_guardrails_def threshold_breached_def
      rollback_record_def pipeline_get_deployment_def Let_def)

end
