(* ===== verification/Service_Levels.thy ===== *)
theory Service_Levels
  imports Evaluation
begin

text \<open>
  Error budgets, quantiles and cost accounting: \<open>slo.py\<close> and \<open>finops.py\<close> of \<open>packages/evolution/src/autonoesis_evolution\<close>.
  Times are microseconds; floats are rationals whose rounding operations are those of the numerics.
\<close>

subsection \<open>Error budgets\<close>

datatype SLI = OUTCOME_SUCCESS_RATE | ACTION_SUCCESS_RATE | ACTION_UNKNOWN_RATE | APPROVAL_LATENCY_P50 | APPROVAL_LATENCY_P95
  | ROLLBACK_RATE | DUPLICATE_SIDE_EFFECT_RATE

record SLOTarget =
  slo_sli :: SLI
  slo_target :: rat
  slo_window :: int
  slo_operator :: string

record SLOMeasurement =
  slm_sli :: SLI
  slm_value :: rat
  slm_window_start :: int
  slm_window_end :: int
  slm_sample_count :: int
  slm_recorded_at :: int

record ErrorBudget =
  eb_sli :: SLI
  eb_total_budget :: rat
  eb_consumed :: rat
  eb_remaining :: rat
  eb_exhausted :: bool

record SLORegistry =
  reg_targets :: "(SLI \<times> SLOTarget) list"
  reg_measurements :: "(SLI \<times> SLOMeasurement list) list"

definition SLIS :: "SLI list" where
  "SLIS = [OUTCOME_SUCCESS_RATE, ACTION_SUCCESS_RATE, ACTION_UNKNOWN_RATE, APPROVAL_LATENCY_P50, APPROVAL_LATENCY_P95,
     ROLLBACK_RATE, DUPLICATE_SIDE_EFFECT_RATE]"

definition SLORegistry_init :: "SLOTarget list \<Rightarrow> SLORegistry" where
  "SLORegistry_init targets = \<lparr>reg_targets = fold (\<lambda>t. AList.update (slo_sli t) t) targets [],
     reg_measurements = map (\<lambda>sli. (sli, [])) SLIS\<rparr>"

definition measurements_of :: "SLORegistry \<Rightarrow> SLI \<Rightarrow> SLOMeasurement list" where
  "measurements_of self sli = (case map_of (reg_measurements self) sli of Some ms \<Rightarrow> ms | None \<Rightarrow> [])"

definition slo_record :: "SLOMeasurement \<Rightarrow> SLORegistry \<Rightarrow> SLORegistry" where
  "slo_record m self = self\<lparr>reg_measurements :=
     AList.update (slm_sli m) (measurements_of self (slm_sli m) @ [m]) (reg_measurements self)\<rparr>"

definition full_budget :: "numerics \<Rightarrow> SLI \<Rightarrow> SLOTarget \<Rightarrow> ErrorBudget" where
  "full_budget num sli target = \<lparr>eb_sli = sli, eb_total_budget = fl_sub num 1 (slo_target target), eb_consumed = 0,
     eb_remaining = fl_sub num 1 (slo_target target), eb_exhausted = False\<rparr>"

definition compute_budget :: "numerics \<Rightarrow> SLORegistry \<Rightarrow> SLI \<Rightarrow> int \<Rightarrow> ErrorBudget" where
  "compute_budget num self sli now = (case map_of (reg_targets self) sli of
     None \<Rightarrow> \<lparr>eb_sli = sli, eb_total_budget = 0, eb_consumed = 0, eb_remaining = 0, eb_exhausted = True\<rparr>
   | Some target \<Rightarrow>
       let recent = filter (\<lambda>m. now - slo_window target \<le> slm_window_start m) (measurements_of self sli);
         total_samples = sum_list (map (\<lambda>m. max (slm_sample_count m) 0) recent) in
       if recent = [] then full_budget num sli target
       else if total_samples = 0 then full_budget num sli target
       else let
         weighted_value = fl_div num (fl_sum num (map (\<lambda>m. fl_mul num (slm_value m) (fl_of_int num (max (slm_sample_count m) 0))) recent))
           (fl_of_int num total_samples);
         total_budget = fl_sub num 1 (slo_target target);
         shortfall = (if slo_operator target = ''gte'' then max 0 (fl_sub num (slo_target target) weighted_value)
           else max 0 (fl_sub num weighted_value (slo_target target)));
         consumed = min shortfall 1;
         remaining = max 0 (fl_sub num total_budget consumed) in
         \<lparr>eb_sli = sli, eb_total_budget = total_budget, eb_consumed = consumed, eb_remaining = remaining, eb_exhausted = (remaining \<le> 0)\<rparr>)"

definition all_budgets :: "numerics \<Rightarrow> SLORegistry \<Rightarrow> int \<Rightarrow> ErrorBudget list" where
  "all_budgets num self now = map (\<lambda>(sli, _). compute_budget num self sli now) (reg_targets self)"

text \<open>Consumption is a share between zero and one, and an exhausted budget has nothing left.\<close>

lemma budget_bounds:
  "0 \<le> eb_consumed (compute_budget num self sli now) \<and> eb_consumed (compute_budget num self sli now) \<le> 1
     \<and> (eb_exhausted (compute_budget num self sli now) \<longrightarrow> eb_remaining (compute_budget num self sli now) = 0)"
proof -
  have "0 \<le> min (if c then max 0 x else max 0 y) (1 :: rat) \<and> min (if c then max 0 x else max 0 y) (1 :: rat) \<le> 1" for c x y
    by simp
  moreover have "max 0 x \<le> 0 \<Longrightarrow> max 0 x = (0 :: rat)" for x by simp
  ultimately show ?thesis
    by (cases "map_of (reg_targets self) sli") (simp_all only: compute_budget_def full_budget_def Let_def option.case
        ErrorBudget.simps split: if_split, simp_all)
qed

subsection \<open>Quantiles\<close>

record QuantileReport =
  qr_metric :: string
  qr_count :: int
  qr_min :: rat
  qr_max :: rat
  qr_mean :: rat
  qr_median :: rat
  qr_p90 :: rat
  qr_p95 :: rat
  qr_p99 :: rat

text \<open>\<open>sorted_vals[min(int(n * p / 100), n - 1)]\<close>.\<close>

definition pct :: "numerics \<Rightarrow> rat list \<Rightarrow> int \<Rightarrow> rat" where
  "pct num vs p = vs ! nat (min \<lfloor>int_div num (int (length vs) * p) 100\<rfloor> (int (length vs) - 1))"

definition compute_quantiles :: "numerics \<Rightarrow> rat list \<Rightarrow> string \<Rightarrow> QuantileReport" where
  "compute_quantiles num sample metric =
     (if sample = [] then \<lparr>qr_metric = metric, qr_count = 0, qr_min = 0, qr_max = 0, qr_mean = 0, qr_median = 0, qr_p90 = 0,
        qr_p95 = 0, qr_p99 = 0\<rparr>
      else let vs = sort sample in
        \<lparr>qr_metric = metric, qr_count = int (length vs), qr_min = hd vs, qr_max = last vs,
         qr_mean = fl_div num (fl_sum num vs) (fl_of_int num (int (length vs))), qr_median = pct num vs 50, qr_p90 = pct num vs 90,
         qr_p95 = pct num vs 95, qr_p99 = pct num vs 99\<rparr>)"

lemma pct_index: "0 < n \<Longrightarrow> nat (min x (int n - 1)) < n"
  by linarith

lemma pct_mono:
  assumes "sorted vs" and "vs \<noteq> []" and "p \<le> q" and "0 \<le> p" and "\<And>a b. 0 \<le> a \<Longrightarrow> a \<le> b \<Longrightarrow> 0 \<le> int_div num a 100 \<and> int_div num a 100 \<le> int_div num b 100"
  shows "pct num vs p \<le> pct num vs q"
proof -
  have "int (length vs) * p \<le> int (length vs) * q" "0 \<le> int (length vs) * p" using assms(3,4) by (simp_all add: mult_left_mono)
  then have "\<lfloor>int_div num (int (length vs) * p) 100\<rfloor> \<le> \<lfloor>int_div num (int (length vs) * q) 100\<rfloor>" using assms(5) by (intro floor_mono) blast
  moreover have "0 < length vs" using assms(2) by simp
  ultimately show ?thesis unfolding pct_def by (intro sorted_nth_mono [OF assms(1)]) (simp_all add: pct_index)
qed

text \<open>For a division that keeps the order, the quantiles are elements of the sample in ascending order.\<close>

lemma quantiles_ordered:
  assumes "sample \<noteq> []" and "\<And>a b. 0 \<le> a \<Longrightarrow> a \<le> b \<Longrightarrow> 0 \<le> int_div num a 100 \<and> int_div num a 100 \<le> int_div num b 100"
    and r_def: "r = compute_quantiles num sample metric"
  shows "qr_min r \<le> qr_median r \<and> qr_median r \<le> qr_p90 r \<and> qr_p90 r \<le> qr_p95 r \<and> qr_p95 r \<le> qr_p99 r \<and> qr_p99 r \<le> qr_max r
    \<and> {qr_median r, qr_p90 r, qr_p95 r, qr_p99 r} \<subseteq> set sample"
proof -
  let ?vs = "sort sample"
  have vs: "sorted ?vs" "?vs \<noteq> []" using assms(1) by (simp_all add: sorted_sort) (metis set_empty set_sort)
  have le: "pct num ?vs p \<le> pct num ?vs q" if "p \<le> q" "0 \<le> p" for p q
    by (rule pct_mono [OF vs that]) (rule assms(2))
  have "nat (min \<lfloor>int_div num (int (length ?vs) * p) 100\<rfloor> (int (length ?vs) - 1)) < length ?vs" for p
    using assms(1) by (intro pct_index) simp
  then have mem: "pct num ?vs p \<in> set sample" for p unfolding pct_def by (metis nth_mem set_sort)
  have "hd ?vs \<le> x \<and> x \<le> last ?vs" if "x \<in> set sample" for x
  proof -
    from that obtain i where "i < length ?vs" "x = ?vs ! i" by (metis in_set_conv_nth set_sort)
    with vs show ?thesis by (simp add: hd_conv_nth last_conv_nth sorted_nth_mono)
  qed
  with mem le assms(1) show ?thesis by (simp add: r_def compute_quantiles_def Let_def)
qed


subsection \<open>Cost accounting\<close>

datatype CostCategory = MODEL_TOKEN | TOOL_EXECUTION | SANDBOX_TIME | APPROVAL_WAIT | RETRY_WASTE

record CostEntry =
  ce_entry_id :: uuid
  ce_category :: CostCategory
  ce_amount :: rat
  ce_currency :: string
  ce_description :: string
  ce_run_id :: uuid
  ce_action_id :: "uuid option"
  ce_recorded_at :: int

record GoalCostSummary =
  gcs_goal_id :: uuid
  gcs_total_cost :: rat
  gcs_model_tokens :: rat
  gcs_tool_executions :: rat
  gcs_sandbox_time :: rat
  gcs_approval_wait :: rat
  gcs_retry_waste :: rat
  gcs_run_count :: int
  gcs_verified_outcome :: bool
  gcs_computed_at :: int

definition cost_per_verified_outcome :: "numerics \<Rightarrow> GoalCostSummary \<Rightarrow> rat option" where
  "cost_per_verified_outcome num self = (if \<not> gcs_verified_outcome self \<or> gcs_run_count self = 0 then None
     else Some (fl_div num (gcs_total_cost self) (fl_of_int num (gcs_run_count self))))"

record CostTracker =
  ct_entries :: "CostEntry list"
  ct_goal_runs :: "(uuid \<times> uuid set) list"

definition cost_record :: "CostEntry \<Rightarrow> CostTracker \<Rightarrow> CostTracker" where
  "cost_record e self = self\<lparr>ct_entries := ct_entries self @ [e]\<rparr>"

definition goal_runs_of :: "CostTracker \<Rightarrow> uuid \<Rightarrow> uuid set" where
  "goal_runs_of self goal = (case map_of (ct_goal_runs self) goal of Some rs \<Rightarrow> rs | None \<Rightarrow> {})"

definition link_run_to_goal :: "uuid \<Rightarrow> uuid \<Rightarrow> CostTracker \<Rightarrow> CostTracker" where
  "link_run_to_goal goal run self = self\<lparr>ct_goal_runs :=
     AList.update goal (insert run (goal_runs_of self goal)) (ct_goal_runs self)\<rparr>"

definition category_cost :: "numerics \<Rightarrow> CostEntry list \<Rightarrow> CostCategory \<Rightarrow> rat" where
  "category_cost num entries c = fold (\<lambda>e acc. if ce_category e = c then fl_add num acc (ce_amount e) else acc) entries 0"

definition summarize_goal :: "numerics \<Rightarrow> CostTracker \<Rightarrow> uuid \<Rightarrow> int \<Rightarrow> GoalCostSummary" where
  "summarize_goal num self goal now = (let entries = filter (\<lambda>e. ce_run_id e \<in> goal_runs_of self goal) (ct_entries self);
       cost = category_cost num entries in
     \<lparr>gcs_goal_id = goal, gcs_total_cost = fl_sum num (map cost [MODEL_TOKEN, TOOL_EXECUTION, SANDBOX_TIME, APPROVAL_WAIT, RETRY_WASTE]),
      gcs_model_tokens = cost MODEL_TOKEN, gcs_tool_executions = cost TOOL_EXECUTION, gcs_sandbox_time = cost SANDBOX_TIME,
      gcs_approval_wait = cost APPROVAL_WAIT, gcs_retry_waste = cost RETRY_WASTE,
      gcs_run_count = int (card (ce_run_id ` set entries)), gcs_verified_outcome = False, gcs_computed_at = now\<rparr>)"

definition budget_remaining :: "numerics \<Rightarrow> CostTracker \<Rightarrow> uuid \<Rightarrow> rat \<Rightarrow> rat \<times> bool" where
  "budget_remaining num self goal budget_limit =
     (let remaining = fl_sub num budget_limit (gcs_total_cost (summarize_goal num self goal 0)) in (remaining, 0 < remaining))"

definition check_action :: "numerics \<Rightarrow> (rat \<Rightarrow> string) \<Rightarrow> CostTracker \<Rightarrow> uuid \<Rightarrow> rat \<Rightarrow> rat \<Rightarrow> bool \<times> string" where
  "check_action num fixed2 self goal estimate budget_limit =
     (let (remaining, ok) = budget_remaining num self goal budget_limit in
      if \<not> ok then (False, ''budget exhausted: '' @ fixed2 remaining @ '' remaining'')
      else if estimate > remaining then (False, ''estimated cost '' @ fixed2 estimate @ '' exceeds remaining '' @ fixed2 remaining)
      else (True, ''ok''))"

text \<open>The costs of a goal are those of its own runs: entries of other runs and links of other goals do not count.\<close>

lemma cost_isolated:
  "ce_run_id e \<notin> goal_runs_of self goal \<Longrightarrow> summarize_goal num (cost_record e self) goal now = summarize_goal num self goal now"
  "goal' \<noteq> goal \<Longrightarrow> summarize_goal num (link_run_to_goal goal' run self) goal now = summarize_goal num self goal now"
  by (simp_all add: summarize_goal_def cost_record_def link_run_to_goal_def goal_runs_of_def update_conv')

text \<open>With exact sums, an action that is let through keeps the recorded cost of the goal within the limit.\<close>

lemma allowed_action_within_budget:
  assumes "fst (check_action num fixed2 self goal estimate budget_limit)" and "\<And>a b. fl_sub num a b = a - b"
  shows "gcs_total_cost (summarize_goal num self goal 0) + estimate \<le> budget_limit
    \<and> gcs_total_cost (summarize_goal num self goal 0) < budget_limit"
  using assms by (auto simp: check_action_def budget_remaining_def Let_def algebra_simps split: if_splits)

end
