(* ===== verification/Manifest.thy ===== *)
theory Manifest
  imports Application "HOL-Library.Product_Lexorder"
begin

text \<open>
  Capability pack manifests, \<open>packages/capability/src/autonoesis_capability/manifest.py\<close>: the identifiers, versions
  and references a manifest may hold, its strict parser, its payload and digests, and the order of versions. The regular
  expressions are written out as recognisers. \<open>Draft202012Validator.check_schema\<close> is an argument of the parser; a YAML
  document is the JSON value it denotes.
\<close>

subsection \<open>Recognisers\<close>

definition is_lower :: "char \<Rightarrow> bool" where
  "is_lower c = (97 \<le> code_point c \<and> code_point c \<le> 122)"

definition is_upper :: "char \<Rightarrow> bool" where
  "is_upper c = (65 \<le> code_point c \<and> code_point c \<le> 90)"

definition is_alpha :: "char \<Rightarrow> bool" where
  "is_alpha c = (is_lower c \<or> is_upper c)"

text \<open>\<open>[a-z][a-z0-9]*(?:[._-][a-z0-9]+)*\<close>\<close>

fun identifier_rest :: "string \<Rightarrow> bool" where
  "identifier_rest [] = True"
| "identifier_rest (c # s) =
     ((is_lower c \<or> is_digit c \<or> (c \<in> set ''._-'' \<and> s \<noteq> [] \<and> (is_lower (hd s) \<or> is_digit (hd s)))) \<and> identifier_rest s)"

definition is_identifier :: "string \<Rightarrow> bool" where
  "is_identifier s = (s \<noteq> [] \<and> is_lower (hd s) \<and> identifier_rest (tl s))"

text \<open>\<open>\d+\.\d+\.\d+(?:-[0-9A-Za-z.-]+)?\<close>\<close>

definition after_number :: "string \<Rightarrow> string option" where
  "after_number s = (if s \<noteq> [] \<and> is_digit (hd s) then Some (dropWhile is_digit s) else None)"

definition after_dot :: "string \<Rightarrow> string option" where
  "after_dot s = (if s \<noteq> [] \<and> hd s = CHR ''.'' then Some (tl s) else None)"

definition is_semver :: "string \<Rightarrow> bool" where
  "is_semver s = (case Option.bind (Option.bind (Option.bind (Option.bind (after_number s) after_dot) after_number) after_dot)
      after_number of
     None \<Rightarrow> False
   | Some r \<Rightarrow> r = [] \<or> (hd r = CHR ''-'' \<and> tl r \<noteq> [] \<and> list_all (\<lambda>c. is_alpha c \<or> is_digit c \<or> c \<in> set ''.-'') (tl r)))"

text \<open>\<open>[A-Za-z_][A-Za-z0-9_.]*:[A-Za-z_][A-Za-z0-9_]*\<close>\<close>

definition before_colon :: "string \<Rightarrow> string" where
  "before_colon s = takeWhile (\<lambda>c. c \<noteq> CHR '':'') s"

definition from_colon :: "string \<Rightarrow> string" where
  "from_colon s = dropWhile (\<lambda>c. c \<noteq> CHR '':'') s"

definition is_entry_point :: "string \<Rightarrow> bool" where
  "is_entry_point s = (let l = before_colon s; r = tl (from_colon s) in
     from_colon s \<noteq> [] \<and> l \<noteq> [] \<and> (is_alpha (hd l) \<or> hd l = CHR ''_'')
     \<and> list_all (\<lambda>c. is_alpha c \<or> is_digit c \<or> c \<in> set ''_.'') (tl l)
     \<and> r \<noteq> [] \<and> (is_alpha (hd r) \<or> hd r = CHR ''_'') \<and> list_all (\<lambda>c. is_alpha c \<or> is_digit c \<or> c = CHR ''_'') (tl r))"

text \<open>\<open>[a-z][a-z0-9+.-]*://[A-Za-z0-9._~/-]{1,400}\<close> and \<open>[0-9a-f]{128}\<close>\<close>

definition is_artifact_uri :: "string \<Rightarrow> bool" where
  "is_artifact_uri s = (let l = before_colon s; r = from_colon s; path = drop 3 r in
     l \<noteq> [] \<and> is_lower (hd l) \<and> list_all (\<lambda>c. is_lower c \<or> is_digit c \<or> c \<in> set ''+.-'') (tl l)
     \<and> startswith r ''://'' \<and> 1 \<le> length path \<and> length path \<le> 400
     \<and> list_all (\<lambda>c. is_alpha c \<or> is_digit c \<or> c \<in> set ''._~/-'') path)"

definition is_signature_hex :: "string \<Rightarrow> bool" where
  "is_signature_hex s = (length s = 128 \<and> list_all (\<lambda>c. c \<in> set ''0123456789abcdef'') s)"

text \<open>\<open>(=|>=|<=|>|<)?(semver|\*)\<close>: the operator and the target of a version comparator.\<close>

definition spec_operator :: "string \<Rightarrow> string" where
  "spec_operator s = (if startswith s ''='' then ''='' else if startswith s ''>='' then ''>='' else if startswith s ''<='' then ''<=''
     else if startswith s ''>'' then ''>'' else if startswith s ''<'' then ''<'' else [])"

definition spec_target :: "string \<Rightarrow> string" where
  "spec_target s = drop (length (spec_operator s)) s"

definition is_spec_item :: "string \<Rightarrow> bool" where
  "is_spec_item s = (is_semver (spec_target s) \<or> spec_target s = ''*'')"

text \<open>\<open>str.split()\<close>.\<close>

fun split_ws :: "nat \<Rightarrow> string \<Rightarrow> string list" where
  "split_ws 0 s = []"
| "split_ws (Suc n) s = (let t = dropWhile py_isspace s in
     if t = [] then [] else takeWhile (\<lambda>c. \<not> py_isspace c) t # split_ws n (dropWhile (\<lambda>c. \<not> py_isspace c) t))"

definition py_split :: "string \<Rightarrow> string list" where
  "py_split s = split_ws (Suc (length s)) s"

subsection \<open>Manifests\<close>

record PackDependency =
  pdep_pack_id :: string
  pdep_version_spec :: string

definition PackDependency_post_init :: "PackDependency \<Rightarrow> PackDependency result" where
  "PackDependency_post_init self =
     thenE (raise_if (\<not> is_identifier (pdep_pack_id self)) (ManifestError ''dependency pack_id must be a normalized identifier''))
    (thenE (raise_if (py_split (pdep_version_spec self) = [] \<or> \<not> list_all is_spec_item (py_split (pdep_version_spec self)))
        (ManifestError (''dependency version spec is invalid: '' @ pdep_version_spec self)))
       (Inr self))"

record CapabilityPackManifest =
  man_api_version :: string
  man_pack_id :: string
  man_version :: string
  man_python_entry_point :: string
  man_goal_types :: "GoalTypeManifest list"
  man_skills :: "string list"
  man_tools :: "string list"
  man_policies :: "string list"
  man_evaluation_suites :: "string list"
  man_evaluation_subject :: "string option"
  man_artifact_uri :: "string option"
  man_artifact_digest :: "string option"
  man_signature :: "string option"
  man_sbom_ref :: "string option"
  man_sbom_digest :: "string option"
  man_dependencies :: "PackDependency list"

definition require_identifier :: "json option \<Rightarrow> string \<Rightarrow> string result" where
  "require_identifier v field_name = (case v of
     Some (JStr s) \<Rightarrow> if is_identifier s then Inr s else Inl (ManifestError (field_name @ '' must be a normalized identifier''))
   | _ \<Rightarrow> Inl (ManifestError (field_name @ '' must be a normalized identifier'')))"

definition require_string_list :: "json option \<Rightarrow> string \<Rightarrow> string list result" where
  "require_string_list v field_name = (case v of
     Some (JList items) \<Rightarrow> bindE (mapE (\<lambda>item. require_identifier (Some item) field_name) items) (\<lambda>r.
       thenE (raise_if (\<not> distinct r) (ManifestError (field_name @ '' must not contain duplicates''))) (Inr r))
   | _ \<Rightarrow> Inl (ManifestError (field_name @ '' must be a list'')))"

definition REQUIRED_FIELDS :: "string list" where
  "REQUIRED_FIELDS = [''api_version'', ''pack_id'', ''version'', ''python_entry_point'', ''goal_types'', ''skills'', ''tools'',
     ''policies'', ''evaluation_suites'']"

definition ALLOWED_FIELDS :: "string list" where
  "ALLOWED_FIELDS = REQUIRED_FIELDS @ [''evaluation_subject'', ''artifact_uri'', ''artifact_digest'', ''signature'', ''sbom_ref'',
     ''sbom_digest'', ''dependencies'']"

text \<open>The message of the field check, with \<open>sorted(allowed)\<close> printed.\<close>

definition FIELDS_MESSAGE :: string where
  "FIELDS_MESSAGE = ''manifest fields must be a subset of: ['' @ join '', '' (map (\<lambda>f. [CHR 0x27] @ f @ [CHR 0x27]) (sort ALLOWED_FIELDS)) @ '']''"

text \<open>\<open>raw.get(field)\<close> that is \<open>None\<close> or a string accepted by the pattern.\<close>

definition optional_text :: "(string \<times> json) list \<Rightarrow> string \<Rightarrow> (string \<Rightarrow> bool) \<Rightarrow> string \<Rightarrow> string option result" where
  "optional_text raw field_name pattern message = (case map_of raw field_name of
     None \<Rightarrow> Inr None
   | Some JNull \<Rightarrow> Inr None
   | Some (JStr s) \<Rightarrow> if pattern s then Inr (Some s) else Inl (ManifestError message)
   | _ \<Rightarrow> Inl (ManifestError message))"

definition module_root :: "string \<Rightarrow> string" where
  "module_root entry_point = takeWhile (\<lambda>c. c \<noteq> CHR ''.'') (before_colon entry_point)"

definition expected_module_root :: "string \<Rightarrow> string" where
  "expected_module_root pack_id = map (\<lambda>c. if c = CHR ''-'' then CHR ''_'' else c) pack_id"

definition foreign_subject :: "string \<Rightarrow> string option \<Rightarrow> bool" where
  "foreign_subject pack_id subject =
     (case subject of None \<Rightarrow> False | Some s \<Rightarrow> module_root s \<noteq> expected_module_root pack_id)"

definition parse_dependency :: "json \<Rightarrow> PackDependency result" where
  "parse_dependency item = (case item of
     JObj kvs \<Rightarrow> (case map_of kvs ''version_spec'' of
        Some (JStr spec) \<Rightarrow> bindE (require_identifier (map_of kvs ''pack_id'') ''dependencies.pack_id'') (\<lambda>pack.
          PackDependency_post_init \<lparr>pdep_pack_id = pack, pdep_version_spec = spec\<rparr>)
      | _ \<Rightarrow> Inl (ManifestError ''dependency entries must be objects''))
   | _ \<Rightarrow> Inl (ManifestError ''dependency entries must be objects''))"

definition parse_dependencies :: "(string \<times> json) list \<Rightarrow> PackDependency list result" where
  "parse_dependencies raw = (case map_of raw ''dependencies'' of
     None \<Rightarrow> Inr []
   | Some (JList items) \<Rightarrow> bindE (mapE parse_dependency items) (\<lambda>ds.
       thenE (raise_if (\<not> distinct (map pdep_pack_id ds)) (ManifestError ''dependencies must be unique per pack'')) (Inr ds))
   | _ \<Rightarrow> Inl (ManifestError ''dependencies must be a list''))"

definition GOAL_TYPE_FIELDS :: "string list" where
  "GOAL_TYPE_FIELDS = [''goal_type'', ''input_schema'', ''agent'', ''evaluation_suite'', ''default_policy'', ''default_budget'']"

text \<open>\<open>isinstance(budget, int) and budget > 0\<close>; a Boolean is an \<open>int\<close>.\<close>

fun positive_int :: "json option \<Rightarrow> int option" where
  "positive_int (Some (JInt i)) = (if 0 < i then Some i else None)"
| "positive_int (Some (JBool True)) = Some 1"
| "positive_int _ = None"

definition parse_goal_type :: "(json \<Rightarrow> unit result) \<Rightarrow> json \<Rightarrow> GoalTypeManifest result" where
  "parse_goal_type check_schema item = (case item of
     JObj kvs \<Rightarrow>
       thenE (raise_if (set (map fst kvs) \<noteq> set GOAL_TYPE_FIELDS) (ManifestError ''goal type fields are incomplete or unknown''))
      (case map_of kvs ''input_schema'' of
         Some (JObj schema) \<Rightarrow>
           thenE (check_schema (JObj schema))
          (case positive_int (map_of kvs ''default_budget'') of
             None \<Rightarrow> Inl (ManifestError ''default_budget must be a positive integer'')
           | Some budget \<Rightarrow>
               bindE (require_identifier (map_of kvs ''goal_type'') ''goal_type'') (\<lambda>goal_type.
               bindE (require_identifier (map_of kvs ''agent'') ''agent'') (\<lambda>agent.
               bindE (require_identifier (map_of kvs ''evaluation_suite'') ''evaluation_suite'') (\<lambda>suite.
               bindE (require_identifier (map_of kvs ''default_policy'') ''default_policy'') (\<lambda>policy.
               Inr \<lparr>gtm_goal_type = goal_type, gtm_input_schema = JObj schema, gtm_agent = agent, gtm_evaluation_suite = suite,
                 gtm_default_policy = policy, gtm_default_budget = budget\<rparr>)))))
       | _ \<Rightarrow> Inl (ManifestError ''input_schema must be an object''))
   | _ \<Rightarrow> Inl (ManifestError ''goal type entry must be an object''))"

definition parse_goal_types :: "(json \<Rightarrow> unit result) \<Rightarrow> (string \<times> json) list \<Rightarrow> GoalTypeManifest list result" where
  "parse_goal_types check_schema raw = (case map_of raw ''goal_types'' of
     Some (JList items) \<Rightarrow>
       thenE (raise_if (items = []) (ManifestError ''goal_types must be a non-empty list''))
      (bindE (mapE (parse_goal_type check_schema) items) (\<lambda>gs.
       thenE (raise_if (\<not> distinct (map gtm_goal_type gs)) (ManifestError ''goal types must be unique'')) (Inr gs)))
   | _ \<Rightarrow> Inl (ManifestError ''goal_types must be a non-empty list''))"

definition required_text :: "(string \<times> json) list \<Rightarrow> string \<Rightarrow> (string \<Rightarrow> bool) \<Rightarrow> string \<Rightarrow> string result" where
  "required_text raw field_name pattern message = (case map_of raw field_name of
     Some (JStr s) \<Rightarrow> if pattern s then Inr s else Inl (ManifestError message)
   | _ \<Rightarrow> Inl (ManifestError message))"

definition parse_manifest :: "(json \<Rightarrow> unit result) \<Rightarrow> (string \<times> json) list \<Rightarrow> CapabilityPackManifest result" where
  "parse_manifest check_schema raw =
     thenE (raise_if (\<not> set (map fst raw) \<subseteq> set ALLOWED_FIELDS \<or> \<not> set REQUIRED_FIELDS \<subseteq> set (map fst raw)) (ManifestError FIELDS_MESSAGE))
    (bindE (required_text raw ''api_version'' (\<lambda>s. s = ''autonoesis/v1alpha1'') ''unsupported capability manifest api_version'') (\<lambda>api.
     bindE (required_text raw ''version'' is_semver ''version must use semantic versioning'') (\<lambda>version.
     bindE (required_text raw ''python_entry_point'' is_entry_point ''python_entry_point must be module:function'') (\<lambda>entry_point.
     bindE (require_identifier (map_of raw ''pack_id'') ''pack_id'') (\<lambda>pack_id.
     thenE (raise_if (module_root entry_point \<noteq> expected_module_root pack_id)
        (ManifestError ''python_entry_point must be owned by the capability pack module''))
    (bindE (optional_text raw ''evaluation_subject'' is_entry_point ''evaluation_subject must be module:function'') (\<lambda>subject.
     thenE (raise_if (foreign_subject pack_id subject)
        (ManifestError ''evaluation_subject must be owned by the capability pack module''))
    (bindE (optional_text raw ''artifact_uri'' is_artifact_uri ''artifact_uri must be a bounded URI with an explicit scheme'') (\<lambda>uri.
     bindE (optional_text raw ''artifact_digest'' is_sha256_hex ''artifact_digest must be a lowercase sha256 hex digest'') (\<lambda>digest.
     bindE (optional_text raw ''signature'' is_signature_hex ''signature must be a lowercase hex ed25519 signature'') (\<lambda>signature.
     bindE (optional_text raw ''sbom_ref'' is_artifact_uri ''sbom_ref must be a bounded URI with an explicit scheme'') (\<lambda>sbom_ref.
     bindE (optional_text raw ''sbom_digest'' is_sha256_hex ''sbom_digest must be a lowercase sha256 hex digest'') (\<lambda>sbom_digest.
     bindE (parse_dependencies raw) (\<lambda>dependencies.
     bindE (parse_goal_types check_schema raw) (\<lambda>goal_types.
     bindE (require_string_list (map_of raw ''skills'') ''skills'') (\<lambda>skills.
     bindE (require_string_list (map_of raw ''tools'') ''tools'') (\<lambda>tools.
     bindE (require_string_list (map_of raw ''policies'') ''policies'') (\<lambda>policies.
     bindE (require_string_list (map_of raw ''evaluation_suites'') ''evaluation_suites'') (\<lambda>suites.
     Inr \<lparr>man_api_version = api, man_pack_id = pack_id, man_version = version, man_python_entry_point = entry_point,
       man_goal_types = goal_types, man_skills = skills, man_tools = tools, man_policies = policies,
       man_evaluation_suites = suites, man_evaluation_subject = subject, man_artifact_uri = uri, man_artifact_digest = digest,
       man_signature = signature, man_sbom_ref = sbom_ref, man_sbom_digest = sbom_digest,
       man_dependencies = dependencies\<rparr>)))))))))))))))))))"

subsection \<open>Payload and digests\<close>

definition goal_type_payload :: "GoalTypeManifest \<Rightarrow> json" where
  "goal_type_payload item = JObj [(''goal_type'', JStr (gtm_goal_type item)), (''input_schema'', gtm_input_schema item),
     (''agent'', JStr (gtm_agent item)), (''evaluation_suite'', JStr (gtm_evaluation_suite item)),
     (''default_policy'', JStr (gtm_default_policy item)), (''default_budget'', JInt (gtm_default_budget item))]"

definition dependency_payload :: "PackDependency \<Rightarrow> json" where
  "dependency_payload item = JObj [(''pack_id'', JStr (pdep_pack_id item)), (''version_spec'', JStr (pdep_version_spec item))]"

definition optional_field :: "string \<Rightarrow> string option \<Rightarrow> (string \<times> json) list" where
  "optional_field field_name v = (case v of None \<Rightarrow> [] | Some s \<Rightarrow> [(field_name, JStr s)])"

definition manifest_payload :: "CapabilityPackManifest \<Rightarrow> (string \<times> json) list" where
  "manifest_payload m =
    [(''api_version'', JStr (man_api_version m)), (''pack_id'', JStr (man_pack_id m)), (''version'', JStr (man_version m)),
     (''python_entry_point'', JStr (man_python_entry_point m)), (''goal_types'', JList (map goal_type_payload (man_goal_types m))),
     (''skills'', JList (map JStr (man_skills m))), (''tools'', JList (map JStr (man_tools m))),
     (''policies'', JList (map JStr (man_policies m))), (''evaluation_suites'', JList (map JStr (man_evaluation_suites m))),
     (''dependencies'', JList (map dependency_payload (man_dependencies m)))]
    @ optional_field ''evaluation_subject'' (man_evaluation_subject m) @ optional_field ''artifact_uri'' (man_artifact_uri m)
    @ optional_field ''artifact_digest'' (man_artifact_digest m) @ optional_field ''signature'' (man_signature m)
    @ optional_field ''sbom_ref'' (man_sbom_ref m) @ optional_field ''sbom_digest'' (man_sbom_digest m)"

text \<open>\<open>payload.pop(field, None)\<close>.\<close>

definition without :: "string \<Rightarrow> (string \<times> json) list \<Rightarrow> (string \<times> json) list" where
  "without field_name payload = filter (\<lambda>(k, _). k \<noteq> field_name) payload"

definition canonical_unsigned_payload :: "CapabilityPackManifest \<Rightarrow> (string \<times> json) list" where
  "canonical_unsigned_payload m = without ''signature'' (manifest_payload m)"

definition manifest_canonical :: "(string \<times> json) list \<Rightarrow> string" where
  "manifest_canonical v = dumps_canonical (JObj v)"

definition manifest_content_digest :: "CapabilityPackManifest \<Rightarrow> string" where
  "manifest_content_digest m = sha256_hexdigest (manifest_canonical
     (without ''sbom_ref'' (without ''artifact_uri'' (without ''sbom_digest'' (without ''artifact_digest''
       (canonical_unsigned_payload m))))))"

definition canonical_signature_bytes :: "CapabilityPackManifest \<Rightarrow> byte list" where
  "canonical_signature_bytes m = utf8 (manifest_canonical (canonical_unsigned_payload m))"

subsection \<open>Versions\<close>

text \<open>
  A prerelease identifier is a pair \<open>(0, int)\<close> or \<open>(1, str)\<close>: numbers come before words, numbers are compared as
  numbers and words as texts.
\<close>

datatype prerelease_id = Numeric nat | Word string

instantiation prerelease_id :: linorder
begin

fun less_eq_prerelease_id :: "prerelease_id \<Rightarrow> prerelease_id \<Rightarrow> bool" where
  "Numeric m \<le> Numeric n \<longleftrightarrow> m \<le> n"
| "Numeric m \<le> Word t \<longleftrightarrow> True"
| "Word s \<le> Numeric n \<longleftrightarrow> False"
| "Word s \<le> Word t \<longleftrightarrow> s \<le> t"

definition less_prerelease_id :: "prerelease_id \<Rightarrow> prerelease_id \<Rightarrow> bool" where
  "x < y \<longleftrightarrow> x \<le> y \<and> \<not> y \<le> (x :: prerelease_id)"

instance
proof
  fix x y z :: prerelease_id
  show "x < y \<longleftrightarrow> x \<le> y \<and> \<not> y \<le> x" by (rule less_prerelease_id_def)
  show "x \<le> x" by (cases x) simp_all
  show "x \<le> y \<Longrightarrow> y \<le> z \<Longrightarrow> x \<le> z" by (cases x; cases y; cases z) auto
  show "x \<le> y \<Longrightarrow> y \<le> x \<Longrightarrow> x = y" by (cases x; cases y) auto
  show "x \<le> y \<or> y \<le> x" by (cases x; cases y) auto
qed

end

text \<open>\<open>str.split(sep)\<close> for a separator of one character.\<close>

fun split_on :: "char \<Rightarrow> string \<Rightarrow> string list" where
  "split_on sep [] = [[]]"
| "split_on sep (c # s) = (if c = sep then [] # split_on sep s
     else (case split_on sep s of [] \<Rightarrow> [[c]] | w # ws \<Rightarrow> (c # w) # ws))"

type_synonym version_key = "nat list \<times> nat \<times> prerelease_id list"

text \<open>
  \<open>_semver_key\<close> of a semantic version, for which every part of the core is a number. The flag is one for a release and
  zero for a prerelease.
\<close>

definition semver_key :: "string \<Rightarrow> version_key" where
  "semver_key version = (let core = takeWhile (\<lambda>c. c \<noteq> CHR ''-'') version; prerelease = drop (Suc (length core)) version;
       numbers = map nat_of_digits (split_on (CHR ''.'') core) in
     if prerelease = [] then (numbers, 1, [])
     else (numbers, 0, map (\<lambda>item. if item \<noteq> [] \<and> list_all is_digit item then Numeric (nat_of_digits item) else Word item)
       (split_on (CHR ''.'') prerelease)))"

definition version_satisfies_one :: "string \<Rightarrow> string \<Rightarrow> bool result" where
  "version_satisfies_one item version =
     thenE (raise_if (\<not> is_spec_item item) (ManifestError (''dependency version spec is invalid: '' @ item)))
    (thenE (raise_if (\<not> is_semver version) (ManifestError (''version must use semantic versioning: '' @ version)))
    (if spec_target item = ''*'' then Inr True
     else let left = semver_key version; right = semver_key (spec_target item); op = spec_operator item in
       Inr (if op = ''>'' then right < left else if op = ''>='' then right \<le> left else if op = ''<'' then left < right
            else if op = ''<='' then left \<le> right else left = right)))"

definition version_satisfies :: "string \<Rightarrow> string \<Rightarrow> bool result" where
  "version_satisfies spec version =
     thenE (raise_if (py_split spec = []) (ManifestError ''dependency version spec is invalid: empty''))
    (bindE (mapE (\<lambda>item. version_satisfies_one item version) (py_split spec)) (\<lambda>results. Inr (list_all (\<lambda>b. b) results)))"

definition compare_versions :: "string \<Rightarrow> string \<Rightarrow> int" where
  "compare_versions left right = (if semver_key left < semver_key right then -1
     else if semver_key right < semver_key left then 1 else 0)"


subsection \<open>The payload of a manifest is read back\<close>

lemma mapE_reparse:
  "mapE f xs = Inr ys \<Longrightarrow> (\<And>x y. f x = Inr y \<Longrightarrow> f (g y) = Inr y) \<Longrightarrow> mapE f (map g ys) = Inr ys"
  by (induction xs arbitrary: ys) (auto simp: result_simps)

lemma require_identifier_Inr: "require_identifier v f = Inr s \<longleftrightarrow> v = Some (JStr s) \<and> is_identifier s"
  by (auto simp: require_identifier_def split: option.splits json.splits if_splits)

lemma required_text_Inr: "required_text raw f pattern message = Inr s \<longleftrightarrow> map_of raw f = Some (JStr s) \<and> pattern s"
  by (auto simp: required_text_def split: option.splits json.splits if_splits)

lemma optional_text_pattern: "optional_text raw f pattern message = Inr v \<Longrightarrow> pred_option pattern v"
  by (auto simp: optional_text_def split: option.splits json.splits if_splits)

lemma optional_text_back:
  "map_of raw f = map_option JStr v \<Longrightarrow> pred_option pattern v \<Longrightarrow> optional_text raw f pattern message = Inr v"
  by (cases v) (auto simp: optional_text_def)

lemma mapE_identifiers: "mapE (\<lambda>item. require_identifier (Some item) f) items = Inr xs
    \<longleftrightarrow> items = map JStr xs \<and> list_all is_identifier xs"
proof (induction items arbitrary: xs)
  case (Cons item items)
  then show ?case by (cases xs) (auto simp: result_simps require_identifier_Inr)
qed auto

lemma require_string_list_Inr:
  "require_string_list v f = Inr xs \<longleftrightarrow> v = Some (JList (map JStr xs)) \<and> list_all is_identifier xs \<and> distinct xs"
  by (auto simp: require_string_list_def result_simps mapE_identifiers split: option.splits json.splits)

lemma parse_dependency_back: "parse_dependency item = Inr d \<Longrightarrow> parse_dependency (dependency_payload d) = Inr d"
  by (auto simp: parse_dependency_def dependency_payload_def PackDependency_post_init_def result_simps require_identifier_Inr
      split: json.splits option.splits)

lemma parse_dependencies_back:
  assumes "parse_dependencies raw = Inr ds" and "map_of raw' ''dependencies'' = Some (JList (map dependency_payload ds))"
  shows "parse_dependencies raw' = Inr ds"
proof (cases "map_of raw ''dependencies''")
  case (Some v)
  with assms show ?thesis
    by (cases v) (auto simp: parse_dependencies_def result_simps intro: mapE_reparse parse_dependency_back)
qed (use assms in \<open>auto simp: parse_dependencies_def\<close>)

lemma positive_int_pos: "positive_int v = Some i \<Longrightarrow> 0 < i"
  by (induction v rule: positive_int.induct) (auto split: if_splits)

lemma parse_goal_type_back:
  assumes "parse_goal_type check_schema item = Inr g"
  shows "parse_goal_type check_schema (goal_type_payload g) = Inr g"
proof -
  from assms obtain schema where "gtm_input_schema g = JObj schema" "check_schema (JObj schema) = Inr ()" "0 < gtm_default_budget g"
      "is_identifier (gtm_goal_type g)" "is_identifier (gtm_agent g)" "is_identifier (gtm_evaluation_suite g)"
      "is_identifier (gtm_default_policy g)"
    by (auto simp: parse_goal_type_def result_simps require_identifier_Inr dest: positive_int_pos split: json.splits option.splits)
  then show ?thesis
    by (auto simp: parse_goal_type_def goal_type_payload_def GOAL_TYPE_FIELDS_def require_identifier_def)
qed

lemma parse_goal_types_back:
  assumes "parse_goal_types check_schema raw = Inr gs" and "map_of raw' ''goal_types'' = Some (JList (map goal_type_payload gs))"
  shows "parse_goal_types check_schema raw' = Inr gs"
proof -
  from assms(1) obtain items where items: "items \<noteq> []" "mapE (parse_goal_type check_schema) items = Inr gs" "distinct (map gtm_goal_type gs)"
    by (auto simp: parse_goal_types_def result_simps split: option.splits json.splits)
  have "gs \<noteq> []" using items by (cases items) (auto simp: result_simps)
  moreover have "mapE (parse_goal_type check_schema) (map goal_type_payload gs) = Inr gs"
    using items(2) by (rule mapE_reparse) (rule parse_goal_type_back)
  ultimately show ?thesis using assms(2) items(3) by (simp add: parse_goal_types_def)
qed

lemma map_of_optional_field: "map_of (optional_field f v) k = (if k = f then map_option JStr v else None)"
  by (cases v) (auto simp: optional_field_def)

lemma manifest_payload_lookup:
  "map_of (manifest_payload m) ''api_version'' = Some (JStr (man_api_version m))"
  "map_of (manifest_payload m) ''pack_id'' = Some (JStr (man_pack_id m))"
  "map_of (manifest_payload m) ''version'' = Some (JStr (man_version m))"
  "map_of (manifest_payload m) ''python_entry_point'' = Some (JStr (man_python_entry_point m))"
  "map_of (manifest_payload m) ''goal_types'' = Some (JList (map goal_type_payload (man_goal_types m)))"
  "map_of (manifest_payload m) ''skills'' = Some (JList (map JStr (man_skills m)))"
  "map_of (manifest_payload m) ''tools'' = Some (JList (map JStr (man_tools m)))"
  "map_of (manifest_payload m) ''policies'' = Some (JList (map JStr (man_policies m)))"
  "map_of (manifest_payload m) ''evaluation_suites'' = Some (JList (map JStr (man_evaluation_suites m)))"
  "map_of (manifest_payload m) ''dependencies'' = Some (JList (map dependency_payload (man_dependencies m)))"
  "map_of (manifest_payload m) ''evaluation_subject'' = map_option JStr (man_evaluation_subject m)"
  "map_of (manifest_payload m) ''artifact_uri'' = map_option JStr (man_artifact_uri m)"
  "map_of (manifest_payload m) ''artifact_digest'' = map_option JStr (man_artifact_digest m)"
  "map_of (manifest_payload m) ''signature'' = map_option JStr (man_signature m)"
  "map_of (manifest_payload m) ''sbom_ref'' = map_option JStr (man_sbom_ref m)"
  "map_of (manifest_payload m) ''sbom_digest'' = map_option JStr (man_sbom_digest m)"
  by (simp_all add: manifest_payload_def map_add_def map_of_optional_field split: option.splits)

lemma manifest_payload_fields:
  "fst ` set (manifest_payload m) \<subseteq> set ALLOWED_FIELDS" "set REQUIRED_FIELDS \<subseteq> fst ` set (manifest_payload m)"
  by (auto simp: manifest_payload_def optional_field_def ALLOWED_FIELDS_def REQUIRED_FIELDS_def split: option.splits)

text \<open>
  C36. The payload of a manifest is lossless: for every manifest the strict parser accepts, in whatever order and with
  whatever explicit nulls its fields came, parsing the payload gives the same manifest again.
\<close>

theorem manifest_roundtrip:
  assumes "parse_manifest check_schema raw = Inr m"
  shows "parse_manifest check_schema (manifest_payload m) = Inr m"
proof -
  from assms have "parse_dependencies raw = Inr (man_dependencies m)" "parse_goal_types check_schema raw = Inr (man_goal_types m)"
    by (auto simp: parse_manifest_def result_simps)
  then have lists: "parse_dependencies (manifest_payload m) = Inr (man_dependencies m)"
      "parse_goal_types check_schema (manifest_payload m) = Inr (man_goal_types m)"
    by (auto intro: parse_dependencies_back parse_goal_types_back simp: manifest_payload_lookup)
  from assms show ?thesis
    by (auto simp: parse_manifest_def result_simps manifest_payload_fields lists optional_text_back manifest_payload_lookup
        required_text_Inr require_identifier_Inr require_string_list_Inr dest!: optional_text_pattern
        intro: subsetD [OF manifest_payload_fields(1)] subsetD [OF manifest_payload_fields(2)])
qed


definition demo_raw :: "(string \<times> json) list" where
  "demo_raw = [(''pack_id'', JStr ''my-pack''), (''api_version'', JStr ''autonoesis/v1alpha1''), (''version'', JStr ''1.2.0-rc.1''),
     (''python_entry_point'', JStr ''my_pack.main:load''), (''signature'', JNull),
     (''goal_types'', JList [JObj [(''agent'', JStr ''a''), (''goal_type'', JStr ''g.one''), (''input_schema'', JObj []),
        (''evaluation_suite'', JStr ''s''), (''default_policy'', JStr ''p''), (''default_budget'', JInt 5)]]),
     (''skills'', JList []), (''tools'', JList [JStr ''t1'', JStr ''t2'']), (''policies'', JList []),
     (''evaluation_suites'', JList [JStr ''s'']),
     (''dependencies'', JList [JObj [(''pack_id'', JStr ''base''), (''version_spec'', JStr ''>=1.0.0 <2.0.0'')]])]"

lemma demo_raw_parses: "is_ok (parse_manifest (\<lambda>_. Inr ()) demo_raw)"
  by code_simp

theorem manifest_roundtrip_witness:
  "\<exists>m. parse_manifest (\<lambda>_. Inr ()) demo_raw = Inr m \<and> parse_manifest (\<lambda>_. Inr ()) (manifest_payload m) = Inr m"
  using demo_raw_parses manifest_roundtrip [of "\<lambda>_. Inr ()" demo_raw] by (auto simp: is_ok_iff)

subsection \<open>The order of versions\<close>

lemma compare_versions_pos: "0 < compare_versions a b \<longleftrightarrow> semver_key b < semver_key a"
  by (auto simp: compare_versions_def)

end
