(* ===== verification/Packs.thy ===== *)
theory Packs
  imports Manifest Json_Equality
begin

text \<open>
  Capability packs of a tenant: the tables and operations of \<open>InMemoryPlatformStore\<close> that hold them
  (\<open>packages/adapters/src/autonoesis_adapters/memory.py\<close>, lines 122 to 299) and the governed use cases of
  \<open>packages/application/src/autonoesis_application/packs.py\<close>. The versions of installed manifests are semantic versions,
  which the parser of manifests enforces; the supply-chain verifier is an argument.
\<close>

subsection \<open>The tables of packs\<close>

type_synonym pack_key = "uuid \<times> string \<times> string"

record pack_store =
  ps_packs :: "(string \<times> CapabilityPackManifest) list"
  ps_goal_types :: "(string \<times> GoalTypeManifest) list"
  ps_tenant_goal_types :: "((uuid \<times> string) \<times> GoalTypeManifest) list"
  ps_tenant_packs :: "(pack_key \<times> CapabilityPackManifest) list"
  ps_pack_states :: "(pack_key \<times> (string \<times> bool) list) list"
  ps_pack_channels :: "((uuid \<times> string) \<times> string) list"
  ps_audits :: "AuditEvent list"

definition empty_packs :: pack_store where
  "empty_packs = \<lparr>ps_packs = [], ps_goal_types = [], ps_tenant_goal_types = [], ps_tenant_packs = [], ps_pack_states = [],
     ps_pack_channels = [], ps_audits = []\<rparr>"

definition register_pack :: "CapabilityPackManifest \<Rightarrow> pack_store \<Rightarrow> pack_store" where
  "register_pack manifest s = s\<lparr>ps_packs := AList.update (man_pack_id manifest) manifest (ps_packs s),
     ps_goal_types := fold (\<lambda>g. AList.update (gtm_goal_type g) g) (man_goal_types manifest) (ps_goal_types s)\<rparr>"

text \<open>\<open>bool(state.get(flag))\<close>.\<close>

definition flag :: "(string \<times> bool) list \<Rightarrow> string \<Rightarrow> bool" where
  "flag state name = (map_of state name = Some True)"

definition pack_is_listable :: "pack_store \<Rightarrow> pack_key \<Rightarrow> bool" where
  "pack_is_listable s key =
     (let state = (case map_of (ps_pack_states s) key of Some d \<Rightarrow> d | None \<Rightarrow> [(''enabled'', True), (''revoked'', False)]) in
      flag state ''enabled'' \<and> \<not> flag state ''revoked'')"

text \<open>One pass of the loop that resolves the manifest served for each pack of the tenant.\<close>

definition resolve_step :: "pack_store \<Rightarrow> uuid \<Rightarrow> pack_key \<times> CapabilityPackManifest \<Rightarrow> (string \<times> CapabilityPackManifest) list
    \<Rightarrow> (string \<times> CapabilityPackManifest) list" where
  "resolve_step s tenant_id entry resolved = (case entry of ((owner, pack_id, version), item) \<Rightarrow>
     if owner \<noteq> tenant_id \<or> \<not> pack_is_listable s (tenant_id, pack_id, version) then resolved
     else let pinned = map_of (ps_pack_channels s) (tenant_id, pack_id) in
     if pinned \<noteq> None \<and> pinned \<noteq> Some version then resolved
     else (case map_of resolved pack_id of
         None \<Rightarrow> AList.update pack_id item resolved
       | Some current \<Rightarrow> if pinned = None \<and> 0 < compare_versions version (man_version current)
           then AList.update pack_id item resolved else resolved))"

definition resolved_packs :: "pack_store \<Rightarrow> uuid \<Rightarrow> (string \<times> CapabilityPackManifest) list" where
  "resolved_packs s tenant_id = fold (resolve_step s tenant_id) (ps_tenant_packs s) []"

definition refresh_tenant_goal_types :: "uuid \<Rightarrow> pack_store \<Rightarrow> pack_store" where
  "refresh_tenant_goal_types tenant_id s =
     (let resolved = resolved_packs s tenant_id;
        kept = filter (\<lambda>((t, _), _). t \<noteq> tenant_id) (ps_tenant_goal_types s);
        entries = concat (map (\<lambda>pack_id. case map_of resolved pack_id of None \<Rightarrow> [] | Some m \<Rightarrow> man_goal_types m)
          (sort (map fst resolved))) in
      s\<lparr>ps_tenant_goal_types := fold (\<lambda>g. AList.update (tenant_id, gtm_goal_type g) g) entries kept\<rparr>)"

definition store_install_pack :: "uuid \<Rightarrow> CapabilityPackManifest \<Rightarrow> pack_store \<Rightarrow> pack_store result" where
  "store_install_pack tenant_id manifest s =
     (let key = (tenant_id, man_pack_id manifest, man_version manifest) in
      case map_of (ps_tenant_packs s) key of
        Some existing \<Rightarrow>
          if \<not> py_eq (JObj (manifest_payload existing)) (JObj (manifest_payload manifest))
          then Inl (ValueError (''capability pack content conflict: '' @ man_pack_id manifest @ ''@'' @ man_version manifest
            @ '' is already installed with different signed content''))
          else Inr s
      | None \<Rightarrow> Inr (refresh_tenant_goal_types tenant_id
          (s\<lparr>ps_tenant_packs := AList.update key manifest (ps_tenant_packs s),
             ps_pack_states := (if map_of (ps_pack_states s) key = None
               then AList.update key [(''enabled'', True), (''revoked'', False)] (ps_pack_states s) else ps_pack_states s)\<rparr>)))"

definition list_capability_packs :: "pack_store \<Rightarrow> uuid \<Rightarrow> bool \<Rightarrow> CapabilityPackManifest list" where
  "list_capability_packs s tenant_id include_disabled =
     (let tenant_items = map snd (filter (\<lambda>(key, _). fst key = tenant_id \<and> (include_disabled \<or> pack_is_listable s key))
        (sort_key fst (ps_tenant_packs s))) in
      if tenant_items \<noteq> [] then tenant_items else map snd (ps_packs s))"

definition get_installed_pack :: "pack_store \<Rightarrow> pack_key \<Rightarrow> CapabilityPackManifest option" where
  "get_installed_pack s key = map_of (ps_tenant_packs s) key"

definition is_pack_revoked :: "pack_store \<Rightarrow> pack_key \<Rightarrow> bool" where
  "is_pack_revoked s key = (case map_of (ps_pack_states s) key of Some d \<Rightarrow> flag d ''revoked'' | None \<Rightarrow> False)"

definition require_pack :: "pack_store \<Rightarrow> pack_key \<Rightarrow> unit result" where
  "require_pack s key = (case key of (tenant_id, pack_id, version) \<Rightarrow> raise_if (map_of (ps_tenant_packs s) key = None)
     (RecordNotFound (''capability pack '' @ pack_id @ ''@'' @ version @ '' was not found'')))"

text \<open>\<open>pack_states.setdefault(key, {})[name] = value\<close>.\<close>

definition set_flag :: "pack_key \<Rightarrow> string \<Rightarrow> bool \<Rightarrow> pack_store \<Rightarrow> pack_store" where
  "set_flag key name v s = s\<lparr>ps_pack_states := AList.update key
     (AList.update name v (case map_of (ps_pack_states s) key of Some d \<Rightarrow> d | None \<Rightarrow> [])) (ps_pack_states s)\<rparr>"

definition record_pack_fact :: "ambient \<Rightarrow> string \<Rightarrow> pack_key \<Rightarrow> uuid \<Rightarrow> string option \<Rightarrow> pack_store \<Rightarrow> pack_store" where
  "record_pack_fact amb event_type key actor reason s = (case key of (tenant_id, pack_id, version) \<Rightarrow>
     s\<lparr>ps_audits := ps_audits s @ [\<lparr>ae_tenant_id = tenant_id, ae_actor_id = actor, ae_principal_id = actor,
        ae_event_type = event_type, ae_object_type = ''capability_pack'', ae_object_id = pack_id @ ''@'' @ version,
        ae_correlation_id = amb_ids amb 0,
        ae_details = [(''pack_id'', JStr pack_id), (''version'', JStr version)]
          @ (case reason of Some r \<Rightarrow> if r \<noteq> [] then [(''reason'', JStr r)] else [] | None \<Rightarrow> []),
        ae_event_id = amb_ids amb 1, ae_sequence = None, ae_previous_digest = None, ae_event_digest = None,
        ae_created_at = None\<rparr>]\<rparr>)"

definition set_pack_enabled :: "ambient \<Rightarrow> pack_key \<Rightarrow> bool \<Rightarrow> uuid \<Rightarrow> string \<Rightarrow> pack_store \<Rightarrow> pack_store result" where
  "set_pack_enabled amb key enabled actor reason s =
     thenE (require_pack s key) (Inr (refresh_tenant_goal_types (fst key)
       (record_pack_fact amb (if enabled then ''capability_pack.enabled'' else ''capability_pack.disabled'') key actor (Some reason)
         (set_flag key ''enabled'' enabled s))))"

definition store_revoke_pack :: "ambient \<Rightarrow> pack_key \<Rightarrow> uuid \<Rightarrow> string \<Rightarrow> pack_store \<Rightarrow> pack_store result" where
  "store_revoke_pack amb key actor reason s =
     thenE (require_pack s key) (Inr (refresh_tenant_goal_types (fst key)
       (record_pack_fact amb ''capability_pack.revoked'' key actor (Some reason)
         (set_flag key ''enabled'' False (set_flag key ''revoked'' True s)))))"

definition store_set_stable_channel :: "ambient \<Rightarrow> pack_key \<Rightarrow> uuid \<Rightarrow> pack_store \<Rightarrow> pack_store result" where
  "store_set_stable_channel amb key actor s = (case key of (tenant_id, pack_id, version) \<Rightarrow>
     thenE (require_pack s key) (Inr (refresh_tenant_goal_types tenant_id
       (record_pack_fact amb ''capability_pack.channel_updated'' key actor None
         (s\<lparr>ps_pack_channels := AList.update (tenant_id, pack_id) version (ps_pack_channels s)\<rparr>)))))"

definition get_stable_channel :: "pack_store \<Rightarrow> uuid \<Rightarrow> string \<Rightarrow> string option" where
  "get_stable_channel s tenant_id pack_id = map_of (ps_pack_channels s) (tenant_id, pack_id)"

definition get_goal_type :: "pack_store \<Rightarrow> uuid \<Rightarrow> string \<Rightarrow> GoalTypeManifest result" where
  "get_goal_type s tenant_id name = (case map_of (ps_tenant_goal_types s) (tenant_id, name) of
     Some g \<Rightarrow> Inr g
   | None \<Rightarrow> (case map_of (ps_goal_types s) name of
       Some g \<Rightarrow> Inr g
     | None \<Rightarrow> Inl (RecordNotFound (''goal type '' @ name @ '' was not found''))))"

subsection \<open>The use cases\<close>

record PackLifecycleCommand =
  plc_pack_id :: string
  plc_version :: string
  plc_reason :: string

definition plc_key :: "IdentityContext \<Rightarrow> PackLifecycleCommand \<Rightarrow> pack_key" where
  "plc_key identity command = (ic_tenant_id identity, plc_pack_id command, plc_version command)"

definition pack_label :: "CapabilityPackManifest \<Rightarrow> string" where
  "pack_label m = man_pack_id m @ ''@'' @ man_version m"

definition assert_dependencies_available :: "pack_store \<Rightarrow> uuid \<Rightarrow> CapabilityPackManifest \<Rightarrow> unit result" where
  "assert_dependencies_available s tenant_id manifest =
     (let installed = fold (\<lambda>m. AList.update (man_pack_id m) m) (list_capability_packs s tenant_id False) [];
        message = (\<lambda>d found. ''capability pack '' @ pack_label manifest @ '' requires '' @ pdep_pack_id d @ '' ''
          @ pdep_version_spec d @ '', found '' @ found) in
      forE (\<lambda>d. case map_of installed (pdep_pack_id d) of
          None \<Rightarrow> Inl (ValueError (message d ''nothing''))
        | Some available \<Rightarrow> bindE (version_satisfies (pdep_version_spec d) (man_version available)) (\<lambda>ok.
            raise_if (\<not> ok) (ValueError (message d (man_version available)))))
        (man_dependencies manifest))"

definition assert_no_dependent_breaks :: "pack_store \<Rightarrow> uuid \<Rightarrow> string \<Rightarrow> string \<Rightarrow> unit result" where
  "assert_no_dependent_breaks s tenant_id pack_id version =
     forE (\<lambda>item. forE (\<lambda>d. if pdep_pack_id d \<noteq> pack_id then Inr () else
         bindE (version_satisfies (pdep_version_spec d) version) (\<lambda>ok. raise_if (\<not> ok)
           (ValueError (''capability pack '' @ pack_label item @ '' requires '' @ pack_id @ '' '' @ pdep_version_spec d
             @ ''; channel '' @ version @ '' breaks it''))))
       (man_dependencies item)) (list_capability_packs s tenant_id False)"

definition require_reason :: "string \<Rightarrow> unit result" where
  "require_reason reason = raise_if (blank reason) (ValueError ''pack lifecycle operations require a recorded reason'')"

definition install_pack :: "(CapabilityPackManifest \<Rightarrow> unit result) option \<Rightarrow> IdentityContext \<Rightarrow> CapabilityPackManifest
    \<Rightarrow> pack_store \<Rightarrow> pack_store result" where
  "install_pack verifier identity manifest s = (case verifier of
     None \<Rightarrow> Inl (PermissionError ''capability pack verification is not configured'')
   | Some verify_install \<Rightarrow>
       thenE (verify_install manifest)
      (thenE (assert_dependencies_available s (ic_tenant_id identity) manifest)
         (store_install_pack (ic_tenant_id identity) manifest s)))"

definition disable_pack :: "ambient \<Rightarrow> IdentityContext \<Rightarrow> PackLifecycleCommand \<Rightarrow> pack_store \<Rightarrow> pack_store result" where
  "disable_pack amb identity command s = thenE (require_reason (plc_reason command))
     (set_pack_enabled amb (plc_key identity command) False (ic_actor_id identity) (plc_reason command) s)"

definition enable_pack :: "ambient \<Rightarrow> IdentityContext \<Rightarrow> PackLifecycleCommand \<Rightarrow> pack_store \<Rightarrow> pack_store result" where
  "enable_pack amb identity command s =
     thenE (raise_if (is_pack_revoked s (plc_key identity command)) (PermissionError ''a revoked capability pack cannot be re-enabled''))
       (set_pack_enabled amb (plc_key identity command) True (ic_actor_id identity)
          (if plc_reason command \<noteq> [] then plc_reason command else ''pack re-enabled'') s)"

definition revoke_pack :: "ambient \<Rightarrow> IdentityContext \<Rightarrow> PackLifecycleCommand \<Rightarrow> pack_store \<Rightarrow> pack_store result" where
  "revoke_pack amb identity command s = thenE (require_reason (plc_reason command))
     (store_revoke_pack amb (plc_key identity command) (ic_actor_id identity) (plc_reason command) s)"

definition set_stable_channel :: "ambient \<Rightarrow> IdentityContext \<Rightarrow> PackLifecycleCommand \<Rightarrow> pack_store \<Rightarrow> pack_store result" where
  "set_stable_channel amb identity command s = (let key = plc_key identity command; tenant_id = ic_tenant_id identity in
     case get_installed_pack s key of
       None \<Rightarrow> Inl (ValueError (''capability pack '' @ plc_pack_id command @ ''@'' @ plc_version command @ '' is not installed''))
     | Some target \<Rightarrow>
         thenE (raise_if (is_pack_revoked s key) (PermissionError ''a revoked capability pack cannot become stable''))
        (thenE (assert_dependencies_available s tenant_id target)
        (thenE (assert_no_dependent_breaks s tenant_id (plc_pack_id command) (plc_version command))
           (store_set_stable_channel amb key (ic_actor_id identity) s))))"

subsection \<open>The manifest served for a pack\<close>

text \<open>A version is eligible when it is listable and the channel of its pack is open or pinned to it.\<close>

definition eligible :: "pack_store \<Rightarrow> uuid \<Rightarrow> string \<Rightarrow> string \<Rightarrow> bool" where
  "eligible s t p v \<longleftrightarrow> pack_is_listable s (t, p, v) \<and> map_of (ps_pack_channels s) (t, p) \<in> {None, Some v}"

text \<open>The specification of the resolution: an eligible installed version that no eligible installed version outranks.\<close>

definition serves :: "pack_store \<Rightarrow> uuid \<Rightarrow> string \<Rightarrow> string \<Rightarrow> CapabilityPackManifest \<Rightarrow> bool" where
  "serves s t p v m \<longleftrightarrow> get_installed_pack s (t, p, v) = Some m \<and> eligible s t p v
     \<and> (\<forall>v'. get_installed_pack s (t, p, v') \<noteq> None \<longrightarrow> eligible s t p v' \<longrightarrow> semver_key v' \<le> semver_key v)"

text \<open>Each pack is stored once under its own identifier and version.\<close>

definition packs_keyed :: "(pack_key \<times> CapabilityPackManifest) list \<Rightarrow> bool" where
  "packs_keyed table \<longleftrightarrow> distinct (map fst table) \<and> (\<forall>((t, p, v), m) \<in> set table. man_pack_id m = p \<and> man_version m = v)"

definition best :: "pack_store \<Rightarrow> uuid \<Rightarrow> (pack_key \<times> CapabilityPackManifest) list \<Rightarrow> string \<Rightarrow> CapabilityPackManifest option \<Rightarrow> bool" where
  "best s t table p choice \<longleftrightarrow> (case choice of
     None \<Rightarrow> \<forall>v m. ((t, p, v), m) \<in> set table \<longrightarrow> \<not> eligible s t p v
   | Some m \<Rightarrow> ((t, p, man_version m), m) \<in> set table \<and> eligible s t p (man_version m)
       \<and> (\<forall>v' m'. ((t, p, v'), m') \<in> set table \<longrightarrow> eligible s t p v' \<longrightarrow> semver_key v' \<le> semver_key (man_version m)))"

lemma resolve_step_eligible:
  "resolve_step s t ((t', p, v), m) resolved = (if t' = t \<and> eligible s t p v
     then (case map_of resolved p of None \<Rightarrow> AList.update p m resolved
       | Some current \<Rightarrow> if map_of (ps_pack_channels s) (t, p) = None \<and> semver_key (man_version current) < semver_key v
           then AList.update p m resolved else resolved)
     else resolved)"
  by (auto simp: resolve_step_def eligible_def compare_versions_pos Let_def split: option.splits)

lemma resolve_best:
  assumes "\<forall>((t, p, v), m) \<in> set table. man_version m = v"
  shows "best s t table p (map_of (fold (resolve_step s t) table []) p)"
  using assms
proof (induction table rule: rev_induct)
  case Nil
  then show ?case by (simp add: best_def)
next
  case (snoc entry table)
  obtain t' q v m where entry: "entry = ((t', q, v), m)" by (cases entry) auto
  from snoc have IH: "best s t table p (map_of (fold (resolve_step s t) table []) p)" and v: "man_version m = v"
    by (auto simp: entry)
  show ?case
  proof (cases "t' = t \<and> q = p \<and> eligible s t p v")
    case False
    with IH show ?thesis by (auto simp: entry resolve_step_eligible best_def update_conv' split: option.splits)
  next
    case True
    show ?thesis
    proof (cases "map_of (fold (resolve_step s t) table []) p")
      case None
      with IH True v show ?thesis by (auto simp: entry resolve_step_eligible best_def update_conv')
    next
      case (Some current)
      have pinned: "map_of (ps_pack_channels s) (t, p) \<noteq> None \<Longrightarrow> v = man_version current"
        using IH True Some by (auto simp: best_def eligible_def)
      show ?thesis
      proof (cases "map_of (ps_pack_channels s) (t, p) = None \<and> semver_key (man_version current) < semver_key v")
        case newer: True
        with IH True Some v show ?thesis
          by (auto simp: entry resolve_step_eligible best_def update_conv')
      next
        case older: False
        then have "semver_key v \<le> semver_key (man_version current)" using pinned by fastforce
        with older IH True Some show ?thesis by (auto simp: entry resolve_step_eligible best_def)
      qed
    qed
  qed
qed

lemma resolved_serves:
  assumes "packs_keyed (ps_tenant_packs s)"
  shows "map_of (resolved_packs s t) p = Some m \<Longrightarrow> serves s t p (man_version m) m"
    and "map_of (resolved_packs s t) p = None \<Longrightarrow> get_installed_pack s (t, p, v) \<noteq> None \<Longrightarrow> \<not> eligible s t p v"
proof -
  have table: "get_installed_pack s k = Some m \<longleftrightarrow> (k, m) \<in> set (ps_tenant_packs s)" for k m
    using assms by (auto simp: packs_keyed_def get_installed_pack_def map_of_eq_Some_iff)
  have best: "best s t (ps_tenant_packs s) p (map_of (resolved_packs s t) p)"
    unfolding resolved_packs_def by (rule resolve_best) (use assms in \<open>auto simp: packs_keyed_def\<close>)
  from best show "map_of (resolved_packs s t) p = Some m \<Longrightarrow> serves s t p (man_version m) m"
    by (auto simp: best_def serves_def table)
  from best show "map_of (resolved_packs s t) p = None \<Longrightarrow> get_installed_pack s (t, p, v) \<noteq> None \<Longrightarrow> \<not> eligible s t p v"
    by (auto simp: best_def table)
qed


subsection \<open>The index of goal types\<close>

definition index_entries :: "pack_store \<Rightarrow> uuid \<Rightarrow> GoalTypeManifest list" where
  "index_entries s t = concat (map (\<lambda>p. case map_of (resolved_packs s t) p of None \<Rightarrow> [] | Some m \<Rightarrow> man_goal_types m)
     (sort (map fst (resolved_packs s t))))"

definition index_current :: "pack_store \<Rightarrow> uuid \<Rightarrow> bool" where
  "index_current s t \<longleftrightarrow> (\<forall>g. map_of (ps_tenant_goal_types s) (t, g)
     = map_of (fold (\<lambda>g. AList.update (t, gtm_goal_type g) g) (index_entries s t) []) (t, g))"

lemma index_entries_iff: "g \<in> set (index_entries s t) \<longleftrightarrow> (\<exists>p m. map_of (resolved_packs s t) p = Some m \<and> g \<in> set (man_goal_types m))"
proof -
  have "p \<in> fst ` set xs" if "map_of xs p = Some m" for xs :: "(string \<times> CapabilityPackManifest) list" and p m
    using that by (metis domI dom_map_of_conv_image_fst)
  then show ?thesis by (force simp: index_entries_def split: option.splits)
qed

lemma index_lookup:
  "map_of (fold (\<lambda>g. AList.update (t, gtm_goal_type g) g) es table) k
     = (case find (\<lambda>g. (t, gtm_goal_type g) = k) (rev es) of Some g \<Rightarrow> Some g | None \<Rightarrow> map_of table k)"
  by (induction es rule: rev_induct) (auto simp: update_conv')

lemma index_current_found:
  assumes "index_current s t" and "map_of (ps_tenant_goal_types s) (t, name) = Some g"
  shows "g \<in> set (index_entries s t) \<and> gtm_goal_type g = name"
  using assms by (auto simp: index_current_def index_lookup find_Some_iff split: option.splits) (metis nth_mem set_rev length_rev)+

lemma index_current_complete:
  assumes "index_current s t" and "g \<in> set (index_entries s t)"
  shows "map_of (ps_tenant_goal_types s) (t, gtm_goal_type g) \<noteq> None"
  using assms by (auto simp: index_current_def index_lookup find_None_iff split: option.splits)

text \<open>The tables of one tenant are the same in two stores.\<close>

definition same_tenant :: "uuid \<Rightarrow> pack_store \<Rightarrow> pack_store \<Rightarrow> bool" where
  "same_tenant t s s' \<longleftrightarrow> filter (\<lambda>(k, _). fst k = t) (ps_tenant_packs s') = filter (\<lambda>(k, _). fst k = t) (ps_tenant_packs s)
     \<and> (\<forall>p v. map_of (ps_pack_states s') (t, p, v) = map_of (ps_pack_states s) (t, p, v))
     \<and> (\<forall>p. map_of (ps_pack_channels s') (t, p) = map_of (ps_pack_channels s) (t, p))"

lemma fold_resolve_filter:
  "fold (resolve_step s t) table acc = fold (resolve_step s t) (filter (\<lambda>(k, _). fst k = t) table) acc"
  by (induction table arbitrary: acc) (auto simp: resolve_step_eligible)

lemma resolved_same:
  assumes "same_tenant t s s'"
  shows "resolved_packs s' t = resolved_packs s t"
proof -
  have "resolve_step s' t = resolve_step s t"
    using assms by (intro ext) (auto simp: resolve_step_def same_tenant_def pack_is_listable_def Let_def)
  with assms show ?thesis
    unfolding resolved_packs_def same_tenant_def by (metis fold_resolve_filter)
qed

lemma index_current_same:
  assumes "index_current s t" and "same_tenant t s s'"
    and "\<And>g. map_of (ps_tenant_goal_types s') (t, g) = map_of (ps_tenant_goal_types s) (t, g)"
  shows "index_current s' t"
  using assms by (simp add: index_current_def index_entries_def resolved_same)

lemma refresh_frame [simp]:
  "ps_tenant_packs (refresh_tenant_goal_types t s) = ps_tenant_packs s"
  "ps_pack_states (refresh_tenant_goal_types t s) = ps_pack_states s"
  "ps_pack_channels (refresh_tenant_goal_types t s) = ps_pack_channels s"
  "ps_audits (refresh_tenant_goal_types t s) = ps_audits s"
  "ps_packs (refresh_tenant_goal_types t s) = ps_packs s"
  by (simp_all add: refresh_tenant_goal_types_def Let_def)

lemma map_of_filter_fst: "map_of (filter (\<lambda>((t', _), _). t' \<noteq> t) xs) (u, g) = (if u = t then None else map_of xs (u, g))"
  by (induction xs) auto

lemma refresh_index:
  "ps_tenant_goal_types (refresh_tenant_goal_types t s)
     = fold (\<lambda>g. AList.update (t, gtm_goal_type g) g) (index_entries s t) (filter (\<lambda>((t', _), _). t' \<noteq> t) (ps_tenant_goal_types s))"
  by (simp add: refresh_tenant_goal_types_def index_entries_def Let_def)

lemma refresh_current: "index_current (refresh_tenant_goal_types t s) t"
proof -
  have "index_entries (refresh_tenant_goal_types t s) t = index_entries s t"
    using resolved_same [of t s "refresh_tenant_goal_types t s"] by (simp add: index_entries_def same_tenant_def)
  then show ?thesis by (simp add: index_current_def refresh_index index_lookup map_of_filter_fst split: option.splits)
qed

lemma refresh_other: "u \<noteq> t \<Longrightarrow> map_of (ps_tenant_goal_types (refresh_tenant_goal_types t s)) (u, g) = map_of (ps_tenant_goal_types s) (u, g)"
  by (auto simp: refresh_index index_lookup map_of_filter_fst find_Some_iff split: option.splits)

subsection \<open>Reachable stores\<close>

definition packs_ok :: "pack_store \<Rightarrow> bool" where
  "packs_ok s \<longleftrightarrow> packs_keyed (ps_tenant_packs s) \<and> (\<forall>t. index_current s t)"

lemma packs_ok_keyed: "packs_ok s \<Longrightarrow> packs_keyed (ps_tenant_packs s)"
  by (simp add: packs_ok_def)

text \<open>A change of the tables of one tenant followed by a refresh of its index keeps the invariant.\<close>

lemma packs_ok_refresh:
  assumes "packs_ok s" and "packs_keyed (ps_tenant_packs s')" and "\<And>u. u \<noteq> t \<Longrightarrow> same_tenant u s s'"
    and "ps_tenant_goal_types s' = ps_tenant_goal_types s"
  shows "packs_ok (refresh_tenant_goal_types t s')"
proof -
  have "index_current (refresh_tenant_goal_types t s') u" for u
  proof (cases "u = t")
    case False
    with assms(1) have "index_current s u" by (simp add: packs_ok_def)
    then show ?thesis
      by (rule index_current_same) (use assms(3) [OF False] False assms(4) in \<open>simp_all add: same_tenant_def refresh_other\<close>)
  qed (simp add: refresh_current)
  with assms(2) show ?thesis by (simp add: packs_ok_def)
qed

inductive pack_step :: "pack_store \<Rightarrow> pack_store \<Rightarrow> bool" where
  step_register: "pack_step s (register_pack m s)"
| step_add: "store_install_pack t m s = Inr s' \<Longrightarrow> pack_step s s'"
| step_install: "install_pack verifier identity m s = Inr s' \<Longrightarrow> pack_step s s'"
| step_disable: "disable_pack amb identity command s = Inr s' \<Longrightarrow> pack_step s s'"
| step_enable: "enable_pack amb identity command s = Inr s' \<Longrightarrow> pack_step s s'"
| step_revoke: "revoke_pack amb identity command s = Inr s' \<Longrightarrow> pack_step s s'"
| step_channel: "set_stable_channel amb identity command s = Inr s' \<Longrightarrow> pack_step s s'"


lemma fact_frame [simp]:
  "ps_tenant_packs (record_pack_fact amb e k a r s) = ps_tenant_packs s"
  "ps_pack_states (record_pack_fact amb e k a r s) = ps_pack_states s"
  "ps_pack_channels (record_pack_fact amb e k a r s) = ps_pack_channels s"
  "ps_tenant_goal_types (record_pack_fact amb e k a r s) = ps_tenant_goal_types s"
  "ps_packs (record_pack_fact amb e k a r s) = ps_packs s"
  by (simp_all add: record_pack_fact_def split: prod.splits)

lemma set_flag_frame [simp]:
  "ps_tenant_packs (set_flag k name v s) = ps_tenant_packs s"
  "ps_pack_channels (set_flag k name v s) = ps_pack_channels s"
  "ps_tenant_goal_types (set_flag k name v s) = ps_tenant_goal_types s"
  "ps_packs (set_flag k name v s) = ps_packs s"
  by (simp_all add: set_flag_def)

lemma set_flag_states [simp]:
  "map_of (ps_pack_states (set_flag k name v s)) k' = (if k' = k
     then Some (AList.update name v (case map_of (ps_pack_states s) k of Some d \<Rightarrow> d | None \<Rightarrow> [])) else map_of (ps_pack_states s) k')"
  by (simp add: set_flag_def update_conv')

lemma store_install_ok:
  assumes "packs_ok s" and "store_install_pack t m s = Inr s'"
  shows "packs_ok s'"
proof (cases "map_of (ps_tenant_packs s) (t, man_pack_id m, man_version m)")
  case None
  let ?k = "(t, man_pack_id m, man_version m)"
  let ?s = "s\<lparr>ps_tenant_packs := AList.update ?k m (ps_tenant_packs s), ps_pack_states := (if map_of (ps_pack_states s) ?k = None
     then AList.update ?k [(''enabled'', True), (''revoked'', False)] (ps_pack_states s) else ps_pack_states s)\<rparr>"
  have "packs_ok (refresh_tenant_goal_types t ?s)"
  proof (rule packs_ok_refresh [OF assms(1)])
    show "packs_keyed (ps_tenant_packs ?s)"
      using None assms(1) by (auto simp: update_fresh [OF None] packs_ok_def packs_keyed_def map_of_eq_None_iff)
    show "same_tenant u s ?s" if "u \<noteq> t" for u
      using that by (simp add: update_fresh [OF None] same_tenant_def update_conv')
  qed simp
  with None assms(2) show ?thesis by (simp add: store_install_pack_def Let_def)
next
  case (Some e)
  with assms show ?thesis by (auto simp: store_install_pack_def Let_def split: if_splits)
qed

lemma pack_step_ok: "pack_step s s' \<Longrightarrow> packs_ok s \<Longrightarrow> packs_ok s'"
proof (induction rule: pack_step.induct)
  case (step_register s m)
  then have "index_current s t" for t by (simp add: packs_ok_def)
  then have "index_current (register_pack m s) t" for t
    by (rule index_current_same) (simp_all add: register_pack_def same_tenant_def)
  with step_register show ?case by (simp add: packs_ok_def register_pack_def)
next
  case (step_add t m s s')
  then show ?case by (simp add: store_install_ok)
next
  case (step_install verifier identity m s s')
  then show ?case by (auto simp: install_pack_def result_simps intro: store_install_ok split: option.splits)
next
  case (step_disable amb identity command s s')
  then show ?case
    by (auto simp: disable_pack_def set_pack_enabled_def plc_key_def result_simps same_tenant_def packs_ok_keyed intro!: packs_ok_refresh [of s])
next
  case (step_enable amb identity command s s')
  then show ?case
    by (auto simp: enable_pack_def set_pack_enabled_def plc_key_def result_simps same_tenant_def packs_ok_keyed
        intro!: packs_ok_refresh [of s])
next
  case (step_revoke amb identity command s s')
  then show ?case
    by (auto simp: revoke_pack_def store_revoke_pack_def plc_key_def result_simps same_tenant_def packs_ok_keyed
        intro!: packs_ok_refresh [of s])
next
  case (step_channel amb identity command s s')
  then show ?case
    by (auto simp: set_stable_channel_def store_set_stable_channel_def plc_key_def result_simps same_tenant_def Let_def update_conv'
        packs_ok_keyed
        intro!: packs_ok_refresh [of s] split: option.splits)
qed

lemma reachable_packs_ok: "pack_step\<^sup>*\<^sup>* empty_packs s \<Longrightarrow> packs_ok s"
proof (induction rule: rtranclp_induct)
  case base
  then show ?case by (simp add: packs_ok_def empty_packs_def packs_keyed_def index_current_def index_entries_def resolved_packs_def)
qed (rule pack_step_ok)


lemma served_goal_type:
  assumes "packs_ok s" and "map_of (ps_tenant_goal_types s) (t, name) = Some g"
  shows "\<exists>p v m. serves s t p v m \<and> g \<in> set (man_goal_types m) \<and> gtm_goal_type g = name"
proof -
  from assms(1) have ok: "packs_keyed (ps_tenant_packs s)" "index_current s t" by (simp_all add: packs_ok_def)
  from index_current_found [OF ok(2) assms(2)] resolved_serves(1) [OF ok(1)] show ?thesis by (metis index_entries_iff)
qed

text \<open>
  C34. The goal types of a tenant are those of the versions its channels select. After any sequence of installations,
  enablements, disablements, revocations and channel changes, a goal type in the index of a tenant is declared by the
  manifest served for some pack: an installed version that is enabled, not revoked, equal to the pinned version if the
  channel is pinned, and outranked by no other such version. Conversely, for every pack with an eligible version one such
  manifest is served and all its goal types are in the index.
\<close>

theorem goal_type_index_resolved:
  assumes "pack_step\<^sup>*\<^sup>* empty_packs s"
  shows "(map_of (ps_tenant_goal_types s) (t, name) = Some g
      \<longrightarrow> (\<exists>p v m. serves s t p v m \<and> g \<in> set (man_goal_types m) \<and> gtm_goal_type g = name))
    \<and> (get_installed_pack s (t, p, v) \<noteq> None \<and> eligible s t p v
      \<longrightarrow> (\<exists>v m. serves s t p v m
            \<and> (\<forall>g \<in> set (man_goal_types m). map_of (ps_tenant_goal_types s) (t, gtm_goal_type g) \<noteq> None)))"
proof -
  from reachable_packs_ok [OF assms] have ok: "packs_keyed (ps_tenant_packs s)" "index_current s t" by (simp_all add: packs_ok_def)
  have "\<exists>p v m. serves s t p v m \<and> g \<in> set (man_goal_types m) \<and> gtm_goal_type g = name"
    if "map_of (ps_tenant_goal_types s) (t, name) = Some g"
    using served_goal_type [OF reachable_packs_ok [OF assms] that] .
  moreover have "\<exists>v m. serves s t p v m
      \<and> (\<forall>g \<in> set (man_goal_types m). map_of (ps_tenant_goal_types s) (t, gtm_goal_type g) \<noteq> None)"
    if "get_installed_pack s (t, p, v) \<noteq> None" "eligible s t p v"
  proof -
    from resolved_serves(2) [OF ok(1) _ that(1)] that(2) obtain m where m: "map_of (resolved_packs s t) p = Some m" by blast
    with resolved_serves(1) [OF ok(1) m] index_current_complete [OF ok(2)] show ?thesis by (metis index_entries_iff)
  qed
  ultimately show ?thesis by blast
qed

subsection \<open>Revocation is final\<close>

lemma flag_update [simp]: "flag (AList.update n v d) n' = (if n' = n then v else flag d n')"
  by (simp add: flag_def update_conv')

lemma revoked_set_flag: "is_pack_revoked s k \<Longrightarrow> name = ''revoked'' \<longrightarrow> v \<Longrightarrow> is_pack_revoked (set_flag k' name v s) k"
  by (auto simp: is_pack_revoked_def split: option.splits)

lemma revoked_frame [simp]:
  "is_pack_revoked (refresh_tenant_goal_types t s) = is_pack_revoked s"
  "is_pack_revoked (record_pack_fact amb e k a r s) = is_pack_revoked s"
  by (simp_all add: is_pack_revoked_def fun_eq_iff)

lemma revoked_step: "pack_step s s' \<Longrightarrow> is_pack_revoked s k \<Longrightarrow> is_pack_revoked s' k"
proof (induction rule: pack_step.induct)
  case (step_register s m)
  then show ?case by (simp add: register_pack_def is_pack_revoked_def)
next
  case (step_add t m s s')
  then show ?case by (auto simp: store_install_pack_def is_pack_revoked_def Let_def update_conv' split: option.splits if_splits)
next
  case (step_install verifier identity m s s')
  then show ?case
    by (auto simp: install_pack_def result_simps store_install_pack_def is_pack_revoked_def Let_def update_conv'
        split: option.splits if_splits)
next
  case (step_disable amb identity command s s')
  then show ?case by (auto simp: disable_pack_def set_pack_enabled_def result_simps intro!: revoked_set_flag)
next
  case (step_enable amb identity command s s')
  then show ?case by (auto simp: enable_pack_def set_pack_enabled_def result_simps intro!: revoked_set_flag)
next
  case (step_revoke amb identity command s s')
  then show ?case by (auto simp: revoke_pack_def store_revoke_pack_def result_simps intro!: revoked_set_flag)
next
  case (step_channel amb identity command s s')
  then show ?case
    by (auto simp: set_stable_channel_def store_set_stable_channel_def result_simps Let_def is_pack_revoked_def
        plc_key_def split: option.splits)
qed

lemma revoked_not_listable: "is_pack_revoked s k \<Longrightarrow> \<not> pack_is_listable s k"
  by (auto simp: is_pack_revoked_def pack_is_listable_def Let_def split: option.splits)



subsection \<open>Channels and dependencies\<close>

text \<open>A channel change keeps every listed dependent satisfied, and an enabled version becomes the served one.\<close>

lemma stable_channel_safe:
  assumes "pack_step\<^sup>*\<^sup>* empty_packs s" and "set_stable_channel amb identity command s = Inr s'"
  defines "t \<equiv> ic_tenant_id identity" and "p \<equiv> plc_pack_id command" and "v \<equiv> plc_version command"
  shows "get_stable_channel s' t p = Some v
    \<and> (\<forall>item \<in> set (list_capability_packs s t False). \<forall>d \<in> set (man_dependencies item).
         pdep_pack_id d = p \<longrightarrow> version_satisfies (pdep_version_spec d) v = Inr True)
    \<and> (pack_is_listable s (t, p, v) \<longrightarrow> (\<exists>m. serves s' t p v m))"
proof -
  from assms(2) obtain target where target: "get_installed_pack s (t, p, v) = Some target"
      and breaks: "assert_no_dependent_breaks s t p v = Inr ()" and s': "store_set_stable_channel amb (t, p, v) (ic_actor_id identity) s = Inr s'"
    by (auto simp: set_stable_channel_def plc_key_def result_simps t_def p_def v_def Let_def split: option.splits)
  have channel: "map_of (ps_pack_channels s') (t, p) = Some v" and tables: "ps_tenant_packs s' = ps_tenant_packs s"
      "ps_pack_states s' = ps_pack_states s"
    using s' by (auto simp: store_set_stable_channel_def result_simps update_conv')
  have "version_satisfies (pdep_version_spec d) v = Inr True"
    if "item \<in> set (list_capability_packs s t False)" "d \<in> set (man_dependencies item)" "pdep_pack_id d = p" for item d
    using breaks that by (fastforce simp: assert_no_dependent_breaks_def forE_Inr result_simps)
  moreover have "serves s' t p v target" if "pack_is_listable s (t, p, v)"
    using target channel that tables
    by (auto simp: serves_def eligible_def get_installed_pack_def pack_is_listable_def)
  ultimately show ?thesis using channel by (auto simp: get_stable_channel_def)
qed

subsection \<open>Concrete packs\<close>

definition demo_pack :: "string \<Rightarrow> string \<Rightarrow> PackDependency list \<Rightarrow> CapabilityPackManifest" where
  "demo_pack key version deps = \<lparr>man_api_version = ''autonoesis/v1alpha1'', man_pack_id = key, man_version = version,
     man_python_entry_point = key @ '':load'', man_goal_types = [\<lparr>gtm_goal_type = key, gtm_input_schema = JObj [], gtm_agent = ''a'',
       gtm_evaluation_suite = ''s'', gtm_default_policy = ''p'', gtm_default_budget = 1\<rparr>],
     man_skills = [], man_tools = [], man_policies = [], man_evaluation_suites = [], man_evaluation_subject = None,
     man_artifact_uri = None, man_artifact_digest = None, man_signature = None, man_sbom_ref = None, man_sbom_digest = None,
     man_dependencies = deps\<rparr>"

definition demo_installed :: "pack_store result" where
  "demo_installed = bindE (store_install_pack 1 (demo_pack ''base'' ''1.9.0'' []) empty_packs)
     (store_install_pack 1 (demo_pack ''base'' ''1.10.0'' []))"

lemma demo_installed_ok: "\<exists>s. demo_installed = Inr s \<and> pack_step\<^sup>*\<^sup>* empty_packs s
   \<and> get_installed_pack s (1, ''base'', ''1.9.0'') \<noteq> None \<and> eligible s 1 ''base'' ''1.9.0''"
proof -
  have "case demo_installed of Inl _ \<Rightarrow> False | Inr s \<Rightarrow>
      get_installed_pack s (1, ''base'', ''1.9.0'') \<noteq> None \<and> eligible s 1 ''base'' ''1.9.0''" by code_simp
  then obtain s where s: "demo_installed = Inr s" "get_installed_pack s (1, ''base'', ''1.9.0'') \<noteq> None" "eligible s 1 ''base'' ''1.9.0''"
    by (auto split: sum.splits)
  moreover from s(1) have "pack_step\<^sup>*\<^sup>* empty_packs s"
    unfolding demo_installed_def by (auto simp: result_simps dest!: step_add)
  ultimately show ?thesis by blast
qed

theorem goal_type_index_resolved_witness:
  "\<exists>s v m. demo_installed = Inr s \<and> serves s 1 ''base'' v m"
  using demo_installed_ok goal_type_index_resolved [of _ 1 _ _ "''base''" "''1.9.0''"] by blast

text \<open>
  The dependency check keeps the last version in the order of texts, not the served one: with 1.9.0 and 1.10.0 installed
  the newer one is served, and yet a pack that requires it is refused.
\<close>

lemma dependency_check_by_text_order:
  "(case demo_installed of Inl _ \<Rightarrow> False | Inr s \<Rightarrow>
      map_option man_version (map_of (resolved_packs s 1) ''base'') = Some ''1.10.0''
      \<and> version_satisfies ''>=1.10.0'' ''1.10.0'' = Inr True
      \<and> \<not> is_ok (assert_dependencies_available s 1
          (demo_pack ''app'' ''1.0.0'' [\<lparr>pdep_pack_id = ''base'', pdep_version_spec = ''>=1.10.0''\<rparr>])))"
  by code_simp


definition demo_admin :: IdentityContext where
  "demo_admin = \<lparr>ic_tenant_id = 1, ic_actor_id = 2, ic_principal_id = 2, ic_roles = [], ic_agent_id = None, ic_subject = None,
     ic_token_type = ''user''\<rparr>"

definition demo_lifecycle :: PackLifecycleCommand where
  "demo_lifecycle = \<lparr>plc_pack_id = ''base'', plc_version = ''1.10.0'', plc_reason = ''broken''\<rparr>"

definition demo_ambient :: ambient where
  "demo_ambient = \<lparr>amb_now = 0, amb_ids = (\<lambda>n. of_nat n)\<rparr>"

lemma demo_revoked_ok: "is_ok (bindE demo_installed (revoke_pack demo_ambient demo_admin demo_lifecycle))"
  by code_simp


subsection \<open>The audit events of pack operations\<close>

text \<open>
  The store appends the events of pack operations without chaining them. Whatever the trail of the tenant was, after an
  enablement, a disablement, a revocation or a channel change it does not verify any more.
\<close>

lemma fact_not_verified:
  "verify_audit_chain (tenant_audits (fst k) (ps_audits (record_pack_fact amb event_type k actor reason s))) \<noteq> Inr True"
  by (cases k) (simp add: record_pack_fact_def verify_audit_chain_iff chain_ok_def verify_from_snoc event_ok_def)

lemma pack_fact_breaks_audit_chain:
  "set_pack_enabled amb k enabled actor reason s = Inr s' \<or> store_revoke_pack amb k actor reason s = Inr s'
     \<or> store_set_stable_channel amb k actor s = Inr s'
     \<Longrightarrow> verify_audit_chain (tenant_audits (fst k) (ps_audits s')) \<noteq> Inr True"
  using fact_not_verified
  by (cases k) (auto simp: set_pack_enabled_def store_revoke_pack_def store_set_stable_channel_def result_simps)

end
