(* ===== verification/Supply_Chain.thy ===== *)
theory Supply_Chain
  imports Packs
begin

text \<open>
  The supply-chain gate of pack installations: \<open>packages/capability/src/autonoesis_capability/signing.py\<close> and
  \<open>packages/adapters/src/autonoesis_adapters/supply_chain.py\<close>, composed with the pack service. Ed25519 verification is an
  argument: it is true when the library accepts the public key, the signature and the message, and false when it raises.
  \<open>SupplyChainVerificationError\<close> is the exception of that name.
\<close>

subsection \<open>Signatures\<close>

type_synonym ed25519 = "byte list \<Rightarrow> byte list \<Rightarrow> byte list \<Rightarrow> bool"

text \<open>\<open>bytes.fromhex\<close>: pairs of hexadecimal digits, ASCII white space between pairs is skipped.\<close>

fun fromhex :: "string \<Rightarrow> byte list option" where
  "fromhex [] = Some []"
| "fromhex [c] = (if code_point c \<in> {9, 10, 11, 12, 13, 32} then Some [] else None)"
| "fromhex (c # d # s) = (if code_point c \<in> {9, 10, 11, 12, 13, 32} then fromhex (d # s)
     else (case (hex_value c, hex_value d) of
         (Some a, Some b) \<Rightarrow> map_option ((#) (of_nat (16 * a + b))) (fromhex s)
       | _ \<Rightarrow> None))"

text \<open>The body of the loop over the keys.\<close>

definition key_accepts :: "ed25519 \<Rightarrow> CapabilityPackManifest \<Rightarrow> string \<Rightarrow> string \<Rightarrow> bool" where
  "key_accepts ed m signature public_hex = (case (fromhex public_hex, fromhex signature) of
     (Some raw, Some sig) \<Rightarrow> length raw = 32 \<and> ed raw sig (canonical_signature_bytes m)
   | _ \<Rightarrow> False)"

definition verify_manifest_signature :: "ed25519 \<Rightarrow> CapabilityPackManifest \<Rightarrow> string list \<Rightarrow> bool" where
  "verify_manifest_signature ed m public_keys_hex = (case man_signature m of
     None \<Rightarrow> False
   | Some signature \<Rightarrow> list_ex (key_accepts ed m signature) public_keys_hex)"

text \<open>
  Signing, for an argument \<open>sign\<close> that stands for \<open>Ed25519PrivateKey.sign\<close>: \<open>bytes.hex\<close>, the private key, and the
  attachment of digest, SBOM and signature.
\<close>

definition hex_byte :: "byte \<Rightarrow> string" where
  "hex_byte b = [''0123456789abcdef'' ! (unat b div 16), ''0123456789abcdef'' ! (unat b mod 16)]"

definition to_hex :: "byte list \<Rightarrow> string" where
  "to_hex bs = concat (map hex_byte bs)"

definition load_private_key :: "string \<Rightarrow> byte list result" where
  "load_private_key private_key_hex = (case fromhex private_key_hex of
     None \<Rightarrow> Inl (ManifestError ''signing key must be lowercase hex'')
   | Some raw \<Rightarrow> thenE (raise_if (length raw \<noteq> 32) (ManifestError ''signing key must be a raw 32-byte ed25519 key'')) (Inr raw))"

type_synonym ed25519_sign = "byte list \<Rightarrow> byte list \<Rightarrow> byte list"

definition sign_manifest_payload :: "ed25519_sign \<Rightarrow> CapabilityPackManifest \<Rightarrow> string \<Rightarrow> CapabilityPackManifest result" where
  "sign_manifest_payload sign m private_key_hex = bindE (load_private_key private_key_hex) (\<lambda>key.
     Inr (m\<lparr>man_signature := Some (to_hex (sign key (canonical_signature_bytes m)))\<rparr>))"

definition supply_chain_fields ::
  "ed25519_sign \<Rightarrow> CapabilityPackManifest \<Rightarrow> string \<Rightarrow> string \<Rightarrow> string \<Rightarrow> string option \<Rightarrow> CapabilityPackManifest result" where
  "supply_chain_fields sign m private_key_hex sbom_ref sbom_digest location =
     (let uri = (case location of Some u \<Rightarrow> if u \<noteq> [] then u else ''artifact://packs/'' @ man_pack_id m @ ''/'' @ man_version m
          | None \<Rightarrow> ''artifact://packs/'' @ man_pack_id m @ ''/'' @ man_version m) in
      sign_manifest_payload sign (m\<lparr>man_artifact_uri := Some uri, man_artifact_digest := Some (manifest_content_digest m),
        man_sbom_ref := Some sbom_ref, man_sbom_digest := Some sbom_digest\<rparr>) private_key_hex)"

subsection \<open>The verifier\<close>

record StrictSupplyChainVerifier =
  scv_allowed_sources :: "string list"
  scv_public_keys_hex :: "string list"

definition rstrip_slash :: "string \<Rightarrow> string" where
  "rstrip_slash s = rev (dropWhile (\<lambda>c. c = CHR ''/'') (rev s))"

definition StrictSupplyChainVerifier_init :: "string list \<Rightarrow> string list \<Rightarrow> StrictSupplyChainVerifier result" where
  "StrictSupplyChainVerifier_init allowed_sources public_keys_hex =
     thenE (raise_if (allowed_sources = []) (ValueError ''supply chain verifier requires at least one allowed source''))
    (thenE (raise_if (public_keys_hex = []) (ValueError ''supply chain verifier requires at least one public key''))
       (Inr \<lparr>scv_allowed_sources = map (\<lambda>source. rstrip_slash source @ ''/'') allowed_sources,
             scv_public_keys_hex = public_keys_hex\<rparr>))"

text \<open>\<open>from_env\<close>: the two variables, empty when unset.\<close>

definition env_items :: "string \<Rightarrow> string list" where
  "env_items value = filter (\<lambda>item. item \<noteq> []) (map strip (split_on (CHR '','') value))"

definition from_env :: "string \<Rightarrow> string \<Rightarrow> StrictSupplyChainVerifier option result" where
  "from_env sources_value keys_value = (let sources = env_items sources_value; keys = env_items keys_value in
     if sources = [] \<or> keys = [] then Inr None
     else bindE (StrictSupplyChainVerifier_init sources keys) (\<lambda>v. Inr (Some v)))"

definition refuse_if :: "bool \<Rightarrow> string \<Rightarrow> unit result" where
  "refuse_if c message = raise_if c (OtherError ''SupplyChainVerificationError'' message)"

definition text_of :: "string option \<Rightarrow> string" where
  "text_of v = (case v of None \<Rightarrow> ''None'' | Some s \<Rightarrow> s)"

definition verify_install :: "ed25519 \<Rightarrow> StrictSupplyChainVerifier \<Rightarrow> CapabilityPackManifest \<Rightarrow> unit result" where
  "verify_install ed self m =
     thenE (refuse_if (man_artifact_uri m = None) ''capability pack declares no artifact URI; refusing install'')
    (thenE (refuse_if (\<not> list_ex (startswith (text_of (man_artifact_uri m))) (scv_allowed_sources self))
        (''capability pack source is not allowlisted: '' @ text_of (man_artifact_uri m)))
    (thenE (refuse_if (man_artifact_digest m = None) ''capability pack declares no artifact digest; refusing install'')
    (thenE (refuse_if (man_artifact_digest m \<noteq> Some (manifest_content_digest m))
        (''capability pack content digest mismatch: manifest content changed after digesting (expected ''
          @ text_of (man_artifact_digest m) @ '', computed '' @ manifest_content_digest m @ '')''))
    (thenE (refuse_if (\<not> verify_manifest_signature ed m (scv_public_keys_hex self))
        ''capability pack signature is missing or does not gate against any allowlisted publisher key'')
       (refuse_if (man_sbom_ref m = None \<or> man_sbom_digest m = None)
        ''capability pack must attach an SBOM reference and digest'')))))"

subsection \<open>What an accepted pack carries\<close>

definition trusted :: "ed25519 \<Rightarrow> StrictSupplyChainVerifier \<Rightarrow> CapabilityPackManifest \<Rightarrow> bool" where
  "trusted ed self m \<longleftrightarrow>
     (\<exists>uri source. man_artifact_uri m = Some uri \<and> source \<in> set (scv_allowed_sources self) \<and> startswith uri source)
     \<and> man_artifact_digest m = Some (manifest_content_digest m)
     \<and> (\<exists>signature key raw sig. man_signature m = Some signature \<and> key \<in> set (scv_public_keys_hex self)
          \<and> fromhex key = Some raw \<and> length raw = 32 \<and> fromhex signature = Some sig
          \<and> ed raw sig (canonical_signature_bytes m))
     \<and> man_sbom_ref m \<noteq> None \<and> man_sbom_digest m \<noteq> None"

lemma key_accepts_iff:
  "key_accepts ed m signature key \<longleftrightarrow> (\<exists>raw sig. fromhex key = Some raw \<and> length raw = 32 \<and> fromhex signature = Some sig
     \<and> ed raw sig (canonical_signature_bytes m))"
  by (auto simp: key_accepts_def split: option.splits)

lemma verify_manifest_signature_iff:
  "verify_manifest_signature ed m keys \<longleftrightarrow> (\<exists>signature key. man_signature m = Some signature \<and> key \<in> set keys
     \<and> key_accepts ed m signature key)"
  by (auto simp: verify_manifest_signature_def list_ex_iff split: option.splits)

lemma verify_install_iff: "verify_install ed self m = Inr () \<longleftrightarrow> trusted ed self m"
  by (auto simp: verify_install_def trusted_def refuse_if_def result_simps verify_manifest_signature_iff list_ex_iff key_accepts_iff
      text_of_def)

text \<open>Supply-chain metadata are not part of the content address.\<close>

lemma content_digest_metadata:
  "manifest_content_digest (m\<lparr>man_artifact_uri := a, man_artifact_digest := b, man_signature := c, man_sbom_ref := d,
      man_sbom_digest := e\<rparr>) = manifest_content_digest m"
  by (simp add: manifest_content_digest_def canonical_unsigned_payload_def manifest_payload_def without_def goal_type_payload_def
      dependency_payload_def optional_field_def split: option.splits)

subsection \<open>Only trusted packs are served\<close>

text \<open>The operations of the service alone, with the verifier configured.\<close>

inductive governed_step :: "(CapabilityPackManifest \<Rightarrow> unit result) \<Rightarrow> pack_store \<Rightarrow> pack_store \<Rightarrow> bool" for gate where
  governed_install: "install_pack (Some gate) identity m s = Inr s' \<Longrightarrow> governed_step gate s s'"
| governed_disable: "disable_pack amb identity command s = Inr s' \<Longrightarrow> governed_step gate s s'"
| governed_enable: "enable_pack amb identity command s = Inr s' \<Longrightarrow> governed_step gate s s'"
| governed_revoke: "revoke_pack amb identity command s = Inr s' \<Longrightarrow> governed_step gate s s'"
| governed_channel: "set_stable_channel amb identity command s = Inr s' \<Longrightarrow> governed_step gate s s'"

lemma governed_pack_step: "governed_step gate s s' \<Longrightarrow> pack_step s s'"
  by (induction rule: governed_step.induct) (blast intro: pack_step.intros)+

lemma governed_tables:
  "governed_step gate s s' \<Longrightarrow> ps_tenant_packs s' = ps_tenant_packs s
     \<or> (\<exists>k m. map_of (ps_tenant_packs s) k = None \<and> ps_tenant_packs s' = ps_tenant_packs s @ [(k, m)] \<and> gate m = Inr ())"
proof (induction rule: governed_step.induct)
  case (governed_install identity m s s')
  then show ?case
    by (auto simp: install_pack_def store_install_pack_def result_simps Let_def update_fresh split: option.splits if_splits)
next
  case (governed_channel amb identity command s s')
  then show ?case
    by (auto simp: set_stable_channel_def store_set_stable_channel_def plc_key_def result_simps Let_def split: option.splits)
qed (auto simp: disable_pack_def enable_pack_def revoke_pack_def set_pack_enabled_def store_revoke_pack_def result_simps)

lemma governed_verified:
  assumes "(governed_step gate)\<^sup>*\<^sup>* empty_packs s"
  shows "pack_step\<^sup>*\<^sup>* empty_packs s \<and> (\<forall>(k, m) \<in> set (ps_tenant_packs s). gate m = Inr ())"
  using assms
proof (induction rule: rtranclp_induct)
  case (step s s')
  from step(2) have "pack_step s s'" by (rule governed_pack_step)
  with step(3) governed_tables [OF step(2)] show ?case by (auto intro: rtranclp.rtrancl_into_rtrancl)
qed (simp add: empty_packs_def)


text \<open>
  C33. Only signed and allowlisted packs provide goal types. When packs come in through the service with the strict verifier,
  then after any sequence of its operations every goal type in the index of a tenant is declared by an installed, enabled,
  unrevoked pack whose artifact source is allowlisted, whose digest is the digest of its own content, whose signature over
  its canonical unsigned payload an allowlisted key verifies, and which attaches an SBOM.
\<close>

theorem served_goal_types_signed:
  assumes "(governed_step (verify_install ed verifier))\<^sup>*\<^sup>* empty_packs s"
    and "map_of (ps_tenant_goal_types s) (t, name) = Some g"
  shows "\<exists>p v m. get_installed_pack s (t, p, v) = Some m \<and> pack_is_listable s (t, p, v)
    \<and> g \<in> set (man_goal_types m) \<and> gtm_goal_type g = name \<and> trusted ed verifier m"
proof -
  from governed_verified [OF assms(1)] have reach: "pack_step\<^sup>*\<^sup>* empty_packs s"
      and ok: "\<And>k m. (k, m) \<in> set (ps_tenant_packs s) \<Longrightarrow> trusted ed verifier m"
    by (auto simp: verify_install_iff)
  from served_goal_type [OF reachable_packs_ok [OF reach] assms(2)] obtain p v m where
      m: "serves s t p v m" "g \<in> set (man_goal_types m)" "gtm_goal_type g = name" by blast
  then have "trusted ed verifier m" using ok by (auto simp: serves_def get_installed_pack_def dest: map_of_SomeD)
  with m show ?thesis by (auto simp: serves_def eligible_def)
qed

subsection \<open>Signing and verifying\<close>

lemma hex_digit_value: "n < 16 \<Longrightarrow> hex_value (''0123456789abcdef'' ! n) = Some n
    \<and> code_point (''0123456789abcdef'' ! n) \<notin> {9, 10, 11, 12, 13, 32}"
  by (auto simp: less_Suc_eq numeral_eq_Suc hex_value_def code_point_def)

lemma fromhex_to_hex: "fromhex (to_hex bs) = Some bs"
proof (induction bs)
  case (Cons b bs)
  have "unat b < 2 ^ 8" by (rule order_less_le_trans [OF unsigned_less]) simp
  then have "unat b div 16 < 16" "unat b mod 16 < 16" by auto
  with hex_digit_value [of "unat b div 16"] hex_digit_value [of "unat b mod 16"] Cons show ?case
    by (simp add: to_hex_def hex_byte_def)
qed (simp add: to_hex_def)


lemma signature_bytes_unsigned: "canonical_signature_bytes (m\<lparr>man_signature := c\<rparr>) = canonical_signature_bytes m"
  by (simp add: canonical_signature_bytes_def canonical_unsigned_payload_def manifest_payload_def without_def optional_field_def
      split: option.splits)

lemma content_digest_attached:
  "manifest_content_digest (m\<lparr>man_artifact_uri := a, man_artifact_digest := b, man_sbom_ref := d, man_sbom_digest := e,
      man_signature := c\<rparr>) = manifest_content_digest m"
  using content_digest_metadata [where m = m and a = a and b = b and c = c and d = d and e = e] by (cases m) simp

text \<open>
  A manifest prepared by \<open>supply_chain_fields\<close> passes the gate when its source and its public key are allowlisted,
  for a signature scheme that verifies what it signs.
\<close>

lemma signed_pack_accepted:
  assumes "supply_chain_fields sign m private_key_hex sbom_ref sbom_digest location = Inr m'"
    and "fromhex private_key_hex = Some key"
    and "\<And>msg. length key = 32 \<Longrightarrow> length (public key) = 32 \<and> ed (public key) (sign key msg) msg"
    and "to_hex (public key) \<in> set (scv_public_keys_hex verifier)"
    and "list_ex (startswith (text_of (man_artifact_uri m'))) (scv_allowed_sources verifier)"
  shows "verify_install ed verifier m' = Inr ()"
proof -
  from assms(1,2) obtain uri where key: "length key = 32" and m': "m' = m\<lparr>man_artifact_uri := Some uri,
        man_artifact_digest := Some (manifest_content_digest m), man_sbom_ref := Some sbom_ref, man_sbom_digest := Some sbom_digest,
        man_signature := Some (to_hex (sign key (canonical_signature_bytes m')))\<rparr>"
    by (auto simp: supply_chain_fields_def sign_manifest_payload_def load_private_key_def result_simps Let_def
        signature_bytes_unsigned split: option.splits)
  have "man_artifact_digest m' = Some (manifest_content_digest m')" by (subst (1 2) m') (simp add: content_digest_attached)
  moreover have "man_signature m' = Some (to_hex (sign key (canonical_signature_bytes m')))" "man_artifact_uri m' = Some uri"
      "man_sbom_ref m' = Some sbom_ref" "man_sbom_digest m' = Some sbom_digest"
    by (subst m', simp)+
  ultimately show ?thesis
    unfolding verify_install_iff trusted_def using assms(3) [OF key] assms(4,5)
    by (auto simp: list_ex_iff text_of_def fromhex_to_hex)
qed


text \<open>A pack that is prepared, verified and installed; its goal type is served.\<close>

definition demo_ed :: ed25519 where
  "demo_ed key sig msg = (sig = key)"

definition demo_key_hex :: string where
  "demo_key_hex = to_hex (replicate 32 7)"

definition demo_verifier :: StrictSupplyChainVerifier where
  "demo_verifier = \<lparr>scv_allowed_sources = [''artifact://packs/''], scv_public_keys_hex = [demo_key_hex]\<rparr>"

lemma demo_signed:
  "\<exists>m. supply_chain_fields (\<lambda>key _. key) (demo_pack ''base'' ''1.0.0'' []) demo_key_hex ''sbom://x'' ''d'' None = Inr m
     \<and> verify_install demo_ed demo_verifier m = Inr () \<and> man_goal_types m = man_goal_types (demo_pack ''base'' ''1.0.0'' [])
     \<and> man_pack_id m = ''base'' \<and> man_version m = ''1.0.0'' \<and> man_dependencies m = []"
proof -
  have key: "fromhex demo_key_hex = Some (replicate 32 7)" by (simp add: demo_key_hex_def fromhex_to_hex)
  then obtain m where m: "supply_chain_fields (\<lambda>key _. key) (demo_pack ''base'' ''1.0.0'' []) demo_key_hex ''sbom://x'' ''d'' None = Inr m"
      "man_goal_types m = man_goal_types (demo_pack ''base'' ''1.0.0'' [])" "man_pack_id m = ''base''" "man_version m = ''1.0.0''"
      "man_dependencies m = []" "man_artifact_uri m = Some ''artifact://packs/base/1.0.0''"
    by (simp add: supply_chain_fields_def sign_manifest_payload_def load_private_key_def demo_pack_def)
  have "verify_install demo_ed demo_verifier m = Inr ()"
    by (rule signed_pack_accepted [OF m(1) key, where public = "\<lambda>k. k"])
      (simp_all add: demo_ed_def demo_verifier_def demo_key_hex_def m(6) text_of_def startswith_def)
  with m show ?thesis by blast
qed

theorem served_goal_types_signed_witness:
  "\<exists>s m. (governed_step (verify_install demo_ed demo_verifier))\<^sup>*\<^sup>* empty_packs s
     \<and> get_installed_pack s (1, ''base'', ''1.0.0'') = Some m \<and> trusted demo_ed demo_verifier m"
proof -
  from demo_signed obtain m where m: "verify_install demo_ed demo_verifier m = Inr ()"
      "man_goal_types m = man_goal_types (demo_pack ''base'' ''1.0.0'' [])" "man_pack_id m = ''base''" "man_version m = ''1.0.0''"
      "man_dependencies m = []" by blast
  then obtain s where s: "install_pack (Some (verify_install demo_ed demo_verifier)) demo_admin m empty_packs = Inr s"
      "map_of (ps_tenant_goal_types s) (1, ''base'') \<noteq> None" "ps_tenant_packs s = [((1, ''base'', ''1.0.0''), m)]"
    by (simp add: install_pack_def assert_dependencies_available_def store_install_pack_def empty_packs_def demo_admin_def
        refresh_tenant_goal_types_def resolved_packs_def resolve_step_def pack_is_listable_def flag_def demo_pack_def Let_def)
  have reach: "(governed_step (verify_install demo_ed demo_verifier))\<^sup>*\<^sup>* empty_packs s"
    by (rule r_into_rtranclp) (rule governed_install [OF s(1)])
  from s(2) obtain g where "map_of (ps_tenant_goal_types s) (1, ''base'') = Some g" by blast
  from served_goal_types_signed [OF reach this] reach s(3) show ?thesis
    by (auto simp: get_installed_pack_def split: if_splits)
qed

end
