(* ===== verification/Planning.thy ===== *)
theory Planning
  imports Context_Domain Plans Goals
begin

text \<open>
  Clarification, planning and capability selection (\<open>packages/intelligence/src/autonoesis_intelligence/__init__.py\<close>) and
  the refresh and projection of environment facts (\<open>packages/environment/src/autonoesis_environment/__init__.py\<close>). One
  operation reads the clock once; identifiers drawn from \<open>uuid4\<close> are arguments.
\<close>

subsection \<open>Clarification, planning, selection\<close>

datatype ClarificationStatus = CL_PENDING | CL_RESOLVED | CL_BLOCKED

record ClarificationQuestion =
  cq_question_id :: uuid
  cq_question :: string
  cq_context :: string
  cq_status :: ClarificationStatus
  cq_answer :: "string option"
  cq_resolved_at :: "datetime option"
  cq_resolved_by :: "string option"

definition open_question :: "uuid \<Rightarrow> string \<Rightarrow> string \<Rightarrow> ClarificationQuestion" where
  "open_question key question ctx = \<lparr>cq_question_id = key, cq_question = question, cq_context = ctx, cq_status = CL_PENDING,
     cq_answer = None, cq_resolved_at = None, cq_resolved_by = None\<rparr>"

definition clarify :: "(nat \<Rightarrow> uuid) \<Rightarrow> GoalContract \<Rightarrow> ClarificationQuestion list" where
  "clarify ids goal =
     (if goal_subject_refs goal = [] then [open_question (ids 0) ''No subjects specified. Which entities does this goal act on?''
        ''goal_subjects''] else [])
   @ (if goal_success_criteria goal = [] then [open_question (ids 1) ''No success criteria defined. How will completion be measured?''
        ''goal_criteria''] else [])"

record PlanContext =
  pc_goal :: GoalContract
  pc_environment_facts :: "EnvironmentFact list"
  pc_knowledge_refs :: "KnowledgeRef list"
  pc_memory_records :: "MemoryRecord list"
  pc_available_tools :: "string list"
  pc_available_skills :: "string list"

text \<open>The planner draws the identifiers of the run, of the task and of the plan.\<close>

definition planner_plan :: "(nat \<Rightarrow> uuid) \<Rightarrow> PlanContext \<Rightarrow> Plan result" where
  "planner_plan ids ctx = (let goal = pc_goal ctx in
     bindE (Task_post_init \<lparr>task_tenant_id = goal_tenant_id goal, task_run_id = ids 0, task_name = ''execute_goal'',
       completion_criterion = ''all success criteria verified'', depends_on = [], task_preconditions = [],
       estimated_cost = \<lparr>amount = 0, unit = COST_UNITS\<rparr>, task_risk_level = L0_COMPUTE, task_compensation = C_NONE,
       evidence_requirements = [], task_id = ids 1, task_status = T_PENDING, task_optimistic_version = 1, task_transitions = []\<rparr>) (\<lambda>task.
     Plan_post_init \<lparr>plan_tenant_id = goal_tenant_id goal, plan_goal_id = goal_id goal, plan_run_id = task_run_id task,
       plan_tasks = [task], plan_version = 1, plan_id = ids 2\<rparr>))"


text \<open>The planner always returns a valid plan of one task.\<close>

lemma planner_plan_valid: "\<exists>p. planner_plan ids ctx = Inr p \<and> length (plan_tasks p) = 1 \<and> plan_goal_id p = goal_id (pc_goal ctx)"
  by (simp add: planner_plan_def Task_post_init_def Plan_post_init_def dependencies_def Let_def visit.simps
      py_isspace_def code_point_def)

datatype DecisionMode = DM_AUTO | DM_SUGGEST | DM_REQUIRE_APPROVAL

record CapabilityDecision =
  cd_task_id :: uuid
  cd_agent_id :: uuid
  cd_agent_version :: int
  cd_skill_ids :: "string list"
  cd_tool_ids :: "string list"
  cd_model_route :: string
  cd_decision_mode :: DecisionMode
  cd_rationale :: string

definition select_capability ::
  "uuid \<Rightarrow> Task \<Rightarrow> (string \<times> int) list \<Rightarrow> string list \<Rightarrow> string list \<Rightarrow> CapabilityDecision" where
  "select_capability agent task available_agents available_skills available_tools =
     \<lparr>cd_task_id = task_id task, cd_agent_id = agent,
      cd_agent_version = (case available_agents of [] \<Rightarrow> 1 | (name, version) # _ \<Rightarrow> version),
      cd_skill_ids = available_skills, cd_tool_ids = available_tools, cd_model_route = ''balanced'', cd_decision_mode = DM_AUTO,
      cd_rationale = (case available_agents of [] \<Rightarrow> ''default - no agents registered'' | (name, version) # _ \<Rightarrow> ''selected '' @ name)\<rparr>"

subsection \<open>Environment facts\<close>

datatype ProjectionStatus = PROJ_FRESH | PROJ_STALE | PROJ_UNKNOWN

record FactProjection =
  fp_projected_fact :: EnvironmentFact
  fp_confidence :: rat
  fp_status :: ProjectionStatus
  fp_based_on_fact_ids :: "string list"

definition refresh_facts :: "EnvironmentFact list \<Rightarrow> int \<Rightarrow> EnvironmentFact list \<times> EnvironmentFact list" where
  "refresh_facts facts now =
     (filter (\<lambda>f. \<not> dt_lt (fact_valid_until f) (Aware now)) facts, filter (\<lambda>f. dt_lt (fact_valid_until f) (Aware now)) facts)"

text \<open>\<open>observed_at + (valid_until - observed_at)\<close> of two aware timestamps.\<close>

definition projected_valid_until :: "EnvironmentFact \<Rightarrow> datetime" where
  "projected_valid_until f = Aware (instant (fact_observed_at f) + (instant (fact_valid_until f) - instant (fact_observed_at f)))"

definition project_fact :: "int \<Rightarrow> EnvironmentFact \<Rightarrow> FactProjection result" where
  "project_fact now f =
     bindE (EnvironmentFact_post_init (f\<lparr>fact_observed_at := Aware now, fact_valid_until := projected_valid_until f\<rparr>)) (\<lambda>projected.
     Inr \<lparr>fp_projected_fact = projected, fp_confidence = 4 / 5, fp_status = PROJ_FRESH, fp_based_on_fact_ids = [fact_id f]\<rparr>)"

definition project :: "int \<Rightarrow> EnvironmentFact list \<Rightarrow> FactProjection list result" where
  "project now facts = mapE (project_fact now) facts"

text \<open>A valid fact is projected exactly when it is fresh; one stale fact makes the whole projection raise.\<close>

lemma project_fact_iff:
  assumes "EnvironmentFact_post_init f = Inr f"
  shows "is_ok (project_fact now f) \<longleftrightarrow> f \<in> set (fst (refresh_facts [f] now))"
  using assms
  by (auto simp: project_fact_def refresh_facts_def projected_valid_until_def is_ok_iff EnvironmentFact_post_init_def result_simps dt_lt_def)

lemma mapE_is_ok: "is_ok (mapE f xs) \<longleftrightarrow> (\<forall>x \<in> set xs. is_ok (f x))"
  by (induction xs) (auto simp: is_ok_iff result_simps)

lemma stale_fact_stops_projection:
  assumes "\<And>f. f \<in> set facts \<Longrightarrow> EnvironmentFact_post_init f = Inr f"
  shows "is_ok (project now facts) \<longleftrightarrow> snd (refresh_facts facts now) = []"
  using assms project_fact_iff [of _ now]
  by (auto simp: project_def mapE_is_ok refresh_facts_def filter_empty_conv)

end
