(* ===== verification/Spec2Isabelle.thy ===== *)
theory Spec2Isabelle
  imports Scenario Reconciliation Memory Sql_Guarantees Evolution_Guarantees Json_Termination Rollout Service_Levels Supply_Chain Planning
begin

text \<open>
  Verification of the governed core of Autonoesis, a multi-tenant platform in which agents act for an enterprise: a goal
  contract is executed by runs, plans, tasks and actions; every action with an external effect passes a governed gateway;
  a goal is satisfied only by verified outcomes; and the agents themselves are changed only through evaluated, approved and
  staged releases.

  \<^bold>\<open>The parts and how they interact.\<close> The domain packages hold immutable aggregates whose constructors validate and
  whose \<open>transition_to\<close> moves along a table. \<open>GoalExecutionApplication\<close> composes them into use cases inside
  transactions of a platform store; it calls the governed tool gateway, the trusted outcome verifier and the reconciler. The
  gateway consults catalog, delegation, policy, kill switch, approval, credential broker and reservations before the one
  egress call. \<open>CandidateLifecycleService\<close> governs improvement candidates over tables of the same store, from trials
  that the evaluation harness runs. Capability packs, installed and governed per tenant, provide the goal types. The relational
  repository implements the store's contract on SQL rows, through codecs and a schema.

  \<^bold>\<open>Conventions.\<close> A function that may raise returns \<open>error + 'a\<close>, one constructor per exception class; a step inside
  a transaction maps the store to a result or an exception, which rolls back; a use case outside a transaction returns its
  result and the store in every case, so that partial writes stay visible. Dictionaries are association lists in insertion
  order. Strings are lists of code points below 256, UUIDs 128-bit words, timestamps naive or aware microseconds (the codecs
  cover UTC years 1 to 9999), Python integers are \<open>int\<close>, finite floats rationals. A command reads the clock once and draws
  its identifiers from a supply (\<open>ambient\<close>); that a drawn identifier is unused is the hypothesis \<open>fresh_id\<close>,
  \<open>unused\<close> or \<open>fresh_for\<close> where it matters. SHA-256, SHA-1 and canonical JSON are computed, not assumed;
  security statements name the colliding pair instead of assuming that there is none.

  \<^bold>\<open>Theories and sources\<close> (paths below \<open>src/packages\<close>):
  \<^item> \<open>Prelude\<close>, \<open>Sha256\<close>, \<open>Uuid5\<close>, \<open>Json\<close>, \<open>Text_Forms\<close>, \<open>Json_Roundtrip\<close>, \<open>Json_Termination\<close>: exceptions,
    strings, time, dictionaries, digests, JSON, ISO timestamps and UUID texts, with the round trips and the fuel bound of the
    JSON reader (twice the length of the text plus two, proved enough for every text).
  \<^item> \<open>Values\<close>, \<open>Lifecycle\<close>, \<open>Goals\<close>, \<open>Plans\<close>, \<open>Actions\<close>, \<open>Evidence\<close>, \<open>Identity\<close>, \<open>Context_Domain\<close>: the
    aggregates of \<open>domain/src/autonoesis_domain\<close> and \<open>application/.../verification.py\<close>. The locale \<open>lifecycle\<close> states what
    a state machine with history and version promises and is interpreted for goals, runs, tasks, actions, candidates and
    deployments. \<open>Plans\<close> shows that the depth-first search decides acyclicity; \<open>Actions\<close> the approval quorum and what
    digests bind; \<open>Evidence\<close> what a verified outcome rests on.
  \<^item> \<open>Audit_Trail\<close>, \<open>Transactions\<close>, \<open>Repository\<close>, \<open>Store\<close>: the hash-chained audit trail of \<open>application/.../platform.py\<close>
    and \<open>InMemoryPlatformStore\<close> of \<open>adapters/.../memory.py\<close>; the locale \<open>versioned_repository\<close> is the
    compare-and-swap contract of its tables.
  \<^item> \<open>Kill_Switch\<close>, \<open>Reservations\<close>, \<open>Gateway\<close>, \<open>Reconciliation\<close>: \<open>runtime-kernel/.../tools.py\<close>,
    \<open>adapters/.../execution_gateway.py\<close>, \<open>governance/.../kill_switch.py\<close>, \<open>gateways/.../tool_reconciliation.py\<close>: every
    check before an effect, at most one effect per idempotency key under any interleaving, budgets, audited results.
  \<^item> \<open>Context_Assembly\<close>, \<open>Memory\<close>: \<open>context/.../__init__.py\<close> and \<open>memory/.../__init__.py\<close>.
  \<^item> \<open>Application\<close>, \<open>Application_Actions\<close>, \<open>Application_Outcomes\<close>: every use case of
    \<open>application/.../execution.py\<close>. \<open>Goal_Machine\<close> is the abstract machine of goals, runs and outcomes,
    \<open>Invariants\<close> says which use cases keep which invariants, \<open>Execution\<close> shows the refinement and the reachable worlds,
    \<open>Scenario\<close> is a concrete execution from the empty store to a satisfied goal.
  \<^item> \<open>Codec\<close>, \<open>Codec_Records\<close>, \<open>Codec_Context\<close>, \<open>Schema\<close>, \<open>Sql_Repository\<close>, \<open>Sql_Tables\<close>,
    \<open>Sql_Audit\<close>, \<open>Sql_Refinement\<close>, \<open>Sql_Guarantees\<close>: \<open>adapters/.../persistence_codec.py\<close>,
    \<open>persistence_schema.py\<close> and \<open>persistence.py\<close>. The database is a parameter (\<open>engine\<close>) with the laws of select, insert
    and update on one table at a time; a database of lists meets them. The repository is shown to be a set of versioned maps,
    to keep the audit chain, and to read back what it wrote.
  \<^item> \<open>Evaluation\<close>, \<open>Improvement\<close>, \<open>Evolution\<close>, \<open>Evolution_Invariant\<close>, \<open>Evolution_Scenario\<close>, \<open>Evolution_Guarantees\<close>:
    \<open>domain/.../evaluation.py\<close>, \<open>evaluation/.../statistics.py\<close>, \<open>domain/.../improvement.py\<close> and
    \<open>application/.../evolution.py\<close>: the confidence gate, canary traffic, and over any sequence of use cases the separation of
    duties, the evidence behind an approval, the provenance of a release, the promotion gate, the breach counter, the rollback.
    Rounding float operations, number formats, the improvement policy and the shadow runtime are parameters.

  \<^item> \<open>Harness\<close>: \<open>evaluation/.../pipeline.py\<close>, \<open>suite_access.py\<close> and \<open>__init__.py\<close>, which produce the trials the confidence
    gate reads: what a passed trial rests on, that a run of a suite always reports, and what a candidate generator can see.
    Subject executors and graders are parameters that return or raise.

  \<^item> \<open>Json_Equality\<close>, \<open>Manifest\<close>, \<open>Packs\<close>, \<open>Supply_Chain\<close>: \<open>capability/.../manifest.py\<close>, \<open>signing.py\<close>,
    \<open>application/.../packs.py\<close>, \<open>adapters/.../supply_chain.py\<close> and the pack tables of \<open>adapters/.../memory.py\<close>:
    the strict manifest parser and its round trip, the order of versions (a linear order on prerelease identifiers), the index of goal types as a specification of what channels select, that
    revocation is final, and that only signed packs are served. Ed25519 and the JSON-schema check are parameters.

  \<^item> \<open>Rollout\<close>, \<open>Service_Levels\<close>: \<open>evolution/.../trials.py\<close>, \<open>deployment.py\<close>, \<open>slo.py\<close> and \<open>finops.py\<close>: batches of trials,
    which the confidence gate can always assess, the guardrail counters, error budgets, quantiles and cost accounting.

  \<^item> \<open>Planning\<close>: \<open>intelligence/.../__init__.py\<close> and \<open>environment/.../__init__.py\<close>: the default planner returns a valid plan,
    and a projection succeeds exactly when no fact is stale.

  \<^bold>\<open>This theory\<close> holds the properties of whole executions of the application.

  \<^bold>\<open>Parameters.\<close> Goal type catalog, agent catalog, artifact store, authoritative readback, tool registry, policy decision,
  delegation, credential broker and egress are arguments of the definitions that call them.

  \<^bold>\<open>Not modelled.\<close> The HTTP API and the Temporal worker (routing and scheduling over the use cases), the
  plugin loader, the grader backends and the sandboxed subject runtime, replay and simulation, the database and network
  adapters of ports that are parameters here, the repository's operations on packs, memories, capture sagas, telemetry and
  evolution records, migrations, observability. Concurrency inside one use case is modelled only where the code relies on it (reservations); transactions are taken one after the other.
\<close>

section \<open>Properties of whole executions\<close>

text \<open>
  C1. A goal is satisfied only on proof. In every reachable world, a satisfied goal has a succeeded run
  whose outcomes verify each success criterion of the contract, and each such outcome carries evidence
  that was captured by authoritative readback for the same tenant and run.
\<close>

theorem satisfied_goal_proved:
  assumes "reachable app w" and "get_goal (w_store w) t i = Inr g" and "goal_status g = G_SATISFIED"
  shows "\<exists>r\<in>set (list_runs (w_store w) t (Some i)). run_status r = R_SUCCEEDED
     \<and> (\<forall>c\<in>set (goal_success_criteria g). \<exists>x\<in>set (list_outcomes (w_store w) t (run_id r)).
          out_criterion_id x = criterion_id c \<and> out_status x = O_VERIFIED \<and> out_evidence x \<noteq> []
          \<and> (\<forall>e\<in>set (out_evidence x). ev_integrity e = EI_VERIFIED
               \<and> ev_capture_method e = AUTHORITATIVE_READBACK \<and> ev_tenant_id e = t \<and> ev_run_id e = run_id r))"
proof -
  let ?s = "w_store w"
  from reachable_ok [OF assms(1)] have ok: "core_ok (core ?s)" "evidence_ok ?s" by (auto simp: world_ok_def)
  from get_goal_keyed [OF ok(1) assms(2)] have g: "goal_tenant_id g = t" "i = goal_id g" "g \<in> set (dict_values (goals ?s))"
    by (auto intro: map_of_dict_values)
  with ok(1) assms(3) obtain r where r: "r \<in> set (dict_values (runs ?s))" "goal_run g r" "run_status r = R_SUCCEEDED"
      "verified_for (outcomes ?s) g r"
    by (auto simp: core_ok_def satisfied_ok_def core_def)
  have "\<exists>x\<in>set (list_outcomes ?s t (run_id r)). out_criterion_id x = criterion_id c \<and> out_status x = O_VERIFIED
      \<and> out_evidence x \<noteq> [] \<and> (\<forall>e\<in>set (out_evidence x). ev_integrity e = EI_VERIFIED
         \<and> ev_capture_method e = AUTHORITATIVE_READBACK \<and> ev_tenant_id e = t \<and> ev_run_id e = run_id r)"
    if c: "c \<in> set (goal_success_criteria g)" for c
  proof -
    from r(4) c obtain x where x: "x \<in> set (dict_values (outcomes ?s))" "out_tenant_id x = run_tenant_id r"
        "out_run_id x = run_id r" "out_criterion_id x = criterion_id c" "out_status x = O_VERIFIED"
      unfolding verified_for_def required_criteria_def by fastforce
    with ok have "outcome_valid x" "\<forall>e\<in>set (out_evidence x). authoritative e"
      by (auto simp: core_ok_def contents_ok_def core_def evidence_ok_def)
    with outcome_verified_evidence [of x] x r(2) g show ?thesis
      by (intro bexI [of _ x]) (auto simp: authoritative_def list_outcomes_def goal_run_def)
  qed
  with r g show ?thesis by (intro bexI [of _ r]) (auto simp: list_runs_def goal_run_def)
qed

theorem satisfied_goal_proved_witness:
  "\<exists>w g r. reachable sc_app w \<and> get_goal (w_store w) 1 2 = Inr g \<and> goal_status g = G_SATISFIED
     \<and> r \<in> set (list_runs (w_store w) 1 (Some 2)) \<and> run_status r = R_SUCCEEDED"
proof -
  obtain A where r: "reachable sc_app \<lparr>w_store = V14\<lparr>audits := A\<rparr>, w_gateway = sample_gateway\<rparr>"
    using reached_V14 [of sample_gateway] by (auto simp: reached_def)
  have g: "get_goal (V14\<lparr>audits := A\<rparr>) 1 2 = Inr sc_satisfied" "goal_status sc_satisfied = G_SATISFIED"
    by (simp_all add: lookup_run V14_def remembered_def sc_satisfied_def sc_active_def sc_goal_def)
  with satisfied_goal_proved [OF r, of 1 2 sc_satisfied] r show ?thesis
    by (auto intro!: exI [of _ "\<lparr>w_store = V14\<lparr>audits := A\<rparr>, w_gateway = sample_gateway\<rparr>"])
qed

text \<open>
  C9. The concurrency limit of a goal holds in every reachable world: no interleaving of commands gives a
  goal more active runs than its contract allows.
\<close>

theorem active_runs_bounded:
  assumes "reachable app w" and "get_goal (w_store w) t i = Inr g"
  shows "int (length (filter run_is_active (list_runs (w_store w) t (Some i)))) \<le> goal_max_concurrent_runs g"
proof -
  from reachable_ok [OF assms(1)] have ok: "core_ok (core (w_store w))" by (simp add: world_ok_def)
  from get_goal_keyed [OF ok assms(2)] have g: "goal_tenant_id g = t" "i = goal_id g" "g \<in> set (dict_values (goals (w_store w)))"
    by (auto intro: map_of_dict_values)
  then have "length (filter run_is_active (list_runs (w_store w) t (Some i))) = active_run_count (runs (w_store w)) g"
    by (simp add: active_run_count_def list_runs_def goal_run_def conj_commute conj_left_commute eq_commute)
  with ok g show ?thesis by (auto simp: core_ok_def limit_ok_def core_def)
qed

theorem active_runs_bounded_witness:
  "\<exists>w g. reachable sc_app w \<and> get_goal (w_store w) 1 2 = Inr g \<and> filter run_is_active (list_runs (w_store w) 1 (Some 2)) \<noteq> []
     \<and> int (length (filter run_is_active (list_runs (w_store w) 1 (Some 2)))) \<le> goal_max_concurrent_runs g"
proof -
  obtain A where r: "reachable sc_app \<lparr>w_store = V3\<lparr>audits := A\<rparr>, w_gateway = sample_gateway\<rparr>"
    using reached_V3 [of sample_gateway] by (auto simp: reached_def)
  have g: "get_goal (V3\<lparr>audits := A\<rparr>) 1 2 = Inr sc_active"
      "filter run_is_active (list_runs (V3\<lparr>audits := A\<rparr>) 1 (Some 2)) \<noteq> []"
    by (simp_all add: lookup_run V3_def V2_def remembered_def sc_active_def sc_goal_def list_runs_def dict_values_def
        sc_run_def run_is_active_def)
  with active_runs_bounded [OF r, of 1 2 sc_active] r show ?thesis
    by (auto intro!: exI [of _ "\<lparr>w_store = V3\<lparr>audits := A\<rparr>, w_gateway = sample_gateway\<rparr>"])
qed



text \<open>
  C11. The application refines the abstract goal machine: whatever the command, its arguments and the
  answers of the ports, the goals, runs and outcomes of the store stay or make one step of the machine.
\<close>

theorem commands_refine_goal_machine:
  assumes "core_ok (core (w_store w))" and "fresh_id (w_store w) (amb_ids amb 0)"
  shows "core (w_store (dispatch app amb ctx c w)) = core (w_store w)
     \<or> core_step (core (w_store w)) (core (w_store (dispatch app amb ctx c w)))"
  using dispatch_moves [OF assms] by (simp add: core_moves_def)

theorem commands_refine_goal_machine_witness:
  "core_step (core V1) (core (w_store (dispatch sc_app (sc_amb 2 3) (sc_ctx ''k2'') (Do_ActivateGoal \<lparr>ag_goal_id = 2, ag_reason = ''go''\<rparr>)
     \<lparr>w_store = V1, w_gateway = sample_gateway\<rparr>)))"
proof -
  let ?w = "\<lparr>w_store = V1, w_gateway = sample_gateway\<rparr>" and ?c = "Do_ActivateGoal \<lparr>ag_goal_id = 2, ag_reason = ''go''\<rparr>"
  obtain A where "reachable sc_app \<lparr>w_store = V1\<lparr>audits := A\<rparr>, w_gateway = sample_gateway\<rparr>"
    using reached_V1 [of sample_gateway] by (auto simp: reached_def)
  then have "core_ok (core (w_store ?w))" using reachable_ok by (fastforce simp: world_ok_def core_def)
  moreover have "fresh_id (w_store ?w) (amb_ids (sc_amb 2 3) 0)" by (simp add: fresh_defs)
  moreover obtain A' where "activate_goal (sc_amb 2 3) (sc_ctx ''k2'') \<lparr>ag_goal_id = 2, ag_reason = ''go''\<rparr> V1
      = (Inr sc_active, V2\<lparr>audits := A'\<rparr>)"
    using step2 [OF audits_ok_Nil] by (auto simp: V1_def remembered_def empty_store_def)
  moreover from this have "core (w_store (dispatch sc_app (sc_amb 2 3) (sc_ctx ''k2'') ?c ?w)) \<noteq> core V1"
    by (simp add: core_def V2_def V1_def remembered_def sc_active_def sc_goal_def)
  ultimately show ?thesis
    using commands_refine_goal_machine [of ?w "sc_amb 2 3" sc_app "sc_ctx ''k2''" ?c] by auto
qed

text \<open>
  C12. A run request is executed once per idempotency key. After its first success, and whatever commands
  run in between, the same request returns the same run and changes nothing, and the same key with another
  request digest is refused.
\<close>

theorem request_run_replay:
  assumes "reachable app w" and "request_run app amb ctx c (w_store w) = (Inr r, s1)"
    and "load_idempotency ctx (idem_key ''request_run'' ctx) (w_store w) = Inr None"
    and "fresh_id (w_store w) (amb_ids amb 0)" and "cc_request_digest ctx \<noteq> []"
    and "(app_step app)\<^sup>*\<^sup>* (w\<lparr>w_store := s1\<rparr>) w2"
  shows "(\<exists>r2. request_run app amb2 ctx c2 (w_store w2) = (Inr r2, w_store w2) \<and> run_id r2 = run_id r)
    \<and> (d \<noteq> cc_request_digest ctx \<longrightarrow> request_run app amb2 (ctx\<lparr>cc_request_digest := d\<rparr>) c2 (w_store w2)
         = (Inl (ConcurrencyConflict ''idempotency key was reused with a different request''), w_store w2))"
proof -
  let ?key = "idem_key ''request_run'' ctx" and ?t = "cc_tenant ctx"
  have b: "bound_to ?t ?key (run_id r) (cc_request_digest ctx) s1" "run_known ?t (run_id r) (core s1)"
      "require_any ctx OPERATORS = Inr ()"
    using request_run_bound [OF assms(2,5,3)] by auto
  have "app_step app w (w\<lparr>w_store := s1\<rparr>)"
    using app_command [of w amb app ctx "Do_RequestRun c"] assms(2,4) by (simp add: on_store_def)
  with reachable_ok [OF assms(1)] have ok: "world_ok (w\<lparr>w_store := s1\<rparr>)" by (rule app_step_ok [rotated])
  from app_steps_run_known [OF assms(6) ok, of ?t "run_id r"] b(2)
  have w2: "world_ok w2" "run_known ?t (run_id r) (core (w_store w2))" by simp_all
  from app_steps_bound [OF assms(6), of ?t ?key "run_id r"] b(1)
  have bound: "bound_to ?t ?key (run_id r) (cc_request_digest ctx) (w_store w2)" by simp
  from w2 obtain r2 where r2: "get_run (w_store w2) ?t (run_id r) = Inr r2"
    by (auto simp: run_known_def core_def get_defs table_simps)
  with w2(1) have "run_id r2 = run_id r" using get_run_keyed [of "w_store w2" ?t "run_id r" r2] by (simp add: world_ok_def)
  with r2 load_bound [OF bound] b(3) have "request_run app amb2 ctx c2 (w_store w2) = (Inr r2, w_store w2) \<and> run_id r2 = run_id r"
    by (simp add: request_run_def Let_def use_case_Inr replay_or_Inr)
  moreover have "load_idempotency (ctx\<lparr>cc_request_digest := d\<rparr>) ?key (w_store w2) =
      Inl (ConcurrencyConflict ''idempotency key was reused with a different request'')" if "d \<noteq> cc_request_digest ctx"
    using load_bound [of "ctx\<lparr>cc_request_digest := d\<rparr>" ?key "run_id r" _ "w_store w2"] bound that by simp
  ultimately show ?thesis using b(3)
    by (simp add: request_run_def Let_def use_case_def transaction_def replay_or_def bindT_def readT_def
        idem_key_def require_any_def)
qed

theorem request_run_replay_witness:
  "\<exists>A. \<exists>s. request_run sc_app (sc_amb 3 4) (sc_ctx ''k3'') \<lparr>rr_goal_id = 2\<rparr> (V2\<lparr>audits := A\<rparr>) = (Inr sc_run, s)
     \<and> (\<exists>r2. request_run sc_app (sc_amb 9 9) (sc_ctx ''k3'') \<lparr>rr_goal_id = 2\<rparr> s = (Inr r2, s) \<and> run_id r2 = 4)"
proof -
  obtain A where r: "reachable sc_app \<lparr>w_store = V2\<lparr>audits := A\<rparr>, w_gateway = sample_gateway\<rparr>"
    using reached_V2 [of sample_gateway] by (auto simp: reached_def)
  then have "audits_ok A" using reachable_ok by (fastforce simp: world_ok_def audit_ok_audits)
  then obtain A' where s: "request_run sc_app (sc_amb 3 4) (sc_ctx ''k3'') \<lparr>rr_goal_id = 2\<rparr> (V2\<lparr>audits := A\<rparr>)
      = (Inr sc_run, V3\<lparr>audits := A'\<rparr>)" using step3 by blast
  have l: "load_idempotency (sc_ctx ''k3'') (idem_key ''request_run'' (sc_ctx ''k3'')) (V2\<lparr>audits := A\<rparr>) = Inr None"
    by (simp add: load_idempotency_def get_idempotency_def idem_key_def V2_def V1_def remembered_def empty_store_def)
  have "\<exists>r2. request_run sc_app (sc_amb 9 9) (sc_ctx ''k3'') \<lparr>rr_goal_id = 2\<rparr> (V3\<lparr>audits := A'\<rparr>) = (Inr r2, V3\<lparr>audits := A'\<rparr>)
      \<and> run_id r2 = run_id sc_run"
    using request_run_replay [OF r, where amb = "sc_amb 3 4" and ctx = "sc_ctx ''k3''" and c = "\<lparr>rr_goal_id = 2\<rparr>"
        and r = sc_run and ?amb2.0 = "sc_amb 9 9" and ?c2.0 = "\<lparr>rr_goal_id = 2\<rparr>"
        and ?w2.0 = "\<lparr>w_store = V3\<lparr>audits := A'\<rparr>, w_gateway = sample_gateway\<rparr>"] s l
    by (simp add: fresh_defs)
  with s show ?thesis by (auto simp: sc_run_def)
qed




end
